(* ===== verification/Prelude.thy ===== *)
theory Prelude
  imports Complex_Main "HOL-Library.Product_Lexorder" "HOL-Library.Option_ord"
begin

text \<open>
  Shared vocabulary of the development: the base types of the marketplace backend
  (row identifiers, instants, money), tables as lists of rows in insertion order
  with lookup and replacement by primary key, the error values a request can end
  with, and the collections that carry the component proofs:
  \<^item> \<open>table_simps\<close>: how lookups see a replaced or an inserted row;
  \<^item> \<open>frame\<close>: which tables an operation leaves alone.
\<close>

named_theorems table_simps
named_theorems frame
named_theorems op_defs

section \<open>Base types\<close>

text \<open>
  A \<open>uuid\<close> is a natural number (only equality and freshness of identifiers are
  used), an instant is a number of microseconds (the resolution of a Python
  \<open>datetime\<close>), money is a number of paise (\<open>Numeric(10, 2)\<close> columns hold whole
  hundredths).
\<close>

type_synonym uuid = nat
type_synonym timestamp = int
type_synonym money = int

definition seconds :: "int \<Rightarrow> int" where
  "seconds n = n * 1000000"

definition minutes :: "int \<Rightarrow> int" where
  "minutes n = seconds (60 * n)"

text \<open>JSON-like values of the \<open>data\<close>, \<open>metadata\<close> and audit dictionaries.\<close>

datatype json =
    JStr string
  | JId uuid
  | JInt int
  | JMoney money
  | JTime timestamp
  | JBool bool
  | JRat rat
  | JNull

type_synonym dict = "(string \<times> json) list"

text \<open>\<open>dict.update\<close>: keys of the second dictionary win.\<close>

fun dict_set :: "string \<Rightarrow> json \<Rightarrow> dict \<Rightarrow> dict" where
  "dict_set k v [] = [(k, v)]"
| "dict_set k v ((k', v') # kvs) =
     (if k = k' then (k, v) # kvs else (k', v') # dict_set k v kvs)"

fun dict_update :: "dict \<Rightarrow> dict \<Rightarrow> dict" where
  "dict_update d [] = d"
| "dict_update d ((k, v) # kvs) = dict_update (dict_set k v d) kvs"

text \<open>
  What a request can raise: FastAPI's \<open>HTTPException\<close> with its status code and
  detail, and the Python exceptions the services raise.
\<close>

datatype exn =
    HTTPException nat string
  | ValueError string
  | RuntimeError string
  | PaymentProviderUnavailable string
  | PaymentProviderError string

type_synonym 'a res = "exn + 'a"

section \<open>Tables\<close>

definition get_row :: "('r \<Rightarrow> uuid) \<Rightarrow> 'r list \<Rightarrow> uuid \<Rightarrow> 'r option" where
  "get_row key t k = find (\<lambda>r. key r = k) t"

definition put_row :: "('r \<Rightarrow> uuid) \<Rightarrow> 'r \<Rightarrow> 'r list \<Rightarrow> 'r list" where
  "put_row key r t = map (\<lambda>x. if key x = key r then r else x) t"

definition has_key :: "('r \<Rightarrow> uuid) \<Rightarrow> 'r list \<Rightarrow> uuid \<Rightarrow> bool" where
  "has_key key t k \<longleftrightarrow> get_row key t k \<noteq> None"

lemma get_row_Nil [simp]: "get_row key [] k = None"
  by (simp add: get_row_def)

lemma get_row_Cons [simp]:
  "get_row key (r # t) k = (if key r = k then Some r else get_row key t k)"
  by (simp add: get_row_def)

lemma put_row_Nil [simp]: "put_row key r [] = []"
  by (simp add: put_row_def)

lemma put_row_Cons [simp]:
  "put_row key r (x # t) = (if key x = key r then r else x) # put_row key r t"
  by (simp add: put_row_def)

lemma get_row_key [dest]: "get_row key t k = Some r \<Longrightarrow> key r = k"
  by (induction t) (auto split: if_splits)

lemma get_row_in [dest]: "get_row key t k = Some r \<Longrightarrow> r \<in> set t"
  by (induction t) (auto split: if_splits)

lemma get_row_None: "get_row key t k = None \<longleftrightarrow> k \<notin> key ` set t"
  by (induction t) auto

lemma get_row_Some_iff:
  "distinct (map key t) \<Longrightarrow> get_row key t k = Some r \<longleftrightarrow> r \<in> set t \<and> key r = k"
  by (induction t) (auto simp: rev_image_eqI)

lemma get_row_append [table_simps]:
  "get_row key (t @ u) k =
     (case get_row key t k of Some r \<Rightarrow> Some r | None \<Rightarrow> get_row key u k)"
  by (induction t) auto

lemma get_put_row [table_simps]:
  "get_row key (put_row key r t) k =
     (if k = key r \<and> get_row key t k \<noteq> None then Some r else get_row key t k)"
  by (induction t) auto

lemma map_key_put_row [simp]: "map key (put_row key r t) = map key t"
  by (induction t) auto

lemma length_put_row [simp]: "length (put_row key r t) = length t"
  by (simp add: put_row_def)

lemma set_put_row_subset: "set (put_row key r t) \<subseteq> insert r (set t)"
  by (auto simp: put_row_def)

lemma set_put_row:
  "set (put_row key r t) =
     (if key r \<in> key ` set t then insert r {x \<in> set t. key x \<noteq> key r} else set t)"
  by (auto simp: put_row_def image_iff)

lemma in_put_row_cases:
  "x \<in> set (put_row key r t) \<Longrightarrow> x = r \<or> x \<in> set t \<and> key x \<noteq> key r"
  by (auto simp: put_row_def)

lemma in_put_rowE:
  assumes "x \<in> set (put_row key r t)"
  obtains "x = r" | "x \<in> set t" "key x \<noteq> key r"
  using in_put_row_cases [OF assms] by blast

lemma put_row_same: "(\<And>x. x \<in> set t \<Longrightarrow> key x = key r \<Longrightarrow> x = r) \<Longrightarrow> put_row key r t = t"
  by (induction t) auto

lemma put_row_get: "distinct (map key t) \<Longrightarrow> get_row key t k = Some r \<Longrightarrow> put_row key r t = t"
  by (auto simp: get_row_Some_iff distinct_map inj_on_def intro!: put_row_same)

lemma put_row_put_row [simp]:
  "key r = key r' \<Longrightarrow> put_row key r (put_row key r' t) = put_row key r t"
  by (induction t) auto

lemma map_put_row_field:
  "(\<And>x. x \<in> set t \<Longrightarrow> key x = key r \<Longrightarrow> f x = f r) \<Longrightarrow> map f (put_row key r t) = map f t"
  by (induction t) auto

lemma put_row_swap:
  "key r \<noteq> key r' \<Longrightarrow>
     put_row key r (put_row key r' t) = put_row key r' (put_row key r t)"
  by (induction t) auto

text \<open>The unique row with a given foreign key, as \<open>db.scalar(select(..).where(..))\<close> reads it.\<close>

lemma find_Some_in: "find P t = Some r \<Longrightarrow> r \<in> set t \<and> P r"
  by (induction t) (auto split: if_splits)

lemma find_None_iff_all: "find P t = None \<longleftrightarrow> (\<forall>x \<in> set t. \<not> P x)"
  by (induction t) auto

lemma find_append [table_simps]:
  "find P (t @ u) = (case find P t of Some r \<Rightarrow> Some r | None \<Rightarrow> find P u)"
  by (induction t) auto

section \<open>The row a descending order puts first\<close>

text \<open>
  \<open>ORDER BY f DESC LIMIT 1\<close>: the last row with the greatest value of \<open>f\<close>, in
  insertion order where values tie.
\<close>

fun latest_by :: "('r \<Rightarrow> 'k::linorder) \<Rightarrow> 'r list \<Rightarrow> 'r option" where
  "latest_by f [] = None"
| "latest_by f (r # t) =
     (case latest_by f t of
        None \<Rightarrow> Some r
      | Some m \<Rightarrow> if f m < f r then Some r else Some m)"

lemma latest_by_in: "latest_by f t = Some r \<Longrightarrow> r \<in> set t"
  by (induction t arbitrary: r) (auto split: option.splits if_splits)

lemma latest_by_None [simp]: "latest_by f t = None \<longleftrightarrow> t = []"
  by (cases t) (auto split: option.splits)

lemma latest_by_max: "latest_by f t = Some r \<Longrightarrow> x \<in> set t \<Longrightarrow> f x \<le> f r"
proof (induction t arbitrary: r x)
  case (Cons a t)
  show ?case
  proof (cases "latest_by f t")
    case None
    with Cons.prems show ?thesis by auto
  next
    case (Some m)
    then have le: "y \<in> set t \<Longrightarrow> f y \<le> f m" for y by (rule Cons.IH)
    from Some Cons.prems(1) have "r = (if f m < f a then a else m)" by auto
    with Cons.prems(2) le show ?thesis by (auto dest: order_trans le split: if_splits)
  qed
qed simp

lemma latest_by_snoc_max:
  "(\<And>x. x \<in> set t \<Longrightarrow> f x \<le> f r) \<Longrightarrow> latest_by f (t @ [r]) = Some r"
proof (induction t)
  case (Cons x t)
  then have "latest_by f (t @ [r]) = Some r" and "f x \<le> f r" by auto
  then show ?case by (simp add: leD)
qed simp

section \<open>Small facts\<close>

lemma Let_pair [simp]: "(let (a, b) = p in f a b) = f (fst p) (snd p)"
  by (simp add: Let_def split: prod.splits)

lemma seconds_mono [simp]: "seconds a < seconds b \<longleftrightarrow> a < b" "seconds a \<le> seconds b \<longleftrightarrow> a \<le> b"
  by (auto simp: seconds_def)

lemma seconds_pos [simp]: "0 < seconds n \<longleftrightarrow> 0 < n" "0 \<le> seconds n \<longleftrightarrow> 0 \<le> n"
  by (auto simp: seconds_def)

end
