(* ===== verification/Decimals.thy ===== *)
theory Decimals
  imports Prelude
begin

text \<open>
  Python's finite \<open>decimal.Decimal\<close> as an integer coefficient and a scale, with the
  operations the pricing and payment services use: addition, scaling by an integer,
  \<open>quantize\<close> to a number of places in the two rounding modes that occur
  (\<open>ROUND_HALF_EVEN\<close>, the default context's mode, and \<open>ROUND_HALF_UP\<close>) and \<open>int()\<close>.
  Coefficients are unbounded: amounts of a \<open>Numeric(10, 2)\<close> column stay far below the
  28 digits at which the default context would round a sum. Lemmas: the rounding error
  is at most half a unit in the last place, and on two-place amounts every operation
  is exact.
\<close>

datatype decimal = Dec (coeff: int) (scale: nat)

datatype rounding = ROUND_HALF_EVEN | ROUND_HALF_UP

definition dec_value :: "decimal \<Rightarrow> rat" where
  "dec_value x = of_int (coeff x) / 10 ^ scale x"

text \<open>\<open>paise n\<close> is the value of a \<open>Numeric(10, 2)\<close> column holding \<open>n\<close> hundredths.\<close>

definition paise :: "money \<Rightarrow> decimal" where
  "paise n = Dec n 2"

definition rescale :: "nat \<Rightarrow> decimal \<Rightarrow> int" where
  "rescale n x = coeff x * 10 ^ (n - scale x)"

definition dec_add :: "decimal \<Rightarrow> decimal \<Rightarrow> decimal" where
  "dec_add x y =
     (let n = max (scale x) (scale y) in Dec (rescale n x + rescale n y) n)"

definition dec_mul_int :: "decimal \<Rightarrow> int \<Rightarrow> decimal" where
  "dec_mul_int x k = Dec (coeff x * k) (scale x)"

fun round_div :: "rounding \<Rightarrow> int \<Rightarrow> int \<Rightarrow> int" where
  "round_div ROUND_HALF_EVEN a b =
     (let q = a div b; r = a mod b in
      if 2 * r < b then q
      else if b < 2 * r then q + 1
      else if even q then q else q + 1)"
| "round_div ROUND_HALF_UP a b = sgn a * ((2 * \<bar>a\<bar> + b) div (2 * b))"

definition quantize :: "rounding \<Rightarrow> nat \<Rightarrow> decimal \<Rightarrow> decimal" where
  "quantize mode n x =
     (if scale x \<le> n then Dec (rescale n x) n
      else Dec (round_div mode (coeff x) (10 ^ (scale x - n))) n)"

text \<open>\<open>int(d)\<close> truncates towards zero.\<close>

definition dec_to_int :: "decimal \<Rightarrow> int" where
  "dec_to_int x = sgn (coeff x) * (\<bar>coeff x\<bar> div 10 ^ scale x)"

section \<open>Rounding error\<close>

lemma round_half_even_error:
  assumes "0 < b"
  shows "\<bar>2 * (round_div ROUND_HALF_EVEN a b * b - a)\<bar> \<le> b"
proof -
  define q r where "q = a div b" and "r = a mod b"
  have a: "a = q * b + r" and r: "0 \<le> r" "r < b"
    using assms by (simp_all add: q_def r_def)
  have "round_div ROUND_HALF_EVEN a b * b - a = (if 2 * r < b then - r
     else if b < 2 * r then b - r else if even q then - r else b - r)"
    unfolding round_div.simps Let_def q_def [symmetric] r_def [symmetric]
    by (simp add: a algebra_simps)
  then show ?thesis using r by (auto split: if_splits)
qed

lemma round_half_up_nat_error:
  fixes a b :: int
  assumes "0 < b" and "0 \<le> a"
  shows "\<bar>2 * (((2 * a + b) div (2 * b)) * b - a)\<bar> \<le> b"
proof -
  define q where "q = (2 * a + b) div (2 * b)"
  have "2 * a + b = q * (2 * b) + (2 * a + b) mod (2 * b)"
    unfolding q_def by (rule div_mult_mod_eq [symmetric])
  moreover have "0 \<le> (2 * a + b) mod (2 * b)" and "(2 * a + b) mod (2 * b) < 2 * b"
    using assms by simp_all
  ultimately have "q * (2 * b) \<le> 2 * a + b" and "2 * a + b < q * (2 * b) + 2 * b"
    by linarith+
  then show ?thesis unfolding q_def [symmetric] by (simp add: algebra_simps abs_le_iff)
qed

lemma round_half_up_error:
  assumes "0 < b"
  shows "\<bar>2 * (round_div ROUND_HALF_UP a b * b - a)\<bar> \<le> b"
proof (cases "0 \<le> a")
  case True
  show ?thesis
  proof (cases "a = 0")
    case False
    with True round_half_up_nat_error [OF assms True] show ?thesis by (simp add: sgn_if)
  qed (use assms in simp)
next
  case False
  then have "0 \<le> - a" by simp
  define k where "k = (2 * (- a) + b) div (2 * b)"
  from round_half_up_nat_error [OF assms \<open>0 \<le> - a\<close>]
  have "\<bar>2 * (k * b - (- a))\<bar> \<le> b" unfolding k_def .
  moreover from False have "round_div ROUND_HALF_UP a b = - k"
    by (simp add: k_def)
  moreover have "2 * ((- k) * b - a) = - (2 * (k * b - (- a)))" by simp
  ultimately show ?thesis by (metis abs_minus_cancel)
qed

lemma round_div_error:
  assumes "0 < b"
  shows "\<bar>2 * (round_div mode a b * b - a)\<bar> \<le> b"
  using round_half_even_error [OF assms, of a] round_half_up_error [OF assms, of a]
  by (cases mode) simp_all

lemma quantize_scale [simp]: "scale (quantize mode n x) = n"
  by (simp add: quantize_def)

lemma quantize_exact:
  "scale x \<le> n \<Longrightarrow> dec_value (quantize mode n x) = dec_value x"
proof -
  assume le: "scale x \<le> n"
  then have "(10::rat) ^ n = 10 ^ (n - scale x) * 10 ^ scale x"
    by (simp add: power_add [symmetric])
  with le show ?thesis by (simp add: quantize_def dec_value_def rescale_def)
qed

text \<open>The quantised amount differs from the exact one by at most half a unit in the last place.\<close>

lemma quantize_error:
  "\<bar>dec_value (quantize mode n x) - dec_value x\<bar> \<le> 1 / 2 / 10 ^ n"
proof (cases "scale x \<le> n")
  case True
  then show ?thesis by (simp add: quantize_exact)
next
  case False
  define b :: int where "b = 10 ^ (scale x - n)"
  define r where "r = round_div mode (coeff x) b"
  have pos: "0 < b" by (simp add: b_def)
  have s: "(10::rat) ^ scale x = of_int b * 10 ^ n"
    using False by (simp add: b_def power_add [symmetric])
  have "\<bar>2 * (r * b - coeff x)\<bar> \<le> b" unfolding r_def using pos by (rule round_div_error)
  then have "(of_int \<bar>2 * (r * b - coeff x)\<bar> :: rat) \<le> of_int b" by (simp only: of_int_le_iff)
  then have e: "\<bar>2 * (of_int r * of_int b - of_int (coeff x) :: rat)\<bar> \<le> of_int b" by simp
  define y where "y = (of_int r * of_int b - of_int (coeff x) :: rat)"
  have "dec_value (quantize mode n x) - dec_value x = y / (of_int b * 10 ^ n)"
    using False pos
    by (simp add: y_def quantize_def dec_value_def s b_def [symmetric] r_def [symmetric]
        diff_divide_distrib)
  moreover have "2 * \<bar>y\<bar> \<le> of_int b" using e by (simp only: y_def abs_mult)
  then have "\<bar>y\<bar> / (of_int b * 10 ^ n) \<le> 1 / 2 / 10 ^ n"
    using pos by (simp add: field_simps)
  ultimately show ?thesis using pos by (simp add: abs_divide abs_mult)
qed

lemma quantize_idem [simp]: "quantize mode' n (quantize mode n x) = quantize mode n x"
  by (simp add: quantize_def rescale_def)

section \<open>Two-place amounts\<close>

lemma paise_simps [simp]: "coeff (paise n) = n" "scale (paise n) = 2"
  by (simp_all add: paise_def)

lemma quantize_paise [simp]: "quantize mode 2 (paise n) = paise n"
  by (simp add: quantize_def rescale_def paise_def)

lemma dec_add_paise [simp]: "dec_add (paise a) (paise b) = paise (a + b)"
  by (simp add: dec_add_def rescale_def Let_def paise_def)

lemma dec_mul_paise [simp]: "dec_mul_int (paise a) k = paise (a * k)"
  by (simp add: dec_mul_int_def paise_def)

lemma dec_to_int_hundredfold [simp]: "dec_to_int (Dec (c * 100) 2) = c"
  by (auto simp: dec_to_int_def abs_mult sgn_mult sgn_mult_abs)

section \<open>Printing an amount\<close>

text \<open>\<open>str(n)\<close> and \<open>str(Decimal)\<close> of a two-place amount, as the notification texts use them.\<close>

definition digit :: "nat \<Rightarrow> char" where
  "digit n = char_of (48 + n mod 10)"

fun show_nat :: "nat \<Rightarrow> string" where
  "show_nat n = (if n < 10 then [digit n] else show_nat (n div 10) @ [digit n])"

declare show_nat.simps [simp del]

text \<open>Printing is injective: reading the digits back gives the number.\<close>

definition read_nat :: "string \<Rightarrow> nat" where
  "read_nat cs = foldl (\<lambda>a c. 10 * a + (of_char c - 48)) 0 cs"

lemma read_show_nat: "read_nat (show_nat n) = n"
proof (induction n rule: show_nat.induct)
  case (1 n)
  show ?case
  proof (cases "n < 10")
    case True
    then show ?thesis by (subst show_nat.simps) (simp add: read_nat_def digit_def)
  next
    case False
    with 1 have "read_nat (show_nat (n div 10)) = n div 10" by simp
    with False show ?thesis by (subst show_nat.simps) (simp add: read_nat_def digit_def)
  qed
qed

lemma show_nat_inject [simp]: "show_nat m = show_nat n \<longleftrightarrow> m = n"
  by (metis read_show_nat)

definition show_money :: "money \<Rightarrow> string" where
  "show_money m =
     (let n = nat \<bar>m\<bar> in
      (if m < 0 then ''-'' else []) @ show_nat (n div 100) @ ''.''
        @ [digit (n div 10), digit n])"

text \<open>
  Evaluation prints from the integer: the simplifier computes with integer numerals in binary,
  with natural numbers in unary.
\<close>

function show_int :: "int \<Rightarrow> string" where
  "show_int n = (if n < 10 then [char_of (48 + n mod 10)]
     else show_int (n div 10) @ [char_of (48 + n mod 10)])"
  by pat_completeness auto
termination by (relation "measure nat") auto

declare show_int.simps [simp del]

lemma digit_of_int: "char_of (48 + int n mod 10) = digit n"
proof -
  have "48 + int n mod 10 = int (48 + n mod 10)" by (simp add: of_nat_mod)
  then show ?thesis unfolding digit_def by (simp only: char_of_nat)
qed

lemma show_nat_int [code]: "show_nat n = show_int (int n)"
proof (induction n rule: show_nat.induct)
  case (1 n)
  show ?case
  proof (cases "n < 10")
    case True
    then show ?thesis using digit_of_int [of n]
      by (subst show_nat.simps, subst show_int.simps) simp
  next
    case False
    with 1 show ?thesis
      by (subst show_nat.simps, subst show_int.simps) (simp add: digit_of_int of_nat_div)
  qed
qed

lemma show_money_int [code]:
  "show_money m =
     (let n = \<bar>m\<bar> in (if m < 0 then ''-'' else []) @ show_int (n div 100) @ ''.''
        @ [char_of (48 + n div 10 mod 10), char_of (48 + n mod 10)])"
proof -
  have "int (nat \<bar>m\<bar> div k) = \<bar>m\<bar> div int k" for k by (simp add: of_nat_div)
  then show ?thesis
    using show_nat_int [of "nat \<bar>m\<bar> div 100"] digit_of_int [of "nat \<bar>m\<bar> div 10"] digit_of_int [of "nat \<bar>m\<bar>"]
    by (simp add: show_money_def Let_def)
qed

end
