(* ===== verification/Models.thy ===== *)
theory Models
  imports Decimals
begin

text \<open>
  The data model: the enumerations and tables of \<open>app/models\<close>, one record per ORM class
  with its columns, and the database, a record of tables. Columns that only the database
  writes and nothing reads (most \<open>created_at\<close> and \<open>updated_at\<close>) are left out. Foreign
  keys are identifiers; every lookup says what happens when the row is missing.
  \<open>db_next_id\<close> is the supply of fresh UUIDs (\<open>uuid.uuid4\<close>, \<open>gen_random_uuid\<close>).
\<close>

section \<open>Enumerations\<close>

datatype order_status =
  PLACED | ACCEPTED | PREPARING | READY | OUT_FOR_DELIVERY | DELIVERED | RETURNED | CANCELLED

datatype payment_method = COD | UPI

datatype payment_status = PENDING | PAID | PAYMENT_FAILED | REFUND_PENDING | REFUNDED

datatype delivery_status = UNASSIGNED | ASSIGNED | PICKED_UP | DLV_DELIVERED | FAILED

datatype user_role = CUSTOMER | MERCHANT | DELIVERY | ADMIN

datatype merchant_status = MERCHANT_PENDING | APPROVED | SUSPENDED

text \<open>The \<open>.value\<close> of an enumeration member, stored in audit rows and API payloads.\<close>

fun order_status_value :: "order_status \<Rightarrow> string" where
  "order_status_value PLACED = ''placed''"
| "order_status_value ACCEPTED = ''accepted''"
| "order_status_value PREPARING = ''preparing''"
| "order_status_value READY = ''ready''"
| "order_status_value OUT_FOR_DELIVERY = ''out_for_delivery''"
| "order_status_value DELIVERED = ''delivered''"
| "order_status_value RETURNED = ''returned''"
| "order_status_value CANCELLED = ''cancelled''"

fun payment_method_value :: "payment_method \<Rightarrow> string" where
  "payment_method_value COD = ''cod''"
| "payment_method_value UPI = ''upi''"

fun payment_status_value :: "payment_status \<Rightarrow> string" where
  "payment_status_value PENDING = ''pending''"
| "payment_status_value PAID = ''paid''"
| "payment_status_value PAYMENT_FAILED = ''failed''"
| "payment_status_value REFUND_PENDING = ''refund_pending''"
| "payment_status_value REFUNDED = ''refunded''"

fun delivery_status_value :: "delivery_status \<Rightarrow> string" where
  "delivery_status_value UNASSIGNED = ''unassigned''"
| "delivery_status_value ASSIGNED = ''assigned''"
| "delivery_status_value PICKED_UP = ''picked_up''"
| "delivery_status_value DLV_DELIVERED = ''delivered''"
| "delivery_status_value FAILED = ''failed''"

fun user_role_value :: "user_role \<Rightarrow> string" where
  "user_role_value CUSTOMER = ''customer''"
| "user_role_value MERCHANT = ''merchant''"
| "user_role_value DELIVERY = ''delivery''"
| "user_role_value ADMIN = ''admin''"

section \<open>Rows: identity and geography\<close>

record user =
  usr_id :: uuid
  usr_phone :: "string option"
  usr_full_name :: "string option"
  usr_role :: user_role
  usr_is_super_admin :: bool
  usr_is_active :: bool
  usr_is_verified :: bool

record village =
  vil_id :: uuid
  vil_name :: string
  vil_taluka :: "string option"
  vil_district :: string
  vil_state :: string
  vil_pincode :: "string option"
  vil_latitude :: "rat option"
  vil_longitude :: "rat option"
  vil_is_active :: bool

record service_area =
  sva_id :: uuid
  sva_name :: string
  sva_hub_village_id :: uuid
  sva_radius_km :: rat
  sva_delivery_fee :: "money option"
  sva_is_active :: bool

record address =
  adr_id :: uuid
  adr_user_id :: uuid
  adr_village_id :: uuid
  adr_label :: string
  adr_recipient_name :: "string option"
  adr_phone :: "string option"
  adr_house_details :: "string option"
  adr_landmark :: string
  adr_directions :: "string option"
  adr_latitude :: "rat option"
  adr_longitude :: "rat option"
  adr_is_default :: bool
  adr_archived_at :: "timestamp option"

section \<open>Rows: commerce\<close>

record merchant =
  mer_id :: uuid
  mer_owner_user_id :: uuid
  mer_business_name :: string
  mer_status :: merchant_status
  mer_gstin :: "string option"

text \<open>A time of day is a number of microseconds after midnight.\<close>

record store =
  sto_id :: uuid
  sto_merchant_id :: uuid
  sto_village_id :: uuid
  sto_service_area_id :: "uuid option"
  sto_name :: string
  sto_slug :: string
  sto_description :: "string option"
  sto_phone :: "string option"
  sto_landmark :: "string option"
  sto_latitude :: "rat option"
  sto_longitude :: "rat option"
  sto_opens_at :: "int option"
  sto_closes_at :: "int option"
  sto_delivery_enabled :: bool
  sto_pickup_enabled :: bool
  sto_is_active :: bool

record category =
  cat_id :: uuid
  cat_name :: string
  cat_slug :: string
  cat_is_active :: bool

record product =
  pro_id :: uuid
  pro_category_id :: uuid
  pro_name :: string
  pro_description :: "string option"
  pro_brand :: "string option"
  pro_unit :: string
  pro_image_url :: "string option"
  pro_is_active :: bool

record store_product =
  lst_id :: uuid
  lst_store_id :: uuid
  lst_product_id :: uuid
  lst_price :: money
  lst_mrp :: "money option"
  lst_stock_quantity :: int
  lst_is_available :: bool

section \<open>Rows: carts, orders, deliveries\<close>

record cart =
  crt_id :: uuid
  crt_user_id :: uuid
  crt_store_id :: "uuid option"

record cart_item =
  cit_id :: uuid
  cit_cart_id :: uuid
  cit_store_product_id :: uuid
  cit_quantity :: int

record order =
  ord_id :: uuid
  ord_order_number :: string
  ord_user_id :: uuid
  ord_store_id :: uuid
  ord_address_id :: uuid
  ord_idempotency_key :: "string option"
  ord_stock_restored_at :: "timestamp option"
  ord_delivery_address :: dict
  ord_status :: order_status
  ord_payment_method :: payment_method
  ord_payment_status :: payment_status
  ord_subtotal :: money
  ord_delivery_fee :: money
  ord_total :: money
  ord_created_at :: timestamp

record order_item =
  oit_id :: uuid
  oit_order_id :: uuid
  oit_product_id :: uuid
  oit_product_name :: string
  oit_unit :: string
  oit_unit_price :: money
  oit_quantity :: int
  oit_line_total :: money

record delivery =
  dlv_id :: uuid
  dlv_order_id :: uuid
  dlv_delivery_partner_id :: "uuid option"
  dlv_status :: delivery_status
  dlv_assigned_at :: "timestamp option"
  dlv_picked_up_at :: "timestamp option"
  dlv_delivered_at :: "timestamp option"
  dlv_failed_at :: "timestamp option"
  dlv_failure_reason :: "string option"
  dlv_failure_notes :: "string option"
  dlv_failure_evidence_url :: "string option"
  dlv_updated_at :: timestamp

record delivery_proof =
  prf_id :: uuid
  prf_delivery_id :: uuid
  prf_otp_hash :: string
  prf_otp_expires_at :: timestamp
  prf_last_challenge_at :: "timestamp option"
  prf_challenge_count :: int
  prf_verification_attempt_count :: int
  prf_verification_locked_at :: "timestamp option"
  prf_verified_at :: "timestamp option"
  prf_evidence_url :: "string option"
  prf_recipient_name :: "string option"
  prf_notes :: "string option"
  prf_created_at :: timestamp
  prf_updated_at :: timestamp

record status_transition_event =
  evt_id :: uuid
  evt_entity_type :: string
  evt_entity_id :: uuid
  evt_order_id :: "uuid option"
  evt_delivery_id :: "uuid option"
  evt_actor_user_id :: "uuid option"
  evt_from_status :: string
  evt_to_status :: string
  evt_reason :: "string option"
  evt_metadata :: dict
  evt_created_at :: timestamp

section \<open>Rows: money\<close>

record payment_attempt =
  pat_id :: uuid
  pat_order_id :: uuid
  pat_provider :: string
  pat_provider_order_id :: "string option"
  pat_provider_payment_id :: "string option"
  pat_status :: string
  pat_amount :: money
  pat_currency :: string
  pat_created_at :: timestamp
  pat_updated_at :: timestamp

record payment_webhook_event =
  whk_id :: uuid
  whk_provider :: string
  whk_event_key :: string
  whk_event_type :: string
  whk_processed_at :: "timestamp option"

record settlement_entry =
  set_id :: uuid
  set_order_id :: uuid
  set_store_id :: uuid
  set_merchant_id :: uuid
  set_payment_method :: string
  set_gross_amount :: money
  set_merchant_amount :: money
  set_delivery_fee_amount :: money
  set_status :: string
  set_settled_at :: "timestamp option"
  set_voided_at :: "timestamp option"
  set_void_reason :: "string option"

record payment_refund =
  rfd_id :: uuid
  rfd_order_id :: uuid
  rfd_payment_attempt_id :: "uuid option"
  rfd_provider :: string
  rfd_provider_payment_id :: "string option"
  rfd_provider_refund_id :: "string option"
  rfd_amount :: money
  rfd_currency :: string
  rfd_status :: string
  rfd_reason :: string
  rfd_idempotency_key :: string
  rfd_provider_status :: "string option"
  rfd_failure_reason :: "string option"
  rfd_attempt_count :: int
  rfd_requested_at :: timestamp
  rfd_processed_at :: "timestamp option"
  rfd_failed_at :: "timestamp option"

record settlement_adjustment =
  adj_id :: uuid
  adj_settlement_entry_id :: uuid
  adj_order_id :: uuid
  adj_merchant_id :: uuid
  adj_amount :: money
  adj_reason :: string
  adj_status :: string
  adj_idempotency_key :: string

record cod_collection =
  cod_id :: uuid
  cod_delivery_id :: uuid
  cod_order_id :: uuid
  cod_amount :: money
  cod_collected_by_user_id :: "uuid option"
  cod_collected_at :: timestamp

section \<open>Rows: notifications, dispatch, governance\<close>

record device_registration =
  dev_id :: uuid
  dev_user_id :: uuid
  dev_token :: string
  dev_platform :: string
  dev_app_version :: "string option"
  dev_is_active :: bool

record notification_event =
  ntf_id :: uuid
  ntf_user_id :: uuid
  ntf_event_type :: string
  ntf_title :: string
  ntf_body :: string
  ntf_data :: dict
  ntf_status :: string
  ntf_attempt_count :: int
  ntf_next_attempt_at :: "timestamp option"
  ntf_last_error :: "string option"
  ntf_created_at :: timestamp
  ntf_sent_at :: "timestamp option"

record rider_presence =
  rpr_rider_id :: uuid
  rpr_latitude :: rat
  rpr_longitude :: rat
  rpr_is_online :: bool
  rpr_last_seen_at :: timestamp

record administrative_audit_event =
  aud_id :: uuid
  aud_actor_user_id :: uuid
  aud_action :: string
  aud_capability :: string
  aud_resource_type :: string
  aud_resource_id :: uuid
  aud_previous_state :: dict
  aud_resulting_state :: dict
  aud_reason :: "string option"
  aud_request_id :: string

section \<open>The database\<close>

record database =
  users :: "user list"
  villages :: "village list"
  service_areas :: "service_area list"
  addresses :: "address list"
  merchants :: "merchant list"
  stores :: "store list"
  categories :: "category list"
  products :: "product list"
  store_products :: "store_product list"
  carts :: "cart list"
  cart_items :: "cart_item list"
  orders :: "order list"
  order_items :: "order_item list"
  deliveries :: "delivery list"
  delivery_proofs :: "delivery_proof list"
  status_transition_events :: "status_transition_event list"
  payment_attempts :: "payment_attempt list"
  payment_webhook_events :: "payment_webhook_event list"
  settlement_entries :: "settlement_entry list"
  payment_refunds :: "payment_refund list"
  settlement_adjustments :: "settlement_adjustment list"
  cod_collections :: "cod_collection list"
  device_registrations :: "device_registration list"
  notification_events :: "notification_event list"
  rider_presences :: "rider_presence list"
  administrative_audit_events :: "administrative_audit_event list"
  db_next_id :: uuid

text \<open>
  The settings the modelled code reads (\<open>core/config.py\<close>). The Razorpay and FCM
  credentials matter only through being set or not.
\<close>

record settings =
  cfg_app_env :: string
  cfg_default_delivery_fee :: decimal
  cfg_razorpay_key_id :: "string option"
  cfg_razorpay_key_secret :: "string option"
  cfg_razorpay_webhook_secret :: "string option"
  cfg_fcm_project_id :: "string option"

text \<open>
  A handler maps the database to its result (an exception or a value) and the database it
  leaves committed. On a path that raises, the session closes without a commit, so the
  database is the one of the last commit before the raise.
\<close>

type_synonym ('a, 'm) handler = "'m database_scheme \<Rightarrow> 'a res \<times> 'm database_scheme"

definition raise_http :: "nat \<Rightarrow> string \<Rightarrow> 'd \<Rightarrow> 'a res \<times> 'd" where
  "raise_http code detail d = (Inl (HTTPException code detail), d)"

text \<open>A service call whose exception ends the request: the work since the last commit is lost.\<close>

definition attempt :: "'a res \<Rightarrow> 'd \<Rightarrow> ('a \<Rightarrow> 'b res \<times> 'd) \<Rightarrow> 'b res \<times> 'd" where
  "attempt r d k = (case r of Inl e \<Rightarrow> (Inl e, d) | Inr x \<Rightarrow> k x)"

lemma attempt_simps [simp]:
  "attempt (Inl e) d k = (Inl e, d)"
  "attempt (Inr x) d k = k x"
  by (simp_all add: attempt_def)

text \<open>Sequencing of service calls inside one request: the first exception ends it.\<close>

definition res_bind :: "'a res \<Rightarrow> ('a \<Rightarrow> 'b res) \<Rightarrow> 'b res" where
  "res_bind r k = (case r of Inl e \<Rightarrow> Inl e | Inr x \<Rightarrow> k x)"

lemma res_bind_simps [simp]:
  "res_bind (Inl e) k = Inl e"
  "res_bind (Inr x) k = k x"
  by (simp_all add: res_bind_def)

lemma res_bind_Inr: "res_bind r k = Inr y \<longleftrightarrow> (\<exists>x. r = Inr x \<and> k x = Inr y)"
  by (cases r) auto

lemma attempt_split:
  "P (attempt r d k) \<longleftrightarrow> (\<forall>e. r = Inl e \<longrightarrow> P (Inl e, d)) \<and> (\<forall>x. r = Inr x \<longrightarrow> P (k x))"
  by (cases r) auto

lemma attempt_split_asm:
  "P (attempt r d k) \<longleftrightarrow> \<not> ((\<exists>e. r = Inl e \<and> \<not> P (Inl e, d)) \<or> (\<exists>x. r = Inr x \<and> \<not> P (k x)))"
  by (cases r) auto

lemma snd_raise_http [simp]: "snd (raise_http c m d) = d"
  by (simp add: raise_http_def)

text \<open>The outcome of a request is an exception or the value and the state of the continuation.\<close>

lemma attempt_cases:
  obtains (error) e where "r = Inl e" "attempt r d k = (Inl e, d)"
    | (ok) x where "r = Inr x" "attempt r d k = k x"
  by (cases r) auto

section \<open>Primary-key lookups\<close>

text \<open>\<open>db.get(Model, id)\<close> and \<open>select(Model).where(Model.id == id)\<close>.\<close>

definition get_user :: "'m database_scheme \<Rightarrow> uuid \<Rightarrow> user option" where
  "get_user d = get_row usr_id (users d)"

definition get_village :: "'m database_scheme \<Rightarrow> uuid \<Rightarrow> village option" where
  "get_village d = get_row vil_id (villages d)"

definition get_service_area :: "'m database_scheme \<Rightarrow> uuid \<Rightarrow> service_area option" where
  "get_service_area d = get_row sva_id (service_areas d)"

definition get_address :: "'m database_scheme \<Rightarrow> uuid \<Rightarrow> address option" where
  "get_address d = get_row adr_id (addresses d)"

definition get_merchant :: "'m database_scheme \<Rightarrow> uuid \<Rightarrow> merchant option" where
  "get_merchant d = get_row mer_id (merchants d)"

definition get_store :: "'m database_scheme \<Rightarrow> uuid \<Rightarrow> store option" where
  "get_store d = get_row sto_id (stores d)"

definition get_product :: "'m database_scheme \<Rightarrow> uuid \<Rightarrow> product option" where
  "get_product d = get_row pro_id (products d)"

definition get_listing :: "'m database_scheme \<Rightarrow> uuid \<Rightarrow> store_product option" where
  "get_listing d = get_row lst_id (store_products d)"

definition get_order :: "'m database_scheme \<Rightarrow> uuid \<Rightarrow> order option" where
  "get_order d = get_row ord_id (orders d)"

definition get_delivery :: "'m database_scheme \<Rightarrow> uuid \<Rightarrow> delivery option" where
  "get_delivery d = get_row dlv_id (deliveries d)"

definition get_attempt :: "'m database_scheme \<Rightarrow> uuid \<Rightarrow> payment_attempt option" where
  "get_attempt d = get_row pat_id (payment_attempts d)"

definition get_refund :: "'m database_scheme \<Rightarrow> uuid \<Rightarrow> payment_refund option" where
  "get_refund d = get_row rfd_id (payment_refunds d)"

text \<open>The merchant owned by a user, the delivery of an order, the proof and the cash of a delivery.\<close>

definition merchant_of_owner :: "'m database_scheme \<Rightarrow> uuid \<Rightarrow> merchant option" where
  "merchant_of_owner d uid = find (\<lambda>m. mer_owner_user_id m = uid) (merchants d)"

definition delivery_of_order :: "'m database_scheme \<Rightarrow> uuid \<Rightarrow> delivery option" where
  "delivery_of_order d oid = find (\<lambda>x. dlv_order_id x = oid) (deliveries d)"

definition proof_of_delivery :: "'m database_scheme \<Rightarrow> uuid \<Rightarrow> delivery_proof option" where
  "proof_of_delivery d did = find (\<lambda>p. prf_delivery_id p = did) (delivery_proofs d)"

definition cod_of_delivery :: "'m database_scheme \<Rightarrow> uuid \<Rightarrow> cod_collection option" where
  "cod_of_delivery d did = find (\<lambda>c. cod_delivery_id c = did) (cod_collections d)"

definition items_of_order :: "'m database_scheme \<Rightarrow> uuid \<Rightarrow> order_item list" where
  "items_of_order d oid = filter (\<lambda>i. oit_order_id i = oid) (order_items d)"

lemmas lookup_defs =
  get_user_def get_village_def get_service_area_def get_address_def get_merchant_def
  get_store_def get_product_def get_listing_def get_order_def get_delivery_def
  get_attempt_def get_refund_def merchant_of_owner_def delivery_of_order_def
  proof_of_delivery_def cod_of_delivery_def items_of_order_def

text \<open>\<open>db.refresh(row)\<close> at the end of a request: the committed row is what is returned.\<close>

definition refresh :: "('d \<Rightarrow> uuid \<Rightarrow> 'r option) \<Rightarrow> uuid \<Rightarrow> 'd \<Rightarrow> 'r res \<times> 'd" where
  "refresh get i d =
     (case get d i of
        None \<Rightarrow> (Inl (RuntimeError ''Could not refresh instance''), d)
      | Some r \<Rightarrow> (Inr r, d))"

lemma snd_refresh [simp]: "snd (refresh get i d) = d"
  by (simp add: refresh_def split: option.split)

lemma refresh_Inr [simp]: "refresh get i d = (Inr r, d') \<longleftrightarrow> get d i = Some r \<and> d' = d"
  by (auto simp: refresh_def split: option.split)

lemma get_order_id [dest]: "get_order d i = Some o1 \<Longrightarrow> ord_id o1 = i"
  by (auto simp: get_order_def)

lemma get_delivery_id [dest]: "get_delivery d i = Some x \<Longrightarrow> dlv_id x = i"
  by (auto simp: get_delivery_def)

lemma get_user_id [dest]: "get_user d i = Some u \<Longrightarrow> usr_id u = i"
  by (auto simp: get_user_def)

lemma get_listing_id [dest]: "get_listing d i = Some l \<Longrightarrow> lst_id l = i"
  by (auto simp: get_listing_def)

lemma get_attempt_id [dest]: "get_attempt d i = Some a \<Longrightarrow> pat_id a = i"
  by (auto simp: get_attempt_def)

lemma get_refund_id [dest]: "get_refund d i = Some r \<Longrightarrow> rfd_id r = i"
  by (auto simp: get_refund_def)

end
