(* ===== verification/Access.thy ===== *)
theory Access
  imports Models
begin

text \<open>
  Authorisation and the two append-only outboxes every handler writes to:
  \<open>core/capabilities.py\<close> (capabilities by role), \<open>api/deps.py\<close> (the request guards),
  \<open>services/governance_audit.py\<close> (administrative audit rows) and
  \<open>services/notifications.py\<close> (the notification outbox).
\<close>

section \<open>Capabilities\<close>

datatype capability =
    USER_READ | USER_MANAGE | ADMIN_MANAGE | MERCHANT_READ | MERCHANT_MANAGE
  | CATALOG_MANAGE | GEOGRAPHY_MANAGE | ORDER_READ | ORDER_OPERATIONS | RIDER_READ
  | RIDER_OPERATIONS | SUPPORT_MANAGE | MEDIA_MODERATE | NOTIFICATION_OPERATIONS
  | PAYMENT_READ | REFUND_READ | REFUND_WRITE | SETTLEMENT_READ | SETTLEMENT_WRITE
  | DELIVERY_FINANCIAL_WRITE | AUDIT_READ

fun capability_value :: "capability \<Rightarrow> string" where
  "capability_value USER_READ = ''user.read''"
| "capability_value USER_MANAGE = ''user.manage''"
| "capability_value ADMIN_MANAGE = ''admin.manage''"
| "capability_value MERCHANT_READ = ''merchant.read''"
| "capability_value MERCHANT_MANAGE = ''merchant.manage''"
| "capability_value CATALOG_MANAGE = ''catalog.manage''"
| "capability_value GEOGRAPHY_MANAGE = ''geography.manage''"
| "capability_value ORDER_READ = ''order.read''"
| "capability_value ORDER_OPERATIONS = ''order.operations''"
| "capability_value RIDER_READ = ''rider.read''"
| "capability_value RIDER_OPERATIONS = ''rider.operations''"
| "capability_value SUPPORT_MANAGE = ''support.manage''"
| "capability_value MEDIA_MODERATE = ''media.moderate''"
| "capability_value NOTIFICATION_OPERATIONS = ''notification.operations''"
| "capability_value PAYMENT_READ = ''payment.read''"
| "capability_value REFUND_READ = ''refund.read''"
| "capability_value REFUND_WRITE = ''refund.write''"
| "capability_value SETTLEMENT_READ = ''settlement.read''"
| "capability_value SETTLEMENT_WRITE = ''settlement.write''"
| "capability_value DELIVERY_FINANCIAL_WRITE = ''delivery_financial.write''"
| "capability_value AUDIT_READ = ''audit.read''"

definition ADMIN_CAPABILITIES :: "capability list" where
  "ADMIN_CAPABILITIES =
     [USER_READ, MERCHANT_READ, MERCHANT_MANAGE, CATALOG_MANAGE, GEOGRAPHY_MANAGE,
      ORDER_READ, ORDER_OPERATIONS, RIDER_READ, RIDER_OPERATIONS, SUPPORT_MANAGE,
      MEDIA_MODERATE, NOTIFICATION_OPERATIONS]"

definition SUPER_ADMIN_CAPABILITIES :: "capability list" where
  "SUPER_ADMIN_CAPABILITIES =
     ADMIN_CAPABILITIES @
     [ADMIN_MANAGE, PAYMENT_READ, REFUND_READ, REFUND_WRITE, SETTLEMENT_WRITE,
      SETTLEMENT_READ, DELIVERY_FINANCIAL_WRITE, AUDIT_READ]"

definition capabilities_for :: "user \<Rightarrow> capability list" where
  "capabilities_for u =
     (if usr_role u \<noteq> ADMIN then []
      else if usr_is_super_admin u then SUPER_ADMIN_CAPABILITIES else ADMIN_CAPABILITIES)"

definition has_capability :: "user \<Rightarrow> capability \<Rightarrow> bool" where
  "has_capability u c \<longleftrightarrow> c \<in> set (capabilities_for u)"

text \<open>The capabilities that write money state, directly or indirectly.\<close>

definition financial_capability :: "capability \<Rightarrow> bool" where
  "financial_capability c \<longleftrightarrow> c \<in> {REFUND_WRITE, SETTLEMENT_WRITE, DELIVERY_FINANCIAL_WRITE}"

section \<open>Request guards\<close>

text \<open>
  \<open>get_current_user\<close>: the bearer credentials are decoded by \<open>decode_access_token\<close> (the
  JWT library, a parameter; \<open>None\<close> is an invalid or expired token or a subject that is
  no UUID).
\<close>

definition get_current_user ::
  "(string \<Rightarrow> uuid option) \<Rightarrow> 'm database_scheme \<Rightarrow> string option \<Rightarrow> user res" where
  "get_current_user decode d credentials =
     (case credentials of
        None \<Rightarrow> Inl (HTTPException 401 ''Not authenticated'')
      | Some token \<Rightarrow>
          (case decode token of
             None \<Rightarrow> Inl (HTTPException 401 ''Invalid or expired token'')
           | Some uid \<Rightarrow>
               (case get_user d uid of
                  None \<Rightarrow> Inl (HTTPException 401 ''User not available'')
                | Some u \<Rightarrow>
                    if \<not> usr_is_active u then Inl (HTTPException 401 ''User not available'')
                    else Inr u)))"

definition require_roles :: "user_role list \<Rightarrow> user \<Rightarrow> user res" where
  "require_roles roles u =
     (if usr_role u \<notin> set roles then Inl (HTTPException 403 ''Insufficient permissions'')
      else Inr u)"

definition ensure_capability :: "user \<Rightarrow> capability \<Rightarrow> user res" where
  "ensure_capability u c =
     (if \<not> has_capability u c
      then Inl (HTTPException 403 (''Missing required capability: '' @ capability_value c))
      else Inr u)"

definition require_capability :: "capability \<Rightarrow> user \<Rightarrow> user res" where
  "require_capability c u = ensure_capability u c"

lemma require_roles_Inr [simp]: "require_roles rs u = Inr v \<longleftrightarrow> usr_role u \<in> set rs \<and> v = u"
  by (auto simp: require_roles_def)

lemma ensure_capability_Inr [simp]: "ensure_capability u c = Inr v \<longleftrightarrow> has_capability u c \<and> v = u"
  by (auto simp: ensure_capability_def)

lemma require_capability_Inr [simp]: "require_capability c u = Inr v \<longleftrightarrow> has_capability u c \<and> v = u"
  by (simp add: require_capability_def)

lemma has_capability_admin: "has_capability u c \<Longrightarrow> usr_role u = ADMIN"
  by (auto simp: has_capability_def capabilities_for_def split: if_splits)

lemma financial_needs_super:
  "has_capability u c \<Longrightarrow> financial_capability c \<Longrightarrow> usr_is_super_admin u"
  by (auto simp: has_capability_def capabilities_for_def financial_capability_def
      ADMIN_CAPABILITIES_def split: if_splits)

section \<open>The notification outbox\<close>

definition enqueue_notification ::
  "timestamp \<Rightarrow> uuid \<Rightarrow> string \<Rightarrow> string \<Rightarrow> string \<Rightarrow> dict \<Rightarrow>
     'm database_scheme \<Rightarrow> 'm database_scheme" where
  "enqueue_notification now uid event_type title body data d =
     d\<lparr>notification_events := notification_events d @
         [\<lparr>ntf_id = db_next_id d, ntf_user_id = uid, ntf_event_type = event_type,
           ntf_title = title, ntf_body = body, ntf_data = data, ntf_status = ''pending'',
           ntf_attempt_count = 0, ntf_next_attempt_at = None, ntf_last_error = None,
           ntf_created_at = now, ntf_sent_at = None\<rparr>],
       db_next_id := Suc (db_next_id d)\<rparr>"

section \<open>Administrative audit\<close>

definition record_admin_action ::
  "string \<Rightarrow> user \<Rightarrow> string \<Rightarrow> capability \<Rightarrow> string \<Rightarrow> uuid \<Rightarrow> dict \<Rightarrow> dict \<Rightarrow> string option \<Rightarrow>
     'm database_scheme \<Rightarrow> 'm database_scheme res" where
  "record_admin_action req_id actor action cap resource_type resource_id previous resulting reason d =
     (if usr_role actor \<noteq> ADMIN
      then Inl (ValueError ''Administrative audit actors must be administrators'')
      else Inr (d\<lparr>administrative_audit_events := administrative_audit_events d @
         [\<lparr>aud_id = db_next_id d, aud_actor_user_id = usr_id actor, aud_action = take 120 action,
           aud_capability = capability_value cap, aud_resource_type = take 80 resource_type,
           aud_resource_id = resource_id, aud_previous_state = previous,
           aud_resulting_state = resulting, aud_reason = reason,
           aud_request_id = take 160 req_id\<rparr>],
       db_next_id := Suc (db_next_id d)\<rparr>))"

text \<open>
  What the two outboxes leave alone: every other table. \<open>same_core\<close> collects the tables
  that hold orders, deliveries, stock and money, so that one fact covers both writers.
\<close>

definition core_of :: "'m database_scheme \<Rightarrow> 'm database_scheme" where
  "core_of d = d\<lparr>notification_events := [], administrative_audit_events := [], db_next_id := 0\<rparr>"

definition same_core :: "'m database_scheme \<Rightarrow> 'm database_scheme \<Rightarrow> bool" where
  "same_core d d' \<longleftrightarrow> core_of d' = core_of d \<and> db_next_id d \<le> db_next_id d'"

lemma same_core_refl [simp, intro]: "same_core d d"
  by (simp add: same_core_def)

lemma same_core_trans [trans]: "same_core a b \<Longrightarrow> same_core b c \<Longrightarrow> same_core a c"
  by (simp add: same_core_def)

lemma same_core_enqueue [simp, intro]: "same_core d (enqueue_notification now u e t b x d)"
  by (simp add: same_core_def core_of_def enqueue_notification_def)

lemma same_core_admin:
  "record_admin_action rid a act cap rt ri p r why d = Inr d' \<Longrightarrow> same_core d d'"
  by (auto simp: same_core_def core_of_def record_admin_action_def split: if_splits)

lemma core_of_tables [simp]:
  "users (core_of d) = users d" "villages (core_of d) = villages d"
  "service_areas (core_of d) = service_areas d" "addresses (core_of d) = addresses d"
  "merchants (core_of d) = merchants d" "stores (core_of d) = stores d"
  "products (core_of d) = products d" "store_products (core_of d) = store_products d"
  "carts (core_of d) = carts d" "cart_items (core_of d) = cart_items d"
  "orders (core_of d) = orders d" "order_items (core_of d) = order_items d"
  "deliveries (core_of d) = deliveries d" "delivery_proofs (core_of d) = delivery_proofs d"
  "status_transition_events (core_of d) = status_transition_events d"
  "payment_attempts (core_of d) = payment_attempts d"
  "payment_webhook_events (core_of d) = payment_webhook_events d"
  "settlement_entries (core_of d) = settlement_entries d"
  "payment_refunds (core_of d) = payment_refunds d"
  "settlement_adjustments (core_of d) = settlement_adjustments d"
  "cod_collections (core_of d) = cod_collections d"
  "rider_presences (core_of d) = rider_presences d"
  "device_registrations (core_of d) = device_registrations d"
  by (simp_all add: core_of_def)

lemma same_core_tables [frame]:
  assumes "same_core d d'"
  shows "users d' = users d" "villages d' = villages d" "service_areas d' = service_areas d"
    "addresses d' = addresses d" "merchants d' = merchants d" "stores d' = stores d"
    "products d' = products d" "store_products d' = store_products d" "carts d' = carts d"
    "cart_items d' = cart_items d" "orders d' = orders d" "order_items d' = order_items d"
    "deliveries d' = deliveries d" "delivery_proofs d' = delivery_proofs d"
    "status_transition_events d' = status_transition_events d"
    "payment_attempts d' = payment_attempts d" "payment_webhook_events d' = payment_webhook_events d"
    "settlement_entries d' = settlement_entries d" "payment_refunds d' = payment_refunds d"
    "settlement_adjustments d' = settlement_adjustments d" "cod_collections d' = cod_collections d"
    "rider_presences d' = rider_presences d" "device_registrations d' = device_registrations d"
  using assms unfolding same_core_def by (metis core_of_tables)+

lemma record_admin_action_admin:
  "usr_role a = ADMIN \<Longrightarrow> \<exists>d'. record_admin_action rid a act cap rt ri p r why d = Inr d'"
  by (simp add: record_admin_action_def)

lemma record_admin_action_Inl [simp]:
  "record_admin_action rid a act cap rt ri p r why d = Inl e \<longleftrightarrow>
     usr_role a \<noteq> ADMIN \<and> e = ValueError ''Administrative audit actors must be administrators''"
  by (auto simp: record_admin_action_def)

end
