(* ===== verification/Interfaces.thy ===== *)
theory Interfaces
  imports Prelude
begin

text \<open>
  The contracts several components share, as locales. Each is interpreted on the model's
  own definitions in the theory of the component that provides it:
  \<^item> \<open>row_store\<close>: reading and flushing the rows of one table (orders, deliveries,
    listings, refunds, settlements, proofs, payment attempts, notifications);
  \<^item> \<open>lifecycle\<close> and \<open>ranked_lifecycle\<close>: a table of permitted status transitions, and
    one whose transitions always make progress (order and delivery status);
  \<^item> \<open>once_ledger\<close>: an obligation recorded at most once per key (settlement entries,
    refunds);
  \<^item> \<open>retry_queue\<close>: work items whose failures are counted and bounded (refund dispatch,
    push notifications).
\<close>

section \<open>One table\<close>

text \<open>
  A component reads a table with \<open>get\<close> and flushes a changed row with \<open>put\<close>. The
  provider promises that a lookup after a flush sees the flushed row (with the columns
  the flush itself stamps) under its key if the key existed, and everything else as before.
\<close>

locale row_store =
  fixes get :: "'d \<Rightarrow> uuid \<Rightarrow> 'r option"
    and put :: "'r \<Rightarrow> 'd \<Rightarrow> 'd"
    and key :: "'r \<Rightarrow> uuid"
    and stamp :: "'r \<Rightarrow> 'r"
  assumes get_key: "get d k = Some r \<Longrightarrow> key r = k"
    and get_put: "get (put r d) k =
      (if k = key r \<and> get d k \<noteq> None then Some (stamp r) else get d k)"
begin

lemma get_put_same: "get d (key r) = Some r0 \<Longrightarrow> get (put r d) (key r) = Some (stamp r)"
  by (simp add: get_put)

lemma get_put_other: "k \<noteq> key r \<Longrightarrow> get (put r d) k = get d k"
  by (simp add: get_put)

lemma get_put_None: "get (put r d) k = None \<longleftrightarrow> get d k = None"
  by (auto simp: get_put)

text \<open>Flushing a list of rows with distinct keys: each row is found afterwards.\<close>

lemma get_fold_put_other:
  "k \<notin> key ` set rs \<Longrightarrow> get (fold put rs d) k = get d k"
  by (induction rs arbitrary: d) (auto simp: get_put)

lemma get_fold_put:
  assumes "distinct (map key rs)" and "r \<in> set rs" and "get d (key r) \<noteq> None"
  shows "get (fold put rs d) (key r) = Some (stamp r)"
  using assms
proof (induction rs arbitrary: d)
  case (Cons x rs)
  show ?case
  proof (cases "r = x")
    case True
    with Cons.prems show ?thesis
      by (auto simp: get_fold_put_other get_put)
  next
    case False
    with Cons.prems have "r \<in> set rs" and "get (put x d) (key r) \<noteq> None"
      by (auto simp: get_put)
    with Cons.IH [of "put x d"] Cons.prems(1) show ?thesis by simp
  qed
qed simp

end

section \<open>Status machines\<close>

locale lifecycle =
  fixes can :: "'s \<Rightarrow> 's \<Rightarrow> bool"
    and terminal :: "'s \<Rightarrow> bool"
  assumes terminal_stuck: "terminal s \<Longrightarrow> \<not> can s t"
    and progress: "\<not> terminal s \<Longrightarrow> \<exists>t. can s t"
begin

lemma terminal_forever: "rtranclp can s t \<Longrightarrow> terminal s \<Longrightarrow> t = s"
  by (induction rule: converse_rtranclp_induct) (auto dest: terminal_stuck)

end

locale ranked_lifecycle = lifecycle can terminal
  for can :: "'s \<Rightarrow> 's \<Rightarrow> bool" and terminal :: "'s \<Rightarrow> bool" +
  fixes rank :: "'s \<Rightarrow> nat"
    and top :: nat
  assumes rank_step: "can s t \<Longrightarrow> rank s < rank t"
    and rank_top: "rank s \<le> top"
begin

lemma rank_path: "rtranclp can s t \<Longrightarrow> rank s \<le> rank t"
  by (induction rule: rtranclp_induct) (auto dest: rank_step)

lemma no_return: "can s t \<Longrightarrow> \<not> rtranclp can t s"
  using rank_step rank_path by (meson leD)

text \<open>A run of \<open>n\<close> transitions raises the rank by at least \<open>n\<close>, so runs are bounded.\<close>

lemma run_bounded: "(can ^^ n) s t \<Longrightarrow> rank s + n \<le> rank t"
proof (induction n arbitrary: t)
  case (Suc n)
  then obtain u where "(can ^^ n) s u" and "can u t" by auto
  with Suc.IH [of u] rank_step [of u t] show ?case by linarith
qed simp

lemma run_length: "(can ^^ n) s t \<Longrightarrow> n \<le> top - rank s"
  using run_bounded [of n s t] rank_top [of t] by linarith

lemma reaches_terminal: "\<exists>t. rtranclp can s t \<and> terminal t"
proof (induction "top - rank s" arbitrary: s rule: less_induct)
  case less
  show ?case
  proof (cases "terminal s")
    case False
    then obtain u where u: "can s u" using progress by blast
    then have "top - rank u < top - rank s"
      using rank_step [OF u] rank_top [of u] by linarith
    then obtain t where "rtranclp can u t" and "terminal t" using less by blast
    with u show ?thesis by (meson converse_rtranclp_into_rtranclp)
  qed blast
qed

end

section \<open>Obligations recorded once\<close>

text \<open>
  \<open>ensure k\<close> records the obligation \<open>k\<close> if it is owed and not recorded yet; a recorded
  one is never recorded again, and no other obligation is touched.
\<close>

locale once_ledger =
  fixes recorded :: "'d \<Rightarrow> 'k \<Rightarrow> 'r option"
    and ensure :: "'k \<Rightarrow> 'd \<Rightarrow> 'd"
    and rows_of :: "'d \<Rightarrow> 'k \<Rightarrow> 'r list"
  assumes existing_kept: "recorded d k \<noteq> None \<Longrightarrow> ensure k d = d"
    and once_or_not: "recorded d k = None \<Longrightarrow> ensure k d = d \<or> recorded (ensure k d) k \<noteq> None"
    and others_kept: "k' \<noteq> k \<Longrightarrow> rows_of (ensure k d) k' = rows_of d k'"
    and rows_grow: "length (rows_of (ensure k d) k) \<le> Suc (length (rows_of d k))"
    and recorded_rows: "recorded d k = None \<longleftrightarrow> rows_of d k = []"
begin

lemma ensure_idem: "ensure k (ensure k d) = ensure k d"
proof (cases "recorded d k")
  case None
  then show ?thesis using once_or_not [of d k] existing_kept by fastforce
next
  case Some
  then show ?thesis by (simp add: existing_kept)
qed

lemma at_most_one: "length (rows_of d k') \<le> 1 \<Longrightarrow> length (rows_of (ensure k d) k') \<le> 1"
proof (cases "k' = k")
  case True
  assume le: "length (rows_of d k') \<le> 1"
  show ?thesis
  proof (cases "recorded d k")
    case None
    with True rows_grow [of k d] show ?thesis by (simp add: recorded_rows)
  next
    case Some
    with le True show ?thesis by (simp add: existing_kept)
  qed
qed (simp add: others_kept)

lemma at_most_one_fold:
  "(\<And>k. length (rows_of d k) \<le> 1) \<Longrightarrow> length (rows_of (fold ensure ks d) k) \<le> 1"
proof (induction ks arbitrary: d)
  case (Cons a ks)
  then have "\<And>k. length (rows_of (ensure a d) k) \<le> 1" by (blast intro: at_most_one)
  then show ?case using Cons.IH [of "ensure a d"] by simp
qed simp

end

section \<open>Bounded retries\<close>

text \<open>
  A failed attempt at a due item counts; an item is due only below the limit. So the
  items that are due after \<open>n\<close> failures in a row have room for \<open>n\<close> attempts.
\<close>

locale retry_queue =
  fixes attempts :: "'i \<Rightarrow> int"
    and due :: "'i \<Rightarrow> bool"
    and fail :: "'i \<Rightarrow> 'i"
    and limit :: int
  assumes due_below: "due i \<Longrightarrow> attempts i < limit"
    and fail_counts: "due i \<Longrightarrow> attempts (fail i) = attempts i + 1"
begin

lemma failures_counted:
  "(\<And>k. k < n \<Longrightarrow> due ((fail ^^ k) i)) \<Longrightarrow> attempts ((fail ^^ n) i) = attempts i + int n"
proof (induction n)
  case (Suc n)
  then have "attempts ((fail ^^ n) i) = attempts i + int n" by simp
  moreover have "due ((fail ^^ n) i)" using Suc.prems by simp
  ultimately show ?case by (simp add: fail_counts)
qed simp

lemma retries_bounded:
  assumes "\<And>k. k < n \<Longrightarrow> due ((fail ^^ k) i)"
  shows "int n \<le> max 0 (limit - attempts i)"
proof (cases n)
  case (Suc m)
  with assms have "\<And>k. k < m \<Longrightarrow> due ((fail ^^ k) i)" and last: "due ((fail ^^ m) i)" by simp_all
  then have "attempts ((fail ^^ m) i) = attempts i + int m" by (simp add: failures_counted)
  with due_below [OF last] Suc show ?thesis by simp
qed simp

lemma eventually_not_due: "\<exists>n. int n \<le> max 0 (limit - attempts i) \<and> \<not> due ((fail ^^ n) i)"
proof (rule ccontr)
  assume "\<not> ?thesis"
  then have d: "\<And>n. int n \<le> max 0 (limit - attempts i) \<Longrightarrow> due ((fail ^^ n) i)" by blast
  define m where "m = Suc (nat (max 0 (limit - attempts i)))"
  have "\<And>k. k < m \<Longrightarrow> due ((fail ^^ k) i)" by (rule d) (simp add: m_def)
  then have "int m \<le> max 0 (limit - attempts i)" by (rule retries_bounded)
  then show False by (simp add: m_def)
qed

end

end
