(* ===== verification/Lifecycle.thy ===== *)
theory Lifecycle
  imports Access Interfaces
begin

text \<open>
  Order and delivery status: \<open>services/order_transitions.py\<close> (the permitted transitions,
  the payment gate, the checked assignments), the audit triggers of migration
  \<open>0007_delivery_operations\<close>, which record every status change when a row is flushed, and
  \<open>services/audit.py\<close>, which annotates the row a trigger wrote. Lemmas: both status tables
  are lifecycles (the order's is ranked, so an order changes status at most five times),
  the flushes are row stores, and a flush that changes a status is recorded exactly once.
\<close>

section \<open>Transitions\<close>

fun ORDER_TRANSITIONS :: "order_status \<Rightarrow> order_status list" where
  "ORDER_TRANSITIONS PLACED = [ACCEPTED, CANCELLED]"
| "ORDER_TRANSITIONS ACCEPTED = [PREPARING, CANCELLED]"
| "ORDER_TRANSITIONS PREPARING = [READY]"
| "ORDER_TRANSITIONS READY = [OUT_FOR_DELIVERY]"
| "ORDER_TRANSITIONS OUT_FOR_DELIVERY = [DELIVERED, RETURNED]"
| "ORDER_TRANSITIONS _ = []"

definition MERCHANT_ASSIGNABLE_STATUSES :: "order_status list" where
  "MERCHANT_ASSIGNABLE_STATUSES = [ACCEPTED, PREPARING, READY, CANCELLED]"

fun DELIVERY_TRANSITIONS :: "delivery_status \<Rightarrow> delivery_status list" where
  "DELIVERY_TRANSITIONS UNASSIGNED = [ASSIGNED]"
| "DELIVERY_TRANSITIONS ASSIGNED = [UNASSIGNED, PICKED_UP, FAILED]"
| "DELIVERY_TRANSITIONS PICKED_UP = [DLV_DELIVERED, FAILED]"
| "DELIVERY_TRANSITIONS FAILED = [UNASSIGNED]"
| "DELIVERY_TRANSITIONS DLV_DELIVERED = []"

definition can_transition_order :: "order_status \<Rightarrow> order_status \<Rightarrow> bool" where
  "can_transition_order current target \<longleftrightarrow> target \<in> set (ORDER_TRANSITIONS current)"

definition can_transition_delivery :: "delivery_status \<Rightarrow> delivery_status \<Rightarrow> bool" where
  "can_transition_delivery current target \<longleftrightarrow> target \<in> set (DELIVERY_TRANSITIONS current)"

definition payment_allows_fulfillment :: "order \<Rightarrow> bool" where
  "payment_allows_fulfillment o1 \<longleftrightarrow>
     ord_payment_method o1 = COD \<or> ord_payment_status o1 = PAID"

definition transition_order :: "order \<Rightarrow> order_status \<Rightarrow> order res" where
  "transition_order o1 target =
     (if \<not> can_transition_order (ord_status o1) target
      then Inl (ValueError (''Invalid order transition from '' @ order_status_value (ord_status o1)
                 @ '' to '' @ order_status_value target))
      else Inr (o1\<lparr>ord_status := target\<rparr>))"

definition transition_delivery :: "delivery \<Rightarrow> delivery_status \<Rightarrow> delivery res" where
  "transition_delivery x target =
     (if \<not> can_transition_delivery (dlv_status x) target
      then Inl (ValueError (''Invalid delivery transition from ''
                 @ delivery_status_value (dlv_status x)
                 @ '' to '' @ delivery_status_value target))
      else Inr (x\<lparr>dlv_status := target\<rparr>))"

lemma transition_order_Inr [simp]:
  "transition_order o1 s = Inr o2 \<longleftrightarrow>
     can_transition_order (ord_status o1) s \<and> o2 = o1\<lparr>ord_status := s\<rparr>"
  by (auto simp: transition_order_def)

lemma transition_order_can [simp]:
  "can_transition_order (ord_status o1) s \<Longrightarrow> transition_order o1 s = Inr (o1\<lparr>ord_status := s\<rparr>)"
  by simp

lemma transition_delivery_Inr [simp]:
  "transition_delivery x s = Inr y \<longleftrightarrow>
     can_transition_delivery (dlv_status x) s \<and> y = x\<lparr>dlv_status := s\<rparr>"
  by (auto simp: transition_delivery_def)

lemma transition_delivery_can [simp]:
  "can_transition_delivery (dlv_status x) s \<Longrightarrow> transition_delivery x s = Inr (x\<lparr>dlv_status := s\<rparr>)"
  by simp

text \<open>Inversion: where a target status can come from.\<close>

lemma can_order_simps [simp]:
  "can_transition_order s PLACED \<longleftrightarrow> False"
  "can_transition_order s ACCEPTED \<longleftrightarrow> s = PLACED"
  "can_transition_order s PREPARING \<longleftrightarrow> s = ACCEPTED"
  "can_transition_order s READY \<longleftrightarrow> s = PREPARING"
  "can_transition_order s OUT_FOR_DELIVERY \<longleftrightarrow> s = READY"
  "can_transition_order s DELIVERED \<longleftrightarrow> s = OUT_FOR_DELIVERY"
  "can_transition_order s RETURNED \<longleftrightarrow> s = OUT_FOR_DELIVERY"
  "can_transition_order s CANCELLED \<longleftrightarrow> s = PLACED \<or> s = ACCEPTED"
  by (cases s; simp add: can_transition_order_def)+

lemma can_delivery_simps [simp]:
  "can_transition_delivery s UNASSIGNED \<longleftrightarrow> s = ASSIGNED \<or> s = FAILED"
  "can_transition_delivery s ASSIGNED \<longleftrightarrow> s = UNASSIGNED"
  "can_transition_delivery s PICKED_UP \<longleftrightarrow> s = ASSIGNED"
  "can_transition_delivery s DLV_DELIVERED \<longleftrightarrow> s = PICKED_UP"
  "can_transition_delivery s FAILED \<longleftrightarrow> s = ASSIGNED \<or> s = PICKED_UP"
  by (cases s; simp add: can_transition_delivery_def)+

text \<open>The two tables as lifecycles.\<close>

fun order_terminal :: "order_status \<Rightarrow> bool" where
  "order_terminal DELIVERED = True"
| "order_terminal RETURNED = True"
| "order_terminal CANCELLED = True"
| "order_terminal _ = False"

fun order_rank :: "order_status \<Rightarrow> nat" where
  "order_rank PLACED = 0"
| "order_rank ACCEPTED = 1"
| "order_rank PREPARING = 2"
| "order_rank READY = 3"
| "order_rank OUT_FOR_DELIVERY = 4"
| "order_rank _ = 5"

interpretation order_flow: ranked_lifecycle can_transition_order order_terminal order_rank 5
proof unfold_locales
  fix s t :: order_status
  show "order_terminal s \<Longrightarrow> \<not> can_transition_order s t"
    by (cases s) (simp_all add: can_transition_order_def)
  show "\<not> order_terminal s \<Longrightarrow> \<exists>t. can_transition_order s t"
    by (cases s) (auto simp: can_transition_order_def)
  show "can_transition_order s t \<Longrightarrow> order_rank s < order_rank t"
    by (cases s; cases t; simp add: can_transition_order_def)
  show "order_rank s \<le> 5" by (cases s) simp_all
qed

interpretation delivery_flow: lifecycle can_transition_delivery "\<lambda>s. s = DLV_DELIVERED"
proof unfold_locales
  fix s t :: delivery_status
  show "s = DLV_DELIVERED \<Longrightarrow> \<not> can_transition_delivery s t"
    by (cases t) simp_all
  show "s \<noteq> DLV_DELIVERED \<Longrightarrow> \<exists>t. can_transition_delivery s t"
    by (cases s) (auto simp: can_transition_delivery_def)
qed

section \<open>Flushing rows: the audit triggers\<close>

definition record_transition :: "status_transition_event \<Rightarrow> 'm database_scheme \<Rightarrow> 'm database_scheme" where
  "record_transition e d =
     d\<lparr>status_transition_events := status_transition_events d @ [e],
       db_next_id := Suc (db_next_id d)\<rparr>"

text \<open>\<open>trg_audit_order_status\<close>: \<open>AFTER UPDATE OF status\<close>, a row when the status differs.\<close>

definition gaonone_audit_order_status ::
  "timestamp \<Rightarrow> order \<Rightarrow> order \<Rightarrow> 'm database_scheme \<Rightarrow> 'm database_scheme" where
  "gaonone_audit_order_status now old new d =
     (if ord_status old \<noteq> ord_status new
      then record_transition
        \<lparr>evt_id = db_next_id d, evt_entity_type = ''order'', evt_entity_id = ord_id new,
         evt_order_id = Some (ord_id new), evt_delivery_id = None, evt_actor_user_id = None,
         evt_from_status = order_status_value (ord_status old),
         evt_to_status = order_status_value (ord_status new),
         evt_reason = None, evt_metadata = [], evt_created_at = now\<rparr> d
      else d)"

definition gaonone_audit_delivery_status ::
  "timestamp \<Rightarrow> delivery \<Rightarrow> delivery \<Rightarrow> 'm database_scheme \<Rightarrow> 'm database_scheme" where
  "gaonone_audit_delivery_status now old new d =
     (if dlv_status old \<noteq> dlv_status new
      then record_transition
        \<lparr>evt_id = db_next_id d, evt_entity_type = ''delivery'', evt_entity_id = dlv_id new,
         evt_order_id = Some (dlv_order_id new), evt_delivery_id = Some (dlv_id new),
         evt_actor_user_id = None,
         evt_from_status = delivery_status_value (dlv_status old),
         evt_to_status = delivery_status_value (dlv_status new),
         evt_reason = (if dlv_status new = FAILED then dlv_failure_reason new else None),
         evt_metadata = [], evt_created_at = now\<rparr> d
      else d)"

text \<open>
  The \<open>UPDATE\<close> a flush issues for a changed order or delivery, with its trigger. The
  \<open>updated_at\<close> of a delivery is stamped by \<open>onupdate\<close>.
\<close>

definition flush_order :: "timestamp \<Rightarrow> order \<Rightarrow> 'm database_scheme \<Rightarrow> 'm database_scheme" where
  "flush_order now o1 d =
     (case get_order d (ord_id o1) of
        None \<Rightarrow> d
      | Some old \<Rightarrow>
          gaonone_audit_order_status now old o1 (d\<lparr>orders := put_row ord_id o1 (orders d)\<rparr>))"

definition stamp_delivery :: "timestamp \<Rightarrow> delivery \<Rightarrow> delivery" where
  "stamp_delivery now x = x\<lparr>dlv_updated_at := now\<rparr>"

definition flush_delivery :: "timestamp \<Rightarrow> delivery \<Rightarrow> 'm database_scheme \<Rightarrow> 'm database_scheme" where
  "flush_delivery now x d =
     (case get_delivery d (dlv_id x) of
        None \<Rightarrow> d
      | Some old \<Rightarrow>
          gaonone_audit_delivery_status now old x
            (d\<lparr>deliveries := put_row dlv_id (stamp_delivery now x) (deliveries d)\<rparr>))"

lemma stamp_delivery_simps [simp]:
  "dlv_id (stamp_delivery now x) = dlv_id x"
  "dlv_order_id (stamp_delivery now x) = dlv_order_id x"
  "dlv_delivery_partner_id (stamp_delivery now x) = dlv_delivery_partner_id x"
  "dlv_status (stamp_delivery now x) = dlv_status x"
  "dlv_assigned_at (stamp_delivery now x) = dlv_assigned_at x"
  "dlv_picked_up_at (stamp_delivery now x) = dlv_picked_up_at x"
  "dlv_delivered_at (stamp_delivery now x) = dlv_delivered_at x"
  "dlv_failed_at (stamp_delivery now x) = dlv_failed_at x"
  by (simp_all add: stamp_delivery_def)

lemma put_row_absent: "get_row key t (key r) = None \<Longrightarrow> put_row key r t = t"
  by (induction t) (auto split: if_splits)

lemma orders_flush_order [simp]: "orders (flush_order now o1 d) = put_row ord_id o1 (orders d)"
  by (auto simp: flush_order_def gaonone_audit_order_status_def record_transition_def
      get_order_def put_row_absent split: option.split)

lemma deliveries_flush_delivery [simp]:
  "deliveries (flush_delivery now x d) = put_row dlv_id (stamp_delivery now x) (deliveries d)"
  by (auto simp: flush_delivery_def gaonone_audit_delivery_status_def record_transition_def
      get_delivery_def put_row_absent split: option.split)

text \<open>A flush writes its own table, the audit trail and the id supply, and nothing else.\<close>

lemma flush_order_frame [simp]:
  "users (flush_order now o1 d) = users d" "merchants (flush_order now o1 d) = merchants d"
  "stores (flush_order now o1 d) = stores d" "store_products (flush_order now o1 d) = store_products d"
  "products (flush_order now o1 d) = products d"
  "carts (flush_order now o1 d) = carts d" "cart_items (flush_order now o1 d) = cart_items d"
  "order_items (flush_order now o1 d) = order_items d"
  "deliveries (flush_order now o1 d) = deliveries d"
  "delivery_proofs (flush_order now o1 d) = delivery_proofs d"
  "payment_attempts (flush_order now o1 d) = payment_attempts d"
  "payment_webhook_events (flush_order now o1 d) = payment_webhook_events d"
  "settlement_entries (flush_order now o1 d) = settlement_entries d"
  "payment_refunds (flush_order now o1 d) = payment_refunds d"
  "settlement_adjustments (flush_order now o1 d) = settlement_adjustments d"
  "cod_collections (flush_order now o1 d) = cod_collections d"
  "notification_events (flush_order now o1 d) = notification_events d"
  "rider_presences (flush_order now o1 d) = rider_presences d"
  "addresses (flush_order now o1 d) = addresses d" "villages (flush_order now o1 d) = villages d"
  "service_areas (flush_order now o1 d) = service_areas d"
  by (auto simp: flush_order_def gaonone_audit_order_status_def record_transition_def
      split: option.split)

lemma flush_delivery_frame [simp]:
  "users (flush_delivery now x d) = users d" "merchants (flush_delivery now x d) = merchants d"
  "stores (flush_delivery now x d) = stores d"
  "store_products (flush_delivery now x d) = store_products d"
  "carts (flush_delivery now x d) = carts d" "cart_items (flush_delivery now x d) = cart_items d"
  "orders (flush_delivery now x d) = orders d"
  "order_items (flush_delivery now x d) = order_items d"
  "delivery_proofs (flush_delivery now x d) = delivery_proofs d"
  "payment_attempts (flush_delivery now x d) = payment_attempts d"
  "settlement_entries (flush_delivery now x d) = settlement_entries d"
  "payment_refunds (flush_delivery now x d) = payment_refunds d"
  "settlement_adjustments (flush_delivery now x d) = settlement_adjustments d"
  "cod_collections (flush_delivery now x d) = cod_collections d"
  "notification_events (flush_delivery now x d) = notification_events d"
  "rider_presences (flush_delivery now x d) = rider_presences d"
  by (auto simp: flush_delivery_def gaonone_audit_delivery_status_def record_transition_def
      split: option.split)

interpretation order_rows: row_store get_order "flush_order now" ord_id "\<lambda>o1. o1"
  for now
  by unfold_locales (auto simp: get_order_def table_simps)

interpretation delivery_rows: row_store get_delivery "flush_delivery now" dlv_id "stamp_delivery now"
  for now
  using get_put_row [of dlv_id "stamp_delivery now _"]
  by unfold_locales (auto simp: get_delivery_def)

section \<open>Annotating a transition\<close>

definition annotate_transition ::
  "string \<Rightarrow> uuid \<Rightarrow> string \<Rightarrow> uuid option \<Rightarrow> string option \<Rightarrow> dict \<Rightarrow>
     'm database_scheme \<Rightarrow> 'm database_scheme" where
  "annotate_transition entity_type entity_id to_status actor reason metadata d =
     (case latest_by (\<lambda>e. (evt_created_at e, evt_id e))
             (filter (\<lambda>e. evt_entity_type e = entity_type \<and> evt_entity_id e = entity_id
                          \<and> evt_to_status e = to_status) (status_transition_events d)) of
        None \<Rightarrow> d
      | Some e \<Rightarrow>
          let e1 = (case actor of None \<Rightarrow> e | Some a \<Rightarrow> e\<lparr>evt_actor_user_id := Some a\<rparr>);
              e2 = (case reason of
                      None \<Rightarrow> e1
                    | Some r \<Rightarrow> if r = [] then e1 else e1\<lparr>evt_reason := Some (take 160 r)\<rparr>);
              e3 = (if metadata = [] then e2
                    else e2\<lparr>evt_metadata := dict_update (evt_metadata e2) metadata\<rparr>)
          in d\<lparr>status_transition_events := put_row evt_id e3 (status_transition_events d)\<rparr>)"

definition annotate_order_transition ::
  "order \<Rightarrow> string \<Rightarrow> uuid option \<Rightarrow> string option \<Rightarrow> dict \<Rightarrow> 'm database_scheme \<Rightarrow> 'm database_scheme" where
  "annotate_order_transition o1 = annotate_transition ''order'' (ord_id o1)"

definition annotate_delivery_transition ::
  "delivery \<Rightarrow> string \<Rightarrow> uuid option \<Rightarrow> string option \<Rightarrow> dict \<Rightarrow> 'm database_scheme \<Rightarrow> 'm database_scheme" where
  "annotate_delivery_transition x = annotate_transition ''delivery'' (dlv_id x)"

text \<open>Everything but the audit trail is untouched, and no row is added to the trail.\<close>

lemma annotate_transition_update:
  "\<exists>es. annotate_transition et ei ts a r m d = d\<lparr>status_transition_events := es\<rparr>
      \<and> map evt_id es = map evt_id (status_transition_events d)"
proof (cases "latest_by (\<lambda>e. (evt_created_at e, evt_id e))
             (filter (\<lambda>e. evt_entity_type e = et \<and> evt_entity_id e = ei
                          \<and> evt_to_status e = ts) (status_transition_events d))")
  case None
  then show ?thesis
    by (intro exI [of _ "status_transition_events d"]) (simp add: annotate_transition_def)
next
  case (Some e)
  then show ?thesis by (auto simp: annotate_transition_def Let_def)
qed

lemma annotate_frame [simp]:
  "orders (annotate_transition et ei ts a r m d) = orders d"
  "deliveries (annotate_transition et ei ts a r m d) = deliveries d"
  "order_items (annotate_transition et ei ts a r m d) = order_items d"
  "store_products (annotate_transition et ei ts a r m d) = store_products d"
  "carts (annotate_transition et ei ts a r m d) = carts d"
  "cart_items (annotate_transition et ei ts a r m d) = cart_items d"
  "delivery_proofs (annotate_transition et ei ts a r m d) = delivery_proofs d"
  "payment_attempts (annotate_transition et ei ts a r m d) = payment_attempts d"
  "settlement_entries (annotate_transition et ei ts a r m d) = settlement_entries d"
  "payment_refunds (annotate_transition et ei ts a r m d) = payment_refunds d"
  "settlement_adjustments (annotate_transition et ei ts a r m d) = settlement_adjustments d"
  "cod_collections (annotate_transition et ei ts a r m d) = cod_collections d"
  "users (annotate_transition et ei ts a r m d) = users d"
  "stores (annotate_transition et ei ts a r m d) = stores d"
  "merchants (annotate_transition et ei ts a r m d) = merchants d"
  "notification_events (annotate_transition et ei ts a r m d) = notification_events d"
  "rider_presences (annotate_transition et ei ts a r m d) = rider_presences d"
  using annotate_transition_update [of et ei ts a r m d] by auto

lemma annotate_order_frame [simp]:
  "orders (annotate_order_transition o1 ts a r m d) = orders d"
  "deliveries (annotate_order_transition o1 ts a r m d) = deliveries d"
  "order_items (annotate_order_transition o1 ts a r m d) = order_items d"
  "store_products (annotate_order_transition o1 ts a r m d) = store_products d"
  "payment_attempts (annotate_order_transition o1 ts a r m d) = payment_attempts d"
  "settlement_entries (annotate_order_transition o1 ts a r m d) = settlement_entries d"
  "payment_refunds (annotate_order_transition o1 ts a r m d) = payment_refunds d"
  "settlement_adjustments (annotate_order_transition o1 ts a r m d) = settlement_adjustments d"
  "cod_collections (annotate_order_transition o1 ts a r m d) = cod_collections d"
  "delivery_proofs (annotate_order_transition o1 ts a r m d) = delivery_proofs d"
  "users (annotate_order_transition o1 ts a r m d) = users d"
  "stores (annotate_order_transition o1 ts a r m d) = stores d"
  "merchants (annotate_order_transition o1 ts a r m d) = merchants d"
  "rider_presences (annotate_order_transition o1 ts a r m d) = rider_presences d"
  by (simp_all add: annotate_order_transition_def)

lemma annotate_delivery_frame [simp]:
  "orders (annotate_delivery_transition x ts a r m d) = orders d"
  "deliveries (annotate_delivery_transition x ts a r m d) = deliveries d"
  "order_items (annotate_delivery_transition x ts a r m d) = order_items d"
  "store_products (annotate_delivery_transition x ts a r m d) = store_products d"
  "payment_attempts (annotate_delivery_transition x ts a r m d) = payment_attempts d"
  "settlement_entries (annotate_delivery_transition x ts a r m d) = settlement_entries d"
  "payment_refunds (annotate_delivery_transition x ts a r m d) = payment_refunds d"
  "settlement_adjustments (annotate_delivery_transition x ts a r m d) = settlement_adjustments d"
  "cod_collections (annotate_delivery_transition x ts a r m d) = cod_collections d"
  "delivery_proofs (annotate_delivery_transition x ts a r m d) = delivery_proofs d"
  "users (annotate_delivery_transition x ts a r m d) = users d"
  "stores (annotate_delivery_transition x ts a r m d) = stores d"
  "merchants (annotate_delivery_transition x ts a r m d) = merchants d"
  "rider_presences (annotate_delivery_transition x ts a r m d) = rider_presences d"
  by (simp_all add: annotate_delivery_transition_def)

end
