(* ===== verification/Inventory.thy ===== *)
theory Inventory
  imports Lifecycle
begin

text \<open>
  What an order costs, what it takes from the shelf and when a shop trades:
  \<open>services/pricing.py\<close>, \<open>services/stock.py\<close> (with the restoration of the legacy order
  routes in \<open>routes/orders.py\<close>) and \<open>services/store_hours.py\<close>. Lemmas: the total of an
  order is exactly subtotal plus fee; a restoration adds each item's quantity to its
  listing, touches no other listing, runs once per order and respects a merchant's
  decision to take a listing down; the opening window is an interval modulo 24 hours,
  also across midnight.
\<close>

section \<open>Pricing\<close>

definition resolve_delivery_fee :: "settings \<Rightarrow> 'm database_scheme \<Rightarrow> store \<Rightarrow> money" where
  "resolve_delivery_fee cfg d s =
     (let fee = (case sto_service_area_id s of
                   None \<Rightarrow> None
                 | Some aid \<Rightarrow>
                     (case get_service_area d aid of
                        None \<Rightarrow> None
                      | Some area \<Rightarrow> map_option paise (sva_delivery_fee area)));
          amount = (case fee of None \<Rightarrow> cfg_default_delivery_fee cfg | Some f \<Rightarrow> f)
      in coeff (quantize ROUND_HALF_EVEN 2 amount))"

definition order_total :: "money \<Rightarrow> money \<Rightarrow> money" where
  "order_total subtotal delivery_fee =
     coeff (quantize ROUND_HALF_EVEN 2 (dec_add (paise subtotal) (paise delivery_fee)))"

lemma order_total_sum [simp]: "order_total s f = s + f"
  by (simp add: order_total_def)

lemma resolve_delivery_fee_area:
  assumes "sto_service_area_id s = Some aid" and "get_service_area d aid = Some a"
    and "sva_delivery_fee a = Some f"
  shows "resolve_delivery_fee cfg d s = f"
  using assms by (simp add: resolve_delivery_fee_def)

section \<open>Stock\<close>

definition flush_listing :: "store_product \<Rightarrow> 'm database_scheme \<Rightarrow> 'm database_scheme" where
  "flush_listing l d = d\<lparr>store_products := put_row lst_id l (store_products d)\<rparr>"

interpretation listing_rows: row_store get_listing flush_listing lst_id "\<lambda>l. l"
  by unfold_locales (auto simp: get_listing_def flush_listing_def table_simps)

definition listing_of_product :: "'m database_scheme \<Rightarrow> uuid \<Rightarrow> uuid \<Rightarrow> store_product option" where
  "listing_of_product d sid pid =
     find (\<lambda>l. lst_store_id l = sid \<and> lst_product_id l = pid) (store_products d)"

text \<open>
  The loop of \<open>restore_order_stock_once\<close>: the listings are mutated in place, so a later
  item of the same product sees the restored quantity.
\<close>

definition restored_listing :: "store_product \<Rightarrow> int \<Rightarrow> store_product" where
  "restored_listing l q =
     (let was_sold_out = (lst_stock_quantity l = 0);
          l1 = l\<lparr>lst_stock_quantity := lst_stock_quantity l + q\<rparr>
      in if was_sold_out \<and> \<not> lst_is_available l then l1\<lparr>lst_is_available := True\<rparr> else l1)"

fun restore_items :: "uuid \<Rightarrow> order_item list \<Rightarrow> 'm database_scheme \<Rightarrow> 'm database_scheme res" where
  "restore_items sid [] d = Inr d"
| "restore_items sid (i # is) d =
     (case listing_of_product d sid (oit_product_id i) of
        None \<Rightarrow> Inl (HTTPException 409 ''Order inventory reference is missing'')
      | Some l \<Rightarrow> restore_items sid is (flush_listing (restored_listing l (oit_quantity i)) d))"

text \<open>The order object the caller holds and later flushes is returned with the guard set.\<close>

definition restore_order_stock_once ::
  "timestamp \<Rightarrow> order \<Rightarrow> 'm database_scheme \<Rightarrow> (bool \<times> order \<times> 'm database_scheme) res" where
  "restore_order_stock_once now o1 d =
     (if ord_stock_restored_at o1 \<noteq> None then Inr (False, o1, d)
      else (let items = items_of_order d (ord_id o1) in
        if items = [] then Inr (True, o1\<lparr>ord_stock_restored_at := Some now\<rparr>, d)
        else (case restore_items (ord_store_id o1) items d of
                Inl e \<Rightarrow> Inl e
              | Inr d1 \<Rightarrow> Inr (True, o1\<lparr>ord_stock_restored_at := Some now\<rparr>, d1))))"

text \<open>The legacy restoration: no guard, missing listings skipped, every listing re-listed.\<close>

fun restore_cancelled_items :: "uuid \<Rightarrow> order_item list \<Rightarrow> 'm database_scheme \<Rightarrow> 'm database_scheme" where
  "restore_cancelled_items sid [] d = d"
| "restore_cancelled_items sid (i # is) d =
     (case listing_of_product d sid (oit_product_id i) of
        None \<Rightarrow> restore_cancelled_items sid is d
      | Some l \<Rightarrow>
          restore_cancelled_items sid is
            (flush_listing (l\<lparr>lst_stock_quantity := lst_stock_quantity l + oit_quantity i,
                              lst_is_available := True\<rparr>) d))"

definition restore_cancelled_stock :: "order \<Rightarrow> 'm database_scheme \<Rightarrow> 'm database_scheme" where
  "restore_cancelled_stock o1 d =
     restore_cancelled_items (ord_store_id o1) (items_of_order d (ord_id o1)) d"

subsection \<open>What a restoration writes\<close>

lemma flush_listing_update:
  "flush_listing l d = d\<lparr>store_products := put_row lst_id l (store_products d)\<rparr>"
  by (rule flush_listing_def)

lemma restore_items_update:
  "restore_items sid is d = Inr d' \<Longrightarrow> \<exists>ls. d' = d\<lparr>store_products := ls\<rparr>"
proof (induction "is" arbitrary: d)
  case Nil
  then show ?case by (intro exI [of _ "store_products d"]) simp
next
  case (Cons i "is")
  then show ?case by (fastforce simp: flush_listing_def split: option.splits)
qed

lemma restore_once_update:
  assumes "restore_order_stock_once now o1 d = Inr (b, o2, d')"
  shows "\<exists>ls. d' = d\<lparr>store_products := ls\<rparr>"
proof -
  have "d' = d \<or> (\<exists>is. restore_items (ord_store_id o1) is d = Inr d')"
    using assms by (auto simp: restore_order_stock_once_def Let_def split: if_splits sum.splits)
  then show ?thesis
  proof
    assume "d' = d"
    then show ?thesis by (intro exI [of _ "store_products d"]) simp
  qed (blast dest: restore_items_update)
qed

lemma restore_once_frame:
  assumes "restore_order_stock_once now o1 d = Inr (b, o2, d')"
  shows "orders d' = orders d" "deliveries d' = deliveries d" "order_items d' = order_items d"
    "payment_attempts d' = payment_attempts d" "settlement_entries d' = settlement_entries d"
    "payment_refunds d' = payment_refunds d" "settlement_adjustments d' = settlement_adjustments d"
    "cod_collections d' = cod_collections d" "delivery_proofs d' = delivery_proofs d"
    "users d' = users d" "stores d' = stores d" "merchants d' = merchants d"
    "rider_presences d' = rider_presences d"
  using restore_once_update [OF assms] by auto

lemma restore_once_order:
  "restore_order_stock_once now o1 d = Inr (b, o2, d') \<Longrightarrow>
     o2 = (if ord_stock_restored_at o1 = None then o1\<lparr>ord_stock_restored_at := Some now\<rparr> else o1)
     \<and> b = (ord_stock_restored_at o1 = None)"
  by (auto simp: restore_order_stock_once_def Let_def split: if_splits sum.splits)

lemma restore_once_guard:
  "ord_stock_restored_at o1 \<noteq> None \<Longrightarrow> restore_order_stock_once now o1 d = Inr (False, o1, d)"
  by (simp add: restore_order_stock_once_def)

subsection \<open>How much a restoration adds\<close>

text \<open>The units of a product among items, as they are owed back to the shelf.\<close>

definition units_of :: "uuid \<Rightarrow> order_item list \<Rightarrow> int" where
  "units_of pid is = sum_list (map oit_quantity (filter (\<lambda>i. oit_product_id i = pid) is))"

lemma units_of_Nil [simp]: "units_of p [] = 0"
  by (simp add: units_of_def)

lemma units_of_Cons [simp]:
  "units_of p (i # is) = (if oit_product_id i = p then oit_quantity i else 0) + units_of p is"
  by (simp add: units_of_def)

lemma restored_listing_simps [simp]:
  "lst_id (restored_listing l q) = lst_id l"
  "lst_store_id (restored_listing l q) = lst_store_id l"
  "lst_product_id (restored_listing l q) = lst_product_id l"
  "lst_price (restored_listing l q) = lst_price l"
  "lst_stock_quantity (restored_listing l q) = lst_stock_quantity l + q"
  by (simp_all add: restored_listing_def Let_def)

lemma listing_of_productD:
  "listing_of_product d sid pid = Some l \<Longrightarrow>
     l \<in> set (store_products d) \<and> lst_store_id l = sid \<and> lst_product_id l = pid"
  by (auto simp: listing_of_product_def dest: find_Some_in)

definition listings_wf :: "'m database_scheme \<Rightarrow> bool" where
  "listings_wf d \<longleftrightarrow> distinct (map lst_id (store_products d)) \<and>
     distinct (map (\<lambda>l. (lst_store_id l, lst_product_id l)) (store_products d))"

lemma listings_wf_flush:
  assumes "listings_wf d" and "l \<in> set (store_products d)"
    and "lst_id l' = lst_id l" "lst_store_id l' = lst_store_id l" "lst_product_id l' = lst_product_id l"
  shows "listings_wf (flush_listing l' d)"
proof -
  have "map (\<lambda>l. (lst_store_id l, lst_product_id l)) (put_row lst_id l' (store_products d))
      = map (\<lambda>l. (lst_store_id l, lst_product_id l)) (store_products d)"
  proof (rule map_put_row_field)
    fix x assume "x \<in> set (store_products d)" and "lst_id x = lst_id l'"
    with assms have "x = l" by (auto simp: listings_wf_def distinct_map inj_on_def)
    then show "(lst_store_id x, lst_product_id x) = (lst_store_id l', lst_product_id l')"
      using assms by simp
  qed
  with assms show ?thesis by (simp add: listings_wf_def flush_listing_def)
qed

lemma get_listing_of_product:
  assumes "listings_wf d" and "get_listing d k = Some l"
  shows "listing_of_product d (lst_store_id l) (lst_product_id l) = Some l"
proof -
  have l: "l \<in> set (store_products d)" using assms(2) by (auto simp: get_listing_def)
  show ?thesis
  proof (cases "listing_of_product d (lst_store_id l) (lst_product_id l)")
    case None
    with l show ?thesis by (auto simp: listing_of_product_def find_None_iff)
  next
    case (Some l2)
    with l assms(1) listing_of_productD [OF Some] have "l2 = l"
      by (auto simp: listings_wf_def distinct_map inj_on_def)
    with Some show ?thesis by simp
  qed
qed

text \<open>
  The stock of every listing of the order's store grows by exactly the units its product
  has among the items, and nothing else about a listing but its availability changes.
\<close>

lemma restore_items_stock:
  assumes "restore_items sid is d = Inr d'" and "listings_wf d" and "get_listing d k = Some l"
  shows "\<exists>l'. get_listing d' k = Some l' \<and> lst_store_id l' = lst_store_id l
     \<and> lst_product_id l' = lst_product_id l \<and> lst_price l' = lst_price l
     \<and> lst_stock_quantity l' = lst_stock_quantity l
          + (if lst_store_id l = sid then units_of (lst_product_id l) is else 0)"
  using assms
proof (induction "is" arbitrary: d l)
  case Nil
  then show ?case by simp
next
  case (Cons i "is")
  then obtain m where m: "listing_of_product d sid (oit_product_id i) = Some m"
    and rest: "restore_items sid is (flush_listing (restored_listing m (oit_quantity i)) d) = Inr d'"
    by (auto split: option.splits)
  let ?d1 = "flush_listing (restored_listing m (oit_quantity i)) d"
  have mD: "m \<in> set (store_products d)" "lst_store_id m = sid" "lst_product_id m = oit_product_id i"
    using listing_of_productD [OF m] by simp_all
  have wf1: "listings_wf ?d1" using Cons.prems(2) mD(1) by (rule listings_wf_flush) simp_all
  show ?case
  proof (cases "k = lst_id m")
    case True
    with Cons.prems(2,3) mD have "l = m"
      by (auto simp: listings_wf_def get_listing_def get_row_Some_iff distinct_map inj_on_def)
    moreover from True Cons.prems(3) have
      "get_listing ?d1 k = Some (restored_listing m (oit_quantity i))"
      by (simp add: listing_rows.get_put)
    ultimately show ?thesis using Cons.IH [OF rest wf1] mD by fastforce
  next
    case False
    then have "get_listing ?d1 k = Some l" using Cons.prems(3) by (simp add: listing_rows.get_put)
    moreover have "\<not> (lst_store_id l = sid \<and> lst_product_id l = oit_product_id i)"
    proof
      assume "lst_store_id l = sid \<and> lst_product_id l = oit_product_id i"
      with get_listing_of_product [OF Cons.prems(2,3)] m have "l = m" by simp
      with False Cons.prems(3) show False by auto
    qed
    ultimately show ?thesis using Cons.IH [OF rest wf1] by auto
  qed
qed

section \<open>Opening hours\<close>

text \<open>
  A \<open>datetime\<close> argument is aware (an instant) or naive (India-local already). India
  Standard Time is UTC+05:30 all year. A time of day is in microseconds after midnight.
\<close>

datatype moment = Aware timestamp | Naive timestamp

definition BUSINESS_TZ_offset :: int where
  "BUSINESS_TZ_offset = minutes 330"

definition day :: int where
  "day = minutes (24 * 60)"

definition business_now :: "timestamp \<Rightarrow> timestamp" where
  "business_now now = now + BUSINESS_TZ_offset"

definition to_business_time :: "timestamp \<Rightarrow> moment option \<Rightarrow> timestamp" where
  "to_business_time now m =
     (case m of
        None \<Rightarrow> business_now now
      | Some (Naive t) \<Rightarrow> t
      | Some (Aware t) \<Rightarrow> t + BUSINESS_TZ_offset)"

definition is_open_at :: "timestamp \<Rightarrow> int option \<Rightarrow> int option \<Rightarrow> moment option \<Rightarrow> bool" where
  "is_open_at now opens_at closes_at m =
     (case (opens_at, closes_at) of
        (Some op, Some cl) \<Rightarrow>
          (if op = cl then True
           else (let local = to_business_time now m mod day in
             if op < cl then op \<le> local \<and> local < cl
             else op \<le> local \<or> local < cl))
      | _ \<Rightarrow> True)"

definition store_is_open :: "timestamp \<Rightarrow> store \<Rightarrow> bool" where
  "store_is_open now s = is_open_at now (sto_opens_at s) (sto_closes_at s) None"

definition two_digits :: "int \<Rightarrow> string" where
  "two_digits n = [digit (nat (n div 10)), digit (nat n)]"

definition describe_hours :: "int option \<Rightarrow> int option \<Rightarrow> string option" where
  "describe_hours opens_at closes_at =
     (case (opens_at, closes_at) of
        (Some op, Some cl) \<Rightarrow>
          Some (two_digits (op div minutes 60) @ '':'' @ two_digits (op mod minutes 60 div minutes 1)
            @ ''-'' @ two_digits (cl div minutes 60) @ '':''
            @ two_digits (cl mod minutes 60 div minutes 1) @ '' IST'')
      | _ \<Rightarrow> None)"

lemma mod_window:
  fixes a b :: int
  assumes "0 \<le> a" "a < m" "0 \<le> b" "b < m"
  shows "(a - b) mod m = (if b \<le> a then a - b else a - b + m)"
proof (cases "b \<le> a")
  case True
  then show ?thesis using assms by simp
next
  case False
  have "(a - b) mod m = (a - b + m) mod m" by simp
  also have "\<dots> = a - b + m" using False assms by (intro mod_pos_pos_trivial) linarith+
  finally show ?thesis using False by simp
qed

text \<open>The opening window is the interval from opening to closing modulo one day.\<close>

lemma is_open_at_window:
  assumes "op \<noteq> cl" and "0 \<le> op" "op < day" "0 \<le> cl" "cl < day"
  shows "is_open_at now (Some op) (Some cl) m \<longleftrightarrow>
     (to_business_time now m - op) mod day < (cl - op) mod day"
proof -
  define t where "t = to_business_time now m mod day"
  have t: "0 \<le> t" "t < day" by (simp_all add: t_def day_def minutes_def seconds_def)
  have "(to_business_time now m - op) mod day = (t - op) mod day"
    by (simp add: t_def mod_diff_left_eq)
  then show ?thesis
    using assms t by (auto simp: is_open_at_def Let_def t_def [symmetric] mod_window)
qed

end
