(* ===== verification/Settlements.thy ===== *)
theory Settlements
  imports Inventory
begin

text \<open>
  The merchant settlement ledger, \<open>services/settlements.py\<close>: entitlement is recomputed
  from the order, an entry is created at most once per order, voided in place while it is
  pending and corrected by an adjustment once it is settled. Concurrent inserts of the same
  key (the \<open>IntegrityError\<close> branch) are serialised by the row locks and the unique
  constraints, so in the sequential model the flush of a new key succeeds.
\<close>

section \<open>Entitlement\<close>

definition SETTLEMENT_PENDING :: string where "SETTLEMENT_PENDING = ''pending''"
definition SETTLEMENT_SETTLED :: string where "SETTLEMENT_SETTLED = ''settled''"
definition SETTLEMENT_VOIDED :: string where "SETTLEMENT_VOIDED = ''voided''"

definition REVERSIBLE_SETTLEMENT_STATUSES :: "string list" where
  "REVERSIBLE_SETTLEMENT_STATUSES = [SETTLEMENT_PENDING]"

definition VOID_REASON_REFUNDED :: string where "VOID_REASON_REFUNDED = ''order_refunded''"
definition VOID_REASON_RETURNED :: string where "VOID_REASON_RETURNED = ''delivery_returned''"

lemmas settlement_constants =
  SETTLEMENT_PENDING_def SETTLEMENT_SETTLED_def SETTLEMENT_VOIDED_def
  REVERSIBLE_SETTLEMENT_STATUSES_def

definition refund_of_order :: "'m database_scheme \<Rightarrow> uuid \<Rightarrow> payment_refund option" where
  "refund_of_order d oid = find (\<lambda>r. rfd_order_id r = oid) (payment_refunds d)"

definition settlement_of_order :: "'m database_scheme \<Rightarrow> uuid \<Rightarrow> settlement_entry option" where
  "settlement_of_order d oid = find (\<lambda>e. set_order_id e = oid) (settlement_entries d)"

definition settlement_is_eligible :: "'m database_scheme \<Rightarrow> order \<Rightarrow> bool" where
  "settlement_is_eligible d o1 =
     (if ord_payment_status o1 \<noteq> PAID then False
      else if ord_status o1 = CANCELLED then False
      else if refund_of_order d (ord_id o1) \<noteq> None then False
      else True)"

section \<open>Creating an entry\<close>

definition ensure_settlement_entry ::
  "order \<Rightarrow> 'm database_scheme \<Rightarrow> (settlement_entry option \<times> 'm database_scheme) res" where
  "ensure_settlement_entry o1 d =
     (case settlement_of_order d (ord_id o1) of
        Some existing \<Rightarrow> Inr (Some existing, d)
      | None \<Rightarrow>
          if \<not> settlement_is_eligible d o1 then Inr (None, d)
          else (case get_store d (ord_store_id o1) of
                  None \<Rightarrow> Inl (ValueError ''Settlement entry requires a valid store'')
                | Some s \<Rightarrow>
                    let entry = \<lparr>set_id = db_next_id d, set_order_id = ord_id o1,
                          set_store_id = sto_id s, set_merchant_id = sto_merchant_id s,
                          set_payment_method = payment_method_value (ord_payment_method o1),
                          set_gross_amount = ord_total o1, set_merchant_amount = ord_subtotal o1,
                          set_delivery_fee_amount = ord_delivery_fee o1,
                          set_status = SETTLEMENT_PENDING, set_settled_at = None,
                          set_voided_at = None, set_void_reason = None\<rparr>
                    in Inr (Some entry,
                         d\<lparr>settlement_entries := settlement_entries d @ [entry],
                           db_next_id := Suc (db_next_id d)\<rparr>)))"

section \<open>Taking entitlement back\<close>

definition settlement_reversal_key :: "uuid \<Rightarrow> string" where
  "settlement_reversal_key eid = ''settlement-reversal:'' @ show_nat eid"

definition void_settlement_for_refund ::
  "timestamp \<Rightarrow> order \<Rightarrow> string \<Rightarrow> 'm database_scheme \<Rightarrow> 'm database_scheme" where
  "void_settlement_for_refund now o1 reason d =
     (case settlement_of_order d (ord_id o1) of
        None \<Rightarrow> d
      | Some entry \<Rightarrow>
          if set_status entry = SETTLEMENT_VOIDED then d
          else if set_status entry \<in> set REVERSIBLE_SETTLEMENT_STATUSES then
            d\<lparr>settlement_entries :=
                put_row set_id (entry\<lparr>set_status := SETTLEMENT_VOIDED, set_voided_at := Some now,
                                      set_void_reason := Some reason\<rparr>) (settlement_entries d)\<rparr>
          else (let key = settlement_reversal_key (set_id entry) in
            case find (\<lambda>a. adj_idempotency_key a = key) (settlement_adjustments d) of
              Some _ \<Rightarrow> d
            | None \<Rightarrow>
                d\<lparr>settlement_adjustments := settlement_adjustments d @
                    [\<lparr>adj_id = db_next_id d, adj_settlement_entry_id = set_id entry,
                      adj_order_id = ord_id o1, adj_merchant_id = set_merchant_id entry,
                      adj_amount = - set_merchant_amount entry, adj_reason = reason,
                      adj_status = ''owed'', adj_idempotency_key = key\<rparr>],
                  db_next_id := Suc (db_next_id d)\<rparr>))"

subsection \<open>Frames\<close>

lemma ensure_settlement_frame [frame]:
  assumes "ensure_settlement_entry o1 d = Inr (e, d')"
  shows "orders d' = orders d" "deliveries d' = deliveries d" "order_items d' = order_items d"
    "store_products d' = store_products d" "payment_attempts d' = payment_attempts d"
    "payment_refunds d' = payment_refunds d" "cod_collections d' = cod_collections d"
    "delivery_proofs d' = delivery_proofs d" "users d' = users d" "stores d' = stores d"
    "merchants d' = merchants d" "status_transition_events d' = status_transition_events d"
    "settlement_adjustments d' = settlement_adjustments d" "rider_presences d' = rider_presences d"
  using assms by (auto simp: ensure_settlement_entry_def Let_def split: option.splits if_splits)

lemma void_settlement_frame [simp]:
  "orders (void_settlement_for_refund now o1 r d) = orders d"
  "deliveries (void_settlement_for_refund now o1 r d) = deliveries d"
  "order_items (void_settlement_for_refund now o1 r d) = order_items d"
  "store_products (void_settlement_for_refund now o1 r d) = store_products d"
  "payment_attempts (void_settlement_for_refund now o1 r d) = payment_attempts d"
  "payment_refunds (void_settlement_for_refund now o1 r d) = payment_refunds d"
  "cod_collections (void_settlement_for_refund now o1 r d) = cod_collections d"
  "delivery_proofs (void_settlement_for_refund now o1 r d) = delivery_proofs d"
  "users (void_settlement_for_refund now o1 r d) = users d"
  "stores (void_settlement_for_refund now o1 r d) = stores d"
  "merchants (void_settlement_for_refund now o1 r d) = merchants d"
  "status_transition_events (void_settlement_for_refund now o1 r d) = status_transition_events d"
  "rider_presences (void_settlement_for_refund now o1 r d) = rider_presences d"
  by (auto simp: void_settlement_for_refund_def Let_def split: option.split)

section \<open>The ledger records an entitlement once\<close>

definition ensure_settlement :: "uuid \<Rightarrow> 'm database_scheme \<Rightarrow> 'm database_scheme" where
  "ensure_settlement oid d =
     (case get_order d oid of
        None \<Rightarrow> d
      | Some o1 \<Rightarrow> (case ensure_settlement_entry o1 d of Inl e \<Rightarrow> d | Inr (s, d') \<Rightarrow> d'))"

definition settlements_of :: "'m database_scheme \<Rightarrow> uuid \<Rightarrow> settlement_entry list" where
  "settlements_of d oid = filter (\<lambda>e. set_order_id e = oid) (settlement_entries d)"

lemma settlement_of_order_None: "settlement_of_order d oid = None \<longleftrightarrow> settlements_of d oid = []"
  by (auto simp: settlement_of_order_def settlements_of_def find_None_iff filter_empty_conv)

text \<open>What a successful call did: it found the entry, or the order is not eligible, or it appended one.\<close>

lemma ensure_settlement_entryD:
  assumes "ensure_settlement_entry o1 d = Inr (s, d')"
  shows "(\<exists>e. settlement_of_order d (ord_id o1) = Some e \<and> s = Some e \<and> d' = d)
    \<or> (settlement_of_order d (ord_id o1) = None \<and> \<not> settlement_is_eligible d o1 \<and> s = None \<and> d' = d)
    \<or> (\<exists>e. settlement_of_order d (ord_id o1) = None \<and> settlement_is_eligible d o1 \<and> s = Some e
         \<and> settlement_entries d' = settlement_entries d @ [e] \<and> set_order_id e = ord_id o1
         \<and> set_status e = SETTLEMENT_PENDING \<and> set_gross_amount e = ord_total o1
         \<and> set_merchant_amount e = ord_subtotal o1)"
  using assms by (auto simp: ensure_settlement_entry_def Let_def split: option.splits if_splits)

interpretation settlement_ledger: once_ledger settlement_of_order ensure_settlement settlements_of
proof unfold_locales
  fix d :: "'m database_scheme" and k k' :: uuid
  note cases = ensure_settlement_def [of k d] settlements_of_def
  show "settlement_of_order d k = None \<longleftrightarrow> settlements_of d k = []"
    by (rule settlement_of_order_None)
  show "settlement_of_order d k \<noteq> None \<Longrightarrow> ensure_settlement k d = d"
    by (auto simp: ensure_settlement_def ensure_settlement_entry_def dest!: get_order_id
        split: option.splits)
  show "settlement_of_order d k = None \<Longrightarrow>
      ensure_settlement k d = d \<or> settlement_of_order (ensure_settlement k d) k \<noteq> None"
    by (auto simp: ensure_settlement_def settlement_of_order_None settlements_of_def
        split: option.split sum.split dest!: ensure_settlement_entryD get_order_id)
  show "k' \<noteq> k \<Longrightarrow> settlements_of (ensure_settlement k d) k' = settlements_of d k'"
    by (auto simp: cases split: option.split sum.split dest!: ensure_settlement_entryD get_order_id)
  show "length (settlements_of (ensure_settlement k d) k) \<le> Suc (length (settlements_of d k))"
    by (auto simp: cases split: option.split sum.split dest!: ensure_settlement_entryD get_order_id)
qed

text \<open>A void or a reversal adds no entry and leaves no pending entry for the order.\<close>

lemma void_settlement_ids [simp]:
  "map set_id (settlement_entries (void_settlement_for_refund now o1 r d))
     = map set_id (settlement_entries d)"
  by (auto simp: void_settlement_for_refund_def Let_def split: option.split)

lemma void_settlement_not_pending:
  assumes "distinct (map set_id (settlement_entries d))"
    and "length (settlements_of d (ord_id o1)) \<le> 1"
    and "e \<in> set (settlement_entries (void_settlement_for_refund now o1 r d))"
    and "set_order_id e = ord_id o1"
  shows "set_status e \<noteq> SETTLEMENT_PENDING"
proof (cases "settlement_of_order d (ord_id o1)")
  case None
  with assms(3,4) show ?thesis
    by (simp add: void_settlement_for_refund_def settlement_of_order_def)
      (auto simp: find_None_iff)
next
  case (Some x)
  then have x: "x \<in> set (settlements_of d (ord_id o1))"
    by (auto simp: settlement_of_order_def settlements_of_def dest: find_Some_in)
  have only: "e = x" if "e \<in> set (settlement_entries d)" "set_order_id e = ord_id o1" for e
  proof -
    from that have "e \<in> set (settlements_of d (ord_id o1))" by (simp add: settlements_of_def)
    with x assms(2) show ?thesis by (cases "settlements_of d (ord_id o1)") auto
  qed
  have xo: "set_order_id x = ord_id o1" and xin: "x \<in> set (settlement_entries d)"
    using x by (auto simp: settlements_of_def)
  have entries: "settlement_entries (void_settlement_for_refund now o1 r d) =
      (if set_status x = SETTLEMENT_PENDING
       then put_row set_id (x\<lparr>set_status := SETTLEMENT_VOIDED, set_voided_at := Some now,
                              set_void_reason := Some r\<rparr>) (settlement_entries d)
       else settlement_entries d)"
    using Some by (simp add: void_settlement_for_refund_def Let_def settlement_constants
        split: option.split)
  show ?thesis
  proof (cases "set_status x = SETTLEMENT_PENDING")
    case True
    with assms(3) entries have
      "e \<in> set (put_row set_id (x\<lparr>set_status := SETTLEMENT_VOIDED, set_voided_at := Some now,
                              set_void_reason := Some r\<rparr>) (settlement_entries d))" by simp
    then show ?thesis
    proof (cases rule: in_put_rowE)
      case 1
      then show ?thesis by (simp add: settlement_constants)
    next
      case 2
      with only [OF _ assms(4)] show ?thesis by simp
    qed
  next
    case False
    with assms(3,4) entries only show ?thesis by auto
  qed
qed

end
