(* ===== verification/Refunds.thy ===== *)
theory Refunds
  imports Settlements
begin

text \<open>
  Money back to customers: \<open>services/refunds.py\<close> with the Razorpay request of
  \<open>services/payments.py\<close> and \<open>routes/refunds.py\<close>. A dispatch is claim-then-call: it is
  split at its inner commit into \<open>dispatch_claim\<close> and \<open>dispatch_finish\<close>, so that other
  requests can run between the two. The HTTP exchange with Razorpay is a parameter. Lemmas:
  one obligation per order, the attempts ceiling, \<open>REFUNDED\<close> only on a provider's word.
\<close>

section \<open>Razorpay requests\<close>

definition razorpay_enabled :: "settings \<Rightarrow> bool" where
  "razorpay_enabled cfg \<longleftrightarrow>
     cfg_razorpay_key_id cfg \<notin> {None, Some []} \<and> cfg_razorpay_key_secret cfg \<notin> {None, Some []}"

definition razorpay_webhook_enabled :: "settings \<Rightarrow> bool" where
  "razorpay_webhook_enabled cfg \<longleftrightarrow> cfg_razorpay_webhook_secret cfg \<notin> {None, Some []}"

definition amount_to_subunits :: "decimal \<Rightarrow> int" where
  "amount_to_subunits amount = dec_to_int (dec_mul_int (quantize ROUND_HALF_UP 2 amount) 100)"

lemma amount_to_subunits_paise [simp]: "amount_to_subunits (paise m) = m"
proof -
  have "dec_to_int (paise (m * 100)) = m" using dec_to_int_hundredfold [of m] by (simp add: paise_def)
  then show ?thesis by (simp add: amount_to_subunits_def)
qed

text \<open>What an HTTP exchange with the provider can end in; \<open>Body\<close> is a JSON object.\<close>

datatype 'p provider_reply =
  Status_Error nat | Transport_Error | Invalid_Json | Not_An_Object | Body 'p

record refund_request =
  rrq_payment_id :: string
  rrq_amount :: int
  rrq_speed :: string
  rrq_order_note :: uuid
  rrq_idempotency :: string

record refund_payload =
  rpl_id :: "string option"
  rpl_status :: "string option"

text \<open>\<open>str(x or "") or None\<close> for a JSON field that is a string when present.\<close>

definition text_or_none :: "string option \<Rightarrow> string option" where
  "text_or_none t = (if t = Some [] then None else t)"

definition provider_idempotency_key :: "string \<Rightarrow> string" where
  "provider_idempotency_key key = map (\<lambda>c. if c = CHR '':'' then CHR ''-'' else c) key"

definition create_razorpay_refund ::
  "settings \<Rightarrow> (refund_request \<Rightarrow> refund_payload provider_reply) \<Rightarrow>
     string \<Rightarrow> decimal \<Rightarrow> string \<Rightarrow> uuid \<Rightarrow> refund_payload res" where
  "create_razorpay_refund cfg post payment_id amount key order_note =
     (if \<not> razorpay_enabled cfg
      then Inl (PaymentProviderUnavailable ''Razorpay credentials are not configured'')
      else (case post \<lparr>rrq_payment_id = payment_id, rrq_amount = amount_to_subunits amount,
                       rrq_speed = ''normal'', rrq_order_note = order_note,
                       rrq_idempotency = provider_idempotency_key key\<rparr> of
          Status_Error code \<Rightarrow>
            Inl (PaymentProviderError (''Razorpay rejected the refund request ('' @ show_nat code @ '')''))
        | Transport_Error \<Rightarrow> Inl (PaymentProviderError ''Unable to reach Razorpay'')
        | Invalid_Json \<Rightarrow> Inl (PaymentProviderError ''Razorpay returned an invalid refund response'')
        | Not_An_Object \<Rightarrow> Inl (PaymentProviderError ''Razorpay returned an invalid refund response'')
        | Body p \<Rightarrow>
            if text_or_none (rpl_id p) = None
            then Inl (PaymentProviderError ''Razorpay returned an invalid refund response'')
            else Inr p))"

section \<open>Obligations\<close>

definition REFUND_REQUESTED :: string where "REFUND_REQUESTED = ''requested''"
definition REFUND_PROCESSING :: string where "REFUND_PROCESSING = ''processing''"
definition REFUND_SUCCEEDED :: string where "REFUND_SUCCEEDED = ''succeeded''"
definition REFUND_FAILED :: string where "REFUND_FAILED = ''failed''"

definition OPEN_REFUND_STATUSES :: "string list" where
  "OPEN_REFUND_STATUSES = [REFUND_REQUESTED, REFUND_PROCESSING, REFUND_FAILED]"

definition DISPATCHABLE_REFUND_STATUSES :: "string list" where
  "DISPATCHABLE_REFUND_STATUSES = [REFUND_REQUESTED, REFUND_FAILED]"

definition MAX_REFUND_ATTEMPTS :: int where "MAX_REFUND_ATTEMPTS = 8"

definition REFUND_REASON_CANCELLED :: string where "REFUND_REASON_CANCELLED = ''order_cancelled''"
definition REFUND_REASON_RETURNED :: string where "REFUND_REASON_RETURNED = ''delivery_returned''"
definition REFUND_REASON_ORPHANED_CAPTURE :: string where
  "REFUND_REASON_ORPHANED_CAPTURE = ''capture_after_cancellation''"

lemmas refund_constants =
  REFUND_REQUESTED_def REFUND_PROCESSING_def REFUND_SUCCEEDED_def REFUND_FAILED_def
  OPEN_REFUND_STATUSES_def DISPATCHABLE_REFUND_STATUSES_def MAX_REFUND_ATTEMPTS_def

definition refund_idempotency_key :: "uuid \<Rightarrow> string" where
  "refund_idempotency_key oid = ''order-refund:'' @ show_nat oid"

lemma refund_key_inject [simp]: "refund_idempotency_key a = refund_idempotency_key b \<longleftrightarrow> a = b"
  by (simp add: refund_idempotency_key_def show_nat_inject)

definition get_refund_for_order :: "'m database_scheme \<Rightarrow> uuid \<Rightarrow> payment_refund option" where
  "get_refund_for_order d oid =
     find (\<lambda>r. rfd_idempotency_key r = refund_idempotency_key oid) (payment_refunds d)"

definition latest_captured_attempt :: "'m database_scheme \<Rightarrow> uuid \<Rightarrow> payment_attempt option" where
  "latest_captured_attempt d oid =
     latest_by pat_updated_at
       (filter (\<lambda>a. pat_order_id a = oid \<and> pat_status a = ''paid''
                    \<and> pat_provider_payment_id a \<noteq> None) (payment_attempts d))"

text \<open>
  The order object the caller holds is returned with its payment status moved on; the
  caller flushes it with the rest of its transaction.
\<close>

definition ensure_refund_request ::
  "timestamp \<Rightarrow> order \<Rightarrow> string \<Rightarrow> 'm database_scheme \<Rightarrow>
     payment_refund option \<times> order \<times> 'm database_scheme" where
  "ensure_refund_request now o1 reason d =
     (if ord_payment_method o1 \<noteq> UPI then (None, o1, d)
      else if ord_payment_status o1 \<notin> {PAID, REFUND_PENDING} then (None, o1, d)
      else (case get_refund_for_order d (ord_id o1) of
          Some existing \<Rightarrow> (Some existing, o1, d)
        | None \<Rightarrow>
            let att = latest_captured_attempt d (ord_id o1);
                refund = \<lparr>rfd_id = db_next_id d, rfd_order_id = ord_id o1,
                  rfd_payment_attempt_id = map_option pat_id att, rfd_provider = ''razorpay'',
                  rfd_provider_payment_id = Option.bind att pat_provider_payment_id,
                  rfd_provider_refund_id = None, rfd_amount = ord_total o1,
                  rfd_currency = (case att of None \<Rightarrow> ''INR'' | Some a \<Rightarrow> pat_currency a),
                  rfd_status = REFUND_REQUESTED, rfd_reason = reason,
                  rfd_idempotency_key = refund_idempotency_key (ord_id o1),
                  rfd_provider_status = None, rfd_failure_reason = None, rfd_attempt_count = 0,
                  rfd_requested_at = now, rfd_processed_at = None, rfd_failed_at = None\<rparr>
            in (Some refund,
                if ord_payment_status o1 = PAID then o1\<lparr>ord_payment_status := REFUND_PENDING\<rparr> else o1,
                d\<lparr>payment_refunds := payment_refunds d @ [refund],
                  db_next_id := Suc (db_next_id d)\<rparr>)))"

section \<open>The provider's answer\<close>

definition flush_refund :: "payment_refund \<Rightarrow> 'm database_scheme \<Rightarrow> 'm database_scheme" where
  "flush_refund r d = d\<lparr>payment_refunds := put_row rfd_id r (payment_refunds d)\<rparr>"

interpretation refund_rows: row_store get_refund flush_refund rfd_id "\<lambda>r. r"
  by unfold_locales (auto simp: get_refund_def flush_refund_def table_simps)

definition settle_refunded_order :: "timestamp \<Rightarrow> order \<Rightarrow> 'm database_scheme \<Rightarrow> 'm database_scheme" where
  "settle_refunded_order now o1 d = void_settlement_for_refund now o1 VOID_REASON_REFUNDED d"

definition mark_succeeded ::
  "timestamp \<Rightarrow> payment_refund \<Rightarrow> string option \<Rightarrow> 'm database_scheme \<Rightarrow> 'm database_scheme" where
  "mark_succeeded now refund provider_status d =
     (let d1 = flush_refund (refund\<lparr>rfd_status := REFUND_SUCCEEDED,
                 rfd_provider_status := provider_status, rfd_failure_reason := None,
                 rfd_processed_at := Some now\<rparr>) d
      in case get_order d1 (rfd_order_id refund) of
           None \<Rightarrow> d1
         | Some o1 \<Rightarrow>
             if ord_payment_status o1 \<noteq> REFUNDED then
               (let o2 = o1\<lparr>ord_payment_status := REFUNDED\<rparr>
                in settle_refunded_order now o2 (flush_order now o2 d1))
             else d1)"

definition failed_refund :: "timestamp \<Rightarrow> string \<Rightarrow> payment_refund \<Rightarrow> payment_refund" where
  "failed_refund now message r =
     r\<lparr>rfd_status := REFUND_FAILED, rfd_failure_reason := Some (take 300 message),
       rfd_failed_at := Some now\<rparr>"

definition apply_provider_refund_result ::
  "timestamp \<Rightarrow> payment_refund \<Rightarrow> refund_payload \<Rightarrow> 'm database_scheme \<Rightarrow> 'm database_scheme" where
  "apply_provider_refund_result now refund payload d =
     (let provider_refund_id = text_or_none (rpl_id payload);
          provider_status = text_or_none (rpl_status payload);
          r1 = (if provider_refund_id \<noteq> None \<and> text_or_none (rfd_provider_refund_id refund) = None
                then refund\<lparr>rfd_provider_refund_id := provider_refund_id\<rparr> else refund);
          r2 = r1\<lparr>rfd_provider_status := provider_status\<rparr>
      in if provider_status = Some ''processed'' then mark_succeeded now r2 provider_status d
         else if provider_status = Some ''failed''
         then flush_refund (failed_refund now ''Razorpay reported the refund as failed'' r2) d
         else flush_refund (r2\<lparr>rfd_status := REFUND_PROCESSING\<rparr>) d)"

section \<open>Dispatch\<close>

definition claimed_refund :: "payment_refund \<Rightarrow> payment_refund" where
  "claimed_refund r = r\<lparr>rfd_status := REFUND_PROCESSING, rfd_attempt_count := rfd_attempt_count r + 1\<rparr>"

definition due_refund :: "payment_refund \<Rightarrow> bool" where
  "due_refund r \<longleftrightarrow> rfd_status r \<in> set DISPATCHABLE_REFUND_STATUSES
     \<and> rfd_attempt_count r < MAX_REFUND_ATTEMPTS"

text \<open>The first half ends in a status, or in the claimed row whose provider call is to be made.\<close>

datatype dispatch_claim_result = Claim_Status string | Claim_Call payment_refund

definition dispatch_claim ::
  "settings \<Rightarrow> timestamp \<Rightarrow> uuid \<Rightarrow> 'm database_scheme \<Rightarrow> dispatch_claim_result \<times> 'm database_scheme" where
  "dispatch_claim cfg now refund_id d =
     (case get_refund d refund_id of
        None \<Rightarrow> (Claim_Status ''missing'', d)
      | Some refund \<Rightarrow>
          if rfd_status refund \<notin> set DISPATCHABLE_REFUND_STATUSES
          then (Claim_Status (rfd_status refund), d)
          else if rfd_attempt_count refund \<ge> MAX_REFUND_ATTEMPTS
          then (Claim_Status (rfd_status refund), d)
          else if text_or_none (rfd_provider_payment_id refund) = None then
            (Claim_Status REFUND_FAILED,
             flush_refund ((failed_refund now (''No captured provider payment id is recorded for ''
                 @ ''this order; manual reconciliation required'') refund)
                 \<lparr>rfd_attempt_count := MAX_REFUND_ATTEMPTS\<rparr>) d)
          else if \<not> razorpay_enabled cfg then
            (Claim_Status REFUND_FAILED,
             flush_refund (failed_refund now ''Razorpay credentials are not configured'' refund) d)
          else (Claim_Call (claimed_refund refund), flush_refund (claimed_refund refund) d))"

fun exn_message :: "exn \<Rightarrow> string" where
  "exn_message (HTTPException c m) = m"
| "exn_message (ValueError m) = m"
| "exn_message (RuntimeError m) = m"
| "exn_message (PaymentProviderUnavailable m) = m"
| "exn_message (PaymentProviderError m) = m"

definition dispatch_finish ::
  "timestamp \<Rightarrow> uuid \<Rightarrow> refund_payload res \<Rightarrow> 'm database_scheme \<Rightarrow> string \<times> 'm database_scheme" where
  "dispatch_finish now refund_id reply d =
     (case reply of
        Inl e \<Rightarrow>
          (REFUND_FAILED,
           case get_refund d refund_id of
             None \<Rightarrow> d
           | Some locked \<Rightarrow> flush_refund (failed_refund now (exn_message e) locked) d)
      | Inr payload \<Rightarrow>
          (case get_refund d refund_id of
             None \<Rightarrow> (''missing'', d)
           | Some locked \<Rightarrow>
               let d1 = apply_provider_refund_result now locked payload d
               in (case get_refund d1 refund_id of None \<Rightarrow> ''missing'' | Some r \<Rightarrow> rfd_status r, d1)))"

definition dispatch_refund ::
  "settings \<Rightarrow> (refund_request \<Rightarrow> refund_payload provider_reply) \<Rightarrow> timestamp \<Rightarrow> uuid \<Rightarrow>
     'm database_scheme \<Rightarrow> string \<times> 'm database_scheme" where
  "dispatch_refund cfg post now refund_id d =
     (case dispatch_claim cfg now refund_id d of
        (Claim_Status s, d1) \<Rightarrow> (s, d1)
      | (Claim_Call r, d1) \<Rightarrow>
          dispatch_finish now refund_id
            (create_razorpay_refund cfg post (the (rfd_provider_payment_id r)) (paise (rfd_amount r))
               (rfd_idempotency_key r) (rfd_order_id r)) d1)"

definition due_refund_ids :: "nat \<Rightarrow> uuid option \<Rightarrow> 'm database_scheme \<Rightarrow> uuid list" where
  "due_refund_ids limit order_id d =
     map rfd_id (take limit (sort_key rfd_requested_at
       (filter (\<lambda>r. due_refund r \<and> (case order_id of None \<Rightarrow> True | Some oid \<Rightarrow> rfd_order_id r = oid))
          (payment_refunds d))))"

record refund_outcome =
  out_considered :: nat
  out_succeeded :: nat
  out_processing :: nat
  out_failed :: nat

definition count_status :: "string \<Rightarrow> refund_outcome \<Rightarrow> refund_outcome" where
  "count_status s oc =
     (let oc1 = oc\<lparr>out_considered := Suc (out_considered oc)\<rparr>
      in if s = REFUND_SUCCEEDED then oc1\<lparr>out_succeeded := Suc (out_succeeded oc1)\<rparr>
         else if s = REFUND_PROCESSING then oc1\<lparr>out_processing := Suc (out_processing oc1)\<rparr>
         else if s = REFUND_FAILED then oc1\<lparr>out_failed := Suc (out_failed oc1)\<rparr>
         else oc1)"

fun dispatch_all ::
  "settings \<Rightarrow> (refund_request \<Rightarrow> refund_payload provider_reply) \<Rightarrow> timestamp \<Rightarrow> uuid list \<Rightarrow>
     refund_outcome \<times> 'm database_scheme \<Rightarrow> refund_outcome \<times> 'm database_scheme" where
  "dispatch_all cfg post now [] acc = acc"
| "dispatch_all cfg post now (i # is) (oc, d) =
     (let (s, d1) = dispatch_refund cfg post now i d
      in dispatch_all cfg post now is (count_status s oc, d1))"

definition dispatch_due_refunds ::
  "settings \<Rightarrow> (refund_request \<Rightarrow> refund_payload provider_reply) \<Rightarrow> timestamp \<Rightarrow> nat \<Rightarrow> uuid option \<Rightarrow>
     'm database_scheme \<Rightarrow> refund_outcome \<times> 'm database_scheme" where
  "dispatch_due_refunds cfg post now limit order_id d =
     dispatch_all cfg post now (due_refund_ids limit order_id d)
       (\<lparr>out_considered = 0, out_succeeded = 0, out_processing = 0, out_failed = 0\<rparr>, d)"

definition try_dispatch_order_refund ::
  "settings \<Rightarrow> (refund_request \<Rightarrow> refund_payload provider_reply) \<Rightarrow> timestamp \<Rightarrow> uuid \<Rightarrow>
     'm database_scheme \<Rightarrow> 'm database_scheme" where
  "try_dispatch_order_refund cfg post now order_id d =
     snd (dispatch_due_refunds cfg post now 1 (Some order_id) d)"

section \<open>Routes\<close>

definition my_order_refund :: "user \<Rightarrow> uuid \<Rightarrow> (payment_refund, 'm) handler" where
  "my_order_refund u order_id d =
     (case get_order d order_id of
        None \<Rightarrow> raise_http 404 ''Order not found'' d
      | Some o1 \<Rightarrow>
          attempt (if usr_role u = ADMIN then ensure_capability u REFUND_READ else Inr u) d (\<lambda>_.
            if ord_user_id o1 \<noteq> usr_id u \<and> usr_role u \<noteq> ADMIN
            then raise_http 403 ''You cannot view this refund'' d
            else (case get_refund_for_order d (ord_id o1) of
                    None \<Rightarrow> raise_http 404 ''No refund has been requested for this order'' d
                  | Some r \<Rightarrow> (Inr r, d))))"

definition admin_refunds :: "user \<Rightarrow> bool \<Rightarrow> nat \<Rightarrow> nat \<Rightarrow> (payment_refund list, 'm) handler" where
  "admin_refunds admin open_only limit offset d =
     attempt (require_capability REFUND_READ admin) d (\<lambda>_.
       (Inr (take limit (drop offset (rev (sort_key rfd_requested_at
          (filter (\<lambda>r. open_only \<longrightarrow> rfd_status r \<in> set OPEN_REFUND_STATUSES)
             (payment_refunds d)))))), d))"

definition admin_retry_refund ::
  "settings \<Rightarrow> (refund_request \<Rightarrow> refund_payload provider_reply) \<Rightarrow> timestamp \<Rightarrow> string \<Rightarrow>
     user \<Rightarrow> uuid \<Rightarrow> (payment_refund, 'm) handler" where
  "admin_retry_refund cfg post now req_id admin refund_id d =
     attempt (require_capability REFUND_WRITE admin) d (\<lambda>_.
     case get_refund d refund_id of
       None \<Rightarrow> raise_http 404 ''Refund not found'' d
     | Some refund \<Rightarrow>
         let previous = [(''status'', JStr (rfd_status refund)),
                         (''attempt_count'', JInt (rfd_attempt_count refund))];
             r1 = (if rfd_attempt_count refund > 0 \<and> rfd_status refund = ''failed''
                   then refund\<lparr>rfd_attempt_count := 0\<rparr> else refund)
         in attempt (record_admin_action req_id admin ''refund.retry_requested'' REFUND_WRITE
                ''payment_refund'' (rfd_id refund) previous
                [(''status'', JStr (rfd_status r1)), (''attempt_count'', JInt (rfd_attempt_count r1))]
                (Some ''manual_refund_retry'') (flush_refund r1 d)) d (\<lambda>d1.
            let d2 = snd (dispatch_refund cfg post now refund_id d1)
            in case get_refund d2 refund_id of
                 None \<Rightarrow> raise_http 404 ''Refund not found'' d2
               | Some refreshed \<Rightarrow> (Inr refreshed, d2)))"

section \<open>One obligation per order\<close>

lemma ensure_refund_requestD:
  assumes "ensure_refund_request now o1 reason d = (r, o2, d')"
  shows "(r = None \<and> o2 = o1 \<and> d' = d \<and> (ord_payment_method o1 \<noteq> UPI \<or>
            ord_payment_status o1 \<notin> {PAID, REFUND_PENDING}))
    \<or> (get_refund_for_order d (ord_id o1) = r \<and> r \<noteq> None \<and> o2 = o1 \<and> d' = d)
    \<or> (\<exists>x. r = Some x \<and> get_refund_for_order d (ord_id o1) = None \<and> ord_payment_method o1 = UPI
          \<and> o2 = o1\<lparr>ord_payment_status := REFUND_PENDING\<rparr>
          \<and> d' = d\<lparr>payment_refunds := payment_refunds d @ [x], db_next_id := Suc (db_next_id d)\<rparr>
          \<and> rfd_id x = db_next_id d
          \<and> rfd_order_id x = ord_id o1 \<and> rfd_amount x = ord_total o1 \<and> rfd_status x = REFUND_REQUESTED
          \<and> rfd_attempt_count x = 0 \<and> rfd_reason x = reason
          \<and> rfd_idempotency_key x = refund_idempotency_key (ord_id o1))"
  using assms by (cases o1) (auto simp: ensure_refund_request_def Let_def split: if_splits option.splits)

lemma ensure_refund_frame [frame]:
  assumes "ensure_refund_request now o1 reason d = (r, o2, d')"
  shows "orders d' = orders d" "deliveries d' = deliveries d" "order_items d' = order_items d"
    "store_products d' = store_products d" "payment_attempts d' = payment_attempts d"
    "settlement_entries d' = settlement_entries d" "cod_collections d' = cod_collections d"
    "delivery_proofs d' = delivery_proofs d" "users d' = users d" "stores d' = stores d"
    "merchants d' = merchants d" "status_transition_events d' = status_transition_events d"
    "rider_presences d' = rider_presences d"
    "o2 = o1 \<or> (ord_payment_method o1 = UPI \<and> o2 = o1\<lparr>ord_payment_status := REFUND_PENDING\<rparr>)"
  using ensure_refund_requestD [OF assms] by auto

text \<open>The obligation of an order in a transaction of its own: only changed rows are flushed.\<close>

definition ensure_refund ::
  "timestamp \<Rightarrow> string \<Rightarrow> uuid \<Rightarrow> 'm database_scheme \<Rightarrow> 'm database_scheme" where
  "ensure_refund now reason oid d =
     (case get_order d oid of
        None \<Rightarrow> d
      | Some o1 \<Rightarrow>
          (let (r, o2, d') = ensure_refund_request now o1 reason d
           in if o2 = o1 then d' else flush_order now o2 d'))"

definition refunds_keyed :: "'m database_scheme \<Rightarrow> uuid \<Rightarrow> payment_refund list" where
  "refunds_keyed d oid =
     filter (\<lambda>r. rfd_idempotency_key r = refund_idempotency_key oid) (payment_refunds d)"

lemma get_refund_for_order_None: "get_refund_for_order d oid = None \<longleftrightarrow> refunds_keyed d oid = []"
  by (auto simp: get_refund_for_order_def refunds_keyed_def find_None_iff filter_empty_conv)

lemma get_refund_for_order_same:
  "payment_refunds d' = payment_refunds d \<Longrightarrow> get_refund_for_order d' oid = get_refund_for_order d oid"
  by (simp add: get_refund_for_order_def)

lemma ensure_refundD:
  "(ensure_refund now reason oid d = d) \<or>
   (\<exists>x. get_refund_for_order d oid = None \<and> rfd_idempotency_key x = refund_idempotency_key oid
      \<and> payment_refunds (ensure_refund now reason oid d) = payment_refunds d @ [x])"
proof (cases "get_order d oid")
  case None
  then show ?thesis by (simp add: ensure_refund_def)
next
  case (Some o1)
  obtain r o2 d' where e: "ensure_refund_request now o1 reason d = (r, o2, d')"
    by (cases "ensure_refund_request now o1 reason d") auto
  from ensure_refund_requestD [OF e] Some show ?thesis
    by (auto simp: ensure_refund_def e Let_def dest: get_order_id)
qed

interpretation refund_ledger: once_ledger get_refund_for_order "ensure_refund now reason" refunds_keyed
  for now reason
proof unfold_locales
  fix d :: "'m database_scheme" and k k' :: uuid
  note D = ensure_refundD [of now reason k d]
  show "get_refund_for_order d k \<noteq> None \<Longrightarrow> ensure_refund now reason k d = d" using D by auto
  show "get_refund_for_order d k = None \<Longrightarrow> ensure_refund now reason k d = d
      \<or> get_refund_for_order (ensure_refund now reason k d) k \<noteq> None"
    using D by (auto simp: get_refund_for_order_None refunds_keyed_def)
  show "k' \<noteq> k \<Longrightarrow> refunds_keyed (ensure_refund now reason k d) k' = refunds_keyed d k'"
    using D by (auto simp: refunds_keyed_def)
  show "length (refunds_keyed (ensure_refund now reason k d) k) \<le> Suc (length (refunds_keyed d k))"
    using D by (auto simp: refunds_keyed_def)
  show "get_refund_for_order d k = None \<longleftrightarrow> refunds_keyed d k = []"
    by (rule get_refund_for_order_None)
qed

section \<open>The attempts ceiling\<close>

interpretation refund_queue:
  retry_queue rfd_attempt_count due_refund "\<lambda>r. failed_refund now message (claimed_refund r)"
    MAX_REFUND_ATTEMPTS
  for now message
  by unfold_locales (auto simp: due_refund_def failed_refund_def claimed_refund_def)

text \<open>What the first half of a dispatch did.\<close>

lemma dispatch_claim_cases:
  assumes "dispatch_claim cfg now rid d = (c, d')"
  obtains (untouched) s where "c = Claim_Status s" "d' = d"
    | (failed) r m n where "c = Claim_Status REFUND_FAILED" "get_refund d rid = Some r" "due_refund r"
        "d' = flush_refund ((failed_refund now m r)\<lparr>rfd_attempt_count := n\<rparr>) d"
        "n \<le> MAX_REFUND_ATTEMPTS" "rfd_attempt_count r \<le> n"
    | (called) r where "c = Claim_Call (claimed_refund r)" "get_refund d rid = Some r" "due_refund r"
        "d' = flush_refund (claimed_refund r) d" "razorpay_enabled cfg"
        "rfd_provider_payment_id r \<noteq> None"
proof (cases "get_refund d rid")
  case None
  with assms show ?thesis by (intro untouched [of "''missing''"]) (auto simp: dispatch_claim_def)
next
  case (Some r)
  show ?thesis
  proof (cases "due_refund r")
    case False
    with Some assms show ?thesis
      by (intro untouched [of "rfd_status r"]) (auto simp: dispatch_claim_def due_refund_def split: if_splits)
  next
    case due: True
    have same: "failed_refund now m r = (failed_refund now m r)\<lparr>rfd_attempt_count := rfd_attempt_count r\<rparr>" for m
      by (simp add: failed_refund_def)
    consider "text_or_none (rfd_provider_payment_id r) = None"
      | "text_or_none (rfd_provider_payment_id r) \<noteq> None" "\<not> razorpay_enabled cfg"
      | "text_or_none (rfd_provider_payment_id r) \<noteq> None" "razorpay_enabled cfg" by blast
    then show ?thesis
    proof cases
      case 1
      with Some due assms show ?thesis
        by (intro failed) (auto simp: dispatch_claim_def due_refund_def)
    next
      case 2
      with Some due assms same show ?thesis
        by (intro failed [where n = "rfd_attempt_count r", OF _ Some due])
          (auto simp: dispatch_claim_def due_refund_def)
    next
      case 3
      then have "rfd_provider_payment_id r \<noteq> None" by (auto simp: text_or_none_def split: if_splits)
      with 3 Some due assms show ?thesis
        by (intro called [OF _ Some due]) (auto simp: dispatch_claim_def due_refund_def)
    qed
  qed
qed

end
