(* ===== verification/Coherence.thy ===== *)
theory Coherence
  imports Refunds
begin

text \<open>
  The abstract specification of fulfilment. What one order promises is a \<open>fulfilment\<close>:
  its status, payment, stock guard, delivery and refund obligation. \<open>core_step\<close> is the
  machine a single order may follow, \<open>coherent\<close> its invariant, and \<open>step_ok d d'\<close> says
  that a request that turned database \<open>d\<close> into \<open>d'\<close> kept the tables well formed and moved
  every order only along \<open>core_step\<close>. The handlers' theories prove \<open>step_ok\<close> for each
  handler (a simulation), so the invariant is proved once, here.
\<close>

section \<open>The view of one order\<close>

record fulfilment =
  ful_status :: order_status
  ful_method :: payment_method
  ful_payment :: payment_status
  ful_restored :: bool
  ful_delivery :: "(delivery_status \<times> uuid option \<times> bool) option"
  ful_refund :: bool

definition delivery_part :: "delivery \<Rightarrow> delivery_status \<times> uuid option \<times> bool" where
  "delivery_part x = (dlv_status x, dlv_delivery_partner_id x, dlv_picked_up_at x \<noteq> None)"

definition view_of :: "order \<Rightarrow> delivery option \<Rightarrow> bool \<Rightarrow> fulfilment" where
  "view_of o1 x r =
     \<lparr>ful_status = ord_status o1, ful_method = ord_payment_method o1,
      ful_payment = ord_payment_status o1, ful_restored = (ord_stock_restored_at o1 \<noteq> None),
      ful_delivery = map_option delivery_part x, ful_refund = r\<rparr>"

definition has_refund :: "'m database_scheme \<Rightarrow> uuid \<Rightarrow> bool" where
  "has_refund d oid \<longleftrightarrow> refund_of_order d oid \<noteq> None"

definition fulfilment_of :: "'m database_scheme \<Rightarrow> uuid \<Rightarrow> fulfilment option" where
  "fulfilment_of d oid =
     map_option (\<lambda>o1. view_of o1 (delivery_of_order d oid) (has_refund d oid))
       (get_order d oid)"

section \<open>The machine\<close>

definition gate :: "fulfilment \<Rightarrow> bool" where
  "gate v \<longleftrightarrow> ful_method v = COD \<or> ful_payment v = PAID"

text \<open>The obligation a cancellation or a return records.\<close>

definition owed :: "fulfilment \<Rightarrow> fulfilment" where
  "owed v = (if ful_method v = UPI \<and> ful_payment v \<in> {PAID, REFUND_PENDING} \<and> \<not> ful_refund v
             then v\<lparr>ful_payment := REFUND_PENDING, ful_refund := True\<rparr> else v)"

definition fresh_view :: "fulfilment \<Rightarrow> bool" where
  "fresh_view v \<longleftrightarrow> ful_status v = PLACED \<and> ful_payment v = PENDING \<and> \<not> ful_restored v
     \<and> ful_delivery v = Some (UNASSIGNED, None, False) \<and> \<not> ful_refund v"

inductive core_step :: "fulfilment \<Rightarrow> fulfilment \<Rightarrow> bool" where
  accept: "ful_status v = PLACED \<Longrightarrow> core_step v (v\<lparr>ful_status := ACCEPTED\<rparr>)"
| prepare: "ful_status v = ACCEPTED \<Longrightarrow> core_step v (v\<lparr>ful_status := PREPARING\<rparr>)"
| ready: "ful_status v = PREPARING \<Longrightarrow> gate v \<Longrightarrow> core_step v (v\<lparr>ful_status := READY\<rparr>)"
| cancel: "ful_status v = PLACED \<or> ful_status v = ACCEPTED \<Longrightarrow>
    core_step v (owed (v\<lparr>ful_status := CANCELLED, ful_restored := True\<rparr>))"
| assign: "ful_delivery v = Some (UNASSIGNED, p, k) \<Longrightarrow> ful_status v = READY \<Longrightarrow> gate v \<Longrightarrow>
    core_step v (v\<lparr>ful_delivery := Some (ASSIGNED, Some rider, k)\<rparr>)"
| admin_assign: "ful_delivery v = Some (UNASSIGNED, p, k) \<Longrightarrow>
    core_step v (v\<lparr>ful_delivery := Some (ASSIGNED, p, k)\<rparr>)"
| release: "ful_delivery v = Some (s, p, k) \<Longrightarrow> s \<in> {ASSIGNED, FAILED} \<Longrightarrow> ful_status v = READY \<Longrightarrow>
    core_step v (v\<lparr>ful_delivery := Some (UNASSIGNED, None, k)\<rparr>)"
| pickup: "ful_delivery v = Some (ASSIGNED, p, k) \<Longrightarrow> ful_status v = READY \<Longrightarrow> gate v \<Longrightarrow>
    core_step v (v\<lparr>ful_status := OUT_FOR_DELIVERY, ful_delivery := Some (PICKED_UP, p, True)\<rparr>)"
| fail: "ful_delivery v = Some (s, p, k) \<Longrightarrow> s \<in> {ASSIGNED, PICKED_UP} \<Longrightarrow>
    core_step v (v\<lparr>ful_delivery := Some (FAILED, p, k)\<rparr>)"
| goods_returned: "ful_delivery v = Some (FAILED, p, k) \<Longrightarrow> ful_status v = OUT_FOR_DELIVERY \<Longrightarrow>
    core_step v (owed (v\<lparr>ful_status := RETURNED, ful_restored := True\<rparr>))"
| complete: "ful_delivery v = Some (PICKED_UP, p, k) \<Longrightarrow> ful_status v = OUT_FOR_DELIVERY \<Longrightarrow> gate v \<Longrightarrow>
    core_step v (v\<lparr>ful_status := DELIVERED, ful_delivery := Some (DLV_DELIVERED, p, k),
                   ful_payment := (if ful_method v = COD then PAID else ful_payment v)\<rparr>)"
| captured: "ful_status v \<noteq> CANCELLED \<Longrightarrow> ful_payment v \<notin> {REFUNDED, REFUND_PENDING} \<Longrightarrow>
    core_step v (v\<lparr>ful_payment := PAID\<rparr>)"
| orphaned: "ful_status v = CANCELLED \<Longrightarrow> ful_payment v \<notin> {REFUNDED, REFUND_PENDING} \<Longrightarrow>
    core_step v (owed (v\<lparr>ful_payment := PAID\<rparr>))"
| unpaid: "ful_status v \<noteq> CANCELLED \<Longrightarrow> ful_payment v \<notin> {PAID, REFUNDED, REFUND_PENDING} \<Longrightarrow>
    core_step v (v\<lparr>ful_payment := PAYMENT_FAILED\<rparr>)"
| refunded: "ful_refund v \<Longrightarrow> core_step v (v\<lparr>ful_payment := REFUNDED\<rparr>)"

inductive_cases core_stepE: "core_step v w"

section \<open>The invariant\<close>

definition delivery_coherent :: "order_status \<Rightarrow> delivery_status \<Rightarrow> uuid option \<Rightarrow> bool \<Rightarrow> bool" where
  "delivery_coherent s ds rider picked \<longleftrightarrow>
     (ds = PICKED_UP \<longrightarrow> s = OUT_FOR_DELIVERY) \<and>
     (ds = DLV_DELIVERED \<longleftrightarrow> s = DELIVERED) \<and>
     (s = OUT_FOR_DELIVERY \<longrightarrow> ds \<in> {PICKED_UP, FAILED}) \<and>
     (s = RETURNED \<longrightarrow> ds = FAILED) \<and>
     (picked \<longleftrightarrow> s \<in> {OUT_FOR_DELIVERY, DELIVERED, RETURNED}) \<and>
     (ds = UNASSIGNED \<longrightarrow> rider = None)"

definition coherent :: "fulfilment \<Rightarrow> bool" where
  "coherent v \<longleftrightarrow>
     (ful_status v \<in> {READY, OUT_FOR_DELIVERY, DELIVERED} \<longrightarrow> gate v) \<and>
     (case ful_delivery v of None \<Rightarrow> False
      | Some (ds, rider, picked) \<Rightarrow> delivery_coherent (ful_status v) ds rider picked) \<and>
     (ful_restored v \<longleftrightarrow> ful_status v \<in> {CANCELLED, RETURNED}) \<and>
     (ful_refund v \<longleftrightarrow> ful_payment v \<in> {REFUND_PENDING, REFUNDED}) \<and>
     (ful_refund v \<longrightarrow> ful_status v \<in> {CANCELLED, RETURNED})"

lemmas coherence_defs = coherent_def delivery_coherent_def gate_def owed_def

lemma fresh_coherent: "fresh_view v \<Longrightarrow> coherent v"
  by (simp add: fresh_view_def coherence_defs)

lemma coherent_delivery:
  assumes "coherent v" obtains ds rider k where "ful_delivery v = Some (ds, rider, k)"
  using assms by (auto simp: coherent_def split: option.splits)

lemma owed_simps [simp]:
  "ful_status (owed v) = ful_status v" "ful_method (owed v) = ful_method v"
  "ful_restored (owed v) = ful_restored v" "ful_delivery (owed v) = ful_delivery v"
  by (simp_all add: owed_def)

lemma owed_cases:
  obtains (due) "ful_method w = UPI" "ful_payment w \<in> {PAID, REFUND_PENDING}" "\<not> ful_refund w"
      "owed w = w\<lparr>ful_payment := REFUND_PENDING, ful_refund := True\<rparr>"
    | (settled) "owed w = w" "ful_method w = COD \<or> ful_payment w \<notin> {PAID, REFUND_PENDING} \<or> ful_refund w"
proof (cases "ful_method w = UPI \<and> ful_payment w \<in> {PAID, REFUND_PENDING} \<and> \<not> ful_refund w")
  case True
  then show ?thesis by (intro due) (simp_all add: owed_def)
next
  case False
  then show ?thesis by (intro settled) (cases "ful_method w"; auto simp: owed_def)+
qed

text \<open>The facts of a coherent order, one by one.\<close>

lemma coherentD:
  assumes "coherent v" and "ful_delivery v = Some (ds, rider, k)"
  shows "ful_status v \<in> {READY, OUT_FOR_DELIVERY, DELIVERED} \<Longrightarrow> gate v"
    and "ds = PICKED_UP \<Longrightarrow> ful_status v = OUT_FOR_DELIVERY"
    and "ds = DLV_DELIVERED \<longleftrightarrow> ful_status v = DELIVERED"
    and "ful_status v = OUT_FOR_DELIVERY \<Longrightarrow> ds \<in> {PICKED_UP, FAILED}"
    and "ful_status v = RETURNED \<Longrightarrow> ds = FAILED"
    and "k \<longleftrightarrow> ful_status v \<in> {OUT_FOR_DELIVERY, DELIVERED, RETURNED}"
    and "ds = UNASSIGNED \<Longrightarrow> rider = None"
    and "ful_restored v \<longleftrightarrow> ful_status v \<in> {CANCELLED, RETURNED}"
    and "ful_refund v \<longleftrightarrow> ful_payment v \<in> {REFUND_PENDING, REFUNDED}"
    and "ful_refund v \<Longrightarrow> ful_status v \<in> {CANCELLED, RETURNED}"
  using assms unfolding coherent_def delivery_coherent_def by simp_all

lemma coherentI:
  assumes "ful_delivery v = Some (ds, rider, k)"
    and "ful_status v \<in> {READY, OUT_FOR_DELIVERY, DELIVERED} \<Longrightarrow> gate v"
    and "ds = PICKED_UP \<Longrightarrow> ful_status v = OUT_FOR_DELIVERY"
    and "ds = DLV_DELIVERED \<longleftrightarrow> ful_status v = DELIVERED"
    and "ful_status v = OUT_FOR_DELIVERY \<Longrightarrow> ds \<in> {PICKED_UP, FAILED}"
    and "ful_status v = RETURNED \<Longrightarrow> ds = FAILED"
    and "k \<longleftrightarrow> ful_status v \<in> {OUT_FOR_DELIVERY, DELIVERED, RETURNED}"
    and "ds = UNASSIGNED \<Longrightarrow> rider = None"
    and "ful_restored v \<longleftrightarrow> ful_status v \<in> {CANCELLED, RETURNED}"
    and "ful_refund v \<longleftrightarrow> ful_payment v \<in> {REFUND_PENDING, REFUNDED}"
    and "ful_refund v \<Longrightarrow> ful_status v \<in> {CANCELLED, RETURNED}"
  shows "coherent v"
  unfolding coherent_def delivery_coherent_def using assms by simp

text \<open>Closing an order (cancelled or returned) leaves it coherent once the refund is owed.\<close>

lemma close_coherent:
  assumes coh: "coherent v" and dlv: "ful_delivery v = Some (ds, rider, k)"
    and w: "w = v\<lparr>ful_status := s, ful_restored := True\<rparr>"
    and s: "s = CANCELLED \<and> ful_status v \<in> {PLACED, ACCEPTED} \<or>
            s = RETURNED \<and> ful_status v = OUT_FOR_DELIVERY \<and> ds = FAILED"
  shows "coherent (owed w)"
proof -
  note D = coherentD [OF coh dlv]
  have no_refund: "\<not> ful_refund v" using D(10) s by (auto simp del: D)
  then have pay: "ful_payment v \<notin> {REFUND_PENDING, REFUNDED}" using D(9) by simp
  from s have ds: "ds \<noteq> PICKED_UP \<and> ds \<noteq> DLV_DELIVERED \<and> (s = RETURNED \<longrightarrow> ds = FAILED)"
    using D(2,3) by auto
  from s have k: "k \<longleftrightarrow> s = RETURNED" using D(6) by auto
  show ?thesis
  proof (cases w rule: owed_cases)
    case due
    show ?thesis unfolding due(4)
      by (rule coherentI [where ds = ds and rider = rider and k = k])
        (use s ds k D(7) w dlv in auto)
  next
    case settled
    show ?thesis unfolding settled(1)
      by (rule coherentI [where ds = ds and rider = rider and k = k])
        (use s ds k D(7) w dlv no_refund pay in auto)
  qed
qed

lemma core_step_coherent:
  assumes step: "core_step v w" and coh: "coherent v"
  shows "coherent w"
proof -
  obtain ds rider k where dlv: "ful_delivery v = Some (ds, rider, k)"
    using coh by (rule coherent_delivery)
  note D = coherentD [OF coh dlv]
  show ?thesis
    using step
  proof cases
    case cancel
    then show ?thesis using close_coherent [OF coh dlv] by simp
  next
    case (goods_returned p k')
    with dlv show ?thesis using close_coherent [OF coh dlv] by simp
  next
    case orphaned
    show ?thesis
    proof (cases "v\<lparr>ful_payment := PAID\<rparr>" rule: owed_cases)
      case due
      show ?thesis unfolding orphaned(1) due(4)
        by (rule coherentI [where ds = ds and rider = rider and k = k])
          (use D orphaned dlv in simp_all)
    next
      case settled
      show ?thesis unfolding orphaned(1) settled(1)
        by (rule coherentI [where ds = ds and rider = rider and k = k])
          (use D orphaned dlv in simp_all)
    qed
  next
    case (assign p k' r)
    show ?thesis unfolding assign(1)
      by (rule coherentI [where ds = ASSIGNED and rider = "Some r" and k = k])
        (use D assign dlv in \<open>simp_all add: gate_def\<close>)
  next
    case (admin_assign p k')
    show ?thesis unfolding admin_assign(1)
      by (rule coherentI [where ds = ASSIGNED and rider = rider and k = k])
        (use D admin_assign dlv in \<open>simp_all add: gate_def\<close>)
  next
    case (release s p k')
    show ?thesis unfolding release(1)
      by (rule coherentI [where ds = UNASSIGNED and rider = None and k = k])
        (use D release dlv in \<open>simp_all add: gate_def\<close>)
  next
    case (pickup p k')
    show ?thesis unfolding pickup(1)
      by (rule coherentI [where ds = PICKED_UP and rider = rider and k = True])
        (use D pickup dlv in \<open>simp_all add: gate_def\<close>)
  next
    case (fail s p k')
    show ?thesis unfolding fail(1)
      by (rule coherentI [where ds = FAILED and rider = rider and k = k])
        (use D(1,3,6,8-10) fail(2,3) dlv in \<open>simp_all add: gate_def\<close>, use D(5) in auto)
  next
    case (complete p k')
    show ?thesis unfolding complete(1)
      by (rule coherentI [where ds = DLV_DELIVERED and rider = rider and k = k])
        (use D(1,6,8-10) complete(2-4) dlv in \<open>simp_all add: gate_def\<close>, blast+)
  next
    case refunded
    with D(10) have "ful_status v \<in> {CANCELLED, RETURNED}" by simp
    then show ?thesis unfolding refunded(1)
      by (intro coherentI [where ds = ds and rider = rider and k = k])
        (use D(2-10) refunded dlv in \<open>simp_all, auto\<close>)
  next
    case accept
    then show ?thesis using coh dlv by (simp add: coherent_def delivery_coherent_def) blast
  next
    case prepare
    then show ?thesis using coh dlv by (simp add: coherent_def delivery_coherent_def) blast
  next
    case ready
    then show ?thesis using coh dlv by (simp add: coherent_def delivery_coherent_def gate_def) blast
  next
    case captured
    then show ?thesis using coh dlv by (simp add: coherent_def gate_def)
  next
    case unpaid
    then show ?thesis using coh dlv by (simp add: coherent_def gate_def)
  qed
qed

lemma core_steps_coherent: "core_step\<^sup>*\<^sup>* v w \<Longrightarrow> coherent v \<Longrightarrow> coherent w"
  by (induction rule: rtranclp_induct) (auto intro: core_step_coherent)

text \<open>An order's payment method never changes, and its status only follows the lifecycle.\<close>

lemma core_step_method: "core_step v w \<Longrightarrow> ful_method w = ful_method v"
  by (induction rule: core_step.induct) (auto simp: owed_def)

lemma core_step_status:
  "core_step v w \<Longrightarrow> ful_status w = ful_status v \<or> can_transition_order (ful_status v) (ful_status w)"
  by (induction rule: core_step.induct) (auto simp: owed_def)

lemma core_steps_status:
  "core_step\<^sup>*\<^sup>* v w \<Longrightarrow> can_transition_order\<^sup>*\<^sup>* (ful_status v) (ful_status w)"
proof (induction rule: rtranclp_induct)
  case (step w u)
  with core_step_status [OF step.hyps(2)] show ?case by (auto intro: rtranclp.rtrancl_into_rtrancl)
qed simp

section \<open>Databases\<close>

definition refunds_wf :: "'m database_scheme \<Rightarrow> bool" where
  "refunds_wf d \<longleftrightarrow> distinct (map rfd_id (payment_refunds d)) \<and> distinct (map rfd_order_id (payment_refunds d)) \<and>
     (\<forall>r \<in> set (payment_refunds d). rfd_id r < db_next_id d
        \<and> rfd_order_id r < db_next_id d \<and> rfd_idempotency_key r = refund_idempotency_key (rfd_order_id r))"

definition tables_wf :: "'m database_scheme \<Rightarrow> bool" where
  "tables_wf d \<longleftrightarrow>
     distinct (map ord_id (orders d)) \<and> (\<forall>o1 \<in> set (orders d). ord_id o1 < db_next_id d) \<and>
     distinct (map dlv_id (deliveries d)) \<and> distinct (map dlv_order_id (deliveries d)) \<and>
     (\<forall>x \<in> set (deliveries d). dlv_id x < db_next_id d \<and> dlv_order_id x < db_next_id d) \<and>
     refunds_wf d"

definition evolves :: "'m database_scheme \<Rightarrow> 'm database_scheme \<Rightarrow> bool" where
  "evolves d d' \<longleftrightarrow> (\<forall>oid.
     case fulfilment_of d oid of
       Some v \<Rightarrow> \<exists>w. fulfilment_of d' oid = Some w \<and> core_step\<^sup>*\<^sup>* v w
     | None \<Rightarrow> (case fulfilment_of d' oid of None \<Rightarrow> True
                | Some w \<Rightarrow> \<exists>v. fresh_view v \<and> core_step\<^sup>*\<^sup>* v w))"

definition step_ok :: "'m database_scheme \<Rightarrow> 'm database_scheme \<Rightarrow> bool" where
  "step_ok d d' \<longleftrightarrow> (tables_wf d \<longrightarrow> tables_wf d' \<and> evolves d d')"

definition all_coherent :: "'m database_scheme \<Rightarrow> bool" where
  "all_coherent d \<longleftrightarrow> tables_wf d \<and> (\<forall>oid v. fulfilment_of d oid = Some v \<longrightarrow> coherent v)"

lemma evolves_refl [simp, intro]: "evolves d d"
  by (auto simp: evolves_def split: option.split)

lemma evolves_trans [trans]:
  assumes "evolves a b" and "evolves b c" shows "evolves a c"
  unfolding evolves_def
proof
  fix oid
  have ab: "case fulfilment_of a oid of
       Some v \<Rightarrow> \<exists>w. fulfilment_of b oid = Some w \<and> core_step\<^sup>*\<^sup>* v w
     | None \<Rightarrow> (case fulfilment_of b oid of None \<Rightarrow> True
                | Some w \<Rightarrow> \<exists>v. fresh_view v \<and> core_step\<^sup>*\<^sup>* v w)"
    using assms(1) unfolding evolves_def by blast
  have bc: "case fulfilment_of b oid of
       Some v \<Rightarrow> \<exists>w. fulfilment_of c oid = Some w \<and> core_step\<^sup>*\<^sup>* v w
     | None \<Rightarrow> (case fulfilment_of c oid of None \<Rightarrow> True
                | Some w \<Rightarrow> \<exists>v. fresh_view v \<and> core_step\<^sup>*\<^sup>* v w)"
    using assms(2) unfolding evolves_def by blast
  show "case fulfilment_of a oid of
       Some v \<Rightarrow> \<exists>w. fulfilment_of c oid = Some w \<and> core_step\<^sup>*\<^sup>* v w
     | None \<Rightarrow> (case fulfilment_of c oid of None \<Rightarrow> True
                | Some w \<Rightarrow> \<exists>v. fresh_view v \<and> core_step\<^sup>*\<^sup>* v w)"
    using ab bc by (auto split: option.splits intro: rtranclp_trans)
qed

lemma step_ok_refl [simp, intro]: "step_ok d d"
  by (simp add: step_ok_def)

lemma step_ok_trans [trans]: "step_ok a b \<Longrightarrow> step_ok b c \<Longrightarrow> step_ok a c"
  unfolding step_ok_def by (blast intro: evolves_trans)

theorem step_ok_coherent: "step_ok d d' \<Longrightarrow> all_coherent d \<Longrightarrow> all_coherent d'"
  unfolding step_ok_def all_coherent_def evolves_def
  by (fastforce split: option.splits intro: core_steps_coherent fresh_coherent)

section \<open>Establishing \<open>step_ok\<close>\<close>

definition refund_ident :: "payment_refund \<Rightarrow> uuid \<times> uuid \<times> string" where
  "refund_ident r = (rfd_id r, rfd_order_id r, rfd_idempotency_key r)"

definition refund_idents :: "'m database_scheme \<Rightarrow> (uuid \<times> uuid \<times> string) list" where
  "refund_idents d = map refund_ident (payment_refunds d)"

lemma refunds_wf_idents:
  "refunds_wf d \<longleftrightarrow> distinct (map fst (refund_idents d)) \<and> distinct (map (fst \<circ> snd) (refund_idents d)) \<and>
     (\<forall>(i, oid, key) \<in> set (refund_idents d). i < db_next_id d \<and> oid < db_next_id d
        \<and> key = refund_idempotency_key oid)"
  by (simp add: refunds_wf_def refund_idents_def refund_ident_def comp_def case_prod_beta)

text \<open>The orders a list of refund rows is owed to.\<close>

definition owes :: "(uuid \<times> uuid \<times> string) list \<Rightarrow> uuid \<Rightarrow> bool" where
  "owes ids oid \<longleftrightarrow> oid \<in> (fst \<circ> snd) ` set ids"

lemma has_refund_owes: "has_refund d oid \<longleftrightarrow> owes (refund_idents d) oid"
  by (auto simp: owes_def has_refund_def refund_of_order_def find_None_iff refund_idents_def
      refund_ident_def image_iff)

lemma has_refund_idents:
  "has_refund d oid \<longleftrightarrow> oid \<in> (fst \<circ> snd) ` set (refund_idents d)"
  by (auto simp: has_refund_def refund_of_order_def find_None_iff refund_idents_def refund_ident_def image_iff)

lemma delivery_of_order_get:
  assumes "tables_wf d" and "get_delivery d i = Some x"
  shows "delivery_of_order d (dlv_order_id x) = Some x"
proof -
  have x: "x \<in> set (deliveries d)" using assms(2) by (auto simp: get_delivery_def)
  show ?thesis
  proof (cases "delivery_of_order d (dlv_order_id x)")
    case None
    with x show ?thesis by (auto simp: delivery_of_order_def find_None_iff)
  next
    case (Some y)
    then have "y \<in> set (deliveries d)" and "dlv_order_id y = dlv_order_id x"
      by (auto simp: delivery_of_order_def dest: find_Some_in)
    with x assms(1) have "y = x" by (auto simp: tables_wf_def distinct_map inj_on_def)
    with Some show ?thesis by simp
  qed
qed

lemma delivery_of_order_put_other:
  assumes "\<And>x. x \<in> set t \<Longrightarrow> dlv_id x = dlv_id y \<Longrightarrow> dlv_order_id x = dlv_order_id y"
    and "dlv_order_id y \<noteq> oid"
  shows "find (\<lambda>x. dlv_order_id x = oid) (put_row dlv_id y t) = find (\<lambda>x. dlv_order_id x = oid) t"
  using assms(1)
proof (induction t)
  case (Cons x t)
  have "find (\<lambda>x. dlv_order_id x = oid) (put_row dlv_id y t) = find (\<lambda>x. dlv_order_id x = oid) t"
    by (rule Cons.IH) (simp add: Cons.prems)
  with Cons.prems [of x] assms(2) show ?case by auto
qed simp

lemma delivery_of_order_put_same:
  assumes "distinct (map dlv_order_id t)" and "x \<in> set t" and "dlv_id x = dlv_id y"
    and "dlv_order_id x = dlv_order_id y" and "distinct (map dlv_id t)"
  shows "find (\<lambda>x. dlv_order_id x = dlv_order_id y) (put_row dlv_id y t) = Some y"
  using assms
proof (induction t)
  case (Cons a t)
  show ?case
  proof (cases "dlv_id a = dlv_id y")
    case False
    with Cons.prems have x: "x \<in> set t" by auto
    with Cons.prems have "dlv_order_id a \<noteq> dlv_order_id y" by (auto simp: image_iff)
    with False x Cons show ?thesis by simp
  qed simp
qed simp

text \<open>Nothing about fulfilment changed.\<close>

lemma step_ok_frame:
  assumes "orders d' = orders d" and "deliveries d' = deliveries d"
    and "tables_wf d \<Longrightarrow> refund_idents d' = refund_idents d" and "db_next_id d \<le> db_next_id d'"
  shows "step_ok d d'"
proof -
  have "tables_wf d \<Longrightarrow> fulfilment_of d' = fulfilment_of d"
    using assms has_refund_idents [of d] has_refund_idents [of d']
    by (auto simp: fulfilment_of_def get_order_def delivery_of_order_def fun_eq_iff view_of_def)
  moreover have "tables_wf d \<Longrightarrow> tables_wf d'"
    using assms by (fastforce simp: tables_wf_def refunds_wf_idents)
  ultimately show ?thesis by (auto simp: step_ok_def evolves_def split: option.split)
qed

text \<open>One order moved, possibly with its delivery, possibly with a new obligation.\<close>

lemma step_ok_commit:
  assumes old: "get_order d oid = Some old" and new: "ord_id new = oid"
    and ords: "tables_wf d \<Longrightarrow> orders d' = put_row ord_id new (orders d)"
    and dels: "tables_wf d \<Longrightarrow> deliveries d' =
        (case moved of None \<Rightarrow> deliveries d | Some y \<Rightarrow> put_row dlv_id y (deliveries d))"
    and dlv: "\<And>y. moved = Some y \<Longrightarrow>
        \<exists>x. get_delivery d (dlv_id y) = Some x \<and> dlv_order_id x = oid \<and> dlv_order_id y = oid"
    and refs: "tables_wf d \<Longrightarrow> refund_idents d' = refund_idents d \<or>
        (\<exists>i. refund_idents d' = refund_idents d @ [(i, oid, refund_idempotency_key oid)]
             \<and> db_next_id d \<le> i \<and> i < db_next_id d' \<and> \<not> owes (refund_idents d) oid)"
    and ids: "db_next_id d \<le> db_next_id d'"
    and step: "tables_wf d \<Longrightarrow>
      core_step\<^sup>*\<^sup>* (view_of old (delivery_of_order d oid) (has_refund d oid))
        (view_of new (case moved of None \<Rightarrow> delivery_of_order d oid | Some y \<Rightarrow> Some y)
           (has_refund d' oid))"
  shows "step_ok d d'"
  unfolding step_ok_def
proof
  assume wf: "tables_wf d"
  then have dd: "distinct (map dlv_id (deliveries d))" "distinct (map dlv_order_id (deliveries d))"
    by (simp_all add: tables_wf_def)
  have same_order: "dlv_order_id x = dlv_order_id y"
    if "moved = Some y" "x \<in> set (deliveries d)" "dlv_id x = dlv_id y" for x y
  proof -
    from dlv [OF that(1)] obtain x' where x': "get_delivery d (dlv_id y) = Some x'"
      "dlv_order_id x' = oid" "dlv_order_id y = oid" by blast
    then have "x' \<in> set (deliveries d)" "dlv_id x' = dlv_id y" by (auto simp: get_delivery_def)
    with that dd(1) have "x' = x" by (auto simp: distinct_map inj_on_def)
    with x' show ?thesis by simp
  qed
  have dmap: "map dlv_id (deliveries d') = map dlv_id (deliveries d)"
    "map dlv_order_id (deliveries d') = map dlv_order_id (deliveries d)"
    using dels [OF wf] same_order by (auto split: option.splits intro: map_put_row_field)
  have omap: "map ord_id (orders d') = map ord_id (orders d)" using ords [OF wf] by simp
  have sets: "ord_id ` set (orders d') = ord_id ` set (orders d)"
    "dlv_id ` set (deliveries d') = dlv_id ` set (deliveries d)"
    "dlv_order_id ` set (deliveries d') = dlv_order_id ` set (deliveries d)"
    using arg_cong [OF omap, of set] arg_cong [OF dmap(1), of set] arg_cong [OF dmap(2), of set]
    by simp_all
  have below: "ord_id o3 < db_next_id d'" if "o3 \<in> set (orders d')" for o3
  proof -
    from that sets(1) obtain o4 where "o4 \<in> set (orders d)" "ord_id o4 = ord_id o3"
      by (metis image_iff)
    with wf ids show ?thesis by (force simp: tables_wf_def)
  qed
  have dbelow: "dlv_id x < db_next_id d' \<and> dlv_order_id x < db_next_id d'"
    if "x \<in> set (deliveries d')" for x
  proof -
    have "\<forall>i \<in> dlv_id ` set (deliveries d). i < db_next_id d"
      and "\<forall>i \<in> dlv_order_id ` set (deliveries d). i < db_next_id d"
      using wf by (auto simp: tables_wf_def)
    moreover have "dlv_id x \<in> dlv_id ` set (deliveries d)"
      and "dlv_order_id x \<in> dlv_order_id ` set (deliveries d)"
      using that sets(2,3) by blast+
    ultimately show ?thesis using ids by fastforce
  qed
  have "oid < db_next_id d" using wf old by (auto simp: tables_wf_def get_order_def)
  then have "refunds_wf d'"
    using wf refs [OF wf] ids unfolding tables_wf_def refunds_wf_idents owes_def by fastforce
  with wf dmap omap below dbelow have wf': "tables_wf d'" by (simp add: tables_wf_def)
  have ref_other: "has_refund d' k \<longleftrightarrow> has_refund d k" if "k \<noteq> oid" for k
    using refs [OF wf] that unfolding has_refund_idents by auto
  have dlv_other: "delivery_of_order d' k = delivery_of_order d k" if "k \<noteq> oid" for k
  proof (cases moved)
    case None
    then show ?thesis using dels [OF wf] by (simp add: delivery_of_order_def)
  next
    case (Some y)
    with that dlv have "dlv_order_id y \<noteq> k" by blast
    then have "find (\<lambda>x. dlv_order_id x = k) (put_row dlv_id y (deliveries d)) =
        find (\<lambda>x. dlv_order_id x = k) (deliveries d)"
      using same_order [OF Some] by (intro delivery_of_order_put_other)
    with Some dels [OF wf] show ?thesis by (simp add: delivery_of_order_def)
  qed
  have dlv_this: "delivery_of_order d' oid =
      (case moved of None \<Rightarrow> delivery_of_order d oid | Some y \<Rightarrow> Some y)"
  proof (cases moved)
    case None
    then show ?thesis using dels [OF wf] by (simp add: delivery_of_order_def)
  next
    case (Some y)
    with dlv obtain x where x: "get_delivery d (dlv_id y) = Some x" "dlv_order_id x = oid"
      "dlv_order_id y = oid" by blast
    then have "x \<in> set (deliveries d)" "dlv_id x = dlv_id y" by (auto simp: get_delivery_def)
    from delivery_of_order_put_same [OF dd(2) this(1) this(2) _ dd(1)] x Some dels [OF wf]
    show ?thesis by (simp add: delivery_of_order_def)
  qed
  have ord_other: "get_order d' k = get_order d k" if "k \<noteq> oid" for k
    using ords [OF wf] that new by (simp add: get_order_def get_put_row)
  have ord_this: "get_order d' oid = Some new"
    using ords [OF wf] old new by (simp add: get_order_def get_put_row)
  have "evolves d d'"
    unfolding evolves_def
  proof
    fix k
    show "case fulfilment_of d k of
       Some v \<Rightarrow> \<exists>w. fulfilment_of d' k = Some w \<and> core_step\<^sup>*\<^sup>* v w
     | None \<Rightarrow> (case fulfilment_of d' k of None \<Rightarrow> True
                | Some w \<Rightarrow> \<exists>v. fresh_view v \<and> core_step\<^sup>*\<^sup>* v w)"
    proof (cases "k = oid")
      case True
      with step [OF wf] old ord_this dlv_this show ?thesis by (simp add: fulfilment_of_def)
    next
      case False
      have "fulfilment_of d' k = fulfilment_of d k"
        using ord_other [OF False] dlv_other [OF False] ref_other [OF False]
        by (simp add: fulfilment_of_def)
      then show ?thesis by (simp split: option.split)
    qed
  qed
  with wf' show "tables_wf d' \<and> evolves d d'" by blast
qed

text \<open>A new order with its delivery.\<close>

lemma step_ok_create:
  assumes ords: "orders d' = orders d @ [new]" and dels: "deliveries d' = deliveries d @ [x]"
    and ids: "db_next_id d \<le> ord_id new" "ord_id new < db_next_id d'"
      "db_next_id d \<le> dlv_id x" "dlv_id x < db_next_id d'" "dlv_order_id x = ord_id new"
    and refs: "refund_idents d' = refund_idents d"
    and fresh: "fresh_view (view_of new (Some x) False)"
  shows "step_ok d d'"
  unfolding step_ok_def
proof
  assume wf: "tables_wf d"
  have mono: "i < db_next_id d \<Longrightarrow> i < db_next_id d'" for i using ids by linarith
  have "refunds_wf d'"
    using wf mono refs unfolding tables_wf_def refunds_wf_idents by fastforce
  with wf mono ids have wf': "tables_wf d'"
    unfolding tables_wf_def ords dels by fastforce
  have none: "get_order d (ord_id new) = None" "delivery_of_order d (ord_id new) = None"
    using wf ids(1) by (fastforce simp: tables_wf_def get_order_def get_row_None delivery_of_order_def find_None_iff)+
  have "\<not> has_refund d (ord_id new)"
    using wf ids(1) unfolding tables_wf_def refunds_wf_idents has_refund_idents by fastforce
  then have unowed: "\<not> has_refund d' (ord_id new)" by (simp add: has_refund_idents refs)
  have "fulfilment_of d' k = (if k = ord_id new then Some (view_of new (Some x) False) else fulfilment_of d k)" for k
  proof (cases "k = ord_id new")
    case True
    with none unowed ids(5) show ?thesis
      by (simp add: fulfilment_of_def get_order_def delivery_of_order_def ords dels table_simps)
  next
    case False
    have "has_refund d' k = has_refund d k" by (simp add: has_refund_idents refs)
    with False ids(5) show ?thesis
      by (simp add: fulfilment_of_def get_order_def delivery_of_order_def ords dels table_simps
          split: option.split)
  qed
  with fresh none have "evolves d d'"
    by (auto simp: evolves_def fulfilment_of_def split: option.splits if_splits)
  with wf' show "tables_wf d' \<and> evolves d d'" by blast
qed

section \<open>Refund processing moves orders along the machine\<close>

lemma refund_idents_flush:
  assumes "tables_wf d" and "get_refund d (rfd_id r) = Some old" and "refund_ident r = refund_ident old"
  shows "refund_idents (flush_refund r d) = refund_idents d"
  unfolding refund_idents_def flush_refund_def
proof (simp, rule map_put_row_field)
  fix x assume x: "x \<in> set (payment_refunds d)" "rfd_id x = rfd_id r"
  from assms(2) have "old \<in> set (payment_refunds d)" "rfd_id old = rfd_id r"
    by (auto simp: get_refund_def)
  with x assms(1) have "x = old" by (auto simp: tables_wf_def refunds_wf_def distinct_map inj_on_def)
  with assms(3) show "refund_ident x = refund_ident r" by simp
qed

lemma flush_refund_frame [simp]:
  "orders (flush_refund r d) = orders d" "deliveries (flush_refund r d) = deliveries d"
  "db_next_id (flush_refund r d) = db_next_id d"
  "settlement_entries (flush_refund r d) = settlement_entries d"
  "payment_attempts (flush_refund r d) = payment_attempts d"
  "order_items (flush_refund r d) = order_items d"
  "store_products (flush_refund r d) = store_products d"
  "delivery_proofs (flush_refund r d) = delivery_proofs d"
  "cod_collections (flush_refund r d) = cod_collections d"
  "users (flush_refund r d) = users d"
  by (simp_all add: flush_refund_def)

lemma step_ok_flush_refund:
  "get_refund d (rfd_id r) = Some old \<Longrightarrow> refund_ident r = refund_ident old \<Longrightarrow>
     step_ok d (flush_refund r d)"
  by (rule step_ok_frame) (simp_all add: refund_idents_flush)

lemma next_id_flush_order [simp]: "db_next_id d \<le> db_next_id (flush_order now o1 d)"
  by (auto simp: flush_order_def gaonone_audit_order_status_def record_transition_def split: option.split)

lemma next_id_flush_delivery [simp]: "db_next_id d \<le> db_next_id (flush_delivery now x d)"
  by (auto simp: flush_delivery_def gaonone_audit_delivery_status_def record_transition_def
      split: option.split)

lemma next_id_annotate [simp]: "db_next_id (annotate_transition et ei ts a r m d) = db_next_id d"
  using annotate_transition_update [of et ei ts a r m d] by auto

lemma next_id_void [simp]: "db_next_id d \<le> db_next_id (void_settlement_for_refund now o1 r d)"
  by (auto simp: void_settlement_for_refund_def Let_def split: option.split)

lemma refunds_flush_order [simp]: "refund_idents (flush_order now o1 d) = refund_idents d"
  by (simp add: refund_idents_def)

lemma refunds_flush_delivery [simp]: "refund_idents (flush_delivery now x d) = refund_idents d"
  by (simp add: refund_idents_def)

lemma refunds_void [simp]: "refund_idents (void_settlement_for_refund now o1 r d) = refund_idents d"
  by (simp add: refund_idents_def)

lemma step_ok_mark_succeeded:
  assumes old: "get_refund d (rfd_id r) = Some old" and "refund_ident r = refund_ident old"
  shows "step_ok d (mark_succeeded now r ps d)"
proof -
  let ?r = "r\<lparr>rfd_status := REFUND_SUCCEEDED, rfd_provider_status := ps, rfd_failure_reason := None,
                 rfd_processed_at := Some now\<rparr>"
  let ?d1 = "flush_refund ?r d"
  have d1: "step_ok d ?d1" using assms by (intro step_ok_flush_refund) (auto simp: refund_ident_def)
  have owed1: "has_refund ?d1 (rfd_order_id r)"
  proof -
    have "get_refund ?d1 (rfd_id r) = Some ?r" using old by (simp add: refund_rows.get_put)
    then have "?r \<in> set (payment_refunds ?d1)" unfolding get_refund_def by (rule get_row_in)
    moreover have "rfd_order_id ?r = rfd_order_id r" by simp
    ultimately show ?thesis unfolding has_refund_def refund_of_order_def find_None_iff by blast
  qed
  show ?thesis
  proof (cases "get_order ?d1 (rfd_order_id r)")
    case None
    with d1 show ?thesis by (simp add: mark_succeeded_def Let_def)
  next
    case (Some o1)
    let ?o2 = "o1\<lparr>ord_payment_status := REFUNDED\<rparr>"
    let ?d2 = "settle_refunded_order now ?o2 (flush_order now ?o2 ?d1)"
    have "step_ok ?d1 ?d2"
    proof (rule step_ok_commit [where oid = "rfd_order_id r" and new = ?o2 and moved = None, OF Some])
      show "db_next_id ?d1 \<le> db_next_id ?d2"
        unfolding settle_refunded_order_def
        by (rule order_trans [OF next_id_flush_order next_id_void])
      have "core_step (view_of o1 x True) (view_of ?o2 x True)" for x
        using refunded [of "view_of o1 x True"] by (simp add: view_of_def)
      moreover have "has_refund ?d2 (rfd_order_id r)"
        using owed1 unfolding has_refund_idents settle_refunded_order_def by simp
      ultimately show "core_step\<^sup>*\<^sup>*
          (view_of o1 (delivery_of_order ?d1 (rfd_order_id r)) (has_refund ?d1 (rfd_order_id r)))
          (view_of ?o2 (case None of None \<Rightarrow> delivery_of_order ?d1 (rfd_order_id r) | Some y \<Rightarrow> Some y)
             (has_refund ?d2 (rfd_order_id r)))"
        using owed1 by (auto simp: view_of_def)
    qed (use Some in \<open>auto simp: settle_refunded_order_def\<close>)
    with d1 Some show ?thesis by (auto simp: mark_succeeded_def Let_def intro: step_ok_trans)
  qed
qed

lemma step_ok_apply_provider:
  assumes "get_refund d (rfd_id r) = Some r"
  shows "step_ok d (apply_provider_refund_result now r p d)"
proof -
  have mark: "step_ok d (mark_succeeded now r' ps d)" if "refund_ident r' = refund_ident r" for r' ps
    using that assms by (intro step_ok_mark_succeeded [where old = r]) (simp_all add: refund_ident_def)
  have put: "step_ok d (flush_refund r' d)" if "refund_ident r' = refund_ident r" for r'
    using that assms by (intro step_ok_flush_refund [where old = r]) (simp_all add: refund_ident_def)
  show ?thesis
    by (auto simp: apply_provider_refund_result_def Let_def refund_ident_def failed_refund_def
        intro!: mark put)
qed

lemma step_ok_dispatch_claim:
  assumes "dispatch_claim cfg now rid d = (c, d')"
  shows "step_ok d d'"
  using assms
proof (cases rule: dispatch_claim_cases)
  case (failed r m n)
  then have "rfd_id r = rid" by auto
  with failed show ?thesis
    by (auto simp: failed_refund_def refund_ident_def intro!: step_ok_flush_refund)
next
  case (called r)
  then have "rfd_id r = rid" by auto
  with called show ?thesis
    by (auto simp: claimed_refund_def refund_ident_def intro!: step_ok_flush_refund)
qed simp

lemma step_ok_dispatch_finish: "step_ok d (snd (dispatch_finish now rid reply d))"
proof (cases "get_refund d rid")
  case None
  then show ?thesis by (auto simp: dispatch_finish_def split: sum.split)
next
  case (Some r)
  then have "rfd_id r = rid" by auto
  with Some show ?thesis
    by (auto simp: dispatch_finish_def Let_def failed_refund_def refund_ident_def split: sum.split
        intro!: step_ok_flush_refund step_ok_apply_provider)
qed

lemma step_ok_dispatch_refund: "step_ok d (snd (dispatch_refund cfg post now rid d))"
proof -
  obtain c d1 where c: "dispatch_claim cfg now rid d = (c, d1)" by fastforce
  from step_ok_dispatch_claim [OF c] show ?thesis
    by (auto simp: dispatch_refund_def c split: dispatch_claim_result.split
        intro: step_ok_trans step_ok_dispatch_finish)
qed

lemma step_ok_dispatch_all: "step_ok d (snd (dispatch_all cfg post now is (oc, d)))"
proof (induction "is" arbitrary: oc d)
  case (Cons i "is")
  obtain s d1 where s: "dispatch_refund cfg post now i d = (s, d1)" by fastforce
  then have "step_ok d d1" using step_ok_dispatch_refund [of d cfg post now i] by simp
  with s Cons.IH [of d1] show ?case by (auto intro: step_ok_trans)
qed simp

lemma step_ok_dispatch_due: "step_ok d (snd (dispatch_due_refunds cfg post now limit oid d))"
  by (simp add: dispatch_due_refunds_def step_ok_dispatch_all)

lemma step_ok_try_dispatch: "step_ok d (try_dispatch_order_refund cfg post now oid d)"
  by (simp add: try_dispatch_order_refund_def step_ok_dispatch_due)

section \<open>Recording an obligation moves an order as \<open>owed\<close> says\<close>

lemma refunds_wf_key:
  assumes "refunds_wf d"
  shows "get_refund_for_order d oid = None \<longleftrightarrow> \<not> has_refund d oid"
  using assms
  by (auto simp: get_refund_for_order_def has_refund_def refund_of_order_def find_None_iff refunds_wf_def)

lemma refunds_wf_same:
  "refunds_wf d \<Longrightarrow> refund_idents d' = refund_idents d \<Longrightarrow> db_next_id d \<le> db_next_id d' \<Longrightarrow> refunds_wf d'"
  unfolding refunds_wf_idents by fastforce

lemma ensure_refund_request_view:
  assumes r: "ensure_refund_request now old reason d = (r, new, d')" and wf: "refunds_wf d"
  shows "view_of new x (has_refund d' (ord_id old))
      = owed (view_of old x (has_refund d (ord_id old)))"
    and "refund_idents d' = refund_idents d \<or>
      refund_idents d' = refund_idents d
        @ [(db_next_id d, ord_id old, refund_idempotency_key (ord_id old))] \<and> db_next_id d < db_next_id d'
        \<and> \<not> owes (refund_idents d) (ord_id old)"
    and "db_next_id d \<le> db_next_id d'"
proof -
  note D = ensure_refund_requestD [OF r]
  have none: "get_refund_for_order d (ord_id old) \<noteq> None \<or> \<not> owes (refund_idents d) (ord_id old)"
    using refunds_wf_key [OF wf, of "ord_id old"] by (simp add: has_refund_owes)
  show "refund_idents d' = refund_idents d \<or>
      refund_idents d' = refund_idents d
        @ [(db_next_id d, ord_id old, refund_idempotency_key (ord_id old))] \<and> db_next_id d < db_next_id d'
        \<and> \<not> owes (refund_idents d) (ord_id old)"
    and "db_next_id d \<le> db_next_id d'"
    using D none by (auto simp: refund_idents_def refund_ident_def)
  show "view_of new x (has_refund d' (ord_id old))
      = owed (view_of old x (has_refund d (ord_id old)))"
  proof (cases "ord_payment_method old = UPI \<and> ord_payment_status old \<in> {PAID, REFUND_PENDING}")
    case False
    with r have "new = old" "d' = d" by (auto simp: ensure_refund_request_def split: if_splits)
    with False show ?thesis by (auto simp: owed_def view_of_def)
  next
    case True
    show ?thesis
    proof (cases "get_refund_for_order d (ord_id old)")
      case (Some y)
      with True r have "new = old" "d' = d" by (auto simp: ensure_refund_request_def)
      moreover have "has_refund d (ord_id old)"
        using Some refunds_wf_key [OF wf, of "ord_id old"] by simp
      ultimately show ?thesis by (auto simp: owed_def view_of_def)
    next
      case None
      with True D obtain y where y: "new = old\<lparr>ord_payment_status := REFUND_PENDING\<rparr>"
        "payment_refunds d' = payment_refunds d @ [y]" "rfd_order_id y = ord_id old" by auto
      then have "has_refund d' (ord_id old)"
        by (auto simp: has_refund_def refund_of_order_def find_None_iff)
      moreover have "\<not> has_refund d (ord_id old)"
        using None refunds_wf_key [OF wf] by simp
      ultimately show ?thesis using True y by (auto simp: owed_def view_of_def)
    qed
  qed
qed

end
