(* ===== verification/Order_Ops.thy ===== *)
theory Order_Ops
  imports Coherence
begin

text \<open>
  What customers, merchants and administrators do to an order before it leaves the shop:
  \<open>routes/order_mutations.py\<close> (the live handlers) and the handlers of \<open>routes/orders.py\<close>
  with the same paths that they shadow. Lemmas: every outcome of a live handler is a
  \<open>step_ok\<close>; the success inversions of both generations.
\<close>

section \<open>Notices\<close>

text \<open>Strings are UTF-8 bytes; this is the rupee sign.\<close>

definition RUPEE :: string where "RUPEE = [CHR 0xE2, CHR 0x82, CHR 0xB9]"

definition order_data :: "order \<Rightarrow> dict" where
  "order_data o1 = [(''order_id'', JId (ord_id o1)), (''order_number'', JStr (ord_order_number o1))]"

definition notify_customer ::
  "timestamp \<Rightarrow> order \<Rightarrow> string \<Rightarrow> string \<Rightarrow> string \<Rightarrow> 'm database_scheme \<Rightarrow> 'm database_scheme" where
  "notify_customer now o1 event_type title body d =
     enqueue_notification now (ord_user_id o1) event_type title body (order_data o1) d"

definition notify_merchant ::
  "timestamp \<Rightarrow> order \<Rightarrow> string \<Rightarrow> string \<Rightarrow> string \<Rightarrow> 'm database_scheme \<Rightarrow> 'm database_scheme" where
  "notify_merchant now o1 event_type title body d =
     (case Option.bind (get_store d (ord_store_id o1)) (\<lambda>s. get_merchant d (sto_merchant_id s)) of
        None \<Rightarrow> d
      | Some m \<Rightarrow>
          enqueue_notification now (mer_owner_user_id m) event_type title body (order_data o1) d)"

lemma same_core_notify_customer [simp, intro]: "same_core d (notify_customer now o1 e t b d)"
  by (simp add: notify_customer_def)

lemma same_core_notify_merchant [simp, intro]: "same_core d (notify_merchant now o1 e t b d)"
  by (auto simp: notify_merchant_def split: option.split)

section \<open>Who may see and change an order\<close>

definition can_view_order :: "'m database_scheme \<Rightarrow> order \<Rightarrow> user \<Rightarrow> bool" where
  "can_view_order d o1 u =
     (if usr_role u = ADMIN \<or> ord_user_id o1 = usr_id u then True
      else if usr_role u = MERCHANT then
        (case (merchant_of_owner d (usr_id u), get_store d (ord_store_id o1)) of
           (Some m, Some s) \<Rightarrow> sto_merchant_id s = mer_id m
         | _ \<Rightarrow> False)
      else False)"

definition authorize_order :: "'m database_scheme \<Rightarrow> user \<Rightarrow> order \<Rightarrow> unit res" where
  "authorize_order d u o1 =
     (if usr_role u \<noteq> ADMIN then
        (case (merchant_of_owner d (usr_id u), get_store d (ord_store_id o1)) of
           (Some m, Some s) \<Rightarrow>
             if sto_merchant_id s \<noteq> mer_id m
             then Inl (HTTPException 403 ''Order does not belong to your store'')
             else if mer_status m \<noteq> APPROVED then Inl (HTTPException 403 ''Merchant is not active'')
             else Inr ()
         | _ \<Rightarrow> Inl (HTTPException 403 ''Order does not belong to your store''))
      else res_bind (ensure_capability u ORDER_OPERATIONS) (\<lambda>_. Inr ()))"

section \<open>Cancellation by the customer\<close>

text \<open>The transaction of the handler, up to its commit: the obligation and the new state.\<close>

definition customer_cancellation ::
  "timestamp \<Rightarrow> user \<Rightarrow> order \<Rightarrow> 'm database_scheme \<Rightarrow> (payment_refund option \<times> 'm database_scheme) res" where
  "customer_cancellation now u o1 d =
     res_bind (restore_order_stock_once now o1 d) (\<lambda>(_, o2, d1).
     res_bind (transition_order o2 CANCELLED) (\<lambda>o3.
     let d2 = annotate_order_transition o3 (order_status_value CANCELLED) (Some (usr_id u))
                (Some ''customer_cancelled'') [] (flush_order now o3 d1);
         (refund, o4, d3) = ensure_refund_request now o3 REFUND_REASON_CANCELLED d2;
         d4 = flush_order now o4 d3;
         d5 = notify_customer now o4 ''order.cancelled'' ''Order cancelled''
                (if refund \<noteq> None
                 then ''Order '' @ ord_order_number o4 @ '' was cancelled. Your refund of ''
                   @ RUPEE @ show_money (ord_total o4)
                   @ '' has been requested and will reach your original payment method shortly.''
                 else ''Order '' @ ord_order_number o4 @ '' was cancelled successfully.'') d4
     in Inr (refund, notify_merchant now o4 ''merchant.order_cancelled'' ''Order cancelled by customer''
                (''Order '' @ ord_order_number o4 @ '' was cancelled before acceptance.'') d5)))"

definition cancel_my_order_safely ::
  "settings \<Rightarrow> (refund_request \<Rightarrow> refund_payload provider_reply) \<Rightarrow> timestamp \<Rightarrow>
     user \<Rightarrow> uuid \<Rightarrow> (order, 'm) handler" where
  "cancel_my_order_safely cfg post now u order_id d =
     (case get_order d order_id of
        None \<Rightarrow> raise_http 404 ''Order not found'' d
      | Some o1 \<Rightarrow>
          if ord_user_id o1 \<noteq> usr_id u then raise_http 404 ''Order not found'' d
          else if \<not> can_transition_order (ord_status o1) CANCELLED
          then raise_http 409 ''Only newly placed orders can be cancelled'' d
          else
            attempt (customer_cancellation now u o1 d) d (\<lambda>(refund, d1).
            refresh get_order order_id
              (if refund \<noteq> None then try_dispatch_order_refund cfg post now order_id d1 else d1)))"

text \<open>The shadowed handler of \<open>routes/orders.py\<close>: unguarded restoration, no annotation, no dispatch.\<close>

definition cancel_my_order :: "timestamp \<Rightarrow> user \<Rightarrow> uuid \<Rightarrow> (order, 'm) handler" where
  "cancel_my_order now u order_id d =
     (case get_order d order_id of
        None \<Rightarrow> raise_http 404 ''Order not found'' d
      | Some o1 \<Rightarrow>
          if ord_user_id o1 \<noteq> usr_id u then raise_http 404 ''Order not found'' d
          else if \<not> can_transition_order (ord_status o1) CANCELLED
          then raise_http 409 ''Only newly placed orders can be cancelled'' d
          else
            let d1 = restore_cancelled_stock o1 d in
            attempt (transition_order o1 CANCELLED) d (\<lambda>o2.
            let (refund, o3, d2) = ensure_refund_request now o2 REFUND_REASON_CANCELLED d1;
                d3 = flush_order now o3 d2;
                d4 = notify_customer now o3 ''order.cancelled'' ''Order cancelled''
                       (''Order '' @ ord_order_number o3 @ '' was cancelled successfully.'') d3;
                d5 = notify_merchant now o3 ''merchant.order_cancelled'' ''Order cancelled by customer''
                       (''Order '' @ ord_order_number o3 @ '' was cancelled before acceptance.'') d4
            in refresh get_order order_id d5))"

section \<open>Status updates by the shop\<close>

definition store_cancellation ::
  "timestamp \<Rightarrow> user \<Rightarrow> order \<Rightarrow> 'm database_scheme \<Rightarrow>
     (payment_refund option \<times> order \<times> 'm database_scheme) res" where
  "store_cancellation now u o1 d =
     res_bind (if usr_role u = ADMIN then ensure_capability u REFUND_WRITE else Inr u) (\<lambda>_.
     res_bind (restore_order_stock_once now o1 d) (\<lambda>(_, o2, d1).
       let (refund, o3, d2) = ensure_refund_request now o2 REFUND_REASON_CANCELLED d1
       in Inr (refund, o3, notify_customer now o3 ''order.cancelled'' ''Order cancelled''
             (if refund \<noteq> None
              then ''Order '' @ ord_order_number o3 @ '' was cancelled by the store. Your refund of ''
                @ RUPEE @ show_money (ord_total o3) @ '' has been requested.''
              else ''Order '' @ ord_order_number o3 @ '' was cancelled by the store.'') d2)))"

definition progress_notice ::
  "timestamp \<Rightarrow> order_status \<Rightarrow> order \<Rightarrow> 'm database_scheme \<Rightarrow> 'm database_scheme" where
  "progress_notice now target o1 d =
     (if target = ACCEPTED then
        notify_customer now o1 ''order.accepted'' ''Order accepted'' ''The store accepted your order.'' d
      else if target = PREPARING then
        notify_customer now o1 ''order.preparing'' ''Preparing your order''
          ''The store is preparing your items.'' d
      else if target = READY then
        notify_customer now o1 ''order.ready'' ''Order ready''
          ''Your order is ready for pickup by a delivery partner.'' d
      else d)"

definition merchant_status_update ::
  "timestamp \<Rightarrow> string \<Rightarrow> user \<Rightarrow> order_status \<Rightarrow> order \<Rightarrow> 'm database_scheme \<Rightarrow>
     (payment_refund option \<times> 'm database_scheme) res" where
  "merchant_status_update now req_id u target o1 d =
     res_bind (if target = CANCELLED then store_cancellation now u o1 d
               else Inr (None, o1, progress_notice now target o1 d)) (\<lambda>(refund, o2, d1).
     res_bind (transition_order o2 target) (\<lambda>o3.
     let d2 = annotate_order_transition o3 (order_status_value target) (Some (usr_id u))
                (Some ''merchant_status_update'') [] (flush_order now o3 d1)
     in res_bind (if usr_role u = ADMIN then
          record_admin_action req_id u ''order.status_updated''
            (if target = CANCELLED then REFUND_WRITE else ORDER_OPERATIONS) ''order'' (ord_id o3)
            [(''status'', JStr (order_status_value (ord_status o1)))]
            [(''status'', JStr (order_status_value (ord_status o3))),
             (''refund_requested'', JBool (refund \<noteq> None))]
            (Some (if target = CANCELLED then ''admin_order_cancellation''
                   else ''admin_order_operations'')) d2
        else Inr d2) (\<lambda>d3. Inr (refund, d3))))"

definition update_order_status_safely ::
  "settings \<Rightarrow> (refund_request \<Rightarrow> refund_payload provider_reply) \<Rightarrow> timestamp \<Rightarrow> string \<Rightarrow>
     user \<Rightarrow> uuid \<Rightarrow> order_status \<Rightarrow> (order, 'm) handler" where
  "update_order_status_safely cfg post now req_id u order_id target d =
     attempt (require_roles [MERCHANT, ADMIN] u) d (\<lambda>_.
     case get_order d order_id of
       None \<Rightarrow> raise_http 404 ''Order not found'' d
     | Some o1 \<Rightarrow>
         attempt (authorize_order d u o1) d (\<lambda>_.
         if target \<notin> set MERCHANT_ASSIGNABLE_STATUSES
         then raise_http 403
                (order_status_value target @ '' is not a merchant-assignable order status'') d
         else if \<not> can_transition_order (ord_status o1) target
         then raise_http 409 (''Invalid transition from '' @ order_status_value (ord_status o1)
                @ '' to '' @ order_status_value target) d
         else if target = READY \<and> \<not> payment_allows_fulfillment o1
         then raise_http 409
                ''Online payment must be confirmed before an order can be ready for delivery'' d
         else
           attempt (merchant_status_update now req_id u target o1 d) d (\<lambda>(refund, d1).
           refresh get_order order_id
             (if refund \<noteq> None then try_dispatch_order_refund cfg post now order_id d1 else d1))))"

text \<open>The shadowed handler: any transition of the table, unguarded restoration.\<close>

definition update_order_status ::
  "timestamp \<Rightarrow> string \<Rightarrow> user \<Rightarrow> uuid \<Rightarrow> order_status \<Rightarrow> (order, 'm) handler" where
  "update_order_status now req_id u order_id target d =
     attempt (require_roles [MERCHANT, ADMIN] u) d (\<lambda>_.
     case get_order d order_id of
       None \<Rightarrow> raise_http 404 ''Order not found'' d
     | Some o1 \<Rightarrow>
         attempt (authorize_order d u o1) d (\<lambda>_.
         if \<not> can_transition_order (ord_status o1) target
         then raise_http 409 (''Invalid transition from '' @ order_status_value (ord_status o1)
                @ '' to '' @ order_status_value target) d
         else if target = READY \<and> \<not> payment_allows_fulfillment o1
         then raise_http 409
                ''Online payment must be confirmed before an order can be ready for delivery'' d
         else
           attempt (if target = CANCELLED then
                res_bind (if usr_role u = ADMIN then ensure_capability u REFUND_WRITE else Inr u) (\<lambda>_.
                let (refund, o2, d1) = ensure_refund_request now o1 REFUND_REASON_CANCELLED
                                         (restore_cancelled_stock o1 d)
                in Inr (o2, notify_customer now o2 ''order.cancelled'' ''Order cancelled''
                     (''Order '' @ ord_order_number o2 @ '' was cancelled by the store.'') d1))
              else Inr (o1, progress_notice now target o1 d)) d (\<lambda>(o2, d1).
           attempt (transition_order o2 target) d (\<lambda>o3.
           let d2 = flush_order now o3 d1
           in attempt (if usr_role u = ADMIN then
                record_admin_action req_id u ''order.status_updated''
                  (if target = CANCELLED then REFUND_WRITE else ORDER_OPERATIONS) ''order'' (ord_id o3)
                  [(''status'', JStr (order_status_value (ord_status o1)))]
                  [(''status'', JStr (order_status_value (ord_status o3)))]
                  (Some (if target = CANCELLED then ''legacy_admin_order_cancellation''
                         else ''legacy_admin_order_operations'')) d2
              else Inr d2) d (\<lambda>d3. refresh get_order order_id d3)))))"

section \<open>The live handlers follow the machine\<close>

lemma owed_status [simp]: "owed v\<lparr>ful_status := s\<rparr> = owed (v\<lparr>ful_status := s\<rparr>)"
  by (cases v) (simp add: owed_def)

lemma view_of_status [simp]: "view_of (o1\<lparr>ord_status := s\<rparr>) x r = view_of o1 x r\<lparr>ful_status := s\<rparr>"
  by (simp add: view_of_def)

lemma ful_commute [simp]:
  "v\<lparr>ful_restored := r, ful_status := s\<rparr> = v\<lparr>ful_status := s, ful_restored := r\<rparr>"
  by (cases v) simp

lemma view_of_simps [simp]:
  "ful_status (view_of o1 x r) = ord_status o1" "ful_method (view_of o1 x r) = ord_payment_method o1"
  "ful_payment (view_of o1 x r) = ord_payment_status o1"
  "ful_delivery (view_of o1 x r) = map_option delivery_part x" "ful_refund (view_of o1 x r) = r"
  by (simp_all add: view_of_def)

lemma gate_view [simp]: "gate (view_of o1 x r) = payment_allows_fulfillment o1"
  by (simp add: gate_def payment_allows_fulfillment_def)

lemma restore_once_view:
  assumes "restore_order_stock_once now o1 d = Inr (b, o2, d1)"
  shows "view_of o2 x r = view_of o1 x r\<lparr>ful_restored := True\<rparr>" and "ord_id o2 = ord_id o1"
    and "ord_status o2 = ord_status o1" and "ord_user_id o2 = ord_user_id o1"
    and "payment_refunds d1 = payment_refunds d" and "db_next_id d1 = db_next_id d"
  using restore_once_order [OF assms] restore_once_update [OF assms] by (auto simp: view_of_def)

lemma same_core_next: "same_core d d' \<Longrightarrow> db_next_id d \<le> db_next_id d'"
  by (simp add: same_core_def)

lemma same_core_idents: "same_core d d' \<Longrightarrow> refund_idents d' = refund_idents d"
  by (simp add: refund_idents_def same_core_tables)

text \<open>A cancellation: guard set, status set and obligation recorded in one transaction.\<close>

lemma step_ok_cancelled:
  assumes o1: "get_order d oid = Some o1"
    and can: "can_transition_order (ord_status o1) CANCELLED"
    and view: "\<And>x. tables_wf d \<Longrightarrow> view_of new x (has_refund d' oid)
        = owed (view_of o1 x (has_refund d oid)\<lparr>ful_status := CANCELLED, ful_restored := True\<rparr>)"
    and ident: "ord_id new = oid"
    and ords: "orders d' = put_row ord_id new (orders d)" and dels: "deliveries d' = deliveries d"
    and refs: "tables_wf d \<Longrightarrow> refund_idents d' = refund_idents d \<or>
        (\<exists>i. refund_idents d' = refund_idents d @ [(i, oid, refund_idempotency_key oid)]
             \<and> db_next_id d \<le> i \<and> i < db_next_id d' \<and> \<not> owes (refund_idents d) oid)"
    and ids: "db_next_id d \<le> db_next_id d'"
  shows "step_ok d d'"
proof (rule step_ok_commit [where new = new and moved = None, OF o1 ident])
  assume wf: "tables_wf d"
  let ?v = "view_of o1 (delivery_of_order d oid) (has_refund d oid)"
  have "core_step ?v (owed (?v\<lparr>ful_status := CANCELLED, ful_restored := True\<rparr>))"
    using can by (intro cancel) simp
  with view [OF wf] show "core_step\<^sup>*\<^sup>* ?v
      (view_of new (case None of None \<Rightarrow> delivery_of_order d oid | Some y \<Rightarrow> Some y)
         (has_refund d' oid))" by simp
qed (use ords dels refs ids in auto)

lemma res_bind_InrE:
  assumes "res_bind r k = Inr y" obtains x where "r = Inr x" "k x = Inr y"
  using assms by (auto simp: res_bind_Inr)

lemma step_ok_customer_cancellation:
  assumes o1: "get_order d oid = Some o1" and c: "customer_cancellation now u o1 d = Inr (refund, d')"
  shows "step_ok d d'"
proof -
  have id1: "ord_id o1 = oid" using o1 by auto
  obtain b o2 d1 where r: "restore_order_stock_once now o1 d = Inr (b, o2, d1)"
    and can: "can_transition_order (ord_status o2) CANCELLED"
    using c by (auto simp: customer_cancellation_def res_bind_Inr)
  note R = restore_once_view [OF r] restore_once_frame [OF r]
  define o3 where "o3 = o2\<lparr>ord_status := CANCELLED\<rparr>"
  define d2 where "d2 = annotate_order_transition o3 (order_status_value CANCELLED) (Some (usr_id u))
                   (Some ''customer_cancelled'') [] (flush_order now o3 d1)"
  obtain x o4 d3 where e: "ensure_refund_request now o3 REFUND_REASON_CANCELLED d2 = (x, o4, d3)"
    by (cases "ensure_refund_request now o3 REFUND_REASON_CANCELLED d2") auto
  define d4 where "d4 = flush_order now o4 d3"
  have core: "same_core d4 d'"
    using c can by (auto simp: customer_cancellation_def r Let_def o3_def [symmetric]
        d2_def [symmetric] e d4_def [symmetric] simp del: order_status_value.simps
        intro: same_core_trans [OF same_core_notify_customer same_core_notify_merchant])
  have ids: "ord_id o3 = oid" "ord_id o4 = oid"
    using R(2) id1 ensure_refund_frame [OF e] by (auto simp: o3_def)
  have d2: "refund_idents d2 = refund_idents d" "db_next_id d \<le> db_next_id d2"
    "orders d2 = put_row ord_id o3 (orders d)" "deliveries d2 = deliveries d"
    using R next_id_flush_order [of d1 now o3]
    by (simp_all add: d2_def refund_idents_def annotate_order_transition_def)
  have d4: "refund_idents d4 = refund_idents d3" "db_next_id d3 \<le> db_next_id d4"
    "orders d4 = put_row ord_id o4 (orders d)" "deliveries d4 = deliveries d"
    using ensure_refund_frame [OF e] d2 ids by (simp_all add: d4_def)
  note core' = same_core_tables [OF core] same_core_idents [OF core] same_core_next [OF core]
  show ?thesis
  proof (rule step_ok_cancelled [OF o1, where new = o4])
    assume wf: "tables_wf d"
    then have wf2: "refunds_wf d2" using refunds_wf_same [OF _ d2(1,2)] by (simp add: tables_wf_def)
    note V = ensure_refund_request_view [OF e wf2]
    have same: "has_refund d2 oid \<longleftrightarrow> has_refund d oid"
      "has_refund d' oid \<longleftrightarrow> has_refund d3 oid"
      using d2(1) d4(1) core' by (simp_all only: has_refund_idents)
    show "view_of o4 x (has_refund d' oid) = owed (view_of o1 x (has_refund d oid)
        \<lparr>ful_status := CANCELLED, ful_restored := True\<rparr>)" for x
      using V(1) [of x] same ids R(1) by (simp add: o3_def)
    show "refund_idents d' = refund_idents d \<or>
        (\<exists>j. refund_idents d' = refund_idents d @ [(j, oid, refund_idempotency_key oid)]
           \<and> db_next_id d \<le> j \<and> j < db_next_id d' \<and> \<not> owes (refund_idents d) oid)"
      using V(2) d2(1,2) d4(1,2) core' ids by fastforce
  next
    show "db_next_id d \<le> db_next_id d'"
      using d2(2) d4(2) core' ensure_refund_requestD [OF e] by fastforce
  qed (use can ids d4 core' R(3) in simp_all)
qed

lemma step_ok_cancel_my_order_safely: "step_ok d (snd (cancel_my_order_safely cfg post now u i d))"
  by (auto simp: cancel_my_order_safely_def attempt_def split: option.split sum.split
      intro: step_ok_customer_cancellation step_ok_trans [OF step_ok_customer_cancellation step_ok_try_dispatch])

lemma step_ok_store_cancelled:
  assumes o1: "get_order d oid = Some o1" and can: "can_transition_order (ord_status o1) CANCELLED"
    and c: "store_cancellation now u o1 d = Inr (refund, o2, d1)"
    and d': "d' = annotate_order_transition o3 ts a why m (flush_order now o3 d1)"
    and o3: "o3 = o2\<lparr>ord_status := CANCELLED\<rparr>"
  shows "step_ok d d'"
proof -
  have id1: "ord_id o1 = oid" using o1 by auto
  obtain b oR dR dE where r: "restore_order_stock_once now o1 d = Inr (b, oR, dR)"
    using c by (auto simp: store_cancellation_def res_bind_Inr)
  obtain x oE dE where x: "ensure_refund_request now oR REFUND_REASON_CANCELLED dR = (x, oE, dE)"
    by (cases "ensure_refund_request now oR REFUND_REASON_CANCELLED dR") auto
  have e: "ensure_refund_request now oR REFUND_REASON_CANCELLED dR = (refund, o2, dE)"
    and core: "same_core dE d1"
    using c x by (auto simp: store_cancellation_def res_bind_Inr r)
  note R = restore_once_view [OF r] restore_once_frame [OF r]
  note E = ensure_refund_frame [OF e]
  note core' = same_core_tables [OF core] same_core_idents [OF core] same_core_next [OF core]
  have ids: "ord_id oR = oid" "ord_id o2 = oid" using R(2) id1 E by auto
  have nexts: "db_next_id d1 \<le> db_next_id d'"
    by (simp add: d' annotate_order_transition_def)
  have idents: "refund_idents dR = refund_idents d" "refund_idents d' = refund_idents dE"
    using R core' by (simp_all add: d' refund_idents_def annotate_order_transition_def)
  show ?thesis
  proof (rule step_ok_cancelled [OF o1 can, where new = o3])
    assume wf: "tables_wf d"
    then have wfR: "refunds_wf dR"
      using refunds_wf_same [OF _ idents(1)] R(6) by (simp add: tables_wf_def)
    note V = ensure_refund_request_view [OF e wfR]
    have same: "has_refund dR oid \<longleftrightarrow> has_refund d oid" "has_refund d' oid \<longleftrightarrow> has_refund dE oid"
      using idents by (simp_all only: has_refund_idents)
    show "view_of o3 x (has_refund d' oid) = owed (view_of o1 x (has_refund d oid)
        \<lparr>ful_status := CANCELLED, ful_restored := True\<rparr>)" for x
      using V(1) [of x] same ids R(1) by (simp add: o3)
    show "refund_idents d' = refund_idents d \<or>
        (\<exists>j. refund_idents d' = refund_idents d @ [(j, oid, refund_idempotency_key oid)]
           \<and> db_next_id d \<le> j \<and> j < db_next_id d' \<and> \<not> owes (refund_idents d) oid)"
      using V(2) idents R(6) core' nexts ids by fastforce
  next
    show "db_next_id d \<le> db_next_id d'"
      using R(6) core' nexts ensure_refund_requestD [OF e] by fastforce
  qed (use ids core' R E in \<open>simp_all add: d' o3\<close>)
qed

lemma step_ok_progress:
  assumes o1: "get_order d oid = Some o1" and target: "target \<in> {ACCEPTED, PREPARING, READY}"
    and can: "can_transition_order (ord_status o1) target"
    and gate: "target = READY \<Longrightarrow> payment_allows_fulfillment o1"
    and core: "same_core d d1" and o3: "o3 = o1\<lparr>ord_status := target\<rparr>"
    and d': "d' = annotate_order_transition o3 ts a why m (flush_order now o3 d1)"
  shows "step_ok d d'"
proof -
  note core' = same_core_tables [OF core] same_core_idents [OF core] same_core_next [OF core]
  have nexts: "db_next_id d1 \<le> db_next_id d'" by (simp add: d' annotate_order_transition_def)
  have idents: "refund_idents d' = refund_idents d"
    using core' by (simp add: d' refund_idents_def annotate_order_transition_def)
  show ?thesis
  proof (rule step_ok_commit [where new = o3 and moved = None, OF o1])
    have "core_step (view_of o1 x r) (view_of o1 x r\<lparr>ful_status := target\<rparr>)" for x r
      using target can gate accept [of "view_of o1 x r"] prepare [of "view_of o1 x r"]
        ready [of "view_of o1 x r"] by auto
    moreover have "has_refund d' oid \<longleftrightarrow> has_refund d oid"
      using idents by (simp only: has_refund_idents)
    ultimately show "core_step\<^sup>*\<^sup>* (view_of o1 (delivery_of_order d oid) (has_refund d oid))
        (view_of o3 (case None of None \<Rightarrow> delivery_of_order d oid | Some y \<Rightarrow> Some y)
           (has_refund d' oid))" by (simp add: o3 r_into_rtranclp)
    show "ord_id o3 = oid" using o1 by (auto simp: o3)
    show "db_next_id d \<le> db_next_id d'" using core' nexts by simp
  qed (use idents core' in \<open>auto simp: d' o3\<close>)
qed

lemma same_core_progress [simp]: "same_core d (progress_notice now t o1 d)"
  by (simp add: progress_notice_def)

lemma merchant_assignable_cases:
  "t \<in> set MERCHANT_ASSIGNABLE_STATUSES \<longleftrightarrow> t \<in> {ACCEPTED, PREPARING, READY, CANCELLED}"
  by (simp add: MERCHANT_ASSIGNABLE_STATUSES_def)

lemma step_ok_same_core: "same_core d d' \<Longrightarrow> step_ok d d'"
  by (rule step_ok_frame) (simp_all add: same_core_tables same_core_idents same_core_next)

lemma step_ok_merchant_update:
  assumes o1: "get_order d oid = Some o1" and target: "target \<in> set MERCHANT_ASSIGNABLE_STATUSES"
    and gate: "target = READY \<Longrightarrow> payment_allows_fulfillment o1"
    and c: "merchant_status_update now req_id u target o1 d = Inr (refund, d')"
    and can: "can_transition_order (ord_status o1) target"
  shows "step_ok d d'"
proof -
  obtain o2 d1 where eff: "(if target = CANCELLED then store_cancellation now u o1 d
               else Inr (None, o1, progress_notice now target o1 d)) = Inr (refund, o2, d1)"
    and "same_core (annotate_order_transition (o2\<lparr>ord_status := target\<rparr>) (order_status_value target)
        (Some (usr_id u)) (Some ''merchant_status_update'') []
        (flush_order now (o2\<lparr>ord_status := target\<rparr>) d1)) d'"
    using c by (auto simp: merchant_status_update_def res_bind_Inr Let_def
        dest: same_core_admin split: if_splits)
  then have tail: "step_ok (annotate_order_transition (o2\<lparr>ord_status := target\<rparr>) (order_status_value target)
        (Some (usr_id u)) (Some ''merchant_status_update'') []
        (flush_order now (o2\<lparr>ord_status := target\<rparr>) d1)) d'"
    by (rule_tac step_ok_same_core)
  show ?thesis
  proof (cases "target = CANCELLED")
    case True
    with eff can have "step_ok d (annotate_order_transition (o2\<lparr>ord_status := target\<rparr>)
        (order_status_value target) (Some (usr_id u)) (Some ''merchant_status_update'') []
        (flush_order now (o2\<lparr>ord_status := target\<rparr>) d1))"
      by (intro step_ok_store_cancelled [OF o1 _ _ refl]) auto
    then show ?thesis using tail by (rule step_ok_trans)
  next
    case False
    with eff target can gate have "step_ok d (annotate_order_transition (o2\<lparr>ord_status := target\<rparr>)
        (order_status_value target) (Some (usr_id u)) (Some ''merchant_status_update'') []
        (flush_order now (o2\<lparr>ord_status := target\<rparr>) d1))"
      by (intro step_ok_progress [OF o1 _ _ _ _ _ refl]) (auto simp: merchant_assignable_cases)
    then show ?thesis using tail by (rule step_ok_trans)
  qed
qed

lemma step_ok_update_order_status_safely:
  "step_ok d (snd (update_order_status_safely cfg post now req_id u i target d))"
  by (auto simp: update_order_status_safely_def attempt_def split: option.split sum.split
      intro: step_ok_merchant_update step_ok_trans [OF step_ok_merchant_update step_ok_try_dispatch])

end
