(* ===== verification/Spatial.thy ===== *)
theory Spatial
  imports Inventory
begin

text \<open>
  The geographic queries of \<open>services/spatial.py\<close>. PostGIS is a parameter (\<open>gis\<close>): the
  spheroid distance, the \<open>ST_DWithin\<close> predicate and the \<open><->\<close> ordering distance between
  two points; joins, filters and orderings are the queries' own. Lemmas: a covering zone is
  preferred to any other, a selected rider is verified, active, online, fresh, in range and
  free, and no eligible rider is nearer.
\<close>

type_synonym point = "rat \<times> rat"

record gis =
  gis_distance :: "point \<Rightarrow> point \<Rightarrow> rat"
  gis_dwithin :: "point \<Rightarrow> point \<Rightarrow> rat \<Rightarrow> bool"
  gis_knn :: "point \<Rightarrow> point \<Rightarrow> rat"

definition located :: "rat option \<Rightarrow> rat option \<Rightarrow> point option" where
  "located lat lon = (case (lat, lon) of (Some a, Some b) \<Rightarrow> Some (a, b) | _ \<Rightarrow> None)"

section \<open>Service areas\<close>

text \<open>The hub of an area: the located, active village it is anchored to.\<close>

definition area_hub :: "'m database_scheme \<Rightarrow> service_area \<Rightarrow> point option" where
  "area_hub d a =
     (if \<not> sva_is_active a then None
      else (case get_village d (sva_hub_village_id a) of
              None \<Rightarrow> None
            | Some v \<Rightarrow> if vil_is_active v then located (vil_latitude v) (vil_longitude v) else None))"

record coverage =
  cov_id :: uuid
  cov_name :: string
  cov_radius_km :: rat
  cov_distance_km :: rat
  cov_covers_point :: bool

definition coverage_rows :: "gis \<Rightarrow> 'm database_scheme \<Rightarrow> point \<Rightarrow> coverage list" where
  "coverage_rows g d p =
     List.map_filter (\<lambda>a. map_option (\<lambda>hub.
         \<lparr>cov_id = sva_id a, cov_name = sva_name a, cov_radius_km = sva_radius_km a,
          cov_distance_km = gis_distance g hub p / 1000,
          cov_covers_point = gis_dwithin g hub p (sva_radius_km a * 1000)\<rparr>) (area_hub d a))
       (service_areas d)"

definition serviceability_for_point :: "gis \<Rightarrow> 'm database_scheme \<Rightarrow> point \<Rightarrow> coverage option" where
  "serviceability_for_point g d p =
     (case sort_key (\<lambda>c. (\<not> cov_covers_point c, cov_distance_km c, cov_id c)) (coverage_rows g d p) of
        [] \<Rightarrow> None | c # _ \<Rightarrow> Some c)"

definition point_is_in_service_area :: "gis \<Rightarrow> 'm database_scheme \<Rightarrow> uuid \<Rightarrow> point \<Rightarrow> bool" where
  "point_is_in_service_area g d area_id p \<longleftrightarrow>
     (\<exists>a \<in> set (service_areas d). sva_id a = area_id \<and>
        (case area_hub d a of None \<Rightarrow> False
         | Some hub \<Rightarrow> gis_dwithin g hub p (sva_radius_km a * 1000)))"

section \<open>Stores and riders\<close>

definition nearby_store_distances ::
  "gis \<Rightarrow> 'm database_scheme \<Rightarrow> point \<Rightarrow> rat \<Rightarrow> bool option \<Rightarrow> (uuid \<times> rat) list" where
  "nearby_store_distances g d p radius_km delivery =
     map (\<lambda>(s, q). (sto_id s, gis_distance g q p / 1000))
       (sort_key (\<lambda>(s, q). gis_knn g q p)
         (List.map_filter (\<lambda>s.
            case (get_merchant d (sto_merchant_id s), located (sto_latitude s) (sto_longitude s)) of
              (Some m, Some q) \<Rightarrow>
                if sto_is_active s \<and> mer_status m = APPROVED
                   \<and> (case delivery of None \<Rightarrow> True | Some b \<Rightarrow> sto_delivery_enabled s = b)
                   \<and> gis_dwithin g q p (radius_km * 1000)
                then Some (s, q) else None
            | _ \<Rightarrow> None) (stores d)))"

definition active_delivery :: "delivery \<Rightarrow> bool" where
  "active_delivery x \<longleftrightarrow> dlv_status x \<in> {ASSIGNED, PICKED_UP}"

definition rider_is_busy :: "'m database_scheme \<Rightarrow> uuid \<Rightarrow> bool" where
  "rider_is_busy d rider \<longleftrightarrow>
     (\<exists>x \<in> set (deliveries d). dlv_delivery_partner_id x = Some rider \<and> active_delivery x)"

definition eligible_rider ::
  "gis \<Rightarrow> timestamp \<Rightarrow> 'm database_scheme \<Rightarrow> point \<Rightarrow> rat \<Rightarrow> user \<times> rider_presence \<Rightarrow> bool" where
  "eligible_rider g now d p radius_km ur \<longleftrightarrow>
     (case ur of (u, rp) \<Rightarrow>
        rpr_rider_id rp = usr_id u \<and> usr_role u = DELIVERY \<and> usr_is_active u \<and> usr_is_verified u
        \<and> rpr_is_online rp \<and> now - minutes 5 \<le> rpr_last_seen_at rp
        \<and> gis_dwithin g (rpr_latitude rp, rpr_longitude rp) p (radius_km * 1000)
        \<and> \<not> rider_is_busy d (usr_id u))"

text \<open>
  \<open>FOR UPDATE OF u SKIP LOCKED LIMIT 1\<close>: the users whose rows other transactions hold are
  passed over; \<open>locked\<close> says which.
\<close>

definition nearest_eligible_rider ::
  "gis \<Rightarrow> (uuid \<Rightarrow> bool) \<Rightarrow> timestamp \<Rightarrow> 'm database_scheme \<Rightarrow> point \<Rightarrow> rat \<Rightarrow> (uuid \<times> rat) option" where
  "nearest_eligible_rider g locked now d p radius_km =
     (case sort_key (\<lambda>(u, rp). gis_knn g (rpr_latitude rp, rpr_longitude rp) p)
             (filter (\<lambda>ur. eligible_rider g now d p radius_km ur \<and> \<not> locked (usr_id (fst ur)))
                (List.product (users d) (rider_presences d))) of
        [] \<Rightarrow> None
      | (u, rp) # _ \<Rightarrow> Some (usr_id u, gis_distance g (rpr_latitude rp, rpr_longitude rp) p / 1000))"

section \<open>What the queries return\<close>

lemma sort_key_first:
  assumes "sort_key f xs = x # ys"
  shows "x \<in> set xs" and "y \<in> set xs \<Longrightarrow> f x \<le> f y"
proof -
  have "set xs = set (x # ys)" using assms by (metis set_sort)
  then show "x \<in> set xs" by simp
  have "sorted (map f (x # ys))" using assms by (metis sorted_sort_key)
  then show "y \<in> set xs \<Longrightarrow> f x \<le> f y" using \<open>set xs = set (x # ys)\<close> by auto
qed

lemma sort_key_Nil_iff [simp]: "sort_key f xs = [] \<longleftrightarrow> xs = []"
  by (metis length_0_conv length_sort)

lemma coverage_rows_iff:
  "c \<in> set (coverage_rows g d p) \<longleftrightarrow>
     (\<exists>a hub. a \<in> set (service_areas d) \<and> area_hub d a = Some hub \<and>
        c = \<lparr>cov_id = sva_id a, cov_name = sva_name a, cov_radius_km = sva_radius_km a,
             cov_distance_km = gis_distance g hub p / 1000,
             cov_covers_point = gis_dwithin g hub p (sva_radius_km a * 1000)\<rparr>)"
  by (auto simp: coverage_rows_def map_filter_def image_iff split: option.splits)

lemma serviceability_sound:
  assumes "serviceability_for_point g d p = Some c"
  shows "c \<in> set (coverage_rows g d p)"
    and "c2 \<in> set (coverage_rows g d p) \<Longrightarrow> cov_covers_point c2 \<Longrightarrow>
      cov_covers_point c \<and> cov_distance_km c \<le> cov_distance_km c2"
proof -
  obtain cs where s: "sort_key (\<lambda>c. (\<not> cov_covers_point c, cov_distance_km c, cov_id c))
      (coverage_rows g d p) = c # cs"
    using assms by (auto simp: serviceability_for_point_def split: list.splits)
  show "c \<in> set (coverage_rows g d p)" by (rule sort_key_first(1) [OF s])
  show "c2 \<in> set (coverage_rows g d p) \<Longrightarrow> cov_covers_point c2 \<Longrightarrow>
      cov_covers_point c \<and> cov_distance_km c \<le> cov_distance_km c2"
    using sort_key_first(2) [OF s, of c2] by (auto simp: less_eq_prod_def less_bool_def le_bool_def)
qed

text \<open>The public serviceability answer agrees with the predicate checkout enforces.\<close>

lemma serviceability_agrees:
  "(\<exists>c. serviceability_for_point g d p = Some c \<and> cov_covers_point c) \<longleftrightarrow>
   (\<exists>a \<in> set (service_areas d). point_is_in_service_area g d (sva_id a) p)"
proof
  assume "\<exists>c. serviceability_for_point g d p = Some c \<and> cov_covers_point c"
  then obtain c where "serviceability_for_point g d p = Some c" "cov_covers_point c" by blast
  then obtain a hub where "a \<in> set (service_areas d)" "area_hub d a = Some hub"
    "gis_dwithin g hub p (sva_radius_km a * 1000)"
    using serviceability_sound(1) [of g d p c] by (auto simp: coverage_rows_iff)
  then show "\<exists>a \<in> set (service_areas d). point_is_in_service_area g d (sva_id a) p"
    by (auto simp: point_is_in_service_area_def intro!: bexI [of _ a])
next
  assume "\<exists>a \<in> set (service_areas d). point_is_in_service_area g d (sva_id a) p"
  then obtain a hub where a: "a \<in> set (service_areas d)" "area_hub d a = Some hub"
    "gis_dwithin g hub p (sva_radius_km a * 1000)"
    by (auto simp: point_is_in_service_area_def split: option.splits)
  let ?c = "\<lparr>cov_id = sva_id a, cov_name = sva_name a, cov_radius_km = sva_radius_km a,
             cov_distance_km = gis_distance g hub p / 1000, cov_covers_point = True\<rparr>"
  have c: "?c \<in> set (coverage_rows g d p)"
    unfolding coverage_rows_iff using a by (intro exI [of _ a] exI [of _ hub]) simp
  then have "serviceability_for_point g d p \<noteq> None"
    by (auto simp: serviceability_for_point_def split: list.split)
  then obtain c2 where c2: "serviceability_for_point g d p = Some c2" by blast
  with serviceability_sound(2) [OF c2 c]
  show "\<exists>c. serviceability_for_point g d p = Some c \<and> cov_covers_point c" by auto
qed

lemma nearest_eligible_riderD:
  assumes "nearest_eligible_rider g locked now d p r = Some (rider, km)"
  obtains u rp where "u \<in> set (users d)" "usr_id u = rider" "rp \<in> set (rider_presences d)"
    "eligible_rider g now d p r (u, rp)" "\<not> locked rider"
    "\<And>u2 rp2. u2 \<in> set (users d) \<Longrightarrow> rp2 \<in> set (rider_presences d) \<Longrightarrow>
       eligible_rider g now d p r (u2, rp2) \<Longrightarrow> \<not> locked (usr_id u2) \<Longrightarrow>
       gis_knn g (rpr_latitude rp, rpr_longitude rp) p \<le> gis_knn g (rpr_latitude rp2, rpr_longitude rp2) p"
proof -
  obtain u rp urs where s: "sort_key (\<lambda>(u, rp). gis_knn g (rpr_latitude rp, rpr_longitude rp) p)
      (filter (\<lambda>ur. eligible_rider g now d p r ur \<and> \<not> locked (usr_id (fst ur)))
        (List.product (users d) (rider_presences d))) = (u, rp) # urs" and "usr_id u = rider"
    using assms by (auto simp: nearest_eligible_rider_def split: list.splits)
  with sort_key_first(1) [OF s] sort_key_first(2) [OF s, of "(x, y)" for x y]
  show ?thesis by (intro that [of u rp]) auto
qed

lemma nearest_rider_not_busy:
  "nearest_eligible_rider g locked now d p r = Some (rider, km) \<Longrightarrow> \<not> rider_is_busy d rider"
  by (erule nearest_eligible_riderD) (auto simp: eligible_rider_def)

end
