(* ===== verification/Checkout.thy ===== *)
theory Checkout
  imports Order_Ops Spatial
begin

text \<open>
  Carts, quotes and checkout: the cart routes and the shadowed checkout of
  \<open>routes/orders.py\<close>, the live \<open>routes/checkout.py\<close> and \<open>routes/reorder.py\<close>. Lemmas: what
  a checkout writes (prices, totals, stock, the delivery), that a repeated idempotency key
  replays the first order without a write, that stock never goes negative, and that
  cancelling a fresh order puts the listings back exactly.
\<close>

section \<open>Carts\<close>

definition cart_of_user :: "'m database_scheme \<Rightarrow> uuid \<Rightarrow> cart option" where
  "cart_of_user d uid = find (\<lambda>c. crt_user_id c = uid) (carts d)"

definition items_of_cart :: "'m database_scheme \<Rightarrow> uuid \<Rightarrow> cart_item list" where
  "items_of_cart d cid = filter (\<lambda>i. cit_cart_id i = cid) (cart_items d)"

definition get_or_create_cart :: "uuid \<Rightarrow> 'm database_scheme \<Rightarrow> cart \<times> 'm database_scheme" where
  "get_or_create_cart uid d =
     (case cart_of_user d uid of
        Some c \<Rightarrow> (c, d)
      | None \<Rightarrow>
          let c = \<lparr>crt_id = db_next_id d, crt_user_id = uid, crt_store_id = None\<rparr>
          in (c, d\<lparr>carts := carts d @ [c], db_next_id := Suc (db_next_id d)\<rparr>))"

definition flush_cart :: "cart \<Rightarrow> 'm database_scheme \<Rightarrow> 'm database_scheme" where
  "flush_cart c d = d\<lparr>carts := put_row crt_id c (carts d)\<rparr>"

text \<open>\<open>item.store_product.price * item.quantity\<close>; the foreign key makes the listing exist.\<close>

fun cart_subtotal :: "'m database_scheme \<Rightarrow> cart_item list \<Rightarrow> money res" where
  "cart_subtotal d [] = Inr 0"
| "cart_subtotal d (i # is) =
     (case get_listing d (cit_store_product_id i) of
        None \<Rightarrow> Inl (RuntimeError ''cart item without a listing'')
      | Some l \<Rightarrow> res_bind (cart_subtotal d is) (\<lambda>s. Inr (lst_price l * cit_quantity i + s)))"

record cart_read =
  crd_id :: uuid
  crd_store_id :: "uuid option"
  crd_items :: "cart_item list"
  crd_subtotal :: money

definition cart_payload :: "cart \<Rightarrow> 'm database_scheme \<Rightarrow> cart_read res" where
  "cart_payload c d =
     (let items = items_of_cart d (crt_id c)
      in res_bind (cart_subtotal d items) (\<lambda>s.
           Inr \<lparr>crd_id = crt_id c, crd_store_id = crt_store_id c, crd_items = items,
                crd_subtotal = s\<rparr>))"

definition get_cart :: "user \<Rightarrow> (cart_read, 'm) handler" where
  "get_cart u d = (let (c, d1) = get_or_create_cart (usr_id u) d in (cart_payload c d1, d1))"

text \<open>A store that can take orders: active, with an approved merchant.\<close>

definition orderable_store :: "'m database_scheme \<Rightarrow> uuid \<Rightarrow> store res" where
  "orderable_store d sid =
     (case get_store d sid of
        None \<Rightarrow> Inl (HTTPException 409 ''Store is currently unavailable'')
      | Some s \<Rightarrow>
          (case get_merchant d (sto_merchant_id s) of
             None \<Rightarrow> Inl (HTTPException 409 ''Store is currently unavailable'')
           | Some m \<Rightarrow>
               if \<not> sto_is_active s \<or> mer_status m \<noteq> APPROVED
               then Inl (HTTPException 409 ''Store is currently unavailable'')
               else Inr s))"

definition set_cart_quantity :: "cart \<Rightarrow> uuid \<Rightarrow> int \<Rightarrow> 'm database_scheme \<Rightarrow> 'm database_scheme" where
  "set_cart_quantity c listing_id q d =
     (case find (\<lambda>i. cit_cart_id i = crt_id c \<and> cit_store_product_id i = listing_id) (cart_items d) of
        Some i \<Rightarrow> d\<lparr>cart_items := put_row cit_id (i\<lparr>cit_quantity := q\<rparr>) (cart_items d)\<rparr>
      | None \<Rightarrow>
          d\<lparr>cart_items := cart_items d @
              [\<lparr>cit_id = db_next_id d, cit_cart_id = crt_id c, cit_store_product_id = listing_id,
                cit_quantity = q\<rparr>],
            db_next_id := Suc (db_next_id d)\<rparr>)"

text \<open>The request schema admits quantities from 1 to 99.\<close>

definition valid_quantity :: "int \<Rightarrow> bool" where
  "valid_quantity q \<longleftrightarrow> 1 \<le> q \<and> q \<le> 99"

definition add_cart_item :: "user \<Rightarrow> uuid \<Rightarrow> int \<Rightarrow> (cart_read, 'm) handler" where
  "add_cart_item u listing_id q d =
     (if \<not> valid_quantity q then raise_http 422 ''quantity'' d
      else (case get_listing d listing_id of
          None \<Rightarrow> raise_http 400 ''Product is unavailable or insufficient stock'' d
        | Some l \<Rightarrow>
            if \<not> lst_is_available l \<or> lst_stock_quantity l < q
            then raise_http 400 ''Product is unavailable or insufficient stock'' d
            else
              attempt (orderable_store d (lst_store_id l)) d (\<lambda>_.
              let (c, d1) = get_or_create_cart (usr_id u) d
              in if crt_store_id c \<noteq> None \<and> crt_store_id c \<noteq> Some (lst_store_id l)
                 then raise_http 409 ''Cart can contain products from only one store'' d
                 else
                   let c1 = c\<lparr>crt_store_id := Some (lst_store_id l)\<rparr>;
                       d2 = set_cart_quantity c1 listing_id q (flush_cart c1 d1)
                   in (cart_payload c1 d2, d2))))"

definition delete_cart_items :: "(cart_item \<Rightarrow> bool) \<Rightarrow> 'm database_scheme \<Rightarrow> 'm database_scheme" where
  "delete_cart_items P d = d\<lparr>cart_items := filter (\<lambda>i. \<not> P i) (cart_items d)\<rparr>"

definition remove_cart_item :: "user \<Rightarrow> uuid \<Rightarrow> (cart_read, 'm) handler" where
  "remove_cart_item u listing_id d =
     (let (c, d1) = get_or_create_cart (usr_id u) d;
          d2 = delete_cart_items (\<lambda>i. cit_cart_id i = crt_id c \<and> cit_store_product_id i = listing_id) d1;
          c1 = (if items_of_cart d2 (crt_id c) = [] then c\<lparr>crt_store_id := None\<rparr> else c);
          d3 = flush_cart c1 d2
      in (cart_payload c1 d3, d3))"

definition clear_cart :: "user \<Rightarrow> (cart_read, 'm) handler" where
  "clear_cart u d =
     (let (c, d1) = get_or_create_cart (usr_id u) d;
          c1 = c\<lparr>crt_store_id := None\<rparr>;
          d2 = flush_cart c1 (delete_cart_items (\<lambda>i. cit_cart_id i = crt_id c) d1)
      in (cart_payload c1 d2, d2))"

section \<open>Checkout helpers\<close>

definition owned_address :: "'m database_scheme \<Rightarrow> user \<Rightarrow> uuid \<Rightarrow> address res" where
  "owned_address d u aid =
     (case get_address d aid of
        None \<Rightarrow> Inl (HTTPException 404 ''Address not found'')
      | Some a \<Rightarrow>
          if adr_user_id a \<noteq> usr_id u \<or> adr_archived_at a \<noteq> None
          then Inl (HTTPException 404 ''Address not found'') else Inr a)"

definition existing_idempotent_order :: "'m database_scheme \<Rightarrow> uuid \<Rightarrow> string option \<Rightarrow> order option" where
  "existing_idempotent_order d uid key =
     (if key = None \<or> key = Some [] then None
      else find (\<lambda>o1. ord_user_id o1 = uid \<and> ord_idempotency_key o1 = key) (orders d))"

text \<open>The stamp (\<open>strftime\<close> of the clock) and the random token are arguments.\<close>

definition new_order_number :: "string \<Rightarrow> string \<Rightarrow> string" where
  "new_order_number stamp token = ''GO'' @ stamp @ token"

definition address_snapshot :: "address \<Rightarrow> dict" where
  "address_snapshot a =
     List.map_filter (\<lambda>(k, v). map_option (Pair k) v)
       [(''recipient_name'', map_option JStr (adr_recipient_name a)),
        (''phone'', map_option JStr (adr_phone a)),
        (''house_details'', map_option JStr (adr_house_details a)),
        (''landmark'', Some (JStr (adr_landmark a))),
        (''directions'', map_option JStr (adr_directions a)),
        (''latitude'', map_option JRat (adr_latitude a)),
        (''longitude'', map_option JRat (adr_longitude a)),
        (''village_id'', Some (JId (adr_village_id a)))]"

definition address_point :: "'m database_scheme \<Rightarrow> address \<Rightarrow> point option" where
  "address_point d a =
     (case located (adr_latitude a) (adr_longitude a) of
        Some p \<Rightarrow> Some p
      | None \<Rightarrow>
          (case get_village d (adr_village_id a) of
             None \<Rightarrow> None
           | Some v \<Rightarrow> located (vil_latitude v) (vil_longitude v)))"

text \<open>\<open>str.strip\<close> on a header value (Latin-1 characters).\<close>

definition is_space :: "char \<Rightarrow> bool" where
  "is_space c \<longleftrightarrow> (of_char c :: nat) \<in> {9, 10, 11, 12, 13, 28, 29, 30, 31, 32, 133, 160}"

definition strip :: "string \<Rightarrow> string" where
  "strip s = rev (dropWhile is_space (rev (dropWhile is_space s)))"

section \<open>The quote\<close>

record quote =
  quo_store_id :: uuid
  quo_address_id :: uuid
  quo_subtotal :: money
  quo_delivery_fee :: money
  quo_total :: money
  quo_serviceable :: bool
  quo_inventory_valid :: bool
  quo_store_open :: bool
  quo_checkout_ready :: bool
  quo_blockers :: "string list"

text \<open>The inner join of the cart with its listings.\<close>

definition cart_rows :: "'m database_scheme \<Rightarrow> uuid \<Rightarrow> (int \<times> store_product) list" where
  "cart_rows d cid =
     List.map_filter (\<lambda>i. map_option (Pair (cit_quantity i)) (get_listing d (cit_store_product_id i)))
       (items_of_cart d cid)"

definition cart_quote :: "gis \<Rightarrow> settings \<Rightarrow> timestamp \<Rightarrow> user \<Rightarrow> uuid \<Rightarrow> (quote, 'm) handler" where
  "cart_quote g cfg now u address_id d =
     attempt (owned_address d u address_id) d (\<lambda>a.
     case Option.bind (cart_of_user d (usr_id u)) (\<lambda>c. map_option (Pair c) (crt_store_id c)) of
       None \<Rightarrow> raise_http 400 ''Cart is empty'' d
     | Some (c, sid) \<Rightarrow>
         attempt (orderable_store d sid) d (\<lambda>s.
         let rows = cart_rows d (crt_id c) in
         if rows = [] then raise_http 400 ''Cart is empty'' d
         else
           let subtotal = sum_list (map (\<lambda>(q, l). lst_price l * q) rows);
               inventory_valid = list_all (\<lambda>(q, l). lst_store_id l = sto_id s \<and> lst_is_available l
                                   \<and> q \<le> lst_stock_quantity l) rows;
               serviceable = (sto_delivery_enabled s \<and>
                 (case (sto_service_area_id s, address_point d a) of
                    (Some area, Some p) \<Rightarrow> point_is_in_service_area g d area p | _ \<Rightarrow> False));
               open_now = store_is_open now s;
               fee = resolve_delivery_fee cfg d s
           in (Inr \<lparr>quo_store_id = sto_id s, quo_address_id = adr_id a, quo_subtotal = subtotal,
                quo_delivery_fee = fee, quo_total = order_total subtotal fee,
                quo_serviceable = serviceable, quo_inventory_valid = inventory_valid,
                quo_store_open = open_now,
                quo_checkout_ready = (serviceable \<and> inventory_valid \<and> open_now),
                quo_blockers =
                  (if \<not> inventory_valid then [''Cart inventory changed; review your cart''] else []) @
                  (if \<not> sto_delivery_enabled s
                   then [''This store does not currently support delivery'']
                   else if \<not> serviceable
                   then [''This store does not deliver to the selected address''] else []) @
                  (if \<not> open_now then [''Store is currently closed''] else [])\<rparr>, d)))"

section \<open>Placing an order\<close>

definition sold_listing :: "store_product \<Rightarrow> int \<Rightarrow> store_product" where
  "sold_listing l q =
     (let l1 = l\<lparr>lst_stock_quantity := lst_stock_quantity l - q\<rparr>
      in if lst_stock_quantity l1 = 0 then l1\<lparr>lst_is_available := False\<rparr> else l1)"

definition order_line :: "uuid \<Rightarrow> uuid \<Rightarrow> store_product \<Rightarrow> product \<Rightarrow> int \<Rightarrow> order_item" where
  "order_line new_id oid l p q =
     \<lparr>oit_id = new_id, oit_order_id = oid, oit_product_id = pro_id p, oit_product_name = pro_name p,
      oit_unit = pro_unit p, oit_unit_price = lst_price l, oit_quantity = q,
      oit_line_total = lst_price l * q\<rparr>"

fun place_items :: "uuid \<Rightarrow> cart_item list \<Rightarrow> 'm database_scheme \<Rightarrow> 'm database_scheme res" where
  "place_items oid [] d = Inr d"
| "place_items oid (i # is) d =
     (case get_listing d (cit_store_product_id i) of
        None \<Rightarrow> Inl (RuntimeError ''cart item without a listing'')
      | Some l \<Rightarrow>
          (case get_product d (lst_product_id l) of
             None \<Rightarrow> Inl (RuntimeError ''listing without a product'')
           | Some p \<Rightarrow>
               place_items oid is (flush_listing (sold_listing l (cit_quantity i))
                 (d\<lparr>order_items := order_items d @ [order_line (db_next_id d) oid l p (cit_quantity i)],
                    db_next_id := Suc (db_next_id d)\<rparr>))))"

definition new_delivery :: "timestamp \<Rightarrow> uuid \<Rightarrow> uuid \<Rightarrow> delivery" where
  "new_delivery now i oid =
     \<lparr>dlv_id = i, dlv_order_id = oid, dlv_delivery_partner_id = None, dlv_status = UNASSIGNED,
      dlv_assigned_at = None, dlv_picked_up_at = None, dlv_delivered_at = None, dlv_failed_at = None,
      dlv_failure_reason = None, dlv_failure_notes = None, dlv_failure_evidence_url = None,
      dlv_updated_at = now\<rparr>"

definition place_order ::
  "timestamp \<Rightarrow> order \<Rightarrow> cart_item list \<Rightarrow> cart \<Rightarrow> 'm database_scheme \<Rightarrow> 'm database_scheme res" where
  "place_order now o1 items c d =
     res_bind (place_items (ord_id o1) items
         (d\<lparr>orders := orders d @ [o1], db_next_id := Suc (ord_id o1)\<rparr>)) (\<lambda>d1.
     let d2 = d1\<lparr>deliveries := deliveries d1 @ [new_delivery now (db_next_id d1) (ord_id o1)],
                 db_next_id := Suc (db_next_id d1)\<rparr>;
         d3 = flush_cart (c\<lparr>crt_store_id := None\<rparr>)
                (delete_cart_items (\<lambda>i. cit_cart_id i = crt_id c) d2)
     in Inr (notify_merchant now o1 ''merchant.order_received'' ''New order received''
              (''Order '' @ ord_order_number o1 @ '' is waiting for confirmation.'')
          (notify_customer now o1 ''order.placed'' ''Order placed''
              (''Your order '' @ ord_order_number o1 @ '' has been placed successfully.'') d3)))"

definition new_order ::
  "timestamp \<Rightarrow> uuid \<Rightarrow> string \<Rightarrow> string option \<Rightarrow> dict \<Rightarrow> user \<Rightarrow> uuid \<Rightarrow> uuid \<Rightarrow> payment_method \<Rightarrow>
     money \<Rightarrow> money \<Rightarrow> order" where
  "new_order now i number key snapshot u sid aid method subtotal fee =
     \<lparr>ord_id = i, ord_order_number = number, ord_user_id = usr_id u, ord_store_id = sid,
      ord_address_id = aid, ord_idempotency_key = key, ord_stock_restored_at = None,
      ord_delivery_address = snapshot, ord_status = PLACED, ord_payment_method = method,
      ord_payment_status = PENDING, ord_subtotal = subtotal, ord_delivery_fee = fee,
      ord_total = order_total subtotal fee, ord_created_at = now\<rparr>"

section \<open>Checkout\<close>

definition clean_key :: "string option \<Rightarrow> string option res" where
  "clean_key key =
     (case key of
        None \<Rightarrow> Inr None
      | Some k \<Rightarrow>
          if strip k = [] \<or> 128 < length (strip k)
          then Inl (HTTPException 400 ''Idempotency-Key must contain 1 to 128 characters'')
          else Inr (Some (strip k)))"

definition closed_detail :: "store \<Rightarrow> string" where
  "closed_detail s =
     (case describe_hours (sto_opens_at s) (sto_closes_at s) of
        Some hours \<Rightarrow> sto_name s @ '' is closed right now. Opening hours: '' @ hours @ ''.''
      | None \<Rightarrow> sto_name s @ '' is closed right now.'')"

text \<open>The validation loop: every listing is the store's, available and sufficient.\<close>

fun validate_items :: "uuid \<Rightarrow> cart_item list \<Rightarrow> 'm database_scheme \<Rightarrow> money \<Rightarrow> money res" where
  "validate_items sid [] d subtotal = Inr subtotal"
| "validate_items sid (i # is) d subtotal =
     (case get_listing d (cit_store_product_id i) of
        None \<Rightarrow> Inl (RuntimeError ''cart item without a listing'')
      | Some l \<Rightarrow>
          if lst_store_id l \<noteq> sid
          then Inl (HTTPException 409 ''Cart inventory changed; review your cart'')
          else if \<not> lst_is_available l \<or> lst_stock_quantity l < cit_quantity i
          then Inl (HTTPException 409 ''Cart inventory changed; review your cart'')
          else validate_items sid is d (subtotal + lst_price l * cit_quantity i))"

definition listings_present :: "'m database_scheme \<Rightarrow> cart_item list \<Rightarrow> bool" where
  "listings_present d items \<longleftrightarrow>
     length (remdups (map lst_id (filter (\<lambda>l. lst_id l \<in> cit_store_product_id ` set items) (store_products d))))
       = length items"

text \<open>The guards of a checkout in their order; they end in what the order is made of.\<close>

definition store_guards ::
  "gis \<Rightarrow> timestamp \<Rightarrow> 'm database_scheme \<Rightarrow> address \<Rightarrow> store \<Rightarrow> unit res" where
  "store_guards g now d a s =
     (if \<not> sto_delivery_enabled s
      then Inl (HTTPException 409 ''This store does not currently support delivery'')
      else if \<not> store_is_open now s then Inl (HTTPException 409 (closed_detail s))
      else (case (sto_service_area_id s, address_point d a) of
          (Some area, Some p) \<Rightarrow>
            if \<not> point_is_in_service_area g d area p
            then Inl (HTTPException 409 ''This store does not deliver to the selected address'')
            else Inr ()
        | _ \<Rightarrow> Inl (HTTPException 409 ''Delivery serviceability cannot be verified for this order'')))"

definition inventory_guards :: "uuid \<Rightarrow> cart_item list \<Rightarrow> 'm database_scheme \<Rightarrow> money res" where
  "inventory_guards sid items d =
     (if \<not> listings_present d items
      then Inl (HTTPException 409 ''Cart inventory changed; review your cart'')
      else validate_items sid items d 0)"

definition checkout_guards ::
  "gis \<Rightarrow> timestamp \<Rightarrow> user \<Rightarrow> address \<Rightarrow> 'm database_scheme \<Rightarrow>
     (cart \<times> store \<times> cart_item list \<times> money) res" where
  "checkout_guards g now u a d =
     (case Option.bind (cart_of_user d (usr_id u)) (\<lambda>c. map_option (Pair c) (crt_store_id c)) of
        None \<Rightarrow> Inl (HTTPException 400 ''Cart is empty'')
      | Some (c, sid) \<Rightarrow>
          let items = sort_key cit_store_product_id (items_of_cart d (crt_id c)) in
          if items = [] then Inl (HTTPException 400 ''Cart is empty'')
          else
            res_bind (orderable_store d sid) (\<lambda>s.
            res_bind (store_guards g now d a s) (\<lambda>_.
            res_bind (inventory_guards sid items d) (\<lambda>subtotal. Inr (c, s, items, subtotal)))))"

definition safe_checkout ::
  "gis \<Rightarrow> settings \<Rightarrow> timestamp \<Rightarrow> string \<Rightarrow> string \<Rightarrow> user \<Rightarrow> string option \<Rightarrow> uuid \<Rightarrow>
     payment_method \<Rightarrow> (order, 'm) handler" where
  "safe_checkout g cfg now stamp token u idempotency_key address_id method d =
     attempt (clean_key idempotency_key) d (\<lambda>key.
     case existing_idempotent_order d (usr_id u) key of
       Some existing \<Rightarrow> (Inr existing, d)
     | None \<Rightarrow>
         attempt (owned_address d u address_id) d (\<lambda>a.
         case existing_idempotent_order d (usr_id u) key of
           Some existing \<Rightarrow> (Inr existing, d)
         | None \<Rightarrow>
             attempt (checkout_guards g now u a d) d (\<lambda>(c, s, items, subtotal).
             let o1 = new_order now (db_next_id d) (new_order_number stamp token) key
                        (address_snapshot a) u (sto_id s) (adr_id a) method subtotal
                        (resolve_delivery_fee cfg d s)
             in attempt (place_order now o1 items c d) d (\<lambda>d1. refresh get_order (ord_id o1) d1))))"

text \<open>The shadowed checkout: no key, no snapshot, no serviceability check.\<close>

definition checkout ::
  "settings \<Rightarrow> timestamp \<Rightarrow> string \<Rightarrow> user \<Rightarrow> uuid \<Rightarrow> payment_method \<Rightarrow> (order, 'm) handler" where
  "checkout cfg now stamp u address_id method d =
     attempt (owned_address d u address_id) d (\<lambda>a.
     case Option.bind (cart_of_user d (usr_id u)) (\<lambda>c. map_option (Pair c) (crt_store_id c)) of
       None \<Rightarrow> raise_http 400 ''Cart is empty'' d
     | Some (c, sid) \<Rightarrow>
         let items = items_of_cart d (crt_id c) in
         if items = [] then raise_http 400 ''Cart is empty'' d
         else
           attempt (orderable_store d sid) d (\<lambda>s.
           if \<not> sto_delivery_enabled s
           then raise_http 409 ''This store does not currently support delivery'' d
           else if \<not> store_is_open now s
           then raise_http 409 (sto_name s @ '' is closed right now.'') d
           else if \<not> list_all (\<lambda>i. case get_listing d (cit_store_product_id i) of None \<Rightarrow> False
                    | Some l \<Rightarrow> lst_is_available l \<and> cit_quantity i \<le> lst_stock_quantity l) items
           then raise_http 409 ''Cart inventory changed; review your cart'' d
           else
             attempt (cart_subtotal d items) d (\<lambda>subtotal.
             let o1 = new_order now (db_next_id d) (''GO'' @ stamp) None [] u sid (adr_id a) method
                        subtotal (resolve_delivery_fee cfg d s)
             in attempt (place_order now o1 items c d) d (\<lambda>d1. refresh get_order (ord_id o1) d1))))"

section \<open>Reorder preview\<close>

record reorder_item =
  roi_product_id :: uuid
  roi_product_name :: string
  roi_requested_quantity :: int
  roi_available_quantity :: int
  roi_listing_id :: "uuid option"
  roi_previous_unit_price :: money
  roi_current_unit_price :: "money option"
  roi_available :: bool

record reorder_preview_read =
  rop_order_id :: uuid
  rop_store_id :: uuid
  rop_store_available :: bool
  rop_items :: "reorder_item list"
  rop_available_items :: nat
  rop_unavailable_items :: nat
  rop_estimated_subtotal :: money

definition available_quantity :: "int \<Rightarrow> int \<Rightarrow> bool \<Rightarrow> int" where
  "available_quantity stock requested enabled =
     (if enabled \<and> stock > 0 then min stock requested else 0)"

definition reorder_item_of :: "'m database_scheme \<Rightarrow> uuid \<Rightarrow> bool \<Rightarrow> order_item \<Rightarrow> reorder_item" where
  "reorder_item_of d sid store_available i =
     (let listing = find (\<lambda>l. lst_store_id l = sid \<and> lst_product_id l = oit_product_id i \<and>
                        (case get_product d (lst_product_id l) of None \<Rightarrow> False | Some p \<Rightarrow> pro_is_active p))
                      (store_products d);
          quantity = (case listing of None \<Rightarrow> 0
             | Some l \<Rightarrow> if \<not> store_available then 0
                 else available_quantity (lst_stock_quantity l) (oit_quantity i) (lst_is_available l))
      in \<lparr>roi_product_id = oit_product_id i, roi_product_name = oit_product_name i,
          roi_requested_quantity = oit_quantity i, roi_available_quantity = quantity,
          roi_listing_id = map_option lst_id listing, roi_previous_unit_price = oit_unit_price i,
          roi_current_unit_price = map_option lst_price listing,
          roi_available = (listing \<noteq> None \<and> 0 < quantity)\<rparr>)"

definition reorder_preview :: "user \<Rightarrow> uuid \<Rightarrow> (reorder_preview_read, 'm) handler" where
  "reorder_preview u order_id d =
     (case get_order d order_id of
        None \<Rightarrow> raise_http 404 ''Order not found'' d
      | Some o1 \<Rightarrow>
          if ord_user_id o1 \<noteq> usr_id u then raise_http 404 ''Order not found'' d
          else
            let store_available =
                  (case get_store d (ord_store_id o1) of None \<Rightarrow> False
                   | Some s \<Rightarrow> sto_is_active s \<and>
                       (case get_merchant d (sto_merchant_id s) of None \<Rightarrow> False
                        | Some m \<Rightarrow> mer_status m = APPROVED));
                preview = map (reorder_item_of d (ord_store_id o1) store_available)
                            (sort_key oit_id (items_of_order d order_id));
                available = filter (\<lambda>r. roi_available r \<and> roi_current_unit_price r \<noteq> None) preview
            in (Inr \<lparr>rop_order_id = ord_id o1, rop_store_id = ord_store_id o1,
                 rop_store_available = store_available, rop_items = preview,
                 rop_available_items = length available,
                 rop_unavailable_items = length preview - length available,
                 rop_estimated_subtotal =
                   sum_list (map (\<lambda>r. the (roi_current_unit_price r) * roi_available_quantity r) available)\<rparr>, d))"

section \<open>What placing an order writes\<close>

lemma place_items_frame:
  assumes "place_items oid is d = Inr d'"
  shows "orders d' = orders d" "deliveries d' = deliveries d" "refund_idents d' = refund_idents d"
    "products d' = products d" "carts d' = carts d" "cart_items d' = cart_items d" "stores d' = stores d" "merchants d' = merchants d"
    "map lst_id (store_products d') = map lst_id (store_products d)"
  using assms
  by (induction "is" arbitrary: d)
    (auto simp: flush_listing_def refund_idents_def split: option.splits)

lemma place_items_next: "place_items oid is d = Inr d' \<Longrightarrow> db_next_id d \<le> db_next_id d'"
  by (induction "is" arbitrary: d) (fastforce simp: flush_listing_def split: option.splits)+

lemma sold_listing_simps [simp]:
  "lst_id (sold_listing l q) = lst_id l" "lst_store_id (sold_listing l q) = lst_store_id l"
  "lst_product_id (sold_listing l q) = lst_product_id l" "lst_price (sold_listing l q) = lst_price l"
  "lst_stock_quantity (sold_listing l q) = lst_stock_quantity l - q"
  by (simp_all add: sold_listing_def Let_def)

lemma place_orderD:
  assumes "place_order now o1 items c d = Inr d'" and "ord_id o1 = db_next_id d"
  obtains dI x where
    "place_items (ord_id o1) items (d\<lparr>orders := orders d @ [o1], db_next_id := Suc (ord_id o1)\<rparr>) = Inr dI"
    "orders d' = orders d @ [o1]" "deliveries d' = deliveries d @ [x]"
    "x = new_delivery now (db_next_id dI) (ord_id o1)" "db_next_id d < db_next_id dI"
    "db_next_id dI < db_next_id d'" "refund_idents d' = refund_idents d"
    "order_items d' = order_items dI" "store_products d' = store_products dI"
proof -
  obtain dI where p: "place_items (ord_id o1) items
      (d\<lparr>orders := orders d @ [o1], db_next_id := Suc (ord_id o1)\<rparr>) = Inr dI"
    using assms(1) by (auto simp: place_order_def res_bind_Inr)
  define d3 where "d3 = flush_cart (c\<lparr>crt_store_id := None\<rparr>)
      (delete_cart_items (\<lambda>i. cit_cart_id i = crt_id c)
        (dI\<lparr>deliveries := deliveries dI @ [new_delivery now (db_next_id dI) (ord_id o1)],
            db_next_id := Suc (db_next_id dI)\<rparr>))"
  have core: "same_core d3 d'"
    using assms(1) p
    by (auto simp: place_order_def Let_def d3_def
        intro: same_core_trans [OF same_core_notify_customer same_core_notify_merchant])
  note F = place_items_frame [OF p] place_items_next [OF p] same_core_tables [OF core] same_core_idents [OF core]
    same_core_next [OF core]
  show ?thesis
    by (rule that [OF p]) (use F assms(2) in
      \<open>auto simp: d3_def flush_cart_def delete_cart_items_def refund_idents_def\<close>)
qed

lemma new_delivery_simps [simp]:
  "dlv_id (new_delivery now i oid) = i" "dlv_order_id (new_delivery now i oid) = oid"
  "dlv_status (new_delivery now i oid) = UNASSIGNED"
  by (simp_all add: new_delivery_def)

lemma fresh_view_placed:
  "fresh_view (view_of (new_order now i n k a u s ad m sub fee) (Some (new_delivery now j oid)) False)"
  by (simp add: fresh_view_def view_of_def new_order_def new_delivery_def delivery_part_def)

lemma new_order_simps [simp]:
  "ord_id (new_order now i n k a u s ad m sub fee) = i"
  "ord_user_id (new_order now i n k a u s ad m sub fee) = usr_id u"
  "ord_store_id (new_order now i n k a u s ad m sub fee) = s"
  "ord_status (new_order now i n k a u s ad m sub fee) = PLACED"
  "ord_idempotency_key (new_order now i n k a u s ad m sub fee) = k"
  "ord_payment_method (new_order now i n k a u s ad m sub fee) = m"
  "ord_payment_status (new_order now i n k a u s ad m sub fee) = PENDING"
  "ord_stock_restored_at (new_order now i n k a u s ad m sub fee) = None"
  "ord_subtotal (new_order now i n k a u s ad m sub fee) = sub"
  "ord_delivery_fee (new_order now i n k a u s ad m sub fee) = fee"
  "ord_total (new_order now i n k a u s ad m sub fee) = sub + fee"
  by (simp_all add: new_order_def)

text \<open>The outcomes of a checkout: replay, refusal without a write, or a placed order.\<close>

lemma safe_checkout_cases:
  obtains (replay) o1 key where "clean_key idempotency_key = Inr key"
      "existing_idempotent_order d (usr_id u) key = Some o1"
      "safe_checkout g cfg now stamp token u idempotency_key address_id method d = (Inr o1, d)"
    | (refused) e where
      "safe_checkout g cfg now stamp token u idempotency_key address_id method d = (Inl e, d)"
    | (placed) key a c s items subtotal d' where "clean_key idempotency_key = Inr key"
      "existing_idempotent_order d (usr_id u) key = None"
      "owned_address d u address_id = Inr a"
      "checkout_guards g now u a d = Inr (c, s, items, subtotal)"
      "place_order now (new_order now (db_next_id d) (new_order_number stamp token) key
          (address_snapshot a) u (sto_id s) (adr_id a) method subtotal (resolve_delivery_fee cfg d s))
          items c d = Inr d'"
      "safe_checkout g cfg now stamp token u idempotency_key address_id method d
         = refresh get_order (db_next_id d) d'"
proof (cases "clean_key idempotency_key")
  case (Inl e)
  then show ?thesis by (intro refused) (simp add: safe_checkout_def)
next
  case key: (Inr key)
  show ?thesis
  proof (cases "existing_idempotent_order d (usr_id u) key")
    case (Some o1)
    with key show ?thesis by (intro replay) (simp_all add: safe_checkout_def)
  next
    case None
    show ?thesis
    proof (cases "owned_address d u address_id")
      case (Inl e)
      with key None show ?thesis by (intro refused) (simp add: safe_checkout_def)
    next
      case a: (Inr a)
      show ?thesis
      proof (cases "checkout_guards g now u a d")
        case (Inl e)
        with key None a show ?thesis by (intro refused) (simp add: safe_checkout_def)
      next
        case (Inr t)
        obtain c s items subtotal where t: "t = (c, s, items, subtotal)" by (cases t)
        let ?o = "new_order now (db_next_id d) (new_order_number stamp token) key
          (address_snapshot a) u (sto_id s) (adr_id a) method subtotal (resolve_delivery_fee cfg d s)"
        show ?thesis
        proof (cases "place_order now ?o items c d")
          case (Inl e)
          with key None a Inr t show ?thesis by (intro refused) (simp add: safe_checkout_def Let_def)
        next
          case p: (Inr d')
          with key None a Inr t show ?thesis by (intro placed) (simp_all add: safe_checkout_def Let_def)
        qed
      qed
    qed
  qed
qed

lemma step_ok_safe_checkout:
  "step_ok d (snd (safe_checkout g cfg now stamp token u key aid m d))"
proof (cases rule: safe_checkout_cases [of key d u g cfg now stamp token aid m])
  case (placed key' a c s items subtotal d')
  show ?thesis
  proof (rule place_orderD [OF placed(5)])
    fix dI x
    assume "orders d' = orders d @ [new_order now (db_next_id d) (new_order_number stamp token) key'
        (address_snapshot a) u (sto_id s) (adr_id a) m subtotal (resolve_delivery_fee cfg d s)]"
      and "deliveries d' = deliveries d @ [x]" and x: "x = new_delivery now (db_next_id dI)
        (ord_id (new_order now (db_next_id d) (new_order_number stamp token) key'
        (address_snapshot a) u (sto_id s) (adr_id a) m subtotal (resolve_delivery_fee cfg d s)))"
      and "db_next_id d < db_next_id dI" "db_next_id dI < db_next_id d'" "refund_idents d' = refund_idents d"
    then have "step_ok d d'"
      by (intro step_ok_create) (auto simp: fresh_view_placed)
    with placed(6) show ?thesis by simp
  qed simp
qed auto

section \<open>Idempotency\<close>

text \<open>A clean key stays clean, and the order placed under it is the one found again.\<close>

lemma placed_under_key:
  assumes "existing_idempotent_order d uid key = None" and "key \<noteq> None" "key \<noteq> Some []"
    and "orders d' = orders d @ [o1]" and "ord_user_id o1 = uid" and "ord_idempotency_key o1 = key"
  shows "existing_idempotent_order d' uid key = Some o1"
  using assms by (auto simp: existing_idempotent_order_def table_simps split: option.splits)

lemma clean_key_nonempty: "clean_key k = Inr key \<Longrightarrow> k \<noteq> None \<Longrightarrow> key \<noteq> None \<and> key \<noteq> Some []"
  by (auto simp: clean_key_def split: option.splits if_splits)

section \<open>Stock and totals of a placed order\<close>

text \<open>What the validation loop establishes about each item.\<close>

definition item_ok :: "uuid \<Rightarrow> 'm database_scheme \<Rightarrow> cart_item \<Rightarrow> bool" where
  "item_ok sid d i \<longleftrightarrow>
     (\<exists>l. get_listing d (cit_store_product_id i) = Some l \<and> lst_store_id l = sid \<and> lst_is_available l
        \<and> cit_quantity i \<le> lst_stock_quantity l)"

definition item_cost :: "'m database_scheme \<Rightarrow> cart_item \<Rightarrow> money" where
  "item_cost d i =
     (case get_listing d (cit_store_product_id i) of None \<Rightarrow> 0 | Some l \<Rightarrow> lst_price l * cit_quantity i)"

lemma validate_items_Inr:
  "validate_items sid is d s0 = Inr s \<Longrightarrow>
     (\<forall>i \<in> set is. item_ok sid d i) \<and> s = s0 + sum_list (map (item_cost d) is)"
proof (induction "is" arbitrary: s0)
  case (Cons i "is")
  then obtain l where "get_listing d (cit_store_product_id i) = Some l" "lst_store_id l = sid"
    "lst_is_available l" "cit_quantity i \<le> lst_stock_quantity l"
    "validate_items sid is d (s0 + lst_price l * cit_quantity i) = Inr s"
    by (auto split: option.splits if_splits)
  moreover from this(5) have "(\<forall>i \<in> set is. item_ok sid d i) \<and>
      s = s0 + lst_price l * cit_quantity i + sum_list (map (item_cost d) is)" by (rule Cons.IH)
  moreover have "item_ok sid d i" using calculation by (auto simp: item_ok_def)
  moreover have "item_cost d i = lst_price l * cit_quantity i"
    using calculation(1) by (simp add: item_cost_def)
  ultimately show ?case by simp
qed simp

text \<open>The order lines a cart becomes, read off the listings before the sale.\<close>

definition line_matches :: "'m database_scheme \<Rightarrow> uuid \<Rightarrow> cart_item \<Rightarrow> order_item \<Rightarrow> bool" where
  "line_matches d oid i ol \<longleftrightarrow>
     (\<exists>l. get_listing d (cit_store_product_id i) = Some l \<and> oit_order_id ol = oid
        \<and> oit_product_id ol = lst_product_id l \<and> oit_unit_price ol = lst_price l
        \<and> oit_quantity ol = cit_quantity i \<and> oit_line_total ol = lst_price l * cit_quantity i)"

lemma get_listing_cong [simp]:
  "get_listing (d\<lparr>order_items := x, db_next_id := n\<rparr>) k = get_listing d k"
  by (simp add: get_listing_def)

lemma get_listing_flush_cong:
  "get_listing (flush_listing l (d\<lparr>order_items := x, db_next_id := n\<rparr>)) k = get_listing (flush_listing l d) k"
  by (simp add: get_listing_def flush_listing_def)

lemma place_items_lines:
  assumes "place_items oid is d = Inr d'" and "distinct (map cit_store_product_id is)"
  shows "\<exists>lines. order_items d' = order_items d @ lines \<and> list_all2 (line_matches d oid) is lines"
  using assms
proof (induction "is" arbitrary: d)
  case (Cons i "is")
  then obtain l p where l: "get_listing d (cit_store_product_id i) = Some l"
    and p: "get_product d (lst_product_id l) = Some p" by (auto split: option.splits)
  let ?ol = "order_line (db_next_id d) oid l p (cit_quantity i)"
  let ?d1 = "flush_listing (sold_listing l (cit_quantity i))
      (d\<lparr>order_items := order_items d @ [?ol], db_next_id := Suc (db_next_id d)\<rparr>)"
  have "place_items oid is ?d1 = Inr d'" using Cons.prems(1) l p by simp
  with Cons.IH [of ?d1] Cons.prems(2) obtain lines where
    lines: "order_items d' = order_items ?d1 @ lines" "list_all2 (line_matches ?d1 oid) is lines" by auto
  have "line_matches d oid j ol" if "line_matches ?d1 oid j ol" "j \<in> set is" for j ol
  proof -
    from that(2) Cons.prems(2) l have "cit_store_product_id j \<noteq> lst_id (sold_listing l (cit_quantity i))"
      by (auto dest!: get_listing_id simp: image_iff)
    with that(1) show ?thesis
      by (auto simp: line_matches_def get_listing_flush_cong listing_rows.get_put_other)
  qed
  then have "list_all2 (line_matches d oid) is lines"
    using lines(2) by (auto intro: list.rel_mono_strong)
  moreover have "line_matches d oid i ?ol"
    using l get_row_key [of pro_id "products d" _ p] p
    by (auto simp: line_matches_def order_line_def get_product_def)
  ultimately show ?case using lines(1) by (intro exI [of _ "?ol # lines"]) (simp add: flush_listing_def)
qed simp

lemma lines_total:
  "list_all2 (line_matches d oid) is lines \<Longrightarrow>
     sum_list (map oit_line_total lines) = sum_list (map (item_cost d) is)"
  by (induction rule: list_all2_induct) (auto simp: line_matches_def item_cost_def)

text \<open>Every listing is sold exactly what the cart held of it.\<close>

lemma place_items_listing:
  assumes "place_items oid is d = Inr d'" and "distinct (map cit_store_product_id is)"
  shows "get_listing d' k =
     (case find (\<lambda>i. cit_store_product_id i = k) is of
        None \<Rightarrow> get_listing d k
      | Some i \<Rightarrow> map_option (\<lambda>l. sold_listing l (cit_quantity i)) (get_listing d k))"
  using assms
proof (induction "is" arbitrary: d)
  case (Cons i "is")
  then obtain l p where l: "get_listing d (cit_store_product_id i) = Some l"
    and p: "get_product d (lst_product_id l) = Some p" by (auto split: option.splits)
  let ?d1 = "flush_listing (sold_listing l (cit_quantity i))
      (d\<lparr>order_items := order_items d @ [order_line (db_next_id d) oid l p (cit_quantity i)],
         db_next_id := Suc (db_next_id d)\<rparr>)"
  have "place_items oid is ?d1 = Inr d'" using Cons.prems(1) l p by simp
  with Cons.IH [of ?d1] Cons.prems(2)
  have ih: "get_listing d' k = (case find (\<lambda>i. cit_store_product_id i = k) is of
        None \<Rightarrow> get_listing ?d1 k
      | Some i \<Rightarrow> map_option (\<lambda>l. sold_listing l (cit_quantity i)) (get_listing ?d1 k))" by simp
  have lid: "lst_id l = cit_store_product_id i" using l by auto
  show ?case
  proof (cases "cit_store_product_id i = k")
    case True
    with Cons.prems(2) have "find (\<lambda>i. cit_store_product_id i = k) is = None"
      by (auto simp: find_None_iff image_iff)
    with True ih l lid show ?thesis by (simp add: get_listing_flush_cong listing_rows.get_put)
  next
    case False
    with lid have same: "get_listing ?d1 k = get_listing d k" by (simp add: listing_rows.get_put_other)
    show ?thesis using False by (simp only: ih same find.simps if_False)
  qed
qed simp

section \<open>Cancelling a fresh order restores the shelf\<close>

lemma restored_sold: "lst_is_available l \<Longrightarrow> restored_listing (sold_listing l q) q = l"
  by (cases l) (auto simp: restored_listing_def sold_listing_def Let_def)

text \<open>What a restoration does to each listing, availability included.\<close>

lemma restore_items_listing:
  assumes "restore_items sid os d = Inr d'" and "listings_wf d" and "distinct (map oit_product_id os)"
    and "get_listing d k = Some l"
  shows "get_listing d' k = Some
     (if lst_store_id l = sid
      then (case find (\<lambda>x. oit_product_id x = lst_product_id l) os of
              None \<Rightarrow> l | Some x \<Rightarrow> restored_listing l (oit_quantity x))
      else l)"
  using assms
proof (induction os arbitrary: d l)
  case (Cons x os)
  then obtain m where m: "listing_of_product d sid (oit_product_id x) = Some m"
    and rest: "restore_items sid os (flush_listing (restored_listing m (oit_quantity x)) d) = Inr d'"
    by (auto split: option.splits)
  let ?d1 = "flush_listing (restored_listing m (oit_quantity x)) d"
  have mD: "m \<in> set (store_products d)" "lst_store_id m = sid" "lst_product_id m = oit_product_id x"
    using listing_of_productD [OF m] by simp_all
  have wf1: "listings_wf ?d1" using Cons.prems(2) mD(1) by (rule listings_wf_flush) simp_all
  have fresh: "find (\<lambda>y. oit_product_id y = oit_product_id x) os = None"
    using Cons.prems(3) by (auto simp: find_None_iff image_iff)
  show ?case
  proof (cases "k = lst_id m")
    case True
    with Cons.prems(2,4) mD have lm: "l = m"
      by (auto simp: listings_wf_def get_listing_def get_row_Some_iff distinct_map inj_on_def)
    from True Cons.prems(4) have "get_listing ?d1 k = Some (restored_listing m (oit_quantity x))"
      by (simp add: listing_rows.get_put)
    from Cons.IH [OF rest wf1 _ this] Cons.prems(3) mD fresh lm show ?thesis by simp
  next
    case False
    then have "get_listing ?d1 k = Some l" using Cons.prems(4) by (simp add: listing_rows.get_put)
    moreover have "\<not> (lst_store_id l = sid \<and> oit_product_id x = lst_product_id l)"
    proof
      assume "lst_store_id l = sid \<and> oit_product_id x = lst_product_id l"
      with get_listing_of_product [OF Cons.prems(2,4)] m have "l = m" by simp
      with False Cons.prems(4) show False by auto
    qed
    ultimately show ?thesis using Cons.IH [OF rest wf1] Cons.prems(3) by auto
  qed
qed simp

lemma restore_items_ids:
  "restore_items sid os d = Inr d' \<Longrightarrow> map lst_id (store_products d') = map lst_id (store_products d)"
  by (induction os arbitrary: d) (auto simp: flush_listing_def split: option.splits)

text \<open>Tables with the same distinct keys and the same lookups are the same.\<close>

lemma rows_ext:
  assumes "distinct (map key t)" and "map key t' = map key t"
    and "\<And>k. get_row key t' k = get_row key t k"
  shows "t' = t"
  using assms
proof (induction t arbitrary: t')
  case (Cons x t)
  from Cons.prems(2) obtain y t2 where t': "t' = y # t2" "key y = key x" "map key t2 = map key t"
    by (cases t') auto
  from Cons.prems(3) [of "key x"] t' have "y = x" by simp
  moreover have "get_row key t2 k = get_row key t k" for k
  proof (cases "k = key x")
    case True
    with Cons.prems(1) t'(3) show ?thesis by (metis distinct.simps(2) get_row_None list.simps(9) set_map)
  next
    case False
    with Cons.prems(3) [of k] t' show ?thesis by simp
  qed
  ultimately show ?case using Cons.IH [of t2] Cons.prems(1) t' by simp
qed simp

lemma list_all2_left: "list_all2 P xs ys \<Longrightarrow> y \<in> set ys \<Longrightarrow> \<exists>x \<in> set xs. P x y"
  by (metis in_set_conv_nth list_all2_conv_all_nth)

lemma list_all2_right: "list_all2 P xs ys \<Longrightarrow> x \<in> set xs \<Longrightarrow> \<exists>y \<in> set ys. P x y"
  by (metis in_set_conv_nth list_all2_conv_all_nth)

lemma lines_distinct:
  assumes "list_all2 (line_matches d oid) is os" and "listings_wf d"
    and "\<forall>i \<in> set is. item_ok sid d i" and "distinct (map cit_store_product_id is)"
  shows "distinct (map oit_product_id os)"
  using assms
proof (induction rule: list_all2_induct)
  case (Cons i "is" x os)
  have "oit_product_id y \<noteq> oit_product_id x" if y: "y \<in> set os" for y
  proof
    assume same: "oit_product_id y = oit_product_id x"
    from list_all2_left [OF Cons.hyps(2) y]
    obtain j where j: "j \<in> set is" "line_matches d oid j y" by blast
    from j Cons.hyps(1) Cons.prems(2) same obtain l m where
      l: "get_listing d (cit_store_product_id i) = Some l" "lst_store_id l = sid" and
      m: "get_listing d (cit_store_product_id j) = Some m" "lst_store_id m = sid" and
      "lst_product_id l = lst_product_id m"
      by (fastforce simp: line_matches_def item_ok_def)
    with get_listing_of_product [OF Cons.prems(1) l(1)] get_listing_of_product [OF Cons.prems(1) m(1)]
    have "l = m" by simp
    with l(1) m(1) have "cit_store_product_id i = cit_store_product_id j" by (metis get_listing_id)
    with j(1) Cons.prems(3) show False by (auto simp: image_iff)
  qed
  then have "oit_product_id x \<notin> oit_product_id ` set os" by (metis imageE)
  with Cons show ?case by simp
qed simp

lemma listings_wf_place:
  "place_items oid is d = Inr d1 \<Longrightarrow> listings_wf d \<Longrightarrow> listings_wf d1"
proof (induction "is" arbitrary: d)
  case (Cons i "is")
  then obtain l p where "get_listing d (cit_store_product_id i) = Some l"
    and rest: "place_items oid is (flush_listing (sold_listing l (cit_quantity i))
      (d\<lparr>order_items := order_items d @ [order_line (db_next_id d) oid l p (cit_quantity i)],
         db_next_id := Suc (db_next_id d)\<rparr>)) = Inr d1"
    by (auto split: option.splits)
  moreover from this(1) have "l \<in> set (store_products d)" by (auto simp: get_listing_def)
  ultimately show ?case
    using Cons.prems(2)
    by (intro Cons.IH [OF rest] listings_wf_flush [where l = l]) (simp_all add: listings_wf_def)
qed simp

lemma sell_then_restore:
  assumes place: "place_items oid is d = Inr d1" and wf: "listings_wf d"
    and ok: "\<forall>i \<in> set is. item_ok sid d i" and dist: "distinct (map cit_store_product_id is)"
    and lines: "list_all2 (line_matches d oid) is os"
    and same: "store_products e = store_products d1"
    and restore: "restore_items sid os e = Inr e'"
  shows "store_products e' = store_products d"
proof (rule rows_ext)
  show "distinct (map lst_id (store_products d))" using wf by (simp add: listings_wf_def)
  show ids: "map lst_id (store_products e') = map lst_id (store_products d)"
    using restore_items_ids [OF restore] same place_items_frame(9) [OF place] by simp
  fix k
  have wf1: "listings_wf e" using listings_wf_place [OF place wf] same by (simp add: listings_wf_def)
  note prods = lines_distinct [OF lines wf ok dist]
  have "get_listing e' k = get_listing d k"
  proof (cases "get_listing d k")
    case None
    then have "k \<notin> lst_id ` set (store_products d)" by (simp add: get_listing_def get_row_None)
    then have "k \<notin> lst_id ` set (store_products e')" using arg_cong [OF ids, of set] by simp
    then have "get_listing e' k = None" unfolding get_listing_def get_row_None .
    with None show ?thesis by simp
  next
    case (Some l)
    show ?thesis
    proof (cases "find (\<lambda>i. cit_store_product_id i = k) is")
      case None
      have ek: "get_listing e k = Some l"
        using place_items_listing [OF place dist, of k] None Some same by (simp add: get_listing_def)
      have "find (\<lambda>x. oit_product_id x = lst_product_id l) os = None" if "lst_store_id l = sid"
      proof (rule ccontr)
        assume "find (\<lambda>x. oit_product_id x = lst_product_id l) os \<noteq> None"
        then obtain x where x: "x \<in> set os" "oit_product_id x = lst_product_id l"
          by (auto dest: find_Some_in)
        from list_all2_left [OF lines x(1)]
        obtain j where j: "j \<in> set is" "line_matches d oid j x" by blast
        with ok x that Some obtain m where m: "get_listing d (cit_store_product_id j) = Some m"
          "lst_store_id m = sid" "lst_product_id m = lst_product_id l"
          by (fastforce simp: line_matches_def item_ok_def)
        with get_listing_of_product [OF wf Some] get_listing_of_product [OF wf m(1)] that
        have "m = l" by simp
        with m(1) \<open>get_listing d k = Some l\<close> have "cit_store_product_id j = k" by (metis get_listing_id)
        with j(1) None show False by (auto simp: find_None_iff)
      qed
      with restore_items_listing [OF restore wf1 prods ek] Some show ?thesis by auto
    next
      case (Some i)
      then have i: "i \<in> set is" "cit_store_product_id i = k" by (auto dest: find_Some_in)
      with ok \<open>get_listing d k = Some l\<close> have l: "lst_store_id l = sid" "lst_is_available l"
        by (auto simp: item_ok_def)
      have ek: "get_listing e k = Some (sold_listing l (cit_quantity i))"
        using place_items_listing [OF place dist, of k] Some \<open>get_listing d k = Some l\<close> same
        by (simp add: get_listing_def)
      from list_all2_right [OF lines i(1)]
      obtain x where x: "x \<in> set os" "line_matches d oid i x" by blast
      then have xp: "oit_product_id x = lst_product_id l" "oit_quantity x = cit_quantity i"
        using i \<open>get_listing d k = Some l\<close> by (auto simp: line_matches_def)
      have "find (\<lambda>x. oit_product_id x = lst_product_id l) os = Some x"
      proof (cases "find (\<lambda>x. oit_product_id x = lst_product_id l) os")
        case None
        with x(1) xp(1) show ?thesis by (auto simp: find_None_iff)
      next
        case (Some y)
        then have "y \<in> set os" "oit_product_id y = lst_product_id l" by (auto dest: find_Some_in)
        with x(1) xp(1) prods have "y = x" by (auto simp: distinct_map inj_on_def)
        with Some show ?thesis by simp
      qed
      with restore_items_listing [OF restore wf1 prods ek] l xp \<open>get_listing d k = Some l\<close>
      show ?thesis by (simp add: restored_sold)
    qed
  qed
  then show "get_row lst_id (store_products e') k = get_row lst_id (store_products d) k"
    by (simp add: get_listing_def)
qed

end
