(* ===== verification/Delivery_Ops.thy ===== *)
theory Delivery_Ops
  imports Order_Ops Spatial
begin

text \<open>
  The last mile: claiming, picking up and releasing a delivery (\<open>routes/orders.py\<close>),
  failing, recovering and resolving one, proof of delivery, cash collection and completion
  (\<open>routes/delivery_operations.py\<close>, \<open>routes/delivery_financials.py\<close>). Each handler is its
  guards followed by a transaction (\<open>..._tx\<close>) that ends at the commit. Lemmas: every
  outcome is a \<open>step_ok\<close>, and the success inversions the properties use.
\<close>

section \<open>Claiming, pickup and release\<close>

definition claimed :: "timestamp \<Rightarrow> uuid \<Rightarrow> delivery \<Rightarrow> delivery res" where
  "claimed now rider x =
     res_bind (transition_delivery (x\<lparr>dlv_delivery_partner_id := Some rider\<rparr>) ASSIGNED) (\<lambda>y.
       Inr (y\<lparr>dlv_assigned_at := Some now\<rparr>))"

definition claim_delivery_tx ::
  "timestamp \<Rightarrow> user \<Rightarrow> delivery \<Rightarrow> order \<Rightarrow> 'm database_scheme \<Rightarrow> 'm database_scheme res" where
  "claim_delivery_tx now u x o1 d =
     res_bind (claimed now (usr_id u) x) (\<lambda>y.
       Inr (notify_customer now o1 ''delivery.assigned'' ''Delivery partner assigned''
         (''A delivery partner is on the way for order '' @ ord_order_number o1 @ ''.'')
         (flush_delivery now y d)))"

definition claim_delivery :: "timestamp \<Rightarrow> user \<Rightarrow> uuid \<Rightarrow> (delivery, 'm) handler" where
  "claim_delivery now u delivery_id d =
     attempt (require_roles [DELIVERY] u) d (\<lambda>_.
     case get_delivery d delivery_id of
       None \<Rightarrow> raise_http 404 ''Delivery not found'' d
     | Some x \<Rightarrow>
         (case get_order d (dlv_order_id x) of
            None \<Rightarrow> raise_http 409 ''Delivery is not available'' d
          | Some o1 \<Rightarrow>
              if ord_status o1 \<noteq> READY \<or> \<not> payment_allows_fulfillment o1
                 \<or> \<not> can_transition_delivery (dlv_status x) ASSIGNED
              then raise_http 409 ''Delivery is not available'' d
              else (case get_user d (usr_id u) of
                  None \<Rightarrow> raise_http 403 ''Delivery partner is not eligible'' d
                | Some rider \<Rightarrow>
                    if \<not> usr_is_active rider \<or> \<not> usr_is_verified rider
                    then raise_http 403 ''Delivery partner is not eligible'' d
                    else if \<exists>z \<in> set (deliveries d). dlv_delivery_partner_id z = Some (usr_id rider)
                              \<and> active_delivery z \<and> dlv_id z \<noteq> delivery_id
                    then raise_http 409 ''Finish your current delivery before claiming another'' d
                    else attempt (claim_delivery_tx now u x o1 d) d (\<lambda>d1.
                           refresh get_delivery delivery_id d1))))"

text \<open>\<open>DeliveryStatusUpdate\<close> refuses the two statuses with endpoints of their own.\<close>

definition require_controlled_terminal_endpoints :: "delivery_status \<Rightarrow> unit res" where
  "require_controlled_terminal_endpoints s =
     (if s \<in> {DLV_DELIVERED, FAILED}
      then Inl (HTTPException 422 ''Use the controlled delivery completion or failure endpoint'')
      else Inr ())"

text \<open>The branch on the requested status: the delivery and order objects, and the notice.\<close>

definition delivery_update_effects ::
  "timestamp \<Rightarrow> delivery_status \<Rightarrow> delivery \<Rightarrow> order \<Rightarrow> 'm database_scheme \<Rightarrow>
     (delivery \<times> order \<times> 'm database_scheme) res" where
  "delivery_update_effects now target x o1 d =
     (if target = PICKED_UP then
        (if \<not> payment_allows_fulfillment o1
         then Inl (HTTPException 409 ''Online payment must be confirmed before pickup'')
         else if \<not> can_transition_order (ord_status o1) OUT_FOR_DELIVERY
         then Inl (HTTPException 409 (''Order cannot be picked up from ''
                @ order_status_value (ord_status o1)))
         else res_bind (transition_order o1 OUT_FOR_DELIVERY) (\<lambda>o2.
           Inr (x\<lparr>dlv_picked_up_at := Some now\<rparr>, o2,
             notify_customer now o2 ''delivery.picked_up'' ''Order picked up''
               ''Your order has been collected from the store and is on its way.''
               (flush_order now o2 d))))
      else if target = UNASSIGNED then
        (if ord_status o1 \<noteq> READY
         then Inl (HTTPException 409
                ''A delivery can only be released while the order is still ready for pickup'')
         else Inr (x\<lparr>dlv_delivery_partner_id := None, dlv_assigned_at := None\<rparr>, o1,
             notify_customer now o1 ''delivery.reassignment'' ''Delivery partner is being reassigned''
               (''We are assigning another delivery partner to order '' @ ord_order_number o1 @ ''.'') d))
      else Inr (x, o1, d))"

definition update_delivery_status_tx ::
  "timestamp \<Rightarrow> string \<Rightarrow> user \<Rightarrow> delivery_status \<Rightarrow> delivery \<Rightarrow> order \<Rightarrow> 'm database_scheme \<Rightarrow>
     'm database_scheme res" where
  "update_delivery_status_tx now req_id u target x o1 d =
     res_bind (delivery_update_effects now target x o1 d) (\<lambda>(x1, o2, d1).
     res_bind (transition_delivery x1 target) (\<lambda>x2.
     let d2 = flush_delivery now x2 d1 in
     if usr_role u = ADMIN then
       record_admin_action req_id u ''delivery.status_updated'' RIDER_OPERATIONS ''delivery'' (dlv_id x2)
         [] [(''delivery_status'', JStr (delivery_status_value (dlv_status x2))),
             (''order_status'', JStr (order_status_value (ord_status o2)))]
         (Some ''legacy_admin_delivery_operations'') d2
     else Inr d2))"

definition update_delivery_status ::
  "timestamp \<Rightarrow> string \<Rightarrow> user \<Rightarrow> uuid \<Rightarrow> delivery_status \<Rightarrow> (delivery, 'm) handler" where
  "update_delivery_status now req_id u delivery_id target d =
     attempt (require_roles [DELIVERY, ADMIN] u) d (\<lambda>_.
     attempt (require_controlled_terminal_endpoints target) d (\<lambda>_.
     case get_delivery d delivery_id of
       None \<Rightarrow> raise_http 404 ''Delivery not found'' d
     | Some x \<Rightarrow>
         attempt (if usr_role u = ADMIN then res_bind (ensure_capability u RIDER_OPERATIONS) (\<lambda>_. Inr ())
                  else if dlv_delivery_partner_id x \<noteq> Some (usr_id u)
                  then Inl (HTTPException 403 ''Delivery is not assigned to you'')
                  else Inr ()) d (\<lambda>_.
         if \<not> can_transition_delivery (dlv_status x) target
         then raise_http 409 (''Invalid delivery transition from ''
                @ delivery_status_value (dlv_status x) @ '' to '' @ delivery_status_value target) d
         else (case get_order d (dlv_order_id x) of
             None \<Rightarrow> raise_http 409 ''Delivery order is missing'' d
           | Some o1 \<Rightarrow>
               attempt (update_delivery_status_tx now req_id u target x o1 d) d (\<lambda>d1.
               refresh get_delivery delivery_id d1)))))"

section \<open>Guards of the operations routes\<close>

definition locked_delivery_order ::
  "'m database_scheme \<Rightarrow> uuid \<Rightarrow> (delivery \<times> order) res" where
  "locked_delivery_order d delivery_id =
     (case get_delivery d delivery_id of
        None \<Rightarrow> Inl (HTTPException 404 ''Delivery not found'')
      | Some x \<Rightarrow>
          (case get_order d (dlv_order_id x) of
             None \<Rightarrow> Inl (HTTPException 409 ''Delivery order is missing'')
           | Some o1 \<Rightarrow> Inr (x, o1)))"

definition require_assigned_rider :: "delivery \<Rightarrow> user \<Rightarrow> capability \<Rightarrow> unit res" where
  "require_assigned_rider x u admin_capability =
     (if usr_role u = ADMIN then res_bind (ensure_capability u admin_capability) (\<lambda>_. Inr ())
      else if dlv_delivery_partner_id x \<noteq> Some (usr_id u)
      then Inl (HTTPException 403 ''Delivery is not assigned to you'')
      else Inr ())"

text \<open>The operations routes also let the assigned rider see an order.\<close>

definition can_view_order_ops :: "'m database_scheme \<Rightarrow> order \<Rightarrow> user \<Rightarrow> bool" where
  "can_view_order_ops d o1 u =
     (if usr_role u = ADMIN \<or> ord_user_id o1 = usr_id u then True
      else if usr_role u = MERCHANT then
        (case (merchant_of_owner d (usr_id u), get_store d (ord_store_id o1)) of
           (Some m, Some s) \<Rightarrow> sto_merchant_id s = mer_id m
         | _ \<Rightarrow> False)
      else if usr_role u = DELIVERY then
        (case delivery_of_order d (ord_id o1) of
           None \<Rightarrow> False
         | Some x \<Rightarrow> dlv_delivery_partner_id x = Some (usr_id u))
      else False)"

definition delivery_data :: "delivery \<Rightarrow> order \<Rightarrow> dict" where
  "delivery_data x o1 = [(''order_id'', JId (ord_id o1)), (''delivery_id'', JId (dlv_id x))]"

section \<open>Failure and recovery\<close>

definition DELIVERY_FAILURE_REASONS :: "string list" where
  "DELIVERY_FAILURE_REASONS =
     [''customer_unavailable'', ''address_not_found'', ''vehicle_issue'', ''merchant_issue'',
      ''unsafe_condition'', ''other'']"

definition fail_delivery_tx ::
  "timestamp \<Rightarrow> string \<Rightarrow> user \<Rightarrow> string \<Rightarrow> string option \<Rightarrow> string option \<Rightarrow> delivery \<Rightarrow> order \<Rightarrow>
     'm database_scheme \<Rightarrow> 'm database_scheme res" where
  "fail_delivery_tx now req_id u reason notes evidence_url x o1 d =
     res_bind (transition_delivery x FAILED) (\<lambda>x1.
     let x2 = x1\<lparr>dlv_failed_at := Some now, dlv_failure_reason := Some reason,
                dlv_failure_notes := notes, dlv_failure_evidence_url := evidence_url\<rparr>;
         d1 = annotate_delivery_transition x2 (delivery_status_value FAILED) (Some (usr_id u))
                (Some reason) [(''after_pickup'', JBool (dlv_picked_up_at x2 \<noteq> None))]
                (flush_delivery now x2 d);
         d2 = enqueue_notification now (ord_user_id o1) ''delivery.failed'' ''Delivery needs attention''
                (''Delivery for order '' @ ord_order_number o1
                 @ '' could not be completed. Our operations team will review it.'')
                (delivery_data x2 o1 @ [(''reason'', JStr reason)]) d1
     in if usr_role u = ADMIN then
          record_admin_action req_id u ''delivery.failed'' RIDER_OPERATIONS ''delivery'' (dlv_id x2)
            [(''status'', JStr (delivery_status_value
                (if dlv_picked_up_at x2 = None then ASSIGNED else PICKED_UP)))]
            [(''status'', JStr (delivery_status_value (dlv_status x2))),
             (''after_pickup'', JBool (dlv_picked_up_at x2 \<noteq> None))] (Some reason) d2
        else Inr d2)"

definition fail_delivery ::
  "timestamp \<Rightarrow> string \<Rightarrow> user \<Rightarrow> uuid \<Rightarrow> string \<Rightarrow> string option \<Rightarrow> string option \<Rightarrow>
     (delivery, 'm) handler" where
  "fail_delivery now req_id u delivery_id reason notes evidence_url d =
     attempt (require_roles [DELIVERY, ADMIN] u) d (\<lambda>_.
     if reason \<notin> set DELIVERY_FAILURE_REASONS then raise_http 422 ''reason'' d
     else
       attempt (locked_delivery_order d delivery_id) d (\<lambda>(x, o1).
       attempt (require_assigned_rider x u RIDER_OPERATIONS) d (\<lambda>_.
       if dlv_status x \<notin> {ASSIGNED, PICKED_UP}
       then raise_http 409 ''Only an active delivery can be failed'' d
       else
         attempt (fail_delivery_tx now req_id u reason notes evidence_url x o1 d) d (\<lambda>d1.
         refresh get_delivery delivery_id d1))))"

text \<open>Back to the pool, with the rider released: recovery and the \<open>reassign\<close> resolution.\<close>

definition reassignment_tx ::
  "timestamp \<Rightarrow> string \<Rightarrow> user \<Rightarrow> string \<Rightarrow> string \<Rightarrow> string \<Rightarrow> dict \<Rightarrow> delivery \<Rightarrow> order \<Rightarrow>
     'm database_scheme \<Rightarrow> 'm database_scheme res" where
  "reassignment_tx now req_id admin why action audit_reason metadata x o1 d =
     res_bind (transition_delivery (x\<lparr>dlv_delivery_partner_id := None\<rparr>) UNASSIGNED) (\<lambda>x1.
     let x2 = x1\<lparr>dlv_assigned_at := None\<rparr>;
         d1 = annotate_delivery_transition x2 (delivery_status_value UNASSIGNED) (Some (usr_id admin))
                (Some why) metadata (flush_delivery now x2 d);
         d2 = enqueue_notification now (ord_user_id o1) ''delivery.reassignment''
                ''Delivery partner is being reassigned''
                (''We are assigning another delivery partner to order '' @ ord_order_number o1 @ ''.'')
                (delivery_data x2 o1) d1
     in record_admin_action req_id admin action RIDER_OPERATIONS ''delivery'' (dlv_id x2)
          [(''status'', JStr (delivery_status_value FAILED))]
          [(''status'', JStr (delivery_status_value (dlv_status x2))), (''delivery_partner_id'', JNull)]
          (Some audit_reason) d2)"

definition recover_failed_delivery ::
  "timestamp \<Rightarrow> string \<Rightarrow> user \<Rightarrow> uuid \<Rightarrow> (delivery, 'm) handler" where
  "recover_failed_delivery now req_id admin delivery_id d =
     attempt (require_capability RIDER_OPERATIONS admin) d (\<lambda>_.
     attempt (locked_delivery_order d delivery_id) d (\<lambda>(x, o1).
     if dlv_status x \<noteq> FAILED
     then raise_http 409 ''Only a failed delivery can be recovered'' d
     else if ord_status o1 \<noteq> READY \<or> dlv_picked_up_at x \<noteq> None
     then raise_http 409
            ''A delivery can only be reassigned after failure if custody never left the merchant'' d
     else
       attempt (reassignment_tx now req_id admin ''admin_recovered_before_pickup''
           ''delivery.recovered_before_pickup'' ''admin_recovered_before_pickup'' [] x o1 d) d (\<lambda>d1.
       refresh get_delivery delivery_id d1)))"

section \<open>Resolving a failure\<close>

datatype resolution = Reassign | Return_To_Store

record resolution_read =
  rsr_delivery_id :: uuid
  rsr_order_id :: uuid
  rsr_resolution :: resolution
  rsr_order_status :: order_status
  rsr_delivery_status :: delivery_status
  rsr_refund_requested :: bool
  rsr_settlement_voided :: bool

definition notes_entry :: "string option \<Rightarrow> dict" where
  "notes_entry notes = (case text_or_none notes of None \<Rightarrow> [] | Some n \<Rightarrow> [(''notes'', JStr n)])"

definition or_default :: "string option \<Rightarrow> string \<Rightarrow> string" where
  "or_default notes fallback = (case text_or_none notes of None \<Rightarrow> fallback | Some n \<Rightarrow> n)"

definition return_to_store_tx ::
  "timestamp \<Rightarrow> string \<Rightarrow> user \<Rightarrow> string option \<Rightarrow> delivery \<Rightarrow> order \<Rightarrow> 'm database_scheme \<Rightarrow>
     (payment_refund option \<times> 'm database_scheme) res" where
  "return_to_store_tx now req_id admin notes x o1 d =
     res_bind (restore_order_stock_once now o1 d) (\<lambda>(_, o2, d1).
     res_bind (transition_order o2 RETURNED) (\<lambda>o3.
     let d2 = annotate_order_transition o3 (order_status_value RETURNED) (Some (usr_id admin))
                (Some ''delivery_failed_after_pickup'')
                ((''delivery_id'', JId (dlv_id x)) # notes_entry notes) (flush_order now o3 d1);
         d3 = void_settlement_for_refund now o3 VOID_REASON_RETURNED d2;
         (refund, o4, d4) = ensure_refund_request now o3 REFUND_REASON_RETURNED d3;
         d5 = flush_order now o4 d4;
         d6 = enqueue_notification now (ord_user_id o4) ''order.returned'' ''Order returned to the store''
                (''Order '' @ ord_order_number o4
                 @ '' could not be delivered and has gone back to the store.''
                 @ (if refund \<noteq> None
                    then '' Your refund of '' @ RUPEE @ show_money (ord_total o4) @ '' has been requested.''
                    else []))
                (delivery_data x o4) d5;
         d7 = (case Option.bind (get_store d6 (ord_store_id o4))
                      (\<lambda>s. get_merchant d6 (sto_merchant_id s)) of
                 None \<Rightarrow> d6
               | Some m \<Rightarrow>
                   enqueue_notification now (mer_owner_user_id m) ''merchant.order_returned''
                     ''Order returned''
                     (''Order '' @ ord_order_number o4
                      @ '' was returned to your store after a failed delivery.'')
                     (delivery_data x o4) d6)
     in res_bind (record_admin_action req_id admin ''delivery.failure_returned_to_store''
            SETTLEMENT_WRITE ''delivery'' (dlv_id x)
            [(''delivery_status'', JStr (delivery_status_value FAILED)),
             (''order_status'', JStr (order_status_value OUT_FOR_DELIVERY))]
            [(''delivery_status'', JStr (delivery_status_value (dlv_status x))),
             (''order_status'', JStr (order_status_value (ord_status o4))),
             (''refund_requested'', JBool (refund \<noteq> None)), (''settlement_voided'', JBool True)]
            (Some (or_default notes ''delivery_failed_after_pickup'')) d7)
          (\<lambda>d8. Inr (refund, d8))))"

definition resolution_result ::
  "uuid \<Rightarrow> uuid \<Rightarrow> resolution \<Rightarrow> bool \<Rightarrow> bool \<Rightarrow> (resolution_read, 'm) handler" where
  "resolution_result did oid resolution requested voided d =
     (case (get_delivery d did, get_order d oid) of
        (Some x, Some o1) \<Rightarrow>
          (Inr \<lparr>rsr_delivery_id = dlv_id x, rsr_order_id = ord_id o1, rsr_resolution = resolution,
            rsr_order_status = ord_status o1, rsr_delivery_status = dlv_status x,
            rsr_refund_requested = requested, rsr_settlement_voided = voided\<rparr>, d)
      | _ \<Rightarrow> (Inl (RuntimeError ''Could not refresh instance''), d))"

definition resolve_failed_delivery ::
  "settings \<Rightarrow> (refund_request \<Rightarrow> refund_payload provider_reply) \<Rightarrow> timestamp \<Rightarrow> string \<Rightarrow>
     user \<Rightarrow> uuid \<Rightarrow> resolution \<Rightarrow> string option \<Rightarrow> (resolution_read, 'm) handler" where
  "resolve_failed_delivery cfg post now req_id admin delivery_id resolution notes d =
     attempt (require_capability RIDER_OPERATIONS admin) d (\<lambda>_.
     attempt (locked_delivery_order d delivery_id) d (\<lambda>(x, o1).
     if dlv_status x \<noteq> FAILED
     then raise_http 409 ''Only a failed delivery can be resolved'' d
     else if resolution = Reassign then
       (if dlv_picked_up_at x \<noteq> None
        then raise_http 409 ''A delivery can only be reassigned if custody never left the merchant'' d
        else if ord_status o1 \<noteq> READY
        then raise_http 409 ''Only a ready order can be reassigned'' d
        else
          attempt (reassignment_tx now req_id admin ''admin_reassign'' ''delivery.failure_reassigned''
              (or_default notes ''failed_delivery_reassignment'') (notes_entry notes) x o1 d) d (\<lambda>d1.
          resolution_result (dlv_id x) (ord_id o1) Reassign False False d1))
     else
       attempt (ensure_capability admin REFUND_WRITE) d (\<lambda>_.
       attempt (ensure_capability admin SETTLEMENT_WRITE) d (\<lambda>_.
       if \<not> can_transition_order (ord_status o1) RETURNED
       then raise_http 409 (''Order cannot be returned from '' @ order_status_value (ord_status o1)) d
       else if ord_payment_method o1 = COD \<and> cod_of_delivery d (dlv_id x) \<noteq> None
       then raise_http 409 (''A cash collection is recorded for this delivery. ''
              @ ''Reconcile the cash before resolving the failure.'') d
       else
         attempt (return_to_store_tx now req_id admin notes x o1 d) d (\<lambda>(refund, d1).
         let d2 = (if refund \<noteq> None then try_dispatch_order_refund cfg post now (ord_id o1) d1 else d1)
         in resolution_result (dlv_id x) (ord_id o1) Return_To_Store (refund \<noteq> None) True d2)))))"

section \<open>Proof of delivery\<close>

definition OTP_TTL_MINUTES :: int where "OTP_TTL_MINUTES = 15"
definition OTP_RESEND_COOLDOWN_SECONDS :: int where "OTP_RESEND_COOLDOWN_SECONDS = 60"
definition OTP_MAX_CHALLENGES :: int where "OTP_MAX_CHALLENGES = 5"
definition OTP_MAX_VERIFICATION_ATTEMPTS :: int where "OTP_MAX_VERIFICATION_ATTEMPTS = 5"

text \<open>What the shared limiter (\<open>services/rate_limit.py\<close>, over Redis) answers.\<close>

datatype rate_outcome = Rate_Ok | Rate_Exceeded | Rate_Unavailable

definition limit_proof_requests :: "rate_outcome \<Rightarrow> unit res" where
  "limit_proof_requests r =
     (case r of
        Rate_Exceeded \<Rightarrow> Inl (HTTPException 429 ''Too many delivery code requests. Try again later.'')
      | Rate_Unavailable \<Rightarrow> Inl (HTTPException 503 ''Delivery code service is temporarily unavailable.'')
      | Rate_Ok \<Rightarrow> Inr ())"

definition proof_locked :: "delivery_proof \<Rightarrow> bool" where
  "proof_locked p \<longleftrightarrow> prf_verification_locked_at p \<noteq> None
     \<or> OTP_MAX_VERIFICATION_ATTEMPTS \<le> prf_verification_attempt_count p"

definition require_unlocked_proof :: "delivery_proof \<Rightarrow> unit res" where
  "require_unlocked_proof p =
     (if proof_locked p
      then Inl (HTTPException 429 ''Delivery code verification is locked. Contact support.'')
      else Inr ())"

text \<open>The six-digit code of a random number below a million; the hash is a parameter.\<close>

definition format_otp :: "int \<Rightarrow> string" where
  "format_otp n = map (\<lambda>k. digit (nat (n div 10 ^ k mod 10))) [5, 4, 3, 2, 1, 0]"

definition flush_proof :: "timestamp \<Rightarrow> delivery_proof \<Rightarrow> 'm database_scheme \<Rightarrow> 'm database_scheme" where
  "flush_proof now p d =
     d\<lparr>delivery_proofs := put_row prf_id (p\<lparr>prf_updated_at := now\<rparr>) (delivery_proofs d)\<rparr>"

definition proof_challenge_allowed :: "timestamp \<Rightarrow> delivery_proof \<Rightarrow> unit res" where
  "proof_challenge_allowed now p =
     (if prf_verified_at p \<noteq> None
      then Inl (HTTPException 409 ''Delivery proof is already verified. Continue completion.'')
      else
        res_bind (require_unlocked_proof p) (\<lambda>_.
        if OTP_MAX_CHALLENGES \<le> prf_challenge_count p
        then Inl (HTTPException 429 ''Delivery code request limit reached. Contact support.'')
        else
          let last_challenge = (case prf_last_challenge_at p of Some t \<Rightarrow> t | None \<Rightarrow> prf_updated_at p)
          in if now < last_challenge + seconds OTP_RESEND_COOLDOWN_SECONDS
             then Inl (HTTPException 429 ''Wait before requesting another delivery code.'')
             else Inr ()))"

definition store_challenge ::
  "(string \<Rightarrow> string) \<Rightarrow> timestamp \<Rightarrow> string \<Rightarrow> timestamp \<Rightarrow> uuid \<Rightarrow> 'm database_scheme \<Rightarrow>
     'm database_scheme" where
  "store_challenge sha256 now otp expires_at did d =
     (case proof_of_delivery d did of
        None \<Rightarrow>
          d\<lparr>delivery_proofs := delivery_proofs d @
              [\<lparr>prf_id = db_next_id d, prf_delivery_id = did, prf_otp_hash = sha256 otp,
                prf_otp_expires_at = expires_at, prf_last_challenge_at = Some now,
                prf_challenge_count = 1, prf_verification_attempt_count = 0,
                prf_verification_locked_at = None, prf_verified_at = None, prf_evidence_url = None,
                prf_recipient_name = None, prf_notes = None, prf_created_at = now,
                prf_updated_at = now\<rparr>],
            db_next_id := Suc (db_next_id d)\<rparr>
      | Some p \<Rightarrow>
          flush_proof now (p\<lparr>prf_otp_hash := sha256 otp, prf_otp_expires_at := expires_at,
            prf_last_challenge_at := Some now, prf_challenge_count := prf_challenge_count p + 1\<rparr>) d)"

definition issue_delivery_proof_challenge ::
  "(string \<Rightarrow> string) \<Rightarrow> rate_outcome \<Rightarrow> int \<Rightarrow> timestamp \<Rightarrow> string \<Rightarrow> user \<Rightarrow> uuid \<Rightarrow>
     (uuid \<times> timestamp, 'm) handler" where
  "issue_delivery_proof_challenge sha256 rate random now req_id u delivery_id d =
     attempt (require_roles [DELIVERY, ADMIN] u) d (\<lambda>_.
     attempt (locked_delivery_order d delivery_id) d (\<lambda>(x, o1).
     attempt (require_assigned_rider x u DELIVERY_FINANCIAL_WRITE) d (\<lambda>_.
     if dlv_status x \<noteq> PICKED_UP \<or> ord_status o1 \<noteq> OUT_FOR_DELIVERY
     then raise_http 409 ''Proof challenge is available only after pickup'' d
     else
       attempt (case proof_of_delivery d (dlv_id x) of None \<Rightarrow> Inr ()
                | Some p \<Rightarrow> proof_challenge_allowed now p) d (\<lambda>_.
       attempt (limit_proof_requests rate) d (\<lambda>_.
       let otp = format_otp random;
           expires_at = now + minutes OTP_TTL_MINUTES;
           d1 = store_challenge sha256 now otp expires_at (dlv_id x) d;
           d2 = enqueue_notification now (ord_user_id o1) ''delivery.otp'' ''Delivery verification code''
                  (''Your GaonOne delivery code is '' @ otp @ ''. Share it only after receiving order ''
                   @ ord_order_number o1 @ ''.'')
                  (delivery_data x o1 @ [(''expires_at'', JTime expires_at)]) d1
       in attempt (if usr_role u = ADMIN then
              record_admin_action req_id u ''delivery.proof_challenge_issued'' DELIVERY_FINANCIAL_WRITE
                ''delivery'' (dlv_id x) [] [(''expires_at'', JTime expires_at)]
                (Some ''privileged_delivery_proof_challenge'') d2
            else Inr d2) d (\<lambda>d3. (Inr (dlv_id x, expires_at), d3)))))))"

text \<open>A wrong guess is committed before the request fails.\<close>

definition failed_guess :: "timestamp \<Rightarrow> delivery_proof \<Rightarrow> delivery_proof" where
  "failed_guess now p =
     (let p1 = p\<lparr>prf_verification_attempt_count := prf_verification_attempt_count p + 1\<rparr>
      in if OTP_MAX_VERIFICATION_ATTEMPTS \<le> prf_verification_attempt_count p1
         then p1\<lparr>prf_verification_locked_at := Some now\<rparr> else p1)"

definition verify_delivery_proof ::
  "(string \<Rightarrow> string) \<Rightarrow> rate_outcome \<Rightarrow> timestamp \<Rightarrow> string \<Rightarrow> user \<Rightarrow> uuid \<Rightarrow> string \<Rightarrow>
     string option \<Rightarrow> string option \<Rightarrow> string option \<Rightarrow> (delivery_proof, 'm) handler" where
  "verify_delivery_proof sha256 rate now req_id u delivery_id otp evidence_url recipient_name notes d =
     attempt (require_roles [DELIVERY, ADMIN] u) d (\<lambda>_.
     attempt (locked_delivery_order d delivery_id) d (\<lambda>(x, o1).
     attempt (require_assigned_rider x u DELIVERY_FINANCIAL_WRITE) d (\<lambda>_.
     if dlv_status x \<noteq> PICKED_UP \<or> ord_status o1 \<noteq> OUT_FOR_DELIVERY
     then raise_http 409 ''Delivery proof can only be verified after pickup'' d
     else (case proof_of_delivery d (dlv_id x) of
         None \<Rightarrow> raise_http 409 ''Generate a delivery verification challenge first'' d
       | Some p \<Rightarrow>
           if prf_verified_at p \<noteq> None then (Inr p, d)
           else
             attempt (require_unlocked_proof p) d (\<lambda>_.
             attempt (limit_proof_requests rate) d (\<lambda>_.
             if prf_otp_expires_at p \<le> now
             then raise_http 409 ''Delivery verification code expired'' d
             else if prf_otp_hash p \<noteq> sha256 otp then
               (let p1 = failed_guess now p; d1 = flush_proof now p1 d
                in if OTP_MAX_VERIFICATION_ATTEMPTS \<le> prf_verification_attempt_count p1
                   then raise_http 429 ''Delivery code verification is locked. Contact support.'' d1
                   else raise_http 422 ''Invalid delivery verification code'' d1)
             else
               let d1 = flush_proof now (p\<lparr>prf_verified_at := Some now, prf_evidence_url := evidence_url,
                          prf_recipient_name := recipient_name, prf_notes := notes\<rparr>) d
               in attempt (if usr_role u = ADMIN then
                      record_admin_action req_id u ''delivery.proof_verified'' DELIVERY_FINANCIAL_WRITE
                        ''delivery'' (dlv_id x) [] [(''verified'', JBool True)]
                        (Some ''privileged_delivery_proof_verification'') d1
                    else Inr d1) d (\<lambda>d2.
                  refresh proof_of_delivery (dlv_id x) d2)))))))"

definition get_delivery_proof :: "user \<Rightarrow> uuid \<Rightarrow> (delivery_proof, 'm) handler" where
  "get_delivery_proof u delivery_id d =
     (case get_delivery d delivery_id of
        None \<Rightarrow> raise_http 404 ''Delivery not found'' d
      | Some x \<Rightarrow>
          (case get_order d (dlv_order_id x) of
             None \<Rightarrow> raise_http 403 ''You cannot view this delivery proof'' d
           | Some o1 \<Rightarrow>
               if \<not> can_view_order_ops d o1 u
               then raise_http 403 ''You cannot view this delivery proof'' d
               else (case proof_of_delivery d (dlv_id x) of
                   None \<Rightarrow> raise_http 404 ''Delivery proof not found'' d
                 | Some p \<Rightarrow> (Inr p, d))))"

section \<open>Cash on delivery\<close>

definition record_cod_collection ::
  "timestamp \<Rightarrow> string \<Rightarrow> user \<Rightarrow> uuid \<Rightarrow> decimal \<Rightarrow> (cod_collection, 'm) handler" where
  "record_cod_collection now req_id u delivery_id amount d =
     attempt (require_roles [DELIVERY, ADMIN] u) d (\<lambda>_.
     attempt (locked_delivery_order d delivery_id) d (\<lambda>(x, o1).
     attempt (require_assigned_rider x u DELIVERY_FINANCIAL_WRITE) d (\<lambda>_.
     if ord_payment_method o1 \<noteq> COD
     then raise_http 409 ''Cash collection is only valid for COD orders'' d
     else if dlv_status x \<noteq> PICKED_UP \<or> ord_status o1 \<noteq> OUT_FOR_DELIVERY
     then raise_http 409 ''COD collection can only be recorded after pickup'' d
     else if dec_value amount \<noteq> dec_value (paise (ord_total o1))
     then raise_http 422 ''Collected COD amount must match the order total'' d
     else (case cod_of_delivery d (dlv_id x) of
         Some existing \<Rightarrow>
           if cod_amount existing \<noteq> ord_total o1 \<or> cod_order_id existing \<noteq> ord_id o1
           then raise_http 409 ''A different COD collection is already recorded'' d
           else (Inr existing, d)
       | None \<Rightarrow>
           let c = \<lparr>cod_id = db_next_id d, cod_delivery_id = dlv_id x, cod_order_id = ord_id o1,
                     cod_amount = ord_total o1, cod_collected_by_user_id = Some (usr_id u),
                     cod_collected_at = now\<rparr>;
               d1 = d\<lparr>cod_collections := cod_collections d @ [c], db_next_id := Suc (db_next_id d)\<rparr>
           in attempt (if usr_role u = ADMIN then
                  record_admin_action req_id u ''delivery.cod_collection_recorded''
                    DELIVERY_FINANCIAL_WRITE ''delivery'' (dlv_id x) []
                    [(''collection_id'', JId (cod_id c)), (''amount'', JMoney (ord_total o1))]
                    (Some ''privileged_cod_collection_recording'') d1
                else Inr d1) d (\<lambda>d2. refresh cod_of_delivery (dlv_id x) d2)))))"

section \<open>Completion\<close>

text \<open>The checks both completion endpoints make, in their order, after authorisation.\<close>

definition completion_guards :: "'m database_scheme \<Rightarrow> delivery \<Rightarrow> order \<Rightarrow> unit res" where
  "completion_guards d x o1 =
     (if \<not> can_transition_delivery (dlv_status x) DLV_DELIVERED
      then Inl (HTTPException 409 (''Delivery cannot be completed from ''
             @ delivery_status_value (dlv_status x)))
      else if \<not> can_transition_order (ord_status o1) DELIVERED
      then Inl (HTTPException 409 (''Order cannot be delivered from ''
             @ order_status_value (ord_status o1)))
      else if \<not> payment_allows_fulfillment o1
      then Inl (HTTPException 409 ''Online payment must be confirmed before delivery completion'')
      else if (case proof_of_delivery d (dlv_id x) of None \<Rightarrow> True | Some p \<Rightarrow> prf_verified_at p = None)
      then Inl (HTTPException 409 ''Verified proof of delivery is required'')
      else if ord_payment_method o1 = COD then
        (case cod_of_delivery d (dlv_id x) of
           None \<Rightarrow> Inl (HTTPException 409 ''Recorded COD collection is required before completion'')
         | Some c \<Rightarrow>
             if cod_order_id c \<noteq> ord_id o1 \<or> cod_amount c \<noteq> ord_total o1
             then Inl (HTTPException 409 ''Recorded COD collection does not match this order'')
             else Inr ())
      else Inr ())"

text \<open>The notice to the customer and, for an administrator, the audit row.\<close>

definition completion_record ::
  "timestamp \<Rightarrow> string \<Rightarrow> user \<Rightarrow> delivery \<Rightarrow> order \<Rightarrow> 'm database_scheme \<Rightarrow> 'm database_scheme res" where
  "completion_record now req_id u x o1 d =
     (let d1 = enqueue_notification now (ord_user_id o1) ''order.delivered'' ''Order delivered''
                 (''Order '' @ ord_order_number o1
                  @ '' has been delivered. Thank you for using GaonOne.'') (delivery_data x o1) d
      in if usr_role u = ADMIN then
           record_admin_action req_id u ''delivery.completed'' DELIVERY_FINANCIAL_WRITE ''delivery''
             (dlv_id x)
             [(''delivery_status'', JStr (delivery_status_value PICKED_UP)),
              (''order_status'', JStr (order_status_value OUT_FOR_DELIVERY))]
             [(''delivery_status'', JStr (delivery_status_value (dlv_status x))),
              (''order_status'', JStr (order_status_value (ord_status o1))),
              (''payment_status'', JStr (payment_status_value (ord_payment_status o1)))]
             (Some ''privileged_delivery_completion'') d1
         else Inr d1)"

text \<open>The transaction; \<open>settles\<close> says for which orders the endpoint records a settlement.\<close>

definition completion_tx ::
  "(order \<Rightarrow> bool) \<Rightarrow> timestamp \<Rightarrow> string \<Rightarrow> user \<Rightarrow> delivery \<Rightarrow> order \<Rightarrow> 'm database_scheme \<Rightarrow>
     'm database_scheme res" where
  "completion_tx settles now req_id u x o1 d =
     res_bind (transition_delivery x DLV_DELIVERED) (\<lambda>x1.
     res_bind (transition_order o1 DELIVERED) (\<lambda>o2.
     let x2 = x1\<lparr>dlv_delivered_at := Some now\<rparr>;
         o3 = (if ord_payment_method o2 = COD then o2\<lparr>ord_payment_status := PAID\<rparr> else o2);
         d1 = flush_order now o3 (flush_delivery now x2 d)
     in res_bind (if settles o3 then ensure_settlement_entry o3 d1 else Inr (None, d1)) (\<lambda>(_, d2).
        completion_record now req_id u x2 o3 d2)))"

text \<open>The live endpoint settles every paid order, the shadowed one only cash orders.\<close>

definition complete_delivery_with_financials ::
  "timestamp \<Rightarrow> string \<Rightarrow> user \<Rightarrow> uuid \<Rightarrow> (delivery, 'm) handler" where
  "complete_delivery_with_financials now req_id u delivery_id d =
     attempt (require_roles [DELIVERY, ADMIN] u) d (\<lambda>_.
     attempt (locked_delivery_order d delivery_id) d (\<lambda>(x, o1).
     attempt (require_assigned_rider x u DELIVERY_FINANCIAL_WRITE) d (\<lambda>_.
     attempt (completion_guards d x o1) d (\<lambda>_.
     attempt (completion_tx (\<lambda>o2. ord_payment_status o2 = PAID) now req_id u x o1 d) d (\<lambda>d1.
     refresh get_delivery delivery_id d1)))))"

definition complete_delivery ::
  "timestamp \<Rightarrow> string \<Rightarrow> user \<Rightarrow> uuid \<Rightarrow> (delivery, 'm) handler" where
  "complete_delivery now req_id u delivery_id d =
     attempt (require_roles [DELIVERY, ADMIN] u) d (\<lambda>_.
     attempt (locked_delivery_order d delivery_id) d (\<lambda>(x, o1).
     attempt (require_assigned_rider x u DELIVERY_FINANCIAL_WRITE) d (\<lambda>_.
     attempt (completion_guards d x o1) d (\<lambda>_.
     attempt (completion_tx (\<lambda>o2. ord_payment_method o2 = COD) now req_id u x o1 d) d (\<lambda>d1.
     refresh get_delivery delivery_id d1)))))"

section \<open>History\<close>

definition order_transition_events :: "user \<Rightarrow> uuid \<Rightarrow> (status_transition_event list, 'm) handler" where
  "order_transition_events u order_id d =
     (case get_order d order_id of
        None \<Rightarrow> raise_http 404 ''Order not found'' d
      | Some o1 \<Rightarrow>
          if \<not> can_view_order_ops d o1 u
          then raise_http 403 ''You cannot view this order history'' d
          else (Inr (sort_key (\<lambda>e. (evt_created_at e, evt_id e))
                  (filter (\<lambda>e. evt_order_id e = Some (ord_id o1)) (status_transition_events d))), d))"

section \<open>The handlers follow the machine\<close>

lemma get_delivery_order: "get_delivery d i = Some x \<Longrightarrow> dlv_id x = i"
  by auto

text \<open>A delivery moved, with or without its order.\<close>

lemma step_ok_delivery:
  assumes x: "get_delivery d did = Some x" and o1: "get_order d (dlv_order_id x) = Some o1"
    and new: "ord_id new = ord_id o1"
    and y: "dlv_id y = did" "dlv_order_id y = dlv_order_id x"
    and ords: "orders d' = put_row ord_id new (orders d) \<or> new = o1 \<and> orders d' = orders d"
    and dels: "deliveries d' = put_row dlv_id y (deliveries d)"
    and refs: "refund_idents d' = refund_idents d" and ids: "db_next_id d \<le> db_next_id d'"
    and step: "\<And>r. core_step (view_of o1 (Some x) r) (view_of new (Some y) r)"
  shows "step_ok d d'"
proof (rule step_ok_commit [where new = new and moved = "Some y", OF o1])
  show "ord_id new = dlv_order_id x" using o1 new by auto
  assume wf: "tables_wf d"
  show "orders d' = put_row ord_id new (orders d)"
    using ords wf o1 put_row_get [of ord_id "orders d" "dlv_order_id x" o1]
    by (auto simp: tables_wf_def get_order_def)
  have "delivery_of_order d (dlv_order_id x) = Some x" by (rule delivery_of_order_get [OF wf x])
  moreover have "has_refund d' (dlv_order_id x) = has_refund d (dlv_order_id x)"
    using refs by (simp add: has_refund_idents)
  ultimately show "core_step\<^sup>*\<^sup>* (view_of o1 (delivery_of_order d (dlv_order_id x)) (has_refund d (dlv_order_id x)))
      (view_of new (case Some y of None \<Rightarrow> delivery_of_order d (dlv_order_id x) | Some y \<Rightarrow> Some y)
         (has_refund d' (dlv_order_id x)))"
    using step by (simp add: r_into_rtranclp)
qed (use x y dels refs ids in auto)

lemma delivery_part_stamp [simp]: "delivery_part (stamp_delivery now x) = delivery_part x"
  by (simp add: delivery_part_def)

lemma view_of_delivery [simp]: "view_of o1 (Some x) r = view_of o1 None r\<lparr>ful_delivery := Some (delivery_part x)\<rparr>"
  by (simp add: view_of_def)

lemma ful_delivery_eta: "v\<lparr>ful_delivery := ful_delivery v\<rparr> = v"
  by simp

text \<open>The moves of a delivery whose order stays as it is.\<close>

lemma step_ok_flush_delivery:
  assumes x: "get_delivery d did = Some x" and o1: "get_order d (dlv_order_id x) = Some o1"
    and y: "dlv_id y = did" "dlv_order_id y = dlv_order_id x"
    and step: "\<And>v. ful_delivery v = Some (delivery_part x) \<Longrightarrow> ful_status v = ord_status o1 \<Longrightarrow>
        gate v = payment_allows_fulfillment o1 \<Longrightarrow>
        core_step v (v\<lparr>ful_delivery := Some (delivery_part y)\<rparr>)"
  shows "step_ok d (flush_delivery now y d)"
proof (rule step_ok_delivery [OF x o1, where new = o1 and y = "stamp_delivery now y"])
  fix r
  have "core_step (view_of o1 (Some x) r) (view_of o1 (Some x) r\<lparr>ful_delivery := Some (delivery_part y)\<rparr>)"
    by (rule step) (simp_all add: gate_def payment_allows_fulfillment_def)
  then show "core_step (view_of o1 (Some x) r) (view_of o1 (Some (stamp_delivery now y)) r)" by simp
qed (use y in simp_all)

lemma step_ok_claim:
  assumes x: "get_delivery d did = Some x" and o1: "get_order d (dlv_order_id x) = Some o1"
    and ready: "ord_status o1 = READY" "payment_allows_fulfillment o1"
    and c: "claimed now rider x = Inr y"
  shows "step_ok d (flush_delivery now2 y d)"
proof (rule step_ok_flush_delivery [OF x o1])
  have y: "dlv_status x = UNASSIGNED"
    "y = x\<lparr>dlv_delivery_partner_id := Some rider, dlv_status := ASSIGNED, dlv_assigned_at := Some now\<rparr>"
    using c by (auto simp: claimed_def res_bind_Inr)
  then show "dlv_id y = did" "dlv_order_id y = dlv_order_id x" using x by auto
  fix v :: fulfilment assume "ful_delivery v = Some (delivery_part x)" "ful_status v = ord_status o1"
    "gate v = payment_allows_fulfillment o1"
  then show "core_step v (v\<lparr>ful_delivery := Some (delivery_part y)\<rparr>)"
    using y ready assign [of v "dlv_delivery_partner_id x" "dlv_picked_up_at x \<noteq> None" rider]
    by (simp add: delivery_part_def)
qed

lemma step_ok_claim_delivery: "step_ok d (snd (claim_delivery now u did d))"
proof -
  have "step_ok d d'" if "get_delivery d did = Some x" "get_order d (dlv_order_id x) = Some o1"
    "ord_status o1 = READY" "payment_allows_fulfillment o1" "claim_delivery_tx now u x o1 d = Inr d'"
    for x o1 d'
    using that by (auto simp: claim_delivery_tx_def res_bind_Inr
        intro!: step_ok_trans [OF step_ok_claim step_ok_same_core])
  then show ?thesis
    by (auto simp: claim_delivery_def attempt_def split: option.split sum.split)
qed

lemma update_effects_cases:
  assumes "delivery_update_effects now target x o1 d = Inr (x1, o2, d1)"
  obtains (pickup) d0 where "target = PICKED_UP" "payment_allows_fulfillment o1" "ord_status o1 = READY"
      "x1 = x\<lparr>dlv_picked_up_at := Some now\<rparr>" "o2 = o1\<lparr>ord_status := OUT_FOR_DELIVERY\<rparr>"
      "d0 = flush_order now o2 d" "same_core d0 d1"
    | (release) "target = UNASSIGNED" "ord_status o1 = READY" "o2 = o1" "same_core d d1"
      "x1 = x\<lparr>dlv_delivery_partner_id := None, dlv_assigned_at := None\<rparr>"
    | (other) "target \<notin> {PICKED_UP, UNASSIGNED}" "x1 = x" "o2 = o1" "d1 = d"
  using assms by (auto simp: delivery_update_effects_def res_bind_Inr split: if_splits)

lemma step_ok_update_delivery_tx:
  assumes x: "get_delivery d did = Some x" and o1: "get_order d (dlv_order_id x) = Some o1"
    and target: "target \<notin> {DLV_DELIVERED, FAILED}"
    and c: "update_delivery_status_tx now req_id u target x o1 d = Inr d'"
  shows "step_ok d d'"
proof -
  obtain x1 o2 d1 where e: "delivery_update_effects now target x o1 d = Inr (x1, o2, d1)"
    and can: "can_transition_delivery (dlv_status x1) target"
    and core: "same_core (flush_delivery now (x1\<lparr>dlv_status := target\<rparr>) d1) d'"
    using c by (auto simp: update_delivery_status_tx_def res_bind_Inr Let_def
        dest: same_core_admin split: if_splits)
  have dx: "dlv_id x = did" using x by auto
  have "step_ok d (flush_delivery now (x1\<lparr>dlv_status := target\<rparr>) d1)"
    using e
  proof (cases rule: update_effects_cases)
    case (pickup d0)
    note core1 = same_core_tables [OF pickup(7)] same_core_idents [OF pickup(7)] same_core_next [OF pickup(7)]
    show ?thesis
    proof (rule step_ok_delivery [OF x o1, where new = o2
          and y = "stamp_delivery now (x1\<lparr>dlv_status := target\<rparr>)"])
      show "core_step (view_of o1 (Some x) r)
          (view_of o2 (Some (stamp_delivery now (x1\<lparr>dlv_status := target\<rparr>))) r)" for r
        using pickup can core_step.pickup [of "view_of o1 (Some x) r" "dlv_delivery_partner_id x"
            "dlv_picked_up_at x \<noteq> None"]
        by (simp add: delivery_part_def view_of_def gate_def payment_allows_fulfillment_def)
      show "db_next_id d \<le> db_next_id (flush_delivery now (x1\<lparr>dlv_status := target\<rparr>) d1)"
        by (rule order_trans [OF next_id_flush_order order_trans [OF _ next_id_flush_delivery]])
          (rule same_core_next [OF pickup(7) [unfolded pickup(6)]])
    qed (use pickup core1 dx in simp_all)
  next
    case release
    have "step_ok d1 (flush_delivery now (x1\<lparr>dlv_status := target\<rparr>) d1)"
    proof (rule step_ok_flush_delivery)
      show "get_delivery d1 did = Some x" "get_order d1 (dlv_order_id x) = Some o1"
        using x o1 same_core_tables [OF release(4)] by (simp_all add: lookup_defs)
      fix v :: fulfilment assume "ful_delivery v = Some (delivery_part x)" "ful_status v = ord_status o1"
      then show "core_step v (v\<lparr>ful_delivery := Some (delivery_part (x1\<lparr>dlv_status := target\<rparr>))\<rparr>)"
        using release can core_step.release [of v "dlv_status x" "dlv_delivery_partner_id x"
            "dlv_picked_up_at x \<noteq> None"]
        by (simp add: delivery_part_def)
    qed (use release dx in simp_all)
    with step_ok_same_core [OF release(4)] show ?thesis by (rule step_ok_trans)
  next
    case other
    with target can have t: "target = ASSIGNED" "dlv_status x = UNASSIGNED" by (cases target; simp)+
    have "step_ok d (flush_delivery now (x1\<lparr>dlv_status := target\<rparr>) d)"
    proof (rule step_ok_flush_delivery [OF x o1])
      fix v :: fulfilment assume "ful_delivery v = Some (delivery_part x)"
      then show "core_step v (v\<lparr>ful_delivery := Some (delivery_part (x1\<lparr>dlv_status := target\<rparr>))\<rparr>)"
        using other t admin_assign [of v "dlv_delivery_partner_id x" "dlv_picked_up_at x \<noteq> None"]
        by (simp add: delivery_part_def)
    qed (use other dx in simp_all)
    with other show ?thesis by simp
  qed
  then show ?thesis using step_ok_same_core [OF core] by (rule step_ok_trans)
qed

lemma step_ok_update_delivery_status: "step_ok d (snd (update_delivery_status now req_id u did target d))"
  by (auto simp: update_delivery_status_def attempt_def require_controlled_terminal_endpoints_def
      split: option.split sum.split if_splits intro: step_ok_update_delivery_tx)

lemma next_id_annotate_delivery [simp]:
  "db_next_id (annotate_delivery_transition x ts a r m d) = db_next_id d"
  by (simp add: annotate_delivery_transition_def)

lemma next_id_annotate_order [simp]:
  "db_next_id (annotate_order_transition o1 ts a r m d) = db_next_id d"
  by (simp add: annotate_order_transition_def)

lemma refunds_annotate [simp]:
  "refund_idents (annotate_delivery_transition x ts a r m d) = refund_idents d"
  "refund_idents (annotate_order_transition o1 ts a r m d) = refund_idents d"
  by (simp_all add: refund_idents_def)

lemma step_ok_annotate_delivery [simp]: "step_ok d (annotate_delivery_transition x ts a r m d)"
  by (rule step_ok_frame) simp_all

lemma step_ok_enqueue [simp]: "step_ok d (enqueue_notification now u e t b x d)"
  by (rule step_ok_same_core) simp

lemma step_ok_admin: "record_admin_action rid a act cap rt ri p r why d = Inr d' \<Longrightarrow> step_ok d d'"
  by (rule step_ok_same_core) (rule same_core_admin)

lemma locked_delivery_orderD [dest]:
  "locked_delivery_order d did = Inr (x, o1) \<Longrightarrow>
     get_delivery d did = Some x \<and> get_order d (dlv_order_id x) = Some o1"
  by (auto simp: locked_delivery_order_def split: option.splits)

lemma step_ok_fail_tx:
  assumes x: "get_delivery d did = Some x" and o1: "get_order d (dlv_order_id x) = Some o1"
    and c: "fail_delivery_tx now req_id u why notes url x o1 d = Inr d'"
  shows "step_ok d d'"
proof -
  define x2 where "x2 = x\<lparr>dlv_status := FAILED, dlv_failed_at := Some now, dlv_failure_reason := Some why,
      dlv_failure_notes := notes, dlv_failure_evidence_url := url\<rparr>"
  have can: "dlv_status x \<in> {ASSIGNED, PICKED_UP}"
    using c by (auto simp: fail_delivery_tx_def res_bind_Inr)
  have "step_ok d (flush_delivery now x2 d)"
  proof (rule step_ok_flush_delivery [OF x o1])
    fix v :: fulfilment assume "ful_delivery v = Some (delivery_part x)"
    then show "core_step v (v\<lparr>ful_delivery := Some (delivery_part x2)\<rparr>)"
      using can core_step.fail [of v "dlv_status x" "dlv_delivery_partner_id x" "dlv_picked_up_at x \<noteq> None"]
      by (simp add: delivery_part_def x2_def)
  qed (use x in \<open>auto simp: x2_def\<close>)
  moreover have "step_ok (flush_delivery now x2 d) d'"
    using c can by (auto simp: fail_delivery_tx_def res_bind_Inr Let_def x2_def [symmetric]
        split: if_splits dest!: step_ok_admin
        intro: step_ok_trans [OF step_ok_annotate_delivery step_ok_trans [OF step_ok_enqueue]]
          step_ok_trans [OF step_ok_annotate_delivery step_ok_enqueue])
  ultimately show ?thesis by (rule step_ok_trans)
qed

lemma step_ok_fail_delivery: "step_ok d (snd (fail_delivery now req_id u did why notes url d))"
  by (auto simp: fail_delivery_def attempt_def split: sum.split intro: step_ok_fail_tx)

lemma step_ok_reassignment_tx:
  assumes x: "get_delivery d did = Some x" and o1: "get_order d (dlv_order_id x) = Some o1"
    and ready: "ord_status o1 = READY"
    and c: "reassignment_tx now req_id admin why action reason md x o1 d = Inr d'"
  shows "step_ok d d'"
proof -
  define x2 where "x2 = x\<lparr>dlv_delivery_partner_id := None, dlv_status := UNASSIGNED, dlv_assigned_at := None\<rparr>"
  have can: "dlv_status x \<in> {ASSIGNED, FAILED}"
    using c by (auto simp: reassignment_tx_def res_bind_Inr)
  have "step_ok d (flush_delivery now x2 d)"
  proof (rule step_ok_flush_delivery [OF x o1])
    fix v :: fulfilment assume "ful_delivery v = Some (delivery_part x)" "ful_status v = ord_status o1"
    then show "core_step v (v\<lparr>ful_delivery := Some (delivery_part x2)\<rparr>)"
      using can ready core_step.release [of v "dlv_status x" "dlv_delivery_partner_id x"
          "dlv_picked_up_at x \<noteq> None"]
      by (simp add: delivery_part_def x2_def)
  qed (use x in \<open>auto simp: x2_def\<close>)
  moreover have "step_ok (flush_delivery now x2 d) d'"
    using c can by (auto simp: reassignment_tx_def res_bind_Inr Let_def x2_def [symmetric]
        dest!: step_ok_admin
        intro: step_ok_trans [OF step_ok_annotate_delivery step_ok_trans [OF step_ok_enqueue]])
  ultimately show ?thesis by (rule step_ok_trans)
qed

lemma step_ok_recover: "step_ok d (snd (recover_failed_delivery now req_id admin did d))"
  by (auto simp: recover_failed_delivery_def attempt_def split: sum.split intro: step_ok_reassignment_tx)

lemma snd_resolution_result [simp]: "snd (resolution_result did oid r q v d) = d"
  by (simp add: resolution_result_def split: option.split)

lemma return_to_storeD:
  assumes c: "return_to_store_tx now req_id admin notes x o1 d = Inr (refund, d')"
  obtains b o2 d1 d3 o4 d4 where "restore_order_stock_once now o1 d = Inr (b, o2, d1)"
    "ord_status o2 = OUT_FOR_DELIVERY"
    "ensure_refund_request now (o2\<lparr>ord_status := RETURNED\<rparr>) REFUND_REASON_RETURNED d3 = (refund, o4, d4)"
    "orders d3 = put_row ord_id (o2\<lparr>ord_status := RETURNED\<rparr>) (orders d1)" "deliveries d3 = deliveries d1"
    "refund_idents d3 = refund_idents d1" "db_next_id d1 \<le> db_next_id d3"
    "\<exists>m r. d3 = void_settlement_for_refund now (o2\<lparr>ord_status := RETURNED\<rparr>) VOID_REASON_RETURNED
        (annotate_order_transition (o2\<lparr>ord_status := RETURNED\<rparr>) (order_status_value RETURNED)
          (Some (usr_id admin)) r m (flush_order now (o2\<lparr>ord_status := RETURNED\<rparr>) d1))"
    "same_core (flush_order now o4 d4) d'"
proof -
  obtain b o2 d1 where r: "restore_order_stock_once now o1 d = Inr (b, o2, d1)"
    and s: "ord_status o2 = OUT_FOR_DELIVERY"
    using c by (auto simp: return_to_store_tx_def res_bind_Inr)
  define o3 where "o3 = o2\<lparr>ord_status := RETURNED\<rparr>"
  define d2 where "d2 = annotate_order_transition o3 (order_status_value RETURNED) (Some (usr_id admin))
      (Some ''delivery_failed_after_pickup'') ((''delivery_id'', JId (dlv_id x)) # notes_entry notes)
      (flush_order now o3 d1)"
  define d3 where "d3 = void_settlement_for_refund now o3 VOID_REASON_RETURNED d2"
  obtain rf o4 d4 where e: "ensure_refund_request now o3 REFUND_REASON_RETURNED d3 = (rf, o4, d4)"
    by (cases "ensure_refund_request now o3 REFUND_REASON_RETURNED d3") auto
  have rest: "rf = refund \<and> same_core (flush_order now o4 d4) d'"
    using c s unfolding return_to_store_tx_def r res_bind_simps prod.case transition_order_Inr
    by (auto simp: res_bind_Inr Let_def o3_def [symmetric] d2_def [symmetric] d3_def [symmetric] e
        simp del: order_status_value.simps split: option.splits
        intro: same_core_trans [OF same_core_enqueue] same_core_trans [OF same_core_enqueue same_core_trans [OF same_core_enqueue]]
        dest!: same_core_admin)
  have n: "db_next_id d1 \<le> db_next_id d3"
    unfolding d3_def d2_def by (rule order_trans [OF _ next_id_void]) simp
  show ?thesis
    by (rule that [OF r s, of d3 o4 d4]) (use rest e n in \<open>auto simp: d3_def d2_def o3_def\<close>)
qed

lemma step_ok_return:
  assumes x: "get_delivery d did = Some x" and o1: "get_order d (dlv_order_id x) = Some o1"
    and failed: "dlv_status x = FAILED"
    and c: "return_to_store_tx now req_id admin notes x o1 d = Inr (refund, d')"
  shows "step_ok d d'"
  using c
proof (rule return_to_storeD)
  fix b d1 d3 d4 and o2 o4 :: order
  let ?o3 = "o2\<lparr>ord_status := RETURNED\<rparr>"
  assume r: "restore_order_stock_once now o1 d = Inr (b, o2, d1)" and s: "ord_status o2 = OUT_FOR_DELIVERY"
    and e: "ensure_refund_request now ?o3 REFUND_REASON_RETURNED d3 = (refund, o4, d4)"
    and d3: "orders d3 = put_row ord_id ?o3 (orders d1)" "deliveries d3 = deliveries d1"
      "refund_idents d3 = refund_idents d1" "db_next_id d1 \<le> db_next_id d3"
    and core: "same_core (flush_order now o4 d4) d'"
  note R = restore_once_view [OF r] restore_once_frame [OF r]
  note E = ensure_refund_frame [OF e]
  note core' = same_core_tables [OF core] same_core_idents [OF core] same_core_next [OF core]
  have oid: "ord_id o1 = dlv_order_id x" using o1 by auto
  have ids: "ord_id ?o3 = dlv_order_id x" "ord_id o4 = dlv_order_id x" using R(2) oid E by auto
  have idents: "refund_idents d1 = refund_idents d" using R by (simp add: refund_idents_def)
  have nexts: "db_next_id d4 \<le> db_next_id d'"
    by (rule order_trans [OF next_id_flush_order core'(25)])
  show ?thesis
  proof (rule step_ok_commit [where new = o4 and moved = None, OF o1 ids(2)])
    assume wf: "tables_wf d"
    then have wf3: "refunds_wf d3"
      using refunds_wf_same [of d d3] d3 idents R(6) by (simp add: tables_wf_def)
    note V = ensure_refund_request_view [OF e wf3]
    have same: "has_refund d3 (dlv_order_id x) \<longleftrightarrow> has_refund d (dlv_order_id x)"
      "has_refund d' (dlv_order_id x) \<longleftrightarrow> has_refund d4 (dlv_order_id x)"
      using d3(3) idents core' by (simp_all add: has_refund_idents)
    have dl: "delivery_of_order d (dlv_order_id x) = Some x" by (rule delivery_of_order_get [OF wf x])
    let ?v = "view_of o1 (Some x) (has_refund d (dlv_order_id x))"
    have "core_step ?v (owed (?v\<lparr>ful_status := RETURNED, ful_restored := True\<rparr>))"
      using failed s R(3) goods_returned [of ?v "dlv_delivery_partner_id x" "dlv_picked_up_at x \<noteq> None"]
      by (simp add: delivery_part_def)
    moreover have "view_of o4 (Some x) (has_refund d' (dlv_order_id x)) =
        owed (?v\<lparr>ful_status := RETURNED, ful_restored := True\<rparr>)"
      using V(1) [of "Some x"] same ids R(1) by (simp del: view_of_delivery)
    ultimately show "core_step\<^sup>*\<^sup>* (view_of o1 (delivery_of_order d (dlv_order_id x)) (has_refund d (dlv_order_id x)))
        (view_of o4 (case None of None \<Rightarrow> delivery_of_order d (dlv_order_id x) | Some y \<Rightarrow> Some y)
          (has_refund d' (dlv_order_id x)))"
      using dl by (simp add: r_into_rtranclp del: view_of_delivery)
    show "refund_idents d' = refund_idents d \<or>
        (\<exists>i. refund_idents d' = refund_idents d @ [(i, dlv_order_id x, refund_idempotency_key (dlv_order_id x))]
          \<and> db_next_id d \<le> i \<and> i < db_next_id d' \<and> \<not> owes (refund_idents d) (dlv_order_id x))"
      using V(2) d3 idents core' R(6) nexts ids by fastforce
  next
    show "db_next_id d \<le> db_next_id d'"
      using R(6) d3(4) nexts ensure_refund_requestD [OF e] by fastforce
  qed (use ids core' R E d3 in simp_all)
qed

lemma step_ok_resolve:
  "step_ok d (snd (resolve_failed_delivery cfg post now req_id admin did r notes d))"
proof (cases r)
  case Reassign
  then show ?thesis
    by (auto simp: resolve_failed_delivery_def attempt_def split: sum.split intro: step_ok_reassignment_tx)
next
  case Return_To_Store
  then show ?thesis
    by (auto simp: resolve_failed_delivery_def attempt_def Let_def split: sum.split
        intro: step_ok_return step_ok_trans [OF step_ok_return step_ok_try_dispatch])
qed

lemma step_ok_flush_proof [simp]: "step_ok d (flush_proof now p d)"
  by (rule step_ok_frame) (simp_all add: flush_proof_def refund_idents_def)

lemma step_ok_store_challenge [simp]: "step_ok d (store_challenge h now otp t did d)"
proof (cases "proof_of_delivery d did")
  case None
  then show ?thesis
    by (intro step_ok_frame) (simp_all add: store_challenge_def refund_idents_def)
next
  case (Some p)
  then show ?thesis by (simp add: store_challenge_def)
qed

lemma step_ok_challenge:
  "step_ok d (snd (issue_delivery_proof_challenge h rate n now req_id u did d))"
proof -
  note chain = step_ok_trans [OF step_ok_store_challenge step_ok_enqueue]
  show ?thesis
    by (auto simp: issue_delivery_proof_challenge_def attempt_def Let_def split: sum.split
        intro: chain step_ok_trans [OF chain step_ok_admin])
qed

lemma step_ok_verify:
  "step_ok d (snd (verify_delivery_proof h rate now req_id u did otp ev rn nt d))"
  by (auto simp: verify_delivery_proof_def attempt_def Let_def split: sum.split option.split
      intro: step_ok_trans [OF step_ok_flush_proof step_ok_admin])

lemma step_ok_cod: "step_ok d (snd (record_cod_collection now req_id u did amount d))"
proof -
  have add: "step_ok d (d\<lparr>cod_collections := cs, db_next_id := Suc (db_next_id d)\<rparr>)" for cs
    by (rule step_ok_frame) (simp_all add: refund_idents_def)
  show ?thesis
    by (auto simp: record_cod_collection_def attempt_def Let_def split: sum.split option.split
        intro: add step_ok_trans [OF add step_ok_admin])
qed

lemma completion_guardsD:
  assumes "completion_guards d x o1 = Inr ()"
  shows "dlv_status x = PICKED_UP" "ord_status o1 = OUT_FOR_DELIVERY" "payment_allows_fulfillment o1"
    "\<exists>p. proof_of_delivery d (dlv_id x) = Some p \<and> prf_verified_at p \<noteq> None"
    "ord_payment_method o1 = COD \<Longrightarrow> \<exists>c. cod_of_delivery d (dlv_id x) = Some c
       \<and> cod_order_id c = ord_id o1 \<and> cod_amount c = ord_total o1"
  using assms by (auto simp: completion_guards_def split: if_splits option.splits)

lemma ensure_settlement_step_ok:
  assumes "ensure_settlement_entry o1 d = Inr (e, d')" shows "step_ok d d'"
  using assms
  by (intro step_ok_frame)
    (auto simp: ensure_settlement_frame [OF assms] refund_idents_def ensure_settlement_entry_def Let_def
      split: option.splits if_splits)

lemma same_core_completion_record: "completion_record now req_id u x o1 d = Inr d' \<Longrightarrow> same_core d d'"
  by (auto simp: completion_record_def Let_def split: if_splits dest!: same_core_admin
      intro: same_core_trans [OF same_core_enqueue])

lemma completion_txD:
  assumes "completion_tx settles now req_id u x o1 d = Inr d'"
  obtains x2 o3 e d2 where "can_transition_delivery (dlv_status x) DLV_DELIVERED"
    "x2 = x\<lparr>dlv_status := DLV_DELIVERED, dlv_delivered_at := Some now\<rparr>"
    "o3 = (if ord_payment_method o1 = COD then o1\<lparr>ord_status := DELIVERED, ord_payment_status := PAID\<rparr>
           else o1\<lparr>ord_status := DELIVERED\<rparr>)"
    "(if settles o3 then ensure_settlement_entry o3 (flush_order now o3 (flush_delivery now x2 d))
      else Inr (None, flush_order now o3 (flush_delivery now x2 d))) = Inr (e, d2)"
    "same_core d2 d'"
proof -
  define x2 where "x2 = x\<lparr>dlv_status := DLV_DELIVERED, dlv_delivered_at := Some now\<rparr>"
  define o3 where "o3 = (if ord_payment_method o1 = COD
      then o1\<lparr>ord_status := DELIVERED, ord_payment_status := PAID\<rparr> else o1\<lparr>ord_status := DELIVERED\<rparr>)"
  define d1 where "d1 = flush_order now o3 (flush_delivery now x2 d)"
  have can: "can_transition_delivery (dlv_status x) DLV_DELIVERED"
    "can_transition_order (ord_status o1) DELIVERED"
    using assms by (auto simp: completion_tx_def res_bind_Inr)
  then have "completion_tx settles now req_id u x o1 d =
      res_bind (if settles o3 then ensure_settlement_entry o3 d1 else Inr (None, d1))
        (\<lambda>(_, d2). completion_record now req_id u x2 o3 d2)"
    by (simp add: completion_tx_def x2_def o3_def d1_def Let_def transition_delivery_def
        transition_order_def)
  with assms obtain e d2 where
    "(if settles o3 then ensure_settlement_entry o3 d1 else Inr (None, d1)) = Inr (e, d2)"
    "completion_record now req_id u x2 o3 d2 = Inr d'"
    by (auto simp: res_bind_Inr simp del: split_paired_Ex)
  then show ?thesis
    unfolding d1_def by (intro that [OF can(1) x2_def o3_def] same_core_completion_record)
qed

lemma step_ok_completion:
  assumes x: "get_delivery d did = Some x" and o1: "get_order d (dlv_order_id x) = Some o1"
    and g: "completion_guards d x o1 = Inr ()"
    and c: "completion_tx settles now req_id u x o1 d = Inr d'"
  shows "step_ok d d'"
  using c
proof (rule completion_txD)
  fix x2 e d2 and o3 :: order
  assume x2: "x2 = x\<lparr>dlv_status := DLV_DELIVERED, dlv_delivered_at := Some now\<rparr>"
    and o3: "o3 = (if ord_payment_method o1 = COD then o1\<lparr>ord_status := DELIVERED, ord_payment_status := PAID\<rparr>
           else o1\<lparr>ord_status := DELIVERED\<rparr>)"
    and s: "(if settles o3 then ensure_settlement_entry o3 (flush_order now o3 (flush_delivery now x2 d))
      else Inr (None, flush_order now o3 (flush_delivery now x2 d))) = Inr (e, d2)"
    and core: "same_core d2 d'"
  let ?d1 = "flush_order now o3 (flush_delivery now x2 d)"
  have "step_ok d ?d1"
  proof (rule step_ok_delivery [OF x o1, where new = o3 and y = "stamp_delivery now x2"])
    show "core_step (view_of o1 (Some x) r) (view_of o3 (Some (stamp_delivery now x2)) r)" for r
      using completion_guardsD [OF g] core_step.complete [of "view_of o1 (Some x) r"
          "dlv_delivery_partner_id x" "dlv_picked_up_at x \<noteq> None"]
      by (cases "ord_payment_method o1")
        (simp_all add: delivery_part_def view_of_def gate_def payment_allows_fulfillment_def x2 o3)
    show "db_next_id d \<le> db_next_id ?d1"
      by (rule order_trans [OF next_id_flush_delivery next_id_flush_order])
  qed (use x in \<open>auto simp: x2 o3\<close>)
  moreover have "step_ok ?d1 d2" using s by (auto split: if_splits intro: ensure_settlement_step_ok)
  ultimately show ?thesis using step_ok_same_core [OF core] by (blast intro: step_ok_trans)
qed

lemma step_ok_complete_with_financials:
  "step_ok d (snd (complete_delivery_with_financials now req_id u did d))"
  by (auto simp: complete_delivery_with_financials_def attempt_def split: sum.split
      intro: step_ok_completion)

end
