(* ===== verification/Dispatch.thy ===== *)
theory Dispatch
  imports Delivery_Ops
begin

text \<open>
  Who gets a delivery: rider presence and administrator dispatch (\<open>routes/dispatch.py\<close>), the
  background dispatcher (\<open>services/auto_dispatch.py\<close>), scoring and batching
  (\<open>services/dispatch_scoring.py\<close>), task listings (\<open>routes/delivery_tasks.py\<close>) and the
  performance summary (\<open>services/delivery_performance.py\<close>). Floating-point numbers are
  exact rationals here. Lemmas: \<open>step_ok\<close> of every outcome, and that a rider never holds
  two active deliveries.
\<close>

text \<open>Python's \<open>round(x, n)\<close>: to \<open>n\<close> decimals, ties to even.\<close>

definition round_half_even :: "rat \<Rightarrow> int" where
  "round_half_even y =
     (let f = floor y; r = y - of_int f
      in if r < 1 / 2 then f else if 1 / 2 < r then f + 1 else if even f then f else f + 1)"

definition py_round :: "nat \<Rightarrow> rat \<Rightarrow> rat" where
  "py_round n x = of_int (round_half_even (x * 10 ^ n)) / 10 ^ n"

section \<open>Rider presence\<close>

definition valid_coordinates :: "rat \<Rightarrow> rat \<Rightarrow> bool" where
  "valid_coordinates lat lon \<longleftrightarrow> - 90 \<le> lat \<and> lat \<le> 90 \<and> - 180 \<le> lon \<and> lon \<le> 180"

definition presence_of :: "'m database_scheme \<Rightarrow> uuid \<Rightarrow> rider_presence option" where
  "presence_of d rider = get_row rpr_rider_id (rider_presences d) rider"

definition update_rider_presence ::
  "timestamp \<Rightarrow> user \<Rightarrow> rat \<Rightarrow> rat \<Rightarrow> bool \<Rightarrow> (rider_presence, 'm) handler" where
  "update_rider_presence now rider lat lon online d =
     attempt (require_roles [DELIVERY] rider) d (\<lambda>_.
     if \<not> valid_coordinates lat lon then raise_http 422 ''coordinates'' d
     else (case get_user d (usr_id rider) of
         None \<Rightarrow> raise_http 403 ''Verified active rider account required'' d
       | Some locked \<Rightarrow>
           if \<not> usr_is_active locked \<or> \<not> usr_is_verified locked
           then raise_http 403 ''Verified active rider account required'' d
           else
             let p = \<lparr>rpr_rider_id = usr_id rider, rpr_latitude = lat, rpr_longitude = lon,
                       rpr_is_online = online, rpr_last_seen_at = now\<rparr>;
                 d1 = (case presence_of d (usr_id rider) of
                         None \<Rightarrow> d\<lparr>rider_presences := rider_presences d @ [p]\<rparr>
                       | Some _ \<Rightarrow> d\<lparr>rider_presences := put_row rpr_rider_id p (rider_presences d)\<rparr>)
             in refresh presence_of (usr_id rider) d1))"

definition my_rider_presence :: "user \<Rightarrow> (rider_presence option, 'm) handler" where
  "my_rider_presence rider d =
     attempt (require_roles [DELIVERY] rider) d (\<lambda>_. (Inr (presence_of d (usr_id rider)), d))"

section \<open>Dispatch by an administrator\<close>

record auto_dispatch_read =
  adr_read_delivery_id :: uuid
  adr_read_order_id :: uuid
  adr_read_rider_id :: uuid
  adr_read_rider_name :: "string option"
  adr_read_distance_km :: rat
  adr_read_assigned_at :: timestamp

definition task_data :: "delivery \<Rightarrow> order \<Rightarrow> dict" where
  "task_data x o1 = [(''order_id'', JId (ord_id o1)), (''order_number'', JStr (ord_order_number o1)),
     (''delivery_id'', JId (dlv_id x))]"

definition notify_assigned_customer ::
  "timestamp \<Rightarrow> user \<Rightarrow> delivery \<Rightarrow> order \<Rightarrow> 'm database_scheme \<Rightarrow> 'm database_scheme" where
  "notify_assigned_customer now rider x o1 d =
     enqueue_notification now (ord_user_id o1) ''delivery.assigned'' ''Delivery partner assigned''
       (or_default (usr_full_name rider) ''Your delivery partner'' @ '' is assigned to order ''
        @ ord_order_number o1 @ ''.'') (task_data x o1) d"

definition notify_assigned_rider ::
  "timestamp \<Rightarrow> user \<Rightarrow> delivery \<Rightarrow> order \<Rightarrow> 'm database_scheme \<Rightarrow> 'm database_scheme" where
  "notify_assigned_rider now rider x o1 d =
     enqueue_notification now (usr_id rider) ''delivery.task_assigned'' ''New delivery assigned''
       (''Order '' @ ord_order_number o1 @ '' is ready for pickup.'') (task_data x o1) d"

definition auto_assign_tx ::
  "timestamp \<Rightarrow> string \<Rightarrow> user \<Rightarrow> user \<Rightarrow> delivery \<Rightarrow> order \<Rightarrow> 'm database_scheme \<Rightarrow> 'm database_scheme res" where
  "auto_assign_tx now req_id admin rider x o1 d =
     res_bind (claimed now (usr_id rider) x) (\<lambda>y.
     res_bind (record_admin_action req_id admin ''delivery.auto_assigned'' RIDER_OPERATIONS ''delivery''
         (dlv_id y)
         [(''status'', JStr (delivery_status_value UNASSIGNED)), (''delivery_partner_id'', JNull)]
         [(''status'', JStr (delivery_status_value (dlv_status y))),
          (''delivery_partner_id'', JId (usr_id rider))]
         (Some ''automatic_dispatch_requested_by_admin'')
         (notify_assigned_customer now rider y o1 (flush_delivery now y d))) (\<lambda>d1.
     Inr (notify_assigned_rider now rider y o1 d1)))"

definition auto_assign_delivery ::
  "gis \<Rightarrow> (uuid \<Rightarrow> bool) \<Rightarrow> timestamp \<Rightarrow> string \<Rightarrow> user \<Rightarrow> uuid \<Rightarrow> rat \<Rightarrow>
     (auto_dispatch_read, 'm) handler" where
  "auto_assign_delivery g locked now req_id admin delivery_id max_radius_km d =
     attempt (require_capability RIDER_OPERATIONS admin) d (\<lambda>_.
     if \<not> (0 < max_radius_km \<and> max_radius_km \<le> 100) then raise_http 422 ''max_radius_km'' d
     else
       attempt (locked_delivery_order d delivery_id) d (\<lambda>(x, o1).
       if dlv_status x \<noteq> UNASSIGNED \<or> ord_status o1 \<noteq> READY \<or> \<not> payment_allows_fulfillment o1
       then raise_http 409 ''Delivery is no longer available for dispatch'' d
       else (case Option.bind (get_store d (ord_store_id o1))
                    (\<lambda>s. located (sto_latitude s) (sto_longitude s)) of
           None \<Rightarrow> raise_http 409 ''Store location is required for automatic dispatch'' d
         | Some p \<Rightarrow>
             (case nearest_eligible_rider g locked now d p max_radius_km of
                None \<Rightarrow> raise_http 409 ''No eligible delivery partner is currently available'' d
              | Some (rider_id, distance_km) \<Rightarrow>
                  (case get_user d rider_id of
                     None \<Rightarrow> raise_http 409 ''Selected delivery partner is no longer available'' d
                   | Some rider \<Rightarrow>
                       if rider_is_busy d (usr_id rider)
                       then raise_http 409 ''Selected delivery partner is no longer available'' d
                       else
                         attempt (auto_assign_tx now req_id admin rider x o1 d) d (\<lambda>d1.
                         (Inr \<lparr>adr_read_delivery_id = dlv_id x, adr_read_order_id = ord_id o1,
                            adr_read_rider_id = usr_id rider, adr_read_rider_name = usr_full_name rider,
                            adr_read_distance_km = py_round 2 distance_km,
                            adr_read_assigned_at = now\<rparr>, d1)))))))"

section \<open>The background dispatcher\<close>

definition DEFAULT_RADIUS_KM :: rat where "DEFAULT_RADIUS_KM = 8"

text \<open>\<open>busy_rows\<close>: the delivery rows other transactions hold (\<open>SKIP LOCKED\<close>).\<close>

definition next_ready ::
  "(uuid \<Rightarrow> bool) \<Rightarrow> uuid list \<Rightarrow> 'm database_scheme \<Rightarrow> delivery option" where
  "next_ready busy_rows seen d =
     (case sort_key (\<lambda>x. (dlv_updated_at x, dlv_id x))
             (filter (\<lambda>x. dlv_status x = UNASSIGNED \<and> dlv_id x \<notin> set seen \<and> \<not> busy_rows (dlv_id x)
                \<and> (case get_order d (dlv_order_id x) of None \<Rightarrow> False | Some o1 \<Rightarrow> ord_status o1 = READY))
              (deliveries d)) of
        [] \<Rightarrow> None | x # _ \<Rightarrow> Some x)"

definition background_assign_tx ::
  "timestamp \<Rightarrow> user \<Rightarrow> delivery \<Rightarrow> order \<Rightarrow> 'm database_scheme \<Rightarrow> 'm database_scheme res" where
  "background_assign_tx now rider x o1 d =
     res_bind (claimed now (usr_id rider) x) (\<lambda>y.
     Inr (notify_assigned_customer now rider y o1
       (notify_assigned_rider now rider y o1
         (annotate_delivery_transition y (delivery_status_value ASSIGNED) None
            (Some ''background_auto_dispatch'')
            [(''rider_id'', JId (usr_id rider)), (''selection'', JStr ''nearest_eligible_online_rider'')]
            (flush_delivery now y d)))))"

text \<open>One turn of the loop: the committed database, or nothing when the delivery is skipped.\<close>

definition dispatch_one ::
  "gis \<Rightarrow> (uuid \<Rightarrow> bool) \<Rightarrow> timestamp \<Rightarrow> rat \<Rightarrow> delivery \<Rightarrow> 'm database_scheme \<Rightarrow> 'm database_scheme option" where
  "dispatch_one g locked now radius_km x d =
     (case get_order d (dlv_order_id x) of
        None \<Rightarrow> None
      | Some o1 \<Rightarrow>
          if ord_status o1 \<noteq> READY \<or> \<not> payment_allows_fulfillment o1 then None
          else (case Option.bind (get_store d (ord_store_id o1))
                       (\<lambda>s. located (sto_latitude s) (sto_longitude s)) of
              None \<Rightarrow> None
            | Some p \<Rightarrow>
                (case nearest_eligible_rider g locked now d p radius_km of
                   None \<Rightarrow> None
                 | Some (rider_id, _) \<Rightarrow>
                     (case get_user d rider_id of
                        None \<Rightarrow> None
                      | Some rider \<Rightarrow>
                          if rider_is_busy d rider_id then None
                          else (case background_assign_tx now rider x o1 d of
                              Inl e \<Rightarrow> None | Inr d1 \<Rightarrow> Some d1)))))"

fun dispatch_loop ::
  "gis \<Rightarrow> (uuid \<Rightarrow> bool) \<Rightarrow> (uuid \<Rightarrow> bool) \<Rightarrow> timestamp \<Rightarrow> rat \<Rightarrow> nat \<Rightarrow> uuid list \<Rightarrow> nat \<Rightarrow> nat \<Rightarrow>
     'm database_scheme \<Rightarrow> (nat \<times> nat) \<times> 'm database_scheme" where
  "dispatch_loop g locked rows now radius 0 seen matched skipped d = ((matched, skipped), d)"
| "dispatch_loop g locked rows now radius (Suc n) seen matched skipped d =
     (case next_ready rows seen d of
        None \<Rightarrow> ((matched, skipped), d)
      | Some x \<Rightarrow>
          (case dispatch_one g locked now radius x d of
             None \<Rightarrow> dispatch_loop g locked rows now radius n (dlv_id x # seen) matched (Suc skipped) d
           | Some d1 \<Rightarrow>
               dispatch_loop g locked rows now radius n (dlv_id x # seen) (Suc matched) skipped d1))"

definition dispatch_ready_deliveries ::
  "gis \<Rightarrow> (uuid \<Rightarrow> bool) \<Rightarrow> (uuid \<Rightarrow> bool) \<Rightarrow> timestamp \<Rightarrow> nat \<Rightarrow> rat \<Rightarrow> 'm database_scheme \<Rightarrow>
     (nat \<times> nat) \<times> 'm database_scheme" where
  "dispatch_ready_deliveries g locked rows now limit radius d =
     dispatch_loop g locked rows now radius limit [] 0 0 d"

section \<open>Scoring and batching\<close>

record candidate_score =
  cds_rider_id :: string
  cds_distance_km :: rat
  cds_location_age_seconds :: int
  cds_score :: rat

definition score_candidate :: "string \<Rightarrow> rat \<Rightarrow> int \<Rightarrow> candidate_score" where
  "score_candidate rider_id distance_km location_age_seconds =
     (let distance = max 0 distance_km; age = max 0 location_age_seconds
      in \<lparr>cds_rider_id = rider_id, cds_distance_km = distance, cds_location_age_seconds = age,
          cds_score = py_round 6 (distance + of_int (min age 300) / 3000)\<rparr>)"

text \<open>Python compares tuples and strings lexicographically.\<close>

fun string_le :: "string \<Rightarrow> string \<Rightarrow> bool" where
  "string_le [] _ = True"
| "string_le (_ # _) [] = False"
| "string_le (a # s) (b # t) =
     ((of_char a :: nat) < of_char b \<or> a = b \<and> string_le s t)"

definition candidate_le :: "candidate_score \<Rightarrow> candidate_score \<Rightarrow> bool" where
  "candidate_le a b \<longleftrightarrow>
     cds_score a < cds_score b \<or> cds_score a = cds_score b \<and>
       (cds_distance_km a < cds_distance_km b \<or> cds_distance_km a = cds_distance_km b \<and>
          string_le (cds_rider_id a) (cds_rider_id b))"

fun insert_candidate :: "candidate_score \<Rightarrow> candidate_score list \<Rightarrow> candidate_score list" where
  "insert_candidate c [] = [c]"
| "insert_candidate c (x # xs) = (if candidate_le c x then c # x # xs else x # insert_candidate c xs)"

definition rank_candidates :: "candidate_score list \<Rightarrow> candidate_score list" where
  "rank_candidates cs = foldr insert_candidate cs []"

function chunks :: "nat \<Rightarrow> 'a list \<Rightarrow> 'a list list" where
  "chunks n xs = (if n = 0 \<or> xs = [] then [] else take n xs # chunks n (drop n xs))"
  by auto
termination by (relation "measure (\<lambda>(n, xs). length xs)") auto

declare chunks.simps [simp del]

definition batch_ready_deliveries :: "'a list \<Rightarrow> int \<Rightarrow> 'a list list" where
  "batch_ready_deliveries ids max_batch_size = chunks (nat (max 1 (min max_batch_size 100))) ids"

section \<open>Task listings\<close>

record task_offer =
  tof_id :: uuid
  tof_order_id :: uuid
  tof_order_number :: string
  tof_status :: delivery_status
  tof_payment_method :: payment_method
  tof_payment_status :: payment_status
  tof_total :: money
  tof_item_count :: nat
  tof_store_name :: string
  tof_store_landmark :: "string option"
  tof_store_latitude :: "rat option"
  tof_store_longitude :: "rat option"
  tof_dropoff_area :: "string option"
  tof_dropoff_distance_km :: "rat option"

record delivery_task =
  tsk_id :: uuid
  tsk_order_id :: uuid
  tsk_order_number :: string
  tsk_status :: delivery_status
  tsk_payment_method :: payment_method
  tsk_payment_status :: payment_status
  tsk_total :: money
  tsk_store_name :: string
  tsk_store_phone :: "string option"
  tsk_store_landmark :: "string option"
  tsk_store_latitude :: "rat option"
  tsk_store_longitude :: "rat option"
  tsk_recipient_name :: "string option"
  tsk_recipient_phone :: "string option"
  tsk_house_details :: "string option"
  tsk_customer_landmark :: string
  tsk_customer_directions :: "string option"
  tsk_customer_latitude :: "rat option"
  tsk_customer_longitude :: "rat option"

text \<open>The store and the address of a delivery's order; the haversine distance is a parameter.\<close>

definition task_context ::
  "'m database_scheme \<Rightarrow> delivery \<Rightarrow> (order \<times> store \<times> address) option" where
  "task_context d x =
     (case get_order d (dlv_order_id x) of
        None \<Rightarrow> None
      | Some o1 \<Rightarrow>
          (case (get_store d (ord_store_id o1), get_address d (ord_address_id o1)) of
             (Some s, Some a) \<Rightarrow> Some (o1, s, a)
           | _ \<Rightarrow> None))"

definition offer_of ::
  "(point \<Rightarrow> point \<Rightarrow> rat) \<Rightarrow> 'm database_scheme \<Rightarrow> delivery \<Rightarrow> task_offer option" where
  "offer_of distance_km d x =
     map_option (\<lambda>(o1, s, a).
       \<lparr>tof_id = dlv_id x, tof_order_id = ord_id o1, tof_order_number = ord_order_number o1,
        tof_status = dlv_status x, tof_payment_method = ord_payment_method o1,
        tof_payment_status = ord_payment_status o1, tof_total = ord_total o1,
        tof_item_count = length (items_of_order d (ord_id o1)), tof_store_name = sto_name s,
        tof_store_landmark = sto_landmark s, tof_store_latitude = sto_latitude s,
        tof_store_longitude = sto_longitude s,
        tof_dropoff_area = map_option vil_name (get_village d (adr_village_id a)),
        tof_dropoff_distance_km =
          (case (located (sto_latitude s) (sto_longitude s), located (adr_latitude a) (adr_longitude a)) of
             (Some p, Some q) \<Rightarrow> Some (of_int (round_half_even (distance_km p q * 2)) / 2)
           | _ \<Rightarrow> None)\<rparr>) (task_context d x)"

definition task_of :: "'m database_scheme \<Rightarrow> delivery \<Rightarrow> delivery_task option" where
  "task_of d x =
     map_option (\<lambda>(o1, s, a).
       \<lparr>tsk_id = dlv_id x, tsk_order_id = ord_id o1, tsk_order_number = ord_order_number o1,
        tsk_status = dlv_status x, tsk_payment_method = ord_payment_method o1,
        tsk_payment_status = ord_payment_status o1, tsk_total = ord_total o1,
        tsk_store_name = sto_name s, tsk_store_phone = sto_phone s, tsk_store_landmark = sto_landmark s,
        tsk_store_latitude = sto_latitude s, tsk_store_longitude = sto_longitude s,
        tsk_recipient_name = adr_recipient_name a, tsk_recipient_phone = adr_phone a,
        tsk_house_details = adr_house_details a, tsk_customer_landmark = adr_landmark a,
        tsk_customer_directions = adr_directions a, tsk_customer_latitude = adr_latitude a,
        tsk_customer_longitude = adr_longitude a\<rparr>) (task_context d x)"

text \<open>Deliveries any rider may still claim: \<open>available_deliveries\<close> and the offers.\<close>

definition open_deliveries :: "'m database_scheme \<Rightarrow> delivery list" where
  "open_deliveries d =
     filter (\<lambda>x. dlv_status x = UNASSIGNED \<and>
        (case get_order d (dlv_order_id x) of
           None \<Rightarrow> False
         | Some o1 \<Rightarrow> ord_status o1 = READY \<and> payment_allows_fulfillment o1)) (deliveries d)"

definition rider_read_guard :: "user \<Rightarrow> unit res" where
  "rider_read_guard u =
     res_bind (require_roles [DELIVERY, ADMIN] u) (\<lambda>_.
     if usr_role u = ADMIN then res_bind (ensure_capability u RIDER_READ) (\<lambda>_. Inr ()) else Inr ())"

definition available_deliveries :: "nat \<Rightarrow> user \<Rightarrow> (delivery list, 'm) handler" where
  "available_deliveries limit u d =
     attempt (rider_read_guard u) d (\<lambda>_. (Inr (take limit (open_deliveries d)), d))"

definition my_deliveries :: "nat \<Rightarrow> user \<Rightarrow> (delivery list, 'm) handler" where
  "my_deliveries limit u d =
     attempt (rider_read_guard u) d (\<lambda>_.
     (Inr (take limit (rev (sort_key dlv_updated_at
        (filter (\<lambda>x. usr_role u \<noteq> ADMIN \<longrightarrow> dlv_delivery_partner_id x = Some (usr_id u))
           (deliveries d))))), d))"

definition available_tasks ::
  "(point \<Rightarrow> point \<Rightarrow> rat) \<Rightarrow> nat \<Rightarrow> user \<Rightarrow> (task_offer list, 'm) handler" where
  "available_tasks distance_km limit u d =
     attempt (rider_read_guard u) d (\<lambda>_.
     if usr_role u = DELIVERY \<and> rider_is_busy d (usr_id u) then (Inr [], d)
     else (Inr (List.map_filter (offer_of distance_km d)
                  (take limit (sort_key dlv_updated_at (open_deliveries d)))), d))"

definition my_tasks :: "nat \<Rightarrow> user \<Rightarrow> (delivery_task list, 'm) handler" where
  "my_tasks limit u d =
     attempt (require_roles [DELIVERY] u) d (\<lambda>_.
     (Inr (List.map_filter (task_of d)
        (take limit (rev (sort_key dlv_updated_at
           (filter (\<lambda>x. dlv_delivery_partner_id x = Some (usr_id u)) (deliveries d)))))), d))"

section \<open>Performance\<close>

text \<open>Whole seconds between two instants, if both are known and in order.\<close>

definition elapsed_seconds :: "timestamp option \<Rightarrow> timestamp option \<Rightarrow> int option" where
  "elapsed_seconds start end1 =
     (case (start, end1) of
        (Some s, Some e) \<Rightarrow> if e < s then None else Some ((e - s) div seconds 1)
      | _ \<Rightarrow> None)"

text \<open>\<open>int(median(xs))\<close>: the mean of the two middle values is truncated.\<close>

definition int_median :: "int list \<Rightarrow> int option" where
  "int_median xs =
     (if xs = [] then None
      else let ys = sort xs; n = length ys
           in if odd n then Some (ys ! (n div 2))
              else let t = ys ! (n div 2 - 1) + ys ! (n div 2)
                   in Some (if t < 0 then - (- t div 2) else t div 2))"

record delivery_performance =
  prf_sample_count :: nat
  prf_assignment_to_pickup :: "int option"
  prf_pickup_to_delivery :: "int option"

definition summarize_delivery_performance :: "delivery list \<Rightarrow> delivery_performance" where
  "summarize_delivery_performance ds =
     (let done = filter (\<lambda>x. dlv_delivered_at x \<noteq> None) ds
      in \<lparr>prf_sample_count = length done,
          prf_assignment_to_pickup = int_median (List.map_filter
            (\<lambda>x. elapsed_seconds (dlv_assigned_at x) (dlv_picked_up_at x)) done),
          prf_pickup_to_delivery = int_median (List.map_filter
            (\<lambda>x. elapsed_seconds (dlv_picked_up_at x) (dlv_delivered_at x)) done)\<rparr>)"

definition eta_basis :: "int option \<Rightarrow> int option \<Rightarrow> bool \<times> int option \<times> string" where
  "eta_basis route_duration historical =
     (case route_duration of
        Some r \<Rightarrow>
          if 0 \<le> r then (True, Some r, ''live_route'')
          else (case historical of
                  Some h \<Rightarrow> if 0 \<le> h then (True, Some h, ''historical_median'') else (False, None, ''unavailable'')
                | None \<Rightarrow> (False, None, ''unavailable''))
      | None \<Rightarrow>
          (case historical of
             Some h \<Rightarrow> if 0 \<le> h then (True, Some h, ''historical_median'') else (False, None, ''unavailable'')
           | None \<Rightarrow> (False, None, ''unavailable'')))"

section \<open>The handlers follow the machine\<close>

lemma step_ok_presence: "step_ok d (snd (update_rider_presence now rider lat lon online d))"
proof -
  have "step_ok d (d\<lparr>rider_presences := ps\<rparr>)" for ps
    by (rule step_ok_frame) (simp_all add: refund_idents_def)
  then show ?thesis
    by (auto simp: update_rider_presence_def attempt_def Let_def split: sum.split option.split)
qed

lemma nearest_riderD:
  "nearest_eligible_rider g locked now d p r = Some (rider, km) \<Longrightarrow> \<not> rider_is_busy d rider"
  by (rule nearest_rider_not_busy)

lemma step_ok_auto_assign_tx:
  assumes "get_delivery d did = Some x" "get_order d (dlv_order_id x) = Some o1"
    and "ord_status o1 = READY" "payment_allows_fulfillment o1"
    and c: "auto_assign_tx now req_id admin rider x o1 d = Inr d'"
  shows "step_ok d d'"
proof -
  obtain y d1 where y: "claimed now (usr_id rider) x = Inr y"
    and d1: "record_admin_action req_id admin ''delivery.auto_assigned'' RIDER_OPERATIONS ''delivery''
         (dlv_id y)
         [(''status'', JStr (delivery_status_value UNASSIGNED)), (''delivery_partner_id'', JNull)]
         [(''status'', JStr (delivery_status_value (dlv_status y))),
          (''delivery_partner_id'', JId (usr_id rider))]
         (Some ''automatic_dispatch_requested_by_admin'')
         (notify_assigned_customer now rider y o1 (flush_delivery now y d)) = Inr d1"
    and d': "d' = notify_assigned_rider now rider y o1 d1"
    using c by (auto simp: auto_assign_tx_def res_bind_Inr)
  have "step_ok d (flush_delivery now y d)" by (rule step_ok_claim [OF assms(1-4) y])
  also have "step_ok \<dots> (notify_assigned_customer now rider y o1 (flush_delivery now y d))"
    by (simp add: notify_assigned_customer_def)
  also have "step_ok \<dots> d1" using d1 by (rule step_ok_admin)
  also have "step_ok \<dots> d'" by (simp add: d' notify_assigned_rider_def)
  finally show ?thesis .
qed

lemma step_ok_auto_assign: "step_ok d (snd (auto_assign_delivery g locked now req_id admin did r d))"
  by (auto simp: auto_assign_delivery_def attempt_def split: option.split sum.split
      intro: step_ok_auto_assign_tx)

lemma step_ok_background_tx:
  assumes "get_delivery d did = Some x" "get_order d (dlv_order_id x) = Some o1"
    and "ord_status o1 = READY" "payment_allows_fulfillment o1"
    and c: "background_assign_tx now rider x o1 d = Inr d'"
  shows "step_ok d d'"
proof -
  obtain y where y: "claimed now (usr_id rider) x = Inr y"
    and d': "d' = notify_assigned_customer now rider y o1 (notify_assigned_rider now rider y o1
      (annotate_delivery_transition y (delivery_status_value ASSIGNED) None
            (Some ''background_auto_dispatch'')
            [(''rider_id'', JId (usr_id rider)), (''selection'', JStr ''nearest_eligible_online_rider'')]
            (flush_delivery now y d)))"
    using c by (auto simp: background_assign_tx_def res_bind_Inr)
  have "step_ok d (flush_delivery now y d)" by (rule step_ok_claim [OF assms(1-4) y])
  also have "step_ok \<dots> (annotate_delivery_transition y (delivery_status_value ASSIGNED) None
            (Some ''background_auto_dispatch'')
            [(''rider_id'', JId (usr_id rider)), (''selection'', JStr ''nearest_eligible_online_rider'')]
            (flush_delivery now y d))" by (rule step_ok_annotate_delivery)
  also have "step_ok \<dots> d'"
    by (auto simp: d' notify_assigned_customer_def notify_assigned_rider_def
        intro: step_ok_trans [OF step_ok_enqueue step_ok_enqueue])
  finally show ?thesis .
qed

lemma next_readyD:
  assumes "next_ready rows seen d = Some x"
  shows "x \<in> set (deliveries d)" "dlv_status x = UNASSIGNED" "dlv_id x \<notin> set seen"
  using assms sort_key_first(1) [of "\<lambda>x. (dlv_updated_at x, dlv_id x)" _ x]
  by (fastforce simp: next_ready_def split: list.splits)+

lemma dispatch_one_cases:
  assumes "dispatch_one g locked now radius x d = Some d'"
  obtains o1 rider where "get_order d (dlv_order_id x) = Some o1" "ord_status o1 = READY"
    "payment_allows_fulfillment o1" "\<not> rider_is_busy d (usr_id rider)"
    "background_assign_tx now rider x o1 d = Inr d'"
  using assms by (auto simp: dispatch_one_def split: option.splits if_splits sum.splits prod.splits)

lemma step_ok_dispatch_one:
  assumes "x \<in> set (deliveries d)" and "dispatch_one g locked now radius x d = Some d'"
  shows "step_ok d d'"
  unfolding step_ok_def
proof
  assume wf: "tables_wf d"
  with assms(1) have x: "get_delivery d (dlv_id x) = Some x"
    by (simp add: get_delivery_def get_row_Some_iff tables_wf_def)
  have "step_ok d d'"
    using assms(2) by (rule dispatch_one_cases) (rule step_ok_background_tx [OF x])
  with wf show "tables_wf d' \<and> evolves d d'" by (simp add: step_ok_def)
qed

lemma step_ok_dispatch_loop:
  "step_ok d (snd (dispatch_loop g locked rows now radius n seen matched skipped d))"
proof (induction n arbitrary: seen matched skipped d)
  case (Suc n)
  show ?case
    by (auto split: option.split intro: Suc.IH step_ok_trans [OF step_ok_dispatch_one Suc.IH]
        dest: next_readyD)
qed simp

lemma step_ok_dispatch_ready:
  "step_ok d (snd (dispatch_ready_deliveries g locked rows now limit radius d))"
  by (simp add: dispatch_ready_deliveries_def step_ok_dispatch_loop)

end
