(* ===== verification/Payments.thy ===== *)
theory Payments
  imports Delivery_Ops
begin

text \<open>
  Online payment: the Razorpay client of \<open>services/payments.py\<close>, the live routes of
  \<open>routes/payment_hardening.py\<close> and the routes of \<open>routes/payments.py\<close> (the intent, which is
  live, and the verification and webhook it is shadowed by). The HTTP exchange, HMAC-SHA256,
  SHA-256 and the JSON parser are parameters. Lemmas: \<open>step_ok\<close> of every live outcome, a
  webhook event is applied at most once, a captured payment of a closed order becomes an
  obligation.
\<close>

section \<open>The provider client\<close>

record order_request =
  orq_amount :: int
  orq_currency :: string
  orq_receipt :: string
  orq_order_note :: uuid

definition create_razorpay_order ::
  "settings \<Rightarrow> (order_request \<Rightarrow> string option provider_reply) \<Rightarrow> decimal \<Rightarrow> string \<Rightarrow> uuid \<Rightarrow> string res" where
  "create_razorpay_order cfg post amount receipt note =
     (if \<not> razorpay_enabled cfg
      then Inl (PaymentProviderUnavailable ''Razorpay credentials are not configured'')
      else (case post \<lparr>orq_amount = amount_to_subunits amount, orq_currency = ''INR'',
                       orq_receipt = take 40 receipt, orq_order_note = note\<rparr> of
          Status_Error code \<Rightarrow>
            Inl (PaymentProviderError (''Razorpay rejected the order request ('' @ show_nat code @ '')''))
        | Transport_Error \<Rightarrow> Inl (PaymentProviderError ''Unable to reach Razorpay'')
        | Invalid_Json \<Rightarrow> Inl (PaymentProviderError ''Razorpay returned an invalid order response'')
        | Not_An_Object \<Rightarrow> Inl (PaymentProviderError ''Razorpay returned an invalid order response'')
        | Body i \<Rightarrow>
            (case text_or_none i of
               None \<Rightarrow> Inl (PaymentProviderError ''Razorpay returned an invalid order response'')
             | Some pid \<Rightarrow> Inr pid)))"

definition verify_razorpay_signature ::
  "settings \<Rightarrow> (string \<Rightarrow> string \<Rightarrow> string) \<Rightarrow> string \<Rightarrow> string \<Rightarrow> string \<Rightarrow> bool res" where
  "verify_razorpay_signature cfg hmac provider_order_id provider_payment_id received =
     (case text_or_none (cfg_razorpay_key_secret cfg) of
        None \<Rightarrow> Inl (PaymentProviderUnavailable ''Razorpay secret is not configured'')
      | Some secret \<Rightarrow>
          Inr (hmac secret (provider_order_id @ ''|'' @ provider_payment_id) = received))"

definition verify_razorpay_webhook_signature ::
  "settings \<Rightarrow> (string \<Rightarrow> string \<Rightarrow> string) \<Rightarrow> string \<Rightarrow> string \<Rightarrow> bool res" where
  "verify_razorpay_webhook_signature cfg hmac raw_body received =
     (case text_or_none (cfg_razorpay_webhook_secret cfg) of
        None \<Rightarrow> Inl (PaymentProviderUnavailable ''Razorpay webhook secret is not configured'')
      | Some secret \<Rightarrow> Inr (hmac secret raw_body = received))"

text \<open>A provider that is not configured is the caller's 503.\<close>

definition unavailable_503 :: "'a res \<Rightarrow> 'a res" where
  "unavailable_503 r =
     (case r of
        Inl (PaymentProviderUnavailable m) \<Rightarrow> Inl (HTTPException 503 m)
      | Inl e \<Rightarrow> Inl e
      | Inr x \<Rightarrow> Inr x)"

section \<open>Attempts\<close>

text \<open>A flush of an object equal to its row issues no \<open>UPDATE\<close>, so \<open>updated_at\<close> stays.\<close>

definition stamp_attempt :: "timestamp \<Rightarrow> payment_attempt \<Rightarrow> payment_attempt" where
  "stamp_attempt now a = a\<lparr>pat_updated_at := now\<rparr>"

definition flush_attempt :: "timestamp \<Rightarrow> payment_attempt \<Rightarrow> 'm database_scheme \<Rightarrow> 'm database_scheme" where
  "flush_attempt now a d =
     (if get_attempt d (pat_id a) = Some a then d
      else d\<lparr>payment_attempts := put_row pat_id (stamp_attempt now a) (payment_attempts d)\<rparr>)"

lemma pat_id_stamp [simp]: "pat_id (stamp_attempt now a) = pat_id a"
  by (simp add: stamp_attempt_def)

text \<open>What is stored is the object, with a new stamp when the object had changed.\<close>

interpretation attempt_rows: row_store
    "\<lambda>d i. map_option (pat_updated_at_update (\<lambda>_. 0)) (get_attempt d i)" "flush_attempt now" pat_id
    "pat_updated_at_update (\<lambda>_. 0)"
  for now
  using get_put_row [of pat_id "stamp_attempt now _"]
  by unfold_locales (auto simp: get_attempt_def flush_attempt_def stamp_attempt_def)

section \<open>The intent\<close>

record payment_intent =
  pin_payment_attempt_id :: uuid
  pin_provider :: string
  pin_provider_order_id :: string
  pin_amount_subunits :: int
  pin_amount :: money
  pin_currency :: string
  pin_key_id :: string

definition payment_config :: "settings \<Rightarrow> bool \<times> string \<times> string option" where
  "payment_config cfg =
     (razorpay_enabled cfg, ''razorpay'', if razorpay_enabled cfg then cfg_razorpay_key_id cfg else None)"

definition intent_of :: "payment_attempt \<Rightarrow> string \<Rightarrow> payment_intent" where
  "intent_of a key_id =
     \<lparr>pin_payment_attempt_id = pat_id a, pin_provider = ''razorpay'',
      pin_provider_order_id = (case pat_provider_order_id a of None \<Rightarrow> [] | Some p \<Rightarrow> p),
      pin_amount_subunits = amount_to_subunits (paise (pat_amount a)), pin_amount = pat_amount a,
      pin_currency = pat_currency a, pin_key_id = key_id\<rparr>"

definition live_attempt :: "'m database_scheme \<Rightarrow> uuid \<Rightarrow> payment_attempt option" where
  "live_attempt d oid =
     latest_by pat_created_at
       (filter (\<lambda>a. pat_order_id a = oid \<and> pat_provider a = ''razorpay''
          \<and> pat_status a \<in> {''created'', ''attempted''} \<and> pat_provider_order_id a \<noteq> None)
        (payment_attempts d))"

definition new_attempt :: "timestamp \<Rightarrow> uuid \<Rightarrow> order \<Rightarrow> string \<Rightarrow> payment_attempt" where
  "new_attempt now i o1 provider_order =
     \<lparr>pat_id = i, pat_order_id = ord_id o1, pat_provider = ''razorpay'',
      pat_provider_order_id = Some provider_order, pat_provider_payment_id = None,
      pat_status = ''attempted'', pat_amount = ord_total o1, pat_currency = ''INR'',
      pat_created_at = now, pat_updated_at = now\<rparr>"

definition create_payment_intent ::
  "settings \<Rightarrow> (order_request \<Rightarrow> string option provider_reply) \<Rightarrow> timestamp \<Rightarrow> user \<Rightarrow> uuid \<Rightarrow>
     (payment_intent, 'm) handler" where
  "create_payment_intent cfg post now u order_id d =
     (case get_order d order_id of
        None \<Rightarrow> raise_http 404 ''Order not found'' d
      | Some o1 \<Rightarrow>
          if ord_user_id o1 \<noteq> usr_id u then raise_http 404 ''Order not found'' d
          else if ord_payment_method o1 \<noteq> UPI
          then raise_http 409 ''This order is not configured for online payment'' d
          else if ord_payment_status o1 = PAID then raise_http 409 ''Order is already paid'' d
          else if ord_status o1 = CANCELLED then raise_http 409 ''Cancelled orders cannot be paid'' d
          else (case Option.bind (live_attempt d order_id)
                       (\<lambda>a. if text_or_none (pat_provider_order_id a) = None then None else Some a) of
              Some existing \<Rightarrow>
                (case text_or_none (cfg_razorpay_key_id cfg) of
                   None \<Rightarrow> raise_http 503 ''Payment provider is not configured'' d
                 | Some key_id \<Rightarrow>
                     let a = existing\<lparr>pat_status := ''attempted''\<rparr>
                     in (Inr (intent_of a key_id), flush_attempt now a d))
            | None \<Rightarrow>
                (case create_razorpay_order cfg post (paise (ord_total o1)) (ord_order_number o1) order_id of
                   Inl (PaymentProviderUnavailable m) \<Rightarrow> raise_http 503 m d
                 | Inl (PaymentProviderError m) \<Rightarrow> raise_http 502 m d
                 | Inl e \<Rightarrow> (Inl e, d)
                 | Inr provider_order \<Rightarrow>
                     let a = new_attempt now (db_next_id d) o1 provider_order;
                         d1 = d\<lparr>payment_attempts := payment_attempts d @ [a],
                                db_next_id := Suc (db_next_id d)\<rparr>
                     in (Inr (intent_of a (case cfg_razorpay_key_id cfg of None \<Rightarrow> [] | Some k \<Rightarrow> k)), d1))))"

section \<open>Applying a provider result\<close>

definition lock_payment_context ::
  "'m database_scheme \<Rightarrow> (payment_attempt \<Rightarrow> bool) \<Rightarrow> uuid option \<Rightarrow>
     payment_attempt option \<times> order option \<times> bool" where
  "lock_payment_context d identified user_id =
     (case find identified (payment_attempts d) of
        None \<Rightarrow> (None, None, False)
      | Some a \<Rightarrow>
          (case get_order d (pat_order_id a) of
             None \<Rightarrow> (None, None, True)
           | Some o1 \<Rightarrow>
               if (case user_id of None \<Rightarrow> False | Some uid \<Rightarrow> ord_user_id o1 \<noteq> uid)
               then (None, None, True)
               else (find (\<lambda>b. pat_id b = pat_id a \<and> pat_order_id b = ord_id o1) (payment_attempts d),
                     Some o1, True)))"

definition payment_closed :: "order \<Rightarrow> bool" where
  "payment_closed o1 \<longleftrightarrow> ord_payment_status o1 \<in> {REFUNDED, REFUND_PENDING}"

definition payment_id_taken :: "'m database_scheme \<Rightarrow> payment_attempt \<Rightarrow> string \<Rightarrow> bool" where
  "payment_id_taken d a pid \<longleftrightarrow>
     (\<exists>b \<in> set (payment_attempts d). pat_provider_payment_id b = Some pid \<and> pat_id b \<noteq> pat_id a)"

definition with_payment_id :: "'m database_scheme \<Rightarrow> payment_attempt \<Rightarrow> string option \<Rightarrow> payment_attempt res" where
  "with_payment_id d a provider_payment_id =
     (case text_or_none provider_payment_id of
         None \<Rightarrow> Inr a
       | Some pid \<Rightarrow>
           if payment_id_taken d a pid
           then Inl (HTTPException 409 ''Payment ID has already been used'')
           else Inr (a\<lparr>pat_provider_payment_id := Some pid\<rparr>))"

definition capture_attempt ::
  "timestamp \<Rightarrow> payment_attempt \<Rightarrow> order \<Rightarrow> 'm database_scheme \<Rightarrow> 'm database_scheme res" where
  "capture_attempt now a o1 d =
     (let d1 = flush_attempt now (a\<lparr>pat_status := ''paid''\<rparr>) d in
      if ord_status o1 = CANCELLED \<or> payment_closed o1 then
        (if ord_status o1 = CANCELLED \<and> \<not> payment_closed o1 then
           let (refund, o2, d2) = ensure_refund_request now (o1\<lparr>ord_payment_status := PAID\<rparr>)
                                    REFUND_REASON_ORPHANED_CAPTURE d1
           in Inr (flush_order now o2 d2)
         else Inr d1)
      else
        let o2 = o1\<lparr>ord_payment_status := PAID\<rparr> in
        res_bind (ensure_settlement_entry o2 (flush_order now o2 d1)) (\<lambda>(_, d2). Inr d2))"

definition apply_paid ::
  "timestamp \<Rightarrow> payment_attempt \<Rightarrow> order \<Rightarrow> string option \<Rightarrow> 'm database_scheme \<Rightarrow> 'm database_scheme res" where
  "apply_paid now a o1 provider_payment_id d =
     res_bind (with_payment_id d a provider_payment_id) (\<lambda>a1. capture_attempt now a1 o1 d)"

definition apply_failed ::
  "timestamp \<Rightarrow> payment_attempt \<Rightarrow> order \<Rightarrow> 'm database_scheme \<Rightarrow> 'm database_scheme" where
  "apply_failed now a o1 d =
     (if ord_status o1 = CANCELLED \<or> ord_payment_status o1 \<in> {PAID, REFUNDED, REFUND_PENDING} then d
      else flush_order now (o1\<lparr>ord_payment_status := PAYMENT_FAILED\<rparr>)
             (flush_attempt now (a\<lparr>pat_status := ''failed''\<rparr>) d))"

section \<open>Verification by the customer's app\<close>

record verify_response =
  vrs_order_id :: uuid
  vrs_payment_status :: string
  vrs_provider_payment_id :: string

definition verified_response :: "uuid \<Rightarrow> string \<Rightarrow> (verify_response, 'm) handler" where
  "verified_response oid pid d =
     (case get_order d oid of
        None \<Rightarrow> (Inl (RuntimeError ''Could not refresh instance''), d)
      | Some o1 \<Rightarrow> (Inr \<lparr>vrs_order_id = ord_id o1,
          vrs_payment_status = payment_status_value (ord_payment_status o1),
          vrs_provider_payment_id = pid\<rparr>, d))"

definition hardened_verify_payment ::
  "settings \<Rightarrow> (string \<Rightarrow> string \<Rightarrow> string) \<Rightarrow> timestamp \<Rightarrow> user \<Rightarrow> uuid \<Rightarrow> string \<Rightarrow> string \<Rightarrow>
     (verify_response, 'm) handler" where
  "hardened_verify_payment cfg hmac now u attempt_id payment_id signature d =
     (case lock_payment_context d (\<lambda>a. pat_id a = attempt_id) (Some (usr_id u)) of
        (_, _, False) \<Rightarrow> raise_http 404 ''Payment attempt not found'' d
      | (Some a, Some o1, True) \<Rightarrow>
          (case text_or_none (pat_provider_order_id a) of
             None \<Rightarrow> raise_http 409 ''Payment attempt has no provider order'' d
           | Some provider_order_id \<Rightarrow>
               if pat_status a = ''paid'' \<and> pat_provider_payment_id a = Some payment_id then
                 attempt (if ord_status o1 \<noteq> CANCELLED \<and> \<not> payment_closed o1
                          then ensure_settlement_entry o1 d else Inr (None, d)) d (\<lambda>(_, d1).
                 verified_response (ord_id o1) payment_id d1)
               else
                 attempt (unavailable_503 (verify_razorpay_signature cfg hmac provider_order_id
                            payment_id signature)) d (\<lambda>valid.
                 if \<not> valid
                 then raise_http 400 ''Invalid payment signature'' (apply_failed now a o1 d)
                 else
                   attempt (apply_paid now a o1 (Some payment_id) d) d (\<lambda>d1.
                   verified_response (ord_id o1) payment_id d1)))
      | _ \<Rightarrow> raise_http 404 ''Order not found'' d)"

section \<open>Webhooks\<close>

text \<open>The fields of the event the code reads; a field that is absent or null is \<open>None\<close>.\<close>

record webhook_payload =
  wpl_event :: "string option"
  wpl_payment_id :: "string option"
  wpl_payment_order_id :: "string option"
  wpl_order_id :: "string option"
  wpl_refund_id :: "string option"
  wpl_refund_payment_id :: "string option"
  wpl_refund_status :: "string option"

datatype parsed_body = Bad_Json | Json_Not_Object | Json_Object webhook_payload

definition refund_of_event :: "'m database_scheme \<Rightarrow> webhook_payload \<Rightarrow> payment_refund option" where
  "refund_of_event d p =
     (case (case text_or_none (wpl_refund_id p) of
              None \<Rightarrow> None
            | Some rid \<Rightarrow> find (\<lambda>r. rfd_provider_refund_id r = Some rid) (payment_refunds d)) of
        Some r \<Rightarrow> Some r
      | None \<Rightarrow>
          (case text_or_none (wpl_refund_payment_id p) of
             None \<Rightarrow> None
           | Some pid \<Rightarrow>
               latest_by rfd_requested_at
                 (filter (\<lambda>r. rfd_provider_payment_id r = Some pid) (payment_refunds d))))"

definition process_refund_event ::
  "timestamp \<Rightarrow> webhook_payload \<Rightarrow> 'm database_scheme \<Rightarrow> bool \<times> 'm database_scheme" where
  "process_refund_event now p d =
     (case refund_of_event d p of
        None \<Rightarrow> (False, d)
      | Some r \<Rightarrow>
          (True, apply_provider_refund_result now r
             \<lparr>rpl_id = wpl_refund_id p, rpl_status = wpl_refund_status p\<rparr> d))"

definition event_name :: "webhook_payload \<Rightarrow> string" where
  "event_name p = (case wpl_event p of None \<Rightarrow> [] | Some e \<Rightarrow> e)"

definition provider_order_of_event :: "webhook_payload \<Rightarrow> string option" where
  "provider_order_of_event p =
     (case text_or_none (wpl_payment_order_id p) of
        Some i \<Rightarrow> Some i
      | None \<Rightarrow> text_or_none (wpl_order_id p))"

definition process_event ::
  "timestamp \<Rightarrow> webhook_payload \<Rightarrow> 'm database_scheme \<Rightarrow> 'm database_scheme res" where
  "process_event now p d =
     (if take 7 (event_name p) = ''refund.'' then Inr (snd (process_refund_event now p d))
      else (case provider_order_of_event p of
          None \<Rightarrow> Inr d
        | Some provider_order_id \<Rightarrow>
            (case lock_payment_context d (\<lambda>a. pat_provider_order_id a = Some provider_order_id) None of
               (Some a, Some o1, _) \<Rightarrow>
                 if event_name p \<in> {''order.paid'', ''payment.captured''}
                 then apply_paid now a o1 (text_or_none (wpl_payment_id p)) d
                 else if event_name p = ''payment.failed'' then Inr (apply_failed now a o1 d)
                 else Inr d
             | _ \<Rightarrow> Inr d)))"

definition webhook_seen :: "'m database_scheme \<Rightarrow> string \<Rightarrow> bool" where
  "webhook_seen d key \<longleftrightarrow>
     (\<exists>e \<in> set (payment_webhook_events d). whk_provider e = ''razorpay'' \<and> whk_event_key e = key)"

text \<open>The signature and shape checks both webhook endpoints make.\<close>

definition webhook_body ::
  "settings \<Rightarrow> (string \<Rightarrow> string \<Rightarrow> string) \<Rightarrow> (string \<Rightarrow> parsed_body) \<Rightarrow> string \<Rightarrow> string \<Rightarrow>
     webhook_payload res" where
  "webhook_body cfg hmac parse raw_body signature =
     (if signature = [] then Inl (HTTPException 400 ''Missing Razorpay signature'')
      else
        res_bind (unavailable_503 (verify_razorpay_webhook_signature cfg hmac raw_body signature)) (\<lambda>valid.
        if \<not> valid then Inl (HTTPException 400 ''Invalid Razorpay webhook signature'')
        else (case parse raw_body of
            Json_Object p \<Rightarrow> Inr p
          | _ \<Rightarrow> Inl (HTTPException 400 ''Invalid Razorpay webhook payload''))))"

definition record_webhook ::
  "timestamp option \<Rightarrow> string \<Rightarrow> webhook_payload \<Rightarrow> uuid \<Rightarrow> 'm database_scheme \<Rightarrow> 'm database_scheme" where
  "record_webhook processed key p i d =
     d\<lparr>payment_webhook_events := payment_webhook_events d @
         [\<lparr>whk_id = i, whk_provider = ''razorpay'', whk_event_key = key,
           whk_event_type = (if event_name p = [] then ''unknown'' else event_name p),
           whk_processed_at = processed\<rparr>],
       db_next_id := Suc i\<rparr>"

definition mark_processed :: "timestamp \<Rightarrow> uuid \<Rightarrow> 'm database_scheme \<Rightarrow> 'm database_scheme" where
  "mark_processed now i d =
     d\<lparr>payment_webhook_events := map (\<lambda>e. if whk_id e = i then e\<lparr>whk_processed_at := Some now\<rparr> else e)
         (payment_webhook_events d)\<rparr>"

definition hardened_razorpay_webhook ::
  "settings \<Rightarrow> (string \<Rightarrow> string \<Rightarrow> string) \<Rightarrow> (string \<Rightarrow> string) \<Rightarrow> (string \<Rightarrow> parsed_body) \<Rightarrow> timestamp \<Rightarrow>
     string \<Rightarrow> string \<Rightarrow> string option \<Rightarrow> (bool, 'm) handler" where
  "hardened_razorpay_webhook cfg hmac sha256 parse now raw_body signature event_id d =
     attempt (webhook_body cfg hmac parse raw_body signature) d (\<lambda>p.
     let key = (case text_or_none event_id of None \<Rightarrow> sha256 raw_body | Some k \<Rightarrow> k) in
     if webhook_seen d key then (Inr True, d)
     else
       attempt (process_event now p (record_webhook None key p (db_next_id d) d)) d (\<lambda>d1.
       (Inr True, mark_processed now (db_next_id d) d1)))"

section \<open>The settlement listing\<close>

definition list_settlements :: "nat \<Rightarrow> nat \<Rightarrow> user \<Rightarrow> (settlement_entry list, 'm) handler" where
  "list_settlements limit offset u d =
     attempt (require_roles [MERCHANT, ADMIN] u) d (\<lambda>_.
     attempt (if usr_role u = ADMIN then ensure_capability u SETTLEMENT_READ else Inr u) d (\<lambda>_.
     if usr_role u = MERCHANT then
       (case merchant_of_owner d (usr_id u) of
          None \<Rightarrow> (Inr [], d)
        | Some m \<Rightarrow> (Inr (take limit (drop offset
            (filter (\<lambda>e. set_merchant_id e = mer_id m) (rev (settlement_entries d))))), d))
     else (Inr (take limit (drop offset (rev (settlement_entries d)))), d)))"

section \<open>The shadowed routes\<close>

definition verify_payment ::
  "settings \<Rightarrow> (string \<Rightarrow> string \<Rightarrow> string) \<Rightarrow> timestamp \<Rightarrow> user \<Rightarrow> uuid \<Rightarrow> string \<Rightarrow> string \<Rightarrow>
     (verify_response, 'm) handler" where
  "verify_payment cfg hmac now u attempt_id payment_id signature d =
     (case get_attempt d attempt_id of
        None \<Rightarrow> raise_http 404 ''Payment attempt not found'' d
      | Some a \<Rightarrow>
          (case get_order d (pat_order_id a) of
             None \<Rightarrow> raise_http 404 ''Order not found'' d
           | Some o1 \<Rightarrow>
               if ord_user_id o1 \<noteq> usr_id u then raise_http 404 ''Order not found'' d
               else (case text_or_none (pat_provider_order_id a) of
                   None \<Rightarrow> raise_http 409 ''Payment attempt has no provider order'' d
                 | Some provider_order_id \<Rightarrow>
                     if pat_status a = ''paid'' \<and> pat_provider_payment_id a = Some payment_id
                     then verified_response (ord_id o1) payment_id d
                     else
                       attempt (unavailable_503 (verify_razorpay_signature cfg hmac provider_order_id
                                  payment_id signature)) d (\<lambda>valid.
                       if \<not> valid
                       then raise_http 400 ''Invalid payment signature''
                              (flush_order now (o1\<lparr>ord_payment_status := PAYMENT_FAILED\<rparr>)
                                (flush_attempt now (a\<lparr>pat_status := ''failed''\<rparr>) d))
                       else if payment_id_taken d a payment_id
                       then raise_http 409 ''Payment ID has already been used'' d
                       else verified_response (ord_id o1) payment_id
                              (flush_order now (o1\<lparr>ord_payment_status := PAID\<rparr>)
                                (flush_attempt now (a\<lparr>pat_provider_payment_id := Some payment_id,
                                                      pat_status := ''paid''\<rparr>) d))))))"

definition process_razorpay_event :: "timestamp \<Rightarrow> webhook_payload \<Rightarrow> 'm database_scheme \<Rightarrow> 'm database_scheme" where
  "process_razorpay_event now p d =
     (case provider_order_of_event p of
        None \<Rightarrow> d
      | Some provider_order_id \<Rightarrow>
          (case find (\<lambda>a. pat_provider_order_id a = Some provider_order_id) (payment_attempts d) of
             None \<Rightarrow> d
           | Some a \<Rightarrow>
               (case get_order d (pat_order_id a) of
                  None \<Rightarrow> d
                | Some o1 \<Rightarrow>
                    if event_name p \<in> {''order.paid'', ''payment.captured''} then
                      (case text_or_none (wpl_payment_id p) of
                         None \<Rightarrow> flush_order now (o1\<lparr>ord_payment_status := PAID\<rparr>)
                                   (flush_attempt now (a\<lparr>pat_status := ''paid''\<rparr>) d)
                       | Some pid \<Rightarrow>
                           if payment_id_taken d a pid then d
                           else flush_order now (o1\<lparr>ord_payment_status := PAID\<rparr>)
                                  (flush_attempt now (a\<lparr>pat_provider_payment_id := Some pid,
                                                        pat_status := ''paid''\<rparr>) d))
                    else if event_name p = ''payment.failed'' then
                      (if ord_payment_status o1 \<noteq> PAID
                       then flush_order now (o1\<lparr>ord_payment_status := PAYMENT_FAILED\<rparr>)
                              (flush_attempt now (a\<lparr>pat_status := ''failed''\<rparr>) d)
                       else d)
                    else d)))"

text \<open>The response does not wait for the background task, which runs after it.\<close>

definition razorpay_webhook ::
  "settings \<Rightarrow> (string \<Rightarrow> string \<Rightarrow> string) \<Rightarrow> (string \<Rightarrow> parsed_body) \<Rightarrow> timestamp \<Rightarrow>
     string \<Rightarrow> string \<Rightarrow> (bool, 'm) handler" where
  "razorpay_webhook cfg hmac parse now raw_body signature d =
     attempt (webhook_body cfg hmac parse raw_body signature) d (\<lambda>p.
     (Inr True, process_razorpay_event now p d))"

section \<open>The live routes follow the machine\<close>

lemma flush_attempt_frame [simp]:
  "orders (flush_attempt now a d) = orders d" "deliveries (flush_attempt now a d) = deliveries d"
  "payment_refunds (flush_attempt now a d) = payment_refunds d"
  "refund_idents (flush_attempt now a d) = refund_idents d"
  "db_next_id (flush_attempt now a d) = db_next_id d"
  "settlement_entries (flush_attempt now a d) = settlement_entries d"
  "payment_webhook_events (flush_attempt now a d) = payment_webhook_events d"
  by (simp_all add: flush_attempt_def refund_idents_def)

lemma step_ok_flush_attempt [simp]: "step_ok d (flush_attempt now a d)"
  by (rule step_ok_frame) simp_all

lemma get_order_flush_attempt [simp]: "get_order (flush_attempt now a d) i = get_order d i"
  by (simp add: get_order_def)

text \<open>An order whose payment status alone moved.\<close>

lemma step_ok_payment:
  assumes o1: "get_order d oid = Some o1" and new: "new = o1\<lparr>ord_payment_status := p\<rparr>"
    and step: "\<And>v. ful_status v = ord_status o1 \<Longrightarrow> ful_payment v = ord_payment_status o1 \<Longrightarrow>
        core_step v (v\<lparr>ful_payment := p\<rparr>)"
  shows "step_ok d (flush_order now new d)"
proof (rule step_ok_commit [where new = new and moved = None, OF o1])
  show "ord_id new = oid" using o1 by (auto simp: new)
  have "has_refund (flush_order now new d) oid = has_refund d oid" by (simp add: has_refund_idents)
  moreover have "core_step (view_of o1 x r) (view_of new x r)" for x r
    using step [of "view_of o1 x r"] by (simp add: new view_of_def)
  ultimately show "core_step\<^sup>*\<^sup>* (view_of o1 (delivery_of_order d oid) (has_refund d oid))
      (view_of new (case None of None \<Rightarrow> delivery_of_order d oid | Some y \<Rightarrow> Some y)
        (has_refund (flush_order now new d) oid))"
    by (simp add: r_into_rtranclp)
qed simp_all

lemma with_payment_id_id: "with_payment_id d a pid = Inr a1 \<Longrightarrow> pat_id a1 = pat_id a"
  by (auto simp: with_payment_id_def split: option.splits if_splits)

lemma capture_attempt_cases:
  assumes c: "capture_attempt now a o1 d = Inr d'"
  obtains (orphaned) r o2 d2 where "ord_status o1 = CANCELLED" "\<not> payment_closed o1"
      "ensure_refund_request now (o1\<lparr>ord_payment_status := PAID\<rparr>) REFUND_REASON_ORPHANED_CAPTURE
         (flush_attempt now (a\<lparr>pat_status := ''paid''\<rparr>) d) = (r, o2, d2)"
      "d' = flush_order now o2 d2"
    | (closed) "payment_closed o1" "d' = flush_attempt now (a\<lparr>pat_status := ''paid''\<rparr>) d"
    | (captured) e where "ord_status o1 \<noteq> CANCELLED" "\<not> payment_closed o1"
      "ensure_settlement_entry (o1\<lparr>ord_payment_status := PAID\<rparr>)
         (flush_order now (o1\<lparr>ord_payment_status := PAID\<rparr>)
           (flush_attempt now (a\<lparr>pat_status := ''paid''\<rparr>) d)) = Inr (e, d')"
proof -
  let ?d1 = "flush_attempt now (a\<lparr>pat_status := ''paid''\<rparr>) d"
  obtain r o2 d2 where e: "ensure_refund_request now (o1\<lparr>ord_payment_status := PAID\<rparr>)
      REFUND_REASON_ORPHANED_CAPTURE ?d1 = (r, o2, d2)"
    by (rule prod_cases3)
  consider (1) "payment_closed o1" | (2) "\<not> payment_closed o1" "ord_status o1 = CANCELLED"
    | (3) "\<not> payment_closed o1" "ord_status o1 \<noteq> CANCELLED" by blast
  then show ?thesis
  proof cases
    case 1
    with c have "d' = ?d1" by (simp add: capture_attempt_def Let_def)
    with 1 show ?thesis by (rule closed)
  next
    case 2
    with c e have "d' = flush_order now o2 d2" by (simp add: capture_attempt_def Let_def)
    with 2 e show ?thesis by (intro orphaned)
  next
    case 3
    with c obtain p where "ensure_settlement_entry (o1\<lparr>ord_payment_status := PAID\<rparr>)
         (flush_order now (o1\<lparr>ord_payment_status := PAID\<rparr>) ?d1) = Inr p" "snd p = d'"
      by (auto simp: capture_attempt_def Let_def res_bind_Inr)
    with 3 show ?thesis by (cases p) (auto intro: captured)
  qed
qed

lemma step_ok_orphaned:
  assumes o1: "get_order d oid = Some o1" and "ord_status o1 = CANCELLED" "\<not> payment_closed o1"
    and e: "ensure_refund_request now (o1\<lparr>ord_payment_status := PAID\<rparr>) reason d = (r, o2, d2)"
  shows "step_ok d (flush_order now2 o2 d2)"
proof -
  have id1: "ord_id o1 = oid" using o1 by auto
  have "ord_id o2 = ord_id (o1\<lparr>ord_payment_status := PAID\<rparr>)" using ensure_refund_frame(14) [OF e] by auto
  then have ids: "ord_id o2 = oid" using id1 by simp
  show ?thesis
  proof (rule step_ok_commit [where new = o2 and moved = None, OF o1 ids])
    assume wf: "tables_wf d"
    then have "refunds_wf d" by (simp add: tables_wf_def)
    note V = ensure_refund_request_view [OF e this]
    have same: "has_refund (flush_order now2 o2 d2) oid = has_refund d2 oid" by (simp add: has_refund_idents)
    let ?v = "view_of o1 (delivery_of_order d oid) (has_refund d oid)"
    have "core_step ?v (owed (?v\<lparr>ful_payment := PAID\<rparr>))"
      using assms(2,3) by (intro orphaned) (auto simp: payment_closed_def)
    moreover have "view_of o2 (delivery_of_order d oid) (has_refund d2 oid) = owed (?v\<lparr>ful_payment := PAID\<rparr>)"
      using V(1) [of "delivery_of_order d oid"] id1 by (simp add: view_of_def)
    ultimately show "core_step\<^sup>*\<^sup>* ?v
        (view_of o2 (case None of None \<Rightarrow> delivery_of_order d oid | Some y \<Rightarrow> Some y)
          (has_refund (flush_order now2 o2 d2) oid))"
      by (simp add: same r_into_rtranclp)
    show "refund_idents (flush_order now2 o2 d2) = refund_idents d \<or>
        (\<exists>i. refund_idents (flush_order now2 o2 d2) = refund_idents d @ [(i, oid, refund_idempotency_key oid)]
          \<and> db_next_id d \<le> i \<and> i < db_next_id (flush_order now2 o2 d2) \<and> \<not> owes (refund_idents d) oid)"
      using V(2) id1 by (auto intro: order.strict_trans2 [OF _ next_id_flush_order])
  next
    have "db_next_id d \<le> db_next_id d2" using ensure_refund_requestD [OF e] by auto
    then show "db_next_id d \<le> db_next_id (flush_order now2 o2 d2)"
      by (rule order_trans [OF _ next_id_flush_order])
  qed (use ensure_refund_frame [OF e] ids in simp_all)
qed

lemma step_ok_capture:
  assumes o1: "get_order d oid = Some o1" and c: "capture_attempt now a o1 d = Inr d'"
  shows "step_ok d d'"
  using c
proof (cases rule: capture_attempt_cases)
  case (orphaned r o2 d2)
  have "get_order (flush_attempt now (a\<lparr>pat_status := ''paid''\<rparr>) d) oid = Some o1" using o1 by simp
  from step_ok_orphaned [OF this orphaned(1,2,3)] show ?thesis
    unfolding orphaned(4) by (rule step_ok_trans [OF step_ok_flush_attempt])
next
  case closed
  then show ?thesis by simp
next
  case (captured e)
  let ?d1 = "flush_attempt now (a\<lparr>pat_status := ''paid''\<rparr>) d"
  have "step_ok ?d1 (flush_order now (o1\<lparr>ord_payment_status := PAID\<rparr>) ?d1)"
    using o1 captured by (intro step_ok_payment [OF _ refl] core_step.captured) (auto simp: payment_closed_def)
  then show ?thesis
    using step_ok_flush_attempt ensure_settlement_step_ok [OF captured(3)] by (blast intro: step_ok_trans)
qed

lemma step_ok_apply_paid:
  "get_order d oid = Some o1 \<Longrightarrow> apply_paid now a o1 pid d = Inr d' \<Longrightarrow> step_ok d d'"
  by (auto simp: apply_paid_def res_bind_Inr intro: step_ok_capture)

lemma step_ok_apply_failed:
  assumes "get_order d oid = Some o1" shows "step_ok d (apply_failed now a o1 d)"
proof (cases "ord_status o1 = CANCELLED \<or> ord_payment_status o1 \<in> {PAID, REFUNDED, REFUND_PENDING}")
  case True
  then show ?thesis by (auto simp: apply_failed_def)
next
  case False
  let ?d1 = "flush_attempt now (a\<lparr>pat_status := ''failed''\<rparr>) d"
  have "step_ok ?d1 (flush_order now (o1\<lparr>ord_payment_status := PAYMENT_FAILED\<rparr>) ?d1)"
    using assms False by (intro step_ok_payment [OF _ refl] core_step.unpaid) auto
  with False show ?thesis by (auto simp: apply_failed_def intro: step_ok_trans [OF step_ok_flush_attempt])
qed

lemma lock_payment_contextD:
  "lock_payment_context d P uid = (a, Some o1, b) \<Longrightarrow> get_order d (ord_id o1) = Some o1"
  by (auto simp: lock_payment_context_def get_order_id split: option.splits if_splits)

lemma step_ok_intent: "step_ok d (snd (create_payment_intent cfg post now u oid d))"
proof -
  have "step_ok d (d\<lparr>payment_attempts := as, db_next_id := Suc (db_next_id d)\<rparr>)" for as
    by (rule step_ok_frame) (simp_all add: refund_idents_def)
  then show ?thesis
    by (auto simp: create_payment_intent_def Let_def split: option.split sum.split exn.split)
qed

lemma snd_verified_response [simp]: "snd (verified_response oid pid d) = d"
  by (simp add: verified_response_def split: option.split)

lemma step_ok_verify_payment:
  "step_ok d (snd (hardened_verify_payment cfg hmac now u aid pid sig d))"
  by (auto simp: hardened_verify_payment_def attempt_def split: option.split prod.split bool.split sum.split
      dest!: lock_payment_contextD intro: step_ok_apply_paid step_ok_apply_failed ensure_settlement_step_ok)

lemma refund_of_event_in: "refund_of_event d p = Some r \<Longrightarrow> r \<in> set (payment_refunds d)"
  by (auto simp: refund_of_event_def find_Some_iff split: option.splits dest!: latest_by_in)

lemma step_ok_refund_event: "step_ok d (snd (process_refund_event now p d))"
proof (cases "refund_of_event d p")
  case None
  then show ?thesis by (simp add: process_refund_event_def)
next
  case (Some r)
  have "step_ok d (apply_provider_refund_result now r pl d)" if "tables_wf d" for pl
  proof (rule step_ok_apply_provider)
    show "get_refund d (rfd_id r) = Some r"
      using that refund_of_event_in [OF Some]
      by (auto simp: get_refund_def get_row_Some_iff tables_wf_def refunds_wf_def)
  qed
  with Some show ?thesis by (auto simp: process_refund_event_def step_ok_def)
qed

lemma step_ok_process_event: "process_event now p d = Inr d' \<Longrightarrow> step_ok d d'"
  by (auto simp: process_event_def simp del: event_name_def intro: step_ok_refund_event step_ok_apply_paid
      step_ok_apply_failed dest: lock_payment_contextD split: if_splits option.splits prod.splits)

lemma step_ok_record_webhook: "step_ok d (record_webhook done key p (db_next_id d) d)"
  by (rule step_ok_frame) (simp_all add: record_webhook_def refund_idents_def)

lemma step_ok_mark_processed: "step_ok d (mark_processed now i d)"
  by (rule step_ok_frame) (simp_all add: mark_processed_def refund_idents_def)

lemma step_ok_webhook:
  "step_ok d (snd (hardened_razorpay_webhook cfg hmac sha256 parse now raw sig eid d))"
  by (auto simp: hardened_razorpay_webhook_def attempt_def Let_def split: sum.split
      intro: step_ok_trans [OF step_ok_trans [OF step_ok_record_webhook step_ok_process_event]
        step_ok_mark_processed])

section \<open>A delivery of an event is applied once\<close>

lemma webhook_seen_no_effect:
  assumes "webhook_body cfg hmac parse raw sig = Inr p"
    and "webhook_seen d (case text_or_none eid of None \<Rightarrow> sha256 raw | Some k \<Rightarrow> k)"
  shows "hardened_razorpay_webhook cfg hmac sha256 parse now raw sig eid d = (Inr True, d)"
  using assms by (simp add: hardened_razorpay_webhook_def)

lemma webhook_seen_keys:
  "webhook_seen d key \<longleftrightarrow>
     (''razorpay'', key) \<in> set (map (\<lambda>e. (whk_provider e, whk_event_key e)) (payment_webhook_events d))"
  by (force simp: webhook_seen_def)

lemma webhook_seen_mark [simp]: "webhook_seen (mark_processed now i d) key = webhook_seen d key"
proof -
  have "map (\<lambda>e. (whk_provider e, whk_event_key e)) (payment_webhook_events (mark_processed now i d)) =
      map (\<lambda>e. (whk_provider e, whk_event_key e)) (payment_webhook_events d)"
    by (simp add: mark_processed_def)
  then show ?thesis unfolding webhook_seen_keys by (rule arg_cong)
qed

lemma webhook_seen_record [simp]: "webhook_seen (record_webhook t key p i d) key"
  by (simp add: webhook_seen_def record_webhook_def)

lemma webhooks_flush [simp]:
  "payment_webhook_events (flush_order now o1 d) = payment_webhook_events d"
  "payment_webhook_events (flush_refund r d) = payment_webhook_events d"
  by (auto simp: flush_order_def flush_refund_def gaonone_audit_order_status_def record_transition_def
      split: option.split)

lemma webhooks_void [simp]:
  "payment_webhook_events (void_settlement_for_refund now o1 r d) = payment_webhook_events d"
  by (auto simp: void_settlement_for_refund_def Let_def split: option.split)

lemma webhooks_settlement:
  "ensure_settlement_entry o1 d = Inr (e, d') \<Longrightarrow> payment_webhook_events d' = payment_webhook_events d"
  by (auto simp: ensure_settlement_entry_def Let_def split: option.splits if_splits)

lemma webhooks_refund:
  "ensure_refund_request now o1 reason d = (r, o2, d') \<Longrightarrow>
     payment_webhook_events d' = payment_webhook_events d"
  by (auto dest: ensure_refund_requestD)

lemma webhooks_process:
  assumes "process_event now p d = Inr d'"
  shows "payment_webhook_events d' = payment_webhook_events d"
proof -
  have provider: "payment_webhook_events (apply_provider_refund_result now r pl d) = payment_webhook_events d" for r pl
    by (simp add: apply_provider_refund_result_def mark_succeeded_def settle_refunded_order_def Let_def
        split: option.split)
  have capture: "payment_webhook_events d' = payment_webhook_events d"
    if "capture_attempt now a o1 d = Inr d'" for a o1
    using that by (cases rule: capture_attempt_cases) (auto dest: webhooks_settlement webhooks_refund)
  have failed: "payment_webhook_events (apply_failed now a o1 d) = payment_webhook_events d" for a o1
    by (simp add: apply_failed_def)
  show ?thesis
    using assms capture provider failed
    by (auto simp: process_event_def process_refund_event_def apply_paid_def res_bind_Inr
        split: if_splits option.splits prod.splits)
qed

text \<open>Once a delivery of the event succeeded, every later delivery under its key is answered
  without touching the database.\<close>

lemma webhook_applied_once:
  assumes first: "hardened_razorpay_webhook cfg hmac sha256 parse now raw sig eid d = (Inr r, d1)"
    and again: "webhook_body cfg hmac parse raw2 sig2 = Inr p2"
      "(case text_or_none eid2 of None \<Rightarrow> sha256 raw2 | Some k \<Rightarrow> k) =
       (case text_or_none eid of None \<Rightarrow> sha256 raw | Some k \<Rightarrow> k)"
  shows "hardened_razorpay_webhook cfg hmac sha256 parse now2 raw2 sig2 eid2 d1 = (Inr True, d1)"
proof (rule webhook_seen_no_effect [OF again(1)])
  let ?key = "case text_or_none eid of None \<Rightarrow> sha256 raw | Some k \<Rightarrow> k"
  obtain p where p: "webhook_body cfg hmac parse raw sig = Inr p"
    using first by (auto simp: hardened_razorpay_webhook_def attempt_def split: sum.splits)
  have "webhook_seen d1 ?key"
  proof (cases "webhook_seen d ?key")
    case True
    then show ?thesis using first p by (simp add: hardened_razorpay_webhook_def)
  next
    case False
    then obtain d0 where "process_event now p (record_webhook None ?key p (db_next_id d) d) = Inr d0"
        "d1 = mark_processed now (db_next_id d) d0"
      using first p by (auto simp: hardened_razorpay_webhook_def attempt_def Let_def split: sum.splits)
    then have "payment_webhook_events d0 =
        payment_webhook_events (record_webhook None ?key p (db_next_id d) d)"
      by (blast dest: webhooks_process)
    then have "webhook_seen d0 ?key = webhook_seen (record_webhook None ?key p (db_next_id d) d) ?key"
      by (simp add: webhook_seen_def)
    with \<open>d1 = _\<close> show ?thesis by simp
  qed
  then show "webhook_seen d1 (case text_or_none eid2 of None \<Rightarrow> sha256 raw2 | Some k \<Rightarrow> k)"
    unfolding again(2) .
qed

end
