(* ===== verification/Frames.thy ===== *)
theory Frames
  imports Checkout Dispatch Payments
begin

text \<open>
  What a request leaves alone. A \<open>part\<close> of the database (one of its tables, say) is
  \<open>untouched\<close> when none of the row writes the handlers share changes it; the locales below
  lift that to the handlers, once for every part:
  \<^item> \<open>untouched\<close>: the writes of orders, refunds, attempts, notifications and audit rows, hence
    refund dispatch, payments and webhooks;
  \<^item> \<open>untouched_by_restock\<close>: also stock restoration, hence cancellation and returns;
  \<^item> \<open>untouched_by_riders\<close>: also delivery rows, hence claiming, failing and completing.
\<close>

section \<open>The shared writes\<close>

lemma settlement_update:
  "ensure_settlement_entry o1 d = Inr (e, d') \<Longrightarrow>
     \<exists>ss n. d' = d\<lparr>settlement_entries := ss, db_next_id := n\<rparr>"
  by (intro exI [of _ "settlement_entries d'"] exI [of _ "db_next_id d'"])
    (auto simp: ensure_settlement_entry_def Let_def split: option.splits if_splits)

lemma carts_of_writes [simp]:
  "cart_items (flush_refund rf d) = cart_items d"
  "cart_items (void_settlement_for_refund now o1 why d) = cart_items d"
  "carts (flush_refund rf d) = carts d"
  "carts (void_settlement_for_refund now o1 why d) = carts d"
  by (simp_all add: flush_refund_def void_settlement_for_refund_def Let_def split: option.split)

lemma shelves_flush_attempt [simp]:
  "store_products (flush_attempt now a d) = store_products d"
  "order_items (flush_attempt now a d) = order_items d"
  "cart_items (flush_attempt now a d) = cart_items d"
  "delivery_proofs (flush_attempt now a d) = delivery_proofs d"
  by (simp_all add: flush_attempt_def)

locale untouched =
  fixes part :: "'m database_scheme \<Rightarrow> 'p"
  assumes part_order: "part (flush_order now o1 d) = part d"
    and part_refund: "part (flush_refund rf d) = part d"
    and part_attempt: "part (flush_attempt now a d) = part d"
    and part_same_core: "same_core d d' \<Longrightarrow> part d' = part d"
    and part_annotate_order: "part (annotate_order_transition o1 s ac re m d) = part d"
    and part_annotate_delivery: "part (annotate_delivery_transition x s ac re m d) = part d"
    and part_void: "part (void_settlement_for_refund now o1 why d) = part d"
    and part_settlement: "ensure_settlement_entry o1 d = Inr (e, d') \<Longrightarrow> part d' = part d"
    and part_obligation: "ensure_refund_request now o1 why d = (r, o2, d') \<Longrightarrow> part d' = part d"
    and part_webhook: "part (d\<lparr>payment_webhook_events := ws, db_next_id := n\<rparr>) = part d"
    and part_mark: "part (d\<lparr>payment_webhook_events := ws\<rparr>) = part d"
    and part_new_attempt: "part (d\<lparr>payment_attempts := as, db_next_id := n\<rparr>) = part d"
    and part_presence: "part (d\<lparr>rider_presences := ps\<rparr>) = part d"
begin

lemmas part_writes [simp] =
  part_order part_refund part_attempt part_annotate_order part_annotate_delivery part_void
  part_webhook part_mark part_new_attempt part_presence

lemma part_notices [simp]:
  "part (enqueue_notification now i e t b dt d) = part d"
  "part (notify_customer now o1 e t b d) = part d"
  "part (notify_merchant now o1 e t b d) = part d"
  "part (progress_notice now s o1 d) = part d"
  "part (notify_assigned_customer now u x o1 d) = part d"
  "part (notify_assigned_rider now u x o1 d) = part d"
  by (simp_all add: part_same_core notify_assigned_customer_def notify_assigned_rider_def)

lemma part_admin: "record_admin_action a b c e f g h i j d = Inr d' \<Longrightarrow> part d' = part d"
  by (drule same_core_admin) (rule part_same_core)

lemma part_obligation_snd [simp]: "part (snd (snd (ensure_refund_request now o1 why d))) = part d"
  by (cases "ensure_refund_request now o1 why d") (auto dest: part_obligation)

lemma part_mark_succeeded [simp]: "part (mark_succeeded now r ps d) = part d"
  by (simp add: mark_succeeded_def settle_refunded_order_def Let_def split: option.split)

lemma part_provider_result [simp]: "part (apply_provider_refund_result now r p d) = part d"
  by (simp add: apply_provider_refund_result_def Let_def)

lemma part_dispatch_claim: "dispatch_claim cfg now rid d = (c, d') \<Longrightarrow> part d' = part d"
  by (auto elim!: dispatch_claim_cases)

lemma part_dispatch_finish [simp]: "part (snd (dispatch_finish now rid reply d)) = part d"
  by (simp add: dispatch_finish_def Let_def split: sum.split option.split)

lemma part_dispatch_refund [simp]: "part (snd (dispatch_refund cfg post now rid d)) = part d"
  by (cases "dispatch_claim cfg now rid d")
    (auto simp: dispatch_refund_def dest: part_dispatch_claim split: dispatch_claim_result.split)

lemma part_dispatch_all: "part (snd (dispatch_all cfg post now is acc)) = part (snd acc)"
  by (induction cfg post now "is" acc rule: dispatch_all.induct) simp_all

lemma part_dispatch_due [simp]: "part (snd (dispatch_due_refunds cfg post now limit oid d)) = part d"
  by (simp add: dispatch_due_refunds_def part_dispatch_all)

lemma part_try_dispatch [simp]: "part (try_dispatch_order_refund cfg post now oid d) = part d"
  by (simp add: try_dispatch_order_refund_def)

lemma part_retry_refund [simp]: "part (snd (admin_retry_refund cfg post now req_id u rid d)) = part d"
  by (auto simp: admin_retry_refund_def attempt_def Let_def split: sum.split option.split
      dest!: part_admin)

lemma part_capture: "capture_attempt now a o1 d = Inr d' \<Longrightarrow> part d' = part d"
  by (erule capture_attempt_cases) (auto dest: part_settlement part_obligation)

lemma part_apply_paid: "apply_paid now a o1 pid d = Inr d' \<Longrightarrow> part d' = part d"
  by (auto simp: apply_paid_def res_bind_Inr dest: part_capture)

lemma part_apply_failed [simp]: "part (apply_failed now a o1 d) = part d"
  by (simp add: apply_failed_def)

lemma part_process: "process_event now p d = Inr d' \<Longrightarrow> part d' = part d"
  by (auto simp: process_event_def process_refund_event_def split: if_splits option.splits prod.splits
      dest: part_apply_paid)

lemma part_razorpay_webhook [simp]:
  "part (snd (hardened_razorpay_webhook cfg hmac sha256 parse now raw sig eid d)) = part d"
  by (auto simp: hardened_razorpay_webhook_def attempt_def Let_def mark_processed_def record_webhook_def
      split: sum.split dest: part_process)

lemma part_intent [simp]: "part (snd (create_payment_intent cfg post now u oid d)) = part d"
  by (simp add: create_payment_intent_def Let_def split: option.split sum.split exn.split)

lemma part_verify_payment [simp]: "part (snd (hardened_verify_payment cfg hmac now u aid pid sig d)) = part d"
  by (auto simp: hardened_verify_payment_def attempt_def
      split: option.split prod.split bool.split sum.split dest: part_apply_paid part_settlement)

lemma part_rider_presence [simp]: "part (snd (update_rider_presence now rider lat lon online d)) = part d"
  by (simp add: update_rider_presence_def attempt_def Let_def split: sum.split option.split)

end

section \<open>Restocking\<close>

locale untouched_by_restock = untouched part for part :: "'m database_scheme \<Rightarrow> 'p" +
  assumes part_restore: "restore_order_stock_once now o1 d = Inr (b, o2, d') \<Longrightarrow> part d' = part d"
begin

lemma part_customer_cancellation:
  "customer_cancellation now u o1 d = Inr (r, d') \<Longrightarrow> part d' = part d"
  by (auto simp: customer_cancellation_def res_bind_Inr Let_def case_prod_beta dest!: part_restore)

lemma part_store_cancellation:
  "store_cancellation now u o1 d = Inr (r, o2, d') \<Longrightarrow> part d' = part d"
  by (auto simp: store_cancellation_def res_bind_Inr Let_def case_prod_beta dest!: part_restore)

lemma part_merchant_update:
  "merchant_status_update now req_id u s o1 d = Inr (r, d') \<Longrightarrow> part d' = part d"
  by (auto simp: merchant_status_update_def res_bind_Inr Let_def split: if_splits
      dest!: part_store_cancellation part_admin)

lemma part_cancel [simp]: "part (snd (cancel_my_order_safely cfg post now u i d)) = part d"
  by (auto simp: cancel_my_order_safely_def attempt_def split: option.split sum.split
      dest: part_customer_cancellation)

lemma part_update_order [simp]:
  "part (snd (update_order_status_safely cfg post now req_id u i s d)) = part d"
  by (auto simp: update_order_status_safely_def attempt_def split: option.split sum.split
      dest: part_merchant_update)

lemma part_return_tx:
  "return_to_store_tx now req_id admin notes x o1 d = Inr (r, d') \<Longrightarrow> part d' = part d"
  by (auto simp: return_to_store_tx_def res_bind_Inr Let_def case_prod_beta split: option.splits
      dest!: part_restore part_admin)

end

section \<open>Delivery rows\<close>

locale untouched_by_riders = untouched part for part :: "'m database_scheme \<Rightarrow> 'p" +
  assumes part_delivery: "part (flush_delivery now x d) = part d"
begin

lemma part_claim [simp]: "part (snd (claim_delivery now u did d)) = part d"
  by (auto simp: claim_delivery_def claim_delivery_tx_def res_bind_Inr part_delivery attempt_def
      split: option.split sum.split)

lemma part_update_tx: "update_delivery_status_tx now req_id u target x o1 d = Inr d' \<Longrightarrow> part d' = part d"
  by (auto simp: update_delivery_status_tx_def delivery_update_effects_def res_bind_Inr Let_def part_delivery
      split: if_splits dest!: part_admin)

lemma part_update_delivery [simp]:
  "part (snd (update_delivery_status now req_id u did target d)) = part d"
  by (auto simp: update_delivery_status_def attempt_def split: option.split sum.split dest: part_update_tx)

lemma part_fail_tx: "fail_delivery_tx now req_id u why notes url x o1 d = Inr d' \<Longrightarrow> part d' = part d"
  by (auto simp: fail_delivery_tx_def res_bind_Inr Let_def part_delivery split: if_splits dest!: part_admin)

lemma part_fail [simp]: "part (snd (fail_delivery now req_id u did why notes url d)) = part d"
  by (auto simp: fail_delivery_def attempt_def split: sum.split dest: part_fail_tx)

lemma part_reassignment:
  "reassignment_tx now req_id admin why action reason md x o1 d = Inr d' \<Longrightarrow> part d' = part d"
  by (auto simp: reassignment_tx_def res_bind_Inr Let_def part_delivery dest!: part_admin)

lemma part_recover [simp]: "part (snd (recover_failed_delivery now req_id admin did d)) = part d"
  by (auto simp: recover_failed_delivery_def attempt_def split: sum.split dest: part_reassignment)

lemma part_completion: "completion_tx settles now req_id u x o1 d = Inr d' \<Longrightarrow> part d' = part d"
  by (erule completion_txD) (auto simp: part_delivery split: if_splits dest!: part_same_core part_settlement)

lemma part_complete [simp]: "part (snd (complete_delivery_with_financials now req_id u did d)) = part d"
  by (auto simp: complete_delivery_with_financials_def attempt_def split: sum.split dest: part_completion)

lemma part_auto_assign_tx: "auto_assign_tx now req_id admin rider x o1 d = Inr d' \<Longrightarrow> part d' = part d"
  by (auto simp: auto_assign_tx_def res_bind_Inr part_delivery dest!: part_admin)

lemma part_auto_assign [simp]: "part (snd (auto_assign_delivery g locked now req_id admin did r d)) = part d"
  by (auto simp: auto_assign_delivery_def attempt_def split: option.split sum.split dest: part_auto_assign_tx)

lemma part_dispatch_one: "dispatch_one g locked now radius x d = Some d' \<Longrightarrow> part d' = part d"
  by (erule dispatch_one_cases) (auto simp: background_assign_tx_def res_bind_Inr part_delivery)

lemma part_dispatch_loop [simp]:
  "part (snd (dispatch_loop g locked rows now radius n seen matched skipped d)) = part d"
  by (induction n arbitrary: seen matched skipped d) (auto split: option.split dest: part_dispatch_one)

lemma part_dispatch_ready [simp]:
  "part (snd (dispatch_ready_deliveries g locked rows now limit radius d)) = part d"
  by (simp add: dispatch_ready_deliveries_def)

end

section \<open>Both\<close>

locale untouched_by_orders = untouched_by_restock part + untouched_by_riders part
  for part :: "'m database_scheme \<Rightarrow> 'p"
begin

lemma part_resolve [simp]:
  "part (snd (resolve_failed_delivery cfg post now req_id admin did r notes d)) = part d"
proof (cases r)
  case Reassign
  then show ?thesis
    by (auto simp: resolve_failed_delivery_def attempt_def split: sum.split dest: part_reassignment)
next
  case Return_To_Store
  then show ?thesis
    by (auto simp: resolve_failed_delivery_def attempt_def Let_def split: sum.split dest: part_return_tx)
qed

end

end
