(* ===== verification/Shelf.thy ===== *)
theory Shelf
  imports Frames
begin

text \<open>
  Stock: no request takes a listing below zero, and what a cancelled or returned order gives
  back is what it took. \<open>shelf_ok\<close> is the invariant; the cart operations, checkout and
  restoration keep it, the other handlers leave the three tables alone.
\<close>

section \<open>The invariant\<close>

definition shelf_ok :: "'m database_scheme \<Rightarrow> bool" where
  "shelf_ok d \<longleftrightarrow> distinct (map lst_id (store_products d)) \<and>
     (\<forall>l \<in> set (store_products d). 0 \<le> lst_stock_quantity l) \<and>
     (\<forall>i \<in> set (order_items d). 0 \<le> oit_quantity i) \<and>
     (\<forall>i \<in> set (cart_items d). 0 \<le> cit_quantity i)"

definition shelf :: "'m database_scheme \<Rightarrow> store_product list \<times> order_item list \<times> cart_item list" where
  "shelf d = (store_products d, order_items d, cart_items d)"

lemma shelf_ok_same: "shelf d' = shelf d \<Longrightarrow> shelf_ok d' = shelf_ok d"
  by (simp add: shelf_def shelf_ok_def)

interpretation shelves: untouched_by_riders shelf
  by unfold_locales
    (auto simp: shelf_def annotate_order_transition_def annotate_delivery_transition_def
      dest: ensure_refund_requestD same_core_tables(8) same_core_tables(10) same_core_tables(12)
      dest!: settlement_update)

section \<open>Carts\<close>

lemma shelf_cart_writes [simp]:
  "shelf_ok (d\<lparr>carts := cs\<rparr>) = shelf_ok d"
  "shelf_ok (d\<lparr>carts := cs, db_next_id := n\<rparr>) = shelf_ok d"
  by (simp_all add: shelf_ok_def)

lemma shelf_get_cart: "shelf_ok (snd (get_or_create_cart uid d)) = shelf_ok d"
  by (simp add: get_or_create_cart_def Let_def split: option.split)

lemma shelf_flush_cart [simp]: "shelf_ok (flush_cart c d) = shelf_ok d"
  by (simp add: flush_cart_def)

lemma shelf_set_quantity: "shelf_ok d \<Longrightarrow> 0 \<le> q \<Longrightarrow> shelf_ok (set_cart_quantity c k q d)"
  by (auto simp: set_cart_quantity_def shelf_ok_def split: option.split dest!: in_put_row_cases)

lemma shelf_delete_items: "shelf_ok d \<Longrightarrow> shelf_ok (delete_cart_items P d)"
  by (simp add: delete_cart_items_def shelf_ok_def)

lemma shelf_add_item: "shelf_ok d \<Longrightarrow> shelf_ok (snd (add_cart_item u k q d))"
  by (auto simp: add_cart_item_def attempt_def Let_def valid_quantity_def case_prod_beta shelf_get_cart
      split: option.split sum.split intro!: shelf_set_quantity)

lemma shelf_remove_item: "shelf_ok d \<Longrightarrow> shelf_ok (snd (remove_cart_item u k d))"
  by (simp add: remove_cart_item_def Let_def shelf_get_cart shelf_delete_items case_prod_beta)

lemma shelf_clear_cart: "shelf_ok d \<Longrightarrow> shelf_ok (snd (clear_cart u d))"
  by (simp add: clear_cart_def Let_def shelf_get_cart shelf_delete_items case_prod_beta)

section \<open>Checkout\<close>

text \<open>\<open>listings_present\<close> counts distinct listings, so a cart that passes it names each once.\<close>

lemma listings_present_distinct:
  assumes "listings_present d items" shows "distinct (map cit_store_product_id items)"
proof (rule card_distinct)
  let ?S = "lst_id ` {l \<in> set (store_products d). lst_id l \<in> cit_store_product_id ` set items}"
  have "length items = card ?S"
    using assms by (simp add: listings_present_def length_remdups_card_conv)
  also have "\<dots> \<le> card (cit_store_product_id ` set items)" by (intro card_mono) auto
  finally have "length items \<le> card (set (map cit_store_product_id items))" by simp
  then show "card (set (map cit_store_product_id items)) = length (map cit_store_product_id items)"
    using card_length [of "map cit_store_product_id items"] by simp
qed

lemma checkout_guardsD:
  assumes "checkout_guards g now u a d = Inr (c, s, items, subtotal)"
  shows "distinct (map cit_store_product_id items)" "\<forall>i \<in> set items. item_ok (sto_id s) d i"
    "subtotal = sum_list (map (item_cost d) items)" "set items \<subseteq> set (cart_items d)" "items \<noteq> []"
    "store_is_open now s" "sto_delivery_enabled s"
    "\<exists>area p. sto_service_area_id s = Some area \<and> address_point d a = Some p
       \<and> point_is_in_service_area g d area p"
    "sto_is_active s" "\<exists>m. get_merchant d (sto_merchant_id s) = Some m \<and> mer_status m = APPROVED"
    "crt_store_id c = Some (sto_id s)" "get_store d (sto_id s) = Some s"
    "crt_user_id c = usr_id u" "items = sort_key cit_store_product_id (items_of_cart d (crt_id c))"
    "cart_of_user d (usr_id u) = Some c"
proof -
  have "\<exists>sid. cart_of_user d (usr_id u) = Some c \<and> crt_store_id c = Some sid
      \<and> items = sort_key cit_store_product_id (items_of_cart d (crt_id c)) \<and> items \<noteq> []
      \<and> orderable_store d sid = Inr s \<and> store_guards g now d a s = Inr ()
      \<and> inventory_guards sid items d = Inr subtotal"
    using assms by (auto simp: checkout_guards_def Let_def res_bind_Inr bind_eq_Some_conv
        split: option.splits if_splits)
  then obtain sid where b: "cart_of_user d (usr_id u) = Some c" "crt_store_id c = Some sid"
    and items: "items = sort_key cit_store_product_id (items_of_cart d (crt_id c))" "items \<noteq> []"
    and o: "orderable_store d sid = Inr s" and sg: "store_guards g now d a s = Inr ()"
    and ig: "inventory_guards sid items d = Inr subtotal"
    by blast
  have s: "sto_delivery_enabled s" "store_is_open now s"
    and area: "\<exists>area p. sto_service_area_id s = Some area \<and> address_point d a = Some p
       \<and> point_is_in_service_area g d area p"
    using sg by (auto simp: store_guards_def split: option.splits if_splits)
  have present: "listings_present d items" and v: "validate_items sid items d 0 = Inr subtotal"
    using ig by (auto simp: inventory_guards_def split: if_splits)
  have sid: "get_store d sid = Some s" "sto_is_active s"
      "\<exists>m. get_merchant d (sto_merchant_id s) = Some m \<and> mer_status m = APPROVED"
    using o by (auto simp: orderable_store_def split: option.splits if_splits)
  then have id: "sto_id s = sid" by (auto simp: get_store_def)
  note V = validate_items_Inr [OF v]
  show "distinct (map cit_store_product_id items)" using present by (rule listings_present_distinct)
  show "\<forall>i \<in> set items. item_ok (sto_id s) d i" "subtotal = sum_list (map (item_cost d) items)"
    using V id by simp_all
  show "set items \<subseteq> set (cart_items d)" by (auto simp: items items_of_cart_def)
  show "cart_of_user d (usr_id u) = Some c" by (fact b(1))
  show "crt_user_id c = usr_id u" using b(1) by (auto simp: cart_of_user_def dest: find_Some_in)
  show "crt_store_id c = Some (sto_id s)" "get_store d (sto_id s) = Some s" using b(2) sid(1) id by simp_all
  show "items \<noteq> []" "items = sort_key cit_store_product_id (items_of_cart d (crt_id c))" by (fact items)+
  show "store_is_open now s" "sto_delivery_enabled s" by (fact s)+
  show "sto_is_active s" "\<exists>m. get_merchant d (sto_merchant_id s) = Some m \<and> mer_status m = APPROVED"
    by (fact sid)+
  show "\<exists>area p. sto_service_area_id s = Some area \<and> address_point d a = Some p
       \<and> point_is_in_service_area g d area p" by (fact area)
qed

text \<open>What an order takes off the shelf is there.\<close>

lemma place_items_rest:
  "place_items oid is d = Inr d' \<Longrightarrow>
     cart_items d' = cart_items d \<and> delivery_proofs d' = delivery_proofs d"
  by (induction "is" arbitrary: d) (auto simp: flush_listing_def split: option.splits)

lemma shelf_place_items:
  assumes ok: "shelf_ok d" and place: "place_items oid is d = Inr d'"
    and dist: "distinct (map cit_store_product_id is)" and all: "\<forall>i \<in> set is. item_ok sid d i"
    and sub: "set is \<subseteq> set (cart_items d)"
  shows "shelf_ok d'"
proof -
  have ids: "map lst_id (store_products d') = map lst_id (store_products d)"
    by (rule place_items_frame [OF place])
  then have dist': "distinct (map lst_id (store_products d'))" using ok by (simp add: shelf_ok_def)
  obtain lines where lines: "order_items d' = order_items d @ lines" "list_all2 (line_matches d oid) is lines"
    using place_items_lines [OF place dist] by blast
  have "0 \<le> lst_stock_quantity l" if l: "l \<in> set (store_products d')" for l
  proof -
    have "get_listing d' (lst_id l) = Some l"
      using l dist' by (simp add: get_listing_def get_row_Some_iff)
    note found = place_items_listing [OF place dist, of "lst_id l", unfolded this]
    have "\<exists>m. get_listing d (lst_id l) = Some m \<and> (l = m \<or> (\<exists>i \<in> set is.
        cit_store_product_id i = lst_id l \<and> l = sold_listing m (cit_quantity i)))"
    proof (cases "find (\<lambda>i. cit_store_product_id i = lst_id l) is")
      case None
      with found [symmetric] show ?thesis by simp
    next
      case (Some i)
      with found [symmetric] find_Some_in [OF Some] show ?thesis by auto
    qed
    then obtain m where m: "get_listing d (lst_id l) = Some m"
      "l = m \<or> (\<exists>i \<in> set is. cit_store_product_id i = lst_id l \<and> l = sold_listing m (cit_quantity i))"
      by blast
    then have "0 \<le> lst_stock_quantity m" using ok by (auto simp: shelf_ok_def get_listing_def)
    with m all show ?thesis by (fastforce simp: item_ok_def)
  qed
  moreover have "0 \<le> oit_quantity x" if "x \<in> set lines" for x
    using list_all2_left [OF lines(2) that] sub ok by (auto simp: line_matches_def shelf_ok_def)
  ultimately show ?thesis
    using ok dist' lines(1) place_items_rest [OF place] by (auto simp: shelf_ok_def)
qed

lemma place_order_shelf:
  assumes "place_order now o1 items c d = Inr d'"
  obtains dI where
    "place_items (ord_id o1) items (d\<lparr>orders := orders d @ [o1], db_next_id := Suc (ord_id o1)\<rparr>) = Inr dI"
    "store_products d' = store_products dI" "order_items d' = order_items dI"
    "set (cart_items d') \<subseteq> set (cart_items dI)" "delivery_proofs d' = delivery_proofs dI"
proof -
  obtain dI where p: "place_items (ord_id o1) items
      (d\<lparr>orders := orders d @ [o1], db_next_id := Suc (ord_id o1)\<rparr>) = Inr dI"
    using assms by (auto simp: place_order_def res_bind_Inr)
  define d3 where "d3 = flush_cart (c\<lparr>crt_store_id := None\<rparr>)
      (delete_cart_items (\<lambda>i. cit_cart_id i = crt_id c)
        (dI\<lparr>deliveries := deliveries dI @ [new_delivery now (db_next_id dI) (ord_id o1)],
            db_next_id := Suc (db_next_id dI)\<rparr>))"
  have core: "same_core d3 d'"
    using assms p
    by (auto simp: place_order_def Let_def d3_def
        intro: same_core_trans [OF same_core_notify_customer same_core_notify_merchant])
  show ?thesis
    by (rule that [OF p]) (use same_core_tables [OF core] in
      \<open>auto simp: d3_def flush_cart_def delete_cart_items_def\<close>)
qed

lemma shelf_checkout:
  assumes ok: "shelf_ok d"
  shows "shelf_ok (snd (safe_checkout g cfg now stamp token u key aid m d))"
proof (cases rule: safe_checkout_cases [of key d u g cfg now stamp token aid m])
  case (placed key' a c s items subtotal d')
  note G = checkout_guardsD [OF placed(4)]
  have "shelf_ok d'"
  proof (rule place_order_shelf [OF placed(5)])
    fix dI
    let ?o = "new_order now (db_next_id d) (new_order_number stamp token) key'
          (address_snapshot a) u (sto_id s) (adr_id a) m subtotal (resolve_delivery_fee cfg d s)"
    let ?d = "d\<lparr>orders := orders d @ [?o], db_next_id := Suc (ord_id ?o)\<rparr>"
    assume p: "place_items (ord_id ?o) items ?d = Inr dI"
      and d': "store_products d' = store_products dI" "order_items d' = order_items dI"
        "set (cart_items d') \<subseteq> set (cart_items dI)"
    have "shelf_ok ?d" using ok by (simp add: shelf_ok_def)
    moreover have "\<forall>i \<in> set items. item_ok (sto_id s) ?d i"
      using G(2) by (simp add: item_ok_def get_listing_def)
    ultimately have "shelf_ok dI" using G(4) by (intro shelf_place_items [OF _ p G(1)]) simp_all
    then show "shelf_ok d'" using d' by (auto simp: shelf_ok_def)
  qed
  with placed(6) show ?thesis by simp
qed (use ok in simp_all)

section \<open>Restoration\<close>

lemma shelf_restore_items:
  "restore_items sid os d = Inr d' \<Longrightarrow> shelf_ok d \<Longrightarrow> \<forall>x \<in> set os. 0 \<le> oit_quantity x \<Longrightarrow> shelf_ok d'"
proof (induction os arbitrary: d)
  case (Cons x os)
  then obtain l where l: "listing_of_product d sid (oit_product_id x) = Some l"
    and rest: "restore_items sid os (flush_listing (restored_listing l (oit_quantity x)) d) = Inr d'"
    by (auto split: option.splits)
  have "0 \<le> lst_stock_quantity l" using listing_of_productD [OF l] Cons.prems(2) by (auto simp: shelf_ok_def)
  then have "shelf_ok (flush_listing (restored_listing l (oit_quantity x)) d)"
    using Cons.prems(2,3) by (auto simp: shelf_ok_def flush_listing_def dest!: in_put_row_cases)
  with rest show ?case by (rule Cons.IH) (use Cons.prems(3) in auto)
qed simp

lemma shelf_restore:
  assumes "restore_order_stock_once now o1 d = Inr (b, o2, d')" and "shelf_ok d"
  shows "shelf_ok d'"
  using assms
  by (auto simp: restore_order_stock_once_def Let_def items_of_order_def shelf_ok_def
      split: if_splits sum.splits dest!: shelf_restore_items)

section \<open>The handlers that restock\<close>

lemma cancellation_shelf:
  assumes "customer_cancellation now u o1 d = Inr (r, d')"
  obtains b o2 d1 where "restore_order_stock_once now o1 d = Inr (b, o2, d1)" "shelf d' = shelf d1"
  using assms by (auto simp: customer_cancellation_def res_bind_Inr Let_def case_prod_beta)

lemma store_cancellation_shelf:
  assumes "store_cancellation now u o1 d = Inr (r, o3, d')"
  obtains b o2 d1 where "restore_order_stock_once now o1 d = Inr (b, o2, d1)" "shelf d' = shelf d1"
  using assms by (auto simp: store_cancellation_def res_bind_Inr Let_def case_prod_beta)

lemma return_shelf:
  assumes "return_to_store_tx now req_id admin notes x o1 d = Inr (r, d')"
  obtains b o2 d1 where "restore_order_stock_once now o1 d = Inr (b, o2, d1)" "shelf d' = shelf d1"
  using assms by (auto simp: return_to_store_tx_def res_bind_Inr Let_def case_prod_beta
      split: option.splits dest!: shelves.part_admin)

lemma merchant_update_shelf:
  assumes "merchant_status_update now req_id u s o1 d = Inr (r, d')"
  shows "shelf d' = shelf d \<or>
     (\<exists>b o2 d1. restore_order_stock_once now o1 d = Inr (b, o2, d1) \<and> shelf d' = shelf d1)"
proof -
  obtain r' o2 d1 where c: "(if s = CANCELLED then store_cancellation now u o1 d
               else Inr (None, o1, progress_notice now s o1 d)) = Inr (r', o2, d1)"
    and d': "shelf d' = shelf d1"
    using assms by (auto simp: merchant_status_update_def res_bind_Inr Let_def
        split: if_splits dest!: shelves.part_admin)
  show ?thesis
  proof (cases "s = CANCELLED")
    case True
    with c have "store_cancellation now u o1 d = Inr (r', o2, d1)" by simp
    then show ?thesis by (rule store_cancellation_shelf) (use d' in auto)
  next
    case False
    with c d' show ?thesis by auto
  qed
qed

lemma shelf_ok_restored:
  "restore_order_stock_once now o1 d = Inr (b, o2, d1) \<Longrightarrow> shelf d' = shelf d1 \<Longrightarrow> shelf_ok d \<Longrightarrow> shelf_ok d'"
  using shelf_ok_same shelf_restore by blast

lemma shelf_cancellation: "customer_cancellation now u o1 d = Inr (r, d') \<Longrightarrow> shelf_ok d \<Longrightarrow> shelf_ok d'"
  by (erule cancellation_shelf) (rule shelf_ok_restored)

lemma shelf_merchant_update:
  "merchant_status_update now req_id u s o1 d = Inr (r, d') \<Longrightarrow> shelf_ok d \<Longrightarrow> shelf_ok d'"
  using merchant_update_shelf shelf_ok_restored shelf_ok_same by metis

lemma shelf_return:
  "return_to_store_tx now req_id admin notes x o1 d = Inr (r, d') \<Longrightarrow> shelf_ok d \<Longrightarrow> shelf_ok d'"
  by (erule return_shelf) (rule shelf_ok_restored)

lemma shelf_try_dispatch [simp]:
  "shelf_ok (try_dispatch_order_refund cfg post now oid d) = shelf_ok d"
  by (rule shelf_ok_same) simp

lemma shelf_cancel: "shelf_ok d \<Longrightarrow> shelf_ok (snd (cancel_my_order_safely cfg post now u i d))"
  by (auto simp: cancel_my_order_safely_def attempt_def split: option.split sum.split
      dest: shelf_cancellation)

lemma shelf_update_order:
  "shelf_ok d \<Longrightarrow> shelf_ok (snd (update_order_status_safely cfg post now req_id u i s d))"
  by (auto simp: update_order_status_safely_def attempt_def split: option.split sum.split
      dest: shelf_merchant_update)

lemma shelf_resolve:
  assumes "shelf_ok d" shows "shelf_ok (snd (resolve_failed_delivery cfg post now req_id admin did r notes d))"
proof (cases r)
  case Reassign
  with assms show ?thesis
    by (auto simp: resolve_failed_delivery_def attempt_def split: sum.split
        dest!: shelves.part_reassignment shelf_ok_same)
next
  case Return_To_Store
  with assms show ?thesis
    by (auto simp: resolve_failed_delivery_def attempt_def Let_def split: sum.split dest: shelf_return)
qed

lemma shelf_proof_handlers [simp]:
  "shelf (snd (issue_delivery_proof_challenge h rate n now req_id u did d)) = shelf d"
  "shelf (snd (verify_delivery_proof h rate now req_id u did otp ev rn nt d)) = shelf d"
  "shelf (snd (record_cod_collection now req_id u did amount d)) = shelf d"
proof -
  have writes [simp]: "shelf (d\<lparr>delivery_proofs := ps\<rparr>) = shelf d"
    "shelf (d\<lparr>delivery_proofs := ps, db_next_id := k\<rparr>) = shelf d"
    "shelf (d\<lparr>cod_collections := cs, db_next_id := k\<rparr>) = shelf d" for d :: "'a database_scheme" and ps k cs
    by (simp_all add: shelf_def)
  show "shelf (snd (issue_delivery_proof_challenge h rate n now req_id u did d)) = shelf d"
    "shelf (snd (verify_delivery_proof h rate now req_id u did otp ev rn nt d)) = shelf d"
    "shelf (snd (record_cod_collection now req_id u did amount d)) = shelf d"
    by (auto simp: issue_delivery_proof_challenge_def verify_delivery_proof_def store_challenge_def
        record_cod_collection_def flush_proof_def attempt_def Let_def split: sum.split option.split
        dest!: shelves.part_admin)
qed

end
