(* ===== verification/Riders.thy ===== *)
theory Riders
  imports Frames
begin

text \<open>
  One rider, one active delivery: the exclusivity the claim endpoint and the dispatchers
  enforce with their busy checks. The index \<open>uq_deliveries_active_partner\<close> is not assumed:
  the invariant follows from the code, given that orders are coherent.
\<close>

section \<open>Who holds what\<close>

definition holder :: "'m database_scheme \<Rightarrow> uuid \<Rightarrow> uuid \<Rightarrow> bool" where
  "holder d i r \<longleftrightarrow>
     (\<exists>x \<in> set (deliveries d). dlv_id x = i \<and> dlv_delivery_partner_id x = Some r \<and> active_delivery x)"

definition riders_exclusive :: "'m database_scheme \<Rightarrow> bool" where
  "riders_exclusive d \<longleftrightarrow> (\<forall>r i j. holder d i r \<longrightarrow> holder d j r \<longrightarrow> i = j)"

definition fewer :: "'m database_scheme \<Rightarrow> 'm database_scheme \<Rightarrow> bool" where
  "fewer d d' \<longleftrightarrow> (\<forall>i r. holder d' i r \<longrightarrow> holder d i r)"

lemma fewer_same: "deliveries d' = deliveries d \<Longrightarrow> fewer d d'"
  by (simp add: fewer_def holder_def)

lemma fewer_exclusive: "fewer d d' \<Longrightarrow> riders_exclusive d \<Longrightarrow> riders_exclusive d'"
  unfolding fewer_def riders_exclusive_def by blast

lemma rider_busy_holder: "rider_is_busy d r \<longleftrightarrow> (\<exists>i. holder d i r)"
  by (auto simp: rider_is_busy_def holder_def)

lemma holder_flush:
  "holder (flush_delivery now y d) i r \<Longrightarrow>
     holder d i r \<or> i = dlv_id y \<and> dlv_delivery_partner_id y = Some r \<and> active_delivery y"
  by (auto simp: holder_def active_delivery_def dest!: in_put_row_cases)

lemma fewer_flush:
  assumes "get_delivery d did = Some x" and "dlv_id y = dlv_id x"
    and "\<And>r. dlv_delivery_partner_id y = Some r \<Longrightarrow> active_delivery y \<Longrightarrow>
        dlv_delivery_partner_id x = Some r \<and> active_delivery x"
  shows "fewer d (flush_delivery now y d)"
  unfolding fewer_def
proof (intro allI impI)
  fix i r assume "holder (flush_delivery now y d) i r"
  from holder_flush [OF this] show "holder d i r"
  proof
    assume "i = dlv_id y \<and> dlv_delivery_partner_id y = Some r \<and> active_delivery y"
    then show ?thesis
      using assms get_row_in [of dlv_id "deliveries d" did x] by (auto simp: holder_def get_delivery_def)
  qed
qed

text \<open>A rider who holds nothing else may take a delivery.\<close>

lemma take_exclusive:
  assumes ex: "riders_exclusive d" and partner: "dlv_delivery_partner_id y = Some rider"
    and free: "\<And>i. holder d i rider \<Longrightarrow> i = dlv_id y"
    and same: "deliveries d' = deliveries (flush_delivery now y d)"
  shows "riders_exclusive d'"
  unfolding riders_exclusive_def
proof (intro allI impI)
  fix r i j assume "holder d' i r" and "holder d' j r"
  then have "holder (flush_delivery now y d) i r" and "holder (flush_delivery now y d) j r"
    by (simp_all add: holder_def same)
  from this [THEN holder_flush] show "i = j"
    using ex free partner by (auto simp: riders_exclusive_def)
qed

section \<open>Handlers that leave the deliveries alone\<close>

interpretation dlv: untouched_by_restock deliveries
  by unfold_locales
    (auto dest: ensure_refund_frame ensure_settlement_frame restore_once_frame same_core_tables(13)
      simp: annotate_order_transition_def annotate_delivery_transition_def)

lemma deliveries_proof [simp]:
  "deliveries (snd (issue_delivery_proof_challenge h rate n now req_id u did d)) = deliveries d"
  "deliveries (snd (verify_delivery_proof h rate now req_id u did otp ev rn nt d)) = deliveries d"
  by (auto simp: issue_delivery_proof_challenge_def verify_delivery_proof_def store_challenge_def
      flush_proof_def attempt_def Let_def split: sum.split option.split dest!: dlv.part_admin)

lemma deliveries_cod [simp]: "deliveries (snd (record_cod_collection now req_id u did amount d)) = deliveries d"
  by (auto simp: record_cod_collection_def attempt_def Let_def split: sum.split option.split
      dest!: dlv.part_admin)

section \<open>Handlers that change deliveries\<close>

lemma fewer_append:
  "deliveries d' = deliveries d @ [y] \<Longrightarrow> dlv_status y = UNASSIGNED \<Longrightarrow> fewer d d'"
  by (auto simp: fewer_def holder_def active_delivery_def)

lemma checkout_fewer: "fewer d (snd (safe_checkout g cfg now stamp token u key aid m d))"
proof (cases rule: safe_checkout_cases [of key d u g cfg now stamp token aid m])
  case (placed key' a c s items subtotal d')
  from placed(5) have "fewer d d'" by (rule place_orderD) (auto intro: fewer_append)
  with placed(6) show ?thesis by simp
qed (simp_all add: fewer_same)

text \<open>A claim: the claimed row, under a rider who held nothing.\<close>

lemma claimedD:
  "claimed now rider x = Inr y \<Longrightarrow> dlv_status x = UNASSIGNED
     \<and> y = x\<lparr>dlv_delivery_partner_id := Some rider, dlv_status := ASSIGNED, dlv_assigned_at := Some now\<rparr>"
  by (auto simp: claimed_def res_bind_Inr)

lemma claim_exclusive:
  assumes ex: "riders_exclusive d" shows "riders_exclusive (snd (claim_delivery now u did d))"
proof -
  have "riders_exclusive d'"
    if x: "get_delivery d did = Some x"
      and free: "\<forall>z \<in> set (deliveries d). dlv_delivery_partner_id z = Some (usr_id u) \<longrightarrow>
          active_delivery z \<longrightarrow> dlv_id z = did"
      and c: "claim_delivery_tx now u x o1 d = Inr d'" for x o1 d'
  proof -
    obtain y where y: "claimed now (usr_id u) x = Inr y"
      and d': "deliveries d' = deliveries (flush_delivery now y d)"
      using c by (auto simp: claim_delivery_tx_def res_bind_Inr)
    show ?thesis
      by (rule take_exclusive [where y = y and rider = "usr_id u", OF ex _ _ d'])
        (use claimedD [OF y] free x in \<open>auto simp: holder_def\<close>)
  qed
  with ex show ?thesis
    by (auto simp: claim_delivery_def attempt_def split: option.split sum.split)
qed

lemma auto_assign_exclusive:
  assumes ex: "riders_exclusive d"
  shows "riders_exclusive (snd (auto_assign_delivery g locked now req_id admin did r d))"
proof -
  have "riders_exclusive d'"
    if free: "\<not> rider_is_busy d (usr_id rider)" and c: "auto_assign_tx now req_id a rider x o1 d = Inr d'"
    for a rider x o1 d'
  proof -
    obtain y where y: "claimed now (usr_id rider) x = Inr y"
      and d': "deliveries d' = deliveries (flush_delivery now y d)"
      using c by (auto simp: auto_assign_tx_def res_bind_Inr notify_assigned_rider_def
          notify_assigned_customer_def dest!: dlv.part_admin)
    show ?thesis
      by (rule take_exclusive [where y = y and rider = "usr_id rider", OF ex _ _ d'])
        (use claimedD [OF y] free in \<open>auto simp: rider_busy_holder\<close>)
  qed
  with ex show ?thesis
    by (auto simp: auto_assign_delivery_def attempt_def split: option.split sum.split)
qed

lemma dispatch_one_exclusive:
  assumes ex: "riders_exclusive d" and "dispatch_one g locked now radius x d = Some d'"
  shows "riders_exclusive d'"
  using assms(2)
proof (rule dispatch_one_cases)
  fix o1 rider
  assume free: "\<not> rider_is_busy d (usr_id rider)" and c: "background_assign_tx now rider x o1 d = Inr d'"
  obtain y where y: "claimed now (usr_id rider) x = Inr y"
    and d': "deliveries d' = deliveries (flush_delivery now y d)"
    using c by (auto simp: background_assign_tx_def res_bind_Inr notify_assigned_rider_def
        notify_assigned_customer_def)
  show "riders_exclusive d'"
    by (rule take_exclusive [where y = y and rider = "usr_id rider", OF ex _ _ d'])
      (use claimedD [OF y] free in \<open>auto simp: rider_busy_holder\<close>)
qed

lemma dispatch_loop_exclusive:
  "riders_exclusive d \<Longrightarrow>
     riders_exclusive (snd (dispatch_loop g locked rows now radius n seen matched skipped d))"
  by (induction n arbitrary: seen matched skipped d)
    (auto split: option.split dest: dispatch_one_exclusive)

lemma dispatch_ready_exclusive:
  "riders_exclusive d \<Longrightarrow>
     riders_exclusive (snd (dispatch_ready_deliveries g locked rows now limit radius d))"
  by (simp add: dispatch_ready_deliveries_def dispatch_loop_exclusive)

text \<open>The status endpoint never adds a holder: an unassigned delivery of a coherent database has
  no rider to reactivate.\<close>

lemma coherent_unassigned:
  assumes "all_coherent d" and "get_delivery d did = Some x" and "get_order d (dlv_order_id x) = Some o1"
    and "dlv_status x = UNASSIGNED"
  shows "dlv_delivery_partner_id x = None"
proof -
  have "tables_wf d" using assms(1) by (simp add: all_coherent_def)
  then have "delivery_of_order d (dlv_order_id x) = Some x" using assms(2) by (rule delivery_of_order_get)
  with assms(3) have "fulfilment_of d (dlv_order_id x) =
      Some (view_of o1 (Some x) (has_refund d (dlv_order_id x)))"
    by (simp add: fulfilment_of_def del: view_of_delivery)
  with assms(1) have "coherent (view_of o1 (Some x) (has_refund d (dlv_order_id x)))"
    unfolding all_coherent_def by blast
  with assms(4) show ?thesis
    by (simp add: coherent_def delivery_coherent_def delivery_part_def)
qed

lemma update_tx_deliveries:
  assumes "update_delivery_status_tx now req_id u target x o1 d = Inr d'"
  obtains y where "deliveries d' = deliveries (flush_delivery now y d)" "dlv_status y = target"
    "dlv_id y = dlv_id x" "can_transition_delivery (dlv_status x) target"
    "target = UNASSIGNED \<or> dlv_delivery_partner_id y = dlv_delivery_partner_id x"
proof -
  obtain x1 o2 d1 where e: "delivery_update_effects now target x o1 d = Inr (x1, o2, d1)"
    and can: "can_transition_delivery (dlv_status x1) target"
    and d': "deliveries d' = deliveries (flush_delivery now (x1\<lparr>dlv_status := target\<rparr>) d1)"
    using assms by (auto simp: update_delivery_status_tx_def res_bind_Inr Let_def
        split: if_splits dest!: dlv.part_admin)
  show ?thesis
    using e
    by (cases rule: update_effects_cases)
      (rule that [of "x1\<lparr>dlv_status := target\<rparr>"];
        use can d' in \<open>auto dest!: dlv.part_same_core\<close>)+
qed

lemma update_tx_fewer:
  assumes coh: "all_coherent d" and x: "get_delivery d did = Some x"
    and o1: "get_order d (dlv_order_id x) = Some o1"
    and c: "update_delivery_status_tx now req_id u target x o1 d = Inr d'"
  shows "fewer d d'"
  using c
proof (rule update_tx_deliveries)
  fix y
  assume d': "deliveries d' = deliveries (flush_delivery now y d)" and y: "dlv_status y = target"
    "dlv_id y = dlv_id x" and can: "can_transition_delivery (dlv_status x) target"
    and p: "target = UNASSIGNED \<or> dlv_delivery_partner_id y = dlv_delivery_partner_id x"
  have none: "dlv_status x = UNASSIGNED \<Longrightarrow> dlv_delivery_partner_id x = None"
    by (rule coherent_unassigned [OF coh x o1])
  have "fewer d (flush_delivery now y d)"
  proof (rule fewer_flush [OF x y(2)])
    fix r assume "dlv_delivery_partner_id y = Some r" "active_delivery y"
    then show "dlv_delivery_partner_id x = Some r \<and> active_delivery x"
      using p can y none by (cases "dlv_status x") (auto simp: active_delivery_def)
  qed
  with d' show ?thesis by (simp add: fewer_def holder_def)
qed

lemma fewer_refl [simp]: "fewer d d"
  by (simp add: fewer_def)

lemma update_delivery_fewer:
  assumes "all_coherent d" shows "fewer d (snd (update_delivery_status now req_id u did target d))"
  using assms
  by (auto simp: update_delivery_status_def attempt_def require_controlled_terminal_endpoints_def
      split: option.split sum.split if_splits intro: update_tx_fewer)

lemma inactive_fewer:
  assumes "get_delivery d did = Some x" and "deliveries d' = deliveries (flush_delivery now y d)"
    and "dlv_id y = dlv_id x" and "dlv_status y \<notin> {ASSIGNED, PICKED_UP}"
  shows "fewer d d'"
proof -
  have "fewer d (flush_delivery now y d)"
    using assms(4) by (intro fewer_flush [OF assms(1,3)]) (auto simp: active_delivery_def)
  then show ?thesis using assms(2) by (simp add: fewer_def holder_def)
qed

lemma fail_fewer: "fewer d (snd (fail_delivery now req_id u did why notes url d))"
proof -
  have "fewer d d'" if x: "get_delivery d did = Some x" and
    c: "fail_delivery_tx now req_id u why notes url x o1 d = Inr d'" for x o1 d'
    using c by (intro inactive_fewer [OF x, where now = now and y = "x\<lparr>dlv_status := FAILED,
        dlv_failed_at := Some now, dlv_failure_reason := Some why, dlv_failure_notes := notes,
        dlv_failure_evidence_url := url\<rparr>"])
      (auto simp: fail_delivery_tx_def res_bind_Inr Let_def split: if_splits dest!: dlv.part_admin)
  then show ?thesis
    by (auto simp: fail_delivery_def attempt_def locked_delivery_order_def split: option.split sum.split)
qed

lemma reassignment_fewer:
  assumes x: "get_delivery d did = Some x"
    and c: "reassignment_tx now req_id admin why action reason md x o1 d = Inr d'"
  shows "fewer d d'"
  using c by (intro inactive_fewer [OF x, where now = now and y = "x\<lparr>dlv_delivery_partner_id := None,
       dlv_status := UNASSIGNED, dlv_assigned_at := None\<rparr>"])
    (auto simp: reassignment_tx_def res_bind_Inr Let_def dest!: dlv.part_admin)

lemma recover_fewer: "fewer d (snd (recover_failed_delivery now req_id admin did d))"
  by (auto simp: recover_failed_delivery_def attempt_def locked_delivery_order_def
      split: option.split sum.split intro: reassignment_fewer)

lemma return_fewer:
  assumes "return_to_store_tx now req_id admin notes x o1 d = Inr (r, d')"
  shows "fewer d d'" "fewer d (try_dispatch_order_refund cfg post now2 oid d')"
  using dlv.part_return_tx [OF assms] by (simp_all add: fewer_same)

lemma resolve_fewer: "fewer d (snd (resolve_failed_delivery cfg post now req_id admin did r notes d))"
proof (cases r)
  case Reassign
  then show ?thesis
    by (auto simp: resolve_failed_delivery_def attempt_def locked_delivery_order_def
        split: option.split sum.split intro: reassignment_fewer)
next
  case Return_To_Store
  then show ?thesis
    by (auto simp: resolve_failed_delivery_def attempt_def Let_def split: sum.split intro: return_fewer)
qed

lemma completion_fewer:
  assumes x: "get_delivery d did = Some x" and c: "completion_tx settles now req_id u x o1 d = Inr d'"
  shows "fewer d d'"
  using c
proof (rule completion_txD)
  fix x2 o3 e d2
  assume x2: "x2 = x\<lparr>dlv_status := DLV_DELIVERED, dlv_delivered_at := Some now\<rparr>"
    and s: "(if settles o3 then ensure_settlement_entry o3 (flush_order now o3 (flush_delivery now x2 d))
      else Inr (None, flush_order now o3 (flush_delivery now x2 d))) = Inr (e, d2)"
    and core: "same_core d2 d'"
  have "deliveries d' = deliveries (flush_delivery now x2 d)"
    using s dlv.part_same_core [OF core] by (auto split: if_splits dest!: dlv.part_settlement)
  then show ?thesis by (rule inactive_fewer [OF x]) (simp_all add: x2)
qed

lemma complete_fewer: "fewer d (snd (complete_delivery_with_financials now req_id u did d))"
  by (auto simp: complete_delivery_with_financials_def attempt_def locked_delivery_order_def
      split: option.split sum.split intro: completion_fewer)

end
