(* ===== verification/Proofs.thy ===== *)
theory Proofs
  imports Shelf Riders
begin

text \<open>
  Proof of delivery: the guess budget of a delivery code. \<open>proofs_ok\<close> bounds the wrong guesses
  and the challenges of every proof and says that an exhausted budget locked it; only the two
  proof endpoints write the table, and issuing a new code never gives guesses back.
\<close>

definition proof_ok :: "delivery_proof \<Rightarrow> bool" where
  "proof_ok p \<longleftrightarrow>
     0 \<le> prf_verification_attempt_count p
     \<and> prf_verification_attempt_count p \<le> OTP_MAX_VERIFICATION_ATTEMPTS
     \<and> 0 \<le> prf_challenge_count p \<and> prf_challenge_count p \<le> OTP_MAX_CHALLENGES
     \<and> (prf_verification_attempt_count p = OTP_MAX_VERIFICATION_ATTEMPTS \<longrightarrow>
          prf_verification_locked_at p \<noteq> None)"

definition proofs_ok :: "'m database_scheme \<Rightarrow> bool" where
  "proofs_ok d \<longleftrightarrow> (\<forall>p \<in> set (delivery_proofs d). proof_ok p)"

lemma proofs_ok_same: "delivery_proofs d' = delivery_proofs d \<Longrightarrow> proofs_ok d' = proofs_ok d"
  by (simp add: proofs_ok_def)

interpretation proofs: untouched_by_orders delivery_proofs
  by unfold_locales
    (auto dest: ensure_refund_frame ensure_settlement_frame restore_once_frame same_core_tables(14)
      simp: annotate_order_transition_def annotate_delivery_transition_def)

lemma proofs_carts [simp]:
  "delivery_proofs (snd (get_or_create_cart uid d)) = delivery_proofs d"
  "delivery_proofs (flush_cart c d) = delivery_proofs d"
  "delivery_proofs (set_cart_quantity c k q d) = delivery_proofs d"
  "delivery_proofs (delete_cart_items P d) = delivery_proofs d"
  by (simp_all add: get_or_create_cart_def flush_cart_def set_cart_quantity_def delete_cart_items_def
      Let_def split: option.split)

lemma proofs_cart_handlers [simp]:
  "delivery_proofs (snd (add_cart_item u k q d)) = delivery_proofs d"
  "delivery_proofs (snd (remove_cart_item u k d)) = delivery_proofs d"
  "delivery_proofs (snd (clear_cart u d)) = delivery_proofs d"
  "delivery_proofs (snd (get_cart u d)) = delivery_proofs d"
  by (simp_all add: add_cart_item_def remove_cart_item_def clear_cart_def get_cart_def attempt_def Let_def
      case_prod_beta split: option.split sum.split)

lemma proofs_checkout [simp]:
  "delivery_proofs (snd (safe_checkout g cfg now stamp token u key aid m d)) = delivery_proofs d"
proof (cases rule: safe_checkout_cases [of key d u g cfg now stamp token aid m])
  case (placed key' a c s items subtotal d')
  from placed(5) have "delivery_proofs d' = delivery_proofs d"
    by (rule place_order_shelf) (auto dest: place_items_rest)
  with placed(6) show ?thesis by simp
qed simp_all

lemma proofs_cod [simp]:
  "delivery_proofs (snd (record_cod_collection now req_id u did amount d)) = delivery_proofs d"
  by (auto simp: record_cod_collection_def attempt_def Let_def split: sum.split option.split
      dest!: proofs.part_admin)

section \<open>The two writers\<close>

lemma proofs_ok_flush: "proofs_ok d \<Longrightarrow> proof_ok p \<Longrightarrow> proofs_ok (flush_proof now p d)"
  by (auto simp: proofs_ok_def flush_proof_def proof_ok_def dest!: in_put_row_cases)

lemma proof_of_delivery_in: "proof_of_delivery d did = Some p \<Longrightarrow> p \<in> set (delivery_proofs d)"
  by (auto simp: proof_of_delivery_def dest: find_Some_in)

lemma proof_ok_row: "proofs_ok d \<Longrightarrow> proof_of_delivery d did = Some p \<Longrightarrow> proof_ok p"
  by (auto simp: proofs_ok_def dest: proof_of_delivery_in)

lemma challenge_allowedD:
  "proof_challenge_allowed now p = Inr () \<Longrightarrow>
     prf_verified_at p = None \<and> \<not> proof_locked p \<and> prf_challenge_count p < OTP_MAX_CHALLENGES
     \<and> (case prf_last_challenge_at p of Some t \<Rightarrow> t | None \<Rightarrow> prf_updated_at p)
         + seconds OTP_RESEND_COOLDOWN_SECONDS \<le> now"
  by (auto simp: proof_challenge_allowed_def require_unlocked_proof_def Let_def split: if_splits)

lemma proofs_store_challenge:
  assumes "proofs_ok d"
    and "(case proof_of_delivery d did of None \<Rightarrow> Inr () | Some p \<Rightarrow> proof_challenge_allowed now p) = Inr ()"
  shows "proofs_ok (store_challenge h now otp expires did d)"
proof (cases "proof_of_delivery d did")
  case None
  with assms(1) show ?thesis
    by (auto simp: store_challenge_def proofs_ok_def proof_ok_def OTP_MAX_VERIFICATION_ATTEMPTS_def
        OTP_MAX_CHALLENGES_def)
next
  case (Some p)
  with assms have "proof_ok p" "prf_challenge_count p < OTP_MAX_CHALLENGES"
    by (auto dest: proof_ok_row challenge_allowedD)
  with Some assms(1) show ?thesis by (auto simp: store_challenge_def proof_ok_def intro!: proofs_ok_flush)
qed

lemma proofs_ok_enqueue [simp]: "proofs_ok (enqueue_notification now i e t b dt d) = proofs_ok d"
  by (rule proofs_ok_same) simp

lemma proofs_ok_admin: "record_admin_action a b c e f g h i j d = Inr d' \<Longrightarrow> proofs_ok d' = proofs_ok d"
  by (rule proofs_ok_same) (rule proofs.part_admin)

lemma proofs_challenge:
  "proofs_ok d \<Longrightarrow> proofs_ok (snd (issue_delivery_proof_challenge h rate n now req_id u did d))"
  by (auto simp: issue_delivery_proof_challenge_def attempt_def Let_def proofs_store_challenge
      split: sum.split dest!: proofs_ok_admin)

text \<open>A wrong guess spends one attempt; the fifth locks the code.\<close>

lemma failed_guess_ok:
  "proof_ok p \<Longrightarrow> \<not> proof_locked p \<Longrightarrow> proof_ok (failed_guess now p)"
  by (auto simp: failed_guess_def proof_ok_def proof_locked_def Let_def)

lemma require_unlockedD: "require_unlocked_proof p = Inr () \<longleftrightarrow> \<not> proof_locked p"
  by (simp add: require_unlocked_proof_def)

lemma verified_ok:
  "proof_ok p \<Longrightarrow> proof_ok (p\<lparr>prf_verified_at := v, prf_evidence_url := e, prf_recipient_name := n,
     prf_notes := t\<rparr>)"
  by (simp add: proof_ok_def)

lemma proofs_verify:
  assumes ok: "proofs_ok d"
  shows "proofs_ok (snd (verify_delivery_proof h rate now req_id u did otp ev rn nt d))"
  using ok
  by (auto simp: verify_delivery_proof_def attempt_def Let_def require_unlockedD split: sum.split option.split
      intro!: proofs_ok_flush failed_guess_ok verified_ok
      dest: proof_ok_row dest!: proofs_ok_admin)

section \<open>The budget is spent, never refilled\<close>

text \<open>The wrong guesses recorded for a delivery.\<close>

definition guesses :: "'m database_scheme \<Rightarrow> uuid \<Rightarrow> int" where
  "guesses d did = (case proof_of_delivery d did of None \<Rightarrow> 0 | Some p \<Rightarrow> prf_verification_attempt_count p)"

lemma guesses_same: "delivery_proofs d' = delivery_proofs d \<Longrightarrow> guesses d' = guesses d"
  by (simp add: guesses_def proof_of_delivery_def fun_eq_iff)

lemma find_put_row:
  "find P t = Some p \<Longrightarrow> P q \<Longrightarrow> key q = key p \<Longrightarrow> find P (put_row key q t) = Some q"
  by (induction t) (auto split: if_splits)

lemma flush_proof_read:
  "proof_of_delivery d did = Some p \<Longrightarrow> prf_id q = prf_id p \<Longrightarrow> prf_delivery_id q = did \<Longrightarrow>
     proof_of_delivery (flush_proof now q d) did = Some (q\<lparr>prf_updated_at := now\<rparr>)"
  by (simp add: proof_of_delivery_def flush_proof_def find_put_row [where p = p])

lemma proof_of_deliveryD: "proof_of_delivery d did = Some p \<Longrightarrow> prf_delivery_id p = did"
  by (auto simp: proof_of_delivery_def dest: find_Some_in)

lemma guesses_store_challenge [simp]: "guesses (store_challenge h now otp e did d) did = guesses d did"
proof (cases "proof_of_delivery d did")
  case None
  then show ?thesis
    by (simp add: guesses_def store_challenge_def proof_of_delivery_def find_append)
next
  case (Some p)
  then show ?thesis
    by (simp add: guesses_def store_challenge_def flush_proof_read [OF Some] proof_of_deliveryD)
qed

lemma guesses_challenge:
  "guesses (snd (issue_delivery_proof_challenge h rate n now req_id u did d)) did = guesses d did"
proof -
  have enq: "guesses (enqueue_notification now2 i e t b dt d1) = guesses d1"
    for now2 i e t b dt and d1 :: "'a database_scheme"
    by (rule guesses_same) simp
  have admin: "record_admin_action a b c e f g k i j d1 = Inr d2 \<Longrightarrow> guesses d2 = guesses d1"
    for a b c e f g k i j and d1 d2 :: "'a database_scheme"
    by (rule guesses_same) (rule proofs.part_admin)
  have id: "dlv_id x = did" if "locked_delivery_order d did = Inr (x, o1)" for x o1
    using that by (auto simp: locked_delivery_order_def split: option.splits)
  show ?thesis
    by (auto simp: issue_delivery_proof_challenge_def attempt_def Let_def enq split: sum.split
        dest!: admin dest: id)
qed

text \<open>A code whose budget is spent accepts nothing, the right code included.\<close>

lemma locked_orderD: "locked_delivery_order d did = Inr (x, o1) \<Longrightarrow> dlv_id x = did"
  by (auto simp: locked_delivery_order_def split: option.splits)

lemma attempt_refused:
  "(\<And>x. r = Inr x \<Longrightarrow> \<exists>e. k x = (Inl e, d)) \<Longrightarrow> \<exists>e. attempt r d k = (Inl e, d)"
  by (cases r) (auto simp: attempt_def)

lemma locked_proof_refuses:
  assumes "proof_of_delivery d did = Some p" and "proof_locked p" and "prf_verified_at p = None"
  shows "\<exists>e. verify_delivery_proof h rate now req_id u did otp ev rn nt d = (Inl e, d)"
    and "\<exists>e. issue_delivery_proof_challenge h rate n now req_id u did d = (Inl e, d)"
  unfolding verify_delivery_proof_def issue_delivery_proof_challenge_def
  using assms
  by (auto intro!: attempt_refused dest!: locked_orderD
      simp: require_unlocked_proof_def proof_challenge_allowed_def raise_http_def)

lemma wrong_guess_spends:
  assumes p: "proof_of_delivery d did = Some p" and "prf_verified_at p = None" and "prf_otp_hash p \<noteq> h otp"
    and "verify_delivery_proof h rate now req_id u did otp ev rn nt d = (r, d')"
  shows "(\<exists>e. r = Inl e) \<and> (d' = d \<or> guesses d' did = guesses d did + 1)"
proof -
  have "guesses (flush_proof now (failed_guess now p) d) did = guesses d did + 1"
    using p by (simp add: guesses_def flush_proof_read [OF p] failed_guess_def Let_def proof_of_deliveryD)
  with assms show ?thesis
    by (auto simp: verify_delivery_proof_def attempt_def raise_http_def Let_def
        split: sum.splits if_splits dest!: locked_orderD)
qed

end
