(* ===== verification/Admin_Ops.thy ===== *)
theory Admin_Ops
  imports Shelf Riders Proofs "HOL-Library.Char_ord" "HOL-Library.List_Lexorder"
begin

text \<open>
  The administration routes, \<open>routes/admin.py\<close> and the read endpoints of
  \<open>routes/admin_merchant_details.py\<close>: users and their roles, manual assignment of riders, the
  operations queues and the overview. Rows without a modelled \<open>created_at\<close> are listed newest
  first by their position in the table. Lemmas: the two writers of deliveries follow the
  fulfilment machine and keep riders exclusive.
\<close>

definition page :: "int \<Rightarrow> int \<Rightarrow> 'r list \<Rightarrow> 'r list" where
  "page limit offset rows = take (nat limit) (drop (nat offset) rows)"

definition valid_page :: "int \<Rightarrow> int \<Rightarrow> int \<Rightarrow> bool" where
  "valid_page most limit offset \<longleftrightarrow> 1 \<le> limit \<and> limit \<le> most \<and> 0 \<le> offset"

section \<open>Users\<close>

definition flush_user :: "user \<Rightarrow> 'm database_scheme \<Rightarrow> 'm database_scheme" where
  "flush_user u d = d\<lparr>users := put_row usr_id u (users d)\<rparr>"

definition admin_users :: "int \<Rightarrow> int \<Rightarrow> user \<Rightarrow> (user list, 'm) handler" where
  "admin_users limit offset admin d =
     attempt (require_capability USER_READ admin) d (\<lambda>_.
     if \<not> valid_page 500 limit offset then raise_http 422 ''limit'' d
     else (Inr (page limit offset (rev (users d))), d))"

definition admin_audit_events ::
  "int \<Rightarrow> int \<Rightarrow> user \<Rightarrow> (administrative_audit_event list, 'm) handler" where
  "admin_audit_events limit offset admin d =
     attempt (require_capability AUDIT_READ admin) d (\<lambda>_.
     if \<not> valid_page 500 limit offset then raise_http 422 ''limit'' d
     else (Inr (page limit offset (rev (administrative_audit_events d))), d))"

definition access_state :: "user \<Rightarrow> dict" where
  "access_state u = [(''role'', JStr (user_role_value (usr_role u))), (''is_active'', JBool (usr_is_active u)),
     (''is_verified'', JBool (usr_is_verified u))]"

definition update_access_tx ::
  "string \<Rightarrow> user \<Rightarrow> user \<Rightarrow> user_role \<Rightarrow> bool \<Rightarrow> 'm database_scheme \<Rightarrow> 'm database_scheme res" where
  "update_access_tx req_id admin u role is_active d =
     (let u1 = u\<lparr>usr_role := role, usr_is_active := is_active\<rparr>
      in record_admin_action req_id admin ''user.access_updated'' ADMIN_MANAGE ''user'' (usr_id u)
           (access_state u) (access_state u1) (Some ''administrator_access_management'') (flush_user u1 d))"

definition access_guards :: "user \<Rightarrow> user \<Rightarrow> user_role \<Rightarrow> bool \<Rightarrow> unit res" where
  "access_guards admin u role is_active =
     (if usr_is_super_admin u then
        res_bind (ensure_capability admin ADMIN_MANAGE) (\<lambda>_.
        if usr_id u \<noteq> usr_id admin \<or> role \<noteq> ADMIN \<or> \<not> is_active
        then Inl (HTTPException 403 ''Super Admin account is protected'') else Inr ())
      else
        res_bind (if role \<noteq> usr_role u \<or> usr_role u = ADMIN then ensure_capability admin ADMIN_MANAGE
                  else Inr admin) (\<lambda>_.
        if usr_id u = usr_id admin \<and> (role \<noteq> ADMIN \<or> \<not> is_active)
        then Inl (HTTPException 400 ''You cannot remove or deactivate your own admin access'') else Inr ()))"

text \<open>A permitted request for a super administrator's account changes nothing.\<close>

definition admin_update_user ::
  "string \<Rightarrow> user \<Rightarrow> uuid \<Rightarrow> user_role \<Rightarrow> bool \<Rightarrow> (user, 'm) handler" where
  "admin_update_user req_id admin user_id role is_active d =
     attempt (require_capability ADMIN_MANAGE admin) d (\<lambda>_.
     case get_user d user_id of
       None \<Rightarrow> raise_http 404 ''User not found'' d
     | Some u \<Rightarrow>
         attempt (access_guards admin u role is_active) d (\<lambda>_.
         if usr_is_super_admin u then (Inr u, d)
         else attempt (update_access_tx req_id admin u role is_active d) d (\<lambda>d1.
              refresh get_user user_id d1)))"

section \<open>Deliveries\<close>

definition ACTIVE_DELIVERY_STATUSES :: "delivery_status list" where
  "ACTIVE_DELIVERY_STATUSES = [ASSIGNED, PICKED_UP]"

record admin_delivery_read =
  adl_id :: uuid
  adl_order_id :: uuid
  adl_order_number :: "string option"
  adl_delivery_partner_id :: "uuid option"
  adl_rider_name :: "string option"
  adl_rider_phone :: "string option"
  adl_status :: delivery_status
  adl_assigned_at :: "timestamp option"
  adl_picked_up_at :: "timestamp option"
  adl_failed_at :: "timestamp option"
  adl_failure_reason :: "string option"
  adl_failure_notes :: "string option"
  adl_store_name :: "string option"
  adl_store_landmark :: "string option"
  adl_customer_landmark :: "string option"

definition delivery_payload :: "'m database_scheme \<Rightarrow> delivery \<Rightarrow> admin_delivery_read" where
  "delivery_payload d x =
     (let o1 = get_order d (dlv_order_id x);
          s = Option.bind o1 (\<lambda>o2. get_store d (ord_store_id o2));
          a = Option.bind o1 (\<lambda>o2. get_address d (ord_address_id o2));
          rider = Option.bind (dlv_delivery_partner_id x) (get_user d)
      in \<lparr>adl_id = dlv_id x, adl_order_id = dlv_order_id x,
          adl_order_number = map_option ord_order_number o1,
          adl_delivery_partner_id = dlv_delivery_partner_id x,
          adl_rider_name = Option.bind rider usr_full_name, adl_rider_phone = Option.bind rider usr_phone,
          adl_status = dlv_status x, adl_assigned_at = dlv_assigned_at x,
          adl_picked_up_at = dlv_picked_up_at x, adl_failed_at = dlv_failed_at x,
          adl_failure_reason = dlv_failure_reason x, adl_failure_notes = dlv_failure_notes x,
          adl_store_name = map_option sto_name s, adl_store_landmark = Option.bind s sto_landmark,
          adl_customer_landmark = map_option adr_landmark a\<rparr>)"

definition admin_active_deliveries :: "int \<Rightarrow> user \<Rightarrow> (admin_delivery_read list, 'm) handler" where
  "admin_active_deliveries limit admin d =
     attempt (require_capability RIDER_READ admin) d (\<lambda>_.
     if \<not> valid_page 500 limit 0 then raise_http 422 ''limit'' d
     else (Inr (map (delivery_payload d) (page limit 0 (rev (sort_key dlv_updated_at
            (filter (\<lambda>x. dlv_status x \<in> set ACTIVE_DELIVERY_STATUSES) (deliveries d)))))), d))"

text \<open>PostgreSQL puts missing values first in a descending order.\<close>

definition failed_order :: "delivery \<Rightarrow> (bool \<times> timestamp) \<times> timestamp" where
  "failed_order x =
     ((case dlv_failed_at x of None \<Rightarrow> (True, 0) | Some t \<Rightarrow> (False, t)), dlv_updated_at x)"

definition admin_failed_deliveries :: "int \<Rightarrow> user \<Rightarrow> (admin_delivery_read list, 'm) handler" where
  "admin_failed_deliveries limit admin d =
     attempt (require_capability RIDER_READ admin) d (\<lambda>_.
     if \<not> valid_page 500 limit 0 then raise_http 422 ''limit'' d
     else (Inr (map (delivery_payload d) (page limit 0 (rev (sort_key failed_order
            (filter (\<lambda>x. dlv_status x = FAILED \<and>
                (case get_order d (dlv_order_id x) of None \<Rightarrow> False | Some o1 \<Rightarrow> ord_status o1 \<noteq> RETURNED))
              (deliveries d)))))), d))"

definition admin_assign_tx ::
  "timestamp \<Rightarrow> string \<Rightarrow> user \<Rightarrow> user \<Rightarrow> delivery \<Rightarrow> order \<Rightarrow> 'm database_scheme \<Rightarrow> 'm database_scheme res" where
  "admin_assign_tx now req_id admin rider x o1 d =
     res_bind (claimed now (usr_id rider) x) (\<lambda>y.
     record_admin_action req_id admin ''delivery.assigned'' RIDER_OPERATIONS ''delivery'' (dlv_id y)
       [(''status'', JStr (delivery_status_value UNASSIGNED)), (''delivery_partner_id'', JNull)]
       [(''status'', JStr (delivery_status_value (dlv_status y))), (''delivery_partner_id'', JId (usr_id rider))]
       (Some ''manual_rider_assignment'')
       (notify_assigned_rider now rider y o1 (notify_assigned_customer now rider y o1 (flush_delivery now y d))))"

definition assignable_rider :: "'m database_scheme \<Rightarrow> uuid \<Rightarrow> user option" where
  "assignable_rider d rider_id =
     (case get_user d rider_id of
        None \<Rightarrow> None
      | Some u \<Rightarrow> if usr_role u \<noteq> DELIVERY \<or> \<not> usr_is_active u \<or> \<not> usr_is_verified u then None else Some u)"

definition delivery_result :: "uuid \<Rightarrow> (admin_delivery_read, 'm) handler" where
  "delivery_result delivery_id d =
     (case refresh get_delivery delivery_id d of
        (Inl e, d1) \<Rightarrow> (Inl e, d1) | (Inr x, d1) \<Rightarrow> (Inr (delivery_payload d1 x), d1))"

definition admin_assign_delivery ::
  "timestamp \<Rightarrow> string \<Rightarrow> user \<Rightarrow> uuid \<Rightarrow> uuid \<Rightarrow> (admin_delivery_read, 'm) handler" where
  "admin_assign_delivery now req_id admin delivery_id rider_id d =
     attempt (require_capability RIDER_OPERATIONS admin) d (\<lambda>_.
     case get_delivery d delivery_id of
       None \<Rightarrow> raise_http 404 ''Delivery not found'' d
     | Some x \<Rightarrow>
         (case (if dlv_status x \<noteq> UNASSIGNED then None else get_order d (dlv_order_id x)) of
            None \<Rightarrow> raise_http 409 ''Delivery is no longer available for assignment'' d
          | Some o1 \<Rightarrow>
              if ord_status o1 \<noteq> READY \<or> \<not> payment_allows_fulfillment o1
              then raise_http 409 ''Delivery is no longer available for assignment'' d
              else (case assignable_rider d rider_id of
                  None \<Rightarrow> raise_http 422 ''Select an active verified delivery partner'' d
                | Some rider \<Rightarrow>
                    if \<exists>z \<in> set (deliveries d). dlv_delivery_partner_id z = Some (usr_id rider)
                         \<and> dlv_status z \<in> set ACTIVE_DELIVERY_STATUSES \<and> dlv_id z \<noteq> dlv_id x
                    then raise_http 409 ''Rider already has an active delivery'' d
                    else attempt (admin_assign_tx now req_id admin rider x o1 d) d (\<lambda>d1.
                         delivery_result delivery_id d1))))"

definition admin_unassign_tx ::
  "timestamp \<Rightarrow> string \<Rightarrow> user \<Rightarrow> delivery \<Rightarrow> order \<Rightarrow> 'm database_scheme \<Rightarrow> 'm database_scheme res" where
  "admin_unassign_tx now req_id admin x o1 d =
     res_bind (transition_delivery (x\<lparr>dlv_delivery_partner_id := None\<rparr>) UNASSIGNED) (\<lambda>x1.
     let x2 = x1\<lparr>dlv_assigned_at := None\<rparr>;
         d1 = flush_delivery now x2 d;
         d2 = (case dlv_delivery_partner_id x of
                 None \<Rightarrow> d1
               | Some rider_id \<Rightarrow>
                   enqueue_notification now rider_id ''delivery.task_unassigned'' ''Delivery reassigned''
                     (''Order '' @ ord_order_number o1 @ '' is no longer assigned to you.'') (task_data x2 o1) d1);
         d3 = enqueue_notification now (ord_user_id o1) ''delivery.reassignment''
                ''Delivery partner is being reassigned''
                (''We are assigning another delivery partner to order '' @ ord_order_number o1 @ ''.'')
                (task_data x2 o1) d2
     in record_admin_action req_id admin ''delivery.unassigned'' RIDER_OPERATIONS ''delivery'' (dlv_id x2)
          [(''status'', JStr (delivery_status_value ASSIGNED)),
           (''delivery_partner_id'', case dlv_delivery_partner_id x of None \<Rightarrow> JNull | Some i \<Rightarrow> JId i)]
          [(''status'', JStr (delivery_status_value (dlv_status x2))), (''delivery_partner_id'', JNull)]
          (Some ''manual_rider_unassignment'') d3)"

definition admin_unassign_delivery ::
  "timestamp \<Rightarrow> string \<Rightarrow> user \<Rightarrow> uuid \<Rightarrow> (admin_delivery_read, 'm) handler" where
  "admin_unassign_delivery now req_id admin delivery_id d =
     attempt (require_capability RIDER_OPERATIONS admin) d (\<lambda>_.
     case get_delivery d delivery_id of
       None \<Rightarrow> raise_http 404 ''Delivery not found'' d
     | Some x \<Rightarrow>
         if dlv_status x \<noteq> ASSIGNED
         then raise_http 409 ''Only a delivery awaiting pickup can be unassigned'' d
         else (case get_order d (dlv_order_id x) of
             None \<Rightarrow> raise_http 409 ''Delivery order is missing'' d
           | Some o1 \<Rightarrow>
               if ord_status o1 \<noteq> READY
               then raise_http 409 ''Only a ready order can be reassigned before pickup'' d
               else attempt (admin_unassign_tx now req_id admin x o1 d) d (\<lambda>d1.
                    delivery_result delivery_id d1)))"

section \<open>The overview\<close>

record overview =
  ovw_users :: nat
  ovw_villages :: nat
  ovw_active_stores :: nat
  ovw_pending_merchants :: nat
  ovw_approved_merchants :: nat
  ovw_suspended_merchants :: nat
  ovw_total_orders :: nat
  ovw_orders_by_status :: "(string \<times> nat) list"
  ovw_low_stock_listings :: nat
  ovw_ready_unassigned :: nat
  ovw_active_delivery_partners :: nat
  ovw_financials_visible :: bool
  ovw_paid_gmv :: "money option"
  ovw_gross_order_value :: "money option"

definition count_rows :: "('r \<Rightarrow> bool) \<Rightarrow> 'r list \<Rightarrow> nat" where
  "count_rows P rows = length (filter P rows)"

definition ORDER_STATUSES :: "order_status list" where
  "ORDER_STATUSES = [PLACED, ACCEPTED, PREPARING, READY, OUT_FOR_DELIVERY, DELIVERED, RETURNED, CANCELLED]"

definition money_total :: "(order \<Rightarrow> bool) \<Rightarrow> order list \<Rightarrow> money" where
  "money_total P os = sum_list (map ord_total (filter P os))"

definition admin_overview :: "user \<Rightarrow> (overview, 'm) handler" where
  "admin_overview admin d =
     attempt (require_capability ORDER_READ admin) d (\<lambda>_.
     let merchants_in = (\<lambda>s. count_rows (\<lambda>m. mer_status m = s) (merchants d));
         financials = has_capability admin PAYMENT_READ
     in (Inr \<lparr>ovw_users = length (users d), ovw_villages = count_rows vil_is_active (villages d),
          ovw_active_stores = count_rows (\<lambda>s. sto_is_active s \<and>
            (case get_merchant d (sto_merchant_id s) of None \<Rightarrow> False | Some m \<Rightarrow> mer_status m = APPROVED)) (stores d),
          ovw_pending_merchants = merchants_in MERCHANT_PENDING,
          ovw_approved_merchants = merchants_in APPROVED, ovw_suspended_merchants = merchants_in SUSPENDED,
          ovw_total_orders = length (orders d),
          ovw_orders_by_status = map (\<lambda>s. (order_status_value s, count_rows (\<lambda>o1. ord_status o1 = s) (orders d)))
            ORDER_STATUSES,
          ovw_low_stock_listings = count_rows (\<lambda>l. lst_stock_quantity l \<le> 5 \<and> lst_is_available l) (store_products d),
          ovw_ready_unassigned = count_rows (\<lambda>x. dlv_status x = UNASSIGNED \<and>
            (case get_order d (dlv_order_id x) of None \<Rightarrow> False | Some o1 \<Rightarrow> ord_status o1 = READY)) (deliveries d),
          ovw_active_delivery_partners = count_rows (\<lambda>u. usr_role u = DELIVERY \<and> usr_is_active u) (users d),
          ovw_financials_visible = financials,
          ovw_paid_gmv = (if financials then Some (money_total (\<lambda>o1. ord_payment_status o1 = PAID) (orders d)) else None),
          ovw_gross_order_value =
            (if financials then Some (money_total (\<lambda>o1. ord_status o1 \<noteq> CANCELLED) (orders d)) else None)\<rparr>, d))"

record performance_read =
  pfm_window_days :: int
  pfm_total_records :: nat
  pfm_delivered :: nat
  pfm_failed :: nat
  pfm_active :: nat
  pfm_assignment_to_pickup :: "int option"
  pfm_pickup_to_delivery :: "int option"

definition admin_delivery_performance ::
  "timestamp \<Rightarrow> int \<Rightarrow> user \<Rightarrow> (performance_read, 'm) handler" where
  "admin_delivery_performance now window_days admin d =
     attempt (require_capability RIDER_READ admin) d (\<lambda>_.
     if \<not> valid_page 180 window_days 0 then raise_http 422 ''window_days'' d
     else
       let since = now - seconds (86400 * window_days);
           rows = filter (\<lambda>x. since \<le> dlv_updated_at x) (deliveries d);
           p = summarize_delivery_performance rows
       in (Inr \<lparr>pfm_window_days = window_days, pfm_total_records = length rows,
            pfm_delivered = prf_sample_count p, pfm_failed = count_rows (\<lambda>x. dlv_status x = FAILED) rows,
            pfm_active = count_rows (\<lambda>x. dlv_status x \<in> set ACTIVE_DELIVERY_STATUSES) rows,
            pfm_assignment_to_pickup = prf_assignment_to_pickup p,
            pfm_pickup_to_delivery = prf_pickup_to_delivery p\<rparr>, d))"

section \<open>One merchant, and the health of the outbox\<close>

record merchant_store_read =
  mst_id :: uuid
  mst_name :: string
  mst_phone :: "string option"
  mst_landmark :: "string option"
  mst_is_active :: bool
  mst_delivery_enabled :: bool
  mst_orders :: nat
  mst_listings :: nat

record merchant_details_read =
  mdt_merchant :: merchant
  mdt_owner :: "user option"
  mdt_stores :: "merchant_store_read list"

definition merchant_details :: "user \<Rightarrow> uuid \<Rightarrow> (merchant_details_read, 'm) handler" where
  "merchant_details admin merchant_id d =
     attempt (require_capability MERCHANT_READ admin) d (\<lambda>_.
     case get_merchant d merchant_id of
       None \<Rightarrow> raise_http 404 ''Merchant not found'' d
     | Some m \<Rightarrow>
         (Inr \<lparr>mdt_merchant = m, mdt_owner = get_user d (mer_owner_user_id m),
            mdt_stores = map (\<lambda>s.
              \<lparr>mst_id = sto_id s, mst_name = sto_name s, mst_phone = sto_phone s, mst_landmark = sto_landmark s,
               mst_is_active = sto_is_active s, mst_delivery_enabled = sto_delivery_enabled s,
               mst_orders = count_rows (\<lambda>o1. ord_store_id o1 = sto_id s) (orders d),
               mst_listings = count_rows (\<lambda>l. lst_store_id l = sto_id s) (store_products d)\<rparr>)
              (sort_key sto_name
                (filter (\<lambda>s. sto_merchant_id s = mer_id m) (stores d)))\<rparr>, d))"

text \<open>Counts per kind and status of the events that announce work; no bodies, no tokens.\<close>

definition WATCHED_EVENTS :: "string list" where
  "WATCHED_EVENTS =
     [''merchant.order_received'', ''merchant.new_order'', ''delivery.task_assigned'', ''delivery.assigned'']"

definition notification_health ::
  "user \<Rightarrow> ((string \<times> (string \<times> nat) list) list \<times> nat, 'm) handler" where
  "notification_health admin d =
     attempt (require_capability NOTIFICATION_OPERATIONS admin) d (\<lambda>_.
     let rows = filter (\<lambda>e. ntf_event_type e \<in> set WATCHED_EVENTS) (notification_events d);
         per_type = (\<lambda>t. filter (\<lambda>e. ntf_event_type e = t) rows)
     in (Inr (map (\<lambda>t. (t, map (\<lambda>s. (s, count_rows (\<lambda>e. ntf_status e = s) (per_type t)))
                          (remdups (map ntf_status (per_type t)))))
               (remdups (map ntf_event_type rows)),
              count_rows dev_is_active (device_registrations d)), d))"

section \<open>Assignment follows the machine and keeps riders exclusive\<close>

lemma step_ok_flush_user: "step_ok d (flush_user u d)"
  by (rule step_ok_frame) (simp_all add: flush_user_def refund_idents_def)

lemma step_ok_update_access: "update_access_tx req_id admin u r b d = Inr d' \<Longrightarrow> step_ok d d'"
  by (auto simp: update_access_tx_def Let_def dest!: step_ok_admin intro: step_ok_trans [OF step_ok_flush_user])

lemma step_ok_update_user: "step_ok d (snd (admin_update_user req_id admin i r b d))"
  by (auto simp: admin_update_user_def attempt_def split: sum.split option.split intro: step_ok_update_access)

lemma snd_delivery_result [simp]: "snd (delivery_result i d) = d"
  by (simp add: delivery_result_def refresh_def split: option.split)

lemma step_ok_notify_assigned:
  "step_ok d (notify_assigned_customer now u x o1 d)" "step_ok d (notify_assigned_rider now u x o1 d)"
  by (simp_all add: notify_assigned_customer_def notify_assigned_rider_def step_ok_enqueue)

lemma step_ok_admin_assign_tx:
  assumes "get_delivery d did = Some x" "get_order d (dlv_order_id x) = Some o1"
    and "ord_status o1 = READY" "payment_allows_fulfillment o1"
    and c: "admin_assign_tx now req_id admin rider x o1 d = Inr d'"
  shows "step_ok d d'"
proof -
  obtain y where y: "claimed now (usr_id rider) x = Inr y"
    and d': "step_ok (notify_assigned_rider now rider y o1 (notify_assigned_customer now rider y o1
        (flush_delivery now y d))) d'"
    using c by (auto simp: admin_assign_tx_def res_bind_Inr dest!: step_ok_admin)
  show ?thesis
    by (rule step_ok_trans [OF step_ok_claim [OF assms(1-4) y] step_ok_trans [OF step_ok_notify_assigned(1)
        step_ok_trans [OF step_ok_notify_assigned(2) d']]])
qed

lemma step_ok_admin_assign: "step_ok d (snd (admin_assign_delivery now req_id admin did rid d))"
  by (auto simp: admin_assign_delivery_def attempt_def split: sum.split option.split
      intro: step_ok_admin_assign_tx)

lemma admin_assign_exclusive:
  assumes ex: "riders_exclusive d" shows "riders_exclusive (snd (admin_assign_delivery now req_id admin did rid d))"
proof -
  have "riders_exclusive d'"
    if x: "get_delivery d did = Some x"
      and free: "\<forall>z \<in> set (deliveries d). dlv_status z \<in> set ACTIVE_DELIVERY_STATUSES \<longrightarrow>
          dlv_delivery_partner_id z = Some (usr_id rider) \<longrightarrow> dlv_id z = dlv_id x"
      and c: "admin_assign_tx now req_id admin rider x o1 d = Inr d'" for x o1 d' rider
  proof -
    obtain y where y: "claimed now (usr_id rider) x = Inr y"
      and d': "deliveries d' = deliveries (flush_delivery now y d)"
      using c by (auto simp: admin_assign_tx_def res_bind_Inr dest!: dlv.part_admin)
    show ?thesis
      by (rule take_exclusive [where y = y and rider = "usr_id rider", OF ex _ _ d'])
        (use claimedD [OF y] free in \<open>auto simp: holder_def active_delivery_def ACTIVE_DELIVERY_STATUSES_def\<close>)
  qed
  with ex show ?thesis
    by (auto simp: admin_assign_delivery_def attempt_def split: option.split sum.split if_splits)
qed

text \<open>Releasing an assigned delivery.\<close>

lemma unassignedD:
  assumes "admin_unassign_tx now req_id admin x o1 d = Inr d'" and "dlv_status x = ASSIGNED"
  shows "same_core (flush_delivery now (x\<lparr>dlv_delivery_partner_id := None, dlv_status := UNASSIGNED,
      dlv_assigned_at := None\<rparr>) d) d'"
  using assms
  by (auto simp: admin_unassign_tx_def res_bind_Inr Let_def dest!: same_core_admin
      intro: same_core_trans [OF same_core_enqueue] same_core_trans [OF same_core_trans [OF same_core_enqueue same_core_enqueue]]
      split: option.splits)

lemma step_ok_unassign_tx:
  assumes x: "get_delivery d did = Some x" and o1: "get_order d (dlv_order_id x) = Some o1"
    and ready: "ord_status o1 = READY" and assigned: "dlv_status x = ASSIGNED"
    and c: "admin_unassign_tx now req_id admin x o1 d = Inr d'"
  shows "step_ok d d'"
proof -
  let ?y = "x\<lparr>dlv_delivery_partner_id := None, dlv_status := UNASSIGNED, dlv_assigned_at := None\<rparr>"
  have "step_ok d (flush_delivery now ?y d)"
  proof (rule step_ok_flush_delivery [OF x o1])
    fix v :: fulfilment assume "ful_delivery v = Some (delivery_part x)" "ful_status v = ord_status o1"
    then show "core_step v (v\<lparr>ful_delivery := Some (delivery_part ?y)\<rparr>)"
      using assigned ready core_step.release [of v "dlv_status x" "dlv_delivery_partner_id x"
          "dlv_picked_up_at x \<noteq> None"]
      by (simp add: delivery_part_def)
  qed (use x in auto)
  then show ?thesis by (rule step_ok_trans) (rule step_ok_same_core [OF unassignedD [OF c assigned]])
qed

lemma step_ok_unassign: "step_ok d (snd (admin_unassign_delivery now req_id admin did d))"
  by (auto simp: admin_unassign_delivery_def attempt_def split: sum.split option.split intro: step_ok_unassign_tx)

lemma unassign_fewer: "fewer d (snd (admin_unassign_delivery now req_id admin did d))"
proof -
  have "fewer d d'"
    if "get_delivery d did = Some x" "admin_unassign_tx now req_id admin x o1 d = Inr d'" "dlv_status x = ASSIGNED"
    for x o1 d'
  proof -
    let ?y = "x\<lparr>dlv_delivery_partner_id := None, dlv_status := UNASSIGNED, dlv_assigned_at := None\<rparr>"
    have "fewer d (flush_delivery now ?y d)" by (rule fewer_flush [OF that(1)]) simp_all
    then show ?thesis
      using same_core_tables(13) [OF unassignedD [OF that(2,3)]] by (simp add: fewer_def holder_def)
  qed
  then show ?thesis
    by (auto simp: admin_unassign_delivery_def attempt_def fewer_refl split: option.split sum.split)
qed

text \<open>What neither writer of deliveries touches.\<close>

context untouched_by_riders
begin

lemma part_admin_assign_tx: "admin_assign_tx now req_id admin rider x o1 d = Inr d' \<Longrightarrow> part d' = part d"
  by (auto simp: admin_assign_tx_def res_bind_Inr part_delivery dest!: part_admin)

lemma part_admin_assign [simp]: "part (snd (admin_assign_delivery now req_id admin did rid d)) = part d"
  by (auto simp: admin_assign_delivery_def attempt_def split: option.split sum.split dest: part_admin_assign_tx)

lemma part_unassign_tx:
  "admin_unassign_tx now req_id admin x o1 d = Inr d' \<Longrightarrow> dlv_status x = ASSIGNED \<Longrightarrow> part d' = part d"
  by (drule (1) unassignedD) (simp add: part_same_core part_delivery)

lemma part_unassign [simp]: "part (snd (admin_unassign_delivery now req_id admin did d)) = part d"
  by (auto simp: admin_unassign_delivery_def attempt_def split: option.split sum.split dest: part_unassign_tx)

end

lemma flush_user_frame [simp]:
  "deliveries (flush_user u d) = deliveries d" "shelf (flush_user u d) = shelf d"
  "delivery_proofs (flush_user u d) = delivery_proofs d"
  by (simp_all add: flush_user_def shelf_def)

lemma update_access_frame:
  assumes "update_access_tx req_id admin u r b d = Inr d'"
  shows "deliveries d' = deliveries d" "shelf d' = shelf d" "delivery_proofs d' = delivery_proofs d"
  using assms dlv.part_admin shelves.part_admin proofs.part_admin
  by (fastforce simp: update_access_tx_def Let_def)+

lemma update_user_cases:
  "snd (admin_update_user req_id admin i r b d) = d \<or>
     (\<exists>u. update_access_tx req_id admin u r b d = Inr (snd (admin_update_user req_id admin i r b d)))"
  by (auto simp: admin_update_user_def attempt_def split: option.split sum.split)

lemma update_user_frame:
  "deliveries (snd (admin_update_user req_id admin i r b d)) = deliveries d"
  "shelf (snd (admin_update_user req_id admin i r b d)) = shelf d"
  "delivery_proofs (snd (admin_update_user req_id admin i r b d)) = delivery_proofs d"
  using update_user_cases [of req_id admin i r b d] update_access_frame by metis+

end
