(* ===== verification/System.thy ===== *)
theory System
  imports Admin_Ops
begin

text \<open>
  The running backend: every live request and every background transaction as one step of the
  database, the two halves of a refund dispatch separately, because the provider is called
  between their commits. \<open>reachable\<close> databases start without orders. The invariants proved for
  the handlers one by one hold in every reachable database.
\<close>

section \<open>Steps\<close>

inductive live_step :: "'m database_scheme \<Rightarrow> 'm database_scheme \<Rightarrow> bool" where
  cart_read: "live_step d (snd (get_cart u d))"
| cart_add: "live_step d (snd (add_cart_item u listing q d))"
| cart_remove: "live_step d (snd (remove_cart_item u listing d))"
| cart_clear: "live_step d (snd (clear_cart u d))"
| checkout: "live_step d (snd (safe_checkout g cfg now stamp token u key address method d))"
| customer_cancel: "live_step d (snd (cancel_my_order_safely cfg post now u oid d))"
| merchant_status: "live_step d (snd (update_order_status_safely cfg post now req_id u oid target d))"
| claim: "live_step d (snd (claim_delivery now u did d))"
| delivery_status: "live_step d (snd (update_delivery_status now req_id u did dtarget d))"
| delivery_failed: "live_step d (snd (fail_delivery now req_id u did why memo url d))"
| delivery_recovered: "live_step d (snd (recover_failed_delivery now req_id u did d))"
| delivery_resolved: "live_step d (snd (resolve_failed_delivery cfg post now req_id u did how memo d))"
| challenge: "live_step d (snd (issue_delivery_proof_challenge hash rate n now req_id u did d))"
| verify_proof: "live_step d (snd (verify_delivery_proof hash rate now req_id u did otp ev rn memo d))"
| cash: "live_step d (snd (record_cod_collection now req_id u did amount d))"
| complete: "live_step d (snd (complete_delivery_with_financials now req_id u did d))"
| presence: "live_step d (snd (update_rider_presence now u lat lon online d))"
| auto_assign: "live_step d (snd (auto_assign_delivery g locked now req_id u did radius d))"
| background_dispatch:
    "live_step d (snd (dispatch_ready_deliveries g locked rows now limit radius d))"
| payment_intent: "live_step d (snd (create_payment_intent cfg rpost now u oid d))"
| payment_verify: "live_step d (snd (hardened_verify_payment cfg hmac now u aid pid sig d))"
| webhook: "live_step d (snd (hardened_razorpay_webhook cfg hmac sha256 parse now raw sig eid d))"
| refund_claimed: "live_step d (snd (dispatch_claim cfg now rid d))"
| refund_answered: "live_step d (snd (dispatch_finish now rid reply d))"
| refund_retry: "live_step d (snd (admin_retry_refund cfg post now req_id u rid d))"
| admin_assign: "live_step d (snd (admin_assign_delivery now req_id u did rider d))"
| admin_unassign: "live_step d (snd (admin_unassign_delivery now req_id u did d))"
| admin_access: "live_step d (snd (admin_update_user req_id u uid role active d))"

definition fresh_db :: "'m database_scheme \<Rightarrow> bool" where
  "fresh_db d \<longleftrightarrow> orders d = [] \<and> deliveries d = [] \<and> payment_refunds d = [] \<and> order_items d = []
     \<and> delivery_proofs d = [] \<and> shelf_ok d"

inductive reachable :: "'m database_scheme \<Rightarrow> bool" where
  start: "fresh_db d \<Longrightarrow> reachable d"
| step: "reachable d \<Longrightarrow> live_step d d' \<Longrightarrow> reachable d'"

section \<open>Carts\<close>

lemma cart_frame:
  "orders (snd (get_or_create_cart i d)) = orders d"
  "deliveries (snd (get_or_create_cart i d)) = deliveries d"
  "payment_refunds (snd (get_or_create_cart i d)) = payment_refunds d"
  "db_next_id d \<le> db_next_id (snd (get_or_create_cart i d))"
  by (simp_all add: get_or_create_cart_def Let_def split: option.split)

lemma cart_writes_frame [simp]:
  "orders (flush_cart c d) = orders d" "deliveries (flush_cart c d) = deliveries d"
  "payment_refunds (flush_cart c d) = payment_refunds d" "db_next_id (flush_cart c d) = db_next_id d"
  "orders (delete_cart_items P d) = orders d" "deliveries (delete_cart_items P d) = deliveries d"
  "payment_refunds (delete_cart_items P d) = payment_refunds d"
  "db_next_id (delete_cart_items P d) = db_next_id d"
  "orders (set_cart_quantity c k q d) = orders d" "deliveries (set_cart_quantity c k q d) = deliveries d"
  "payment_refunds (set_cart_quantity c k q d) = payment_refunds d"
  by (simp_all add: flush_cart_def delete_cart_items_def set_cart_quantity_def split: option.split)

lemma next_set_quantity: "db_next_id d \<le> db_next_id (set_cart_quantity c k q d)"
  by (simp add: set_cart_quantity_def split: option.split)

lemma cart_handlers_frame:
  "orders (snd (get_cart u d)) = orders d" "deliveries (snd (get_cart u d)) = deliveries d"
  "orders (snd (add_cart_item u k q d)) = orders d"
  "deliveries (snd (add_cart_item u k q d)) = deliveries d"
  "orders (snd (remove_cart_item u k d)) = orders d"
  "deliveries (snd (remove_cart_item u k d)) = deliveries d"
  "orders (snd (clear_cart u d)) = orders d" "deliveries (snd (clear_cart u d)) = deliveries d"
  by (simp_all add: get_cart_def add_cart_item_def remove_cart_item_def clear_cart_def attempt_def Let_def
      case_prod_beta cart_frame split: option.split sum.split)

lemma step_ok_carts:
  "step_ok d (snd (get_cart u d))" "step_ok d (snd (add_cart_item u k q d))"
  "step_ok d (snd (remove_cart_item u k d))" "step_ok d (snd (clear_cart u d))"
proof -
  have n: "db_next_id d \<le> db_next_id (set_cart_quantity c k q (flush_cart c2 (snd (get_or_create_cart i d))))"
    for c c2 i
    using order_trans [OF cart_frame(4) [of d i] next_set_quantity
        [of "flush_cart c2 (snd (get_or_create_cart i d))" c k q, simplified]] .
  note frame = step_ok_frame [OF cart_handlers_frame(1,2)] step_ok_frame [OF cart_handlers_frame(3,4)]
    step_ok_frame [OF cart_handlers_frame(5,6)] step_ok_frame [OF cart_handlers_frame(7,8)]
  note unfold = get_cart_def add_cart_item_def remove_cart_item_def clear_cart_def attempt_def Let_def
    case_prod_beta cart_frame refund_idents_def n
  show "step_ok d (snd (get_cart u d))" by (rule frame(1)) (simp_all add: unfold)
  show "step_ok d (snd (add_cart_item u k q d))"
    by (rule frame(2)) (simp_all add: unfold split: option.split sum.split)
  show "step_ok d (snd (remove_cart_item u k d))" by (rule frame(3)) (simp_all add: unfold)
  show "step_ok d (snd (clear_cart u d))" by (rule frame(4)) (simp_all add: unfold)
qed

section \<open>Every step\<close>

lemma step_ok_retry: "step_ok d (snd (admin_retry_refund cfg post now req_id u rid d))"
proof -
  have "step_ok d (flush_refund (r\<lparr>rfd_attempt_count := 0\<rparr>) d)" "step_ok d (flush_refund r d)"
    if "get_refund d rid = Some r" for r
  proof -
    from that have "rfd_id r = rid" by (auto simp: get_refund_def)
    with that show "step_ok d (flush_refund (r\<lparr>rfd_attempt_count := 0\<rparr>) d)" "step_ok d (flush_refund r d)"
      by (auto intro!: step_ok_flush_refund simp: refund_ident_def)
  qed
  note chain = step_ok_trans [OF step_ok_trans [OF this(1) step_ok_admin] step_ok_dispatch_refund]
    step_ok_trans [OF step_ok_trans [OF this(2) step_ok_admin] step_ok_dispatch_refund]
  show ?thesis
    by (auto simp: admin_retry_refund_def attempt_def Let_def split: sum.split option.split intro: chain)
qed

theorem live_step_ok: "live_step d d' \<Longrightarrow> step_ok d d'"
  by (induction rule: live_step.induct)
    (blast intro: step_ok_carts step_ok_safe_checkout step_ok_cancel_my_order_safely
      step_ok_update_order_status_safely step_ok_claim_delivery step_ok_update_delivery_status
      step_ok_fail_delivery step_ok_recover step_ok_resolve step_ok_challenge step_ok_verify step_ok_cod
      step_ok_complete_with_financials step_ok_presence step_ok_auto_assign step_ok_dispatch_ready
      step_ok_retry step_ok_intent step_ok_verify_payment step_ok_webhook step_ok_dispatch_finish
      step_ok_admin_assign step_ok_unassign step_ok_update_user
      step_ok_dispatch_claim [OF surjective_pairing])+

text \<open>The dispatch halves leave deliveries, shelf and proofs alone.\<close>

lemma claim_half:
  "deliveries (snd (dispatch_claim cfg now rid d)) = deliveries d"
  "shelf (snd (dispatch_claim cfg now rid d)) = shelf d"
  "delivery_proofs (snd (dispatch_claim cfg now rid d)) = delivery_proofs d"
  by (rule dlv.part_dispatch_claim shelves.part_dispatch_claim proofs.part_dispatch_claim,
      rule surjective_pairing)+

theorem live_step_riders:
  assumes "live_step d d'" and coh: "all_coherent d" and ex: "riders_exclusive d"
  shows "riders_exclusive d'"
  using assms(1)
proof cases
  case (claim now u did)
  with ex show ?thesis by (simp add: claim_exclusive)
next
  case (auto_assign g locked now req_id u did radius)
  with ex show ?thesis by (simp add: auto_assign_exclusive)
next
  case (background_dispatch g locked rows now limit radius)
  with ex show ?thesis by (simp add: dispatch_ready_exclusive)
next
  case (admin_assign now req_id u did rider)
  with ex show ?thesis by (simp add: admin_assign_exclusive)
next
  case (delivery_status now req_id u did dtarget)
  with coh ex show ?thesis by (auto intro: fewer_exclusive update_delivery_fewer)
qed (auto intro!: fewer_exclusive [OF _ ex] checkout_fewer fail_fewer recover_fewer resolve_fewer
    complete_fewer unassign_fewer intro: fewer_same simp: cart_handlers_frame claim_half update_user_frame)

lemma shelf_get_cart_handler: "shelf_ok (snd (get_cart u d)) = shelf_ok d"
  by (simp add: get_cart_def case_prod_beta Let_def shelf_get_cart)

theorem live_step_shelf:
  assumes "live_step d d'" and ok: "shelf_ok d" shows "shelf_ok d'"
  using assms(1)
  by cases (use ok in \<open>simp_all add: shelf_get_cart_handler shelf_add_item shelf_remove_item shelf_clear_cart
    shelf_checkout shelf_cancel shelf_update_order shelf_resolve
    shelf_ok_same [OF shelves.part_claim] shelf_ok_same [OF shelves.part_update_delivery]
    shelf_ok_same [OF shelves.part_fail] shelf_ok_same [OF shelves.part_recover]
    shelf_ok_same [OF shelves.part_complete] shelf_ok_same [OF shelves.part_rider_presence]
    shelf_ok_same [OF shelves.part_auto_assign] shelf_ok_same [OF shelves.part_dispatch_ready]
    shelf_ok_same [OF shelves.part_intent] shelf_ok_same [OF shelves.part_verify_payment]
    shelf_ok_same [OF shelves.part_razorpay_webhook] shelf_ok_same [OF claim_half(2)]
    shelf_ok_same [OF shelves.part_dispatch_finish] shelf_ok_same [OF shelves.part_retry_refund]
    shelf_ok_same [OF shelf_proof_handlers(1)] shelf_ok_same [OF shelf_proof_handlers(2)]
    shelf_ok_same [OF shelf_proof_handlers(3)] shelf_ok_same [OF shelves.part_admin_assign]
    shelf_ok_same [OF shelves.part_unassign] shelf_ok_same [OF update_user_frame(2)]\<close>)

theorem live_step_proofs:
  assumes "live_step d d'" and ok: "proofs_ok d" shows "proofs_ok d'"
  using assms(1)
proof cases
  case (challenge hash rate n now req_id u did)
  with ok show ?thesis by (simp add: proofs_challenge)
next
  case (verify_proof hash rate now req_id u did otp ev rn memo)
  with ok show ?thesis by (simp add: proofs_verify)
qed (use ok in \<open>simp_all add: proofs_ok_def claim_half update_user_frame\<close>)

section \<open>Reachable databases\<close>

definition system_inv :: "'m database_scheme \<Rightarrow> bool" where
  "system_inv d \<longleftrightarrow> all_coherent d \<and> riders_exclusive d \<and> shelf_ok d \<and> proofs_ok d"

lemma fresh_inv: "fresh_db d \<Longrightarrow> system_inv d"
  by (auto simp: fresh_db_def system_inv_def all_coherent_def tables_wf_def refunds_wf_def
      fulfilment_of_def get_order_def riders_exclusive_def holder_def proofs_ok_def)

theorem live_step_inv: "live_step d d' \<Longrightarrow> system_inv d \<Longrightarrow> system_inv d'"
  unfolding system_inv_def
  using live_step_ok step_ok_coherent live_step_riders live_step_shelf live_step_proofs by blast

theorem reachable_inv: "reachable d \<Longrightarrow> system_inv d"
  by (induction rule: reachable.induct) (auto intro: fresh_inv live_step_inv)

lemma reachable_coherent: "reachable d \<Longrightarrow> all_coherent d"
  using reachable_inv by (auto simp: system_inv_def)

text \<open>What one order of a reachable database looks like.\<close>

lemma reachable_order:
  assumes "reachable d" and "get_order d oid = Some o1"
  obtains x where "delivery_of_order d oid = Some x"
    "coherent (view_of o1 (Some x) (has_refund d oid))"
proof -
  have "coherent (view_of o1 (delivery_of_order d oid) (has_refund d oid))"
    using reachable_coherent [OF assms(1)] assms(2) by (auto simp: all_coherent_def fulfilment_of_def)
  then show ?thesis
    by (cases "delivery_of_order d oid") (auto simp: coherent_def view_of_def intro: that)
qed

text \<open>The same on the rows.\<close>

lemma coherent_row:
  assumes "coherent (view_of o1 (Some x) (has_refund d oid))"
  shows "ord_status o1 \<in> {READY, OUT_FOR_DELIVERY, DELIVERED} \<Longrightarrow> payment_allows_fulfillment o1"
    and "dlv_status x = PICKED_UP \<Longrightarrow> ord_status o1 = OUT_FOR_DELIVERY"
    and "dlv_status x = DLV_DELIVERED \<longleftrightarrow> ord_status o1 = DELIVERED"
    and "ord_status o1 = OUT_FOR_DELIVERY \<Longrightarrow> dlv_status x \<in> {PICKED_UP, FAILED}"
    and "dlv_picked_up_at x \<noteq> None \<longleftrightarrow> ord_status o1 \<in> {OUT_FOR_DELIVERY, DELIVERED, RETURNED}"
    and "ord_stock_restored_at o1 \<noteq> None \<longleftrightarrow> ord_status o1 \<in> {CANCELLED, RETURNED}"
    and "refund_of_order d oid \<noteq> None \<longleftrightarrow> ord_payment_status o1 \<in> {REFUND_PENDING, REFUNDED}"
    and "refund_of_order d oid \<noteq> None \<Longrightarrow> ord_status o1 \<in> {CANCELLED, RETURNED}"
  using coherentD [OF assms, unfolded view_of_def delivery_part_def]
  by (auto simp: gate_def payment_allows_fulfillment_def has_refund_def)

text \<open>Between two databases of a run every order moved along the machine.\<close>

lemma run_evolves:
  assumes "reachable d" and "live_step\<^sup>*\<^sup>* d d'" shows "reachable d' \<and> evolves d d'"
  using assms(2)
proof (induction rule: rtranclp_induct)
  case (step e f)
  then have "tables_wf e" using reachable_coherent by (auto simp: all_coherent_def)
  with live_step_ok [OF step.hyps(2)] have "evolves e f" by (simp add: step_ok_def)
  with step show ?case by (auto intro: reachable.step evolves_trans)
qed (use assms(1) in simp)

text \<open>What that says of one order.\<close>

lemma evolves_order:
  assumes ev: "evolves d d'" and o1: "get_order d oid = Some o1"
  shows "\<exists>o2. get_order d' oid = Some o2 \<and> ord_payment_method o2 = ord_payment_method o1
    \<and> can_transition_order\<^sup>*\<^sup>* (ord_status o1) (ord_status o2)
    \<and> (order_terminal (ord_status o1) \<longrightarrow> ord_status o2 = ord_status o1)"
proof -
  let ?v = "view_of o1 (delivery_of_order d oid) (has_refund d oid)"
  have v: "fulfilment_of d oid = Some ?v" using o1 by (simp add: fulfilment_of_def)
  have "case fulfilment_of d oid of
      Some v \<Rightarrow> \<exists>w. fulfilment_of d' oid = Some w \<and> core_step\<^sup>*\<^sup>* v w | None \<Rightarrow> True"
    using ev unfolding evolves_def by (auto split: option.split dest: spec [of _ oid])
  then obtain w where w: "fulfilment_of d' oid = Some w" "core_step\<^sup>*\<^sup>* ?v w"
    unfolding v by auto
  then obtain o2 where o2: "get_order d' oid = Some o2" "ful_status w = ord_status o2"
    "ful_method w = ord_payment_method o2" by (auto simp: fulfilment_of_def)
  from w(2) have "ful_method w = ful_method ?v"
    by (induction rule: rtranclp_induct) (simp_all add: core_step_method)
  with core_steps_status [OF w(2)] o2 show ?thesis
    by (auto dest: order_flow.terminal_forever)
qed

end
