(* ===== verification/Demo.thy ===== *)
theory Demo
  imports System
begin

text \<open>
  A concrete marketplace: one shop, two customers' worth of catalogue, two riders and two
  administrators, and a run of it from the first cart item to a delivered cash order. The
  witnesses evaluate the handlers on these databases.
\<close>

section \<open>The people and the shop\<close>

definition demo_gis :: gis where
  "demo_gis =
     \<lparr>gis_distance = (\<lambda>p q. \<bar>fst p - fst q\<bar> + \<bar>snd p - snd q\<bar>),
      gis_dwithin = (\<lambda>p q r. \<bar>fst p - fst q\<bar> + \<bar>snd p - snd q\<bar> \<le> r),
      gis_knn = (\<lambda>p q. \<bar>fst p - fst q\<bar> + \<bar>snd p - snd q\<bar>)\<rparr>"

definition person :: "uuid \<Rightarrow> user_role \<Rightarrow> bool \<Rightarrow> user" where
  "person i r super =
     \<lparr>usr_id = i, usr_phone = None, usr_full_name = None, usr_role = r, usr_is_super_admin = super,
      usr_is_active = True, usr_is_verified = True\<rparr>"

abbreviation "customer_1 \<equiv> person 1 CUSTOMER False"
abbreviation "merchant_2 \<equiv> person 2 MERCHANT False"
abbreviation "rider_3 \<equiv> person 3 DELIVERY False"
abbreviation "rider_4 \<equiv> person 4 DELIVERY False"
abbreviation "super_5 \<equiv> person 5 ADMIN True"
abbreviation "admin_6 \<equiv> person 6 ADMIN False"

definition demo_settings :: settings where
  "demo_settings =
     \<lparr>cfg_app_env = ''test'', cfg_default_delivery_fee = paise 2500, cfg_razorpay_key_id = Some ''k'',
      cfg_razorpay_key_secret = Some ''s'', cfg_razorpay_webhook_secret = Some ''w'',
      cfg_fcm_project_id = None\<rparr>"

definition demo_db :: database where
  "demo_db =
     \<lparr>users = [customer_1, merchant_2, rider_3, rider_4, super_5, admin_6],
      villages = [\<lparr>vil_id = 10, vil_name = ''V'', vil_taluka = None, vil_district = ''D'',
        vil_state = ''S'', vil_pincode = None, vil_latitude = Some 20, vil_longitude = Some 76,
        vil_is_active = True\<rparr>],
      service_areas = [\<lparr>sva_id = 11, sva_name = ''A'', sva_hub_village_id = 10, sva_radius_km = 5,
        sva_delivery_fee = Some 3000, sva_is_active = True\<rparr>],
      addresses = [\<lparr>adr_id = 12, adr_user_id = 1, adr_village_id = 10, adr_label = ''Home'',
        adr_recipient_name = None, adr_phone = None, adr_house_details = None, adr_landmark = ''L'',
        adr_directions = None, adr_latitude = Some 20, adr_longitude = Some 76,
        adr_is_default = True, adr_archived_at = None\<rparr>],
      merchants = [\<lparr>mer_id = 13, mer_owner_user_id = 2, mer_business_name = ''B'',
        mer_status = APPROVED, mer_gstin = None\<rparr>],
      stores = [\<lparr>sto_id = 14, sto_merchant_id = 13, sto_village_id = 10, sto_service_area_id = Some 11,
        sto_name = ''Shop'', sto_slug = ''shop'', sto_description = None, sto_phone = None,
        sto_landmark = None, sto_latitude = Some 20, sto_longitude = Some 76, sto_opens_at = None,
        sto_closes_at = None, sto_delivery_enabled = True, sto_pickup_enabled = False,
        sto_is_active = True\<rparr>],
      categories = [\<lparr>cat_id = 15, cat_name = ''C'', cat_slug = ''c'', cat_is_active = True\<rparr>],
      products = [\<lparr>pro_id = 16, pro_category_id = 15, pro_name = ''P'', pro_description = None,
        pro_brand = None, pro_unit = ''kg'', pro_image_url = None, pro_is_active = True\<rparr>],
      store_products = [\<lparr>lst_id = 17, lst_store_id = 14, lst_product_id = 16, lst_price = 5000,
        lst_mrp = None, lst_stock_quantity = 3, lst_is_available = True\<rparr>],
      carts = [], cart_items = [], orders = [], order_items = [], deliveries = [],
      delivery_proofs = [], status_transition_events = [], payment_attempts = [],
      payment_webhook_events = [], settlement_entries = [], payment_refunds = [],
      settlement_adjustments = [], cod_collections = [], device_registrations = [],
      notification_events = [],
      rider_presences = [\<lparr>rpr_rider_id = 4, rpr_latitude = 20, rpr_longitude = 76,
        rpr_is_online = True, rpr_last_seen_at = 0\<rparr>],
      administrative_audit_events = [], db_next_id = 100\<rparr>"

section \<open>A run\<close>

text \<open>The order is row 102 and its delivery row 104.\<close>

definition demo_cart :: database where
  "demo_cart = snd (add_cart_item customer_1 17 2 demo_db)"

definition demo_placed :: "payment_method \<Rightarrow> database" where
  "demo_placed m =
     snd (safe_checkout demo_gis demo_settings 0 ''0'' ''A'' customer_1 (Some ''k'') 12 m demo_cart)"

definition no_provider :: "refund_request \<Rightarrow> refund_payload provider_reply" where
  "no_provider r = Transport_Error"

definition demo_status :: "order_status \<Rightarrow> database \<Rightarrow> database" where
  "demo_status s d = snd (update_order_status_safely demo_settings no_provider 1 ''r'' merchant_2 102 s d)"

definition demo_ready :: database where
  "demo_ready = demo_status READY (demo_status PREPARING (demo_status ACCEPTED (demo_placed COD)))"

definition demo_claimed :: database where
  "demo_claimed = snd (claim_delivery 2 rider_3 104 demo_ready)"

definition demo_out :: database where
  "demo_out = snd (update_delivery_status 3 ''r'' rider_3 104 PICKED_UP demo_claimed)"

definition demo_challenged :: database where
  "demo_challenged = snd (issue_delivery_proof_challenge id Rate_Ok 123456 4 ''r'' rider_3 104 demo_out)"

definition demo_proved :: database where
  "demo_proved =
     snd (verify_delivery_proof id Rate_Ok 5 ''r'' rider_3 104 ''123456'' None None None demo_challenged)"

definition demo_paid :: database where
  "demo_paid = snd (record_cod_collection 6 ''r'' rider_3 104 (paise 13000) demo_proved)"

definition demo_done :: database where
  "demo_done = snd (complete_delivery_with_financials 7 ''r'' rider_3 104 demo_paid)"

text \<open>A UPI order: intent, capture, then the customer cancels and the refund goes out.\<close>

definition demo_rpost :: "order_request \<Rightarrow> string option provider_reply" where
  "demo_rpost r = Body (Some ''order_A'')"

definition demo_hmac :: "string \<Rightarrow> string \<Rightarrow> string" where
  "demo_hmac secret message = secret @ message"

definition demo_post :: "refund_request \<Rightarrow> refund_payload provider_reply" where
  "demo_post r = Body \<lparr>rpl_id = Some ''rfnd_1'', rpl_status = Some ''processed''\<rparr>"

definition demo_intent :: database where
  "demo_intent = snd (create_payment_intent demo_settings demo_rpost 1 customer_1 102 (demo_placed UPI))"

definition demo_captured :: database where
  "demo_captured =
     snd (hardened_verify_payment demo_settings demo_hmac 2 customer_1 107 ''pay_1'' ''sorder_A|pay_1'' demo_intent)"

definition demo_owed :: database where
  "demo_owed = snd (cancel_my_order_safely demo_settings no_provider 3 customer_1 102 demo_captured)"

definition demo_refunded :: database where
  "demo_refunded = snd (admin_retry_refund demo_settings demo_post 4 ''r'' super_5 110 demo_owed)"


text \<open>Single rows, for the witnesses that need no run.\<close>

definition demo_order :: "order_status \<Rightarrow> payment_method \<Rightarrow> payment_status \<Rightarrow> order" where
  "demo_order s m p =
     \<lparr>ord_id = 102, ord_order_number = ''GO1'', ord_user_id = 1, ord_store_id = 14, ord_address_id = 12,
      ord_idempotency_key = None, ord_stock_restored_at = None, ord_delivery_address = [],
      ord_status = s, ord_payment_method = m, ord_payment_status = p, ord_subtotal = 10000,
      ord_delivery_fee = 3000, ord_total = 13000, ord_created_at = 0\<rparr>"

definition demo_attempt :: "uuid \<Rightarrow> payment_attempt" where
  "demo_attempt i =
     \<lparr>pat_id = i, pat_order_id = 102, pat_provider = ''razorpay'', pat_provider_order_id = Some ''order_A'',
      pat_provider_payment_id = None, pat_status = ''attempted'', pat_amount = 13000, pat_currency = ''INR'',
      pat_created_at = 0, pat_updated_at = 0\<rparr>"

definition demo_refund :: "string \<Rightarrow> int \<Rightarrow> payment_refund" where
  "demo_refund status tries =
     \<lparr>rfd_id = 110, rfd_order_id = 102, rfd_payment_attempt_id = Some 107, rfd_provider = ''razorpay'',
      rfd_provider_payment_id = Some ''pay_1'', rfd_provider_refund_id = None, rfd_amount = 13000,
      rfd_currency = ''INR'', rfd_status = status, rfd_reason = REFUND_REASON_CANCELLED,
      rfd_idempotency_key = refund_idempotency_key 102, rfd_provider_status = None,
      rfd_failure_reason = None, rfd_attempt_count = tries, rfd_requested_at = 0,
      rfd_processed_at = None, rfd_failed_at = None\<rparr>"

section \<open>Every database of the runs is reachable\<close>

lemma reachable_demo_db: "reachable demo_db"
  by (rule reachable.start) (simp add: demo_db_def fresh_db_def shelf_ok_def)

lemma reachable_demo_placed: "reachable (demo_placed m)"
  unfolding demo_placed_def demo_cart_def
  by (rule reachable.step [OF reachable.step [OF reachable_demo_db live_step.cart_add] live_step.checkout])

lemma reachable_demo_status: "reachable d \<Longrightarrow> reachable (demo_status s d)"
  unfolding demo_status_def by (rule reachable.step [OF _ live_step.merchant_status])

lemma reachable_demo_ready: "reachable demo_ready"
  unfolding demo_ready_def by (intro reachable_demo_status reachable_demo_placed)

lemma reachable_demo_out: "reachable demo_out"
  unfolding demo_out_def demo_claimed_def
  by (rule reachable.step [OF reachable.step [OF reachable_demo_ready live_step.claim]
        live_step.delivery_status])

lemma reachable_demo_proved: "reachable demo_proved"
  unfolding demo_proved_def demo_challenged_def
  by (rule reachable.step [OF reachable.step [OF reachable_demo_out live_step.challenge]
        live_step.verify_proof])

lemma reachable_demo_done: "reachable demo_done"
  unfolding demo_done_def demo_paid_def
  by (rule reachable.step [OF reachable.step [OF reachable_demo_proved live_step.cash]
        live_step.complete])

lemma reachable_demo_captured: "reachable demo_captured"
  unfolding demo_captured_def demo_intent_def
  by (rule reachable.step [OF reachable.step [OF reachable_demo_placed live_step.payment_intent]
        live_step.payment_verify])

lemma reachable_demo_refunded: "reachable demo_refunded"
  unfolding demo_refunded_def demo_owed_def
  by (rule reachable.step [OF reachable.step [OF reachable_demo_captured live_step.customer_cancel]
        live_step.refund_retry])

end
