(* ===== verification/Order_Properties.thy ===== *)
theory Order_Properties
  imports Demo
begin

text \<open>
  What the backend guarantees about an order over a whole run: the invariants of every
  reachable database, and what a run can do to one order. The definitions and the proofs of the
  single handlers are in the components' theories; here they are read off the rows.
\<close>

section \<open>Invariants of every reachable database\<close>

text \<open>C1: in every reachable database each order has a delivery row and the two agree: an order
  is ready, out or delivered only when its payment allows it; a delivery is picked up exactly
  while its order is out and delivered exactly when its order is.\<close>

theorem order_and_delivery_agree:
  assumes "reachable d" and "get_order d oid = Some o1"
  shows "\<exists>x. delivery_of_order d oid = Some x
    \<and> (ord_status o1 \<in> {READY, OUT_FOR_DELIVERY, DELIVERED} \<longrightarrow> payment_allows_fulfillment o1)
    \<and> (dlv_status x = PICKED_UP \<longrightarrow> ord_status o1 = OUT_FOR_DELIVERY)
    \<and> (dlv_status x = DLV_DELIVERED \<longleftrightarrow> ord_status o1 = DELIVERED)
    \<and> (ord_status o1 = OUT_FOR_DELIVERY \<longrightarrow> dlv_status x \<in> {PICKED_UP, FAILED})
    \<and> (dlv_picked_up_at x \<noteq> None \<longleftrightarrow> ord_status o1 \<in> {OUT_FOR_DELIVERY, DELIVERED, RETURNED})"
proof -
  obtain x where "delivery_of_order d oid = Some x" "coherent (view_of o1 (Some x) (has_refund d oid))"
    using reachable_order [OF assms] .
  with coherent_row(1-5) [OF this(2)] show ?thesis by auto
qed

lemma order_and_delivery_agree_witness:
  "\<exists>x. delivery_of_order demo_out 102 = Some x \<and> dlv_status x \<in> {PICKED_UP, FAILED}"
proof -
  have "get_order demo_out 102 = Some (the (get_order demo_out 102))"
    "ord_status (the (get_order demo_out 102)) = OUT_FOR_DELIVERY" by code_simp+
  with order_and_delivery_agree [OF reachable_demo_out this(1)] show ?thesis by auto
qed



text \<open>C3: no rider ever holds two active deliveries: whatever requests and background
  assignments ran, two deliveries that are assigned or picked up by one rider are the same.\<close>

theorem one_active_delivery_per_rider:
  assumes "reachable d" and "x \<in> set (deliveries d)" and "y \<in> set (deliveries d)"
    and "active_delivery x" and "active_delivery y"
    and "dlv_delivery_partner_id x = Some r" and "dlv_delivery_partner_id y = Some r"
  shows "x = y"
proof -
  have inv: "riders_exclusive d" "tables_wf d"
    using reachable_inv [OF assms(1)] by (auto simp: system_inv_def all_coherent_def)
  have "holder d (dlv_id x) r" "holder d (dlv_id y) r" using assms by (auto simp: holder_def)
  then have "dlv_id x = dlv_id y" using inv(1) by (auto simp: riders_exclusive_def)
  then show ?thesis
    using inv(2) assms(2,3) by (auto simp: tables_wf_def distinct_map inj_on_def)
qed

lemma one_active_delivery_per_rider_witness:
  "\<exists>x. x \<in> set (deliveries demo_out) \<and> active_delivery x \<and> dlv_delivery_partner_id x = Some 3"
proof -
  let ?x = "the (get_delivery demo_out 104)"
  have "?x \<in> set (deliveries demo_out)" "active_delivery ?x" "dlv_delivery_partner_id ?x = Some 3"
    by code_simp+
  with one_active_delivery_per_rider [OF reachable_demo_out this(1) this(1) this(2) this(2) this(3) this(3)]
  show ?thesis by blast
qed

text \<open>C4: stock never goes below zero, and no order line or cart line has a negative quantity,
  in any reachable database.\<close>

theorem stock_never_negative:
  assumes "reachable d"
  shows "(\<forall>l \<in> set (store_products d). 0 \<le> lst_stock_quantity l)
    \<and> (\<forall>i \<in> set (order_items d). 0 \<le> oit_quantity i)
    \<and> (\<forall>i \<in> set (cart_items d). 0 \<le> cit_quantity i)"
  using reachable_inv [OF assms] by (auto simp: system_inv_def shelf_ok_def)

lemma stock_never_negative_witness:
  "map lst_stock_quantity (store_products demo_done) = [1] \<and> 0 \<le> lst_stock_quantity (hd (store_products demo_done))"
proof -
  have "map lst_stock_quantity (store_products demo_done) = [1]"
    "hd (store_products demo_done) \<in> set (store_products demo_done)" by code_simp+
  with stock_never_negative [OF reachable_demo_done] show ?thesis by blast
qed

section \<open>Runs\<close>



text \<open>C7: over any run an order keeps its payment method, its status moves only along
  \<open>ORDER_TRANSITIONS\<close>, and an order that is delivered, returned or cancelled stays so.\<close>

theorem order_history:
  assumes "reachable d" and "live_step\<^sup>*\<^sup>* d d'" and "get_order d oid = Some o1"
  shows "\<exists>o2. get_order d' oid = Some o2 \<and> ord_payment_method o2 = ord_payment_method o1
    \<and> can_transition_order\<^sup>*\<^sup>* (ord_status o1) (ord_status o2)
    \<and> (order_terminal (ord_status o1) \<longrightarrow> ord_status o2 = ord_status o1)"
  using evolves_order [of d d' oid o1] run_evolves [OF assms(1,2)] assms(3) by blast

lemma order_history_witness:
  "\<exists>o2. get_order demo_claimed 102 = Some o2 \<and> ord_payment_method o2 = COD"
proof -
  have "live_step\<^sup>*\<^sup>* demo_ready demo_claimed"
    unfolding demo_claimed_def by (rule r_into_rtranclp, rule live_step.claim)
  moreover have "get_order demo_ready 102 = Some (the (get_order demo_ready 102))"
    "ord_payment_method (the (get_order demo_ready 102)) = COD" by code_simp+
  ultimately show ?thesis using order_history [OF reachable_demo_ready] by metis
qed



end
