(* ===== verification/Checkout_Properties.thy ===== *)
theory Checkout_Properties
  imports Demo
begin

text \<open>
  What a checkout promises: the order it places, what it costs, what leaves the shelf, when it
  is allowed, that it can be retried, that its cancellation undoes it, and that the quote told
  the truth.
\<close>

section \<open>The placed order\<close>

lemma order_ids_fresh: "reachable d \<Longrightarrow> o1 \<in> set (orders d) \<Longrightarrow> ord_id o1 < db_next_id d"
  using reachable_coherent [of d] by (auto simp: all_coherent_def tables_wf_def)

lemma order_row_found: "reachable d \<Longrightarrow> o1 \<in> set (orders d) \<Longrightarrow> get_order d (ord_id o1) = Some o1"
  using reachable_coherent [of d]
  by (auto simp: all_coherent_def tables_wf_def get_order_def get_row_Some_iff)

lemma existing_order_row: "existing_idempotent_order d uid key = Some o1 \<Longrightarrow> o1 \<in> set (orders d)"
  by (auto simp: existing_idempotent_order_def dest: find_Some_in split: if_splits)

text \<open>A checkout that returns an order the database did not have is the placement of the cart.\<close>

lemma new_order_placed:
  assumes reach: "reachable d"
    and run: "safe_checkout g cfg now stamp token u key aid m d = (Inr o1, d')"
    and new: "get_order d (ord_id o1) = None"
  obtains k a c s items subtotal where "clean_key key = Inr k"
    "owned_address d u aid = Inr a" "checkout_guards g now u a d = Inr (c, s, items, subtotal)"
    "o1 = new_order now (db_next_id d) (new_order_number stamp token) k
        (address_snapshot a) u (sto_id s) (adr_id a) m subtotal (resolve_delivery_fee cfg d s)"
    "place_order now o1 items c d = Inr d'" "existing_idempotent_order d (usr_id u) k = None"
proof (cases rule: safe_checkout_cases [of key d u g cfg now stamp token aid m])
  case (replay o2 k)
  with run have "o1 \<in> set (orders d)" using existing_order_row by auto
  with new show ?thesis using order_row_found [OF reach] by force
next
  case (placed k a c s items subtotal d2)
  let ?o = "new_order now (db_next_id d) (new_order_number stamp token) k
        (address_snapshot a) u (sto_id s) (adr_id a) m subtotal (resolve_delivery_fee cfg d s)"
  have "refresh get_order (db_next_id d) d2 = (Inr o1, d')" using placed(6) run by metis
  then have d': "d2 = d'" and o1: "get_order d' (db_next_id d) = Some o1" by simp_all
  have "orders d' = orders d @ [?o]"
    by (rule place_orderD [OF placed(5) [unfolded d']]) simp_all
  moreover have "get_row ord_id (orders d) (db_next_id d) = None"
    using order_ids_fresh [OF reach] by (fastforce simp: get_row_None)
  ultimately have "o1 = ?o"
    using o1 by (simp add: get_order_def get_row_append)
  with placed d' show ?thesis by (intro that) simp_all
qed (use run in simp)

lemma line_matches_orders [simp]:
  "line_matches (d\<lparr>orders := os, db_next_id := n\<rparr>) oid = line_matches d oid"
  "get_listing (d\<lparr>orders := os, db_next_id := n\<rparr>) = get_listing d"
  by (simp_all add: line_matches_def get_listing_def fun_eq_iff)

lemma place_order_cart:
  assumes "place_order now o1 items c d = Inr d'" shows "items_of_cart d' (crt_id c) = []"
proof -
  obtain dI where "same_core (flush_cart (c\<lparr>crt_store_id := None\<rparr>)
      (delete_cart_items (\<lambda>i. cit_cart_id i = crt_id c)
        (dI\<lparr>deliveries := deliveries dI @ [new_delivery now (db_next_id dI) (ord_id o1)],
            db_next_id := Suc (db_next_id dI)\<rparr>))) d'"
    using assms by (auto simp: place_order_def res_bind_Inr Let_def
        intro: same_core_trans [OF same_core_notify_customer same_core_notify_merchant])
  from same_core_tables(10) [OF this] show ?thesis
    by (auto simp: items_of_cart_def flush_cart_def delete_cart_items_def)
qed

text \<open>C9: a checkout that places an order places exactly the cart: the order is the user's, placed
  and unpaid, with one line per cart item at the listing's price; its subtotal is the sum of its
  lines and its total adds the store's delivery fee; each listing in the cart loses the quantity
  sold and every other listing is untouched; the cart is empty afterwards.\<close>

theorem checkout_places_cart:
  assumes reach: "reachable d"
    and run: "safe_checkout g cfg now stamp token u key aid m d = (Inr o1, d')"
    and new: "get_order d (ord_id o1) = None"
  shows "\<exists>c s items lines.
      orders d' = orders d @ [o1] \<and> ord_user_id o1 = usr_id u \<and> ord_status o1 = PLACED
    \<and> ord_payment_method o1 = m \<and> ord_payment_status o1 = PENDING
    \<and> cart_of_user d (usr_id u) = Some c \<and> get_store d (ord_store_id o1) = Some s
    \<and> items = sort_key cit_store_product_id (items_of_cart d (crt_id c)) \<and> items \<noteq> []
    \<and> order_items d' = order_items d @ lines \<and> list_all2 (line_matches d (ord_id o1)) items lines
    \<and> ord_subtotal o1 = sum_list (map oit_line_total lines)
    \<and> ord_delivery_fee o1 = resolve_delivery_fee cfg d s
    \<and> ord_total o1 = ord_subtotal o1 + ord_delivery_fee o1
    \<and> (\<forall>k. get_listing d' k =
         (case find (\<lambda>i. cit_store_product_id i = k) items of
            None \<Rightarrow> get_listing d k
          | Some i \<Rightarrow> map_option (\<lambda>l. sold_listing l (cit_quantity i)) (get_listing d k)))
    \<and> items_of_cart d' (crt_id c) = []"
proof (rule new_order_placed [OF assms])
  fix k a c s items subtotal
  assume g: "checkout_guards g now u a d = Inr (c, s, items, subtotal)"
    and o1: "o1 = new_order now (db_next_id d) (new_order_number stamp token) k
        (address_snapshot a) u (sto_id s) (adr_id a) m subtotal (resolve_delivery_fee cfg d s)"
    and place: "place_order now o1 items c d = Inr d'"
  note G = checkout_guardsD [OF g]
  have id: "ord_id o1 = db_next_id d" by (simp add: o1)
  show ?thesis
  proof (rule place_orderD [OF place id])
    fix dI
    assume p: "place_items (ord_id o1) items
        (d\<lparr>orders := orders d @ [o1], db_next_id := Suc (ord_id o1)\<rparr>) = Inr dI"
      and d': "orders d' = orders d @ [o1]" "order_items d' = order_items dI"
        "store_products d' = store_products dI"
    obtain lines where lines: "order_items dI = order_items d @ lines"
      "list_all2 (line_matches d (ord_id o1)) items lines"
      using place_items_lines [OF p G(1)] by auto
    have "get_listing d' k = get_listing dI k" for k using d'(3) by (simp add: get_listing_def)
    then have "\<forall>k. get_listing d' k =
         (case find (\<lambda>i. cit_store_product_id i = k) items of
            None \<Rightarrow> get_listing d k
          | Some i \<Rightarrow> map_option (\<lambda>l. sold_listing l (cit_quantity i)) (get_listing d k))"
      using place_items_listing [OF p G(1)] by (simp split: option.split)
    moreover have "subtotal = sum_list (map oit_line_total lines)"
      using lines_total [OF lines(2)] G(3) by simp
    ultimately show ?thesis
      using G(5,12,14,15) d' lines place_order_cart [OF place]
      by (intro exI [of _ c] exI [of _ s] exI [of _ items] exI [of _ lines]) (simp add: o1)
  qed
qed

text \<open>The demo cart holds two units of the one listing.\<close>

lemma demo_checkout:
  "\<exists>o1. safe_checkout demo_gis demo_settings 0 ''0'' ''A'' customer_1 (Some ''k'') 12 m demo_cart
      = (Inr o1, demo_placed m) \<and> ord_id o1 = 102 \<and> ord_store_id o1 = 14 \<and> get_order demo_cart (ord_id o1) = None"
proof -
  let ?r = "fst (safe_checkout demo_gis demo_settings 0 ''0'' ''A'' customer_1 (Some ''k'') 12 m demo_cart)"
  have "(case ?r of Inl e \<Rightarrow> False
      | Inr o1 \<Rightarrow> ord_id o1 = 102 \<and> ord_store_id o1 = 14 \<and> get_order demo_cart (ord_id o1) = None)"
    by (cases m; hypsubst, code_simp)
  then show ?thesis
    by (cases ?r) (auto simp: demo_placed_def prod_eq_iff)
qed

lemma reachable_demo_cart: "reachable demo_cart"
  unfolding demo_cart_def by (rule reachable.step [OF reachable_demo_db live_step.cart_add])

lemma checkout_places_cart_witness:
  "\<exists>o1. orders (demo_placed UPI) = orders demo_cart @ [o1] \<and> ord_payment_method o1 = UPI"
proof -
  obtain o1 where "safe_checkout demo_gis demo_settings 0 ''0'' ''A'' customer_1 (Some ''k'') 12 UPI demo_cart
      = (Inr o1, demo_placed UPI)" "get_order demo_cart (ord_id o1) = None"
    using demo_checkout [of UPI] by auto
  from checkout_places_cart [OF reachable_demo_cart this] show ?thesis by auto
qed

section \<open>When an order can be placed\<close>

text \<open>C10: an order is only placed from a store that is active, of an approved merchant, open at that
  moment and delivering to a point of its service area that covers the customer's own
  address, and for listings of that store that are available with enough stock.\<close>

theorem checkout_only_when_allowed:
  assumes "reachable d"
    and "safe_checkout g cfg now stamp token u key aid m d = (Inr o1, d')"
    and "get_order d (ord_id o1) = None"
  shows "\<exists>a s merchant area p.
      get_address d aid = Some a \<and> adr_user_id a = usr_id u \<and> adr_archived_at a = None
    \<and> get_store d (ord_store_id o1) = Some s \<and> sto_is_active s \<and> sto_delivery_enabled s
    \<and> store_is_open now s
    \<and> get_merchant d (sto_merchant_id s) = Some merchant \<and> mer_status merchant = APPROVED
    \<and> sto_service_area_id s = Some area \<and> address_point d a = Some p
    \<and> point_is_in_service_area g d area p
    \<and> (\<forall>c. cart_of_user d (usr_id u) = Some c \<longrightarrow>
         (\<forall>i \<in> set (items_of_cart d (crt_id c)). item_ok (ord_store_id o1) d i))"
proof (rule new_order_placed [OF assms])
  fix k a c s items subtotal
  assume a: "owned_address d u aid = Inr a"
    and g: "checkout_guards g now u a d = Inr (c, s, items, subtotal)"
    and o1: "o1 = new_order now (db_next_id d) (new_order_number stamp token) k
        (address_snapshot a) u (sto_id s) (adr_id a) m subtotal (resolve_delivery_fee cfg d s)"
  note G = checkout_guardsD [OF g]
  have "ord_store_id o1 = sto_id s" by (simp add: o1)
  moreover have "get_address d aid = Some a \<and> adr_user_id a = usr_id u \<and> adr_archived_at a = None"
    using a by (auto simp: owned_address_def split: option.splits if_splits)
  ultimately show ?thesis using G(2,6-10,12,14,15) by auto
qed

lemma checkout_only_when_allowed_witness:
  "\<exists>s. get_store demo_cart 14 = Some s \<and> store_is_open 0 s"
proof -
  obtain o1 where o1: "safe_checkout demo_gis demo_settings 0 ''0'' ''A'' customer_1 (Some ''k'') 12 UPI demo_cart
      = (Inr o1, demo_placed UPI)" "get_order demo_cart (ord_id o1) = None" and "ord_store_id o1 = 14"
    using demo_checkout [of UPI] by auto
  with checkout_only_when_allowed [OF reachable_demo_cart o1] show ?thesis by auto
qed

section \<open>Retrying\<close>

text \<open>C11: a checkout with an idempotency key can be repeated: once it has returned an order, the
  same request, at any later time and whatever address or method it now names, returns that order
  again and changes nothing.\<close>

theorem checkout_replay:
  assumes reach: "reachable d"
    and run: "safe_checkout g cfg now stamp token u (Some key) aid m d = (Inr o1, d')"
  shows "safe_checkout g2 cfg2 now2 stamp2 token2 u (Some key) aid2 m2 d' = (Inr o1, d')"
proof -
  have again: "safe_checkout g2 cfg2 now2 stamp2 token2 u (Some key) aid2 m2 e = (Inr o1, e)"
    if "clean_key (Some key) = Inr k" "existing_idempotent_order e (usr_id u) k = Some o1" for k e
    using that by (simp add: safe_checkout_def)
  show ?thesis
  proof (cases "get_order d (ord_id o1)")
    case None
    show ?thesis
    proof (rule new_order_placed [OF reach run None])
      fix k a c s items subtotal
      assume k: "clean_key (Some key) = Inr k"
        and o1: "o1 = new_order now (db_next_id d) (new_order_number stamp token) k
          (address_snapshot a) u (sto_id s) (adr_id a) m subtotal (resolve_delivery_fee cfg d s)"
        and place: "place_order now o1 items c d = Inr d'"
        and none: "existing_idempotent_order d (usr_id u) k = None"
      have "orders d' = orders d @ [o1]"
        by (rule place_orderD [OF place]) (simp_all add: o1)
      with none clean_key_nonempty [OF k] have "existing_idempotent_order d' (usr_id u) k = Some o1"
        by (intro placed_under_key) (simp_all add: o1)
      with k show ?thesis by (rule again)
    qed
  next
    case (Some o2)
    show ?thesis
    proof (cases rule: safe_checkout_cases [of "Some key" d u g cfg now stamp token aid m])
      case (replay o3 k)
      with run have "o3 = o1" "d' = d" by simp_all
      with replay(1,2) show ?thesis by (auto intro: again)
    next
      case (placed k a c s items subtotal d2)
      have r: "refresh get_order (db_next_id d) d2 = (Inr o1, d')" using placed(6) run by metis
      then have "ord_id o1 = db_next_id d" by auto
      with Some have "o2 \<in> set (orders d)" "ord_id o2 = db_next_id d"
        by (auto simp: get_order_def dest: get_row_in get_row_key)
      with order_ids_fresh [OF reach, of o2] show ?thesis by simp
    qed (use run in simp)
  qed
qed

lemma checkout_replay_witness:
  "\<exists>o1. safe_checkout demo_gis demo_settings 9 ''9'' ''B'' customer_1 (Some ''k'') 77 COD (demo_placed UPI)
      = (Inr o1, demo_placed UPI)"
  using demo_checkout [of UPI] checkout_replay [OF reachable_demo_cart] by blast

section \<open>Undoing\<close>

text \<open>C12: cancelling a freshly placed order puts the shelf back exactly as it was before the checkout:
  every listing has its old quantity and its old availability. The premises are the schema's
  foreign key of order lines and its unique keys of listings.\<close>

theorem checkout_then_cancel_restores_shelf:
  assumes reach: "reachable d" and wf: "listings_wf d"
    and fk: "\<forall>i \<in> set (order_items d). get_order d (oit_order_id i) \<noteq> None"
    and run: "safe_checkout g cfg now stamp token u key aid m d = (Inr o1, d1)"
    and new: "get_order d (ord_id o1) = None"
    and cancel: "cancel_my_order_safely cfg2 post now2 u (ord_id o1) d1 = (Inr o2, d2)"
  shows "store_products d2 = store_products d"
proof (rule new_order_placed [OF reach run new])
  fix k a c s items subtotal
  assume g: "checkout_guards g now u a d = Inr (c, s, items, subtotal)"
    and o1: "o1 = new_order now (db_next_id d) (new_order_number stamp token) k
        (address_snapshot a) u (sto_id s) (adr_id a) m subtotal (resolve_delivery_fee cfg d s)"
    and place: "place_order now o1 items c d = Inr d1"
  note G = checkout_guardsD [OF g]
  let ?d = "d\<lparr>orders := orders d @ [o1], db_next_id := Suc (ord_id o1)\<rparr>"
  have id: "ord_id o1 = db_next_id d" by (simp add: o1)
  show ?thesis
  proof (rule place_orderD [OF place id])
    fix dI
    assume p: "place_items (ord_id o1) items ?d = Inr dI"
      and ords: "orders d1 = orders d @ [o1]" and its: "order_items d1 = order_items dI"
      and sps: "store_products d1 = store_products dI"
    obtain lines where lines: "order_items dI = order_items d @ lines"
      "list_all2 (line_matches ?d (ord_id o1)) items lines"
      using place_items_lines [OF p G(1)] by auto
    have got: "get_order d1 (ord_id o1) = Some o1"
      using new ords by (simp add: get_order_def get_row_append)
    have "items_of_order d1 (ord_id o1) = filter (\<lambda>i. oit_order_id i = ord_id o1) lines"
      using fk new its lines(1) by (auto simp: items_of_order_def filter_empty_conv)
    also have "\<dots> = lines"
      using list_all2_left [OF lines(2)] by (intro filter_True) (auto simp: line_matches_def)
    finally have os: "items_of_order d1 (ord_id o1) = lines" .
    have "lines \<noteq> []" using lines(2) G(5) by auto
    obtain refund e where c: "customer_cancellation now2 u o1 d1 = Inr (refund, e)"
      and d2: "d2 = (if refund \<noteq> None then try_dispatch_order_refund cfg2 post now2 (ord_id o1) e else e)"
      using cancel got by (auto simp: cancel_my_order_safely_def attempt_def raise_http_def split: sum.splits if_splits)
    obtain b o3 r where r: "restore_order_stock_once now2 o1 d1 = Inr (b, o3, r)" "shelf e = shelf r"
      using cancellation_shelf [OF c] by blast
    have "restore_items (ord_store_id o1) lines d1 = Inr r"
      using r(1) os \<open>lines \<noteq> []\<close>
      by (auto simp: restore_order_stock_once_def o1 Let_def split: sum.splits if_splits)
    then have "store_products r = store_products ?d"
      using wf G(1,2) lines(2) sps
      by (intro sell_then_restore [OF p, where e = d1 and sid = "ord_store_id o1" and os = lines])
        (auto simp: listings_wf_def item_ok_def o1)
    moreover have "store_products d2 = store_products e"
      using d2 shelves.part_try_dispatch [of cfg2 post now2 "ord_id o1" e] by (auto simp: shelf_def)
    ultimately show ?thesis using r(2) by (simp add: shelf_def)
  qed
qed

lemma checkout_then_cancel_restores_shelf_witness:
  "store_products (snd (cancel_my_order_safely demo_settings no_provider 3 customer_1 102 (demo_placed UPI)))
     = store_products demo_cart"
proof -
  have wf: "listings_wf demo_cart" "\<forall>i \<in> set (order_items demo_cart). get_order demo_cart (oit_order_id i) \<noteq> None"
    by code_simp+
  have placed: "(case fst (cancel_my_order_safely demo_settings no_provider 3 customer_1 102 (demo_placed UPI))
      of Inl e \<Rightarrow> False | Inr o2 \<Rightarrow> True)" "map_option ord_user_id (get_order (demo_placed UPI) 102) = Some 1"
    by code_simp+
  obtain o1 where o1: "safe_checkout demo_gis demo_settings 0 ''0'' ''A'' customer_1 (Some ''k'') 12 UPI demo_cart
      = (Inr o1, demo_placed UPI)" "get_order demo_cart (ord_id o1) = None" "ord_id o1 = 102"
    using demo_checkout [of UPI] by auto
  from placed(1) obtain o2 d2 where "cancel_my_order_safely demo_settings no_provider 3 customer_1 102
      (demo_placed UPI) = (Inr o2, d2)"
    by (cases "cancel_my_order_safely demo_settings no_provider 3 customer_1 102 (demo_placed UPI)")
      (auto split: sum.splits)
  with checkout_then_cancel_restores_shelf [OF reachable_demo_cart wf o1(1,2), unfolded o1(3)]
  show ?thesis by simp
qed

section \<open>The quote\<close>

lemma sum_list_map_perm: "sum_list (map f (sort_key k xs)) = sum_list (map (f :: 'a \<Rightarrow> int) xs)"
proof -
  have "sum_list (map f (insort_key k y ys)) = f y + sum_list (map f ys)" for y ys
    by (induction ys) simp_all
  then show ?thesis by (induction xs) simp_all
qed

lemma cart_rows_listings:
  assumes "\<forall>i \<in> set (items_of_cart d cid). get_listing d (cit_store_product_id i) \<noteq> None"
  shows "cart_rows d cid =
     map (\<lambda>i. (cit_quantity i, the (get_listing d (cit_store_product_id i)))) (items_of_cart d cid)"
proof -
  have "List.map_filter (\<lambda>i. map_option (Pair (cit_quantity i)) (get_listing d (cit_store_product_id i))) is =
      map (\<lambda>i. (cit_quantity i, the (get_listing d (cit_store_product_id i)))) is"
    if "\<forall>i \<in> set is. get_listing d (cit_store_product_id i) \<noteq> None" for "is"
    using that by (induction "is") auto
  with assms show ?thesis by (simp add: cart_rows_def)
qed

lemma validate_items_iff:
  "validate_items sid is d s0 = Inr s \<longleftrightarrow>
     (\<forall>i \<in> set is. item_ok sid d i) \<and> s = s0 + sum_list (map (item_cost d) is)"
proof
  show "(\<forall>i \<in> set is. item_ok sid d i) \<and> s = s0 + sum_list (map (item_cost d) is) \<Longrightarrow>
      validate_items sid is d s0 = Inr s"
    by (induction "is" arbitrary: s0) (auto simp: item_ok_def item_cost_def not_less)
qed (rule validate_items_Inr)

lemma listings_present_if:
  assumes "\<forall>i \<in> set items. get_listing d (cit_store_product_id i) \<noteq> None"
    and "distinct (map cit_store_product_id items)"
  shows "listings_present d items"
proof -
  have "lst_id ` {l \<in> set (store_products d). lst_id l \<in> cit_store_product_id ` set items}
      = cit_store_product_id ` set items"
    using assms(1) by (force simp: get_listing_def get_row_None)
  moreover have "card (cit_store_product_id ` set items) = length items"
    using distinct_card [OF assms(2)] by simp
  ultimately show ?thesis by (simp add: listings_present_def length_remdups_card_conv)
qed

lemma store_guards_iff:
  "store_guards g now d a s = Inr () \<longleftrightarrow> sto_delivery_enabled s \<and> store_is_open now s \<and>
     (case (sto_service_area_id s, address_point d a) of
        (Some area, Some p) \<Rightarrow> point_is_in_service_area g d area p | _ \<Rightarrow> False)"
  by (auto simp: store_guards_def split: option.split)

text \<open>C13: the quote tells the truth. For a cart whose lines name listings of the database, each
  once (foreign key and unique key of the schema), a quote says \<open>checkout_ready\<close> exactly when the
  guards of the checkout would pass, and then the checkout charges the quoted subtotal and fee.\<close>

theorem quote_predicts_checkout:
  assumes q: "cart_quote g cfg now u aid d = (Inr q, d')" and a: "owned_address d u aid = Inr a"
    and c: "cart_of_user d (usr_id u) = Some c"
    and fk: "\<forall>i \<in> set (items_of_cart d (crt_id c)). get_listing d (cit_store_product_id i) \<noteq> None"
    and uniq: "distinct (map cit_store_product_id (items_of_cart d (crt_id c)))"
  shows "d' = d \<and> quo_total q = quo_subtotal q + quo_delivery_fee q \<and>
    (quo_checkout_ready q \<longleftrightarrow>
      (\<exists>s items. checkout_guards g now u a d = Inr (c, s, items, quo_subtotal q)
         \<and> quo_delivery_fee q = resolve_delivery_fee cfg d s))"
proof -
  let ?is = "items_of_cart d (crt_id c)" and ?items = "sort_key cit_store_product_id (items_of_cart d (crt_id c))"
  note rows = cart_rows_listings [OF fk]
  obtain sid s where sid: "crt_store_id c = Some sid" and s: "orderable_store d sid = Inr s" and ne: "?is \<noteq> []"
    using q a c rows
    by (auto simp: cart_quote_def attempt_def raise_http_def Let_def split: option.splits sum.splits if_splits)
  have "sto_id s = sid"
    using s by (auto simp: orderable_store_def get_store_def split: option.splits if_splits)
  have item: "item_ok sid d i \<longleftrightarrow> (let l = the (get_listing d (cit_store_product_id i)) in
      lst_store_id l = sid \<and> lst_is_available l \<and> cit_quantity i \<le> lst_stock_quantity l)"
    if "i \<in> set ?is" for i using fk that by (auto simp: item_ok_def)
  have cost: "(case (cit_quantity i, the (get_listing d (cit_store_product_id i))) of (q, l) \<Rightarrow> lst_price l * q)
      = item_cost d i" if "i \<in> set ?is" for i using fk that by (auto simp: item_cost_def)
  have "sum_list (map (item_cost d) ?items) = sum_list (map (item_cost d) ?is)"
    by (rule sum_list_map_perm)
  then have ig: "inventory_guards sid ?items d = Inr t \<longleftrightarrow>
      (\<forall>i \<in> set ?is. item_ok sid d i) \<and> t = sum_list (map (item_cost d) ?is)" for t
    using listings_present_if [of ?items d] fk uniq
    by (simp add: inventory_guards_def validate_items_iff distinct_map)
  have sub: "sum_list (map (\<lambda>(q, l). lst_price l * q) (cart_rows d (crt_id c))) = sum_list (map (item_cost d) ?is)"
    using cost by (simp add: rows comp_def cong: map_cong)
  have inv: "list_all (\<lambda>(q, l). lst_store_id l = sto_id s \<and> lst_is_available l \<and> q \<le> lst_stock_quantity l)
      (cart_rows d (crt_id c)) \<longleftrightarrow> (\<forall>i \<in> set ?is. item_ok sid d i)"
    using item by (simp add: rows list_all_iff Let_def \<open>sto_id s = sid\<close>)
  have "checkout_guards g now u a d = Inr (c, s2, items, t) \<longleftrightarrow>
      s2 = s \<and> items = ?items \<and> store_guards g now d a s = Inr () \<and> inventory_guards sid ?items d = Inr t" for s2 items t
    using c sid s ne by (auto simp: checkout_guards_def Let_def res_bind_Inr)
  then show ?thesis
    using q a c sid s ne rows inv sub
    by (auto simp: cart_quote_def Let_def ig store_guards_iff raise_http_def split: option.splits)
qed

lemma quote_predicts_checkout_witness:
  "\<exists>q. fst (cart_quote demo_gis demo_settings 0 customer_1 12 demo_cart) = Inr q
     \<and> quo_checkout_ready q \<and> quo_total q = 13000 \<and> quo_total q = quo_subtotal q + quo_delivery_fee q"
proof -
  let ?r = "cart_quote demo_gis demo_settings 0 customer_1 12 demo_cart"
  have r: "case fst ?r of Inl e \<Rightarrow> False | Inr q \<Rightarrow> quo_checkout_ready q \<and> quo_total q = 13000" by code_simp
  then obtain q where q: "?r = (Inr q, snd ?r)" "quo_checkout_ready q" "quo_total q = 13000"
    by (cases "fst ?r") (auto simp: prod_eq_iff)
  have "case owned_address demo_cart customer_1 12 of Inl e \<Rightarrow> False | Inr a \<Rightarrow> True" by code_simp
  then obtain a where a: "owned_address demo_cart customer_1 12 = Inr a"
    by (cases "owned_address demo_cart customer_1 12") auto
  have "case cart_of_user demo_cart (usr_id customer_1) of None \<Rightarrow> False | Some c \<Rightarrow>
      (\<forall>i \<in> set (items_of_cart demo_cart (crt_id c)). get_listing demo_cart (cit_store_product_id i) \<noteq> None)
      \<and> distinct (map cit_store_product_id (items_of_cart demo_cart (crt_id c)))" by code_simp
  then obtain c where c: "cart_of_user demo_cart (usr_id customer_1) = Some c"
    "\<forall>i \<in> set (items_of_cart demo_cart (crt_id c)). get_listing demo_cart (cit_store_product_id i) \<noteq> None"
    "distinct (map cit_store_product_id (items_of_cart demo_cart (crt_id c)))"
    by (cases "cart_of_user demo_cart (usr_id customer_1)") auto
  from quote_predicts_checkout [OF q(1) a c] q show ?thesis by (intro exI [of _ q]) (simp add: prod_eq_iff)
qed

end
