(* ===== verification/Delivery_Properties.thy ===== *)
theory Delivery_Properties
  imports Demo
begin

text \<open>
  The end of a delivery: the one-time code and its budget, the cash, completion and the
  settlement it records; and two transitions the delivery routes let through.
\<close>

section \<open>The delivery code\<close>



text \<open>A wrong code never succeeds: the request fails, and either it was refused before the
  comparison and changed nothing, or it has cost exactly one guess. A new code does not give
  guesses back.\<close>

theorem wrong_code_costs_a_guess:
  assumes "proof_of_delivery d did = Some p" and "prf_verified_at p = None" and "prf_otp_hash p \<noteq> h otp"
    and "verify_delivery_proof h rate now req_id u did otp ev rn memo d = (r, d')"
  shows "(\<exists>e. r = Inl e) \<and> (d' = d \<or> guesses d' did = guesses d did + 1)
    \<and> guesses (snd (issue_delivery_proof_challenge h2 rate2 n now2 req2 u2 did d')) did = guesses d' did"
  using wrong_guess_spends [OF assms] guesses_challenge by blast

lemma wrong_code_costs_a_guess_witness:
  "guesses (snd (verify_delivery_proof id Rate_Ok 5 ''r'' rider_3 104 ''000000'' None None None demo_challenged)) 104 = 1"
proof -
  let ?v = "verify_delivery_proof id Rate_Ok 5 ''r'' rider_3 104 ''000000'' None None None demo_challenged"
  have "case proof_of_delivery demo_challenged 104 of None \<Rightarrow> False
      | Some p \<Rightarrow> prf_verified_at p = None \<and> prf_otp_hash p \<noteq> id ''000000''" by code_simp
  then obtain p where p: "proof_of_delivery demo_challenged 104 = Some p" "prf_verified_at p = None"
    "prf_otp_hash p \<noteq> id ''000000''" by (cases "proof_of_delivery demo_challenged 104") auto
  have "guesses demo_challenged 104 = 0" "guesses (snd ?v) 104 \<noteq> 0" by code_simp+
  then show ?thesis using wrong_code_costs_a_guess [where h = id and otp = "''000000''", OF p prod.collapse [symmetric]]
    by force
qed

text \<open>A locked proof that was not verified before is final: even the right code is refused, no
  new code is issued, and neither request changes the database.\<close>

theorem locked_delivery_refuses_codes:
  assumes "proof_of_delivery d did = Some p" and "proof_locked p" and "prf_verified_at p = None"
  shows "(\<exists>e. verify_delivery_proof h rate now req_id u did otp ev rn memo d = (Inl e, d))
    \<and> (\<exists>e. issue_delivery_proof_challenge h2 rate2 n now2 req2 u2 did d = (Inl e, d))"
  using locked_proof_refuses [OF assms] by blast

definition demo_locked :: database where
  "demo_locked =
     demo_challenged\<lparr>delivery_proofs :=
       map (\<lambda>p. p\<lparr>prf_verification_attempt_count := 5, prf_verification_locked_at := Some 4\<rparr>)
         (delivery_proofs demo_challenged)\<rparr>"

lemma locked_delivery_refuses_codes_witness:
  "\<exists>e. verify_delivery_proof id Rate_Ok 5 ''r'' rider_3 104 ''123456'' None None None demo_locked
     = (Inl e, demo_locked)"
proof -
  have "case proof_of_delivery demo_locked 104 of None \<Rightarrow> False
      | Some p \<Rightarrow> proof_locked p \<and> prf_verified_at p = None" by code_simp
  then obtain p where "proof_of_delivery demo_locked 104 = Some p" "proof_locked p" "prf_verified_at p = None"
    by (cases "proof_of_delivery demo_locked 104") auto
  from locked_delivery_refuses_codes [OF this] show ?thesis by blast
qed

section \<open>Completion\<close>

lemma completed:
  assumes "complete_delivery_with_financials now req_id u did d = (Inr y, d')"
  obtains x o1 where "locked_delivery_order d did = Inr (x, o1)"
    "require_assigned_rider x u DELIVERY_FINANCIAL_WRITE = Inr ()" "completion_guards d x o1 = Inr ()"
    "completion_tx (\<lambda>o2. ord_payment_status o2 = PAID) now req_id u x o1 d = Inr d'"
    "get_delivery d' did = Some y"
  using assms by (auto simp: complete_delivery_with_financials_def attempt_def split: sum.splits)

text \<open>C25: a delivery is completed only by the rider it is assigned to or by an administrator with
  the delivery-finance capability, only after pickup, only with a verified proof, only when the
  payment allows it, and for a cash order only when exactly the order's total was collected.\<close>

theorem completion_requires:
  assumes "complete_delivery_with_financials now req_id u did d = (Inr y, d')"
  shows "\<exists>x o1 p. get_delivery d did = Some x \<and> get_order d (dlv_order_id x) = Some o1
    \<and> (usr_role u = ADMIN \<and> has_capability u DELIVERY_FINANCIAL_WRITE
        \<or> usr_role u \<noteq> ADMIN \<and> dlv_delivery_partner_id x = Some (usr_id u))
    \<and> dlv_status x = PICKED_UP \<and> ord_status o1 = OUT_FOR_DELIVERY \<and> payment_allows_fulfillment o1
    \<and> proof_of_delivery d did = Some p \<and> prf_verified_at p \<noteq> None
    \<and> (ord_payment_method o1 = COD \<longrightarrow> (\<exists>c. cod_of_delivery d did = Some c
         \<and> cod_order_id c = ord_id o1 \<and> cod_amount c = ord_total o1))"
proof (rule completed [OF assms])
  fix x o1
  assume l: "locked_delivery_order d did = Inr (x, o1)"
    and r: "require_assigned_rider x u DELIVERY_FINANCIAL_WRITE = Inr ()"
    and g: "completion_guards d x o1 = Inr ()"
  have "dlv_id x = did" using l by (rule locked_orderD)
  with locked_delivery_orderD [OF l] completion_guardsD [OF g] r show ?thesis
    by (auto simp: require_assigned_rider_def res_bind_Inr ensure_capability_Inr split: if_splits)
qed

lemma demo_completed:
  "\<exists>y. complete_delivery_with_financials 7 ''r'' rider_3 104 demo_paid = (Inr y, demo_done)"
proof -
  let ?r = "complete_delivery_with_financials 7 ''r'' rider_3 104 demo_paid"
  have "case fst ?r of Inl e \<Rightarrow> False | Inr y \<Rightarrow> True" by code_simp
  then show ?thesis by (cases "fst ?r") (auto simp: demo_done_def prod_eq_iff)
qed

lemma reachable_demo_paid: "reachable demo_paid"
  unfolding demo_paid_def by (rule reachable.step [OF reachable_demo_proved live_step.cash])

lemma completion_requires_witness: "\<exists>p. proof_of_delivery demo_paid 104 = Some p \<and> prf_verified_at p \<noteq> None"
  using demo_completed completion_requires by blast

text \<open>C26: completing a delivery of a reachable database delivers the order, leaves it paid, and
  records the merchant's settlement entry for it.\<close>

theorem completion_delivers_and_settles:
  assumes reach: "reachable d"
    and run: "complete_delivery_with_financials now req_id u did d = (Inr y, d')"
  shows "dlv_status y = DLV_DELIVERED \<and> dlv_delivered_at y = Some now
    \<and> (\<exists>o3 e. get_order d' (dlv_order_id y) = Some o3 \<and> ord_status o3 = DELIVERED
        \<and> ord_payment_status o3 = PAID \<and> settlement_of_order d' (dlv_order_id y) = Some e)"
proof (rule completed [OF run])
  fix x o1
  assume l: "locked_delivery_order d did = Inr (x, o1)" and g: "completion_guards d x o1 = Inr ()"
    and tx: "completion_tx (\<lambda>o2. ord_payment_status o2 = PAID) now req_id u x o1 d = Inr d'"
    and y: "get_delivery d' did = Some y"
  from locked_delivery_orderD [OF l] have x: "get_delivery d did = Some x"
    and o1: "get_order d (dlv_order_id x) = Some o1" by auto
  note G = completion_guardsD [OF g]
  show ?thesis using tx
  proof (rule completion_txD)
    fix x2 e d2 and o3 :: order
    assume x2: "x2 = x\<lparr>dlv_status := DLV_DELIVERED, dlv_delivered_at := Some now\<rparr>"
      and o3: "o3 = (if ord_payment_method o1 = COD
           then o1\<lparr>ord_status := DELIVERED, ord_payment_status := PAID\<rparr> else o1\<lparr>ord_status := DELIVERED\<rparr>)"
      and s: "(if ord_payment_status o3 = PAID
           then ensure_settlement_entry o3 (flush_order now o3 (flush_delivery now x2 d))
           else Inr (None, flush_order now o3 (flush_delivery now x2 d))) = Inr (e, d2)"
      and core: "same_core d2 d'"
    let ?d1 = "flush_order now o3 (flush_delivery now x2 d)"
    have paid: "ord_payment_status o3 = PAID" "ord_status o3 = DELIVERED" "ord_id o3 = ord_id o1"
      using G(3) by (auto simp: o3 payment_allows_fulfillment_def)
    have ids: "ord_id o1 = dlv_order_id x" "dlv_id x = did" using o1 x by auto
    have s': "ensure_settlement_entry o3 ?d1 = Inr (e, d2)" using s paid(1) by simp
    have "refund_of_order d (ord_id o1) = None"
    proof -
      obtain z where "coherent (view_of o1 (Some z) (has_refund d (dlv_order_id x)))"
        using reachable_order [OF reach o1] .
      from coherent_row(8) [OF this] show ?thesis
        using G(2) ids(1) by (cases "refund_of_order d (dlv_order_id x)") auto
    qed
    then have "settlement_is_eligible ?d1 o3"
      using paid by (simp add: settlement_is_eligible_def refund_of_order_def)
    with ensure_settlement_entryD [OF s'] have "settlement_of_order d2 (ord_id o3) \<noteq> None"
      by (auto simp: settlement_of_order_def find_append split: option.split)
    then obtain entry where "settlement_of_order d' (ord_id o1) = Some entry"
      using same_core_tables(18) [OF core] paid(3) by (auto simp: settlement_of_order_def)
    moreover have "get_order ?d1 (ord_id o1) = Some o3"
      using order_rows.get_put_same [of "flush_delivery now x2 d" o3 o1 now] o1 paid(3) ids(1)
      by (simp add: get_order_def)
    then have "get_order d' (ord_id o1) = Some o3"
      using ensure_settlement_frame(1) [OF s'] same_core_tables(11) [OF core] by (simp add: get_order_def)
    moreover have "get_delivery ?d1 did = Some (stamp_delivery now x2)"
      using delivery_rows.get_put_same [of d x2 x now] x ids(2) by (simp add: get_delivery_def x2)
    then have "y = stamp_delivery now x2"
      using y ensure_settlement_frame(2) [OF s'] same_core_tables(13) [OF core] by (simp add: get_delivery_def)
    ultimately show ?thesis using paid(1,2) ids(1) by (simp add: x2)
  qed
qed

lemma completion_delivers_and_settles_witness:
  "\<exists>(y :: delivery) o3. get_order demo_done (dlv_order_id y) = Some o3 \<and> ord_status o3 = DELIVERED"
proof -
  from demo_completed obtain y
    where "complete_delivery_with_financials 7 ''r'' rider_3 104 demo_paid = (Inr y, demo_done)" ..
  from completion_delivers_and_settles [OF reachable_demo_paid this] show ?thesis by blast
qed

text \<open>On cash orders the live completion endpoint and the one it shadows are the same.\<close>

theorem completion_endpoints_agree_on_cash:
  assumes "\<And>x o1. locked_delivery_order d did = Inr (x, o1) \<Longrightarrow> ord_payment_method o1 = COD"
  shows "complete_delivery now req_id u did d = complete_delivery_with_financials now req_id u did d"
proof -
  have "completion_tx (\<lambda>o2. ord_payment_method o2 = COD) now req_id u x o1 d
      = completion_tx (\<lambda>o2. ord_payment_status o2 = PAID) now req_id u x o1 d"
    if "ord_payment_method o1 = COD" for x o1
    using that by (simp add: completion_tx_def transition_order_def res_bind_def Let_def split: sum.split)
  with assms show ?thesis
    unfolding complete_delivery_def complete_delivery_with_financials_def
    by (cases "locked_delivery_order d did"; cases "require_roles [DELIVERY, ADMIN] u") auto
qed

lemma completion_endpoints_agree_on_cash_witness:
  "complete_delivery 7 ''r'' rider_3 104 demo_paid = complete_delivery_with_financials 7 ''r'' rider_3 104 demo_paid"
proof (rule completion_endpoints_agree_on_cash)
  fix x o1
  assume "locked_delivery_order demo_paid 104 = Inr (x, o1)"
  moreover have "case locked_delivery_order demo_paid 104 of Inl e \<Rightarrow> True
      | Inr (y, o2) \<Rightarrow> ord_payment_method o2 = COD" by code_simp
  ultimately show "ord_payment_method o1 = COD" by simp
qed

section \<open>What the routes let through\<close>

text \<open>An administrator's status update can mark a delivery assigned although it has no rider
  and its order was only just placed.\<close>

theorem assigned_without_rider:
  "\<exists>(d :: database) d' x o1. reachable d \<and> update_delivery_status 1 ''r'' admin_6 104 ASSIGNED d = (Inr x, d')
     \<and> dlv_status x = ASSIGNED \<and> dlv_delivery_partner_id x = None
     \<and> get_order d' (dlv_order_id x) = Some o1 \<and> ord_status o1 = PLACED"
proof -
  let ?r = "update_delivery_status 1 ''r'' admin_6 104 ASSIGNED (demo_placed UPI)"
  have "case fst ?r of Inl e \<Rightarrow> False | Inr x \<Rightarrow> dlv_status x = ASSIGNED \<and> dlv_delivery_partner_id x = None
      \<and> map_option ord_status (get_order (snd ?r) (dlv_order_id x)) = Some PLACED" by code_simp
  then obtain x o1 where "?r = (Inr x, snd ?r)" "dlv_status x = ASSIGNED" "dlv_delivery_partner_id x = None"
    "get_order (snd ?r) (dlv_order_id x) = Some o1" "ord_status o1 = PLACED"
    by (cases "fst ?r") (auto simp: prod_eq_iff)
  with reachable_demo_placed [of UPI] show ?thesis by blast
qed

definition demo_failed :: database where
  "demo_failed = snd (fail_delivery 3 ''r'' rider_3 104 ''customer_unavailable'' None None demo_claimed)"

text \<open>A rider whose delivery failed before pickup can put it back into the pool with a status
  update, although recovering a failed delivery has an administrator's endpoint of its own.\<close>

theorem rider_recovers_failed_delivery:
  "\<exists>(d :: database) d' x y. reachable d \<and> get_delivery d 104 = Some x \<and> dlv_status x = FAILED
     \<and> (\<exists>e. fst (recover_failed_delivery 4 ''r'' rider_3 104 d) = Inl e)
     \<and> update_delivery_status 4 ''r'' rider_3 104 UNASSIGNED d = (Inr y, d') \<and> dlv_status y = UNASSIGNED"
proof -
  let ?r = "update_delivery_status 4 ''r'' rider_3 104 UNASSIGNED demo_failed"
  have r: "reachable demo_failed"
    unfolding demo_failed_def demo_claimed_def
    by (rule reachable.step [OF reachable.step [OF reachable_demo_ready live_step.claim]
          live_step.delivery_failed])
  have "map_option dlv_status (get_delivery demo_failed 104) = Some FAILED"
    "case fst ?r of Inl e \<Rightarrow> False | Inr y \<Rightarrow> dlv_status y = UNASSIGNED"
    "case fst (recover_failed_delivery 4 ''r'' rider_3 104 demo_failed) of Inl e \<Rightarrow> True | Inr y \<Rightarrow> False"
    by code_simp+
  then obtain x y e where "get_delivery demo_failed 104 = Some x" "dlv_status x = FAILED"
    "?r = (Inr y, snd ?r)" "dlv_status y = UNASSIGNED"
    "fst (recover_failed_delivery 4 ''r'' rider_3 104 demo_failed) = Inl e"
    by (cases "fst ?r"; cases "fst (recover_failed_delivery 4 ''r'' rider_3 104 demo_failed)")
      (auto simp: prod_eq_iff)
  with r show ?thesis by blast
qed

end
