(* ===== verification/Money_Properties.thy ===== *)
theory Money_Properties
  imports Demo
begin

text \<open>
  Money: what a capture, a webhook, a refund and a settlement entry can do, and what a failing
  provider cannot.
\<close>

section \<open>Refund obligations\<close>

lemma one_refund_key:
  assumes "reachable d"
  shows "r \<in> set (payment_refunds d) \<Longrightarrow> rfd_idempotency_key r = refund_idempotency_key (rfd_order_id r)"
proof -
  have "refunds_wf d" using reachable_coherent [OF assms] by (simp add: all_coherent_def tables_wf_def)
  then show "r \<in> set (payment_refunds d) \<Longrightarrow> rfd_idempotency_key r = refund_idempotency_key (rfd_order_id r)"
    by (simp add: refunds_wf_def)
qed

text \<open>No order is refunded twice: in every reachable database two refund rows of one order are
  the same row, and its key at the provider is the order's own.\<close>

theorem one_refund_per_order:
  assumes "reachable d" and "r \<in> set (payment_refunds d)" and "q \<in> set (payment_refunds d)"
    and "rfd_order_id q = rfd_order_id r"
  shows "q = r \<and> rfd_idempotency_key r = refund_idempotency_key (rfd_order_id r)"
proof -
  have "refunds_wf d" using reachable_coherent [OF assms(1)] by (simp add: all_coherent_def tables_wf_def)
  with assms(2-4) show ?thesis by (auto simp: refunds_wf_def distinct_map inj_on_def)
qed

lemma one_refund_per_order_witness:
  "rfd_idempotency_key (hd (payment_refunds demo_refunded)) = ''order-refund:102''"
proof -
  have "hd (payment_refunds demo_refunded) \<in> set (payment_refunds demo_refunded)"
    by (rule list.set_sel(1)) code_simp
  moreover have "rfd_order_id (hd (payment_refunds demo_refunded)) = 102" by code_simp
  moreover have "refund_idempotency_key 102 = ''order-refund:102''" by code_simp
  ultimately show ?thesis using one_refund_per_order [OF reachable_demo_refunded] by metis
qed

text \<open>The one request a dispatch of a refund row can send.\<close>

definition refund_call :: "payment_refund \<Rightarrow> refund_request" where
  "refund_call r =
     \<lparr>rrq_payment_id = the (rfd_provider_payment_id r), rrq_amount = rfd_amount r,
      rrq_speed = ''normal'', rrq_order_note = rfd_order_id r,
      rrq_idempotency = provider_idempotency_key (rfd_idempotency_key r)\<rparr>"

lemma of_char_digit: "(of_char (digit n) :: nat) = 48 + n mod 10"
  by (simp add: digit_def)

lemma show_nat_digits: "c \<in> set (show_nat n) \<Longrightarrow> (of_char c :: nat) < 58"
proof (induction n rule: show_nat.induct)
  case (1 n)
  then show ?case
    by (subst (asm) (2) show_nat.simps) (auto simp: of_char_digit split: if_splits)
qed

lemma show_nat_no_colon: "map (\<lambda>c. if c = CHR '':'' then CHR ''-'' else c) (show_nat n) = show_nat n"
proof (rule map_idI)
  fix c assume "c \<in> set (show_nat n)"
  from show_nat_digits [OF this] show "(if c = CHR '':'' then CHR ''-'' else c) = c" by auto
qed

lemma dispatch_refund_call:
  assumes "get_refund d rid = Some r" and "post (refund_call r) = post2 (refund_call r)"
  shows "dispatch_refund cfg post now rid d = dispatch_refund cfg post2 now rid d"
proof (cases "dispatch_claim cfg now rid d")
  case (Pair c d1)
  then show ?thesis
  proof (cases rule: dispatch_claim_cases)
    case (called r2)
    then have "r2 = r" using assms(1) by simp
    with called(1) assms(2) Pair show ?thesis
      by (simp add: dispatch_refund_def create_razorpay_refund_def claimed_refund_def refund_call_def)
  qed (simp_all add: dispatch_refund_def Pair)
qed



section \<open>What a refund dispatch can end in\<close>

text \<open>A refund order is marked refunded only by a provider answer \<open>processed\<close>.\<close>

lemma payment_after_provider:
  assumes "get_order (apply_provider_refund_result now r p d) oid = Some o2" and "get_order d oid = Some o1"
  shows "ord_payment_status o2 = ord_payment_status o1
    \<or> text_or_none (rpl_status p) = Some ''processed'' \<and> rfd_order_id r = oid"
proof (cases "text_or_none (rpl_status p) = Some ''processed''")
  case False
  then have "get_order (apply_provider_refund_result now r p d) oid = get_order d oid"
    by (simp add: apply_provider_refund_result_def Let_def get_order_def)
  with assms show ?thesis by simp
next
  case True
  show ?thesis
  proof (cases "rfd_order_id r = oid")
    case False
    have "get_order (mark_succeeded now r2 ps d) oid = get_order d oid" if "rfd_order_id r2 = rfd_order_id r" for r2 ps
    proof (cases "get_order d (rfd_order_id r)")
      case (Some o3)
      then have "ord_id o3 \<noteq> oid" using False by auto
      then have "oid \<noteq> ord_id (o3\<lparr>ord_payment_status := REFUNDED\<rparr>)" by simp
      then have "get_row ord_id (put_row ord_id (o3\<lparr>ord_payment_status := REFUNDED\<rparr>) (orders d)) oid
          = get_row ord_id (orders d) oid" by (simp add: get_put_row)
      with Some that show ?thesis
        by (simp add: mark_succeeded_def settle_refunded_order_def Let_def get_order_def)
    qed (use that in \<open>simp add: mark_succeeded_def Let_def get_order_def\<close>)
    with assms True show ?thesis
      by (simp add: apply_provider_refund_result_def Let_def)
  qed (use True in simp)
qed

text \<open>C28: a dispatch marks an order refunded only if the provider answered that very request with
  status \<open>processed\<close>; a rejected, unreachable, malformed or pending refund never does.\<close>

theorem refunded_only_when_processed:
  assumes "dispatch_refund cfg post now rid d = (s, d')"
    and "get_order d oid = Some o1" and "ord_payment_status o1 \<noteq> REFUNDED"
    and "get_order d' oid = Some o2" and "ord_payment_status o2 = REFUNDED"
  shows "\<exists>r p. get_refund d rid = Some r \<and> rfd_order_id r = oid
    \<and> post (refund_call r) = Body p \<and> rpl_status p = Some ''processed''"
proof (cases "dispatch_claim cfg now rid d")
  case (Pair c d1)
  then show ?thesis
  proof (cases rule: dispatch_claim_cases)
    case (called r)
    let ?reply = "create_razorpay_refund cfg post (the (rfd_provider_payment_id (claimed_refund r)))
        (paise (rfd_amount (claimed_refund r))) (rfd_idempotency_key (claimed_refund r))
        (rfd_order_id (claimed_refund r))"
    have d': "d' = snd (dispatch_finish now rid ?reply d1)"
      using assms(1) Pair called(1) by (simp add: dispatch_refund_def)
    have o1: "get_order d1 oid = Some o1" using assms(2) called(4) by (simp add: get_order_def)
    show ?thesis
    proof (cases ?reply)
      case (Inl e)
      with d' have "get_order d' oid = get_order d1 oid"
        by (simp add: dispatch_finish_def get_order_def split: option.split)
      with o1 assms(3-5) show ?thesis by simp
    next
      case (Inr p)
      have body: "post (refund_call r) = Body p"
        using Inr by (auto simp: create_razorpay_refund_def claimed_refund_def refund_call_def
            split: if_splits provider_reply.splits)
      have "get_refund d1 rid = Some (claimed_refund r)"
        using refund_rows.get_put_same [of d "claimed_refund r" r] called(2,4)
        by (auto simp: claimed_refund_def)
      then have "d' = apply_provider_refund_result now (claimed_refund r) p d1"
        using d' Inr by (simp add: dispatch_finish_def Let_def)
      with payment_after_provider [of now "claimed_refund r" p d1 oid o2 o1] o1 assms(3-5)
      have "text_or_none (rpl_status p) = Some ''processed''" "rfd_order_id r = oid"
        by (auto simp: claimed_refund_def)
      with body called(2) show ?thesis by (auto simp: text_or_none_def split: if_splits)
    qed
  next
    case untouched
    with assms Pair show ?thesis by (simp add: dispatch_refund_def)
  next
    case (failed r m n)
    with assms(1) Pair have "orders d' = orders d" by (auto simp: dispatch_refund_def)
    with assms(2-5) show ?thesis by (simp add: get_order_def)
  qed
qed

lemma refunded_only_when_processed_witness:
  "\<exists>r p. get_refund demo_owed 110 = Some r \<and> demo_post (refund_call r) = Body p
     \<and> rpl_status p = Some ''processed''"
proof -
  let ?t = "dispatch_refund demo_settings demo_post 4 110 demo_owed"
  have "map_option ord_payment_status (get_order demo_owed 102) = Some REFUND_PENDING"
    "map_option ord_payment_status (get_order (snd ?t) 102) = Some REFUNDED" by code_simp+
  then obtain o1 o2 where "get_order demo_owed 102 = Some o1" "ord_payment_status o1 \<noteq> REFUNDED"
    "get_order (snd ?t) 102 = Some o2" "ord_payment_status o2 = REFUNDED" by auto
  from refunded_only_when_processed [OF prod.collapse [symmetric] this] show ?thesis by blast
qed



text \<open>At most eight calls to the provider fail for one refund: a row that failed so often that it
  is still due before each failure has failed at most eight times.\<close>

theorem refund_attempts_bounded:
  assumes "\<And>k. k < n \<Longrightarrow> due_refund (((\<lambda>q. failed_refund now m (claimed_refund q)) ^^ k) r)"
    and "0 \<le> rfd_attempt_count r"
  shows "int n \<le> 8 - rfd_attempt_count r \<or> n = 0"
  using refund_queue.retries_bounded [of n now m r] assms by (auto simp: MAX_REFUND_ATTEMPTS_def)

lemma refund_attempts_bounded_witness: "int 2 \<le> 8 - rfd_attempt_count (demo_refund REFUND_FAILED 6) \<or> (2::nat) = 0"
proof (rule refund_attempts_bounded [of _ 0 "[]"])
  show "due_refund (((\<lambda>q. failed_refund 0 [] (claimed_refund q)) ^^ k) (demo_refund REFUND_FAILED 6))"
    if "k < 2" for k
  proof -
    from that consider "k = 0" | "k = 1" by linarith
    then show ?thesis
      by cases (simp_all add: due_refund_def failed_refund_def claimed_refund_def demo_refund_def refund_constants)
  qed
qed (simp add: demo_refund_def)

section \<open>Webhooks\<close>

text \<open>C30: a webhook whose signature is missing or is not the HMAC of the raw body under the
  configured secret fails and changes nothing; a genuine event is applied once: after a delivery
  of it succeeded, every later delivery under its event key is acknowledged and changes nothing.\<close>

theorem webhook_authentic_and_once:
  "(cfg_razorpay_webhook_secret cfg = Some secret \<and> sig \<noteq> hmac secret raw \<longrightarrow>
      (\<exists>e. hardened_razorpay_webhook cfg hmac sha256 parse now raw sig eid d = (Inl e, d)))
    \<and> (hardened_razorpay_webhook cfg hmac sha256 parse now raw sig eid d = (Inr r, d1) \<and>
      webhook_body cfg hmac parse raw2 sig2 = Inr p2 \<and>
      (case text_or_none eid2 of None \<Rightarrow> sha256 raw2 | Some k \<Rightarrow> k) =
       (case text_or_none eid of None \<Rightarrow> sha256 raw | Some k \<Rightarrow> k) \<longrightarrow>
      hardened_razorpay_webhook cfg hmac sha256 parse now2 raw2 sig2 eid2 d1 = (Inr True, d1))"
proof -
  have "\<exists>e. webhook_body cfg hmac parse raw sig = Inl e"
    if "cfg_razorpay_webhook_secret cfg = Some secret" "sig \<noteq> hmac secret raw"
    using that by (auto simp: webhook_body_def verify_razorpay_webhook_signature_def unavailable_503_def
        res_bind_def text_or_none_def)
  then show ?thesis
    using webhook_applied_once [of cfg hmac sha256 parse now raw sig eid d r d1 raw2 sig2 p2 eid2 now2]
    by (auto simp: hardened_razorpay_webhook_def)
qed

definition demo_parse :: "string \<Rightarrow> parsed_body" where
  "demo_parse raw =
     Json_Object \<lparr>wpl_event = Some ''refund.failed'', wpl_payment_id = None, wpl_payment_order_id = None,
       wpl_order_id = None, wpl_refund_id = Some ''rfnd_1'', wpl_refund_payment_id = Some ''pay_1'',
       wpl_refund_status = Some ''failed''\<rparr>"

lemma webhook_authentic_and_once_witness:
  "\<exists>e. hardened_razorpay_webhook demo_settings demo_hmac id demo_parse 9 ''{}'' ''forged'' None demo_refunded
     = (Inl e, demo_refunded)"
proof -
  have "cfg_razorpay_webhook_secret demo_settings = Some ''w''" "''forged'' \<noteq> demo_hmac ''w'' ''{}''"
    by (simp_all add: demo_settings_def demo_hmac_def)
  with webhook_authentic_and_once [of demo_settings "''w''" "''forged''" demo_hmac "''{}''"]
  show ?thesis by blast
qed

section \<open>Captures\<close>

lemma lock_payment_user:
  "lock_payment_context d (\<lambda>a. pat_id a = aid) (Some uid) = (Some a, Some o1, b) \<Longrightarrow>
     a \<in> set (payment_attempts d) \<and> pat_id a = aid \<and> pat_order_id a = ord_id o1
       \<and> get_order d (ord_id o1) = Some o1 \<and> ord_user_id o1 = uid"
  by (auto simp: lock_payment_context_def get_order_id split: option.splits if_splits dest!: find_Some_in)

lemma apply_paid_other:
  assumes "apply_paid now a o1 pid d = Inr d'" and "k \<noteq> ord_id o1"
  shows "get_order d' k = get_order d k"
proof -
  obtain a1 where "capture_attempt now a1 o1 d = Inr d'"
    using assms(1) by (auto simp: apply_paid_def res_bind_Inr)
  then show ?thesis
  proof (cases rule: capture_attempt_cases)
    case (orphaned r o2 d2)
    then have "ord_id o2 = ord_id o1" using ensure_refund_frame(14) [OF orphaned(3)] by auto
    with orphaned assms(2) show ?thesis
      by (simp add: get_order_def get_put_row ensure_refund_frame(1) [OF orphaned(3)])
  next
    case (captured e)
    with assms(2) show ?thesis
      by (simp add: get_order_def get_put_row ensure_settlement_frame(1) [OF captured(3)])
  qed (simp add: get_order_def)
qed

lemma apply_failed_payment:
  "get_order (apply_failed now a o1 d) k = Some o2 \<Longrightarrow>
     get_order d k = Some o2 \<or> ord_payment_status o2 = PAYMENT_FAILED"
  by (auto simp: apply_failed_def get_order_def get_put_row split: if_splits)

text \<open>C31: the customer's app cannot mark an order paid by itself: when a verification request turns
  an order into a paid one, the order is that customer's, the attempt belongs to it, and the
  signature is the HMAC, under the secret key, of the attempt's own provider order and the payment.\<close>

theorem paid_only_with_signature:
  assumes "hardened_verify_payment cfg hmac now u aid pid sig d = (r, d')"
    and "get_order d oid = Some o1" and "ord_payment_status o1 \<noteq> PAID"
    and "get_order d' oid = Some o2" and "ord_payment_status o2 = PAID"
  shows "\<exists>a secret po. a \<in> set (payment_attempts d) \<and> pat_id a = aid \<and> pat_order_id a = oid
    \<and> ord_user_id o1 = usr_id u \<and> cfg_razorpay_key_secret cfg = Some secret
    \<and> pat_provider_order_id a = Some po \<and> sig = hmac secret (po @ ''|'' @ pid)"
proof -
  obtain x y b where ctx: "lock_payment_context d (\<lambda>a. pat_id a = aid) (Some (usr_id u)) = (x, y, b)"
    by (rule prod_cases3)
  have changed: "get_order d' oid \<noteq> get_order d oid" using assms(2-5) by auto
  then obtain a o3 where a: "x = Some a" "y = Some o3" "b"
    using assms(1) ctx
    by (auto simp: hardened_verify_payment_def raise_http_def split: option.splits bool.splits)
  note L = lock_payment_user [OF ctx [unfolded a(1,2)]]
  have same: "get_order d1 oid = get_order d oid" if "ensure_settlement_entry o3 d = Inr (e, d1)" for e d1
    using ensure_settlement_frame(1) [OF that] by (simp add: get_order_def)
  obtain po where po: "text_or_none (pat_provider_order_id a) = Some po"
    using assms(1) ctx a changed
    by (auto simp: hardened_verify_payment_def raise_http_def split: option.splits)
  have snd': "d' = snd (hardened_verify_payment cfg hmac now u aid pid sig d)" using assms(1) by simp
  have fresh: "\<not> (pat_status a = ''paid'' \<and> pat_provider_payment_id a = Some pid)"
    using snd' ctx a po changed same
    by (auto simp: hardened_verify_payment_def attempt_def split: sum.splits if_splits)
  obtain valid where v: "unavailable_503 (verify_razorpay_signature cfg hmac po pid sig) = Inr valid"
    using snd' ctx a po fresh changed
    by (cases "unavailable_503 (verify_razorpay_signature cfg hmac po pid sig)")
      (auto simp: hardened_verify_payment_def)
  have valid
  proof (rule ccontr)
    assume "\<not> valid"
    then have "d' = apply_failed now a o3 d"
      using snd' ctx a po fresh v by (simp add: hardened_verify_payment_def)
    with apply_failed_payment [of now a o3 d oid o2] assms show False by auto
  qed
  with v obtain secret where secret: "cfg_razorpay_key_secret cfg = Some secret"
    "sig = hmac secret (po @ ''|'' @ pid)"
    by (auto simp: verify_razorpay_signature_def unavailable_503_def text_or_none_def
        split: option.splits if_splits)
  have "ord_id o3 = oid"
  proof (rule ccontr)
    assume "ord_id o3 \<noteq> oid"
    then have "get_order d' oid = get_order d oid"
      using snd' ctx a po fresh v \<open>valid\<close> apply_paid_other [of now a o3 "Some pid" d _ oid]
      by (auto simp: hardened_verify_payment_def attempt_def split: sum.splits)
    with changed show False ..
  qed
  with L secret po assms(2) show ?thesis
    by (auto simp: text_or_none_def split: if_splits)
qed

lemma paid_only_with_signature_witness:
  "\<exists>secret. cfg_razorpay_key_secret demo_settings = Some secret
     \<and> ''sorder_A|pay_1'' = demo_hmac secret (''order_A'' @ ''|'' @ ''pay_1'')"
proof -
  let ?t = "hardened_verify_payment demo_settings demo_hmac 2 customer_1 107 ''pay_1'' ''sorder_A|pay_1'' demo_intent"
  have "map_option ord_payment_status (get_order demo_intent 102) = Some PENDING"
    "map_option ord_payment_status (get_order (snd ?t) 102) = Some PAID"
    "map pat_provider_order_id (payment_attempts demo_intent) = [Some ''order_A'']" by code_simp+
  then obtain o1 o2 where o: "get_order demo_intent 102 = Some o1" "ord_payment_status o1 \<noteq> PAID"
    "get_order (snd ?t) 102 = Some o2" "ord_payment_status o2 = PAID"
    and at: "map pat_provider_order_id (payment_attempts demo_intent) = [Some ''order_A'']" by auto
  from at have "pat_provider_order_id a = Some ''order_A''" if "a \<in> set (payment_attempts demo_intent)" for a
    using that by auto
  with paid_only_with_signature [OF prod.collapse [symmetric] o] show ?thesis by fastforce
qed

lemma flush_order_refunds: "payment_refunds (flush_order now o1 d) = payment_refunds d"
  by simp



section \<open>Intents\<close>

lemma latest_by_map:
  "(\<And>x. x \<in> set t \<Longrightarrow> f (g x) = f x) \<Longrightarrow> latest_by f (map g t) = map_option g (latest_by f t)"
  by (induction t) (auto split: option.split dest: latest_by_in)

lemma live_attempt_flush:
  assumes dist: "distinct (map pat_id (payment_attempts d))" and live: "live_attempt d oid = Some x"
  shows "\<exists>y. live_attempt (flush_attempt now (x\<lparr>pat_status := ''attempted''\<rparr>) d) oid = Some y
    \<and> pat_id y = pat_id x \<and> pat_provider_order_id y = pat_provider_order_id x"
proof -
  let ?x = "x\<lparr>pat_status := ''attempted''\<rparr>"
  let ?P = "\<lambda>a. pat_order_id a = oid \<and> pat_provider a = ''razorpay''
      \<and> pat_status a \<in> {''created'', ''attempted''} \<and> pat_provider_order_id a \<noteq> None"
  let ?g = "\<lambda>r. if pat_id r = pat_id x then stamp_attempt now ?x else r"
  have x: "x \<in> set (payment_attempts d)" "?P x"
    using latest_by_in [OF live [unfolded live_attempt_def]] by auto
  show ?thesis
  proof (cases "get_attempt d (pat_id ?x) = Some ?x")
    case True
    then have "flush_attempt now ?x d = d" by (simp add: flush_attempt_def)
    with live show ?thesis by simp
  next
    case False
    then have flushed: "payment_attempts (flush_attempt now ?x d) = map ?g (payment_attempts d)"
      by (simp add: flush_attempt_def put_row_def)
    have same: "r = x" if "r \<in> set (payment_attempts d)" "pat_id r = pat_id x" for r
      using dist x(1) that by (auto simp: distinct_map inj_on_def)
    have "filter ?P (map ?g (payment_attempts d)) = map ?g (filter ?P (payment_attempts d))"
      unfolding filter_map by (rule arg_cong [of _ _ "map ?g"], rule filter_cong [OF refl])
        (use same x(2) in \<open>auto simp: stamp_attempt_def\<close>)
    moreover have "latest_by pat_created_at (map ?g (filter ?P (payment_attempts d)))
        = map_option ?g (latest_by pat_created_at (filter ?P (payment_attempts d)))"
      by (rule latest_by_map) (auto simp: stamp_attempt_def dest: same)
    ultimately show ?thesis
      using live by (simp add: live_attempt_def flushed stamp_attempt_def)
  qed
qed

text \<open>Asking again for a payment intent opens no second provider order: after an intent was
  handed out, a repeated request of the customer is answered with the same attempt and the same
  provider order, whatever the provider would answer now, and adds no attempt.\<close>

theorem intent_is_idempotent:
  assumes pk: "distinct (map pat_id (payment_attempts d))"
    and clock: "\<forall>a \<in> set (payment_attempts d). pat_created_at a \<le> now"
    and run: "create_payment_intent cfg post now u oid d = (Inr p, d')"
  shows "\<exists>p2 d2. create_payment_intent cfg post2 now2 u oid d' = (Inr p2, d2)
    \<and> pin_payment_attempt_id p2 = pin_payment_attempt_id p
    \<and> pin_provider_order_id p2 = pin_provider_order_id p
    \<and> map pat_id (payment_attempts d2) = map pat_id (payment_attempts d')"
proof -
  have again: "\<exists>p2 d2. create_payment_intent cfg post2 now2 u oid d' = (Inr p2, d2)
      \<and> pin_payment_attempt_id p2 = pat_id y
      \<and> pin_provider_order_id p2 = (case pat_provider_order_id y of None \<Rightarrow> [] | Some i \<Rightarrow> i)
      \<and> map pat_id (payment_attempts d2) = map pat_id (payment_attempts d')"
    if "get_order d' oid = get_order d oid" "live_attempt d' oid = Some y"
      "text_or_none (pat_provider_order_id y) \<noteq> None" "text_or_none (cfg_razorpay_key_id cfg) \<noteq> None" for y
    using that run
    by (auto simp: create_payment_intent_def raise_http_def intent_of_def Let_def flush_attempt_def
        split: option.splits if_splits)
  show ?thesis
  proof (cases "Option.bind (live_attempt d oid)
      (\<lambda>a. if text_or_none (pat_provider_order_id a) = None then None else Some a)")
    case (Some x)
    then have x: "live_attempt d oid = Some x" "text_or_none (pat_provider_order_id x) \<noteq> None"
      by (auto simp: bind_eq_Some_conv split: if_splits)
    obtain key where key: "text_or_none (cfg_razorpay_key_id cfg) = Some key"
      "p = intent_of (x\<lparr>pat_status := ''attempted''\<rparr>) key"
      "d' = flush_attempt now (x\<lparr>pat_status := ''attempted''\<rparr>) d"
      using run Some by (auto simp: create_payment_intent_def raise_http_def Let_def split: option.splits if_splits)
    obtain y where y: "live_attempt d' oid = Some y" "pat_id y = pat_id x"
      "pat_provider_order_id y = pat_provider_order_id x"
      using live_attempt_flush [OF pk x(1), of now] key(3) by auto
    with again [of y] x key show ?thesis by (auto simp: get_order_def intent_of_def)
  next
    case None
    then obtain i where i: "create_razorpay_order cfg post (paise (ord_total (the (get_order d oid))))
        (ord_order_number (the (get_order d oid))) oid = Inr i"
      and d': "payment_attempts d' = payment_attempts d @ [new_attempt now (db_next_id d) (the (get_order d oid)) i]"
        "orders d' = orders d" "pin_payment_attempt_id p = db_next_id d" "pin_provider_order_id p = i"
      and o1: "get_order d oid \<noteq> None"
      using run by (auto simp: create_payment_intent_def raise_http_def Let_def intent_of_def new_attempt_def
          split: option.splits if_splits sum.splits exn.splits)
    have enabled: "text_or_none (cfg_razorpay_key_id cfg) \<noteq> None" "i \<noteq> []"
      using i by (auto simp: create_razorpay_order_def razorpay_enabled_def text_or_none_def
          split: if_splits provider_reply.splits option.splits)
    have id: "ord_id (the (get_order d oid)) = oid" using o1 by auto
    have "live_attempt d' oid = Some (new_attempt now (db_next_id d) (the (get_order d oid)) i)"
      unfolding live_attempt_def d'(1) filter_append
      using clock id by (simp add: new_attempt_def) (rule latest_by_snoc_max, auto)
    with again [of "new_attempt now (db_next_id d) (the (get_order d oid)) i"] enabled d' show ?thesis
      by (auto simp: new_attempt_def text_or_none_def get_order_def)
  qed
qed

lemma intent_is_idempotent_witness:
  "\<exists>p2 d2. create_payment_intent demo_settings (\<lambda>_. Transport_Error) 7 customer_1 102 demo_intent = (Inr p2, d2)"
proof -
  let ?t = "create_payment_intent demo_settings demo_rpost 1 customer_1 102 (demo_placed UPI)"
  have none: "payment_attempts (demo_placed UPI) = []" and "case fst ?t of Inl e \<Rightarrow> False | Inr p \<Rightarrow> True" by code_simp+
  then obtain p where "?t = (Inr p, demo_intent)" by (cases "fst ?t") (auto simp: demo_intent_def prod_eq_iff)
  from intent_is_idempotent [OF _ _ this] none show ?thesis by fastforce
qed

section \<open>Settlement entries\<close>

text \<open>C33: a settlement entry splits the order's total into the merchant's part and the delivery fee,
  is only created for an order that is paid, not cancelled and not being refunded, and a second
  call for the order changes nothing.\<close>

theorem settlement_splits_total:
  assumes "ensure_settlement_entry o1 d = Inr (Some e, d')" and "settlement_of_order d (ord_id o1) = None"
    and total: "ord_total o1 = order_total (ord_subtotal o1) (ord_delivery_fee o1)"
  shows "set_gross_amount e = set_merchant_amount e + set_delivery_fee_amount e
    \<and> set_gross_amount e = ord_total o1 \<and> set_merchant_amount e = ord_subtotal o1
    \<and> ord_payment_status o1 = PAID \<and> ord_status o1 \<noteq> CANCELLED \<and> refund_of_order d (ord_id o1) = None
    \<and> settlement_entries d' = settlement_entries d @ [e] \<and> set_status e = SETTLEMENT_PENDING
    \<and> ensure_settlement_entry o1 d' = Inr (Some e, d')"
  using assms
  by (auto simp: ensure_settlement_entry_def settlement_is_eligible_def Let_def settlement_of_order_def
      find_append split: if_splits option.splits)

lemma settlement_splits_total_witness:
  "\<exists>e d'. ensure_settlement_entry (demo_order READY UPI PAID) demo_db = Inr (Some e, d')
     \<and> set_gross_amount e = set_merchant_amount e + set_delivery_fee_amount e"
proof -
  have "case ensure_settlement_entry (demo_order READY UPI PAID) demo_db of Inr (Some e, d') \<Rightarrow> True | _ \<Rightarrow> False"
    by code_simp
  then obtain e d' where e: "ensure_settlement_entry (demo_order READY UPI PAID) demo_db = Inr (Some e, d')"
    by (auto split: option.splits sum.splits)
  have "settlement_of_order demo_db (ord_id (demo_order READY UPI PAID)) = None"
    "ord_total (demo_order READY UPI PAID) =
       order_total (ord_subtotal (demo_order READY UPI PAID)) (ord_delivery_fee (demo_order READY UPI PAID))"
    by code_simp+
  from settlement_splits_total [OF e this] e show ?thesis by blast
qed

lemma settlement_of_put_row:
  assumes "distinct (map set_id (settlement_entries d))" and "settlement_of_order d oid = Some x"
    and "set_id y = set_id x" and "set_order_id y = oid"
  shows "find (\<lambda>e. set_order_id e = oid) (put_row set_id y (settlement_entries d)) = Some y"
proof -
  have "find (\<lambda>e. set_order_id e = oid) es = Some x \<Longrightarrow> distinct (map set_id es) \<Longrightarrow>
      find (\<lambda>e. set_order_id e = oid) (put_row set_id y es) = Some y" for es
    using assms(3,4)
    by (induction es) (auto simp: find_Some_iff in_set_conv_nth split: if_splits dest: nth_mem)
  then show ?thesis using assms(1,2) by (simp add: settlement_of_order_def)
qed

lemma void_settlement_unchanged:
  assumes "settlement_of_order d (ord_id o1) = Some x"
    and "set_status x = SETTLEMENT_VOIDED \<or> set_status x \<noteq> SETTLEMENT_PENDING \<and>
      find (\<lambda>a. adj_idempotency_key a = settlement_reversal_key (set_id x)) (settlement_adjustments d) \<noteq> None"
  shows "void_settlement_for_refund now o1 reason d = d"
  using assms by (auto simp: void_settlement_for_refund_def REVERSIBLE_SETTLEMENT_STATUSES_def)

lemma void_settlement_again:
  assumes "distinct (map set_id (settlement_entries d))"
  shows "void_settlement_for_refund now2 o1 reason2 (void_settlement_for_refund now o1 reason d)
      = void_settlement_for_refund now o1 reason d"
proof (cases "settlement_of_order d (ord_id o1)")
  case None
  then show ?thesis by (simp add: void_settlement_for_refund_def)
next
  case (Some x)
  then have xo: "set_order_id x = ord_id o1" by (auto simp: settlement_of_order_def find_Some_iff)
  consider (voided) "set_status x = SETTLEMENT_VOIDED" | (pending) "set_status x = SETTLEMENT_PENDING"
    | (paid_out) "set_status x \<noteq> SETTLEMENT_VOIDED" "set_status x \<noteq> SETTLEMENT_PENDING" by blast
  then show ?thesis
  proof cases
    case voided
    then show ?thesis using Some by (simp add: void_settlement_for_refund_def)
  next
    case pending
    let ?y = "x\<lparr>set_status := SETTLEMENT_VOIDED, set_voided_at := Some now, set_void_reason := Some reason\<rparr>"
    have v: "void_settlement_for_refund now o1 reason d = d\<lparr>settlement_entries := put_row set_id ?y (settlement_entries d)\<rparr>"
      using Some pending by (simp add: void_settlement_for_refund_def settlement_constants)
    have "settlement_of_order (void_settlement_for_refund now o1 reason d) (ord_id o1) = Some ?y"
      using settlement_of_put_row [OF assms Some, of ?y] xo by (simp add: v settlement_of_order_def)
    then show ?thesis by (rule void_settlement_unchanged) simp
  next
    case paid_out
    have keep: "settlement_of_order (void_settlement_for_refund now o1 reason d) (ord_id o1) = Some x"
      using Some paid_out
      by (auto simp: void_settlement_for_refund_def REVERSIBLE_SETTLEMENT_STATUSES_def Let_def
          settlement_of_order_def split: option.split)
    have "find (\<lambda>a. adj_idempotency_key a = settlement_reversal_key (set_id x)) (settlement_adjustments (void_settlement_for_refund now o1 reason d)) \<noteq> None"
      using Some paid_out
      by (auto simp: void_settlement_for_refund_def REVERSIBLE_SETTLEMENT_STATUSES_def Let_def find_append
          split: option.split)
    with paid_out(2) show ?thesis by (intro void_settlement_unchanged [OF keep]) simp
  qed
qed

definition demo_settlement :: settlement_entry where
  "demo_settlement =
     \<lparr>set_id = 111, set_order_id = 102, set_store_id = 14, set_merchant_id = 13, set_payment_method = ''cod'',
      set_gross_amount = 13000, set_merchant_amount = 10000, set_delivery_fee_amount = 3000,
      set_status = SETTLEMENT_PENDING, set_settled_at = None, set_voided_at = None, set_void_reason = None\<rparr>"

text \<open>Taking the entitlement back works whatever happened before: afterwards no entry of the
  order is pending, and repeating the call, for whatever reason, changes nothing more.\<close>

theorem void_leaves_nothing_pending:
  assumes "distinct (map set_id (settlement_entries d))" and "length (settlements_of d (ord_id o1)) \<le> 1"
  shows "(\<forall>e \<in> set (settlement_entries (void_settlement_for_refund now o1 reason d)).
        set_order_id e = ord_id o1 \<longrightarrow> set_status e \<noteq> SETTLEMENT_PENDING)
    \<and> void_settlement_for_refund now2 o1 reason2 (void_settlement_for_refund now o1 reason d)
        = void_settlement_for_refund now o1 reason d"
  using void_settlement_not_pending [OF assms] void_settlement_again [OF assms(1)] by blast

lemma void_leaves_nothing_pending_witness:
  "set_status (hd (settlement_entries (void_settlement_for_refund 8 (demo_order CANCELLED COD PAID)
      VOID_REASON_REFUNDED (demo_db\<lparr>settlement_entries := [demo_settlement]\<rparr>)))) \<noteq> SETTLEMENT_PENDING"
proof -
  let ?o = "demo_order CANCELLED COD PAID" and ?d = "demo_db\<lparr>settlement_entries := [demo_settlement]\<rparr>"
  have "distinct (map set_id (settlement_entries ?d))" "length (settlements_of ?d (ord_id ?o)) \<le> 1"
    by (simp_all add: settlements_of_def)
  moreover obtain e where "settlement_entries (void_settlement_for_refund 8 ?o VOID_REASON_REFUNDED ?d) = [e]"
    "set_order_id e = ord_id ?o"
    by (simp add: void_settlement_for_refund_def settlement_of_order_def demo_settlement_def demo_order_def
        settlement_constants)
  ultimately show ?thesis using void_leaves_nothing_pending [of ?d ?o 8 VOID_REASON_REFUNDED] by simp
qed

section \<open>What the refund routes let through\<close>




end
