(* ===== verification/Platform.thy ===== *)
theory Platform
  imports System
begin

text \<open>
  The rest of the platform around the marketplace core: its tables (\<open>models/banners.py\<close>,
  \<open>models/support.py\<close>, \<open>DeliveryLocation\<close>, \<open>ExternalIdentity\<close>) extend the database record, its
  settings extend the settings, so that a handler of the core runs on the larger database
  unchanged. \<open>quiet\<close> says that an operation leaves orders, deliveries, refunds, stock and
  delivery proofs alone; such an operation keeps the invariant of the core.
\<close>

section \<open>Rows\<close>

record banner_manifest =
  bmf_template_id :: string
  bmf_template_revision :: string
  bmf_title :: string
  bmf_locality :: string
  bmf_category :: "string option"

record store_banner_version =
  bnv_id :: uuid
  bnv_store_id :: uuid
  bnv_version :: int
  bnv_source :: string
  bnv_template_revision :: string
  bnv_manifest :: "banner_manifest option"
  bnv_input_fingerprint :: string
  bnv_generation_status :: string
  bnv_moderation_status :: string
  bnv_failure_code :: "string option"
  bnv_ready_at :: "timestamp option"
  bnv_moderated_at :: "timestamp option"
  bnv_moderated_by_user_id :: "uuid option"

record banner_generation_job =
  bnj_id :: uuid
  bnj_store_id :: uuid
  bnj_version_id :: uuid
  bnj_trigger :: string
  bnj_idempotency_key :: string
  bnj_status :: string
  bnj_attempt_count :: int
  bnj_next_attempt_at :: "timestamp option"
  bnj_lease_expires_at :: "timestamp option"
  bnj_failure_code :: "string option"
  bnj_created_at :: timestamp

record store_banner_selection =
  bns_store_id :: uuid
  bns_active_version_id :: "uuid option"
  bns_revision :: int
  bns_selected_by_user_id :: "uuid option"

record banner_audit_event =
  bna_id :: uuid
  bna_store_id :: uuid
  bna_version_id :: "uuid option"
  bna_actor_user_id :: "uuid option"
  bna_action :: string
  bna_reason_code :: "string option"
  bna_request_id :: string

record delivery_location =
  loc_id :: uuid
  loc_delivery_id :: uuid
  loc_delivery_partner_id :: uuid
  loc_latitude :: rat
  loc_longitude :: rat
  loc_accuracy_m :: "rat option"
  loc_heading_deg :: "rat option"
  loc_speed_mps :: "rat option"
  loc_recorded_at :: timestamp

record external_identity =
  xid_id :: uuid
  xid_user_id :: uuid
  xid_provider :: string
  xid_subject :: string
  xid_last_authenticated_at :: timestamp

text \<open>Free text written by people is a list of Unicode code points.\<close>

type_synonym utext = "nat list"

record support_ticket =
  tkt_id :: uuid
  tkt_user_id :: uuid
  tkt_order_id :: "uuid option"
  tkt_delivery_id :: "uuid option"
  tkt_store_id :: "uuid option"
  tkt_requester_type :: "string option"
  tkt_assigned_admin_id :: "uuid option"
  tkt_idempotency_key :: "uuid option"
  tkt_subject :: utext
  tkt_description :: utext
  tkt_category :: string
  tkt_priority :: string
  tkt_status :: string
  tkt_triage_summary :: utext
  tkt_suggested_action :: string
  tkt_resolution_notes :: "utext option"
  tkt_version :: int
  tkt_created_at :: timestamp
  tkt_resolved_at :: "timestamp option"

record support_message =
  msg_id :: uuid
  msg_ticket_id :: uuid
  msg_author_user_id :: "uuid option"
  msg_author_type :: string
  msg_visibility :: string
  msg_idempotency_key :: uuid
  msg_body :: utext
  msg_created_at :: timestamp

section \<open>The database and the settings\<close>

record platform = database +
  store_banner_versions :: "store_banner_version list"
  banner_generation_jobs :: "banner_generation_job list"
  store_banner_selections :: "store_banner_selection list"
  banner_audit_events :: "banner_audit_event list"
  delivery_locations :: "delivery_location list"
  external_identities :: "external_identity list"
  support_tickets :: "support_ticket list"
  support_messages :: "support_message list"

type_synonym ('a, 'm) platform_handler = "'m platform_scheme \<Rightarrow> 'a res \<times> 'm platform_scheme"

record platform_settings = settings +
  cfg_auth_provider :: string
  cfg_dev_otp :: string
  cfg_otp_ttl_seconds :: int
  cfg_otp_rate_window_seconds :: int
  cfg_otp_max_requests_per_window :: int
  cfg_otp_max_verify_attempts :: int
  cfg_sms_auth_enabled :: bool
  cfg_sms_provider :: string
  cfg_fcm_service_account :: "string option"
  cfg_maps_provider :: string
  cfg_maps_api_key :: "string option"
  cfg_banner_regen_max_requests :: int
  cfg_banner_regen_window_seconds :: int
  cfg_banner_job_max_attempts :: int
  cfg_banner_job_lease_seconds :: int

text \<open>An identifier no row of a table has, handed out as the next UUID.\<close>

definition fresh_id :: "uuid list \<Rightarrow> 'm database_scheme \<Rightarrow> uuid" where
  "fresh_id used d = Suc (fold max used (db_next_id d))"

lemma fold_max_ge: "(a :: nat) \<le> fold max xs a" "x \<in> set xs \<Longrightarrow> x \<le> fold max xs a"
proof -
  have "a \<le> fold max xs a \<and> (x \<in> set xs \<longrightarrow> x \<le> fold max xs a)" for x
  proof (induction xs arbitrary: a)
    case (Cons y ys)
    from this [of "max y a"] show ?case by auto
  qed simp
  then show "a \<le> fold max xs a" "x \<in> set xs \<Longrightarrow> x \<le> fold max xs a" by blast+
qed

lemma fresh_id_new: "fresh_id used d \<notin> set used" "db_next_id d < fresh_id used d"
  using fold_max_ge(2) [of "fresh_id used d" used "db_next_id d"] fold_max_ge(1) [of "db_next_id d" used]
  by (auto simp: fresh_id_def)

section \<open>Operations outside the core\<close>

definition quiet :: "'m database_scheme \<Rightarrow> 'm database_scheme \<Rightarrow> bool" where
  "quiet d d' \<longleftrightarrow> orders d' = orders d \<and> deliveries d' = deliveries d \<and> payment_refunds d' = payment_refunds d
     \<and> shelf d' = shelf d \<and> delivery_proofs d' = delivery_proofs d \<and> db_next_id d \<le> db_next_id d'"

named_theorems quiet_intros

lemma quiet_refl [simp, quiet_intros]: "quiet d d"
  by (simp add: quiet_def)

lemma quiet_trans: "quiet a b \<Longrightarrow> quiet b c \<Longrightarrow> quiet a c"
  by (simp add: quiet_def)

lemma quiet_same_core [quiet_intros]: "same_core d d' \<Longrightarrow> quiet d d'"
  by (simp add: quiet_def same_core_tables same_core_next shelves.part_same_core)

lemma quiet_enqueue [quiet_intros]: "quiet d (enqueue_notification now i e t b dt d)"
  by (rule quiet_same_core) simp

lemma quiet_admin: "record_admin_action req_id a act c rt ri p r why d = Inr d' \<Longrightarrow> quiet d d'"
  by (rule quiet_same_core) (rule same_core_admin)

lemma quiet_admin_trans:
  "record_admin_action req_id a act c rt ri p r why b = Inr d' \<Longrightarrow> quiet d b \<Longrightarrow> quiet d d'"
  by (rule quiet_trans [OF _ quiet_admin])

lemma quiet_enqueue_trans: "quiet d b \<Longrightarrow> quiet d (enqueue_notification now i e t x dt b)"
  by (rule quiet_trans [OF _ quiet_enqueue])

lemma quiet_flush_user [quiet_intros]: "quiet d (flush_user u d)"
  by (simp add: quiet_def flush_user_def shelf_def)

text \<open>Such an operation is a stuttering step of every order.\<close>

lemma quiet_step_ok: "quiet d d' \<Longrightarrow> step_ok d d'"
  by (rule step_ok_frame) (simp_all add: quiet_def refund_idents_def)

lemma quiet_inv:
  assumes "quiet d d'" and "system_inv d" shows "system_inv d'"
proof -
  have "all_coherent d'" using quiet_step_ok [OF assms(1)] assms(2)
    by (auto simp: system_inv_def intro: step_ok_coherent)
  moreover have "riders_exclusive d'" using assms by (simp add: system_inv_def quiet_def riders_exclusive_def holder_def)
  moreover have "shelf_ok d'" using assms shelf_ok_same [of d' d] by (simp add: system_inv_def quiet_def)
  moreover have "proofs_ok d'" using assms by (simp add: system_inv_def quiet_def proofs_ok_def)
  ultimately show ?thesis by (simp add: system_inv_def)
qed

text \<open>The outcome of a request is quiet when its continuation is.\<close>

lemma quiet_attempt:
  "(\<And>x. r = Inr x \<Longrightarrow> quiet d (snd (k x))) \<Longrightarrow> quiet d (snd (attempt r d k))"
  by (cases r) auto

lemma quiet_raise [quiet_intros]: "quiet d (snd (raise_http c m d))"
  by simp

lemma quiet_read [quiet_intros]: "quiet d (snd (r, d))"
  by simp

lemma quiet_refresh: "quiet d b \<Longrightarrow> quiet d (snd (refresh get i b))"
  by simp

lemma quiet_if: "(P \<Longrightarrow> quiet d (snd a)) \<Longrightarrow> (\<not> P \<Longrightarrow> quiet d (snd b)) \<Longrightarrow> quiet d (snd (if P then a else b))"
  by simp

lemma quiet_option:
  "(x = None \<Longrightarrow> quiet d (snd a)) \<Longrightarrow> (\<And>y. x = Some y \<Longrightarrow> quiet d (snd (f y))) \<Longrightarrow>
     quiet d (snd (case x of None \<Rightarrow> a | Some y \<Rightarrow> f y))"
  by (cases x) auto

lemma quiet_let: "quiet d (snd (f a)) \<Longrightarrow> quiet d (snd (let x = a in f x))"
  by simp

lemmas quiet_rules = quiet_attempt quiet_raise quiet_read quiet_if quiet_option quiet_let

end
