(* ===== verification/Rate_Limits.thy ===== *)
theory Rate_Limits
  imports Platform
begin

text \<open>
  Counters in Redis: \<open>services/rate_limit.py\<close> and the one-time codes of \<open>services/otp.py\<close>.
  The Redis client is a parameter; what the code relies on is \<open>redis_counts\<close>, the documented
  behaviour of INCR and EXPIRE, where a command that raises may or may not have been applied.
  SHA-256 and the SMS provider are parameters too. Lemmas: within one window no more than the
  limit is let through, after its deadline a counter lets through again, and a counter that
  lost its deadline never does.
\<close>

section \<open>The client\<close>

record 's redis =
  rds_incr :: "timestamp \<Rightarrow> string \<Rightarrow> 's \<Rightarrow> int option \<times> 's"
  rds_expire :: "timestamp \<Rightarrow> string \<Rightarrow> int \<Rightarrow> 's \<Rightarrow> bool \<times> 's"
  rds_get :: "timestamp \<Rightarrow> string \<Rightarrow> 's \<Rightarrow> string option option"
  rds_setex :: "timestamp \<Rightarrow> string \<Rightarrow> int \<Rightarrow> string \<Rightarrow> 's \<Rightarrow> bool \<times> 's"
  rds_delete :: "timestamp \<Rightarrow> string list \<Rightarrow> 's \<Rightarrow> bool \<times> 's"

text \<open>A stored counter: its value and, if it has one, the instant it disappears.\<close>

type_synonym counter = "(int \<times> timestamp option) option"

fun live :: "timestamp \<Rightarrow> counter \<Rightarrow> int" where
  "live now None = 0"
| "live now (Some (n, None)) = n"
| "live now (Some (n, Some e)) = (if now < e then n else 0)"

fun kept_deadline :: "timestamp \<Rightarrow> counter \<Rightarrow> timestamp option" where
  "kept_deadline now (Some (n, Some e)) = (if now < e then Some e else None)"
| "kept_deadline now c = None"

definition incremented :: "timestamp \<Rightarrow> counter \<Rightarrow> counter" where
  "incremented now c = Some (live now c + 1, kept_deadline now c)"

fun expiring :: "timestamp \<Rightarrow> int \<Rightarrow> counter \<Rightarrow> counter" where
  "expiring now w None = None"
| "expiring now w (Some (n, e)) = Some (n, Some (now + seconds w))"

definition redis_counts :: "'s redis \<Rightarrow> ('s \<Rightarrow> string \<Rightarrow> counter) \<Rightarrow> bool" where
  "redis_counts R entry \<longleftrightarrow>
     (\<forall>now k s n s1. rds_incr R now k s = (Some n, s1) \<longrightarrow>
        n = live now (entry s k) + 1 \<and> entry s1 k = incremented now (entry s k))
     \<and> (\<forall>now k s s1. rds_incr R now k s = (None, s1) \<longrightarrow>
        entry s1 k = entry s k \<or> entry s1 k = incremented now (entry s k))
     \<and> (\<forall>now k w s ok s1. rds_expire R now k w s = (ok, s1) \<longrightarrow>
        entry s1 k = expiring now w (entry s k) \<or> \<not> ok \<and> entry s1 k = entry s k)"

text \<open>INCR, and EXPIRE when the counter is new; None when a command raised \<open>RedisError\<close>.\<close>

definition bump :: "'s redis \<Rightarrow> timestamp \<Rightarrow> string \<Rightarrow> int \<Rightarrow> 's \<Rightarrow> int option \<times> 's" where
  "bump R now key window s =
     (case rds_incr R now key s of
        (None, s1) \<Rightarrow> (None, s1)
      | (Some n, s1) \<Rightarrow>
          if n = 1 then (case rds_expire R now key window s1 of (ok, s2) \<Rightarrow> (if ok then Some n else None, s2))
          else (Some n, s1))"

section \<open>The rate limiter\<close>

definition rate_key :: "(string \<Rightarrow> string) \<Rightarrow> string \<Rightarrow> string \<Rightarrow> string" where
  "rate_key sha256 scope identifier = ''rate:'' @ scope @ '':'' @ sha256 identifier"

definition enforce ::
  "'s redis \<Rightarrow> (string \<Rightarrow> string) \<Rightarrow> 'c settings_scheme \<Rightarrow> timestamp \<Rightarrow> string \<Rightarrow> string \<Rightarrow> int \<Rightarrow> int \<Rightarrow>
     's \<Rightarrow> rate_outcome res \<times> 's" where
  "enforce R sha256 cfg now scope identifier limit window s =
     (if limit < 1 \<or> window < 1 then (Inl (ValueError ''Rate limit configuration must be positive''), s)
      else (case bump R now (rate_key sha256 scope identifier) window s of
          (Some n, s1) \<Rightarrow> (Inr (if limit < n then Rate_Exceeded else Rate_Ok), s1)
        | (None, s1) \<Rightarrow>
            (Inr (if cfg_app_env cfg = ''development'' then Rate_Ok else Rate_Unavailable), s1)))"

text \<open>The requests at the instants \<open>ts\<close>, in order: how many are let through.\<close>

fun admitted ::
  "'s redis \<Rightarrow> (string \<Rightarrow> string) \<Rightarrow> 'c settings_scheme \<Rightarrow> string \<Rightarrow> string \<Rightarrow> int \<Rightarrow> int \<Rightarrow> timestamp list \<Rightarrow> 's \<Rightarrow> nat" where
  "admitted R sha256 cfg scope identifier limit window [] s = 0"
| "admitted R sha256 cfg scope identifier limit window (t # ts) s =
     (case enforce R sha256 cfg t scope identifier limit window s of
        (r, s1) \<Rightarrow> (if r = Inr Rate_Ok then 1 else 0)
          + admitted R sha256 cfg scope identifier limit window ts s1)"

section \<open>What a counter does\<close>

lemma redis_incr:
  "redis_counts R entry \<Longrightarrow> rds_incr R now k s = (Some n, s1) \<Longrightarrow>
     n = live now (entry s k) + 1 \<and> entry s1 k = incremented now (entry s k)"
  by (simp add: redis_counts_def)

lemma redis_incr_failed:
  "redis_counts R entry \<Longrightarrow> rds_incr R now k s = (None, s1) \<Longrightarrow>
     entry s1 k = entry s k \<or> entry s1 k = incremented now (entry s k)"
  by (simp add: redis_counts_def)

lemma redis_expire:
  "redis_counts R entry \<Longrightarrow> rds_expire R now k w s = (ok, s1) \<Longrightarrow>
     entry s1 k = expiring now w (entry s k) \<or> \<not> ok \<and> entry s1 k = entry s k"
  by (simp add: redis_counts_def)

text \<open>The counters a bump can leave.\<close>

lemma bump_cases:
  assumes R: "redis_counts R entry" and b: "bump R now k w s = (r, s1)"
  obtains (idle) "r = None" "entry s1 k = entry s k"
    | (counted) "entry s1 k = incremented now (entry s k)" "live now (entry s k) \<noteq> 0"
        "r = None \<or> r = Some (live now (entry s k) + 1)"
    | (fresh) "live now (entry s k) = 0" "r = None"
        "entry s1 k = incremented now (entry s k) \<or> entry s1 k = expiring now w (incremented now (entry s k))"
    | (opened) "live now (entry s k) = 0" "r = Some 1" "entry s1 k = expiring now w (incremented now (entry s k))"
proof (cases "rds_incr R now k s")
  case inc: (Pair q s2)
  show ?thesis
  proof (cases q)
    case None
    with inc have i: "rds_incr R now k s = (None, s2)" by simp
    with b have r: "r = None" "s1 = s2" by (auto simp: bump_def)
    with redis_incr_failed [OF R i] show ?thesis by (cases "live now (entry s k) = 0") (auto intro: that)
  next
    case (Some n)
    with inc have i: "rds_incr R now k s = (Some n, s2)" by simp
    note e = redis_incr [OF R i]
    show ?thesis
    proof (cases "n = 1")
      case True
      obtain ok s3 where x: "rds_expire R now k w s2 = (ok, s3)" by (cases "rds_expire R now k w s2")
      with b i True have r: "r = (if ok then Some 1 else None)" "s1 = s3" by (auto simp: bump_def)
      from redis_expire [OF R x] e r True show ?thesis by (cases ok) (auto intro: that)
    next
      case False
      with b i have "r = Some n" "s1 = s2" by (auto simp: bump_def)
      with e False show ?thesis by (auto intro: counted)
    qed
  qed
qed

text \<open>
  A window: either nothing is counted yet, or \<open>c\<close> requests are and the counter lasts beyond
  every instant below \<open>until\<close>.
\<close>

definition window_open :: "timestamp \<Rightarrow> timestamp \<Rightarrow> int \<Rightarrow> counter \<Rightarrow> bool" where
  "window_open start until c e \<longleftrightarrow>
     (case e of
        None \<Rightarrow> c = 0
      | Some (n, None) \<Rightarrow> c = n \<and> 1 \<le> n
      | Some (n, Some x) \<Rightarrow> (if x \<le> start then c = 0 else until \<le> x \<and> c = n \<and> 1 \<le> n))"

lemma window_live:
  "window_open start until c e \<Longrightarrow> start \<le> t \<Longrightarrow> t < until \<Longrightarrow> live t e = c \<and> 0 \<le> c"
  by (cases "(t, e)" rule: live.cases) (auto simp: window_open_def split: if_splits)

lemma window_incremented:
  assumes "window_open start until c e" and "start \<le> t" and "t < until"
  shows "window_open start until (c + 1) (incremented t e)"
proof (cases e)
  case None
  with assms show ?thesis by (simp add: window_open_def incremented_def)
next
  case (Some p)
  obtain n x where p: "p = (n, x)" by (cases p)
  show ?thesis
    using assms Some p by (cases x) (auto simp: window_open_def incremented_def split: if_splits)
qed

lemma window_expiring:
  assumes "window_open start until 0 e" and "start \<le> t" and "t < until" and "until \<le> start + seconds w" and "1 \<le> w"
  shows "window_open start until 1 (expiring t w (incremented t e))"
  using window_live [OF assms(1-3)] assms
  by (auto simp: incremented_def window_open_def seconds_def)

lemma bump_window:
  assumes R: "redis_counts R entry" and b: "bump R t k w s = (r, s1)"
    and o: "window_open start until c (entry s k)" and t: "start \<le> t" "t < until"
    and w: "until \<le> start + seconds w" "1 \<le> w"
  obtains c1 where "window_open start until c1 (entry s1 k)" "c \<le> c1" "r = None \<or> r = Some (c + 1) \<and> c1 = c + 1"
proof -
  note l = window_live [OF o t]
  note inc = window_incremented [OF o t]
  from R b show ?thesis
  proof (cases rule: bump_cases)
    case idle
    with o show ?thesis by (auto intro: that)
  next
    case counted
    with inc l show ?thesis by (auto intro: that [of "c + 1"])
  next
    case fresh
    with l have "c = 0" by simp
    with fresh inc window_expiring [OF _ t w, of "entry s k"] o show ?thesis by (auto intro: that [of 1])
  next
    case opened
    with l have "c = 0" by simp
    with opened window_expiring [OF _ t w, of "entry s k"] o show ?thesis by (auto intro: that [of 1])
  qed
qed

lemma admitted_window:
  assumes R: "redis_counts R entry" and prod: "cfg_app_env cfg \<noteq> ''development''"
    and "window_open start until c (entry s (rate_key sha256 scope i))"
    and "\<forall>t \<in> set ts. start \<le> t \<and> t < until" and w: "until \<le> start + seconds w"
  shows "int (admitted R sha256 cfg scope i limit w ts s) \<le> max 0 (limit - c)"
  using assms(3,4)
proof (induction ts arbitrary: s c)
  case (Cons t ts)
  let ?k = "rate_key sha256 scope i"
  show ?case
  proof (cases "limit < 1 \<or> w < 1")
    case True
    then have "enforce R sha256 cfg t scope i limit w s = (Inl (ValueError ''Rate limit configuration must be positive''), s)"
      by (simp add: enforce_def)
    with Cons show ?thesis by simp
  next
    case False
    obtain r s1 where b: "bump R t ?k w s = (r, s1)" by (cases "bump R t ?k w s")
    obtain c1 where c1: "window_open start until c1 (entry s1 ?k)" "c \<le> c1"
        "r = None \<or> r = Some (c + 1) \<and> c1 = c + 1"
      by (rule bump_window [OF R b Cons.prems(1) _ _ w]) (use Cons.prems(2) False in auto)
    have "int (admitted R sha256 cfg scope i limit w ts s1) \<le> max 0 (limit - c1)"
      using Cons.IH [OF c1(1)] Cons.prems(2) by simp
    with c1 b False prod show ?thesis by (auto simp: enforce_def)
  qed
qed simp

text \<open>A counter that has no deadline blocks for ever.\<close>

lemma admitted_stuck:
  assumes R: "redis_counts R entry" and prod: "cfg_app_env cfg \<noteq> ''development''"
    and "entry s (rate_key sha256 scope i) = Some (n, None)" and "limit \<le> n" and "1 \<le> n"
  shows "admitted R sha256 cfg scope i limit w ts s = 0"
  using assms(3-)
proof (induction ts arbitrary: s n)
  case (Cons t ts)
  let ?k = "rate_key sha256 scope i"
  obtain r s1 where b: "bump R t ?k w s = (r, s1)" by (cases "bump R t ?k w s")
  have "\<exists>m. entry s1 ?k = Some (m, None) \<and> n \<le> m \<and> (r = None \<or> r = Some (n + 1))"
    using Cons.prems by (cases rule: bump_cases [OF R b]) (auto simp: incremented_def)
  with Cons b prod show ?case by (force simp: enforce_def)
qed simp

section \<open>One-time codes\<close>

record otp_result =
  otp_message :: string
  otp_dev_otp :: "string option"
  otp_expires_in_seconds :: "int option"

text \<open>\<open>phone.lstrip("+")\<close>\<close>

definition msg91_mobile :: "string \<Rightarrow> string" where
  "msg91_mobile phone = dropWhile (\<lambda>c. c = CHR ''+'') phone"

definition ascii_lower :: "string \<Rightarrow> string" where
  "ascii_lower = map (\<lambda>c. if 65 \<le> (of_char c :: nat) \<and> (of_char c :: nat) \<le> 90 then char_of (of_char c + 32 :: nat) else c)"

text \<open>
  The provider's answer: \<open>None\<close> when the request or the JSON parser raised, otherwise the HTTP
  status and, when the body is an object, its \<open>type\<close> as text.
\<close>

type_synonym sms_reply = "(int \<times> string option) option"

definition sms_accepted :: "int \<times> string option \<Rightarrow> bool" where
  "sms_accepted r \<longleftrightarrow> \<not> (fst r < 200 \<or> 300 \<le> fst r \<or> snd r = None)"

definition sms_success :: "int \<times> string option \<Rightarrow> bool" where
  "sms_success r \<longleftrightarrow> (case snd r of None \<Rightarrow> False | Some t \<Rightarrow> ascii_lower t = ''success'')"

definition msg91_send :: "(string \<Rightarrow> sms_reply) \<Rightarrow> string \<Rightarrow> unit res" where
  "msg91_send post phone =
     (case post (msg91_mobile phone) of
        None \<Rightarrow> Inl (RuntimeError ''OTP provider request failed'')
      | Some r \<Rightarrow>
          if \<not> sms_accepted r \<or> \<not> sms_success r
          then Inl (RuntimeError ''OTP provider rejected the request'') else Inr ())"

definition msg91_verify :: "(string \<Rightarrow> string \<Rightarrow> sms_reply) \<Rightarrow> string \<Rightarrow> string \<Rightarrow> bool res" where
  "msg91_verify get phone otp =
     (case get otp (msg91_mobile phone) of
        None \<Rightarrow> Inl (RuntimeError ''OTP verification provider is unavailable'')
      | Some r \<Rightarrow>
          if \<not> sms_accepted r then Inl (RuntimeError ''OTP verification provider is unavailable'')
          else Inr (sms_success r))"

definition otp_key :: "(string \<Rightarrow> string) \<Rightarrow> string \<Rightarrow> string" where
  "otp_key sha256 phone = ''auth:otp:'' @ sha256 phone"

definition send_key :: "(string \<Rightarrow> string) \<Rightarrow> string \<Rightarrow> string" where
  "send_key sha256 phone = ''auth:otp-send:'' @ sha256 phone"

definition verify_key :: "(string \<Rightarrow> string) \<Rightarrow> string \<Rightarrow> string" where
  "verify_key sha256 phone = ''auth:otp-verify:'' @ sha256 phone"

definition check_send_rate ::
  "'s redis \<Rightarrow> (string \<Rightarrow> string) \<Rightarrow> 'c platform_settings_scheme \<Rightarrow> timestamp \<Rightarrow> string \<Rightarrow> 's \<Rightarrow> unit res \<times> 's" where
  "check_send_rate R sha256 cfg now phone s =
     (case bump R now (send_key sha256 phone) (cfg_otp_rate_window_seconds cfg) s of
        (None, s1) \<Rightarrow>
          (if cfg_app_env cfg \<noteq> ''development''
           then Inl (RuntimeError ''OTP rate-limit storage is unavailable'') else Inr (), s1)
      | (Some n, s1) \<Rightarrow>
          (if cfg_otp_max_requests_per_window cfg < n
           then Inl (ValueError ''Too many OTP requests. Please try again later.'') else Inr (), s1))"

definition check_verify_rate ::
  "'s redis \<Rightarrow> (string \<Rightarrow> string) \<Rightarrow> 'c platform_settings_scheme \<Rightarrow> timestamp \<Rightarrow> string \<Rightarrow> 's \<Rightarrow> bool \<times> 's" where
  "check_verify_rate R sha256 cfg now phone s =
     (case bump R now (verify_key sha256 phone) (cfg_otp_ttl_seconds cfg) s of
        (None, s1) \<Rightarrow> (cfg_app_env cfg = ''development'', s1)
      | (Some n, s1) \<Rightarrow> (n \<le> cfg_otp_max_verify_attempts cfg, s1))"

text \<open>\<open>six_digits\<close> stands for the number \<open>secrets.randbelow\<close> drew, already printed.\<close>

definition otp_issue ::
  "'s redis \<Rightarrow> (string \<Rightarrow> string) \<Rightarrow> (string \<Rightarrow> sms_reply) \<Rightarrow> 'c platform_settings_scheme \<Rightarrow> timestamp \<Rightarrow> string \<Rightarrow> string \<Rightarrow>
     's \<Rightarrow> otp_result res \<times> 's" where
  "otp_issue R sha256 post cfg now six_digits phone s =
     (case check_send_rate R sha256 cfg now phone s of
        (Inl e, s1) \<Rightarrow> (Inl e, s1)
      | (Inr _, s1) \<Rightarrow>
          if cfg_app_env cfg = ''development'' then
            let otp = (if cfg_dev_otp cfg = [] then six_digits else cfg_dev_otp cfg)
            in (Inr \<lparr>otp_message = ''Development OTP generated'', otp_dev_otp = Some otp,
                  otp_expires_in_seconds = Some (cfg_otp_ttl_seconds cfg)\<rparr>,
                snd (rds_setex R now (otp_key sha256 phone) (cfg_otp_ttl_seconds cfg) otp s1))
          else if cfg_sms_provider cfg = ''msg91'' then
            (res_bind (msg91_send post phone) (\<lambda>_.
               Inr \<lparr>otp_message = ''OTP request accepted'', otp_dev_otp = None, otp_expires_in_seconds = None\<rparr>), s1)
          else (Inl (RuntimeError ''SMS OTP provider is not configured''), s1))"

definition otp_verify ::
  "'s redis \<Rightarrow> (string \<Rightarrow> string) \<Rightarrow> (string \<Rightarrow> string \<Rightarrow> sms_reply) \<Rightarrow> 'c platform_settings_scheme \<Rightarrow> timestamp \<Rightarrow> string \<Rightarrow>
     string \<Rightarrow> 's \<Rightarrow> bool res \<times> 's" where
  "otp_verify R sha256 get cfg now phone supplied s =
     (case check_verify_rate R sha256 cfg now phone s of
        (False, s1) \<Rightarrow> (Inr False, s1)
      | (True, s1) \<Rightarrow>
          let forget = snd (rds_delete R now [otp_key sha256 phone, verify_key sha256 phone] s1)
          in if cfg_app_env cfg = ''development'' then
               if supplied = cfg_dev_otp cfg then (Inr True, forget)
               else (case rds_get R now (otp_key sha256 phone) s1 of
                   Some (Some expected) \<Rightarrow>
                     if expected \<noteq> [] \<and> expected = supplied
                     then (Inr (fst (rds_delete R now [otp_key sha256 phone, verify_key sha256 phone] s1)), forget)
                     else (Inr False, s1)
                 | _ \<Rightarrow> (Inr False, s1))
             else if cfg_sms_provider cfg = ''msg91'' then
               (case msg91_verify get phone supplied of
                  Inl e \<Rightarrow> (Inl e, s1)
                | Inr True \<Rightarrow> (Inr True, snd (rds_delete R now [verify_key sha256 phone] s1))
                | Inr False \<Rightarrow> (Inr False, s1))
             else (Inr False, s1))"

text \<open>
  Guesses that reach the provider: the attempts at \<open>ts\<close> with the codes the caller tries,
  counted when the attempt limit lets them through.
\<close>

fun guesses_checked ::
  "'s redis \<Rightarrow> (string \<Rightarrow> string) \<Rightarrow> (string \<Rightarrow> string \<Rightarrow> sms_reply) \<Rightarrow> 'c platform_settings_scheme \<Rightarrow> string \<Rightarrow>
     (timestamp \<times> string) list \<Rightarrow> 's \<Rightarrow> nat" where
  "guesses_checked R sha256 get cfg phone [] s = 0"
| "guesses_checked R sha256 get cfg phone ((t, code) # gs) s =
     (if fst (check_verify_rate R sha256 cfg t phone s) then 1 else 0)
     + guesses_checked R sha256 get cfg phone gs (snd (otp_verify R sha256 get cfg t phone code s))"

text \<open>In production a run of wrong codes within one lifetime is cut off at the attempt limit.\<close>

lemma guesses_window:
  assumes R: "redis_counts R entry" and prod: "cfg_app_env cfg \<noteq> ''development''"
    and wrong: "\<forall>(t, code) \<in> set gs. msg91_verify get phone code \<noteq> Inr True"
    and "window_open start until c (entry s (verify_key sha256 phone))"
    and "\<forall>(t, code) \<in> set gs. start \<le> t \<and> t < until"
    and w: "until \<le> start + seconds (cfg_otp_ttl_seconds cfg)" "1 \<le> cfg_otp_ttl_seconds cfg"
  shows "int (guesses_checked R sha256 get cfg phone gs s) \<le> max 0 (cfg_otp_max_verify_attempts cfg - c)"
  using assms(3,4,5)
proof (induction gs arbitrary: s c)
  case (Cons g gs)
  obtain t code where g: "g = (t, code)" by (cases g)
  let ?k = "verify_key sha256 phone"
  obtain r s1 where b: "bump R t ?k (cfg_otp_ttl_seconds cfg) s = (r, s1)"
    by (cases "bump R t ?k (cfg_otp_ttl_seconds cfg) s")
  obtain c1 where c1: "window_open start until c1 (entry s1 ?k)" "c \<le> c1"
      "r = None \<or> r = Some (c + 1) \<and> c1 = c + 1"
    by (rule bump_window [OF R b Cons.prems(2) _ _ w]) (use Cons.prems(3) g in auto)
  have check: "check_verify_rate R sha256 cfg t phone s = (r \<noteq> None \<and> c + 1 \<le> cfg_otp_max_verify_attempts cfg, s1)"
    using b c1(3) prod by (auto simp: check_verify_rate_def)
  have "snd (otp_verify R sha256 get cfg t phone code s) = s1"
    using Cons.prems(1) g prod
    by (auto simp: otp_verify_def check Let_def split: sum.split bool.split)
  moreover have "int (guesses_checked R sha256 get cfg phone gs s1) \<le> max 0 (cfg_otp_max_verify_attempts cfg - c1)"
    using Cons.IH [OF _ c1(1)] Cons.prems(1,3) by auto
  ultimately show ?case using c1 check g by auto
qed simp

section \<open>A caller who waits is let in again\<close>

text \<open>Redis answers every command of the limiter.\<close>

definition redis_answers :: "'s redis \<Rightarrow> bool" where
  "redis_answers R \<longleftrightarrow> (\<forall>now k s. fst (rds_incr R now k s) \<noteq> None) \<and> (\<forall>now k w s. fst (rds_expire R now k w s))"

fun requests_made ::
  "'s redis \<Rightarrow> (string \<Rightarrow> string) \<Rightarrow> 'c settings_scheme \<Rightarrow> string \<Rightarrow> string \<Rightarrow> int \<Rightarrow> int \<Rightarrow> timestamp list \<Rightarrow> 's \<Rightarrow> 's" where
  "requests_made R sha256 cfg scope identifier limit window [] s = s"
| "requests_made R sha256 cfg scope identifier limit window (t # ts) s =
     requests_made R sha256 cfg scope identifier limit window ts
       (snd (enforce R sha256 cfg t scope identifier limit window s))"

definition gone_by :: "timestamp \<Rightarrow> counter \<Rightarrow> bool" where
  "gone_by until e \<longleftrightarrow> (case e of None \<Rightarrow> True | Some (n, x) \<Rightarrow> \<exists>y. x = Some y \<and> y \<le> until)"

lemma bump_answered:
  assumes R: "redis_counts R entry" "redis_answers R" and b: "bump R t k w s = (r, s1)"
  shows "r \<noteq> None"
    and "gone_by until (entry s k) \<Longrightarrow> t + seconds w \<le> until \<Longrightarrow> gone_by until (entry s1 k)"
proof -
  obtain q s2 where i: "rds_incr R t k s = (q, s2)" by (cases "rds_incr R t k s")
  obtain ok s3 where x: "rds_expire R t k w s2 = (ok, s3)" by (cases "rds_expire R t k w s2")
  have "q \<noteq> None" using R(2) i unfolding redis_answers_def by (metis fst_conv)
  moreover have "ok" using R(2) x unfolding redis_answers_def by (metis fst_conv)
  ultimately show r: "r \<noteq> None" using b i x by (auto simp: bump_def split: if_splits)
  assume g: "gone_by until (entry s k)" and w: "t + seconds w \<le> until"
  from R(1) b show "gone_by until (entry s1 k)"
  proof (cases rule: bump_cases)
    case idle
    with g show ?thesis by simp
  next
    case counted
    with g show ?thesis
      by (cases "(t, entry s k)" rule: live.cases) (auto simp: gone_by_def incremented_def split: if_splits)
  next
    case fresh
    with r show ?thesis by simp
  next
    case opened
    with w show ?thesis by (simp add: gone_by_def incremented_def)
  qed
qed

lemma enforce_after:
  assumes "redis_counts R entry" "redis_answers R" and "gone_by until (entry s (rate_key sha256 scope i))"
    and "until \<le> t" "1 \<le> limit" "1 \<le> w"
  shows "fst (enforce R sha256 cfg t scope i limit w s) = Inr Rate_Ok"
proof -
  obtain r s1 where b: "bump R t (rate_key sha256 scope i) w s = (r, s1)"
    by (cases "bump R t (rate_key sha256 scope i) w s")
  have idle: "live t (entry s (rate_key sha256 scope i)) = 0"
    using assms(3,4) by (cases "(t, entry s (rate_key sha256 scope i))" rule: live.cases) (auto simp: gone_by_def)
  have "r = Some 1"
    using bump_answered(1) [OF assms(1,2) b] bump_cases [OF assms(1) b, of "r = Some 1"] idle by blast
  with b assms(5,6) show ?thesis by (simp add: enforce_def)
qed

lemma requests_gone_by:
  assumes "redis_counts R entry" "redis_answers R" and "gone_by until (entry s (rate_key sha256 scope i))"
    and "\<forall>t \<in> set ts. t + seconds w \<le> until"
  shows "gone_by until (entry (requests_made R sha256 cfg scope i limit w ts s) (rate_key sha256 scope i))"
  using assms(3,4)
proof (induction ts arbitrary: s)
  case (Cons t ts)
  let ?k = "rate_key sha256 scope i"
  obtain r s1 where b: "bump R t ?k w s = (r, s1)" by (cases "bump R t ?k w s")
  have "gone_by until (entry (snd (enforce R sha256 cfg t scope i limit w s)) ?k)"
    using Cons.prems bump_answered(2) [OF assms(1,2) b] b by (auto simp: enforce_def split: option.split)
  with Cons show ?case by simp
qed simp

section \<open>A Redis in memory\<close>

definition counting_redis :: "(string \<Rightarrow> counter) redis" where
  "counting_redis =
     \<lparr>rds_incr = (\<lambda>now k s. (Some (live now (s k) + 1), s(k := incremented now (s k)))),
      rds_expire = (\<lambda>now k w s. (True, s(k := expiring now w (s k)))),
      rds_get = (\<lambda>now k s. Some None), rds_setex = (\<lambda>now k w v s. (True, s)),
      rds_delete = (\<lambda>now ks s. (True, \<lambda>k. if k \<in> set ks then None else s k))\<rparr>"

lemma counting_redis_laws: "redis_counts counting_redis (\<lambda>s k. s k)" "redis_answers counting_redis"
  by (simp_all add: counting_redis_def redis_counts_def redis_answers_def)

end
