(* ===== verification/Banners.thy ===== *)
theory Banners
  imports Platform
begin

text \<open>
  Store banners, \<open>services/store_banners.py\<close> and \<open>routes/store_banners.py\<close>: candidates and
  generation jobs, the worker that renders them, moderation and selection, and the public
  read. SHA-256 over the canonical JSON of the fingerprint is a parameter (\<open>digest\<close>), as are
  the job rows another worker holds. Lemmas: an operation here is quiet for the core, and a
  selected banner is always a rendered, approved one of its own store.
\<close>

section \<open>Presentation\<close>

definition TEMPLATE_ID :: string where "TEMPLATE_ID = ''gaonone-store-locality-v1''"
definition TEMPLATE_REVISION :: string where "TEMPLATE_REVISION = ''v1''"
definition GENERATION_QUEUED :: string where "GENERATION_QUEUED = ''queued''"
definition GENERATION_PROCESSING :: string where "GENERATION_PROCESSING = ''processing''"
definition GENERATION_RETRYING :: string where "GENERATION_RETRYING = ''retrying''"
definition GENERATION_READY :: string where "GENERATION_READY = ''ready''"
definition GENERATION_FAILED :: string where "GENERATION_FAILED = ''failed''"
definition JOB_SUCCEEDED :: string where "JOB_SUCCEEDED = ''succeeded''"
definition MODERATION_PENDING :: string where "MODERATION_PENDING = ''pending''"
definition MODERATION_APPROVED :: string where "MODERATION_APPROVED = ''approved''"
definition MODERATION_REJECTED :: string where "MODERATION_REJECTED = ''rejected''"
definition MODERATION_DISABLED :: string where "MODERATION_DISABLED = ''disabled''"

lemmas banner_constants =
  TEMPLATE_ID_def TEMPLATE_REVISION_def GENERATION_QUEUED_def GENERATION_PROCESSING_def
  GENERATION_RETRYING_def GENERATION_READY_def GENERATION_FAILED_def JOB_SUCCEEDED_def
  MODERATION_PENDING_def MODERATION_APPROVED_def MODERATION_REJECTED_def MODERATION_DISABLED_def

definition get_category :: "'m database_scheme \<Rightarrow> uuid \<Rightarrow> category option" where
  "get_category d = get_row cat_id (categories d)"

definition get_version :: "'m platform_scheme \<Rightarrow> uuid \<Rightarrow> store_banner_version option" where
  "get_version d = get_row bnv_id (store_banner_versions d)"

definition get_job :: "'m platform_scheme \<Rightarrow> uuid \<Rightarrow> banner_generation_job option" where
  "get_job d = get_row bnj_id (banner_generation_jobs d)"

definition get_selection :: "'m platform_scheme \<Rightarrow> uuid \<Rightarrow> store_banner_selection option" where
  "get_selection d = get_row bns_store_id (store_banner_selections d)"

definition flush_version :: "store_banner_version \<Rightarrow> 'm platform_scheme \<Rightarrow> 'm platform_scheme" where
  "flush_version v d = d\<lparr>store_banner_versions := put_row bnv_id v (store_banner_versions d)\<rparr>"

definition flush_job :: "banner_generation_job \<Rightarrow> 'm platform_scheme \<Rightarrow> 'm platform_scheme" where
  "flush_job j d = d\<lparr>banner_generation_jobs := put_row bnj_id j (banner_generation_jobs d)\<rparr>"

definition flush_selection :: "store_banner_selection \<Rightarrow> 'm platform_scheme \<Rightarrow> 'm platform_scheme" where
  "flush_selection s d = d\<lparr>store_banner_selections := put_row bns_store_id s (store_banner_selections d)\<rparr>"

interpretation version_rows: row_store get_version flush_version bnv_id "\<lambda>v. v"
  by unfold_locales (auto simp: get_version_def flush_version_def table_simps)

interpretation job_rows: row_store get_job flush_job bnj_id "\<lambda>j. j"
  by unfold_locales (auto simp: get_job_def flush_job_def table_simps)

interpretation selection_rows: row_store get_selection flush_selection bns_store_id "\<lambda>s. s"
  by unfold_locales (auto simp: get_selection_def flush_selection_def table_simps)

text \<open>The category of a listing that can be sold now.\<close>

definition sellable_category :: "'m database_scheme \<Rightarrow> store_product \<Rightarrow> string option" where
  "sellable_category d l =
     (if \<not> lst_is_available l \<or> lst_stock_quantity l \<le> 0 then None
      else case get_product d (lst_product_id l) of
          None \<Rightarrow> None
        | Some p \<Rightarrow>
            if \<not> pro_is_active p then None
            else (case get_category d (pro_category_id p) of
                    None \<Rightarrow> None
                  | Some c \<Rightarrow> if cat_is_active c then Some (cat_name c) else None))"

definition category_for_store :: "'m database_scheme \<Rightarrow> uuid \<Rightarrow> string option" where
  "category_for_store d sid =
     (let names = List.map_filter (sellable_category d) (filter (\<lambda>l. lst_store_id l = sid) (store_products d))
      in case sort_key (\<lambda>n. (- int (count_list names n), n)) (remdups names) of
           [] \<Rightarrow> None | n # _ \<Rightarrow> Some n)"

definition locality_for_store :: "'m database_scheme \<Rightarrow> store \<Rightarrow> string" where
  "locality_for_store d s =
     (case get_village d (sto_village_id s) of
        None \<Rightarrow> ''Your local area''
      | Some v \<Rightarrow> if strip (vil_name v) = [] then ''Your local area'' else strip (vil_name v))"

definition fingerprint :: "(dict \<Rightarrow> string) \<Rightarrow> store \<Rightarrow> string \<Rightarrow> string option \<Rightarrow> string" where
  "fingerprint digest s locality category =
     digest [(''category'', case category of None \<Rightarrow> JNull | Some c \<Rightarrow> JStr c),
       (''locality'', JStr locality), (''store_id'', JId (sto_id s)),
       (''store_name'', JStr (strip (sto_name s))), (''template_revision'', JStr TEMPLATE_REVISION)]"

text \<open>The closed schema \<open>BannerManifest\<close>.\<close>

definition valid_manifest :: "banner_manifest \<Rightarrow> bool" where
  "valid_manifest m \<longleftrightarrow> bmf_template_id m = TEMPLATE_ID \<and> bmf_template_revision m = TEMPLATE_REVISION
     \<and> bmf_title m \<noteq> [] \<and> length (bmf_title m) \<le> 160
     \<and> bmf_locality m \<noteq> [] \<and> length (bmf_locality m) \<le> 160
     \<and> (case bmf_category m of None \<Rightarrow> True | Some c \<Rightarrow> length c \<le> 100)"

definition build_manifest ::
  "(dict \<Rightarrow> string) \<Rightarrow> 'm database_scheme \<Rightarrow> store \<Rightarrow> (banner_manifest \<times> string) res" where
  "build_manifest digest d s =
     (let locality = locality_for_store d s; category = category_for_store d (sto_id s);
          m = \<lparr>bmf_template_id = TEMPLATE_ID, bmf_template_revision = TEMPLATE_REVISION,
               bmf_title = strip (sto_name s), bmf_locality = locality, bmf_category = category\<rparr>
      in if valid_manifest m then Inr (m, fingerprint digest s locality category)
         else Inl (ValueError ''BannerManifest''))"

definition presentable :: "store_banner_version \<Rightarrow> bool" where
  "presentable v \<longleftrightarrow> bnv_generation_status v = GENERATION_READY \<and> bnv_moderation_status v = MODERATION_APPROVED"

definition public_presentation :: "store_banner_version option \<Rightarrow> banner_manifest option" where
  "public_presentation active =
     (case active of
        None \<Rightarrow> None
      | Some v \<Rightarrow>
          if \<not> presentable v then None
          else (case bnv_manifest v of
                  None \<Rightarrow> None
                | Some m \<Rightarrow> if valid_manifest m then Some m else None))"

definition active_version :: "'m platform_scheme \<Rightarrow> store_banner_selection \<Rightarrow> store_banner_version option" where
  "active_version d s = Option.bind (bns_active_version_id s) (get_version d)"

definition public_presentations_for_stores ::
  "'m platform_scheme \<Rightarrow> uuid list \<Rightarrow> (uuid \<times> banner_manifest) list" where
  "public_presentations_for_stores d ids =
     List.map_filter (\<lambda>s. map_option (Pair (bns_store_id s)) (public_presentation (active_version d s)))
       (filter (\<lambda>s. bns_store_id s \<in> set ids) (store_banner_selections d))"

section \<open>Jobs\<close>

definition job_of_key :: "'m platform_scheme \<Rightarrow> uuid \<Rightarrow> string \<Rightarrow> banner_generation_job option" where
  "job_of_key d sid key =
     find (\<lambda>j. bnj_store_id j = sid \<and> bnj_idempotency_key j = key) (banner_generation_jobs d)"

definition next_version :: "'m platform_scheme \<Rightarrow> uuid \<Rightarrow> int" where
  "next_version d sid =
     fold max (map bnv_version (filter (\<lambda>v. bnv_store_id v = sid) (store_banner_versions d))) 0 + 1"

definition create_banner_job ::
  "(dict \<Rightarrow> string) \<Rightarrow> timestamp \<Rightarrow> store \<Rightarrow> string \<Rightarrow> string \<Rightarrow> 'm platform_scheme \<Rightarrow>
     (banner_generation_job \<times> bool) \<times> 'm platform_scheme" where
  "create_banner_job digest now s trigger key d =
     (case job_of_key d (sto_id s) key of
        Some existing \<Rightarrow> ((existing, False), d)
      | None \<Rightarrow>
          let vid = fresh_id (map bnv_id (store_banner_versions d)) d;
              jid = fresh_id (map bnj_id (banner_generation_jobs d)) d;
              v = \<lparr>bnv_id = vid, bnv_store_id = sto_id s, bnv_version = next_version d (sto_id s),
                bnv_source = ''template'', bnv_template_revision = TEMPLATE_REVISION, bnv_manifest = None,
                bnv_input_fingerprint = fingerprint digest s (locality_for_store d s)
                  (category_for_store d (sto_id s)),
                bnv_generation_status = GENERATION_QUEUED, bnv_moderation_status = MODERATION_PENDING,
                bnv_failure_code = None, bnv_ready_at = None, bnv_moderated_at = None,
                bnv_moderated_by_user_id = None\<rparr>;
              j = \<lparr>bnj_id = jid, bnj_store_id = sto_id s, bnj_version_id = vid,
                bnj_trigger = trigger, bnj_idempotency_key = key, bnj_status = GENERATION_QUEUED,
                bnj_attempt_count = 0, bnj_next_attempt_at = None, bnj_lease_expires_at = None,
                bnj_failure_code = None, bnj_created_at = now\<rparr>
          in ((j, True),
              d\<lparr>db_next_id := Suc (max vid jid),
                store_banner_versions := store_banner_versions d @ [v],
                banner_generation_jobs := banner_generation_jobs d @ [j]\<rparr>))"

definition ensure_selection ::
  "uuid \<Rightarrow> 'm platform_scheme \<Rightarrow> store_banner_selection \<times> 'm platform_scheme" where
  "ensure_selection sid d =
     (case get_selection d sid of
        Some s \<Rightarrow> (s, d)
      | None \<Rightarrow>
          let s = \<lparr>bns_store_id = sid, bns_active_version_id = None, bns_revision = 0,
                   bns_selected_by_user_id = None\<rparr>
          in (s, d\<lparr>store_banner_selections := store_banner_selections d @ [s]\<rparr>))"

definition audit_banner_action ::
  "string \<Rightarrow> uuid \<Rightarrow> uuid option \<Rightarrow> user option \<Rightarrow> string \<Rightarrow> string option \<Rightarrow>
     'm platform_scheme \<Rightarrow> 'm platform_scheme" where
  "audit_banner_action req_id sid vid actor action reason_code d =
     d\<lparr>db_next_id := Suc (db_next_id d),
       banner_audit_events := banner_audit_events d @
         [\<lparr>bna_id = db_next_id d, bna_store_id = sid, bna_version_id = vid,
           bna_actor_user_id = map_option usr_id actor, bna_action = action,
           bna_reason_code = reason_code, bna_request_id = take 160 req_id\<rparr>]\<rparr>"

section \<open>The worker\<close>

definition next_backoff :: "int \<Rightarrow> int" where
  "next_backoff attempts = seconds (min 300 (5 * 2 ^ nat (max 0 (attempts - 1))))"

definition due_job :: "timestamp \<Rightarrow> banner_generation_job \<Rightarrow> bool" where
  "due_job now j \<longleftrightarrow>
     (bnj_status j \<in> {GENERATION_QUEUED, GENERATION_RETRYING}
      \<or> bnj_status j = GENERATION_PROCESSING
        \<and> (case bnj_lease_expires_at j of None \<Rightarrow> False | Some t \<Rightarrow> t \<le> now))
     \<and> (case bnj_next_attempt_at j of None \<Rightarrow> True | Some t \<Rightarrow> t \<le> now)"

definition claim_due_job ::
  "platform_settings \<Rightarrow> (uuid \<Rightarrow> bool) \<Rightarrow> timestamp \<Rightarrow> uuid option \<Rightarrow> 'm platform_scheme \<Rightarrow>
     banner_generation_job option" where
  "claim_due_job cfg held now job_id d =
     (case sort_key bnj_created_at (filter (\<lambda>j. due_job now j \<and> \<not> held (bnj_id j)
               \<and> (case job_id of None \<Rightarrow> True | Some i \<Rightarrow> bnj_id j = i)) (banner_generation_jobs d)) of
        [] \<Rightarrow> None
      | j # _ \<Rightarrow> Some (j\<lparr>bnj_status := GENERATION_PROCESSING,
                         bnj_lease_expires_at := Some (now + seconds (cfg_banner_job_lease_seconds cfg))\<rparr>))"

definition rendered_version ::
  "timestamp \<Rightarrow> banner_manifest \<Rightarrow> string \<Rightarrow> store_banner_version \<Rightarrow> store_banner_version" where
  "rendered_version now manifest fp v =
     v\<lparr>bnv_manifest := Some manifest, bnv_input_fingerprint := fp, bnv_generation_status := GENERATION_READY,
       bnv_failure_code := None, bnv_ready_at := Some now\<rparr>"

definition succeeded_job :: "banner_generation_job \<Rightarrow> banner_generation_job" where
  "succeeded_job j =
     j\<lparr>bnj_status := JOB_SUCCEEDED, bnj_lease_expires_at := None, bnj_next_attempt_at := None,
       bnj_failure_code := None\<rparr>"

text \<open>One claimed job, rendered: the transaction that succeeds.\<close>

definition render_job ::
  "(dict \<Rightarrow> string) \<Rightarrow> timestamp \<Rightarrow> banner_generation_job \<Rightarrow> 'm platform_scheme \<Rightarrow> 'm platform_scheme res" where
  "render_job digest now j d =
     (case (get_version d (bnj_version_id j), get_store d (bnj_store_id j)) of
        (Some v, Some s) \<Rightarrow>
          (case get_merchant d (sto_merchant_id s) of
             None \<Rightarrow> Inl (RuntimeError ''banner_references_missing'')
           | Some m \<Rightarrow>
               res_bind (build_manifest digest d s) (\<lambda>(manifest, fp).
               Inr (enqueue_notification now (mer_owner_user_id m) ''store_banner.ready''
                 ''Store banner ready for review'' ''A new store banner draft is ready for your review.''
                 [(''store_id'', JId (sto_id s)), (''banner_version_id'', JId (bnv_id v))]
                 (flush_job (succeeded_job j) (flush_version (rendered_version now manifest fp v) d)))))
      | _ \<Rightarrow> Inl (RuntimeError ''banner_references_missing''))"

definition with_status :: "string \<Rightarrow> store_banner_version \<Rightarrow> store_banner_version" where
  "with_status s v = v\<lparr>bnv_generation_status := s, bnv_failure_code := Some ''banner_generation_failed''\<rparr>"

definition failed_job :: "platform_settings \<Rightarrow> timestamp \<Rightarrow> banner_generation_job \<Rightarrow> banner_generation_job" where
  "failed_job cfg now j =
     (let j1 = j\<lparr>bnj_attempt_count := bnj_attempt_count j + 1, bnj_lease_expires_at := None,
                 bnj_failure_code := Some ''banner_generation_failed''\<rparr>
      in if cfg_banner_job_max_attempts cfg \<le> bnj_attempt_count j1
         then j1\<lparr>bnj_status := GENERATION_FAILED, bnj_next_attempt_at := None\<rparr>
         else j1\<lparr>bnj_status := GENERATION_RETRYING,
                 bnj_next_attempt_at := Some (now + next_backoff (bnj_attempt_count j1))\<rparr>)"

text \<open>After the rollback: the row as it was before the claim, one more attempt.\<close>

definition retry_failed_job ::
  "platform_settings \<Rightarrow> timestamp \<Rightarrow> banner_generation_job \<Rightarrow> 'm platform_scheme \<Rightarrow> 'm platform_scheme" where
  "retry_failed_job cfg now j d =
     (let j1 = failed_job cfg now j
      in case get_version d (bnj_version_id j) of
           None \<Rightarrow> flush_job j1 d
         | Some v \<Rightarrow> flush_version (with_status (bnj_status j1) v) (flush_job j1 d))"

record banner_outcome =
  bno_considered :: nat
  bno_succeeded :: nat
  bno_retried :: nat
  bno_failed :: nat

fun drain_banner_jobs ::
  "(dict \<Rightarrow> string) \<Rightarrow> platform_settings \<Rightarrow> (uuid \<Rightarrow> bool) \<Rightarrow> timestamp \<Rightarrow> uuid option \<Rightarrow> nat \<Rightarrow>
     banner_outcome \<Rightarrow> 'm platform_scheme \<Rightarrow> banner_outcome \<times> 'm platform_scheme" where
  "drain_banner_jobs digest cfg held now job_id 0 r d = (r, d)"
| "drain_banner_jobs digest cfg held now job_id (Suc n) r d =
     (case claim_due_job cfg held now job_id d of
        None \<Rightarrow> (r, d)
      | Some j \<Rightarrow>
          let r1 = r\<lparr>bno_considered := Suc (bno_considered r)\<rparr>
          in case render_job digest now j d of
               Inr d1 \<Rightarrow>
                 drain_banner_jobs digest cfg held now job_id n (r1\<lparr>bno_succeeded := Suc (bno_succeeded r1)\<rparr>) d1
             | Inl _ \<Rightarrow>
                 (case get_job d (bnj_id j) of
                    None \<Rightarrow> drain_banner_jobs digest cfg held now job_id n r1 d
                  | Some j0 \<Rightarrow>
                      drain_banner_jobs digest cfg held now job_id n
                        (if bnj_status (failed_job cfg now j0) = GENERATION_FAILED
                         then r1\<lparr>bno_failed := Suc (bno_failed r1)\<rparr>
                         else r1\<lparr>bno_retried := Suc (bno_retried r1)\<rparr>)
                        (retry_failed_job cfg now j0 d)))"

definition process_due_banner_jobs ::
  "(dict \<Rightarrow> string) \<Rightarrow> platform_settings \<Rightarrow> (uuid \<Rightarrow> bool) \<Rightarrow> timestamp \<Rightarrow> nat \<Rightarrow> uuid option \<Rightarrow>
     'm platform_scheme \<Rightarrow> banner_outcome \<times> 'm platform_scheme" where
  "process_due_banner_jobs digest cfg held now limit job_id d =
     drain_banner_jobs digest cfg held now job_id (case job_id of None \<Rightarrow> limit | Some _ \<Rightarrow> 1)
       \<lparr>bno_considered = 0, bno_succeeded = 0, bno_retried = 0, bno_failed = 0\<rparr> d"

section \<open>Routes\<close>

definition owned_store :: "'m database_scheme \<Rightarrow> uuid \<Rightarrow> user \<Rightarrow> store res" where
  "owned_store d sid u =
     (case get_store d sid of
        None \<Rightarrow> Inl (HTTPException 404 ''Store not found'')
      | Some s \<Rightarrow>
          if usr_role u = ADMIN then res_bind (ensure_capability u CATALOG_MANAGE) (\<lambda>_. Inr s)
          else (case get_merchant d (sto_merchant_id s) of
              None \<Rightarrow> Inl (HTTPException 403 ''You do not own this store'')
            | Some m \<Rightarrow>
                if mer_owner_user_id m \<noteq> usr_id u then Inl (HTTPException 403 ''You do not own this store'')
                else if mer_status m \<noteq> APPROVED then Inl (HTTPException 403 ''Merchant is not active'')
                else Inr s))"

record banner_selection_read =
  bsr_store_id :: uuid
  bsr_revision :: int
  bsr_active_version_id :: "uuid option"
  bsr_active_banner :: "banner_manifest option"
  bsr_versions :: "store_banner_version list"

definition selection_read :: "'m platform_scheme \<Rightarrow> uuid \<Rightarrow> banner_selection_read" where
  "selection_read d sid =
     (let sel = get_selection d sid
      in \<lparr>bsr_store_id = sid, bsr_revision = (case sel of None \<Rightarrow> 0 | Some s \<Rightarrow> bns_revision s),
          bsr_active_version_id = Option.bind sel bns_active_version_id,
          bsr_active_banner = public_presentation (Option.bind sel (active_version d)),
          bsr_versions = rev (sort_key bnv_version
            (filter (\<lambda>v. bnv_store_id v = sid) (store_banner_versions d)))\<rparr>)"

definition get_store_banner :: "user \<Rightarrow> uuid \<Rightarrow> (banner_selection_read, 'm) platform_handler" where
  "get_store_banner u sid d =
     attempt (require_roles [MERCHANT, ADMIN] u) d (\<lambda>_.
     attempt (owned_store d sid u) d (\<lambda>_. (Inr (selection_read d sid), d)))"

definition regenerations_used :: "platform_settings \<Rightarrow> timestamp \<Rightarrow> uuid \<Rightarrow> 'm platform_scheme \<Rightarrow> nat" where
  "regenerations_used cfg now sid d =
     count_rows (\<lambda>j. bnj_store_id j = sid \<and> bnj_trigger j = ''merchant_regenerate''
         \<and> now - seconds (cfg_banner_regen_window_seconds cfg) \<le> bnj_created_at j)
       (banner_generation_jobs d)"

definition regenerate_store_banner ::
  "(dict \<Rightarrow> string) \<Rightarrow> platform_settings \<Rightarrow> timestamp \<Rightarrow> string \<Rightarrow> user \<Rightarrow> uuid \<Rightarrow> string \<Rightarrow>
     (banner_generation_job, 'm) platform_handler" where
  "regenerate_store_banner digest cfg now req_id u sid key d =
     attempt (require_roles [MERCHANT, ADMIN] u) d (\<lambda>_.
     attempt (owned_store d sid u) d (\<lambda>s.
     case job_of_key d (sto_id s) key of
       Some existing \<Rightarrow> (Inr existing, d)
     | None \<Rightarrow>
         if cfg_banner_regen_max_requests cfg \<le> int (regenerations_used cfg now (sto_id s) d)
         then raise_http 429 ''Banner regeneration limit reached; try again later'' d
         else
           let ((j, _), d1) = create_banner_job digest now s ''merchant_regenerate'' key d
           in refresh get_job (bnj_id j)
                (audit_banner_action req_id (sto_id s) (Some (bnj_version_id j)) (Some u)
                   ''banner.regeneration_requested'' None d1)))"

definition accept_store_banner ::
  "string \<Rightarrow> user \<Rightarrow> uuid \<Rightarrow> uuid \<Rightarrow> int \<Rightarrow> (banner_selection_read, 'm) platform_handler" where
  "accept_store_banner req_id u sid vid selection_revision d =
     attempt (require_roles [MERCHANT, ADMIN] u) d (\<lambda>_.
     attempt (owned_store d sid u) d (\<lambda>s.
     case find (\<lambda>v. bnv_id v = vid \<and> bnv_store_id v = sto_id s) (store_banner_versions d) of
       None \<Rightarrow> raise_http 404 ''Banner version not found'' d
     | Some v \<Rightarrow>
         if \<not> presentable v then raise_http 409 ''Banner version is not approved for use'' d
         else
           let (sel, d1) = ensure_selection (sto_id s) d
           in if bns_revision sel \<noteq> selection_revision
              then raise_http 409 ''Banner selection changed; refresh and try again'' d
              else
                let d2 = flush_selection (sel\<lparr>bns_active_version_id := Some (bnv_id v),
                           bns_selected_by_user_id := Some (usr_id u), bns_revision := bns_revision sel + 1\<rparr>) d1;
                    d3 = audit_banner_action req_id (sto_id s) (Some (bnv_id v)) (Some u) ''banner.accepted'' None d2
                in (Inr (selection_read d3 (sto_id s)), d3)))"

datatype moderation_action = Approve | Reject | Disable

fun moderation_action_value :: "moderation_action \<Rightarrow> string" where
  "moderation_action_value Approve = ''approve''"
| "moderation_action_value Reject = ''reject''"
| "moderation_action_value Disable = ''disable''"

fun moderation_target :: "moderation_action \<Rightarrow> string" where
  "moderation_target Approve = MODERATION_APPROVED"
| "moderation_target Reject = MODERATION_REJECTED"
| "moderation_target Disable = MODERATION_DISABLED"

text \<open>A rejected or disabled version stops being the selected one.\<close>

definition deselect :: "user \<Rightarrow> store_banner_version \<Rightarrow> 'm platform_scheme \<Rightarrow> 'm platform_scheme" where
  "deselect admin v d =
     (case get_selection d (bnv_store_id v) of
        None \<Rightarrow> d
      | Some s \<Rightarrow>
          if bns_active_version_id s = Some (bnv_id v)
          then flush_selection (s\<lparr>bns_active_version_id := None, bns_selected_by_user_id := Some (usr_id admin),
                                  bns_revision := bns_revision s + 1\<rparr>) d
          else d)"

definition moderate_tx ::
  "timestamp \<Rightarrow> string \<Rightarrow> user \<Rightarrow> store_banner_version \<Rightarrow> moderation_action \<Rightarrow> string option \<Rightarrow>
     'm platform_scheme \<Rightarrow> 'm platform_scheme res" where
  "moderate_tx now req_id admin v action reason_code d =
     (let v1 = v\<lparr>bnv_moderation_status := moderation_target action,
                 bnv_moderated_by_user_id := Some (usr_id admin), bnv_moderated_at := Some now\<rparr>;
          d1 = flush_version v1 d;
          d2 = (if action = Approve then d1 else deselect admin v1 d1);
          d3 = audit_banner_action req_id (bnv_store_id v) (Some (bnv_id v)) (Some admin)
                 (''banner.moderation_'' @ moderation_action_value action) reason_code d2
      in record_admin_action req_id admin (''store_banner.'' @ moderation_action_value action) MEDIA_MODERATE
           ''store_banner_version'' (bnv_id v)
           [(''moderation_status'', JStr (bnv_moderation_status v))]
           [(''moderation_status'', JStr (moderation_target action))] reason_code d3)"

definition moderate_store_banner ::
  "timestamp \<Rightarrow> string \<Rightarrow> user \<Rightarrow> uuid \<Rightarrow> moderation_action \<Rightarrow> string option \<Rightarrow>
     (store_banner_version, 'm) platform_handler" where
  "moderate_store_banner now req_id admin vid action reason_code d =
     attempt (require_capability MEDIA_MODERATE admin) d (\<lambda>_.
     case get_version d vid of
       None \<Rightarrow> raise_http 404 ''Banner version not found'' d
     | Some v \<Rightarrow>
         if action = Approve \<and> bnv_generation_status v \<noteq> GENERATION_READY
         then raise_http 409 ''Banner version is not ready for approval'' d
         else attempt (moderate_tx now req_id admin v action reason_code d) d (\<lambda>d1.
              refresh get_version vid d1))"

section \<open>What the operations write\<close>

lemma quiet_banner_writes [simp]:
  "quiet d (flush_version v d)" "quiet d (flush_job j d)" "quiet d (flush_selection sel d)"
  "quiet d (audit_banner_action req_id sid vid u a why d)" "quiet d (snd (ensure_selection sid d))"
  "quiet d (snd (create_banner_job digest now s trigger key d))"
  using le_SucI [OF max.coboundedI1 [OF less_imp_le [OF fresh_id_new(2) [of d "map bnv_id (store_banner_versions d)"]]]]
  by (simp_all add: quiet_def shelf_def flush_version_def flush_job_def flush_selection_def
      audit_banner_action_def ensure_selection_def create_banner_job_def Let_def split: option.split)

lemma quiet_render: "render_job digest now j d = Inr d' \<Longrightarrow> quiet d d'"
  by (auto simp: render_job_def res_bind_Inr Let_def split: option.splits
      intro!: quiet_enqueue_trans intro: quiet_trans [OF quiet_banner_writes(1) quiet_banner_writes(2)])

lemma quiet_retry_failed: "quiet d (retry_failed_job cfg now j d)"
  by (auto simp: retry_failed_job_def Let_def split: option.split
      intro: quiet_trans [OF quiet_banner_writes(2) quiet_banner_writes(1)])

lemma quiet_drain: "quiet d (snd (drain_banner_jobs digest cfg held now job_id n r d))"
proof (induction n arbitrary: r d)
  case (Suc n)
  then show ?case
    by (auto simp: Let_def split: option.split sum.split
        intro: quiet_trans [OF quiet_render] quiet_trans [OF quiet_retry_failed])
qed simp

lemma quiet_process_banner_jobs: "quiet d (snd (process_due_banner_jobs digest cfg held now limit job_id d))"
  by (simp add: process_due_banner_jobs_def quiet_drain)

lemma quiet_regenerate: "quiet d (snd (regenerate_store_banner digest cfg now req_id u sid key d))"
  by (auto simp: regenerate_store_banner_def attempt_def case_prod_beta split: sum.split option.split
      intro: quiet_trans [OF quiet_banner_writes(6) quiet_banner_writes(4)])

lemma quiet_accept: "quiet d (snd (accept_store_banner req_id u sid vid revision d))"
  by (auto simp: accept_store_banner_def attempt_def case_prod_beta Let_def split: sum.split option.split
      intro!: quiet_trans [OF quiet_trans [OF quiet_banner_writes(5) quiet_banner_writes(3)] quiet_banner_writes(4)])

lemma quiet_deselect: "quiet d (deselect u v d)"
  by (simp add: deselect_def split: option.split)

lemma quiet_moderate_tx: "moderate_tx now req_id u v action why d = Inr d' \<Longrightarrow> quiet d d'"
  unfolding moderate_tx_def Let_def
  by (erule quiet_admin_trans, rule quiet_trans [OF _ quiet_banner_writes(4)])
    (auto intro: quiet_trans [OF quiet_banner_writes(1) quiet_deselect])

lemma quiet_moderate: "quiet d (snd (moderate_store_banner now req_id u vid action why d))"
  by (auto simp: moderate_store_banner_def attempt_def split: sum.split option.split intro: quiet_moderate_tx)

section \<open>Selected banners\<close>

text \<open>
  The selection of a store names a rendered, approved version of that store. A job that is not
  finished has a version that is not ready; this is what makes the first claim stable, since
  rendering a version again would publish a manifest nobody reviewed.
\<close>

definition selection_ok :: "'m platform_scheme \<Rightarrow> store_banner_selection \<Rightarrow> bool" where
  "selection_ok d s \<longleftrightarrow>
     (case bns_active_version_id s of
        None \<Rightarrow> True
      | Some i \<Rightarrow>
          (case get_version d i of None \<Rightarrow> False | Some v \<Rightarrow> presentable v \<and> bnv_store_id v = bns_store_id s))"

definition job_ok :: "'m platform_scheme \<Rightarrow> banner_generation_job \<Rightarrow> bool" where
  "job_ok d j \<longleftrightarrow> bnj_status j = JOB_SUCCEEDED \<or>
     (case get_version d (bnj_version_id j) of
        None \<Rightarrow> True | Some v \<Rightarrow> bnv_generation_status v \<noteq> GENERATION_READY)"

definition banners_ok :: "'m platform_scheme \<Rightarrow> bool" where
  "banners_ok d \<longleftrightarrow>
     distinct (map bnv_id (store_banner_versions d))
     \<and> distinct (map bnj_id (banner_generation_jobs d)) \<and> distinct (map bnj_version_id (banner_generation_jobs d))
     \<and> distinct (map bns_store_id (store_banner_selections d))
     \<and> (\<forall>j \<in> set (banner_generation_jobs d).
          bnj_version_id j \<in> bnv_id ` set (store_banner_versions d) \<and> job_ok d j)
     \<and> (\<forall>s \<in> set (store_banner_selections d). selection_ok d s)"

lemma selection_ok_iff:
  "selection_ok d s \<longleftrightarrow> (\<forall>i. bns_active_version_id s = Some i \<longrightarrow>
     (\<exists>v. get_version d i = Some v \<and> presentable v \<and> bnv_store_id v = bns_store_id s))"
  by (auto simp: selection_ok_def split: option.split)

lemma job_ok_iff:
  "job_ok d j \<longleftrightarrow> bnj_status j = JOB_SUCCEEDED \<or>
     (\<forall>v. get_version d (bnj_version_id j) = Some v \<longrightarrow> bnv_generation_status v \<noteq> GENERATION_READY)"
  by (auto simp: job_ok_def split: option.split)

lemma banners_selection: "banners_ok d \<Longrightarrow> s \<in> set (store_banner_selections d) \<Longrightarrow> selection_ok d s"
  and banners_job: "banners_ok d \<Longrightarrow> j \<in> set (banner_generation_jobs d) \<Longrightarrow>
     job_ok d j \<and> bnj_version_id j \<in> bnv_id ` set (store_banner_versions d)"
  by (auto simp: banners_ok_def)

lemma banners_ok_frame:
  assumes "store_banner_versions d' = store_banner_versions d"
    and "banner_generation_jobs d' = banner_generation_jobs d"
    and "store_banner_selections d' = store_banner_selections d" and "banners_ok d"
  shows "banners_ok d'"
proof -
  have "get_version d' i = get_version d i" for i using assms(1) by (simp add: get_version_def)
  then have "selection_ok d' x = selection_ok d x" "job_ok d' y = job_ok d y" for x y
    by (simp_all add: selection_ok_iff job_ok_iff)
  with assms show ?thesis by (simp add: banners_ok_def)
qed

lemma get_version_snoc:
  "bnv_id v \<notin> bnv_id ` set (store_banner_versions d) \<Longrightarrow>
     get_version (d\<lparr>db_next_id := n, store_banner_versions := store_banner_versions d @ [v],
        banner_generation_jobs := js\<rparr>) i = (if i = bnv_id v then Some v else get_version d i)"
  by (auto simp: get_version_def get_row_append get_row_None [symmetric] split: option.split)

lemma banners_create:
  assumes ok: "banners_ok d" shows "banners_ok (snd (create_banner_job digest now s trigger key d))"
proof (cases "job_of_key d (sto_id s) key")
  case None
  let ?i = "fresh_id (map bnv_id (store_banner_versions d)) d"
  let ?d = "snd (create_banner_job digest now s trigger key d)"
  have new: "?i \<notin> bnv_id ` set (store_banner_versions d)"
    and newj: "fresh_id (map bnj_id (banner_generation_jobs d)) d \<notin> bnj_id ` set (banner_generation_jobs d)"
    using fresh_id_new(1) [of "map bnv_id (store_banner_versions d)" d]
      fresh_id_new(1) [of "map bnj_id (banner_generation_jobs d)" d] by simp_all
  have jobs: "bnj_version_id j \<noteq> ?i" if "j \<in> set (banner_generation_jobs d)" for j
    using banners_job [OF ok that] new by auto
  have sels: "i \<noteq> ?i" if "s \<in> set (store_banner_selections d)" "bns_active_version_id s = Some i" for s i
  proof -
    from banners_selection [OF ok that(1)] that(2) obtain v where "get_version d i = Some v"
      by (auto simp: selection_ok_iff)
    then have "v \<in> set (store_banner_versions d)" "bnv_id v = i" by (auto simp: get_version_def)
    with new show ?thesis by (metis imageI)
  qed
  have "selection_ok ?d x" if "x \<in> set (store_banner_selections d)" for x
    using banners_selection [OF ok that] sels [OF that] None
    by (auto simp: create_banner_job_def Let_def get_version_snoc new selection_ok_iff)
  moreover have "job_ok ?d x" if "x \<in> set (banner_generation_jobs d)" for x
    using banners_job [OF ok that] jobs [OF that] None
    by (auto simp: create_banner_job_def Let_def get_version_snoc new job_ok_iff)
  ultimately show ?thesis
    using ok new newj None jobs
    by (fastforce simp: banners_ok_def create_banner_job_def Let_def get_version_snoc job_ok_iff banner_constants)
qed (use ok in \<open>simp add: create_banner_job_def\<close>)

lemma image_put_row: "key ` set (put_row key r t) = key ` set t"
  by (metis map_key_put_row set_map)

text \<open>A version and its job written together, as the worker does.\<close>

lemma get_flush_version [simp]:
  "get_version (flush_version v d) i = (if i = bnv_id v \<and> get_version d i \<noteq> None then Some v else get_version d i)"
  "get_version (flush_job j d) i = get_version d i" "get_version (flush_selection sel d) i = get_version d i"
  by (simp_all add: version_rows.get_put) (simp_all add: get_version_def flush_job_def flush_selection_def)

lemma banner_flush_fields [simp]:
  "store_banner_selections (flush_version v d) = store_banner_selections d"
  "store_banner_selections (flush_job j d) = store_banner_selections d"
  "banner_generation_jobs (flush_version v d) = banner_generation_jobs d"
  "banner_generation_jobs (flush_selection sel d) = banner_generation_jobs d"
  "banner_generation_jobs (flush_job j d) = put_row bnj_id j (banner_generation_jobs d)"
  "store_banner_versions (flush_job j d) = store_banner_versions d"
  "store_banner_versions (flush_selection sel d) = store_banner_versions d"
  "store_banner_versions (flush_version v d) = put_row bnv_id v (store_banner_versions d)"
  "store_banner_selections (flush_selection sel d) = put_row bns_store_id sel (store_banner_selections d)"
  "db_next_id (flush_version v d) = db_next_id d" "db_next_id (flush_job j d) = db_next_id d"
  "db_next_id (flush_selection sel d) = db_next_id d"
  by (simp_all add: flush_version_def flush_job_def flush_selection_def)

lemma banners_flush_pair:
  assumes ok: "banners_ok d" and j: "get_job d (bnj_id j1) = Some j"
    and v: "get_version d (bnj_version_id j) = Some v" and v1: "bnv_id v1 = bnv_id v"
    and same: "bnj_version_id j1 = bnj_version_id j"
    and hidden: "\<not> presentable v"
    and sound: "bnj_status j1 = JOB_SUCCEEDED \<or> bnv_generation_status v1 \<noteq> GENERATION_READY"
  shows "banners_ok (flush_job j1 (flush_version v1 d))"
proof -
  have jin: "j \<in> set (banner_generation_jobs d)" "bnj_id j = bnj_id j1"
    using j by (auto simp: get_job_def)
  have vid: "bnv_id v = bnj_version_id j" using v by (auto simp: get_version_def)
  have ids: "map bnj_version_id (put_row bnj_id j1 (banner_generation_jobs d)) = map bnj_version_id (banner_generation_jobs d)"
    using ok jin same by (intro map_put_row_field) (auto simp: banners_ok_def distinct_map inj_on_def)
  have others: "bnj_version_id x \<noteq> bnj_version_id j"
    if "x \<in> set (banner_generation_jobs d)" "bnj_id x \<noteq> bnj_id j1" for x
    using ok that jin by (metis banners_ok_def distinct_map inj_on_def)
  have jobs: "bnj_version_id x \<in> bnv_id ` set (store_banner_versions d) \<and> job_ok (flush_job j1 (flush_version v1 d)) x"
    if "x \<in> set (put_row bnj_id j1 (banner_generation_jobs d))" for x
    using in_put_row_cases [OF that]
  proof
    assume "x = j1"
    then show ?thesis using banners_job [OF ok jin(1)] jin v v1 vid same sound by (auto simp: job_ok_iff)
  next
    assume "x \<in> set (banner_generation_jobs d) \<and> bnj_id x \<noteq> bnj_id j1"
    then show ?thesis using banners_job [OF ok, of x] others [of x] v1 vid by (auto simp: job_ok_iff)
  qed
  have sels: "selection_ok (flush_job j1 (flush_version v1 d)) s" if "s \<in> set (store_banner_selections d)" for s
    using banners_selection [OF ok that] v v1 vid hidden by (auto simp: selection_ok_iff)
  have vers: "bnv_id ` set (put_row bnv_id v1 (store_banner_versions d)) = bnv_id ` set (store_banner_versions d)"
    by (rule image_put_row)
  show ?thesis
    using ok jobs sels vers by (simp add: banners_ok_def ids)
qed

lemma banners_flush_version:
  assumes ok: "banners_ok d" and v: "get_version d (bnv_id v1) = Some v"
    and same: "bnv_store_id v1 = bnv_store_id v" "bnv_generation_status v1 = bnv_generation_status v"
    and shown: "\<And>s. s \<in> set (store_banner_selections d) \<Longrightarrow> bns_active_version_id s = Some (bnv_id v1) \<Longrightarrow> presentable v1"
  shows "banners_ok (flush_version v1 d)"
proof -
  have "job_ok (flush_version v1 d) j" if "j \<in> set (banner_generation_jobs d)" for j
    using banners_job [OF ok that] v same by (auto simp: job_ok_iff)
  moreover have "selection_ok (flush_version v1 d) s" if "s \<in> set (store_banner_selections d)" for s
    using banners_selection [OF ok that] v same shown [OF that] by (auto simp: selection_ok_iff)
  ultimately show ?thesis using ok by (simp add: banners_ok_def image_put_row)
qed

lemma banners_flush_selection:
  assumes "banners_ok d" and "selection_ok d s" shows "banners_ok (flush_selection s d)"
  using assms by (auto simp: banners_ok_def job_ok_iff selection_ok_iff elim!: in_put_rowE)

text \<open>The operations.\<close>

lemma banners_enqueue [simp]: "banners_ok d \<Longrightarrow> banners_ok (enqueue_notification now i e t b x d)"
  by (rule banners_ok_frame) (simp_all add: enqueue_notification_def)

lemma banners_audit [simp]: "banners_ok d \<Longrightarrow> banners_ok (audit_banner_action req_id sid vid u a why d)"
  by (rule banners_ok_frame) (simp_all add: audit_banner_action_def)

lemma banners_admin:
  "record_admin_action req_id u a c rt ri p r why d = Inr d' \<Longrightarrow> banners_ok d \<Longrightarrow> banners_ok d'"
  by (rule banners_ok_frame) (auto simp: record_admin_action_def split: if_splits)

lemma banners_process:
  assumes ok: "banners_ok d" and j: "get_job d (bnj_id j) = Some j0" and jv: "bnj_version_id j = bnj_version_id j0"
    and open_job: "bnj_status j0 \<noteq> JOB_SUCCEEDED" and r: "render_job digest now j d = Inr d'"
  shows "banners_ok d'"
proof -
  have "j0 \<in> set (banner_generation_jobs d)" using j by (auto simp: get_job_def)
  then have hidden: "\<not> presentable v" if "get_version d (bnj_version_id j) = Some v" for v
    using banners_job [OF ok] open_job that jv by (auto simp: job_ok_iff presentable_def)
  have "banners_ok (flush_job (succeeded_job j) (flush_version (rendered_version now manifest fp v) d))"
    if "get_version d (bnj_version_id j) = Some v" for v manifest fp
    by (rule banners_flush_pair [OF ok, of _ j0 v])
      (use j jv that hidden in \<open>simp_all add: succeeded_job_def rendered_version_def\<close>)
  then show ?thesis using r by (auto simp: render_job_def res_bind_Inr split: option.splits)
qed

lemma banners_retry:
  assumes ok: "banners_ok d" and j: "get_job d i = Some j" and open_job: "bnj_status j \<noteq> JOB_SUCCEEDED"
  shows "banners_ok (retry_failed_job cfg now j d)"
proof -
  let ?j = "failed_job cfg now j"
  have ids: "bnj_id ?j = bnj_id j" "bnj_version_id ?j = bnj_version_id j"
    and st: "bnj_status ?j \<noteq> GENERATION_READY" "bnj_status ?j \<noteq> JOB_SUCCEEDED"
    by (simp_all add: failed_job_def Let_def banner_constants)
  have gj: "get_job d (bnj_id ?j) = Some j" using j ids by (auto simp: get_job_def)
  have jin: "j \<in> set (banner_generation_jobs d)" using j by (auto simp: get_job_def)
  show ?thesis
  proof (cases "get_version d (bnj_version_id j)")
    case (Some v)
    have "\<not> presentable v"
      using banners_job [OF ok jin] open_job Some by (auto simp: job_ok_iff presentable_def)
    moreover have "retry_failed_job cfg now j d = flush_job ?j (flush_version (with_status (bnj_status ?j) v) d)"
      using Some by (simp add: retry_failed_job_def Let_def flush_job_def flush_version_def)
    ultimately show ?thesis
      by (simp, intro banners_flush_pair [OF ok gj Some]) (use ids st in \<open>simp_all add: with_status_def\<close>)
  next
    case None
    have "bnj_version_id x \<in> bnv_id ` set (store_banner_versions d) \<and> job_ok d x"
      if "x \<in> set (put_row bnj_id ?j (banner_generation_jobs d))" for x
      using in_put_row_cases [OF that] banners_job [OF ok] banners_job [OF ok jin] ids None by (auto simp: job_ok_iff)
    moreover have "map bnj_version_id (put_row bnj_id ?j (banner_generation_jobs d)) = map bnj_version_id (banner_generation_jobs d)"
      using ok jin ids by (intro map_put_row_field) (auto simp: banners_ok_def distinct_map inj_on_def)
    ultimately show ?thesis
      using ok None by (simp add: retry_failed_job_def Let_def banners_ok_def job_ok_iff selection_ok_iff)
  qed
qed

lemma claim_due_jobD:
  assumes "claim_due_job cfg held now job_id d = Some j" and ok: "banners_ok d"
  obtains j0 where "get_job d (bnj_id j) = Some j0" "bnj_version_id j = bnj_version_id j0"
    "bnj_status j0 \<noteq> JOB_SUCCEEDED" "due_job now j0"
proof -
  let ?due = "filter (\<lambda>j. due_job now j \<and> \<not> held (bnj_id j)
      \<and> (case job_id of None \<Rightarrow> True | Some i \<Rightarrow> bnj_id j = i)) (banner_generation_jobs d)"
  obtain j0 js where s: "sort_key bnj_created_at ?due = j0 # js"
    and j: "bnj_id j = bnj_id j0" "bnj_version_id j = bnj_version_id j0"
    using assms(1) by (auto simp: claim_due_job_def split: list.splits)
  have "j0 \<in> set (sort_key bnj_created_at ?due)" unfolding s by simp
  then have "j0 \<in> set (banner_generation_jobs d)" "due_job now j0" by auto
  moreover have "bnj_status j0 \<noteq> JOB_SUCCEEDED" using \<open>due_job now j0\<close> by (auto simp: due_job_def banner_constants)
  ultimately show thesis using ok j that [of j0] by (simp add: get_job_def banners_ok_def get_row_Some_iff)
qed

lemma banners_drain:
  "banners_ok d \<Longrightarrow> banners_ok (snd (drain_banner_jobs digest cfg held now job_id n r d))"
proof (induction n arbitrary: r d)
  case (Suc n)
  show ?case
  proof (cases "claim_due_job cfg held now job_id d")
    case (Some j)
    obtain j0 where j0: "get_job d (bnj_id j) = Some j0" "bnj_version_id j = bnj_version_id j0"
        "bnj_status j0 \<noteq> JOB_SUCCEEDED" "due_job now j0"
      by (rule claim_due_jobD [OF Some Suc.prems])
    show ?thesis
    proof (cases "render_job digest now j d")
      case (Inl e)
      then show ?thesis using Some j0 by (auto simp: Let_def intro!: Suc.IH banners_retry [OF Suc.prems j0(1,3)])
    next
      case (Inr d1)
      then show ?thesis using Some by (simp add: Let_def Suc.IH [OF banners_process [OF Suc.prems j0(1-3) Inr]])
    qed
  qed (use Suc in simp)
qed simp

lemma banners_process_jobs:
  "banners_ok d \<Longrightarrow> banners_ok (snd (process_due_banner_jobs digest cfg held now limit job_id d))"
  by (simp add: process_due_banner_jobs_def banners_drain)

lemma banners_regenerate:
  "banners_ok d \<Longrightarrow> banners_ok (snd (regenerate_store_banner digest cfg now req_id u sid key d))"
  by (auto simp: regenerate_store_banner_def attempt_def case_prod_beta banners_create split: sum.split option.split)

lemma banners_ensure_selection:
  assumes "banners_ok d" shows "banners_ok (snd (ensure_selection sid d))"
  using assms
  by (auto simp: ensure_selection_def Let_def banners_ok_def job_ok_iff selection_ok_iff get_version_def
      get_selection_def get_row_None split: option.split)

lemma get_version_ensure [simp]: "get_version (snd (ensure_selection sid d)) i = get_version d i"
  by (simp add: ensure_selection_def get_version_def Let_def split: option.split)

lemma ensure_selection_store [simp]: "bns_store_id (fst (ensure_selection sid d)) = sid"
  by (auto simp: ensure_selection_def get_selection_def Let_def split: option.split)

lemma banners_accept:
  assumes ok: "banners_ok d" shows "banners_ok (snd (accept_store_banner req_id u sid vid revision d))"
proof -
  have "banners_ok (flush_selection ((fst (ensure_selection k d))\<lparr>bns_active_version_id := Some (bnv_id v),
          bns_selected_by_user_id := x, bns_revision := y\<rparr>) (snd (ensure_selection k d)))"
    if f: "find (\<lambda>v. bnv_id v = vid \<and> bnv_store_id v = k) (store_banner_versions d) = Some v"
      and p: "presentable v" for v k x y
  proof -
    have "get_version d (bnv_id v) = Some v"
      using find_Some_in [OF f] ok by (simp add: get_version_def banners_ok_def get_row_Some_iff)
    with find_Some_in [OF f] p show ?thesis
      by (intro banners_flush_selection banners_ensure_selection [OF ok]) (simp add: selection_ok_def)
  qed
  then show ?thesis
    using ok by (auto simp: accept_store_banner_def attempt_def case_prod_beta Let_def split: sum.split option.split)
qed

lemma banners_deselect:
  assumes ok: "banners_ok d" and v: "get_version d (bnv_id v) = Some v0" "bnv_store_id v = bnv_store_id v0"
  shows "banners_ok (deselect u v d)"
    and "s \<in> set (store_banner_selections (deselect u v d)) \<Longrightarrow> bns_active_version_id s \<noteq> Some (bnv_id v)"
proof -
  show "banners_ok (deselect u v d)"
    using ok by (auto simp: deselect_def selection_ok_def split: option.split intro!: banners_flush_selection)
  have here: "bns_store_id x = bnv_store_id v"
    if "x \<in> set (store_banner_selections d)" "bns_active_version_id x = Some (bnv_id v)" for x
    using banners_selection [OF ok that(1)] that(2) v by (auto simp: selection_ok_iff)
  show "bns_active_version_id s \<noteq> Some (bnv_id v)" if s: "s \<in> set (store_banner_selections (deselect u v d))"
  proof (cases "get_selection d (bnv_store_id v)")
    case None
    then have "deselect u v d = d" by (simp add: deselect_def)
    moreover have "bnv_store_id v \<notin> bns_store_id ` set (store_banner_selections d)"
      using None by (simp add: get_selection_def get_row_None)
    ultimately show ?thesis using s here [of s] by (metis imageI)
  next
    case (Some x)
    then have x: "bns_store_id x = bnv_store_id v" by (auto simp: get_selection_def)
    have only: "y = x" if "y \<in> set (store_banner_selections d)" "bns_store_id y = bnv_store_id v" for y
      using Some that ok by (auto simp: get_selection_def banners_ok_def get_row_Some_iff distinct_map inj_on_def)
    show ?thesis
      using s Some x here only by (auto simp: deselect_def elim!: in_put_rowE split: if_splits)
  qed
qed

lemma deselect_flush_version: "deselect u v (flush_version v' d) = flush_version v' (deselect u v d)"
  by (simp add: deselect_def get_selection_def flush_version_def flush_selection_def split: option.split)

lemma get_version_deselect [simp]: "get_version (deselect u v d) i = get_version d i"
  by (simp add: deselect_def split: option.split)

lemma banners_moderate_tx:
  assumes ok: "banners_ok d" and v: "get_version d (bnv_id v) = Some v"
    and ready: "action = Approve \<Longrightarrow> bnv_generation_status v = GENERATION_READY"
    and tx: "moderate_tx now req_id u v action why d = Inr d'"
  shows "banners_ok d'"
proof -
  define w where "w = v\<lparr>bnv_moderation_status := moderation_target action,
    bnv_moderated_by_user_id := Some (usr_id u), bnv_moderated_at := Some now\<rparr>"
  have w: "bnv_id w = bnv_id v" "bnv_store_id w = bnv_store_id v" "bnv_generation_status w = bnv_generation_status v"
    by (simp_all add: w_def)
  have "banners_ok (if action = Approve then flush_version w d else deselect u w (flush_version w d))"
  proof (cases "action = Approve")
    case True
    then have "presentable w" using ready by (simp add: w_def presentable_def)
    with True show ?thesis using ok v w by (auto intro!: banners_flush_version)
  next
    case False
    have e: "banners_ok (deselect u w d)"
      "s \<in> set (store_banner_selections (deselect u w d)) \<Longrightarrow> bns_active_version_id s \<noteq> Some (bnv_id w)" for s
      using banners_deselect [OF ok, of w v] v w by auto
    have "banners_ok (flush_version w (deselect u w d))"
      by (rule banners_flush_version [OF e(1)]) (use v w e(2) in auto)
    with False show ?thesis by (simp add: deselect_flush_version)
  qed
  with tx show ?thesis
    unfolding moderate_tx_def Let_def w_def [symmetric] by (auto intro: banners_admin)
qed

lemma banners_moderate:
  assumes ok: "banners_ok d" shows "banners_ok (snd (moderate_store_banner now req_id u vid action why d))"
proof -
  have "bnv_id v = vid" if "get_version d vid = Some v" for v using that by (auto simp: get_version_def)
  with ok show ?thesis
    by (auto simp: moderate_store_banner_def attempt_def split: sum.split option.split intro: banners_moderate_tx)
qed

text \<open>What the public reads is the manifest of an approved, rendered version of that store.\<close>

lemma published_version:
  assumes ok: "banners_ok d" and p: "(sid, m) \<in> set (public_presentations_for_stores d ids)"
  obtains v where "v \<in> set (store_banner_versions d)" "bnv_store_id v = sid" "presentable v"
    "bnv_manifest v = Some m" "valid_manifest m" "sid \<in> set ids"
proof -
  obtain s where s: "s \<in> set (store_banner_selections d)" "bns_store_id s = sid" "sid \<in> set ids"
    and pub: "public_presentation (active_version d s) = Some m"
    using p by (auto simp: public_presentations_for_stores_def List.map_filter_def)
  then obtain i v where i: "bns_active_version_id s = Some i" and v: "get_version d i = Some v"
    by (auto simp: public_presentation_def active_version_def split: option.splits Option.bind_splits)
  have "v \<in> set (store_banner_versions d)" using v by (auto simp: get_version_def)
  moreover have "bnv_store_id v = sid" using banners_selection [OF ok s(1)] i v s(2) by (auto simp: selection_ok_iff)
  moreover have "presentable v" "bnv_manifest v = Some m" "valid_manifest m"
    using pub i v by (auto simp: public_presentation_def active_version_def split: if_splits option.splits)
  ultimately show thesis using that s(3) by blast
qed

text \<open>Every pass of the worker is bounded, and a repeated request makes no second job.\<close>

lemma drain_considered:
  "bno_considered (fst (drain_banner_jobs digest cfg held now job_id n r d)) \<le> bno_considered r + n"
proof (induction n arbitrary: r d)
  case (Suc n)
  have le: "bno_considered (fst (drain_banner_jobs digest cfg held now job_id n (f (r\<lparr>bno_considered := Suc (bno_considered r)\<rparr>)) d1))
      \<le> bno_considered r + Suc n"
    if "\<And>x. bno_considered (f x) = bno_considered x" for f :: "banner_outcome \<Rightarrow> banner_outcome" and d1 :: "'a platform_scheme"
    using Suc.IH [of "f (r\<lparr>bno_considered := Suc (bno_considered r)\<rparr>)" d1] that by simp
  show ?case
    using le [of "\<lambda>x. x"] le [of "\<lambda>x. x\<lparr>bno_succeeded := Suc (bno_succeeded x)\<rparr>"]
      le [of "\<lambda>x. x\<lparr>bno_failed := Suc (bno_failed x)\<rparr>"] le [of "\<lambda>x. x\<lparr>bno_retried := Suc (bno_retried x)\<rparr>"]
    by (auto simp: Let_def split: option.split sum.split)
qed simp

lemma create_banner_job_again:
  "create_banner_job digest now' s trigger' key (snd (create_banner_job digest now s trigger key d)) =
     ((fst (fst (create_banner_job digest now s trigger key d)), False),
      snd (create_banner_job digest now s trigger key d))"
proof (cases "job_of_key d (sto_id s) key")
  case None
  then show ?thesis
    by (simp add: create_banner_job_def Let_def) (simp add: job_of_key_def find_append)
qed (simp add: create_banner_job_def)

end
