(* ===== verification/Surroundings.thy ===== *)
theory Surroundings
  imports Platform
begin

text \<open>
  What the marketplace core leaves alone: no step of an order, delivery, payment or refund
  touches the catalogue, the geography, the accounts of merchants or any table of the
  platform around it; of a listing it changes the stock and the availability only.
\<close>

section \<open>The tables the core only reads\<close>

definition surroundings ::
  "'m database_scheme \<Rightarrow> (village list \<times> service_area list \<times> address list \<times> merchant list) \<times>
     (store list \<times> category list \<times> product list) \<times> 'm" where
  "surroundings d = ((villages d, service_areas d, addresses d, merchants d),
     (stores d, categories d, products d), database.more d)"

definition listing_key :: "store_product \<Rightarrow> uuid \<times> uuid \<times> uuid \<times> money \<times> money option" where
  "listing_key l = (lst_id l, lst_store_id l, lst_product_id l, lst_price l, lst_mrp l)"

definition assortment :: "'m database_scheme \<Rightarrow> (uuid \<times> uuid \<times> uuid \<times> money \<times> money option) list" where
  "assortment d = map listing_key (store_products d)"

lemma surroundings_same_core: "same_core d d' \<Longrightarrow> surroundings d' = surroundings d"
proof -
  assume "same_core d d'"
  then have "surroundings (core_of d') = surroundings (core_of d)" by (simp add: same_core_def)
  then show ?thesis by (simp add: surroundings_def core_of_def)
qed

lemma surroundings_listing [simp]: "surroundings (flush_listing l d) = surroundings d"
  by (simp add: surroundings_def flush_listing_def)

lemma surroundings_restore_items: "restore_items sid os d = Inr d' \<Longrightarrow> surroundings d' = surroundings d"
  by (induction os arbitrary: d) (auto split: option.splits)

lemma surroundings_settlement: "ensure_settlement_entry o1 d = Inr (e, d') \<Longrightarrow> surroundings d' = surroundings d"
  by (auto simp: surroundings_def dest!: settlement_update)

lemma surroundings_obligation: "ensure_refund_request now o1 why d = (r, o2, d') \<Longrightarrow> surroundings d' = surroundings d"
  by (auto simp: ensure_refund_request_def Let_def surroundings_def split: if_splits option.splits)

interpretation around: untouched_by_orders surroundings
proof
  show "same_core d d' \<Longrightarrow> surroundings d' = surroundings d" for d d' :: "'a database_scheme"
    by (rule surroundings_same_core)
  show "ensure_settlement_entry o1 d = Inr (e, d') \<Longrightarrow> surroundings d' = surroundings d"
    for o1 e and d d' :: "'a database_scheme" by (rule surroundings_settlement)
  show "ensure_refund_request now o1 why d = (r, o2, d') \<Longrightarrow> surroundings d' = surroundings d"
    for now o1 why r o2 and d d' :: "'a database_scheme" by (rule surroundings_obligation)
  show "restore_order_stock_once now o1 d = Inr (b, o2, d') \<Longrightarrow> surroundings d' = surroundings d"
    for now o1 b o2 and d d' :: "'a database_scheme"
    by (auto simp: restore_order_stock_once_def Let_def split: if_splits sum.splits dest: surroundings_restore_items)
qed (simp_all add: annotate_transition_def surroundings_def flush_order_def flush_refund_def flush_attempt_def flush_delivery_def gaonone_audit_delivery_status_def
    gaonone_audit_order_status_def record_transition_def annotate_transition_def
    annotate_order_transition_def annotate_delivery_transition_def void_settlement_for_refund_def Let_def
    split: option.split)

lemma surroundings_writes [simp]:
  "surroundings (d\<lparr>carts := cs\<rparr>) = surroundings d" "surroundings (d\<lparr>carts := cs, db_next_id := n\<rparr>) = surroundings d"
  "surroundings (d\<lparr>cart_items := is\<rparr>) = surroundings d"
  "surroundings (d\<lparr>cart_items := is, db_next_id := n\<rparr>) = surroundings d"
  "surroundings (d\<lparr>order_items := ois, db_next_id := n\<rparr>) = surroundings d"
  "surroundings (d\<lparr>orders := os, db_next_id := n\<rparr>) = surroundings d"
  "surroundings (d\<lparr>deliveries := ds, db_next_id := n\<rparr>) = surroundings d"
  "surroundings (d\<lparr>delivery_proofs := ps\<rparr>) = surroundings d"
  "surroundings (d\<lparr>delivery_proofs := ps, db_next_id := n\<rparr>) = surroundings d"
  "surroundings (d\<lparr>cod_collections := co, db_next_id := n\<rparr>) = surroundings d"
  "surroundings (d\<lparr>users := us\<rparr>) = surroundings d"
  by (simp_all add: surroundings_def)

lemma surroundings_carts [simp]:
  "surroundings (snd (get_or_create_cart i d)) = surroundings d" "surroundings (flush_cart c d) = surroundings d"
  "surroundings (delete_cart_items P d) = surroundings d" "surroundings (set_cart_quantity c k q d) = surroundings d"
  by (simp_all add: get_or_create_cart_def flush_cart_def delete_cart_items_def set_cart_quantity_def Let_def
      split: option.split)

lemma surroundings_cart_handlers:
  "surroundings (snd (get_cart u d)) = surroundings d" "surroundings (snd (add_cart_item u k q d)) = surroundings d"
  "surroundings (snd (remove_cart_item u k d)) = surroundings d" "surroundings (snd (clear_cart u d)) = surroundings d"
  by (simp_all add: get_cart_def add_cart_item_def remove_cart_item_def clear_cart_def attempt_def Let_def
      case_prod_beta split: option.split sum.split)

lemma surroundings_place_items: "place_items oid is d = Inr d' \<Longrightarrow> surroundings d' = surroundings d"
  by (induction "is" arbitrary: d) (auto split: option.splits)

lemma surroundings_place_order: "place_order now o1 items c d = Inr d' \<Longrightarrow> surroundings d' = surroundings d"
  by (auto simp: place_order_def res_bind_Inr Let_def dest: surroundings_place_items)

lemma surroundings_checkout:
  "surroundings (snd (safe_checkout g cfg now stamp token u key aid m d)) = surroundings d"
  by (cases rule: safe_checkout_cases [of key d u g cfg now stamp token aid m])
    (simp_all add: surroundings_place_order)

lemma surroundings_proof_handlers:
  "surroundings (snd (issue_delivery_proof_challenge h rate n now req_id u did d)) = surroundings d"
  "surroundings (snd (verify_delivery_proof h rate now req_id u did otp ev rn nt d)) = surroundings d"
  "surroundings (snd (record_cod_collection now req_id u did amount d)) = surroundings d"
  by (auto simp: issue_delivery_proof_challenge_def verify_delivery_proof_def store_challenge_def
      record_cod_collection_def flush_proof_def attempt_def Let_def split: sum.split option.split
      dest!: around.part_admin)

lemma surroundings_update_user: "surroundings (snd (admin_update_user req_id admin i r b d)) = surroundings d"
  using update_user_cases [of req_id admin i r b d]
  by (auto simp: update_access_tx_def Let_def flush_user_def dest!: around.part_admin)

theorem live_step_surroundings:
  assumes "live_step d d'" shows "surroundings d' = surroundings d"
  using assms
  by cases (simp_all add: surroundings_cart_handlers surroundings_checkout surroundings_proof_handlers
      surroundings_update_user around.part_dispatch_claim [OF surjective_pairing])

section \<open>Listings\<close>

lemma assortment_flush:
  assumes "distinct (map lst_id (store_products d))" and "l \<in> set (store_products d)" and "listing_key m = listing_key l"
  shows "assortment (flush_listing m d) = assortment d"
  unfolding assortment_def flush_listing_def
  using assms by (auto intro!: map_put_row_field simp: listing_key_def distinct_map inj_on_def)

lemma same_ids: "assortment d' = assortment d \<Longrightarrow> map lst_id (store_products d') = map lst_id (store_products d)"
proof -
  assume "assortment d' = assortment d"
  then have "map fst (assortment d') = map fst (assortment d)" by simp
  then show ?thesis by (simp add: assortment_def listing_key_def comp_def)
qed

interpretation assorted: untouched_by_riders assortment
proof
  fix d d' :: "'a database_scheme"
  show "same_core d d' \<Longrightarrow> assortment d' = assortment d" by (simp add: assortment_def same_core_tables)
  show "ensure_settlement_entry o1 d = Inr (e, d') \<Longrightarrow> assortment d' = assortment d" for o1 e
    by (auto simp: assortment_def dest!: settlement_update)
  show "ensure_refund_request now o1 why d = (r, o2, d') \<Longrightarrow> assortment d' = assortment d" for now o1 why r o2
    by (auto simp: ensure_refund_request_def Let_def assortment_def split: if_splits option.splits)
qed (simp_all add: assortment_def annotate_order_transition_def annotate_delivery_transition_def Let_def
    split: option.split)

lemma sold_key [simp]: "listing_key (sold_listing l q) = listing_key l"
  by (simp add: sold_listing_def listing_key_def Let_def)

lemma restored_key [simp]: "listing_key (restored_listing l q) = listing_key l"
  by (simp add: restored_listing_def listing_key_def Let_def)

lemma assortment_place_items:
  "place_items oid is d = Inr d' \<Longrightarrow> distinct (map lst_id (store_products d)) \<Longrightarrow> assortment d' = assortment d"
proof (induction "is" arbitrary: d)
  case (Cons i "is")
  then obtain l p where l: "get_listing d (cit_store_product_id i) = Some l"
    and rest: "place_items oid is (flush_listing (sold_listing l (cit_quantity i))
        (d\<lparr>order_items := order_items d @ [order_line (db_next_id d) oid l p (cit_quantity i)],
           db_next_id := Suc (db_next_id d)\<rparr>)) = Inr d'" (is "place_items oid is ?d1 = _")
    by (auto split: option.splits)
  let ?d0 = "d\<lparr>order_items := order_items d @ [order_line (db_next_id d) oid l p (cit_quantity i)],
    db_next_id := Suc (db_next_id d)\<rparr>"
  have "assortment ?d1 = assortment ?d0"
    using l Cons.prems(2) by (intro assortment_flush) (auto simp: get_listing_def)
  then have same: "assortment ?d1 = assortment d" by (simp add: assortment_def)
  then have "distinct (map lst_id (store_products ?d1))" using Cons.prems(2) same_ids [OF same] by simp
  with rest same show ?case by (simp add: Cons.IH)
qed simp

lemma assortment_restore_items:
  "restore_items sid os d = Inr d' \<Longrightarrow> distinct (map lst_id (store_products d)) \<Longrightarrow> assortment d' = assortment d"
proof (induction os arbitrary: d)
  case (Cons x os)
  then obtain l where l: "listing_of_product d sid (oit_product_id x) = Some l"
    and rest: "restore_items sid os (flush_listing (restored_listing l (oit_quantity x)) d) = Inr d'"
      (is "restore_items sid os ?d1 = _")
    by (auto split: option.splits)
  have same: "assortment ?d1 = assortment d"
    using listing_of_productD [OF l] Cons.prems(2) by (intro assortment_flush) auto
  then have "distinct (map lst_id (store_products ?d1))" using Cons.prems(2) same_ids [OF same] by simp
  with rest same show ?case by (simp add: Cons.IH)
qed simp

lemma assortment_shelf: "shelf d' = shelf d \<Longrightarrow> assortment d' = assortment d"
  by (simp add: shelf_def assortment_def)

lemma assortment_restored:
  assumes "restore_order_stock_once now o1 d = Inr (b, o2, d1)" and "shelf d' = shelf d1" and "shelf_ok d"
  shows "assortment d' = assortment d"
proof -
  have "assortment d1 = assortment d"
    using assms(1,3) by (auto simp: restore_order_stock_once_def Let_def shelf_ok_def
        split: if_splits sum.splits dest: assortment_restore_items)
  then show ?thesis using assortment_shelf [OF assms(2)] by simp
qed

lemma assortment_cancel:
  assumes ok: "shelf_ok d" shows "assortment (snd (cancel_my_order_safely cfg post now u i d)) = assortment d"
proof -
  have r: "assortment d' = assortment d" if "customer_cancellation now u o1 d = Inr (r, d')" for o1 r d'
    using that by (rule cancellation_shelf) (rule assortment_restored [OF _ _ ok])
  show ?thesis
    by (auto simp: cancel_my_order_safely_def attempt_def split: option.split sum.split dest: r)
qed

lemma assortment_update_order:
  assumes ok: "shelf_ok d"
  shows "assortment (snd (update_order_status_safely cfg post now req_id u i s d)) = assortment d"
proof -
  have r: "assortment d' = assortment d" if "merchant_status_update now req_id u s o1 d = Inr (r, d')" for o1 r d'
    using merchant_update_shelf [OF that] by (elim disjE exE conjE) (rule assortment_shelf assortment_restored [OF _ _ ok]; assumption)+
  show ?thesis
    by (auto simp: update_order_status_safely_def attempt_def split: option.split sum.split dest: r)
qed

lemma assortment_resolve:
  assumes ok: "shelf_ok d"
  shows "assortment (snd (resolve_failed_delivery cfg post now req_id admin did r notes d)) = assortment d"
proof (cases r)
  case Reassign
  then show ?thesis
    by (auto simp: resolve_failed_delivery_def attempt_def split: sum.split
        dest!: assorted.part_reassignment)
next
  case Return_To_Store
  have r: "assortment d' = assortment d" if "return_to_store_tx now req_id admin notes x o1 d = Inr (r, d')" for x o1 r d'
    using that by (rule return_shelf) (rule assortment_restored [OF _ _ ok])
  from Return_To_Store show ?thesis
    by (auto simp: resolve_failed_delivery_def attempt_def Let_def split: sum.split dest: r)
qed

lemma assortment_checkout:
  assumes ok: "shelf_ok d"
  shows "assortment (snd (safe_checkout g cfg now stamp token u key aid m d)) = assortment d"
proof (cases rule: safe_checkout_cases [of key d u g cfg now stamp token aid m])
  case (placed key' a c s items subtotal d')
  have "assortment d' = assortment d"
  proof (rule place_order_shelf [OF placed(5)], goal_cases)
    case (1 dI)
    have "assortment dI = assortment d"
      using assortment_place_items [OF 1(1)] ok by (simp add: shelf_ok_def) (simp add: assortment_def)
    with 1(2) show ?case by (simp add: assortment_def)
  qed
  with placed(6) show ?thesis by simp
qed simp_all

lemma assortment_carts:
  "assortment (snd (get_cart u d)) = assortment d" "assortment (snd (add_cart_item u k q d)) = assortment d"
  "assortment (snd (remove_cart_item u k d)) = assortment d" "assortment (snd (clear_cart u d)) = assortment d"
  by (simp_all add: get_cart_def add_cart_item_def remove_cart_item_def clear_cart_def attempt_def Let_def
      case_prod_beta assortment_def get_or_create_cart_def flush_cart_def delete_cart_items_def
      set_cart_quantity_def split: option.split sum.split)

theorem live_step_assortment:
  assumes "live_step d d'" and ok: "shelf_ok d" shows "assortment d' = assortment d"
  using assms(1)
  by cases (use ok in \<open>simp_all add: assortment_carts assortment_checkout assortment_cancel
    assortment_update_order assortment_resolve assorted.part_dispatch_claim [OF surjective_pairing]
    assortment_shelf [OF shelf_proof_handlers(1)] assortment_shelf [OF shelf_proof_handlers(2)]
    assortment_shelf [OF shelf_proof_handlers(3)] assortment_shelf [OF update_user_frame(2)]\<close>)

end
