(* ===== verification/Catalogue.thy ===== *)
theory Catalogue
  imports Banners Surroundings
begin

text \<open>
  Merchants, stores, categories, products and listings: \<open>routes/commerce.py\<close>. Parameters:
  \<open>ilike\<close> (PostgreSQL's \<open>value ILIKE pattern\<close>), \<open>casefold\<close> (Python's Unicode tables), the
  haversine distance and PostGIS. A field of a PATCH payload is \<open>None\<close> when it was not sent,
  \<open>Some None\<close> when it was sent as null. The \<open>str()\<close> of audited values is left out of the audit
  dictionaries' values. Lemmas: what each operation writes, ownership, and that stock stays
  non-negative and listing keys stay unique.
\<close>

section \<open>Columns\<close>

text \<open>
  A value stored in a \<open>Numeric(10, 2)\<close> column: PostgreSQL rounds it half away from zero and
  rejects ten or more digits before the point.
\<close>

definition numeric_column :: "decimal \<Rightarrow> money res" where
  "numeric_column x =
     (let c = coeff (quantize ROUND_HALF_UP 2 x)
      in if 10 ^ 10 \<le> \<bar>c\<bar> then Inl (RuntimeError ''DataError: numeric field overflow'') else Inr c)"

definition optional_column :: "decimal option \<Rightarrow> money option res" where
  "optional_column x = (case x of None \<Rightarrow> Inr None | Some v \<Rightarrow> res_bind (numeric_column v) (\<lambda>c. Inr (Some c)))"

definition positive :: "decimal \<Rightarrow> bool" where
  "positive x \<longleftrightarrow> 0 < coeff x"

section \<open>Stores as the public sees them\<close>

definition require_store_owner ::
  "'m database_scheme \<Rightarrow> store \<Rightarrow> user \<Rightarrow> capability \<Rightarrow> merchant option res" where
  "require_store_owner d s u c =
     (let m = get_merchant d (sto_merchant_id s)
      in if usr_role u = ADMIN then res_bind (ensure_capability u c) (\<lambda>_. Inr m)
         else (case m of
             None \<Rightarrow> Inl (HTTPException 403 ''You do not own this store'')
           | Some m1 \<Rightarrow>
               if mer_owner_user_id m1 \<noteq> usr_id u then Inl (HTTPException 403 ''You do not own this store'')
               else Inr m))"

record store_read =
  srd_store :: store
  srd_is_open_now :: bool
  srd_banner :: "banner_manifest option"

definition store_read_of :: "timestamp \<Rightarrow> 'm platform_scheme \<Rightarrow> store \<Rightarrow> store_read" where
  "store_read_of now d s =
     \<lparr>srd_store = s, srd_is_open_now = store_is_open now s,
      srd_banner = map_of (public_presentations_for_stores d [sto_id s]) (sto_id s)\<rparr>"

definition public_store :: "'m database_scheme \<Rightarrow> store \<Rightarrow> bool" where
  "public_store d s \<longleftrightarrow> sto_is_active s \<and>
     (case get_merchant d (sto_merchant_id s) of None \<Rightarrow> False | Some m \<Rightarrow> mer_status m = APPROVED)"

definition list_stores ::
  "(string \<Rightarrow> string \<Rightarrow> bool) \<Rightarrow> timestamp \<Rightarrow> uuid option \<Rightarrow> string option \<Rightarrow> bool option \<Rightarrow> int \<Rightarrow> int \<Rightarrow>
     (store_read list, 'm) platform_handler" where
  "list_stores ilike now village q delivery limit offset d =
     (if \<not> valid_page 200 limit offset then raise_http 422 ''limit'' d
      else (Inr (map (store_read_of now d) (page limit offset (sort_key sto_name (filter (\<lambda>s. public_store d s
              \<and> (case village of None \<Rightarrow> True | Some v \<Rightarrow> sto_village_id s = v)
              \<and> (case text_or_none q of None \<Rightarrow> True | Some t \<Rightarrow> ilike (sto_name s) (''%'' @ t @ ''%''))
              \<and> (case delivery of None \<Rightarrow> True | Some b \<Rightarrow> sto_delivery_enabled s = b)) (stores d))))), d))"

definition nearby_stores ::
  "(point \<Rightarrow> point \<Rightarrow> rat) \<Rightarrow> timestamp \<Rightarrow> rat \<Rightarrow> rat \<Rightarrow> rat \<Rightarrow> bool option \<Rightarrow>
     ((store_read \<times> rat) list, 'm) platform_handler" where
  "nearby_stores distance_km now lat lng radius_km delivery d =
     (if \<not> valid_coordinates lat lng \<or> \<not> (0 < radius_km \<and> radius_km \<le> 100) then raise_http 422 ''query'' d
      else (Inr (sort_key snd (List.map_filter (\<lambda>s.
              if public_store d s \<and> (case delivery of None \<Rightarrow> True | Some b \<Rightarrow> sto_delivery_enabled s = b)
              then (case located (sto_latitude s) (sto_longitude s) of
                      None \<Rightarrow> None
                    | Some p \<Rightarrow>
                        if distance_km (lat, lng) p \<le> radius_km
                        then Some (store_read_of now d s, py_round 2 (distance_km (lat, lng) p)) else None)
              else None) (stores d))), d))"

definition my_stores :: "timestamp \<Rightarrow> user \<Rightarrow> (store_read list, 'm) platform_handler" where
  "my_stores now u d =
     attempt (require_roles [MERCHANT, ADMIN] u) d (\<lambda>_.
     attempt (if usr_role u = ADMIN then ensure_capability u MERCHANT_READ else Inr u) d (\<lambda>_.
     case merchant_of_owner d (usr_id u) of
       None \<Rightarrow> (Inr [], d)
     | Some m \<Rightarrow>
         (Inr (map (store_read_of now d) (rev (filter (\<lambda>s. sto_merchant_id s = mer_id m) (stores d)))), d)))"

definition public_store_row :: "'m database_scheme \<Rightarrow> uuid \<Rightarrow> store option" where
  "public_store_row d sid = find (\<lambda>s. public_store d s \<and> sto_id s = sid) (stores d)"

definition get_store_public :: "timestamp \<Rightarrow> uuid \<Rightarrow> (store_read, 'm) platform_handler" where
  "get_store_public now sid d =
     (case public_store_row d sid of
        None \<Rightarrow> raise_http 404 ''Store not found'' d
      | Some s \<Rightarrow> (Inr (store_read_of now d s), d))"

section \<open>Merchants\<close>

definition flush_merchant :: "merchant \<Rightarrow> 'm database_scheme \<Rightarrow> 'm database_scheme" where
  "flush_merchant m d = d\<lparr>merchants := put_row mer_id m (merchants d)\<rparr>"

definition apply_as_merchant :: "user \<Rightarrow> string \<Rightarrow> string option \<Rightarrow> (merchant, 'm) handler" where
  "apply_as_merchant u business_name gstin d =
     (if \<not> (2 \<le> length business_name \<and> length business_name \<le> 160) then raise_http 422 ''business_name'' d
      else case merchant_of_owner d (usr_id u) of
        Some _ \<Rightarrow> raise_http 409 ''Merchant profile already exists'' d
      | None \<Rightarrow>
          let i = fresh_id (map mer_id (merchants d)) d;
              m = \<lparr>mer_id = i, mer_owner_user_id = usr_id u, mer_business_name = business_name,
                   mer_status = MERCHANT_PENDING, mer_gstin = gstin\<rparr>
          in refresh get_merchant i
               (flush_user (u\<lparr>usr_role := MERCHANT\<rparr>)
                  (d\<lparr>merchants := merchants d @ [m], db_next_id := Suc i\<rparr>)))"

definition list_merchants :: "merchant_status option \<Rightarrow> user \<Rightarrow> (merchant list, 'm) handler" where
  "list_merchants status_filter admin d =
     attempt (require_capability MERCHANT_READ admin) d (\<lambda>_.
     (Inr (rev (filter (\<lambda>m. case status_filter of None \<Rightarrow> True | Some s \<Rightarrow> mer_status m = s) (merchants d))), d))"

definition get_my_merchant :: "user \<Rightarrow> (merchant, 'm) handler" where
  "get_my_merchant u d =
     attempt (require_roles [MERCHANT, ADMIN] u) d (\<lambda>_.
     attempt (if usr_role u = ADMIN then ensure_capability u MERCHANT_READ else Inr u) d (\<lambda>_.
     case merchant_of_owner d (usr_id u) of
       None \<Rightarrow> raise_http 404 ''Merchant profile not found'' d
     | Some m \<Rightarrow> (Inr m, d)))"

fun merchant_status_value :: "merchant_status \<Rightarrow> string" where
  "merchant_status_value MERCHANT_PENDING = ''pending''"
| "merchant_status_value APPROVED = ''approved''"
| "merchant_status_value SUSPENDED = ''suspended''"

definition set_merchant_status ::
  "string \<Rightarrow> user \<Rightarrow> merchant \<Rightarrow> merchant_status \<Rightarrow> string \<Rightarrow> string \<Rightarrow> 'm database_scheme \<Rightarrow> 'm database_scheme res" where
  "set_merchant_status req_id admin m target action why d =
     record_admin_action req_id admin action MERCHANT_MANAGE ''merchant'' (mer_id m)
       [(''status'', JStr (merchant_status_value (mer_status m)))]
       [(''status'', JStr (merchant_status_value target))] (Some why)
       (flush_merchant (m\<lparr>mer_status := target\<rparr>) d)"

definition approve_merchant :: "string \<Rightarrow> user \<Rightarrow> uuid \<Rightarrow> (merchant, 'm) handler" where
  "approve_merchant req_id admin mid d =
     attempt (require_capability MERCHANT_MANAGE admin) d (\<lambda>_.
     case get_merchant d mid of
       None \<Rightarrow> raise_http 404 ''Merchant not found'' d
     | Some m \<Rightarrow>
         attempt (set_merchant_status req_id admin m APPROVED ''merchant.approved''
             ''merchant_onboarding_approval'' d) d (\<lambda>d1. refresh get_merchant mid d1))"

definition update_merchant_status ::
  "string \<Rightarrow> user \<Rightarrow> uuid \<Rightarrow> merchant_status \<Rightarrow> (merchant, 'm) handler" where
  "update_merchant_status req_id admin mid target d =
     attempt (require_capability MERCHANT_MANAGE admin) d (\<lambda>_.
     case get_merchant d mid of
       None \<Rightarrow> raise_http 404 ''Merchant not found'' d
     | Some m \<Rightarrow>
         attempt (set_merchant_status req_id admin m target ''merchant.status_updated''
             ''merchant_operational_status_change'' d) d (\<lambda>d1. refresh get_merchant mid d1))"

section \<open>Stores\<close>

record store_create =
  stc_village_id :: uuid
  stc_service_area_id :: "uuid option"
  stc_name :: string
  stc_slug :: string
  stc_description :: "string option"
  stc_phone :: "string option"
  stc_landmark :: "string option"
  stc_latitude :: "rat option"
  stc_longitude :: "rat option"
  stc_opens_at :: "int option"
  stc_closes_at :: "int option"
  stc_delivery_enabled :: bool
  stc_pickup_enabled :: bool

definition new_store :: "uuid \<Rightarrow> uuid \<Rightarrow> store_create \<Rightarrow> store" where
  "new_store i mid c =
     \<lparr>sto_id = i, sto_merchant_id = mid, sto_village_id = stc_village_id c,
      sto_service_area_id = stc_service_area_id c, sto_name = stc_name c, sto_slug = stc_slug c,
      sto_description = stc_description c, sto_phone = stc_phone c, sto_landmark = stc_landmark c,
      sto_latitude = stc_latitude c, sto_longitude = stc_longitude c, sto_opens_at = stc_opens_at c,
      sto_closes_at = stc_closes_at c, sto_delivery_enabled = stc_delivery_enabled c,
      sto_pickup_enabled = stc_pickup_enabled c, sto_is_active = True\<rparr>"

text \<open>A store may only join an active area that covers its pinned location.\<close>

definition area_guard :: "gis \<Rightarrow> 'm database_scheme \<Rightarrow> store_create \<Rightarrow> unit res" where
  "area_guard g d c =
     (case stc_service_area_id c of
        None \<Rightarrow> Inr ()
      | Some aid \<Rightarrow>
          (case get_service_area d aid of
             None \<Rightarrow> Inl (HTTPException 404 ''Service area not found'')
           | Some a \<Rightarrow>
               if \<not> sva_is_active a then Inl (HTTPException 409 ''Service area is not active'')
               else (case located (stc_latitude c) (stc_longitude c) of
                   None \<Rightarrow> Inl (HTTPException 422 ''Pin the storefront location before assigning a service area'')
                 | Some p \<Rightarrow>
                     if \<not> point_is_in_service_area g d aid p
                     then Inl (HTTPException 422 ''The storefront location is outside the selected service area'')
                     else Inr ())))"

definition store_create_guards :: "gis \<Rightarrow> user \<Rightarrow> store_create \<Rightarrow> 'm database_scheme \<Rightarrow> merchant res" where
  "store_create_guards g u c d =
     (case merchant_of_owner d (usr_id u) of
        None \<Rightarrow> Inl (HTTPException 404 ''Merchant profile not found'')
      | Some m \<Rightarrow>
          if mer_status m \<noteq> APPROVED then Inl (HTTPException 403 ''Merchant approval required'')
          else if get_village d (stc_village_id c) = None then Inl (HTTPException 404 ''Village not found'')
          else res_bind (area_guard g d c) (\<lambda>_.
            if \<exists>s \<in> set (stores d). sto_slug s = stc_slug c
            then Inl (HTTPException 409 ''Store slug already exists'') else Inr m))"

definition create_store ::
  "gis \<Rightarrow> (dict \<Rightarrow> string) \<Rightarrow> timestamp \<Rightarrow> string \<Rightarrow> user \<Rightarrow> store_create \<Rightarrow> (store_read, 'm) platform_handler" where
  "create_store g digest now req_id u c d =
     attempt (require_roles [MERCHANT, ADMIN] u) d (\<lambda>_.
     attempt (if usr_role u = ADMIN then ensure_capability u CATALOG_MANAGE else Inr u) d (\<lambda>_.
     attempt (store_create_guards g u c d) d (\<lambda>m.
     let i = fresh_id (map sto_id (stores d)) d;
         s = new_store i (mer_id m) c;
         d1 = d\<lparr>stores := stores d @ [s], db_next_id := Suc i\<rparr>;
         d2 = snd (create_banner_job digest now s ''store_created'' (''store-created:'' @ show_nat i) d1)
     in attempt (if usr_role u = ADMIN then
            record_admin_action req_id u ''store.created'' CATALOG_MANAGE ''store'' i []
              [(''merchant_id'', JId (mer_id m)), (''is_active'', JBool True)]
              (Some ''administrator_catalog_operations'') d2
          else Inr d2) d (\<lambda>d3.
        (Inr (store_read_of now d3 s), d3)))))"

record store_update =
  stu_name :: "string option option"
  stu_description :: "string option option"
  stu_phone :: "string option option"
  stu_landmark :: "string option option"
  stu_latitude :: "rat option option"
  stu_longitude :: "rat option option"
  stu_opens_at :: "int option option"
  stu_closes_at :: "int option option"
  stu_delivery_enabled :: "bool option option"
  stu_pickup_enabled :: "bool option option"
  stu_is_active :: "bool option option"

text \<open>A null in a \<open>NOT NULL\<close> column fails when the row is flushed.\<close>

definition null_violation :: exn where
  "null_violation = RuntimeError ''IntegrityError: null value in column''"

definition required_field :: "'a option option \<Rightarrow> 'a \<Rightarrow> 'a res" where
  "required_field sent old = (case sent of None \<Rightarrow> Inr old | Some None \<Rightarrow> Inl null_violation | Some (Some v) \<Rightarrow> Inr v)"

definition nullable_field :: "'a option option \<Rightarrow> 'a option \<Rightarrow> 'a option" where
  "nullable_field sent old = (case sent of None \<Rightarrow> old | Some v \<Rightarrow> v)"

definition updated_store :: "store_update \<Rightarrow> store \<Rightarrow> store res" where
  "updated_store p s =
     res_bind (required_field (stu_name p) (sto_name s)) (\<lambda>name.
     res_bind (required_field (stu_delivery_enabled p) (sto_delivery_enabled s)) (\<lambda>delivery.
     res_bind (required_field (stu_pickup_enabled p) (sto_pickup_enabled s)) (\<lambda>pickup.
     res_bind (required_field (stu_is_active p) (sto_is_active s)) (\<lambda>active.
     Inr (s\<lparr>sto_name := name, sto_description := nullable_field (stu_description p) (sto_description s),
       sto_phone := nullable_field (stu_phone p) (sto_phone s),
       sto_landmark := nullable_field (stu_landmark p) (sto_landmark s),
       sto_latitude := nullable_field (stu_latitude p) (sto_latitude s),
       sto_longitude := nullable_field (stu_longitude p) (sto_longitude s),
       sto_opens_at := nullable_field (stu_opens_at p) (sto_opens_at s),
       sto_closes_at := nullable_field (stu_closes_at p) (sto_closes_at s),
       sto_delivery_enabled := delivery, sto_pickup_enabled := pickup, sto_is_active := active\<rparr>)))))"

text \<open>
  Moving a store that has a service area: it keeps a pin, and (after the flush that the lookup
  triggers) the pin is inside the area.
\<close>

definition relocated :: "store_update \<Rightarrow> store \<Rightarrow> bool" where
  "relocated p s \<longleftrightarrow> (stu_latitude p \<noteq> None \<or> stu_longitude p \<noteq> None) \<and> sto_service_area_id s \<noteq> None"

definition pin_guard :: "store_update \<Rightarrow> store \<Rightarrow> unit res" where
  "pin_guard p s =
     (if relocated p s \<and> located (nullable_field (stu_latitude p) (sto_latitude s))
             (nullable_field (stu_longitude p) (sto_longitude s)) = None
      then Inl (HTTPException 422 ''A store with a service area must keep a pinned location'') else Inr ())"

definition relocation_guard :: "gis \<Rightarrow> 'm database_scheme \<Rightarrow> store_update \<Rightarrow> store \<Rightarrow> unit res" where
  "relocation_guard g d p s =
     (case (if relocated p s then located (sto_latitude s) (sto_longitude s) else None) of
        None \<Rightarrow> Inr ()
      | Some q \<Rightarrow>
          if \<not> point_is_in_service_area g d (the (sto_service_area_id s)) q
          then Inl (HTTPException 422 (''The new storefront location is outside this store'' @ [CHR 0x27]
                 @ ''s service area''))
          else Inr ())"

definition flush_store :: "store \<Rightarrow> 'm database_scheme \<Rightarrow> 'm database_scheme" where
  "flush_store s d = d\<lparr>stores := put_row sto_id s (stores d)\<rparr>"

definition store_audit :: "store_update \<Rightarrow> store \<Rightarrow> dict" where
  "store_audit p s =
     concat [if stu_name p = None then [] else [(''name'', JStr (sto_name s))],
       if stu_is_active p = None then [] else [(''is_active'', JBool (sto_is_active s))],
       if stu_delivery_enabled p = None then [] else [(''delivery_enabled'', JBool (sto_delivery_enabled s))],
       if stu_pickup_enabled p = None then [] else [(''pickup_enabled'', JBool (sto_pickup_enabled s))]]"

definition update_store ::
  "gis \<Rightarrow> timestamp \<Rightarrow> string \<Rightarrow> user \<Rightarrow> uuid \<Rightarrow> store_update \<Rightarrow> (store_read, 'm) platform_handler" where
  "update_store g now req_id u sid p d =
     attempt (require_roles [MERCHANT, ADMIN] u) d (\<lambda>_.
     case get_store d sid of
       None \<Rightarrow> raise_http 404 ''Store not found'' d
     | Some s \<Rightarrow>
         attempt (require_store_owner d s u CATALOG_MANAGE) d (\<lambda>m.
         if usr_role u \<noteq> ADMIN \<and> (case m of None \<Rightarrow> False | Some m1 \<Rightarrow> mer_status m1 \<noteq> APPROVED)
         then raise_http 403 ''Merchant is not active'' d
         else
           attempt (pin_guard p s) d (\<lambda>_.
           attempt (updated_store p s) d (\<lambda>s1.
           attempt (relocation_guard g d p s1) d (\<lambda>_.
           attempt (if usr_role u = ADMIN then
               record_admin_action req_id u ''store.updated'' CATALOG_MANAGE ''store'' (sto_id s)
                 (store_audit p s) (store_audit p s1) (Some ''administrator_catalog_operations'') (flush_store s1 d)
             else Inr (flush_store s1 d)) d (\<lambda>d1.
           (Inr (store_read_of now d1 s1), d1)))))))"

section \<open>Categories and products\<close>

definition create_category :: "string \<Rightarrow> user \<Rightarrow> string \<Rightarrow> string \<Rightarrow> (category, 'm) handler" where
  "create_category req_id admin name slug d =
     attempt (require_capability CATALOG_MANAGE admin) d (\<lambda>_.
     if \<exists>c \<in> set (categories d). cat_name c = name \<or> cat_slug c = slug
     then raise_http 409 ''Category already exists'' d
     else
       let i = fresh_id (map cat_id (categories d)) d;
           c = \<lparr>cat_id = i, cat_name = name, cat_slug = slug, cat_is_active = True\<rparr>
       in attempt (record_admin_action req_id admin ''catalog.category_created'' CATALOG_MANAGE ''category'' i []
              [(''name'', JStr name), (''slug'', JStr slug), (''is_active'', JBool True)]
              (Some ''catalog_administration'')
              (d\<lparr>categories := categories d @ [c], db_next_id := Suc i\<rparr>)) d (\<lambda>d1.
          refresh get_category i d1))"

definition list_categories :: "(category list, 'm) handler" where
  "list_categories d = (Inr (sort_key cat_name (filter cat_is_active (categories d))), d)"

record product_create =
  prc_category_id :: uuid
  prc_name :: string
  prc_description :: "string option"
  prc_brand :: "string option"
  prc_unit :: string
  prc_image_url :: "string option"

definition create_product :: "string \<Rightarrow> user \<Rightarrow> product_create \<Rightarrow> (product, 'm) handler" where
  "create_product req_id admin p d =
     attempt (require_capability CATALOG_MANAGE admin) d (\<lambda>_.
     if get_category d (prc_category_id p) = None then raise_http 404 ''Category not found'' d
     else
       let i = fresh_id (map pro_id (products d)) d;
           row = \<lparr>pro_id = i, pro_category_id = prc_category_id p, pro_name = prc_name p,
                  pro_description = prc_description p, pro_brand = prc_brand p, pro_unit = prc_unit p,
                  pro_image_url = prc_image_url p, pro_is_active = True\<rparr>
       in attempt (record_admin_action req_id admin ''catalog.product_created'' CATALOG_MANAGE ''product'' i []
              [(''name'', JStr (prc_name p)), (''category_id'', JId (prc_category_id p)), (''is_active'', JBool True)]
              (Some ''catalog_administration'')
              (d\<lparr>products := products d @ [row], db_next_id := Suc i\<rparr>)) d (\<lambda>d1.
          refresh get_product i d1))"

definition list_products ::
  "(string \<Rightarrow> string \<Rightarrow> bool) \<Rightarrow> uuid option \<Rightarrow> string option \<Rightarrow> int \<Rightarrow> int \<Rightarrow> (product list, 'm) handler" where
  "list_products ilike category q limit offset d =
     (if \<not> valid_page 200 limit offset \<or> q = Some [] then raise_http 422 ''query'' d
      else (Inr (page limit offset (sort_key pro_name (filter (\<lambda>p. pro_is_active p
              \<and> (case category of None \<Rightarrow> True | Some c \<Rightarrow> pro_category_id p = c)
              \<and> (case q of None \<Rightarrow> True | Some t \<Rightarrow> ilike (pro_name p) (''%'' @ t @ ''%''))) (products d)))), d))"

section \<open>Listings\<close>

text \<open>\<open>re.sub(r"[^a-z0-9]+", "-", s).strip("-")\<close>.\<close>

definition slug_char :: "char \<Rightarrow> bool" where
  "slug_char c \<longleftrightarrow> (let n = (of_char c :: nat) in 97 \<le> n \<and> n \<le> 122 \<or> 48 \<le> n \<and> n \<le> 57)"

fun dash_runs :: "bool \<Rightarrow> string \<Rightarrow> string" where
  "dash_runs in_run [] = []"
| "dash_runs in_run (c # s) =
     (if slug_char c then c # dash_runs False s
      else if in_run then dash_runs True s else CHR ''-'' # dash_runs True s)"

definition strip_dashes :: "string \<Rightarrow> string" where
  "strip_dashes s = rev (dropWhile (\<lambda>c. c = CHR ''-'') (rev (dropWhile (\<lambda>c. c = CHR ''-'') s)))"

definition category_slug :: "string \<Rightarrow> string" where
  "category_slug folded = strip_dashes (dash_runs False folded)"

record listing_create =
  lcr_name :: string
  lcr_category_name :: string
  lcr_unit :: string
  lcr_description :: "string option"
  lcr_brand :: "string option"
  lcr_price :: decimal
  lcr_mrp :: "decimal option"
  lcr_stock_quantity :: int

definition valid_listing_create :: "listing_create \<Rightarrow> bool" where
  "valid_listing_create p \<longleftrightarrow> 2 \<le> length (lcr_name p) \<and> length (lcr_name p) \<le> 180
     \<and> 2 \<le> length (lcr_category_name p) \<and> length (lcr_category_name p) \<le> 100
     \<and> 1 \<le> length (lcr_unit p) \<and> length (lcr_unit p) \<le> 40 \<and> positive (lcr_price p)
     \<and> (case lcr_mrp p of None \<Rightarrow> True | Some m \<Rightarrow> positive m) \<and> 0 \<le> lcr_stock_quantity p"

text \<open>The category of the slug: existing and active, or created on the spot.\<close>

definition category_for_slug ::
  "string \<Rightarrow> string \<Rightarrow> 'm database_scheme \<Rightarrow> (category \<times> 'm database_scheme) res" where
  "category_for_slug name slug d =
     (case find (\<lambda>c. cat_slug c = slug) (categories d) of
        Some c \<Rightarrow>
          if \<not> cat_is_active c then Inl (HTTPException 422 ''This category is unavailable'') else Inr (c, d)
      | None \<Rightarrow>
          if \<exists>c \<in> set (categories d). cat_name c = name
          then Inl (RuntimeError ''IntegrityError: duplicate category name'')
          else
            let i = fresh_id (map cat_id (categories d)) d;
                c = \<lparr>cat_id = i, cat_name = name, cat_slug = slug, cat_is_active = True\<rparr>
            in Inr (c, d\<lparr>categories := categories d @ [c], db_next_id := Suc i\<rparr>))"

definition same_named_listing ::
  "(string \<Rightarrow> string \<Rightarrow> bool) \<Rightarrow> 'm database_scheme \<Rightarrow> uuid \<Rightarrow> uuid \<Rightarrow> string \<Rightarrow> string \<Rightarrow> bool" where
  "same_named_listing ilike d sid cid unit name \<longleftrightarrow>
     (\<exists>l \<in> set (store_products d). lst_store_id l = sid \<and>
        (case get_product d (lst_product_id l) of
           None \<Rightarrow> False
         | Some p \<Rightarrow> pro_category_id p = cid \<and> pro_unit p = unit \<and> ilike (pro_name p) name))"

definition insert_listing ::
  "uuid \<Rightarrow> uuid \<Rightarrow> money \<Rightarrow> money option \<Rightarrow> int \<Rightarrow> bool \<Rightarrow> 'm database_scheme \<Rightarrow> uuid \<times> 'm database_scheme" where
  "insert_listing sid pid price mrp stock available d =
     (let i = fresh_id (map lst_id (store_products d)) d
      in (i, d\<lparr>store_products := store_products d @
            [\<lparr>lst_id = i, lst_store_id = sid, lst_product_id = pid, lst_price = price, lst_mrp = mrp,
              lst_stock_quantity = stock, lst_is_available = available\<rparr>], db_next_id := Suc i\<rparr>))"

definition custom_listing_tx ::
  "(string \<Rightarrow> string \<Rightarrow> bool) \<Rightarrow> (string \<Rightarrow> string) \<Rightarrow> store \<Rightarrow> listing_create \<Rightarrow> 'm database_scheme \<Rightarrow>
     (uuid \<times> 'm database_scheme) res" where
  "custom_listing_tx ilike casefold s p d =
     (let name = strip (lcr_name p); category_name = strip (lcr_category_name p); unit = strip (lcr_unit p);
          slug = category_slug (casefold category_name)
      in if name = [] \<or> category_name = [] \<or> unit = []
         then Inl (HTTPException 422 ''Name, category and unit are required'')
         else if (case lcr_mrp p of None \<Rightarrow> False | Some m \<Rightarrow> dec_value m < dec_value (lcr_price p))
         then Inl (HTTPException 422 ''MRP must not be below selling price'')
         else if slug = [] then Inl (HTTPException 422 ''Category must contain Latin letters or digits'')
         else res_bind (category_for_slug category_name slug d) (\<lambda>(c, d1).
           if same_named_listing ilike d1 (sto_id s) (cat_id c) unit name
           then Inl (HTTPException 409 (''This product is already listed in your store; ''
                  @ ''update its inventory instead''))
           else res_bind (numeric_column (lcr_price p)) (\<lambda>price.
             res_bind (optional_column (lcr_mrp p)) (\<lambda>mrp.
             let i = fresh_id (map pro_id (products d1)) d1;
                 row = \<lparr>pro_id = i, pro_category_id = cat_id c, pro_name = name,
                        pro_description = map_option strip (text_or_none (lcr_description p)),
                        pro_brand = map_option strip (text_or_none (lcr_brand p)), pro_unit = unit,
                        pro_image_url = None, pro_is_active = True\<rparr>
             in Inr (insert_listing (sto_id s) i price mrp (lcr_stock_quantity p) (0 < lcr_stock_quantity p)
                  (d1\<lparr>products := products d1 @ [row], db_next_id := Suc i\<rparr>))))))"

definition create_merchant_product_listing ::
  "(string \<Rightarrow> string \<Rightarrow> bool) \<Rightarrow> (string \<Rightarrow> string) \<Rightarrow> user \<Rightarrow> uuid \<Rightarrow> listing_create \<Rightarrow>
     (store_product, 'm) handler" where
  "create_merchant_product_listing ilike casefold u sid p d =
     attempt (require_roles [MERCHANT, ADMIN] u) d (\<lambda>_.
     if \<not> valid_listing_create p then raise_http 422 ''body'' d
     else case get_store d sid of
       None \<Rightarrow> raise_http 404 ''Store not found'' d
     | Some s \<Rightarrow>
         attempt (require_store_owner d s u CATALOG_MANAGE) d (\<lambda>m.
         if (case m of None \<Rightarrow> True | Some m1 \<Rightarrow> mer_status m1 \<noteq> APPROVED)
         then raise_http 403 ''Merchant is not approved'' d
         else attempt (custom_listing_tx ilike casefold s p d) d (\<lambda>(i, d1).
              refresh get_listing i d1)))"

record store_product_create =
  spc_product_id :: uuid
  spc_price :: decimal
  spc_mrp :: "decimal option"
  spc_stock_quantity :: int
  spc_is_available :: bool

definition valid_store_product_create :: "store_product_create \<Rightarrow> bool" where
  "valid_store_product_create p \<longleftrightarrow> positive (spc_price p)
     \<and> (case spc_mrp p of None \<Rightarrow> True | Some m \<Rightarrow> positive m) \<and> 0 \<le> spc_stock_quantity p"

definition listing_state :: "store_product \<Rightarrow> dict" where
  "listing_state l = [(''price'', JMoney (lst_price l)), (''stock_quantity'', JInt (lst_stock_quantity l)),
     (''is_available'', JBool (lst_is_available l))]"

text \<open>The listing of the store's product: overwritten, or inserted.\<close>

definition upsert_listing ::
  "uuid \<Rightarrow> store_product_create \<Rightarrow> 'm database_scheme \<Rightarrow> (uuid \<times> 'm database_scheme) res" where
  "upsert_listing sid p d =
     res_bind (numeric_column (spc_price p)) (\<lambda>price.
     res_bind (optional_column (spc_mrp p)) (\<lambda>mrp.
     Inr (case listing_of_product d sid (spc_product_id p) of
         Some l \<Rightarrow>
           (lst_id l, flush_listing (l\<lparr>lst_price := price, lst_mrp := mrp,
              lst_stock_quantity := spc_stock_quantity p, lst_is_available := spc_is_available p\<rparr>) d)
       | None \<Rightarrow>
           insert_listing sid (spc_product_id p) price mrp (spc_stock_quantity p) (spc_is_available p) d)))"

definition active_merchant_guard :: "user \<Rightarrow> merchant option \<Rightarrow> unit res" where
  "active_merchant_guard u m =
     (if usr_role u \<noteq> ADMIN \<and> (case m of None \<Rightarrow> True | Some m1 \<Rightarrow> mer_status m1 \<noteq> APPROVED)
      then Inl (HTTPException 403 ''Merchant is not active'') else Inr ())"

definition audit_listing ::
  "string \<Rightarrow> user \<Rightarrow> string \<Rightarrow> uuid \<Rightarrow> dict \<Rightarrow> dict \<Rightarrow> 'm database_scheme \<Rightarrow> 'm database_scheme res" where
  "audit_listing req_id u action i previous resulting d =
     (if usr_role u = ADMIN
      then record_admin_action req_id u action CATALOG_MANAGE ''store_product'' i previous resulting
             (Some ''administrator_catalog_operations'') d
      else Inr d)"

definition listing_dict :: "uuid \<Rightarrow> 'm database_scheme \<Rightarrow> dict" where
  "listing_dict i d = (case get_listing d i of None \<Rightarrow> [] | Some l \<Rightarrow> listing_state l)"

definition upsert_store_product ::
  "string \<Rightarrow> user \<Rightarrow> uuid \<Rightarrow> store_product_create \<Rightarrow> (store_product, 'm) handler" where
  "upsert_store_product req_id u sid p d =
     attempt (require_roles [MERCHANT, ADMIN] u) d (\<lambda>_.
     if \<not> valid_store_product_create p then raise_http 422 ''body'' d
     else case get_store d sid of
       None \<Rightarrow> raise_http 404 ''Store not found'' d
     | Some s \<Rightarrow>
         attempt (require_store_owner d s u CATALOG_MANAGE) d (\<lambda>m.
         attempt (active_merchant_guard u m) d (\<lambda>_.
         if get_product d (spc_product_id p) = None then raise_http 404 ''Product not found'' d
         else
           attempt (upsert_listing sid p d) d (\<lambda>(i, d1).
           attempt (audit_listing req_id u ''store_product.upserted'' i
               (case listing_of_product d sid (spc_product_id p) of None \<Rightarrow> [] | Some l \<Rightarrow> listing_state l)
               (listing_dict i d1) d1) d (\<lambda>d2.
           refresh get_listing i d2)))))"

record store_product_update =
  spu_price :: "decimal option option"
  spu_mrp :: "decimal option option"
  spu_stock_quantity :: "int option option"
  spu_is_available :: "bool option option"

definition valid_store_product_update :: "store_product_update \<Rightarrow> bool" where
  "valid_store_product_update p \<longleftrightarrow>
     (case spu_price p of Some (Some x) \<Rightarrow> positive x | _ \<Rightarrow> True)
     \<and> (case spu_mrp p of Some (Some x) \<Rightarrow> positive x | _ \<Rightarrow> True)
     \<and> (case spu_stock_quantity p of Some (Some q) \<Rightarrow> 0 \<le> q | _ \<Rightarrow> True)"

definition updated_listing :: "store_product_update \<Rightarrow> store_product \<Rightarrow> store_product res" where
  "updated_listing p l =
     res_bind (case spu_price p of None \<Rightarrow> Inr (lst_price l) | Some None \<Rightarrow> Inl null_violation
               | Some (Some x) \<Rightarrow> numeric_column x) (\<lambda>price.
     res_bind (case spu_mrp p of None \<Rightarrow> Inr (lst_mrp l) | Some x \<Rightarrow> optional_column x) (\<lambda>mrp.
     res_bind (required_field (spu_stock_quantity p) (lst_stock_quantity l)) (\<lambda>stock.
     res_bind (required_field (spu_is_available p) (lst_is_available l)) (\<lambda>available.
     Inr (l\<lparr>lst_price := price, lst_mrp := mrp, lst_stock_quantity := stock, lst_is_available := available\<rparr>)))))"

definition listing_audit :: "store_product_update \<Rightarrow> store_product \<Rightarrow> dict" where
  "listing_audit p l =
     concat [if spu_price p = None then [] else [(''price'', JMoney (lst_price l))],
       if spu_mrp p = None then [] else [(''mrp'', case lst_mrp l of None \<Rightarrow> JNull | Some m \<Rightarrow> JMoney m)],
       if spu_stock_quantity p = None then [] else [(''stock_quantity'', JInt (lst_stock_quantity l))],
       if spu_is_available p = None then [] else [(''is_available'', JBool (lst_is_available l))]]"

definition update_store_product ::
  "string \<Rightarrow> user \<Rightarrow> uuid \<Rightarrow> uuid \<Rightarrow> store_product_update \<Rightarrow> (store_product, 'm) handler" where
  "update_store_product req_id u sid listing_id p d =
     attempt (require_roles [MERCHANT, ADMIN] u) d (\<lambda>_.
     if \<not> valid_store_product_update p then raise_http 422 ''body'' d
     else case get_store d sid of
       None \<Rightarrow> raise_http 404 ''Store not found'' d
     | Some s \<Rightarrow>
         attempt (require_store_owner d s u CATALOG_MANAGE) d (\<lambda>m.
         attempt (active_merchant_guard u m) d (\<lambda>_.
         case find (\<lambda>l. lst_id l = listing_id \<and> lst_store_id l = sid) (store_products d) of
           None \<Rightarrow> raise_http 404 ''Store product not found'' d
         | Some l \<Rightarrow>
             attempt (updated_listing p l) d (\<lambda>l1.
             attempt (audit_listing req_id u ''store_product.updated'' (lst_id l)
                 (listing_audit p l) (listing_audit p l1) (flush_listing l1 d)) d (\<lambda>d1.
             refresh get_listing listing_id d1)))))"

text \<open>Rows are listed with the greatest \<open>updated_at\<close> first; the column is not modelled, so \<open>recent\<close>
  is the order the database returns.\<close>

definition store_inventory ::
  "(store_product list \<Rightarrow> store_product list) \<Rightarrow> int \<Rightarrow> int \<Rightarrow> user \<Rightarrow> uuid \<Rightarrow> (store_product list, 'm) handler" where
  "store_inventory recent limit offset u sid d =
     attempt (require_roles [MERCHANT, ADMIN] u) d (\<lambda>_.
     if \<not> valid_page 500 limit offset then raise_http 422 ''limit'' d
     else case get_store d sid of
       None \<Rightarrow> raise_http 404 ''Store not found'' d
     | Some s \<Rightarrow>
         attempt (require_store_owner d s u MERCHANT_READ) d (\<lambda>_.
         (Inr (page limit offset (recent (filter (\<lambda>l. lst_store_id l = sid) (store_products d)))), d)))"

definition list_store_products ::
  "(store_product list \<Rightarrow> store_product list) \<Rightarrow> int \<Rightarrow> int \<Rightarrow> uuid \<Rightarrow> (store_product list, 'm) handler" where
  "list_store_products recent limit offset sid d =
     (if \<not> valid_page 500 limit offset then raise_http 422 ''limit'' d
      else case public_store_row d sid of
        None \<Rightarrow> raise_http 404 ''Store not found'' d
      | Some s \<Rightarrow>
          (Inr (page limit offset (recent (filter (\<lambda>l. lst_store_id l = sid \<and> lst_is_available l
                  \<and> 0 < lst_stock_quantity l) (store_products d)))), d))"

section \<open>What the operations write\<close>

text \<open>Every operation but the three on listings is quiet.\<close>

lemma fresh_next: "db_next_id d \<le> Suc (fresh_id used d)"
  using fresh_id_new(2) [of d used] by simp

lemma quiet_apply_as_merchant: "quiet d (snd (apply_as_merchant u name gstin d))"
  using fresh_next by (auto simp: apply_as_merchant_def Let_def quiet_def flush_user_def shelf_def split: option.split)

lemma quiet_flush_merchant [simp]: "quiet d (flush_merchant m d)"
  by (simp add: quiet_def flush_merchant_def shelf_def)

lemma quiet_set_merchant_status: "set_merchant_status req_id u m t a why d = Inr d' \<Longrightarrow> quiet d d'"
  unfolding set_merchant_status_def by (erule quiet_admin_trans) simp

lemma quiet_merchant_status:
  "quiet d (snd (approve_merchant req_id u mid d))" "quiet d (snd (update_merchant_status req_id u mid t d))"
  by (auto simp: approve_merchant_def update_merchant_status_def attempt_def split: sum.split option.split
      intro: quiet_set_merchant_status)

lemma quiet_new_rows:
  "db_next_id d \<le> n \<Longrightarrow> quiet d (d\<lparr>stores := ss, db_next_id := n\<rparr>)"
  "db_next_id d \<le> n \<Longrightarrow> quiet d (d\<lparr>categories := cs, db_next_id := n\<rparr>)"
  "db_next_id d \<le> n \<Longrightarrow> quiet d (d\<lparr>products := ps, db_next_id := n\<rparr>)" "quiet d (d\<lparr>stores := ss\<rparr>)"
  by (simp_all add: quiet_def shelf_def)

lemma quiet_create_store: "quiet d (snd (create_store g digest now req_id u c d))"
proof -
  have "quiet d (snd (create_banner_job digest now s t k (d\<lparr>stores := ss, db_next_id := Suc (fresh_id used d)\<rparr>)))"
    for s t k ss used
    by (rule quiet_trans [OF quiet_new_rows(1) [OF fresh_next] quiet_banner_writes(6)])
  then show ?thesis
    by (auto simp: create_store_def attempt_def Let_def split: sum.split intro: quiet_admin_trans)
qed

lemma quiet_update_store: "quiet d (snd (update_store g now req_id u sid p d))"
  by (auto simp: update_store_def attempt_def flush_store_def split: sum.split option.split
      intro: quiet_admin_trans quiet_new_rows)

lemma quiet_create_category: "quiet d (snd (create_category req_id u name slug d))"
  by (auto simp: create_category_def attempt_def Let_def split: sum.split
      intro: quiet_admin_trans [OF _ quiet_new_rows(2) [OF fresh_next]])

lemma quiet_create_product: "quiet d (snd (create_product req_id u p d))"
  by (auto simp: create_product_def attempt_def Let_def split: sum.split
      intro: quiet_admin_trans [OF _ quiet_new_rows(3) [OF fresh_next]])

section \<open>The catalogue's invariant\<close>

text \<open>
  One listing per store and product, of an existing store and product, at a price that is not
  negative; slugs and category names are unique. It reads only what \<open>Surroundings\<close> calls the
  surroundings and the assortment, so the marketplace core keeps it.
\<close>

definition catalogue_ok :: "'m database_scheme \<Rightarrow> bool" where
  "catalogue_ok d \<longleftrightarrow>
     distinct (map (\<lambda>(i, s, p, _). (s, p)) (assortment d))
     \<and> (\<forall>(i, s, p, price, mrp) \<in> set (assortment d).
          s \<in> sto_id ` set (stores d) \<and> p \<in> pro_id ` set (products d) \<and> 0 \<le> price)
     \<and> distinct (map sto_id (stores d)) \<and> distinct (map sto_slug (stores d))
     \<and> distinct (map pro_id (products d))
     \<and> distinct (map cat_name (categories d)) \<and> distinct (map cat_slug (categories d))"

lemma catalogue_ok_rows:
  "catalogue_ok d \<longleftrightarrow>
     distinct (map (\<lambda>l. (lst_store_id l, lst_product_id l)) (store_products d))
     \<and> (\<forall>l \<in> set (store_products d). lst_store_id l \<in> sto_id ` set (stores d)
          \<and> lst_product_id l \<in> pro_id ` set (products d) \<and> 0 \<le> lst_price l)
     \<and> distinct (map sto_id (stores d)) \<and> distinct (map sto_slug (stores d))
     \<and> distinct (map pro_id (products d))
     \<and> distinct (map cat_name (categories d)) \<and> distinct (map cat_slug (categories d))"
  by (simp add: catalogue_ok_def assortment_def listing_key_def comp_def)

lemma catalogue_ok_same:
  "surroundings d' = surroundings d \<Longrightarrow> assortment d' = assortment d \<Longrightarrow> catalogue_ok d' = catalogue_ok d"
  by (simp add: catalogue_ok_def surroundings_def)

text \<open>An operation of the catalogue: the core's other tables as before, both invariants kept.\<close>

definition catalogue_step :: "'m database_scheme \<Rightarrow> 'm database_scheme \<Rightarrow> bool" where
  "catalogue_step d d' \<longleftrightarrow>
     quiet d (d'\<lparr>store_products := store_products d\<rparr>)
     \<and> (shelf_ok d \<and> catalogue_ok d \<longrightarrow> shelf_ok d' \<and> catalogue_ok d')"

lemma catalogue_step_refl [simp]: "catalogue_step d d"
  by (simp add: catalogue_step_def)

lemma catalogue_step_trans: "catalogue_step a b \<Longrightarrow> catalogue_step b c \<Longrightarrow> catalogue_step a c"
  by (auto simp: catalogue_step_def quiet_def shelf_def)

lemma catalogue_step_quiet:
  "quiet d d' \<Longrightarrow> (shelf_ok d \<Longrightarrow> catalogue_ok d \<Longrightarrow> catalogue_ok d') \<Longrightarrow> catalogue_step d d'"
  using shelf_ok_same [of d' d] by (auto simp: catalogue_step_def quiet_def shelf_def)

lemma catalogue_step_same: "same_core d d' \<Longrightarrow> catalogue_step d d'"
  by (rule catalogue_step_quiet [OF quiet_same_core])
    (simp_all add: catalogue_ok_same [OF surroundings_same_core assorted.part_same_core])

lemma catalogue_step_admin:
  "record_admin_action req_id u a c rt ri p r why b = Inr d' \<Longrightarrow> catalogue_step d b \<Longrightarrow> catalogue_step d d'"
  by (rule catalogue_step_trans [OF _ catalogue_step_same [OF same_core_admin]])

lemma catalogue_step_inv:
  assumes "catalogue_step d d'" and inv: "system_inv d" "catalogue_ok d"
  shows "system_inv d' \<and> catalogue_ok d'"
proof -
  have q: "quiet d (d'\<lparr>store_products := store_products d\<rparr>)" and ok: "shelf_ok d'" "catalogue_ok d'"
    using assms by (auto simp: catalogue_step_def system_inv_def)
  have "step_ok d d'" by (rule step_ok_frame) (use q in \<open>simp_all add: quiet_def refund_idents_def\<close>)
  with inv(1) have "all_coherent d'" by (auto simp: system_inv_def intro: step_ok_coherent)
  moreover have "riders_exclusive d'" "proofs_ok d'"
    using q inv(1) by (simp_all add: system_inv_def quiet_def riders_exclusive_def holder_def proofs_ok_def)
  ultimately show ?thesis using ok by (simp add: system_inv_def)
qed

text \<open>The row writes.\<close>

lemma round_half_up_nonneg: "0 < b \<Longrightarrow> 0 \<le> a \<Longrightarrow> 0 \<le> round_div ROUND_HALF_UP a b"
  by (simp add: sgn_if pos_imp_zdiv_nonneg_iff)

lemma numeric_column_nonneg:
  assumes "numeric_column x = Inr p" and "positive x" shows "0 \<le> p"
proof -
  have "0 \<le> coeff (quantize ROUND_HALF_UP 2 x)"
    using assms(2) round_half_up_nonneg [of "10 ^ (scale x - 2)" "coeff x"]
    by (simp add: quantize_def rescale_def positive_def del: round_div.simps)
  with assms(1) show ?thesis by (auto simp: numeric_column_def Let_def split: if_splits)
qed

lemma catalogue_step_category:
  assumes "c \<notin> cat_slug ` set (categories d)" and "n \<notin> cat_name ` set (categories d)" and "db_next_id d \<le> k"
    and "cat_slug row = c" and "cat_name row = n"
  shows "catalogue_step d (d\<lparr>categories := categories d @ [row], db_next_id := k\<rparr>)"
  by (rule catalogue_step_quiet) (use assms in \<open>auto simp: quiet_new_rows catalogue_ok_rows\<close>)

lemma catalogue_step_product:
  assumes "pro_id row \<notin> pro_id ` set (products d)" and "db_next_id d \<le> k"
  shows "catalogue_step d (d\<lparr>products := products d @ [row], db_next_id := k\<rparr>)"
  by (rule catalogue_step_quiet) (use assms in \<open>auto simp: quiet_new_rows catalogue_ok_rows\<close>)

lemma catalogue_step_insert:
  assumes "sid \<in> sto_id ` set (stores d)" and "pid \<in> pro_id ` set (products d)" and "0 \<le> price" and "0 \<le> stock"
    and "\<forall>l \<in> set (store_products d). lst_store_id l = sid \<longrightarrow> lst_product_id l \<noteq> pid"
  shows "catalogue_step d (snd (insert_listing sid pid price mrp stock available d))"
  using assms fresh_id_new(1) [of "map lst_id (store_products d)" d] fresh_next [of d]
  by (auto simp: catalogue_step_def insert_listing_def Let_def quiet_def shelf_def shelf_ok_def catalogue_ok_rows)

lemma catalogue_step_flush:
  assumes "l \<in> set (store_products d)" and "lst_id m = lst_id l" and "lst_store_id m = lst_store_id l"
    and "lst_product_id m = lst_product_id l" and "0 \<le> lst_price m" and "0 \<le> lst_stock_quantity m"
  shows "catalogue_step d (flush_listing m d)"
proof -
  have keys: "map (\<lambda>l. (lst_store_id l, lst_product_id l)) (put_row lst_id m (store_products d)) =
      map (\<lambda>l. (lst_store_id l, lst_product_id l)) (store_products d)" if "shelf_ok d"
    by (rule map_put_row_field) (use that assms in \<open>auto simp: shelf_ok_def distinct_map inj_on_def\<close>)
  have "quiet d ((flush_listing m d)\<lparr>store_products := store_products d\<rparr>)"
    by (simp add: quiet_def shelf_def flush_listing_def)
  moreover have "shelf_ok (flush_listing m d)" if "shelf_ok d"
    using that assms by (auto simp: shelf_ok_def flush_listing_def elim!: in_put_rowE)
  moreover have "catalogue_ok (flush_listing m d)" if "shelf_ok d" "catalogue_ok d"
    using that keys assms by (auto simp: catalogue_ok_rows flush_listing_def elim!: in_put_rowE)
  ultimately show ?thesis by (simp add: catalogue_step_def)
qed

text \<open>The operations.\<close>

lemma catalogue_step_merchants:
  "catalogue_step d (snd (apply_as_merchant u name gstin d))"
  "catalogue_step d (snd (approve_merchant req_id u mid d))"
  "catalogue_step d (snd (update_merchant_status req_id u mid t d))"
proof -
  have flush: "catalogue_step d (flush_merchant m d)" for m and d :: "'a database_scheme"
    by (rule catalogue_step_quiet [OF quiet_flush_merchant]) (simp add: catalogue_ok_rows flush_merchant_def)
  have status: "catalogue_step d d'" if "set_merchant_status req_id u m t a why d = Inr d'"
    for m t a why and d d' :: "'a database_scheme"
    using that unfolding set_merchant_status_def by (rule catalogue_step_admin) (rule flush)
  show "catalogue_step d (snd (apply_as_merchant u name gstin d))"
    by (rule catalogue_step_quiet [OF quiet_apply_as_merchant])
      (simp add: apply_as_merchant_def Let_def flush_user_def catalogue_ok_rows split: option.split)
  show "catalogue_step d (snd (approve_merchant req_id u mid d))"
    "catalogue_step d (snd (update_merchant_status req_id u mid t d))"
    by (auto simp: approve_merchant_def update_merchant_status_def attempt_def split: sum.split option.split
        intro: status)
qed

lemma catalogue_step_create_store: "catalogue_step d (snd (create_store g digest now req_id u c d))"
proof -
  have job: "stores (snd (create_banner_job digest now s t k d)) = stores d"
    "products (snd (create_banner_job digest now s t k d)) = products d"
    "categories (snd (create_banner_job digest now s t k d)) = categories d"
    "store_products (snd (create_banner_job digest now s t k d)) = store_products d"
    for s t k and d :: "'a platform_scheme"
    by (simp_all add: create_banner_job_def Let_def split: option.split)
  have "catalogue_step d (snd (create_banner_job digest now (new_store i (mer_id m) c) t k
      (d\<lparr>stores := stores d @ [new_store i (mer_id m) c], db_next_id := Suc i\<rparr>)))"
    if "i = fresh_id (map sto_id (stores d)) d" "store_create_guards g u c d = Inr m" for i m t k
  proof (rule catalogue_step_quiet)
    show "quiet d (snd (create_banner_job digest now (new_store i (mer_id m) c) t k
        (d\<lparr>stores := stores d @ [new_store i (mer_id m) c], db_next_id := Suc i\<rparr>)))"
      unfolding that(1) by (rule quiet_trans [OF quiet_new_rows(1) [OF fresh_next] quiet_banner_writes(6)])
    have "stc_slug c \<notin> sto_slug ` set (stores d)"
      using that(2) by (auto simp: store_create_guards_def res_bind_Inr split: option.splits if_splits)
    moreover have "i \<notin> sto_id ` set (stores d)"
      using fresh_id_new(1) [of "map sto_id (stores d)" d] that(1) by simp
    moreover assume "catalogue_ok d"
    ultimately show "catalogue_ok (snd (create_banner_job digest now (new_store i (mer_id m) c) t k
        (d\<lparr>stores := stores d @ [new_store i (mer_id m) c], db_next_id := Suc i\<rparr>)))"
      by (auto simp: catalogue_ok_rows job new_store_def)
  qed
  then show ?thesis
    by (auto simp: create_store_def attempt_def Let_def split: sum.split intro: catalogue_step_admin)
qed

lemma updated_storeD:
  "updated_store p s = Inr s1 \<Longrightarrow> sto_id s1 = sto_id s \<and> sto_slug s1 = sto_slug s \<and>
     sto_merchant_id s1 = sto_merchant_id s \<and> sto_service_area_id s1 = sto_service_area_id s"
  by (auto simp: updated_store_def res_bind_Inr)

lemma catalogue_step_update_store: "catalogue_step d (snd (update_store g now req_id u sid p d))"
proof -
  have w: "catalogue_step d (flush_store s1 d)"
    if "updated_store p s = Inr s1" "get_store d sid = Some s" for s s1
  proof (rule catalogue_step_quiet)
    have s1: "sto_id s1 = sto_id s" "sto_slug s1 = sto_slug s" using updated_storeD [OF that(1)] by auto
    have s: "s \<in> set (stores d)" "sto_id s = sid" using that(2) by (auto simp: get_store_def)
    assume ok: "catalogue_ok d"
    have "map sto_slug (put_row sto_id s1 (stores d)) = map sto_slug (stores d)"
      by (rule map_put_row_field) (use s s1 ok in \<open>auto simp: catalogue_ok_rows distinct_map inj_on_def\<close>)
    with ok show "catalogue_ok (flush_store s1 d)"
      by (simp add: catalogue_ok_rows flush_store_def image_put_row)
  qed (simp add: flush_store_def quiet_new_rows)
  show ?thesis
    by (auto simp: update_store_def attempt_def split: sum.split option.split intro: catalogue_step_admin w)
qed

lemma catalogue_step_create_category: "catalogue_step d (snd (create_category req_id u name slug d))"
proof -
  have w: "catalogue_step d (d\<lparr>categories := categories d @
      [\<lparr>cat_id = i, cat_name = name, cat_slug = slug, cat_is_active = True\<rparr>], db_next_id := Suc (fresh_id used d)\<rparr>)"
    if "\<forall>c \<in> set (categories d). cat_name c \<noteq> name \<and> cat_slug c \<noteq> slug" for i used
    by (rule catalogue_step_category [of slug d name]) (use that fresh_next in auto)
  show ?thesis
    by (auto simp: create_category_def attempt_def Let_def split: sum.split intro: catalogue_step_admin [OF _ w])
qed

lemma catalogue_step_create_product: "catalogue_step d (snd (create_product req_id u p d))"
proof -
  have w: "catalogue_step d (d\<lparr>products := products d @ [row], db_next_id := Suc (fresh_id (map pro_id (products d)) d)\<rparr>)"
    if "pro_id row = fresh_id (map pro_id (products d)) d" for row
    using fresh_id_new(1) [of "map pro_id (products d)" d] that
    by (intro catalogue_step_product fresh_next) simp
  show ?thesis
    by (auto simp: create_product_def attempt_def Let_def split: sum.split intro: catalogue_step_admin [OF _ w])
qed

lemma category_for_slug_step:
  assumes "category_for_slug name slug d = Inr (c, d1)"
  shows "catalogue_step d d1" and "stores d1 = stores d" and "products d1 = products d"
    and "store_products d1 = store_products d"
proof -
  have "d1 = d \<or> (\<exists>row. d1 = d\<lparr>categories := categories d @ [row], db_next_id := Suc (fresh_id (map cat_id (categories d)) d)\<rparr>
      \<and> cat_slug row = slug \<and> cat_name row = name
      \<and> slug \<notin> cat_slug ` set (categories d) \<and> name \<notin> cat_name ` set (categories d))"
    using assms by (auto simp: category_for_slug_def Let_def find_None_iff_all split: option.splits if_splits)
  then show "catalogue_step d d1" "stores d1 = stores d" "products d1 = products d"
    "store_products d1 = store_products d"
    by (auto intro: catalogue_step_category fresh_next)
qed

lemma custom_listing_step:
  assumes tx: "custom_listing_tx ilike casefold s p d = Inr (i, d')" and s: "get_store d sid = Some s"
    and v: "valid_listing_create p" and fk: "\<forall>l \<in> set (store_products d). lst_product_id l \<in> pro_id ` set (products d)"
  shows "catalogue_step d d'"
proof -
  obtain c d1 price mrp row where c: "category_for_slug (strip (lcr_category_name p))
        (category_slug (casefold (strip (lcr_category_name p)))) d = Inr (c, d1)"
    and price: "numeric_column (lcr_price p) = Inr price"
    and row: "pro_id row = fresh_id (map pro_id (products d1)) d1"
    and d': "d' = snd (insert_listing (sto_id s) (fresh_id (map pro_id (products d1)) d1) price mrp
      (lcr_stock_quantity p) (0 < lcr_stock_quantity p)
      (d1\<lparr>products := products d1 @ [row], db_next_id := Suc (fresh_id (map pro_id (products d1)) d1)\<rparr>))"
    using tx by (auto simp: custom_listing_tx_def Let_def res_bind_Inr split: if_splits)
      (metis product.select_convs(1) snd_conv)
  let ?i = "fresh_id (map pro_id (products d1)) d1"
  let ?d2 = "d1\<lparr>products := products d1 @ [row], db_next_id := Suc ?i\<rparr>"
  note C = category_for_slug_step [OF c]
  have new: "?i \<notin> pro_id ` set (products d1)" using fresh_id_new(1) [of "map pro_id (products d1)" d1] by simp
  have other: "lst_product_id l \<noteq> ?i" if "l \<in> set (store_products d1)" for l using fk new C(3,4) that by metis
  have "catalogue_step d1 ?d2" using new row by (intro catalogue_step_product fresh_next) simp
  moreover have "catalogue_step ?d2 d'"
    unfolding d'
  proof (rule catalogue_step_insert)
    show "sto_id s \<in> sto_id ` set (stores ?d2)" using s C(2) by (auto simp: get_store_def)
    show "0 \<le> price" "0 \<le> lcr_stock_quantity p"
      using numeric_column_nonneg [OF price] v by (simp_all add: valid_listing_create_def)
  qed (use row other in auto)
  ultimately show ?thesis using C(1) by (blast intro: catalogue_step_trans)
qed

lemma catalogue_step_create_listing:
  assumes "catalogue_ok d"
  shows "catalogue_step d (snd (create_merchant_product_listing ilike casefold u sid p d))"
proof -
  have "\<forall>l \<in> set (store_products d). lst_product_id l \<in> pro_id ` set (products d)"
    using assms by (simp add: catalogue_ok_rows)
  then show ?thesis
    by (auto simp: create_merchant_product_listing_def attempt_def case_prod_beta split: sum.split option.split
        intro: custom_listing_step)
qed

lemma audit_listing_step:
  "audit_listing req_id u action i previous resulting b = Inr d' \<Longrightarrow> catalogue_step d b \<Longrightarrow> catalogue_step d d'"
  by (auto simp: audit_listing_def split: if_splits intro: catalogue_step_admin)

lemma upsert_listing_step:
  assumes tx: "upsert_listing sid p d = Inr (i, d1)" and s: "get_store d sid = Some s"
    and v: "valid_store_product_create p" and pid: "get_product d (spc_product_id p) \<noteq> None"
  shows "catalogue_step d d1"
proof -
  obtain price mrp where price: "numeric_column (spc_price p) = Inr price"
    and r: "(case listing_of_product d sid (spc_product_id p) of
         Some l \<Rightarrow>
           (lst_id l, flush_listing (l\<lparr>lst_price := price, lst_mrp := mrp,
              lst_stock_quantity := spc_stock_quantity p, lst_is_available := spc_is_available p\<rparr>) d)
       | None \<Rightarrow>
           insert_listing sid (spc_product_id p) price mrp (spc_stock_quantity p) (spc_is_available p) d) = (i, d1)"
    using tx by (auto simp: upsert_listing_def res_bind_Inr)
  have nn: "0 \<le> price" "0 \<le> spc_stock_quantity p"
    using numeric_column_nonneg [OF price] v by (simp_all add: valid_store_product_create_def)
  show ?thesis
  proof (cases "listing_of_product d sid (spc_product_id p)")
    case (Some l)
    with r listing_of_productD [OF Some] nn show ?thesis by (auto intro!: catalogue_step_flush)
  next
    case None
    then have d1: "d1 = snd (insert_listing sid (spc_product_id p) price mrp (spc_stock_quantity p)
        (spc_is_available p) d)"
      using r by simp
    show ?thesis
      unfolding d1
    proof (rule catalogue_step_insert)
      show "sid \<in> sto_id ` set (stores d)" using s by (auto simp: get_store_def)
      show "spc_product_id p \<in> pro_id ` set (products d)" using pid by (auto simp: get_product_def get_row_None)
      show "\<forall>l \<in> set (store_products d). lst_store_id l = sid \<longrightarrow> lst_product_id l \<noteq> spc_product_id p"
        using None by (auto simp: listing_of_product_def find_None_iff_all)
    qed (use nn in auto)
  qed
qed

lemma catalogue_step_upsert: "catalogue_step d (snd (upsert_store_product req_id u sid p d))"
  by (auto simp: upsert_store_product_def attempt_def case_prod_beta split: sum.split option.split
      intro: audit_listing_step upsert_listing_step)

lemma updated_listingD:
  assumes "updated_listing p l = Inr l1" and "valid_store_product_update p" and "0 \<le> lst_price l" and "0 \<le> lst_stock_quantity l"
  shows "lst_id l1 = lst_id l \<and> lst_store_id l1 = lst_store_id l \<and> lst_product_id l1 = lst_product_id l
     \<and> 0 \<le> lst_price l1 \<and> 0 \<le> lst_stock_quantity l1"
  using assms
  by (auto simp: updated_listing_def res_bind_Inr required_field_def valid_store_product_update_def
      split: option.splits dest: numeric_column_nonneg)

lemma catalogue_step_update_listing:
  assumes ok: "catalogue_ok d" "shelf_ok d"
  shows "catalogue_step d (snd (update_store_product req_id u sid i p d))"
proof -
  have w: "catalogue_step d (flush_listing l1 d)"
    if "updated_listing p l = Inr l1" "valid_store_product_update p" and l: "l \<in> set (store_products d)" for l l1
  proof -
    have "0 \<le> lst_price l" "0 \<le> lst_stock_quantity l" using ok l by (auto simp: catalogue_ok_rows shelf_ok_def)
    from updated_listingD [OF that(1,2) this] show ?thesis by (intro catalogue_step_flush [OF l]) simp_all
  qed
  show ?thesis
    by (auto simp: update_store_product_def attempt_def split: sum.split option.split
        intro: audit_listing_step w dest: find_Some_in)
qed

section \<open>Who may change a store's listings\<close>

definition may_manage :: "'m database_scheme \<Rightarrow> uuid \<Rightarrow> user \<Rightarrow> bool" where
  "may_manage d sid u \<longleftrightarrow>
     usr_role u = ADMIN \<and> has_capability u CATALOG_MANAGE
     \<or> (\<exists>s m. get_store d sid = Some s \<and> get_merchant d (sto_merchant_id s) = Some m
          \<and> mer_owner_user_id m = usr_id u \<and> mer_status m = APPROVED)"

definition elsewhere :: "uuid \<Rightarrow> 'm database_scheme \<Rightarrow> store_product list" where
  "elsewhere sid d = filter (\<lambda>l. lst_store_id l \<noteq> sid) (store_products d)"

text \<open>A request on the listings of \<open>sid\<close>: refused and changing nothing, or permitted and confined.\<close>

definition confined :: "uuid \<Rightarrow> user \<Rightarrow> 'm database_scheme \<Rightarrow> 'm database_scheme \<Rightarrow> bool" where
  "confined sid u d d' \<longleftrightarrow> d' = d \<or> may_manage d sid u \<and> elsewhere sid d' = elsewhere sid d"

lemma confined_rules:
  "(\<And>x. r = Inr x \<Longrightarrow> confined sid u d (snd (k x))) \<Longrightarrow> confined sid u d (snd (attempt r d k))"
  "confined sid u d (snd (raise_http c t d))"
  "(P \<Longrightarrow> confined sid u d (snd a)) \<Longrightarrow> (\<not> P \<Longrightarrow> confined sid u d (snd b)) \<Longrightarrow> confined sid u d (snd (if P then a else b))"
  "(x = None \<Longrightarrow> confined sid u d (snd a)) \<Longrightarrow> (\<And>y. x = Some y \<Longrightarrow> confined sid u d (snd (f y))) \<Longrightarrow>
     confined sid u d (snd (case x of None \<Rightarrow> a | Some y \<Rightarrow> f y))"
  by (auto simp: confined_def attempt_def split: sum.split option.split)

lemma filter_put_row_other:
  "distinct (map key t) \<Longrightarrow> r0 \<in> set t \<Longrightarrow> key r0 = key r \<Longrightarrow> \<not> P r0 \<Longrightarrow> \<not> P r \<Longrightarrow>
     filter P (put_row key r t) = filter P t"
proof (induction t)
  case (Cons x t)
  show ?case
  proof (cases "key x = key r")
    case True
    with Cons.prems have "x = r0" by (auto simp: image_iff)
    moreover have "key r \<notin> key ` set t" using Cons.prems(1) True by simp
    then have "put_row key r t = t" by (intro put_row_same) (metis imageI)
    ultimately show ?thesis using Cons.prems True by simp
  next
    case False
    with Cons show ?thesis by auto
  qed
qed simp

lemma owner_may_manage:
  assumes "get_store d sid = Some s" and "require_store_owner d s u CATALOG_MANAGE = Inr m"
    and "usr_role u = ADMIN \<or> (\<exists>m1. m = Some m1 \<and> mer_status m1 = APPROVED)"
  shows "may_manage d sid u"
  using assms
  by (auto simp: may_manage_def require_store_owner_def Let_def res_bind_Inr ensure_capability_def
      split: if_splits option.splits)

lemma active_merchant_guard_Inr:
  "active_merchant_guard u m = Inr x \<Longrightarrow> usr_role u = ADMIN \<or> (\<exists>m1. m = Some m1 \<and> mer_status m1 = APPROVED)"
  by (auto simp: active_merchant_guard_def split: if_splits option.splits)

lemma elsewhere_admin: "record_admin_action req_id u a c rt ri p r why d = Inr d' \<Longrightarrow> elsewhere sid d' = elsewhere sid d"
  by (drule same_core_admin) (simp add: elsewhere_def same_core_tables)

lemma elsewhere_audit: "audit_listing req_id u a i p r d = Inr d' \<Longrightarrow> elsewhere sid d' = elsewhere sid d"
  by (auto simp: audit_listing_def split: if_splits dest: elsewhere_admin)

lemma elsewhere_flush:
  "shelf_ok d \<Longrightarrow> l \<in> set (store_products d) \<Longrightarrow> lst_id m = lst_id l \<Longrightarrow> lst_store_id l = sid \<Longrightarrow>
     lst_store_id m = sid \<Longrightarrow> elsewhere sid (flush_listing m d) = elsewhere sid d"
  unfolding elsewhere_def flush_listing_def
  by (simp add: filter_put_row_other [of lst_id _ l] shelf_ok_def)

lemma elsewhere_insert [simp]: "elsewhere sid (snd (insert_listing sid pid price mrp stock a d)) = elsewhere sid d"
  by (simp add: elsewhere_def insert_listing_def Let_def)

lemma confined_refresh:
  "may_manage d sid u \<Longrightarrow> elsewhere sid b = elsewhere sid d \<Longrightarrow> confined sid u d (snd (refresh get i b))"
  by (simp add: confined_def)

lemma upsert_confined:
  assumes ok: "shelf_ok d" shows "confined sid u d (snd (upsert_store_product req_id u sid p d))"
proof -
  have e: "elsewhere sid (snd r) = elsewhere sid d" if "upsert_listing sid p d = Inr r" for r
  proof (cases "listing_of_product d sid (spc_product_id p)")
    case (Some l)
    with that listing_of_productD [OF Some] ok show ?thesis
      by (auto simp: upsert_listing_def res_bind_Inr intro!: elsewhere_flush [of d l])
  next
    case None
    with that show ?thesis by (auto simp: upsert_listing_def res_bind_Inr)
  qed
  show ?thesis
    unfolding upsert_store_product_def case_prod_beta
    by (intro confined_rules confined_refresh, erule (1) owner_may_manage, erule active_merchant_guard_Inr)
      (drule elsewhere_audit [where sid = sid], drule e, simp)
qed

lemma update_confined:
  assumes ok: "shelf_ok d" shows "confined sid u d (snd (update_store_product req_id u sid i p d))"
proof -
  have e: "elsewhere sid (flush_listing l1 d) = elsewhere sid d"
    if "updated_listing p l = Inr l1" "find (\<lambda>l. lst_id l = i \<and> lst_store_id l = sid) (store_products d) = Some l" for l l1
    using that find_Some_in [OF that(2)] ok
    by (intro elsewhere_flush [of d l]) (auto simp: updated_listing_def res_bind_Inr)
  show ?thesis
    unfolding update_store_product_def
    by (intro confined_rules confined_refresh, erule (1) owner_may_manage, erule active_merchant_guard_Inr)
      (drule elsewhere_audit [where sid = sid], drule (1) e, simp)
qed

lemma custom_listing_elsewhere:
  assumes "custom_listing_tx ilike casefold s p d = Inr r"
  shows "elsewhere (sto_id s) (snd r) = elsewhere (sto_id s) d"
proof -
  obtain c d1 where c: "category_for_slug (strip (lcr_category_name p))
      (category_slug (casefold (strip (lcr_category_name p)))) d = Inr (c, d1)"
    and d1: "elsewhere (sto_id s) (snd r) = elsewhere (sto_id s) d1"
    using assms by (auto simp: custom_listing_tx_def Let_def res_bind_Inr split: if_splits)
      (simp add: elsewhere_def insert_listing_def Let_def)
  with category_for_slug_step(4) [OF c] show ?thesis by (simp add: elsewhere_def)
qed

lemma create_listing_confined:
  "confined sid u d (snd (create_merchant_product_listing ilike casefold u sid p d))"
proof -
  have manager: "may_manage d sid u"
    if "get_store d sid = Some s" "require_store_owner d s u CATALOG_MANAGE = Inr m"
      "\<not> (case m of None \<Rightarrow> True | Some m1 \<Rightarrow> mer_status m1 \<noteq> APPROVED)" for s m
    using that by (auto intro!: owner_may_manage split: option.splits)
  have e: "elsewhere sid (snd r) = elsewhere sid d"
    if "get_store d sid = Some s" "custom_listing_tx ilike casefold s p d = Inr r" for s r
    using custom_listing_elsewhere [OF that(2)] that(1) by (auto simp: get_store_def)
  show ?thesis
    unfolding create_merchant_product_listing_def case_prod_beta
    by (intro confined_rules confined_refresh, erule (2) manager) (erule (1) e)
qed

end
