(* ===== verification/Accounts.thy ===== *)
theory Accounts
  imports Rate_Limits Catalogue
begin

text \<open>
  Accounts: \<open>core/phone.py\<close>, \<open>routes/auth.py\<close>, \<open>services/firebase_auth.py\<close>,
  \<open>services/msg91_widget.py\<close>, \<open>routes/admin_onboarding.py\<close> and \<open>routes/users.py\<close>. Signing a
  token, verifying a Firebase token, the widget's HTTP exchange, Redis and SHA-256 are
  parameters. \<open>seen\<close> says whether the first lookup of a login already saw the account; when it
  did not although the row exists, the insert hits the unique constraint. Lemmas: a canonical
  number stays as it is, every operation is quiet, and an account is unique per phone number
  and per provider subject.
\<close>

section \<open>Phone numbers\<close>

text \<open>
  \<open>normalize_indian_phone\<close> on code points. \<open>nd\<close> is the Unicode property Python's \<open>\d\<close> tests
  (decimal digits of every script); \<open>\s\<close> and \<open>str.strip\<close> use the same white space here.
\<close>

definition white :: "nat \<Rightarrow> bool" where
  "white c \<longleftrightarrow> c \<in> {9, 10, 11, 12, 13, 28, 29, 30, 31, 32, 133, 160, 5760, 8232, 8233, 8239, 8287, 12288}
     \<or> 8192 \<le> c \<and> c \<le> 8202"

definition ustrip :: "utext \<Rightarrow> utext" where
  "ustrip t = rev (dropWhile white (rev (dropWhile white t)))"

text \<open>The code points of \<open>()-\<close>, \<open>+\<close>, \<open>9\<close>, \<open>1\<close>, \<open>6\<close>.\<close>

definition phone_noise :: "nat \<Rightarrow> bool" where
  "phone_noise c \<longleftrightarrow> white c \<or> c \<in> {40, 41, 45}"

definition mobile_digits :: "(nat \<Rightarrow> bool) \<Rightarrow> utext \<Rightarrow> bool" where
  "mobile_digits nd ds \<longleftrightarrow> (case ds of [] \<Rightarrow> False | c # cs \<Rightarrow> 54 \<le> c \<and> c \<le> 57 \<and> length cs = 9 \<and> list_all nd cs)"

definition national_digits :: "utext \<Rightarrow> utext" where
  "national_digits t =
     (let digits = filter (\<lambda>c. \<not> phone_noise c) (ustrip t);
          digits = (if take 1 digits = [43] then drop 1 digits else digits)
      in if length digits = 12 \<and> take 2 digits = [57, 49] then drop 2 digits else digits)"

definition normalize_indian_phone :: "(nat \<Rightarrow> bool) \<Rightarrow> utext \<Rightarrow> utext res" where
  "normalize_indian_phone nd t =
     (let digits = national_digits t
      in if mobile_digits nd digits then Inr ([43, 57, 49] @ digits)
         else Inl (ValueError ''Enter a valid 10-digit Indian mobile number''))"

lemma normalize_shape:
  "normalize_indian_phone nd t = Inr p \<Longrightarrow>
     \<exists>c cs. p = [43, 57, 49, c] @ cs \<and> 54 \<le> c \<and> c \<le> 57 \<and> length cs = 9 \<and> list_all nd cs"
  by (auto simp: normalize_indian_phone_def mobile_digits_def Let_def split: if_splits list.splits)

lemma dropWhile_none: "list_all (\<lambda>x. \<not> P x) xs \<Longrightarrow> dropWhile P xs = xs"
  by (cases xs) auto

lemma ustrip_clean: "list_all (\<lambda>c. \<not> white c) t \<Longrightarrow> ustrip t = t"
  by (simp add: ustrip_def dropWhile_none list_all_rev)

lemma filter_clean: "list_all (\<lambda>x. \<not> P x) xs \<Longrightarrow> filter (\<lambda>x. \<not> P x) xs = xs"
  by (induction xs) auto

text \<open>No digit is white space or punctuation, so a canonical number normalises to itself.\<close>

lemma normalize_canonical:
  assumes n: "normalize_indian_phone nd t = Inr p" and nd: "\<And>c. nd c \<Longrightarrow> \<not> phone_noise c"
  shows "normalize_indian_phone nd p = Inr p"
proof -
  obtain c cs where p: "p = [43, 57, 49, c] @ cs" and c: "54 \<le> c" "c \<le> 57"
    and cs: "length cs = 9" "list_all nd cs"
    using normalize_shape [OF n] by blast
  have clean: "list_all (\<lambda>x. \<not> phone_noise x) p"
    using c cs(2) nd by (auto simp: p phone_noise_def white_def list_all_iff)
  then have "list_all (\<lambda>x. \<not> white x) p" by (simp add: list_all_iff phone_noise_def)
  with clean have "filter (\<lambda>c. \<not> phone_noise c) (ustrip p) = p" by (simp add: ustrip_clean filter_clean)
  then have "national_digits p = c # cs" using cs by (simp add: national_digits_def p)
  with c cs p show ?thesis by (simp add: normalize_indian_phone_def mobile_digits_def)
qed

section \<open>The widget\<close>

text \<open>A value of the provider's JSON object, as far as the code looks at it.\<close>

datatype reply_field = Text utext | Other

record reply_object =
  rpo_fields :: "(string \<times> reply_field) list"
  rpo_type :: string

text \<open>\<open>rpo_type\<close> is \<open>str(payload.get("type", ""))\<close>.\<close>

record widget_reply =
  wdr_status :: int
  wdr_body :: reply_object
  wdr_data :: "reply_object option"

definition text_field :: "reply_object \<Rightarrow> string \<Rightarrow> utext option" where
  "text_field ob key =
     (case map_of (rpo_fields ob) key of
        Some (Text t) \<Rightarrow> if ustrip t = [] then None else Some (ustrip t)
      | _ \<Rightarrow> None)"

definition first_text :: "reply_object \<Rightarrow> string list \<Rightarrow> utext option" where
  "first_text ob keys = (case List.map_filter (text_field ob) keys of [] \<Rightarrow> None | t # _ \<Rightarrow> Some t)"

definition or_else :: "'a option \<Rightarrow> 'a option \<Rightarrow> 'a option" where
  "or_else a b = (case a of None \<Rightarrow> b | Some x \<Rightarrow> Some x)"

definition identifier_keys :: "reply_object \<Rightarrow> string list" where
  "identifier_keys ob =
     [''identifier'', ''mobile'', ''phone'', ''mobile_number'']
       @ (if ascii_lower (rpo_type ob) = ''success'' then [''message''] else [])"

definition extract_identifier :: "widget_reply \<Rightarrow> utext option" where
  "extract_identifier r =
     or_else (first_text (wdr_body r) (identifier_keys (wdr_body r)))
       (Option.bind (wdr_data r) (\<lambda>ob. first_text ob (identifier_keys ob)))"

definition provider_declared_error :: "widget_reply \<Rightarrow> bool" where
  "provider_declared_error r \<longleftrightarrow>
     ascii_lower (strip (rpo_type (wdr_body r))) = ''error''
     \<or> (case wdr_data r of None \<Rightarrow> False | Some ob \<Rightarrow> ascii_lower (strip (rpo_type ob)) = ''error'')"

text \<open>The message of an error only reaches the client; \<open>say\<close> renders its code points.\<close>

definition provider_message :: "(utext \<Rightarrow> string) \<Rightarrow> widget_reply \<Rightarrow> string \<Rightarrow> string" where
  "provider_message say r fallback =
     (let keys = [''message'', ''error'', ''detail'', ''msg'']
      in case or_else (first_text (wdr_body r) keys) (Option.bind (wdr_data r) (\<lambda>ob. first_text ob keys)) of
           None \<Rightarrow> fallback | Some t \<Rightarrow> say t)"

text \<open>\<open>post\<close>: None when the exchange failed, Some None when the body is no JSON.\<close>

definition verify_widget_access_token ::
  "(nat \<Rightarrow> bool) \<Rightarrow> (utext \<Rightarrow> string) \<Rightarrow> bool \<Rightarrow> (string \<Rightarrow> widget_reply option option) \<Rightarrow> string \<Rightarrow> utext res" where
  "verify_widget_access_token nd say has_auth_key post access_token =
     (if \<not> has_auth_key then Inl (RuntimeError ''MSG91 server auth key is not configured'')
      else case post access_token of
        None \<Rightarrow> Inl (RuntimeError ''MSG91 verification service is unavailable'')
      | Some None \<Rightarrow> Inl (RuntimeError ''MSG91 returned an invalid verification response'')
      | Some (Some r) \<Rightarrow>
          if 500 \<le> wdr_status r
          then Inl (RuntimeError (provider_message say r ''MSG91 verification service is unavailable''))
          else if 400 \<le> wdr_status r \<or> provider_declared_error r
          then Inl (ValueError (provider_message say r ''MSG91 access token is invalid or expired''))
          else (case extract_identifier r of
              None \<Rightarrow> Inl (ValueError (provider_message say r
                        ''MSG91 verification response did not contain a verified identifier''))
            | Some i \<Rightarrow>
                (case normalize_indian_phone nd i of
                   Inl _ \<Rightarrow> Inl (ValueError ''MSG91 returned an unsupported mobile identifier'')
                 | Inr p \<Rightarrow> Inr p)))"

section \<open>Logging in\<close>

definition user_of_phone :: "'m database_scheme \<Rightarrow> string \<Rightarrow> user option" where
  "user_of_phone d phone = find (\<lambda>u. usr_phone u = Some phone) (users d)"

fun words_of :: "string \<Rightarrow> string \<Rightarrow> string list" where
  "words_of w [] = (if w = [] then [] else [w])"
| "words_of w (c # cs) =
     (if is_space c then (if w = [] then words_of [] cs else w # words_of [] cs)
      else words_of (w @ [c]) cs)"

text \<open>\<open>" ".join(value.split())\<close>\<close>

fun join_words :: "string list \<Rightarrow> string" where
  "join_words [] = []"
| "join_words [w] = w"
| "join_words (w # v # ws) = w @ CHR '' '' # join_words (v # ws)"

definition clean_name :: "string option \<Rightarrow> string option" where
  "clean_name name = (case name of None \<Rightarrow> None | Some n \<Rightarrow> if strip n = [] then None else Some (join_words (words_of [] n)))"

definition new_user :: "uuid \<Rightarrow> string option \<Rightarrow> string option \<Rightarrow> user_role \<Rightarrow> bool \<Rightarrow> user" where
  "new_user i phone name role verified =
     \<lparr>usr_id = i, usr_phone = phone, usr_full_name = name, usr_role = role, usr_is_super_admin = False,
      usr_is_active = True, usr_is_verified = verified\<rparr>"

definition insert_user :: "user \<Rightarrow> 'm database_scheme \<Rightarrow> 'm database_scheme" where
  "insert_user u d = d\<lparr>users := users d @ [u], db_next_id := Suc (usr_id u)\<rparr>"

definition finish_login ::
  "(uuid \<Rightarrow> string) \<Rightarrow> string option \<Rightarrow> user \<Rightarrow> (string, 'm) handler" where
  "finish_login token name u d =
     (if \<not> usr_is_active u then raise_http 403 ''Account is disabled'' d
      else (Inr (token (usr_id u)),
            flush_user (u\<lparr>usr_full_name := (if name \<noteq> None \<and> text_or_none (usr_full_name u) = None then name
                                          else usr_full_name u), usr_is_verified := True\<rparr>) d))"

definition login_verified_phone ::
  "(uuid \<Rightarrow> string) \<Rightarrow> bool \<Rightarrow> string \<Rightarrow> string option \<Rightarrow> (string, 'm) handler" where
  "login_verified_phone token seen phone full_name d =
     (let name = clean_name full_name in
      case (if seen then user_of_phone d phone else None) of
        Some u \<Rightarrow> finish_login token name u d
      | None \<Rightarrow>
          (case user_of_phone d phone of
             Some u \<Rightarrow> finish_login token name u d
           | None \<Rightarrow>
               let u = new_user (fresh_id (map usr_id (users d)) d) (Some phone) name CUSTOMER True
               in finish_login token name u (insert_user u d)))"

definition identity_of_subject :: "'m platform_scheme \<Rightarrow> string \<Rightarrow> external_identity option" where
  "identity_of_subject d subject =
     find (\<lambda>x. xid_provider x = ''firebase'' \<and> xid_subject x = subject) (external_identities d)"

definition flush_identity :: "external_identity \<Rightarrow> 'm platform_scheme \<Rightarrow> 'm platform_scheme" where
  "flush_identity x d = d\<lparr>external_identities := put_row xid_id x (external_identities d)\<rparr>"

definition finish_firebase ::
  "(uuid \<Rightarrow> string) \<Rightarrow> timestamp \<Rightarrow> external_identity \<Rightarrow> (string, 'm) platform_handler" where
  "finish_firebase token now x d =
     (case get_user d (xid_user_id x) of
        None \<Rightarrow> raise_http 401 ''Account is unavailable'' d
      | Some u \<Rightarrow>
          if \<not> usr_is_active u then raise_http 403 ''Account is disabled'' d
          else (Inr (token (usr_id u)), flush_identity (x\<lparr>xid_last_authenticated_at := now\<rparr>) d))"

text \<open>A display name that does not fit the 120 characters of the column fails the insert.\<close>

definition login_firebase_identity ::
  "(uuid \<Rightarrow> string) \<Rightarrow> timestamp \<Rightarrow> bool \<Rightarrow> string \<Rightarrow> string option \<Rightarrow> (string, 'm) platform_handler" where
  "login_firebase_identity token now seen subject display_name d =
     (if strip subject = [] then raise_http 401 ''Firebase token did not contain a subject'' d
      else case (if seen then identity_of_subject d subject else None) of
        Some x \<Rightarrow> finish_firebase token now x d
      | None \<Rightarrow>
          if (case display_name of None \<Rightarrow> False | Some n \<Rightarrow> 120 < length n)
          then (Inl (RuntimeError ''DataError: value too long''), d)
          else (case identity_of_subject d subject of
             Some x \<Rightarrow> finish_firebase token now x d
           | None \<Rightarrow>
               let u = new_user (fresh_id (map usr_id (users d)) d) None display_name CUSTOMER True;
                   x = \<lparr>xid_id = fresh_id (map xid_id (external_identities d)) d, xid_user_id = usr_id u,
                        xid_provider = ''firebase'', xid_subject = subject, xid_last_authenticated_at = now\<rparr>;
                   d1 = insert_user u d;
                   d2 = d1\<lparr>external_identities := external_identities d1 @ [x]\<rparr>
               in finish_firebase token now x d2))"

section \<open>Routes\<close>

definition sms_routes_enabled :: "'c platform_settings_scheme \<Rightarrow> bool" where
  "sms_routes_enabled cfg \<longleftrightarrow> cfg_sms_auth_enabled cfg \<and> cfg_auth_provider cfg = ''local_otp''"

text \<open>A \<open>ValueError\<close> or \<open>RuntimeError\<close> of a service as the status the route maps it to.\<close>

fun http_of :: "nat \<Rightarrow> nat \<Rightarrow> exn \<Rightarrow> exn" where
  "http_of v r (ValueError m) = HTTPException v m"
| "http_of v r (RuntimeError m) = HTTPException r m"
| "http_of v r e = e"

definition request_otp ::
  "'s redis \<Rightarrow> (string \<Rightarrow> string) \<Rightarrow> (string \<Rightarrow> sms_reply) \<Rightarrow> 'c platform_settings_scheme \<Rightarrow> timestamp \<Rightarrow> string \<Rightarrow> string \<Rightarrow>
     's \<Rightarrow> otp_result res \<times> 's" where
  "request_otp R sha256 post cfg now six_digits phone s =
     (if \<not> sms_routes_enabled cfg then (Inl (HTTPException 404 ''SMS authentication is disabled''), s)
      else case otp_issue R sha256 post cfg now six_digits phone s of
        (Inl e, s1) \<Rightarrow> (Inl (http_of 429 503 e), s1)
      | (Inr r, s1) \<Rightarrow> (Inr r, s1))"

definition verify_otp ::
  "'s redis \<Rightarrow> (string \<Rightarrow> string) \<Rightarrow> (string \<Rightarrow> string \<Rightarrow> sms_reply) \<Rightarrow> (uuid \<Rightarrow> string) \<Rightarrow> 'c platform_settings_scheme \<Rightarrow>
     timestamp \<Rightarrow> bool \<Rightarrow> string \<Rightarrow> string \<Rightarrow> string option \<Rightarrow> 's \<Rightarrow> 'm database_scheme \<Rightarrow>
     (string res \<times> 'm database_scheme) \<times> 's" where
  "verify_otp R sha256 get token cfg now seen phone otp full_name s d =
     (if \<not> sms_routes_enabled cfg then (raise_http 404 ''SMS authentication is disabled'' d, s)
      else case otp_verify R sha256 get cfg now phone otp s of
        (Inl e, s1) \<Rightarrow> ((Inl (http_of 500 503 e), d), s1)
      | (Inr False, s1) \<Rightarrow> (raise_http 400 ''Invalid or expired OTP'' d, s1)
      | (Inr True, s1) \<Rightarrow> (login_verified_phone token seen phone full_name d, s1))"

text \<open>\<open>verified\<close> is the outcome of \<open>verify_widget_access_token\<close>, its number printed.\<close>

definition exchange_widget_token ::
  "(uuid \<Rightarrow> string) \<Rightarrow> 'c platform_settings_scheme \<Rightarrow> bool \<Rightarrow> string res \<Rightarrow> string option \<Rightarrow> (string, 'm) handler" where
  "exchange_widget_token token cfg seen verified full_name d =
     (if \<not> cfg_sms_auth_enabled cfg \<or> cfg_auth_provider cfg \<noteq> ''msg91_widget''
      then raise_http 404 ''Widget authentication is disabled'' d
      else case verified of
        Inl e \<Rightarrow> (Inl (http_of 401 503 e), d)
      | Inr phone \<Rightarrow> login_verified_phone token seen phone full_name d)"

text \<open>\<open>FirebaseTokenVerifier.verify\<close>: what the SDK answered, then the claims the code reads.\<close>

datatype firebase_answer = Claims "string option" "string option" | Not_An_Object | Token_Rejected | Verifier_Down

definition verify_firebase_token :: "bool \<Rightarrow> firebase_answer \<Rightarrow> (string \<times> string option) res" where
  "verify_firebase_token configured answer =
     (if \<not> configured then Inl (RuntimeError ''Firebase authentication is not configured'')
      else case answer of
        Verifier_Down \<Rightarrow> Inl (RuntimeError ''Firebase token verification is unavailable'')
      | Token_Rejected \<Rightarrow> Inl (ValueError ''Firebase token is invalid or expired'')
      | Not_An_Object \<Rightarrow> Inl (ValueError ''Firebase token verification returned an invalid identity'')
      | Claims subject name \<Rightarrow>
          (case subject of
             None \<Rightarrow> Inl (ValueError ''Firebase token did not contain a subject'')
           | Some t \<Rightarrow>
               if strip t = [] then Inl (ValueError ''Firebase token did not contain a subject'')
               else Inr (strip t, case name of None \<Rightarrow> None
                                  | Some n \<Rightarrow> if strip n = [] then None else Some (strip n))))"

definition exchange_firebase_token ::
  "(uuid \<Rightarrow> string) \<Rightarrow> 'c platform_settings_scheme \<Rightarrow> timestamp \<Rightarrow> bool \<Rightarrow> bool \<Rightarrow> firebase_answer \<Rightarrow> (string, 'm) platform_handler" where
  "exchange_firebase_token token cfg now configured seen answer d =
     (if cfg_auth_provider cfg \<noteq> ''firebase'' then raise_http 404 ''Firebase authentication is disabled'' d
      else case verify_firebase_token configured answer of
        Inl e \<Rightarrow> (Inl (http_of 401 503 e), d)
      | Inr (subject, name) \<Rightarrow> login_firebase_identity token now seen subject name d)"

definition phone_onboarding_enabled :: "'c platform_settings_scheme \<Rightarrow> bool" where
  "phone_onboarding_enabled cfg \<longleftrightarrow>
     cfg_sms_auth_enabled cfg \<and> cfg_auth_provider cfg \<in> {''local_otp'', ''msg91_widget''}"

text \<open>\<open>^\+91[6-9][0-9]{9}$\<close>\<close>

definition onboard_phone :: "string \<Rightarrow> bool" where
  "onboard_phone p \<longleftrightarrow>
     (case p of
        a # b # c # e # r \<Rightarrow> [a, b, c] = ''+91'' \<and> 54 \<le> (of_char e :: nat) \<and> (of_char e :: nat) \<le> 57
          \<and> length r = 9 \<and> list_all (\<lambda>x. 48 \<le> (of_char x :: nat) \<and> (of_char x :: nat) \<le> 57) r
      | _ \<Rightarrow> False)"

text \<open>When the lookup misses a number that is already there, the flush fails.\<close>

definition admin_onboard_user ::
  "'c platform_settings_scheme \<Rightarrow> string \<Rightarrow> user \<Rightarrow> bool \<Rightarrow> string \<Rightarrow> string \<Rightarrow> user_role \<Rightarrow> (user, 'm) handler" where
  "admin_onboard_user cfg req_id admin seen phone full_name role d =
     attempt (require_capability ADMIN_MANAGE admin) d (\<lambda>_.
     if \<not> onboard_phone phone \<or> length full_name < 2 \<or> 120 < length full_name then raise_http 422 ''body'' d
     else if \<not> phone_onboarding_enabled cfg
     then raise_http 409 (''Phone pre-registration requires enabled phone authentication. ''
            @ ''For Google users, have them sign in first and then assign their role.'') d
     else if role = ADMIN then raise_http 403 ''Administrator onboarding requires a verified account'' d
     else if seen \<and> user_of_phone d phone \<noteq> None
     then raise_http 409 ''Phone already registered; manage existing account'' d
     else if user_of_phone d phone \<noteq> None then raise_http 409 ''Phone already registered'' d
     else
       let u = new_user (fresh_id (map usr_id (users d)) d) (Some phone) (Some (strip full_name)) role False
       in attempt (record_admin_action req_id admin ''user.onboarded'' ADMIN_MANAGE ''user'' (usr_id u) []
              [(''role'', JStr (user_role_value role)), (''is_verified'', JBool False)]
              (Some ''administrator_pre_registration'') (insert_user u d)) d (\<lambda>d1.
          refresh get_user (usr_id u) d1))"

definition update_current_user :: "user \<Rightarrow> string \<Rightarrow> (user, 'm) handler" where
  "update_current_user u full_name d =
     (if full_name = [] \<or> 120 < length full_name \<or> words_of [] full_name = [] then raise_http 422 ''full_name'' d
      else
        let u1 = u\<lparr>usr_full_name := Some (join_words (words_of [] full_name))\<rparr>
        in (Inr u1, flush_user u1 d))"

definition read_current_user_capabilities :: "user \<Rightarrow> bool \<times> string list" where
  "read_current_user_capabilities u =
     (usr_is_super_admin u, sort_key id (map capability_value (capabilities_for u)))"

section \<open>One account per number and per subject\<close>

definition accounts_ok :: "'m platform_scheme \<Rightarrow> bool" where
  "accounts_ok d \<longleftrightarrow>
     distinct (map usr_id (users d)) \<and> distinct (List.map_filter usr_phone (users d))
     \<and> distinct (map (\<lambda>x. (xid_provider x, xid_subject x)) (external_identities d))
     \<and> distinct (map xid_id (external_identities d))
     \<and> (\<forall>x \<in> set (external_identities d). xid_user_id x \<in> usr_id ` set (users d))"

lemma accounts_ok_same:
  "map (\<lambda>u. (usr_id u, usr_phone u)) (users d') = map (\<lambda>u. (usr_id u, usr_phone u)) (users d) \<Longrightarrow>
     external_identities d' = external_identities d \<Longrightarrow> accounts_ok d' = accounts_ok d"
proof -
  assume keys: "map (\<lambda>u. (usr_id u, usr_phone u)) (users d') = map (\<lambda>u. (usr_id u, usr_phone u)) (users d)"
    and x: "external_identities d' = external_identities d"
  have ids: "map usr_id us = map fst (map (\<lambda>u. (usr_id u, usr_phone u)) us)"
    and phones: "List.map_filter usr_phone us = List.map_filter snd (map (\<lambda>u. (usr_id u, usr_phone u)) us)"
    for us :: "user list"
    by (induction us) (auto simp: List.map_filter_simps split: option.split)
  have i: "map usr_id (users d') = map usr_id (users d)" unfolding ids keys ..
  moreover have "usr_id ` set (users d') = usr_id ` set (users d)" using arg_cong [OF i, of set] by simp
  moreover have "List.map_filter usr_phone (users d') = List.map_filter usr_phone (users d)"
    unfolding phones keys ..
  ultimately show ?thesis using x by (simp add: accounts_ok_def)
qed

lemma accounts_flush_user:
  assumes ok: "accounts_ok d" and u0: "u0 \<in> set (users d)" "usr_id u = usr_id u0" "usr_phone u = usr_phone u0"
  shows "accounts_ok (flush_user u d)"
proof -
  have "map (\<lambda>u. (usr_id u, usr_phone u)) (put_row usr_id u (users d)) = map (\<lambda>u. (usr_id u, usr_phone u)) (users d)"
    by (rule map_put_row_field) (use ok u0 in \<open>auto simp: accounts_ok_def distinct_map inj_on_def\<close>)
  with ok show ?thesis by (subst accounts_ok_same [of _ d]) (simp_all add: flush_user_def)
qed

lemma map_filter_append: "List.map_filter f (xs @ ys) = List.map_filter f xs @ List.map_filter f ys"
  by (simp add: List.map_filter_def)

lemma set_map_filter: "y \<in> set (List.map_filter f xs) \<longleftrightarrow> (\<exists>x \<in> set xs. f x = Some y)"
  by (auto simp: List.map_filter_def image_iff)

lemma accounts_insert_user:
  assumes "accounts_ok d" and "usr_id u \<notin> usr_id ` set (users d)"
    and "\<forall>p. usr_phone u = Some p \<longrightarrow> user_of_phone d p = None"
  shows "accounts_ok (insert_user u d)"
  using assms
  by (auto simp: accounts_ok_def insert_user_def map_filter_append List.map_filter_simps set_map_filter
      user_of_phone_def find_None_iff_all split: option.split)

lemma accounts_flush_identity:
  assumes ok: "accounts_ok d" and x0: "x0 \<in> set (external_identities d)" "xid_id x = xid_id x0"
    "xid_provider x = xid_provider x0" "xid_subject x = xid_subject x0" "xid_user_id x = xid_user_id x0"
  shows "accounts_ok (flush_identity x d)"
proof -
  have "map (\<lambda>x. (xid_provider x, xid_subject x)) (put_row xid_id x (external_identities d)) =
      map (\<lambda>x. (xid_provider x, xid_subject x)) (external_identities d)"
    by (rule map_put_row_field) (use ok x0 in \<open>auto simp: accounts_ok_def distinct_map inj_on_def\<close>)
  with ok x0 show ?thesis by (auto simp: accounts_ok_def flush_identity_def elim!: in_put_rowE)
qed

lemma user_of_phoneD: "user_of_phone d p = Some u \<Longrightarrow> u \<in> set (users d) \<and> usr_phone u = Some p"
  by (auto simp: user_of_phone_def dest: find_Some_in)

lemma fresh_user: "fresh_id (map usr_id (users d)) d \<notin> usr_id ` set (users d)"
  using fresh_id_new(1) [of "map usr_id (users d)" d] by simp

lemma accounts_finish_login:
  "accounts_ok d \<Longrightarrow> u \<in> set (users d) \<Longrightarrow> accounts_ok (snd (finish_login token name u d))"
  by (auto simp: finish_login_def intro: accounts_flush_user)

lemma accounts_login_phone:
  assumes ok: "accounts_ok d" shows "accounts_ok (snd (login_verified_phone token seen phone name d))"
proof (cases "user_of_phone d phone")
  case (Some u)
  with ok user_of_phoneD [OF Some] show ?thesis
    by (auto simp: login_verified_phone_def Let_def intro: accounts_finish_login)
next
  case None
  let ?u = "new_user (fresh_id (map usr_id (users d)) d) (Some phone) (clean_name name) CUSTOMER True"
  have "accounts_ok (insert_user ?u d)"
    using None by (intro accounts_insert_user [OF ok]) (simp_all add: new_user_def fresh_user)
  with None show ?thesis
    by (simp add: login_verified_phone_def Let_def accounts_finish_login insert_user_def)
qed

lemma identity_of_subjectD:
  "identity_of_subject d s = Some x \<Longrightarrow> x \<in> set (external_identities d) \<and> xid_provider x = ''firebase'' \<and> xid_subject x = s"
  by (auto simp: identity_of_subject_def dest: find_Some_in)

lemma accounts_finish_firebase:
  "accounts_ok d \<Longrightarrow> x \<in> set (external_identities d) \<Longrightarrow> accounts_ok (snd (finish_firebase token now x d))"
  by (auto simp: finish_firebase_def split: option.split intro: accounts_flush_identity)

lemma accounts_login_firebase:
  assumes ok: "accounts_ok d" shows "accounts_ok (snd (login_firebase_identity token now seen subject name d))"
proof (cases "identity_of_subject d subject")
  case (Some x)
  with ok identity_of_subjectD [OF Some] show ?thesis
    by (auto simp: login_firebase_identity_def split: option.split intro: accounts_finish_firebase)
next
  case None
  let ?u = "new_user (fresh_id (map usr_id (users d)) d) None name CUSTOMER True"
  let ?x = "\<lparr>xid_id = fresh_id (map xid_id (external_identities d)) d, xid_user_id = usr_id ?u,
    xid_provider = ''firebase'', xid_subject = subject, xid_last_authenticated_at = now\<rparr>"
  let ?d1 = "insert_user ?u d"
  have u: "accounts_ok ?d1"
    by (rule accounts_insert_user [OF ok]) (simp_all add: new_user_def fresh_user)
  moreover have "xid_id ?x \<notin> xid_id ` set (external_identities d)"
    using fresh_id_new(1) [of "map xid_id (external_identities d)" d] by simp
  ultimately have "accounts_ok (?d1\<lparr>external_identities := external_identities ?d1 @ [?x]\<rparr>)"
    using None by (auto simp: accounts_ok_def insert_user_def identity_of_subject_def find_None_iff_all)
  with None ok show ?thesis
    by (auto simp: login_firebase_identity_def Let_def split: option.split intro!: accounts_finish_firebase)
qed

lemma users_admin: "record_admin_action req_id u a c rt ri p r why d = Inr d' \<Longrightarrow>
    users d' = users d \<and> database.more d' = database.more d"
  by (auto simp: record_admin_action_def split: if_splits)

lemma accounts_admin:
  "record_admin_action req_id u a c rt ri p r why d = Inr d' \<Longrightarrow> accounts_ok d \<Longrightarrow> accounts_ok d'"
  by (subst accounts_ok_same [of _ d]) (auto simp: record_admin_action_def split: if_splits)

lemma accounts_onboard:
  assumes ok: "accounts_ok d" shows "accounts_ok (snd (admin_onboard_user cfg req_id admin seen phone name role d))"
proof -
  have "accounts_ok (insert_user (new_user (fresh_id (map usr_id (users d)) d) (Some phone) n role False) d)"
    if "user_of_phone d phone = None" for n
    by (rule accounts_insert_user [OF ok]) (use that in \<open>simp_all add: new_user_def fresh_user\<close>)
  then show ?thesis using ok
    by (auto simp: admin_onboard_user_def attempt_def Let_def split: sum.split intro: accounts_admin)
qed

lemma accounts_profile:
  "accounts_ok d \<Longrightarrow> get_user d (usr_id u) = Some u \<Longrightarrow> accounts_ok (snd (update_current_user u name d))"
  by (auto simp: update_current_user_def Let_def get_user_def intro!: accounts_flush_user)

lemma accounts_verify_otp:
  "accounts_ok d \<Longrightarrow> accounts_ok (snd (fst (verify_otp R sha256 get token cfg now seen phone otp name s d)))"
  by (auto simp: verify_otp_def accounts_login_phone split: prod.split sum.split bool.split)

lemma accounts_exchange:
  "accounts_ok d \<Longrightarrow> accounts_ok (snd (exchange_widget_token token cfg seen verified name d))"
  "accounts_ok d \<Longrightarrow> accounts_ok (snd (exchange_firebase_token token cfg now configured seen answer d))"
  by (auto simp: exchange_widget_token_def exchange_firebase_token_def accounts_login_phone accounts_login_firebase
      split: sum.split prod.split)

section \<open>What the rest of the platform does not touch\<close>

definition keeps_catalogue :: "'m database_scheme \<Rightarrow> 'm database_scheme \<Rightarrow> bool" where
  "keeps_catalogue d d' \<longleftrightarrow> stores d' = stores d \<and> categories d' = categories d \<and> products d' = products d"

definition keeps_banners :: "'m platform_scheme \<Rightarrow> 'm platform_scheme \<Rightarrow> bool" where
  "keeps_banners d d' \<longleftrightarrow> store_banner_versions d' = store_banner_versions d
     \<and> banner_generation_jobs d' = banner_generation_jobs d \<and> store_banner_selections d' = store_banner_selections d"

definition keeps_accounts :: "'m platform_scheme \<Rightarrow> 'm platform_scheme \<Rightarrow> bool" where
  "keeps_accounts d d' \<longleftrightarrow> users d' = users d \<and> external_identities d' = external_identities d"

definition outsider :: "'m platform_scheme \<Rightarrow> 'm platform_scheme \<Rightarrow> bool" where
  "outsider d d' \<longleftrightarrow> quiet d d' \<and> keeps_catalogue d d' \<and> keeps_banners d d' \<and> keeps_accounts d d'"

lemmas keeps_defs = keeps_catalogue_def keeps_banners_def keeps_accounts_def

lemma outsider_refl [simp]: "outsider d d"
  by (simp add: outsider_def keeps_defs)

lemma outsider_trans: "outsider a b \<Longrightarrow> outsider b c \<Longrightarrow> outsider a c"
  by (auto simp: outsider_def keeps_defs intro: quiet_trans)

lemma outsider_enqueue [simp]: "outsider d (enqueue_notification now i e t b x d)"
  by (simp add: outsider_def keeps_defs quiet_enqueue) (simp add: enqueue_notification_def)

lemma outsider_admin: "record_admin_action req_id u a c rt ri p r why d = Inr d' \<Longrightarrow> outsider d d'"
  using quiet_admin [of req_id u a c rt ri p r why d d']
  by (auto simp: outsider_def keeps_defs record_admin_action_def split: if_splits)

lemma outsider_admin_trans:
  "record_admin_action req_id u a c rt ri p r why b = Inr d' \<Longrightarrow> outsider d b \<Longrightarrow> outsider d d'"
  by (rule outsider_trans [OF _ outsider_admin])

lemma outsider_enqueue_trans: "outsider d b \<Longrightarrow> outsider d (enqueue_notification now i e t x dt b)"
  by (rule outsider_trans [OF _ outsider_enqueue])

lemma outsider_rules:
  "(\<And>x. r = Inr x \<Longrightarrow> outsider d (snd (k x))) \<Longrightarrow> outsider d (snd (attempt r d k))"
  "outsider d (snd (raise_http c t d))" "outsider d (snd (z, d))"
  "(P \<Longrightarrow> outsider d (snd a)) \<Longrightarrow> (\<not> P \<Longrightarrow> outsider d (snd b)) \<Longrightarrow> outsider d (snd (if P then a else b))"
  "(x = None \<Longrightarrow> outsider d (snd a)) \<Longrightarrow> (\<And>y. x = Some y \<Longrightarrow> outsider d (snd (f y))) \<Longrightarrow>
     outsider d (snd (case x of None \<Rightarrow> a | Some y \<Rightarrow> f y))"
  "outsider d (snd (g v)) \<Longrightarrow> outsider d (snd (let y = v in g y))"
  by (auto simp: attempt_def split: sum.split option.split)

text \<open>Banners and accounts touch their own tables and nothing of the catalogue.\<close>

lemma keeps_catalogue_trans: "keeps_catalogue a b \<Longrightarrow> keeps_catalogue b c \<Longrightarrow> keeps_catalogue a c"
  by (simp add: keeps_catalogue_def)

lemma keeps_admin: "record_admin_action req_id u a c rt ri p r why d = Inr d' \<Longrightarrow> keeps_catalogue d d'"
  by (auto simp: keeps_catalogue_def record_admin_action_def split: if_splits)

definition account_step :: "'m platform_scheme \<Rightarrow> 'm platform_scheme \<Rightarrow> bool" where
  "account_step d d' \<longleftrightarrow> quiet d d' \<and> keeps_catalogue d d' \<and> keeps_banners d d'"

lemma account_step_refl [simp]: "account_step d d"
  by (simp add: account_step_def keeps_defs)

lemma account_step_trans: "account_step a b \<Longrightarrow> account_step b c \<Longrightarrow> account_step a c"
  by (auto simp: account_step_def keeps_defs intro: quiet_trans)

lemma account_writes [simp]:
  "account_step d (flush_user u d)" "account_step d (flush_identity x d)"
  "account_step d (d\<lparr>external_identities := xs\<rparr>)"
  "account_step d (insert_user (new_user (fresh_id used d) p n r v) d)"
  using fresh_next [of d used]
  by (simp_all add: account_step_def keeps_defs quiet_def shelf_def flush_user_def flush_identity_def
      insert_user_def new_user_def)

lemma account_step_finish:
  "account_step d (snd (finish_login token name u d))" "account_step d (snd (finish_firebase token now x d))"
  by (simp_all add: finish_login_def finish_firebase_def split: option.split)

lemma account_step_login:
  "account_step d (snd (login_verified_phone token seen phone name d))"
  "account_step d (snd (login_firebase_identity token now seen subject display d))"
  by (auto simp: login_verified_phone_def login_firebase_identity_def Let_def split: option.split
      intro: account_step_finish account_step_trans [OF account_writes(4) account_step_finish(1)]
        account_step_trans [OF account_step_trans [OF account_writes(4) account_writes(3)] account_step_finish(2)])

lemma account_step_admin: "record_admin_action req_id u a c rt ri p r why d = Inr d' \<Longrightarrow> account_step d d'"
  using outsider_admin [of req_id u a c rt ri p r why d d'] by (auto simp: account_step_def outsider_def)

lemma account_step_routes:
  "account_step d (snd (fst (verify_otp R sha256 get token cfg now seen phone otp name s d)))"
  "account_step d (snd (exchange_widget_token token cfg seen verified name d))"
  "account_step d (snd (exchange_firebase_token token cfg now configured seen answer d))"
  "account_step d (snd (admin_onboard_user cfg req_id admin seen phone full_name role d))"
  "account_step d (snd (update_current_user u full_name d))"
  by (auto simp: verify_otp_def exchange_widget_token_def exchange_firebase_token_def admin_onboard_user_def
      update_current_user_def attempt_def Let_def account_step_login
      split: prod.split sum.split bool.split intro: account_step_trans [OF account_writes(4) account_step_admin])

end
