(* ===== verification/Config.thy ===== *)
theory Config
  imports Accounts
begin

text \<open>
  \<open>core/config.py\<close>: the settings the process starts with, and the validators that refuse a
  combination. Characters are Latin-1, which is enough to decide every comparison the
  validators make. Lemmas: settings that load outside development cannot accept the
  development code.
\<close>

record config = platform_settings +
  cfg_app_debug :: bool
  cfg_secret_key :: string
  cfg_msg91_auth_key :: "string option"
  cfg_msg91_template_id :: "string option"
  cfg_firebase_project_id :: "string option"
  cfg_firebase_service_account :: "string option"
  cfg_product_media_enabled :: bool
  cfg_media_storage_backend :: string
  cfg_media_scan_provider :: string
  cfg_media_scan_required :: bool
  cfg_media_s3 :: "string option list"
  cfg_media_s3_quarantine_bucket :: "string option"
  cfg_media_s3_public_bucket :: "string option"
  cfg_media_scan_endpoint_url :: "string option"
  cfg_media_scan_auth_token :: "string option"
  cfg_banner_job_batch :: int
  cfg_media_public_base_url :: "string option"
  cfg_media_upload_max_bytes :: int
  cfg_media_image_max_width :: int
  cfg_media_image_max_height :: int
  cfg_media_image_max_pixels :: int
  cfg_media_image_max_per_listing :: int
  cfg_media_job_batch :: int
  cfg_media_job_max_attempts :: int
  cfg_media_job_lease_seconds :: int
  cfg_media_retention_seconds :: int
  cfg_max_upload_mb :: int
  cfg_public_base_url :: string
  cfg_cors_origins :: string
  cfg_trusted_hosts :: string

text \<open>\<open>cfg_media_s3\<close>: endpoint, region and the two access keys.\<close>

definition present :: "string option \<Rightarrow> bool" where
  "present t \<longleftrightarrow> text_or_none t \<noteq> None"

definition utf8_length :: "string \<Rightarrow> nat" where
  "utf8_length s = sum_list (map (\<lambda>c. if (of_char c :: nat) < 128 then 1 else 2) s)"

definition refuse :: "bool \<Rightarrow> string \<Rightarrow> unit res" where
  "refuse bad message = (if bad then Inl (ValueError message) else Inr ())"

fun all_ok :: "unit res list \<Rightarrow> unit res" where
  "all_ok [] = Inr ()"
| "all_ok (r # rs) = res_bind r (\<lambda>_. all_ok rs)"

text \<open>A \<open>field_validator\<close> over a set of allowed values.\<close>

definition choice :: "string list \<Rightarrow> string \<Rightarrow> string \<Rightarrow> string res" where
  "choice allowed message value =
     (let v = strip (ascii_lower value) in if v \<notin> set allowed then Inl (ValueError message) else Inr v)"

definition normalised_fields :: "config \<Rightarrow> config res" where
  "normalised_fields c =
     res_bind (choice [''development'', ''test'', ''staging'', ''production'']
         ''APP_ENV must be development, test, staging, or production'' (cfg_app_env c)) (\<lambda>env.
     res_bind (choice [''none'', ''msg91''] ''SMS_PROVIDER must be none or msg91'' (cfg_sms_provider c)) (\<lambda>sms.
     res_bind (choice [''firebase'', ''local_otp'', ''msg91_widget'']
         ''AUTH_PROVIDER must be firebase, local_otp or msg91_widget'' (cfg_auth_provider c)) (\<lambda>auth.
     res_bind (choice [''local'', ''s3''] ''MEDIA_STORAGE_BACKEND must be local or s3''
         (cfg_media_storage_backend c)) (\<lambda>store.
     res_bind (choice [''disabled'', ''http''] ''MEDIA_SCAN_PROVIDER must be disabled or http''
         (cfg_media_scan_provider c)) (\<lambda>scan.
     res_bind (refuse (coeff (cfg_default_delivery_fee c) < 0) ''DEFAULT_DELIVERY_FEE cannot be negative'') (\<lambda>_.
     res_bind (refuse (\<exists>n \<in> set [cfg_banner_regen_max_requests c, cfg_banner_regen_window_seconds c,
           cfg_banner_job_max_attempts c, cfg_banner_job_lease_seconds c, cfg_banner_job_batch c]. n \<le> 0)
         ''Banner processing limits must be positive'') (\<lambda>_.
     res_bind (refuse (\<exists>n \<in> set [cfg_media_upload_max_bytes c, cfg_media_image_max_width c,
           cfg_media_image_max_height c, cfg_media_image_max_pixels c, cfg_media_image_max_per_listing c,
           cfg_media_job_batch c, cfg_media_job_max_attempts c, cfg_media_job_lease_seconds c,
           cfg_media_retention_seconds c]. n \<le> 0)
         ''Product-media limits must be positive'') (\<lambda>_.
     Inr (c\<lparr>cfg_app_env := env, cfg_sms_provider := sms, cfg_auth_provider := auth,
            cfg_media_storage_backend := store, cfg_media_scan_provider := scan\<rparr>)))))))))"

definition deployed :: "'c settings_scheme \<Rightarrow> bool" where
  "deployed c \<longleftrightarrow> cfg_app_env c \<in> {''staging'', ''production''}"

definition validate_production_safety :: "config \<Rightarrow> unit res" where
  "validate_production_safety c =
     all_ok
       ((if deployed c then
          [refuse (utf8_length (cfg_secret_key c) < 32 \<or> cfg_secret_key c = ''change-this-in-production'')
             ''SECRET_KEY must be at least 32 bytes and changed outside development'',
           refuse (cfg_app_debug c) ''APP_DEBUG must be false outside development/test'',
           refuse (cfg_dev_otp c \<noteq> []) ''DEV_OTP must be empty outside development/test'',
           refuse (cfg_auth_provider c = ''firebase''
               \<and> (\<not> present (cfg_firebase_project_id c) \<or> \<not> present (cfg_firebase_service_account c)))
             (''FIREBASE_PROJECT_ID and FIREBASE_SERVICE_ACCOUNT_JSON_B64 are required ''
               @ ''when AUTH_PROVIDER=firebase''),
           refuse (cfg_auth_provider c = ''firebase'' \<and> present (cfg_fcm_project_id c)
               \<and> cfg_fcm_project_id c \<noteq> cfg_firebase_project_id c)
             ''FCM_PROJECT_ID must match FIREBASE_PROJECT_ID when AUTH_PROVIDER=firebase'',
           refuse (cfg_sms_auth_enabled c \<and> cfg_sms_provider c \<noteq> ''msg91'')
             ''SMS_PROVIDER must be msg91 when SMS_AUTH_ENABLED=true outside development/test'',
           refuse (cfg_sms_auth_enabled c
               \<and> (\<not> present (cfg_msg91_auth_key c) \<or> \<not> present (cfg_msg91_template_id c)))
             (''MSG91_AUTH_KEY and MSG91_TEMPLATE_ID are required when ''
               @ ''SMS_AUTH_ENABLED=true and SMS_PROVIDER=msg91''),
           refuse (present (cfg_fcm_project_id c) \<noteq> present (cfg_fcm_service_account c))
             ''FCM_PROJECT_ID and FCM_SERVICE_ACCOUNT_JSON_B64 must be configured together'']
         else [])
       @ (if cfg_product_media_enabled c then
          [refuse (deployed c \<and> cfg_media_storage_backend c \<noteq> ''s3'')
             ''PRODUCT_MEDIA_ENABLED requires MEDIA_STORAGE_BACKEND=s3 outside development/test'',
           refuse (cfg_media_storage_backend c = ''s3'' \<and> (\<not> list_all present (cfg_media_s3 c)
               \<or> \<not> present (cfg_media_public_base_url c)
               \<or> \<not> present (cfg_media_s3_quarantine_bucket c) \<or> \<not> present (cfg_media_s3_public_bucket c)))
             (''S3 product-media storage requires endpoint, region, distinct buckets, ''
               @ ''public base URL and credentials''),
           refuse (cfg_media_storage_backend c = ''s3''
               \<and> cfg_media_s3_quarantine_bucket c = cfg_media_s3_public_bucket c)
             ''Product-media quarantine and public buckets must differ'',
           refuse (\<not> cfg_media_scan_required c \<or> cfg_media_scan_provider c \<noteq> ''http''
               \<or> \<not> present (cfg_media_scan_endpoint_url c) \<or> \<not> present (cfg_media_scan_auth_token c))
             ''Enabled product media requires a configured mandatory HTTP scanner'']
         else []))"

definition load_settings :: "config \<Rightarrow> config res" where
  "load_settings c =
     res_bind (normalised_fields c) (\<lambda>c1. res_bind (validate_production_safety c1) (\<lambda>_. Inr c1))"

fun split_at :: "char \<Rightarrow> string \<Rightarrow> string \<Rightarrow> string list" where
  "split_at sep w [] = [w]"
| "split_at sep w (c # cs) = (if c = sep then w # split_at sep [] cs else split_at sep (w @ [c]) cs)"

definition listed :: "string \<Rightarrow> string list" where
  "listed s = filter (\<lambda>x. x \<noteq> []) (map strip (split_at CHR '','' [] s))"

definition cors_origins :: "config \<Rightarrow> string list" where
  "cors_origins c = listed (cfg_cors_origins c)"

definition trusted_hosts :: "config \<Rightarrow> string list" where
  "trusted_hosts c = listed (cfg_trusted_hosts c)"

lemma refuse_Inr [simp]: "refuse b m = Inr u \<longleftrightarrow> \<not> b"
  by (simp add: refuse_def)

lemma all_ok_Inr: "all_ok rs = Inr u \<longleftrightarrow> list_all (\<lambda>r. \<exists>v. r = Inr v) rs"
  by (induction rs) (auto simp: res_bind_Inr)

lemma load_settings_safe:
  assumes "load_settings c0 = Inr c" and "deployed c"
  shows "cfg_dev_otp c = []" "\<not> cfg_app_debug c" "cfg_app_env c \<noteq> ''development''"
    "cfg_sms_auth_enabled c \<Longrightarrow> cfg_sms_provider c = ''msg91''"
  using assms
  by (auto simp: load_settings_def res_bind_Inr validate_production_safety_def all_ok_Inr deployed_def
      split: if_splits)

text \<open>In a deployed process a code is accepted only when the provider confirmed it.\<close>

lemma deployed_verify:
  assumes "load_settings c0 = Inr c" and "deployed c"
    and ok: "fst (otp_verify R sha256 get c now phone code s) = Inr True"
  shows "msg91_verify get phone code = Inr True"
proof -
  have "cfg_app_env c \<noteq> ''development''" by (rule load_settings_safe [OF assms(1,2)])
  then show ?thesis using ok
    by (auto simp: otp_verify_def Let_def split: prod.splits bool.splits sum.splits if_splits)
qed

end
