(* ===== verification/Geography.thy ===== *)
theory Geography
  imports Accounts
begin

text \<open>
  Localities, service areas and customers' addresses: \<open>routes/geography.py\<close>, with the Google
  Places client of \<open>services/places.py\<close>. PostGIS, the HTTP exchange, \<open>ILIKE\<close> and the rate limiter's
  answer are parameters. Rows without a modelled \<open>created_at\<close> are listed newest first by their
  position. Lemmas: every operation is an outsider's step, a customer has at most one default
  address, an archived one is never default, and nobody touches another customer's addresses.
\<close>

section \<open>Places\<close>

record prediction =
  prd_place_id :: "string option"
  prd_text :: "string option"
  prd_structured_format :: "dict option"

record place =
  plc_id :: "string option"
  plc_formatted_address :: "string option"
  plc_address_components :: "dict list"
  plc_latitude :: "rat option"
  plc_longitude :: "rat option"
  plc_plus_code :: "string option"

record autocomplete_request =
  acr_input :: string
  acr_region_codes :: "string list"
  acr_region_code :: string
  acr_language_code :: string
  acr_bias :: "(point \<times> rat) option"
  acr_session_token :: "string option"

record place_suggestion =
  sug_place_id :: "string option"
  sug_text :: string
  sug_structured_format :: "dict option"

definition places_enabled :: "'c platform_settings_scheme \<Rightarrow> bool" where
  "places_enabled cfg \<longleftrightarrow> cfg_maps_provider cfg = ''google'' \<and> text_or_none (cfg_maps_api_key cfg) \<noteq> None"

text \<open>The headers of a request, or \<open>PlacesUnavailable\<close>.\<close>

definition places_headers :: "'c platform_settings_scheme \<Rightarrow> string option \<Rightarrow> (string \<times> string) list res" where
  "places_headers cfg field_mask =
     (if \<not> places_enabled cfg then Inl (RuntimeError ''Google Maps services are not configured'')
      else Inr ([(''X-Goog-Api-Key'', case cfg_maps_api_key cfg of None \<Rightarrow> [] | Some k \<Rightarrow> k),
                 (''Content-Type'', ''application/json'')]
        @ (case text_or_none field_mask of None \<Rightarrow> [] | Some m \<Rightarrow> [(''X-Goog-FieldMask'', m)])))"

definition autocomplete_body :: "string \<Rightarrow> rat option \<Rightarrow> rat option \<Rightarrow> string option \<Rightarrow> autocomplete_request" where
  "autocomplete_body q lat lng session_token =
     \<lparr>acr_input = q, acr_region_codes = [''in''], acr_region_code = ''IN'', acr_language_code = ''en'',
      acr_bias = map_option (\<lambda>p. (p, 30000)) (located lat lng), acr_session_token = text_or_none session_token\<rparr>"

text \<open>The provider's answers; None when the exchange raised \<open>httpx.HTTPError\<close>.\<close>

definition autocomplete ::
  "((string \<times> string) list \<Rightarrow> autocomplete_request \<Rightarrow> prediction option list option) \<Rightarrow>
     'c platform_settings_scheme \<Rightarrow> string \<Rightarrow> rat option \<Rightarrow> rat option \<Rightarrow> string option \<Rightarrow>
     place_suggestion list option res" where
  "autocomplete post cfg q lat lng session_token =
     res_bind (places_headers cfg (Some (''suggestions.placePrediction.placeId,''
         @ ''suggestions.placePrediction.text.text,suggestions.placePrediction.structuredFormat''))) (\<lambda>h.
     Inr (map_option (List.map_filter (map_option (\<lambda>p.
          \<lparr>sug_place_id = prd_place_id p, sug_text = (case prd_text p of None \<Rightarrow> [] | Some t \<Rightarrow> t),
           sug_structured_format = prd_structured_format p\<rparr>)))
        (post h (autocomplete_body q lat lng session_token))))"

definition place_details ::
  "((string \<times> string) list \<Rightarrow> string \<Rightarrow> string option \<Rightarrow> place option) \<Rightarrow>
     'c platform_settings_scheme \<Rightarrow> string \<Rightarrow> string option \<Rightarrow> place option res" where
  "place_details get cfg place_id session_token =
     res_bind (places_headers cfg (Some ''id,formattedAddress,addressComponents,location,plusCode'')) (\<lambda>h.
     Inr (map_option (\<lambda>p. p\<lparr>plc_id := Some (case plc_id p of None \<Rightarrow> place_id | Some i \<Rightarrow> i)\<rparr>)
        (get h place_id (text_or_none session_token))))"

definition reverse_geocode ::
  "((string \<times> string) list \<Rightarrow> point \<Rightarrow> place list option) \<Rightarrow> 'c platform_settings_scheme \<Rightarrow> rat \<Rightarrow> rat \<Rightarrow>
     place option option res" where
  "reverse_geocode get cfg lat lng =
     res_bind (places_headers cfg None) (\<lambda>h.
     Inr (map_option (\<lambda>results. case results of [] \<Rightarrow> None | p # _ \<Rightarrow> Some p) (get h (lat, lng))))"

definition limit_provider :: "rate_outcome \<Rightarrow> unit res" where
  "limit_provider rate =
     (case rate of
        Rate_Ok \<Rightarrow> Inr ()
      | Rate_Exceeded \<Rightarrow> Inl (HTTPException 429 ''Too many requests. Try again shortly.'')
      | Rate_Unavailable \<Rightarrow> Inl (HTTPException 503 ''Rate-limit storage is unavailable''))"

text \<open>A lookup behind the limiter: unconfigured is 503, a failed exchange 502.\<close>

definition provider_lookup :: "rate_outcome \<Rightarrow> string \<Rightarrow> 'a option res \<Rightarrow> 'a res" where
  "provider_lookup rate unavailable r =
     res_bind (limit_provider rate) (\<lambda>_.
     case r of
       Inl (RuntimeError m) \<Rightarrow> Inl (HTTPException 503 m)
     | Inl e \<Rightarrow> Inl e
     | Inr None \<Rightarrow> Inl (HTTPException 502 unavailable)
     | Inr (Some x) \<Rightarrow> Inr x)"

definition location_autocomplete where
  "location_autocomplete post cfg rate q lat lng session_token =
     (if \<not> (2 \<le> length q \<and> length q \<le> 160) then Inl (HTTPException 422 ''q'')
      else provider_lookup rate ''Address search provider unavailable'' (autocomplete post cfg q lat lng session_token))"

definition location_place where
  "location_place get cfg rate place_id session_token =
     provider_lookup rate ''Place details provider unavailable'' (place_details get cfg place_id session_token)"

definition location_reverse where
  "location_reverse get cfg rate lat lng =
     (if \<not> valid_coordinates lat lng then Inl (HTTPException 422 ''query'')
      else provider_lookup rate ''Reverse geocoding provider unavailable'' (reverse_geocode get cfg lat lng))"

section \<open>Serviceability\<close>

record serviceability_read =
  svr_serviceable :: bool
  svr_service_area_id :: "uuid option"
  svr_service_area_name :: "string option"
  svr_distance_km :: "rat option"
  svr_radius_km :: "rat option"

definition serviceability :: "gis \<Rightarrow> 'm database_scheme \<Rightarrow> point \<Rightarrow> serviceability_read" where
  "serviceability g d p =
     (case serviceability_for_point g d p of
        None \<Rightarrow> \<lparr>svr_serviceable = False, svr_service_area_id = None, svr_service_area_name = None,
                 svr_distance_km = None, svr_radius_km = None\<rparr>
      | Some c \<Rightarrow> \<lparr>svr_serviceable = cov_covers_point c, svr_service_area_id = Some (cov_id c),
                   svr_service_area_name = Some (cov_name c),
                   svr_distance_km = Some (py_round 2 (cov_distance_km c)), svr_radius_km = Some (cov_radius_km c)\<rparr>)"

definition location_serviceability :: "gis \<Rightarrow> rat \<Rightarrow> rat \<Rightarrow> (serviceability_read, 'm) handler" where
  "location_serviceability g lat lng d =
     (if \<not> valid_coordinates lat lng then raise_http 422 ''query'' d else (Inr (serviceability g d (lat, lng)), d))"

section \<open>Localities and service areas\<close>

definition list_villages :: "(string \<Rightarrow> string \<Rightarrow> bool) \<Rightarrow> string option \<Rightarrow> (village list, 'm) handler" where
  "list_villages ilike q d =
     (Inr (sort_key vil_name (filter (\<lambda>v. vil_is_active v
        \<and> (case text_or_none q of None \<Rightarrow> True | Some t \<Rightarrow> ilike (vil_name v) (''%'' @ t @ ''%''))) (villages d))), d)"

record village_create =
  vlc_name :: string
  vlc_taluka :: "string option"
  vlc_district :: string
  vlc_state :: string
  vlc_pincode :: "string option"
  vlc_latitude :: "rat option"
  vlc_longitude :: "rat option"

definition new_village :: "uuid \<Rightarrow> village_create \<Rightarrow> village" where
  "new_village i p =
     \<lparr>vil_id = i, vil_name = vlc_name p, vil_taluka = vlc_taluka p, vil_district = vlc_district p,
      vil_state = vlc_state p, vil_pincode = vlc_pincode p, vil_latitude = vlc_latitude p,
      vil_longitude = vlc_longitude p, vil_is_active = True\<rparr>"

definition create_village :: "string \<Rightarrow> user \<Rightarrow> village_create \<Rightarrow> (village, 'm) handler" where
  "create_village req_id admin p d =
     attempt (require_capability GEOGRAPHY_MANAGE admin) d (\<lambda>_.
     if length (vlc_name p) < 2 \<or> 120 < length (vlc_name p) then raise_http 422 ''name'' d
     else if \<exists>v \<in> set (villages d). (vil_name v, vil_district v, vil_state v) = (vlc_name p, vlc_district p, vlc_state p)
     then (Inl (RuntimeError ''IntegrityError: uq_village_location''), d)
     else
       let i = fresh_id (map vil_id (villages d)) d
       in attempt (record_admin_action req_id admin ''geography.locality_created'' GEOGRAPHY_MANAGE ''village'' i []
              [(''name'', JStr (vlc_name p)), (''district'', JStr (vlc_district p)), (''state'', JStr (vlc_state p))]
              (Some ''service_geography_administration'')
              (d\<lparr>villages := villages d @ [new_village i p], db_next_id := Suc i\<rparr>)) d (\<lambda>d1.
          refresh get_village i d1))"

definition list_service_areas :: "(service_area list, 'm) handler" where
  "list_service_areas d = (Inr (sort_key sva_name (filter sva_is_active (service_areas d))), d)"

record service_area_create =
  sac_name :: string
  sac_hub_village_id :: uuid
  sac_radius_km :: rat
  sac_delivery_fee :: "decimal option"

text \<open>\<open>delivery_fee\<close>: at least 0, at most 10000, at most two decimal places.\<close>

definition valid_fee :: "decimal \<Rightarrow> bool" where
  "valid_fee x \<longleftrightarrow> 0 \<le> coeff x \<and> dec_value x \<le> 10000 \<and> (scale x \<le> 2 \<or> coeff x mod 10 ^ (scale x - 2) = 0)"

definition valid_service_area :: "service_area_create \<Rightarrow> bool" where
  "valid_service_area p \<longleftrightarrow> 0 < sac_radius_km p \<and> sac_radius_km p \<le> 100
     \<and> (case sac_delivery_fee p of None \<Rightarrow> True | Some f \<Rightarrow> valid_fee f)"

definition fee_column :: "decimal option \<Rightarrow> money option" where
  "fee_column f = map_option (\<lambda>x. coeff (quantize ROUND_HALF_UP 2 x)) f"

definition create_service_area :: "string \<Rightarrow> user \<Rightarrow> service_area_create \<Rightarrow> (service_area, 'm) handler" where
  "create_service_area req_id admin p d =
     attempt (require_capability GEOGRAPHY_MANAGE admin) d (\<lambda>_.
     if \<not> valid_service_area p then raise_http 422 ''body'' d
     else if get_village d (sac_hub_village_id p) = None then raise_http 404 ''Hub village not found'' d
     else
       let i = fresh_id (map sva_id (service_areas d)) d;
           a = \<lparr>sva_id = i, sva_name = sac_name p, sva_hub_village_id = sac_hub_village_id p,
                sva_radius_km = sac_radius_km p, sva_delivery_fee = fee_column (sac_delivery_fee p),
                sva_is_active = True\<rparr>
       in attempt (record_admin_action req_id admin ''geography.service_area_created'' GEOGRAPHY_MANAGE
              ''service_area'' i []
              [(''name'', JStr (sva_name a)), (''hub_village_id'', JId (sva_hub_village_id a)),
               (''radius_km'', JRat (sva_radius_km a)),
               (''delivery_fee'', case sva_delivery_fee a of None \<Rightarrow> JNull | Some f \<Rightarrow> JMoney f)]
              (Some ''service_geography_administration'')
              (d\<lparr>service_areas := service_areas d @ [a], db_next_id := Suc i\<rparr>)) d (\<lambda>d1.
          refresh get_service_area i d1))"

section \<open>Addresses\<close>

definition own_live :: "user \<Rightarrow> address \<Rightarrow> bool" where
  "own_live u a \<longleftrightarrow> adr_user_id a = usr_id u \<and> adr_archived_at a = None"

definition list_my_addresses :: "user \<Rightarrow> (address list, 'm) handler" where
  "list_my_addresses u d =
     (Inr (sort_key (\<lambda>a. \<not> adr_is_default a) (rev (filter (own_live u) (addresses d)))), d)"

record address_create =
  adc_village_id :: uuid
  adc_label :: string
  adc_recipient_name :: "string option"
  adc_phone :: "string option"
  adc_house_details :: "string option"
  adc_landmark :: string
  adc_directions :: "string option"
  adc_latitude :: "rat option"
  adc_longitude :: "rat option"
  adc_is_default :: bool

definition valid_address :: "address_create \<Rightarrow> bool" where
  "valid_address p \<longleftrightarrow> length (adc_label p) \<le> 40 \<and> 2 \<le> length (adc_landmark p) \<and> length (adc_landmark p) \<le> 240
     \<and> (case adc_latitude p of None \<Rightarrow> True | Some x \<Rightarrow> - 90 \<le> x \<and> x \<le> 90)
     \<and> (case adc_longitude p of None \<Rightarrow> True | Some x \<Rightarrow> - 180 \<le> x \<and> x \<le> 180)"

definition new_address :: "uuid \<Rightarrow> user \<Rightarrow> address_create \<Rightarrow> address" where
  "new_address i u p =
     \<lparr>adr_id = i, adr_user_id = usr_id u, adr_village_id = adc_village_id p, adr_label = adc_label p,
      adr_recipient_name = adc_recipient_name p, adr_phone = adc_phone p, adr_house_details = adc_house_details p,
      adr_landmark = adc_landmark p, adr_directions = adc_directions p, adr_latitude = adc_latitude p,
      adr_longitude = adc_longitude p, adr_is_default = adc_is_default p, adr_archived_at = None\<rparr>"

definition clear_defaults :: "user \<Rightarrow> address list \<Rightarrow> address list" where
  "clear_defaults u = map (\<lambda>a. if own_live u a then a\<lparr>adr_is_default := False\<rparr> else a)"

definition address_guards :: "gis \<Rightarrow> address_create \<Rightarrow> 'm database_scheme \<Rightarrow> unit res" where
  "address_guards g p d =
     (if get_village d (adc_village_id p) = None then Inl (HTTPException 404 ''Village not found'')
      else if (adc_latitude p = None) \<noteq> (adc_longitude p = None)
      then Inl (HTTPException 422 ''Latitude and longitude must be supplied together'')
      else (case located (adc_latitude p) (adc_longitude p) of
          None \<Rightarrow> Inr ()
        | Some q \<Rightarrow>
            if \<not> svr_serviceable (serviceability g d q)
            then Inl (HTTPException 422 ''Delivery address is outside the active GaonOne service area'')
            else Inr ()))"

definition create_my_address :: "gis \<Rightarrow> user \<Rightarrow> address_create \<Rightarrow> (address, 'm) handler" where
  "create_my_address g u p d =
     (if \<not> valid_address p then raise_http 422 ''body'' d
      else attempt (address_guards g p d) d (\<lambda>_.
        let i = fresh_id (map adr_id (addresses d)) d;
            rest = (if adc_is_default p then clear_defaults u (addresses d) else addresses d)
        in refresh get_address i (d\<lparr>addresses := rest @ [new_address i u p], db_next_id := Suc i\<rparr>)))"

definition delete_my_address :: "timestamp \<Rightarrow> user \<Rightarrow> uuid \<Rightarrow> (unit, 'm) handler" where
  "delete_my_address now u aid d =
     (case get_address d aid of
        None \<Rightarrow> raise_http 404 ''Address not found'' d
      | Some a \<Rightarrow>
          if \<not> own_live u a then raise_http 404 ''Address not found'' d
          else (Inr (), d\<lparr>addresses := put_row adr_id (a\<lparr>adr_archived_at := Some now, adr_is_default := False\<rparr>)
                  (addresses d)\<rparr>))"

section \<open>Lemmas\<close>

lemma outsider_writes:
  "db_next_id d \<le> n \<Longrightarrow> outsider d (d\<lparr>villages := vs, db_next_id := n\<rparr>)"
  "db_next_id d \<le> n \<Longrightarrow> outsider d (d\<lparr>service_areas := ss, db_next_id := n\<rparr>)"
  "db_next_id d \<le> n \<Longrightarrow> outsider d (d\<lparr>addresses := as, db_next_id := n\<rparr>)" "outsider d (d\<lparr>addresses := as\<rparr>)"
  by (simp_all add: outsider_def keeps_defs quiet_def shelf_def)

lemma outsider_geography:
  "outsider d (snd (create_village req_id u vp d))" "outsider d (snd (create_service_area req_id u sp d))"
  "outsider d (snd (create_my_address g u ap d))" "outsider d (snd (delete_my_address now u aid d))"
proof -
  show "outsider d (snd (create_village req_id u vp d))"
    by (auto simp: create_village_def attempt_def Let_def split: sum.split
        intro: outsider_admin_trans [OF _ outsider_writes(1) [OF fresh_next]])
  show "outsider d (snd (create_service_area req_id u sp d))"
    by (auto simp: create_service_area_def attempt_def Let_def split: sum.split
        intro: outsider_admin_trans [OF _ outsider_writes(2) [OF fresh_next]])
  show "outsider d (snd (create_my_address g u ap d))"
    by (auto simp: create_my_address_def attempt_def Let_def split: sum.split intro: outsider_writes(3) [OF fresh_next])
  show "outsider d (snd (delete_my_address now u aid d))"
    by (auto simp: delete_my_address_def split: option.split intro: outsider_writes(4))
qed

text \<open>At most one default address per customer, and no archived one.\<close>

definition defaults_of :: "uuid \<Rightarrow> 'm database_scheme \<Rightarrow> address list" where
  "defaults_of uid d = filter (\<lambda>a. adr_user_id a = uid \<and> adr_is_default a) (addresses d)"

definition addresses_ok :: "'m database_scheme \<Rightarrow> bool" where
  "addresses_ok d \<longleftrightarrow> distinct (map adr_id (addresses d))
     \<and> (\<forall>a \<in> set (addresses d). adr_is_default a \<longrightarrow> adr_archived_at a = None)
     \<and> (\<forall>uid. length (defaults_of uid d) \<le> 1)"

lemma clear_defaults_ids [simp]: "map adr_id (clear_defaults u as) = map adr_id as"
  by (simp add: clear_defaults_def comp_def if_distrib cong: if_cong)

lemma clear_defaults_id_set [simp]: "adr_id ` set (clear_defaults u as) = adr_id ` set as"
  by (metis clear_defaults_ids set_map)

lemma clear_defaults_none:
  "\<forall>a \<in> set as. adr_is_default a \<longrightarrow> adr_archived_at a = None \<Longrightarrow>
     filter (\<lambda>a. adr_user_id a = usr_id u \<and> adr_is_default a) (clear_defaults u as) = []"
  by (induction as) (auto simp: clear_defaults_def own_live_def)

lemma clear_defaults_others:
  "uid \<noteq> usr_id u \<Longrightarrow> filter (\<lambda>a. adr_user_id a = uid \<and> P a) (clear_defaults u as) =
     filter (\<lambda>a. adr_user_id a = uid \<and> P a) as"
  by (induction as) (auto simp: clear_defaults_def own_live_def)

lemma clear_defaults_kept: "a \<in> set (clear_defaults u as) \<Longrightarrow>
    \<exists>b \<in> set as. a = b \<or> a = b\<lparr>adr_is_default := False\<rparr>"
  by (auto simp: clear_defaults_def)

lemma addresses_create:
  assumes ok: "addresses_ok d" shows "addresses_ok (snd (create_my_address g u p d))"
proof -
  let ?i = "fresh_id (map adr_id (addresses d)) d"
  let ?rest = "if adc_is_default p then clear_defaults u (addresses d) else addresses d"
  let ?d = "d\<lparr>addresses := ?rest @ [new_address ?i u p], db_next_id := Suc ?i\<rparr>"
  have ids: "map adr_id ?rest = map adr_id (addresses d)" by simp
  have set_ids: "adr_id ` set ?rest = adr_id ` set (addresses d)" by simp
  have new: "?i \<notin> adr_id ` set (addresses d)" using fresh_id_new(1) [of "map adr_id (addresses d)" d] by simp
  have "distinct (map adr_id (addresses ?d))"
    using ok new by (simp add: addresses_ok_def new_address_def ids set_ids del: map_eq_conv)
  moreover have "adr_archived_at a = None" if "a \<in> set (addresses ?d)" "adr_is_default a" for a
    using ok that by (auto simp: addresses_ok_def new_address_def split: if_splits dest!: clear_defaults_kept)
  moreover have "length (defaults_of uid ?d) \<le> 1" for uid
  proof (cases "adc_is_default p \<and> uid = usr_id u")
    case True
    then show ?thesis using ok by (simp add: defaults_of_def clear_defaults_none addresses_ok_def)
  next
    case False
    then have "length (defaults_of uid ?d) = length (defaults_of uid d)"
      by (auto simp: defaults_of_def new_address_def clear_defaults_others)
    with ok show ?thesis by (simp add: addresses_ok_def)
  qed
  ultimately have "addresses_ok ?d" by (simp add: addresses_ok_def)
  with ok show ?thesis by (auto simp: create_my_address_def attempt_def Let_def split: sum.split if_splits)
qed

lemma addresses_delete:
  assumes ok: "addresses_ok d" shows "addresses_ok (snd (delete_my_address now u aid d))"
proof -
  have fewer: "length (filter P (put_row adr_id a' as)) \<le> length (filter P as)" if "\<not> P a'" for P a' as
    using that by (induction as) auto
  have "addresses_ok (d\<lparr>addresses := put_row adr_id (a\<lparr>adr_archived_at := Some now, adr_is_default := False\<rparr>) (addresses d)\<rparr>)"
    if "get_address d aid = Some a" for a
  proof -
    let ?a = "a\<lparr>adr_archived_at := Some now, adr_is_default := False\<rparr>"
    have "length (defaults_of uid (d\<lparr>addresses := put_row adr_id ?a (addresses d)\<rparr>)) \<le> length (defaults_of uid d)" for uid
      unfolding defaults_of_def by (simp, rule fewer) simp
    then have "length (defaults_of uid (d\<lparr>addresses := put_row adr_id ?a (addresses d)\<rparr>)) \<le> 1" for uid
      using ok order_trans unfolding addresses_ok_def by blast
    moreover have "adr_archived_at b = None" if "b \<in> set (put_row adr_id ?a (addresses d))" "adr_is_default b" for b
      using ok that by (auto simp: addresses_ok_def elim!: in_put_rowE)
    ultimately show ?thesis using ok by (simp add: addresses_ok_def)
  qed
  with ok show ?thesis by (simp add: delete_my_address_def split: option.split)
qed

text \<open>Nobody touches another customer's addresses, and no address is ever removed.\<close>

lemma addresses_of_others:
  "uid \<noteq> usr_id u \<Longrightarrow> filter (\<lambda>a. adr_user_id a = uid) (addresses (snd (create_my_address g u p d))) =
     filter (\<lambda>a. adr_user_id a = uid) (addresses d)"
  using clear_defaults_others [of uid u "\<lambda>_. True" "addresses d"]
  by (auto simp: create_my_address_def attempt_def Let_def new_address_def split: sum.split)

lemma addresses_of_others_delete:
  assumes "distinct (map adr_id (addresses d))" and "uid \<noteq> usr_id u"
  shows "filter (\<lambda>a. adr_user_id a = uid) (addresses (snd (delete_my_address now u aid d))) =
     filter (\<lambda>a. adr_user_id a = uid) (addresses d)"
proof (cases "get_address d aid")
  case (Some a)
  then have "a \<in> set (addresses d)" by (auto simp: get_address_def)
  with assms Some show ?thesis
    by (simp add: delete_my_address_def own_live_def filter_put_row_other [of adr_id _ a])
qed (simp add: delete_my_address_def)

lemma addresses_kept:
  "adr_id ` set (addresses d) \<subseteq> adr_id ` set (addresses (snd (create_my_address g u p d)))"
  "map adr_id (addresses (snd (delete_my_address now u aid d))) = map adr_id (addresses d)"
proof -
  show "adr_id ` set (addresses d) \<subseteq> adr_id ` set (addresses (snd (create_my_address g u p d)))"
    by (simp add: create_my_address_def attempt_def Let_def image_Un subset_insertI2 split: sum.split)
qed (simp add: delete_my_address_def split: option.split)

text \<open>A located address is in a served area when it is created, as checkout will ask again.\<close>

lemma created_address_served:
  assumes "create_my_address g u p d = (Inr a, d')" and "located (adc_latitude p) (adc_longitude p) = Some q"
  shows "\<exists>s \<in> set (service_areas d). point_is_in_service_area g d (sva_id s) q"
proof -
  have "svr_serviceable (serviceability g d q)"
    using assms by (auto simp: create_my_address_def attempt_def address_guards_def raise_http_def
        split: if_splits sum.splits)
  then have "\<exists>c. serviceability_for_point g d q = Some c \<and> cov_covers_point c"
    by (auto simp: serviceability_def split: option.splits)
  then show ?thesis by (simp add: serviceability_agrees)
qed

end
