(* ===== verification/Tracking.thy ===== *)
theory Tracking
  imports Geography
begin

text \<open>
  Live tracking: \<open>routes/tracking_hardening.py\<close>, \<open>routes/tracking.py\<close> and the routes client with
  its cache, \<open>services/maps.py\<close>. The great-circle distance, the HTTP exchange, \<open>float()\<close> and the
  rate limiter's answer are parameters; \<open>monotonic()\<close> is an instant. Lemmas: the fixes of a
  delivery are at least five seconds apart and physically plausible, only the assigned rider
  adds one, and the route cache never outgrows its limit.
\<close>

section \<open>Fixes\<close>

definition ACTIVE_TRACKING_STATUSES :: "delivery_status list" where
  "ACTIVE_TRACKING_STATUSES = [ASSIGNED, PICKED_UP]"
definition MIN_LOCATION_INTERVAL_SECONDS :: int where "MIN_LOCATION_INTERVAL_SECONDS = 5"
definition MAX_PLAUSIBLE_SPEED_MPS :: rat where "MAX_PLAUSIBLE_SPEED_MPS = 55"
definition MAX_REPORTED_SPEED_MPS :: rat where "MAX_REPORTED_SPEED_MPS = 60"
definition FRESH_ROUTE_LOCATION_SECONDS :: int where "FRESH_ROUTE_LOCATION_SECONDS = 30"

record location_create =
  lcc_latitude :: rat
  lcc_longitude :: rat
  lcc_accuracy_m :: "rat option"
  lcc_heading_deg :: "rat option"
  lcc_speed_mps :: "rat option"
  lcc_recorded_at :: timestamp

text \<open>The ranges of the payload schema.\<close>

definition optional_in :: "(rat \<Rightarrow> bool) \<Rightarrow> rat option \<Rightarrow> bool" where
  "optional_in ok v = (case v of None \<Rightarrow> True | Some x \<Rightarrow> 0 \<le> x \<and> ok x)"

definition valid_location :: "location_create \<Rightarrow> bool" where
  "valid_location p \<longleftrightarrow> valid_coordinates (lcc_latitude p) (lcc_longitude p)
     \<and> optional_in (\<lambda>x. x \<le> 5000) (lcc_accuracy_m p) \<and> optional_in (\<lambda>x. x < 360) (lcc_heading_deg p)
     \<and> optional_in (\<lambda>x. x \<le> 100) (lcc_speed_mps p)"

definition fixes_of :: "'m platform_scheme \<Rightarrow> uuid \<Rightarrow> delivery_location list" where
  "fixes_of d did = filter (\<lambda>l. loc_delivery_id l = did) (delivery_locations d)"

definition latest_location :: "'m platform_scheme \<Rightarrow> uuid \<Rightarrow> delivery_location option" where
  "latest_location d did = latest_by loc_recorded_at (fixes_of d did)"

definition elapsed_seconds :: "timestamp \<Rightarrow> timestamp \<Rightarrow> rat" where
  "elapsed_seconds previous stamp = of_int (stamp - previous) / 1000000"

definition location_of :: "uuid \<Rightarrow> uuid \<Rightarrow> uuid \<Rightarrow> location_create \<Rightarrow> delivery_location" where
  "location_of i did rider p =
     \<lparr>loc_id = i, loc_delivery_id = did, loc_delivery_partner_id = rider, loc_latitude = lcc_latitude p,
      loc_longitude = lcc_longitude p, loc_accuracy_m = lcc_accuracy_m p, loc_heading_deg = lcc_heading_deg p,
      loc_speed_mps = lcc_speed_mps p, loc_recorded_at = lcc_recorded_at p\<rparr>"

definition add_location ::
  "uuid \<Rightarrow> uuid \<Rightarrow> location_create \<Rightarrow> (delivery_location, 'm) platform_handler" where
  "add_location did rider p d =
     (let i = fresh_id (map loc_id (delivery_locations d)) d; l = location_of i did rider p
      in (Inr l, d\<lparr>delivery_locations := delivery_locations d @ [l], db_next_id := Suc i\<rparr>))"

text \<open>What both recorders ask of the delivery and of the time stamp.\<close>

definition tracked_delivery :: "user \<Rightarrow> uuid \<Rightarrow> 'm database_scheme \<Rightarrow> delivery res" where
  "tracked_delivery rider did d =
     (case get_delivery d did of
        None \<Rightarrow> Inl (HTTPException 404 ''Delivery not found'')
      | Some x \<Rightarrow>
          if dlv_delivery_partner_id x \<noteq> Some (usr_id rider)
          then Inl (HTTPException 403 ''Delivery is not assigned to you'')
          else if dlv_status x \<notin> set ACTIVE_TRACKING_STATUSES
          then Inl (HTTPException 409 ''Live location is only accepted during an active delivery'')
          else Inr x)"

definition timely :: "timestamp \<Rightarrow> timestamp \<Rightarrow> unit res" where
  "timely now stamp =
     (if now + minutes 5 < stamp then Inl (HTTPException 422 ''Location timestamp is too far in the future'')
      else if stamp < now - minutes 30 then Inl (HTTPException 422 ''Location timestamp is too old'')
      else Inr ())"

definition spaced :: "delivery_location option \<Rightarrow> timestamp \<Rightarrow> unit res" where
  "spaced latest stamp =
     (case latest of
        None \<Rightarrow> Inr ()
      | Some l \<Rightarrow>
          if stamp \<le> loc_recorded_at l
          then Inl (HTTPException 409 ''Location timestamp must be newer than the previous update'')
          else if elapsed_seconds (loc_recorded_at l) stamp < of_int MIN_LOCATION_INTERVAL_SECONDS
          then Inl (HTTPException 429 ''Location updates are limited to one every 5 seconds'')
          else Inr ())"

definition credible_report :: "location_create \<Rightarrow> unit res" where
  "credible_report p =
     (if (case lcc_accuracy_m p of None \<Rightarrow> False | Some a \<Rightarrow> 500 < a)
      then Inl (HTTPException 422 ''Location accuracy is too poor'')
      else if (case lcc_speed_mps p of None \<Rightarrow> False | Some v \<Rightarrow> MAX_REPORTED_SPEED_MPS < v)
      then Inl (HTTPException 422 ''Reported rider speed is implausible'')
      else Inr ())"

definition plausible_jump ::
  "(point \<Rightarrow> point \<Rightarrow> rat) \<Rightarrow> delivery_location option \<Rightarrow> location_create \<Rightarrow> unit res" where
  "plausible_jump distance_m latest p =
     (case latest of
        None \<Rightarrow> Inr ()
      | Some l \<Rightarrow>
          if MAX_PLAUSIBLE_SPEED_MPS < distance_m (loc_latitude l, loc_longitude l) (lcc_latitude p, lcc_longitude p)
               / elapsed_seconds (loc_recorded_at l) (lcc_recorded_at p)
          then Inl (HTTPException 422 ''Location jump is physically implausible'') else Inr ())"

definition hardened_record_delivery_location ::
  "(point \<Rightarrow> point \<Rightarrow> rat) \<Rightarrow> timestamp \<Rightarrow> user \<Rightarrow> uuid \<Rightarrow> location_create \<Rightarrow>
     (delivery_location, 'm) platform_handler" where
  "hardened_record_delivery_location distance_m now rider did p d =
     attempt (require_roles [DELIVERY] rider) d (\<lambda>_.
     if \<not> valid_location p then raise_http 422 ''body'' d else
     attempt (tracked_delivery rider did d) d (\<lambda>x.
     attempt (timely now (lcc_recorded_at p)) d (\<lambda>_.
     attempt (credible_report p) d (\<lambda>_.
     attempt (spaced (latest_location d (dlv_id x)) (lcc_recorded_at p)) d (\<lambda>_.
     attempt (plausible_jump distance_m (latest_location d (dlv_id x)) p) d (\<lambda>_.
     add_location (dlv_id x) (usr_id rider) p d))))))"

text \<open>The recorder it shadows, \<open>routes/tracking.py\<close>.\<close>

definition record_delivery_location ::
  "timestamp \<Rightarrow> user \<Rightarrow> uuid \<Rightarrow> location_create \<Rightarrow> (delivery_location, 'm) platform_handler" where
  "record_delivery_location now rider did p d =
     attempt (require_roles [DELIVERY] rider) d (\<lambda>_.
     if \<not> valid_location p then raise_http 422 ''body'' d else
     attempt (tracked_delivery rider did d) d (\<lambda>x.
     attempt (timely now (lcc_recorded_at p)) d (\<lambda>_.
     attempt (spaced (latest_location d (dlv_id x)) (lcc_recorded_at p)) d (\<lambda>_.
     add_location (dlv_id x) (usr_id rider) p d))))"

section \<open>Who may follow an order\<close>

definition can_view_tracking :: "'m database_scheme \<Rightarrow> order \<Rightarrow> delivery option \<Rightarrow> user \<Rightarrow> bool" where
  "can_view_tracking d o1 x u \<longleftrightarrow>
     usr_role u = ADMIN \<or> ord_user_id o1 = usr_id u
     \<or> (case x of None \<Rightarrow> False | Some y \<Rightarrow> dlv_delivery_partner_id y = Some (usr_id u))
     \<or> usr_role u = MERCHANT \<and>
        (case (merchant_of_owner d (usr_id u), get_store d (ord_store_id o1)) of
           (Some m, Some s) \<Rightarrow> sto_merchant_id s = mer_id m
         | _ \<Rightarrow> False)"

definition tracking_context ::
  "'m database_scheme \<Rightarrow> uuid \<Rightarrow> user \<Rightarrow> (order \<times> delivery option \<times> store option \<times> address option) res" where
  "tracking_context d oid u =
     res_bind (if usr_role u = ADMIN then ensure_capability u ORDER_READ else Inr u) (\<lambda>_.
     case get_order d oid of
       None \<Rightarrow> Inl (HTTPException 404 ''Order not found'')
     | Some o1 \<Rightarrow>
         let x = delivery_of_order d (ord_id o1)
         in if \<not> can_view_tracking d o1 x u
            then Inl (HTTPException 403 ''You cannot view tracking for this order'')
            else Inr (o1, x, get_store d (ord_store_id o1), get_address d (ord_address_id o1)))"

record tracking_point =
  tpt_latitude :: "rat option"
  tpt_longitude :: "rat option"
  tpt_label :: "string option"

record order_tracking_read =
  otr_order_id :: uuid
  otr_order_number :: string
  otr_order_status :: order_status
  otr_delivery_id :: "uuid option"
  otr_delivery_status :: "delivery_status option"
  otr_tracking_active :: bool
  otr_store :: tracking_point
  otr_customer :: tracking_point
  otr_rider :: "delivery_location option"
  otr_rider_location_age_seconds :: "int option"

definition active_tracking :: "delivery option \<Rightarrow> bool" where
  "active_tracking x = (case x of None \<Rightarrow> False | Some y \<Rightarrow> dlv_status y \<in> set ACTIVE_TRACKING_STATUSES)"

definition age_seconds :: "timestamp \<Rightarrow> timestamp \<Rightarrow> int" where
  "age_seconds now stamp = (if stamp \<le> now then (now - stamp) div 1000000 else 0)"

definition order_tracking :: "timestamp \<Rightarrow> uuid \<Rightarrow> user \<Rightarrow> (order_tracking_read, 'm) platform_handler" where
  "order_tracking now oid u d =
     attempt (tracking_context d oid u) d (\<lambda>(o1, x, s, a).
     let latest = (if active_tracking x then Option.bind x (\<lambda>y. latest_location d (dlv_id y)) else None)
     in (Inr \<lparr>otr_order_id = ord_id o1, otr_order_number = ord_order_number o1, otr_order_status = ord_status o1,
          otr_delivery_id = map_option dlv_id x, otr_delivery_status = map_option dlv_status x,
          otr_tracking_active = active_tracking x,
          otr_store = \<lparr>tpt_latitude = Option.bind s sto_latitude, tpt_longitude = Option.bind s sto_longitude,
                       tpt_label = map_option sto_name s\<rparr>,
          otr_customer = \<lparr>tpt_latitude = Option.bind a adr_latitude, tpt_longitude = Option.bind a adr_longitude,
                          tpt_label = map_option adr_landmark a\<rparr>,
          otr_rider = latest,
          otr_rider_location_age_seconds = map_option (\<lambda>l. age_seconds now (loc_recorded_at l)) latest\<rparr>, d))"

section \<open>Routes\<close>

definition ROUTE_CACHE_TTL_SECONDS :: int where "ROUTE_CACHE_TTL_SECONDS = 25"
definition ROUTE_CACHE_MAX_ENTRIES :: nat where "ROUTE_CACHE_MAX_ENTRIES = 512"

record route_result =
  rte_distance_meters :: int
  rte_duration_seconds :: int
  rte_encoded_polyline :: string

type_synonym route_key = "rat \<times> rat \<times> rat \<times> rat"

text \<open>The dictionary in insertion order; assigning to a key that is there keeps its place.\<close>

type_synonym route_cache = "(route_key \<times> timestamp \<times> route_result option) list"

fun cache_set :: "route_key \<Rightarrow> timestamp \<times> route_result option \<Rightarrow> route_cache \<Rightarrow> route_cache" where
  "cache_set k v [] = [(k, v)]"
| "cache_set k v (e # c) = (if fst e = k then (k, v) # c else e # cache_set k v c)"

definition cache_pop :: "route_key \<Rightarrow> route_cache \<Rightarrow> route_cache" where
  "cache_pop k c = filter (\<lambda>e. fst e \<noteq> k) c"

fun evict :: "nat \<Rightarrow> route_cache \<Rightarrow> route_cache" where
  "evict most [] = []"
| "evict most (e # c) = (if most \<le> length (e # c) then evict most c else e # c)"

definition maps_enabled :: "'c platform_settings_scheme \<Rightarrow> bool" where
  "maps_enabled cfg \<longleftrightarrow>
     strip (ascii_lower (cfg_maps_provider cfg)) = ''google'' \<and> text_or_none (cfg_maps_api_key cfg) \<noteq> None"

definition cache_key :: "point \<Rightarrow> point \<Rightarrow> route_key" where
  "cache_key p q = (py_round 4 (fst p), py_round 4 (snd p), py_round 4 (fst q), py_round 4 (snd q))"

text \<open>The hit, if there is one, and the cache without the entry when it had expired.\<close>

definition cached_route :: "timestamp \<Rightarrow> route_key \<Rightarrow> route_cache \<Rightarrow> route_result option option \<times> route_cache" where
  "cached_route now k c =
     (case map_of c k of
        None \<Rightarrow> (None, c)
      | Some (expires_at, r) \<Rightarrow> if expires_at \<le> now then (None, cache_pop k c) else (Some r, c))"

definition store_cache :: "timestamp \<Rightarrow> route_key \<Rightarrow> route_result option \<Rightarrow> route_cache \<Rightarrow> route_cache" where
  "store_cache now k r c =
     (let c1 = (if ROUTE_CACHE_MAX_ENTRIES \<le> length c
                then evict ROUTE_CACHE_MAX_ENTRIES (filter (\<lambda>(k, expires_at, r). now < expires_at) c) else c)
      in cache_set k (now + seconds ROUTE_CACHE_TTL_SECONDS, r) c1)"

text \<open>\<open>_seconds\<close>: \<open>float\<close> is None when the parser raises.\<close>

definition route_seconds :: "(string \<Rightarrow> rat option) \<Rightarrow> string option \<Rightarrow> int" where
  "route_seconds float v =
     (case text_or_none v of
        None \<Rightarrow> 0
      | Some t \<Rightarrow>
          if last t \<noteq> CHR ''s'' then 0
          else (case float (butlast t) of None \<Rightarrow> 0 | Some x \<Rightarrow> max 0 (round_half_even x)))"

record route_json =
  rtj_distance_meters :: "int option"
  rtj_duration :: "string option"
  rtj_polyline :: "string option"

definition route_of_json :: "(string \<Rightarrow> rat option) \<Rightarrow> route_json \<Rightarrow> route_result" where
  "route_of_json float j =
     \<lparr>rte_distance_meters = max 0 (case rtj_distance_meters j of None \<Rightarrow> 0 | Some n \<Rightarrow> n),
      rte_duration_seconds = route_seconds float (rtj_duration j),
      rte_encoded_polyline = (case rtj_polyline j of None \<Rightarrow> [] | Some t \<Rightarrow> t)\<rparr>"

text \<open>\<open>post\<close>: None when the exchange or its JSON failed. \<open>asked\<close> and \<open>answered\<close> are the two clock reads.\<close>

definition compute_route ::
  "(string \<Rightarrow> rat option) \<Rightarrow> (point \<Rightarrow> point \<Rightarrow> route_json list option) \<Rightarrow> 'c platform_settings_scheme \<Rightarrow>
     timestamp \<Rightarrow> timestamp \<Rightarrow> point \<Rightarrow> point \<Rightarrow> route_cache \<Rightarrow> route_result option \<times> route_cache" where
  "compute_route float post cfg asked answered p q c =
     (if \<not> maps_enabled cfg then (None, c)
      else case cached_route asked (cache_key p q) c of
        (Some r, c1) \<Rightarrow> (r, c1)
      | (None, c1) \<Rightarrow>
          let r = (case post p q of None \<Rightarrow> None | Some [] \<Rightarrow> None | Some (j # _) \<Rightarrow> Some (route_of_json float j))
          in (r, store_cache answered (cache_key p q) r c1))"

record route_read =
  rrd_available :: bool
  rrd_provider :: string
  rrd_origin :: tracking_point
  rrd_destination :: tracking_point
  rrd_result :: "route_result option"

definition location_is_fresh :: "timestamp \<Rightarrow> delivery_location \<Rightarrow> bool" where
  "location_is_fresh now l \<longleftrightarrow>
     loc_recorded_at l \<le> now \<and> now - loc_recorded_at l \<le> seconds FRESH_ROUTE_LOCATION_SECONDS"

definition order_route ::
  "(string \<Rightarrow> rat option) \<Rightarrow> (point \<Rightarrow> point \<Rightarrow> route_json list option) \<Rightarrow> 'c platform_settings_scheme \<Rightarrow>
     rate_outcome \<Rightarrow> timestamp \<Rightarrow> timestamp \<Rightarrow> timestamp \<Rightarrow> uuid \<Rightarrow> user \<Rightarrow> route_cache \<Rightarrow> 'm platform_scheme \<Rightarrow>
     route_read res \<times> route_cache" where
  "order_route float post cfg rate now asked answered oid u c d =
     (case tracking_context d oid u of
        Inl e \<Rightarrow> (Inl e, c)
      | Inr (o1, x, s, a) \<Rightarrow>
          let latest = (case x of None \<Rightarrow> None
                | Some y \<Rightarrow> if dlv_status y = PICKED_UP then latest_location d (dlv_id y) else None);
              origin = \<lparr>tpt_latitude = map_option loc_latitude latest, tpt_longitude = map_option loc_longitude latest,
                        tpt_label = map_option (\<lambda>_. ''Delivery partner'') latest\<rparr>;
              destination = \<lparr>tpt_latitude = Option.bind a adr_latitude, tpt_longitude = Option.bind a adr_longitude,
                        tpt_label = Some (case a of None \<Rightarrow> ''Delivery address'' | Some b \<Rightarrow> adr_landmark b)\<rparr>;
              answer = (\<lambda>av pr r. \<lparr>rrd_available = av, rrd_provider = pr, rrd_origin = origin,
                        rrd_destination = destination, rrd_result = r\<rparr>)
          in case (if \<not> maps_enabled cfg then None else latest) of
               None \<Rightarrow> (Inr (answer False ''none'' None), c)
             | Some l \<Rightarrow>
                 (case (if location_is_fresh now l then located (tpt_latitude destination) (tpt_longitude destination)
                        else None) of
                    None \<Rightarrow> (Inr (answer False ''none'' None), c)
                  | Some q \<Rightarrow>
                      (case limit_provider rate of
                         Inl e \<Rightarrow> (Inl e, c)
                       | Inr _ \<Rightarrow>
                           (case compute_route float post cfg asked answered (loc_latitude l, loc_longitude l) q c of
                              (None, c1) \<Rightarrow> (Inr (answer False ''google'' None), c1)
                            | (Some r, c1) \<Rightarrow> (Inr (answer True ''google'' (Some r)), c1)))))"

section \<open>Frames\<close>

lemma outsider_add_location: "outsider d (snd (add_location did rid p d))"
  using fresh_next [of d "map loc_id (delivery_locations d)"]
  by (simp add: add_location_def Let_def outsider_def keeps_defs quiet_def shelf_def)

lemma outsider_tracking:
  "outsider d (snd (hardened_record_delivery_location distance_m now u did p d))"
  "outsider d (snd (record_delivery_location now u did p d))" "outsider d (snd (order_tracking now oid u d))"
  by (auto simp: hardened_record_delivery_location_def record_delivery_location_def order_tracking_def
      attempt_def Let_def case_prod_beta outsider_add_location split: sum.split)

section \<open>The trail of a delivery\<close>

text \<open>The next fix: at least the interval later, and reachable at the plausible speed.\<close>

definition follows :: "(point \<Rightarrow> point \<Rightarrow> rat) \<Rightarrow> delivery_location \<Rightarrow> delivery_location \<Rightarrow> bool" where
  "follows distance_m l m \<longleftrightarrow>
     loc_recorded_at l + seconds MIN_LOCATION_INTERVAL_SECONDS \<le> loc_recorded_at m
     \<and> distance_m (loc_latitude l, loc_longitude l) (loc_latitude m, loc_longitude m)
         \<le> MAX_PLAUSIBLE_SPEED_MPS * elapsed_seconds (loc_recorded_at l) (loc_recorded_at m)"

definition trails_ok :: "(point \<Rightarrow> point \<Rightarrow> rat) \<Rightarrow> 'm platform_scheme \<Rightarrow> bool" where
  "trails_ok distance_m d \<longleftrightarrow> (\<forall>did. successively (follows distance_m) (fixes_of d did))"

lemma latest_by_last:
  "successively (\<lambda>a b. f a < (f b :: int)) xs \<Longrightarrow> xs \<noteq> [] \<Longrightarrow> latest_by f xs = Some (last xs)"
proof (induction xs rule: rev_induct)
  case (snoc x xs)
  have "sorted_wrt (\<lambda>a b. f a < f b) (xs @ [x])"
    using snoc.prems(1) by (subst successively_conv_sorted_wrt [symmetric]) (auto simp: transp_def)
  then have "\<And>y. y \<in> set xs \<Longrightarrow> f y \<le> f x" by (auto simp: sorted_wrt_append less_imp_le)
  then show ?case by (simp add: latest_by_snoc_max)
qed simp

lemma follows_newer: "follows distance_m l m \<Longrightarrow> loc_recorded_at l < loc_recorded_at m"
  by (simp add: follows_def MIN_LOCATION_INTERVAL_SECONDS_def seconds_def)

lemma latest_of_trail:
  assumes "trails_ok distance_m d" and "fixes_of d did \<noteq> []"
  shows "latest_location d did = Some (last (fixes_of d did))"
proof -
  have "successively (follows distance_m) (fixes_of d did)" using assms(1) by (simp add: trails_ok_def)
  then have "successively (\<lambda>a b. loc_recorded_at a < loc_recorded_at b) (fixes_of d did)"
    by (rule successively_mono) (rule follows_newer)
  then show ?thesis unfolding latest_location_def by (rule latest_by_last) (fact assms(2))
qed

lemma spaced_follows:
  assumes "spaced (Some l) (lcc_recorded_at p) = Inr u" and "plausible_jump distance_m (Some l) p = Inr v"
  shows "follows distance_m l (location_of i did rid p)"
proof -
  let ?e = "elapsed_seconds (loc_recorded_at l) (lcc_recorded_at p)"
  have e: "5 \<le> ?e" using assms(1) by (auto simp: spaced_def MIN_LOCATION_INTERVAL_SECONDS_def split: if_splits)
  then have "(5000000 :: rat) \<le> of_int (lcc_recorded_at p - loc_recorded_at l)"
    by (simp add: elapsed_seconds_def field_simps)
  then have "5000000 \<le> lcc_recorded_at p - loc_recorded_at l" by linarith
  moreover have "distance_m (loc_latitude l, loc_longitude l) (lcc_latitude p, lcc_longitude p) / ?e \<le> MAX_PLAUSIBLE_SPEED_MPS"
    using assms(2) by (auto simp: plausible_jump_def split: if_splits)
  then have "distance_m (loc_latitude l, loc_longitude l) (lcc_latitude p, lcc_longitude p) \<le> MAX_PLAUSIBLE_SPEED_MPS * ?e"
    using e by (simp add: pos_divide_le_eq)
  ultimately show ?thesis
    by (simp add: follows_def location_of_def MIN_LOCATION_INTERVAL_SECONDS_def seconds_def)
qed

lemma trails_record:
  assumes ok: "trails_ok distance_m d"
  shows "trails_ok distance_m (snd (hardened_record_delivery_location distance_m now u did p d))"
proof -
  have "trails_ok distance_m (snd (add_location k r p d))"
    if "spaced (latest_location d k) (lcc_recorded_at p) = Inr x" "plausible_jump distance_m (latest_location d k) p = Inr y"
    for k r x y
  proof -
    let ?l = "location_of (fresh_id (map loc_id (delivery_locations d)) d) k r p"
    have grown: "fixes_of (snd (add_location k r p d)) j = fixes_of d j @ (if j = k then [?l] else [])" for j
      by (simp add: add_location_def Let_def fixes_of_def location_of_def)
    have "successively (follows distance_m) (fixes_of d k @ [?l])"
    proof (cases "fixes_of d k = []")
      case False
      with latest_of_trail [OF ok] that have "follows distance_m (last (fixes_of d k)) ?l"
        by (metis spaced_follows)
      with ok show ?thesis by (simp add: trails_ok_def successively_append_iff)
    qed simp
    with ok show ?thesis by (simp add: trails_ok_def grown)
  qed
  with ok show ?thesis
    by (auto simp: hardened_record_delivery_location_def attempt_def split: sum.split)
qed

text \<open>Only the assigned rider of an active delivery adds a fix.\<close>

lemma fix_added_by_rider:
  assumes "delivery_locations (snd (hardened_record_delivery_location distance_m now u did p d)) \<noteq> delivery_locations d"
  obtains x where "get_delivery d did = Some x" "dlv_delivery_partner_id x = Some (usr_id u)"
    "dlv_status x \<in> {ASSIGNED, PICKED_UP}"
  using assms
  by (auto simp: hardened_record_delivery_location_def attempt_def tracked_delivery_def ACTIVE_TRACKING_STATUSES_def
      split: sum.splits option.splits if_splits)

section \<open>The route cache\<close>

lemma evict_drop: "0 < most \<Longrightarrow> evict most c = drop (Suc (length c) - most) c"
  by (induction c) (auto simp: Suc_diff_le)

lemma cache_set_length: "length (cache_set k v c) \<le> Suc (length c)"
  by (induction c) auto

lemma cache_set_get: "map_of (cache_set k v c) j = (if j = k then Some v else map_of c j)"
  by (induction c) auto

lemma store_cache_bounded:
  "length c \<le> ROUTE_CACHE_MAX_ENTRIES \<Longrightarrow> length (store_cache now k r c) \<le> ROUTE_CACHE_MAX_ENTRIES"
proof -
  assume c: "length c \<le> ROUTE_CACHE_MAX_ENTRIES"
  let ?c = "if ROUTE_CACHE_MAX_ENTRIES \<le> length c
    then evict ROUTE_CACHE_MAX_ENTRIES (filter (\<lambda>(k, expires_at, r). now < expires_at) c) else c"
  have "length ?c < ROUTE_CACHE_MAX_ENTRIES"
    using c by (auto simp: evict_drop ROUTE_CACHE_MAX_ENTRIES_def)
  then show ?thesis
    using cache_set_length [of k "(now + seconds ROUTE_CACHE_TTL_SECONDS, r)" ?c]
    by (simp add: store_cache_def Let_def)
qed

lemma cached_route_shrinks: "length (snd (cached_route now k c)) \<le> length c"
  by (auto simp: cached_route_def cache_pop_def split: option.split)

lemma compute_route_bounded:
  assumes "length c \<le> ROUTE_CACHE_MAX_ENTRIES"
  shows "length (snd (compute_route float post cfg asked answered p q c)) \<le> ROUTE_CACHE_MAX_ENTRIES"
  using assms cached_route_shrinks [of asked "cache_key p q" c]
  by (auto simp: compute_route_def Let_def split: prod.splits option.splits intro: store_cache_bounded)

text \<open>Within the lifetime of an answer the same route is not asked again.\<close>

lemma store_then_cached:
  "now \<le> later \<Longrightarrow> later < now + seconds ROUTE_CACHE_TTL_SECONDS \<Longrightarrow>
     cached_route later k (store_cache now k r c) = (Some r, store_cache now k r c)"
  by (simp add: cached_route_def store_cache_def Let_def cache_set_get)

end
