(* ===== verification/Support.thy ===== *)
theory Support
  imports Geography
begin

text \<open>
  Support tickets: \<open>services/support_triage.py\<close> and \<open>routes/support.py\<close>. Text is a list of code
  points; \<open>lower\<close> is \<open>str.lower\<close> (Python's Unicode tables), a parameter. \<open>seen\<close> says whether the
  first lookup of an idempotency key saw the ticket. Lemmas: every operation is an outsider's
  step, the resolution stamp agrees with the status, versions only grow, a repeated request
  makes no second row, and a requester reads public messages only.
\<close>

section \<open>Triage\<close>

definition ascii :: "string \<Rightarrow> utext" where
  "ascii s = map of_char s"

fun has_term :: "utext \<Rightarrow> utext \<Rightarrow> bool" where
  "has_term p [] = (p = [])"
| "has_term p (c # t) = (take (length p) (c # t) = p \<or> has_term p t)"

definition CATEGORIES :: "(string \<times> utext list) list" where
  "CATEGORIES =
     [(''payment'', map ascii [''payment'', ''charged'', ''refund'', ''upi'', ''cod'', ''money'']
        @ [[2346, 2375, 2350, 2375, 2306, 2335], [2352, 2367, 2347, 2306, 2337]]),
      (''delivery'', map ascii [''delivery'', ''rider'', ''late'', ''missing'', ''delivered'']
        @ [[2337, 2367, 2354, 2368, 2357, 2352, 2368], [2352, 2366, 2351, 2337, 2352]]),
      (''order'', map ascii [''order'', ''item'', ''wrong'', ''damaged'', ''quantity'']
        @ [[2321, 2352, 2381, 2337, 2352], [2360, 2366, 2350, 2366, 2344], [2326, 2352, 2366, 2348]]),
      (''account'', map ascii [''login'', ''otp'', ''account'', ''profile'']
        @ [[2354, 2377, 2327, 2367, 2344], [2323, 2335, 2368, 2346, 2368]])]"

definition URGENT :: "utext list" where
  "URGENT = map ascii [''fraud'', ''charged twice'', ''double charged'', ''unsafe'', ''threat'', ''accident'', ''medical'']"

definition HIGH :: "utext list" where
  "HIGH = map ascii [''not delivered'', ''late'', ''missing'', ''refund'', ''damaged'', ''wrong item'',
     ''cancelled but charged'']"

definition category_of :: "utext \<Rightarrow> string" where
  "category_of t =
     (case filter (\<lambda>(name, terms). \<exists>p \<in> set terms. has_term p t) CATEGORIES of
        [] \<Rightarrow> ''general'' | (name, _) # _ \<Rightarrow> name)"

definition priority_of :: "utext \<Rightarrow> string" where
  "priority_of t =
     (if \<exists>p \<in> set URGENT. has_term p t then ''urgent''
      else if \<exists>p \<in> set HIGH. has_term p t then ''high''
      else if category_of t \<in> {''payment'', ''delivery''} then ''medium'' else ''normal'')"

definition actions :: "(string \<times> string) list" where
  "actions =
     [(''payment'', ''Review payment attempt, provider events and settlement state; do not change ''
         @ ''financial state manually.''),
      (''delivery'', ''Review lifecycle, assignment, latest location and proof or failure evidence.''),
      (''order'', ''Review order items, merchant transitions and cancellation or refund eligibility.''),
      (''account'', ''Review authentication events without exposing OTPs or credentials.'')]"

record triage =
  tri_category :: string
  tri_priority :: string
  tri_summary :: utext
  tri_suggested_action :: string

definition triage_ticket :: "(utext \<Rightarrow> utext) \<Rightarrow> utext \<Rightarrow> utext \<Rightarrow> triage" where
  "triage_ticket lower subject description =
     (let t = ustrip (lower (subject @ [32] @ description));
          summary = take 500 (map (\<lambda>c. if c = 10 then 32 else c) (ustrip description))
      in \<lparr>tri_category = category_of t, tri_priority = priority_of t,
          tri_summary = (if summary = [] then ustrip subject else summary),
          tri_suggested_action =
            (case map_of actions (category_of t) of
               None \<Rightarrow> ''Review the customer context and route it to the responsible operator.''
             | Some a \<Rightarrow> a)\<rparr>)"

section \<open>Tickets and messages\<close>

definition ALLOWED_TRANSITIONS :: "(string \<times> string list) list" where
  "ALLOWED_TRANSITIONS =
     [(''open'', [''in_progress'', ''waiting_customer'', ''resolved'', ''closed'']),
      (''in_progress'', [''waiting_customer'', ''resolved'', ''closed'']),
      (''waiting_customer'', [''in_progress'', ''resolved'', ''closed'']),
      (''resolved'', [''in_progress'', ''closed'']),
      (''closed'', [''open''])]"

record ticket_create =
  tcr_subject :: utext
  tcr_description :: utext
  tcr_store_id :: "uuid option"
  tcr_order_id :: "uuid option"
  tcr_delivery_id :: "uuid option"
  tcr_idempotency_key :: "uuid option"

record ticket_update =
  tup_status :: string
  tup_resolution_notes :: "utext option option"
  tup_expected_version :: "int option"

record message_create =
  mcr_body :: utext
  mcr_idempotency_key :: uuid

definition get_ticket :: "'m platform_scheme \<Rightarrow> uuid \<Rightarrow> support_ticket option" where
  "get_ticket d = get_row tkt_id (support_tickets d)"

definition flush_ticket :: "support_ticket \<Rightarrow> 'm platform_scheme \<Rightarrow> 'm platform_scheme" where
  "flush_ticket t d = d\<lparr>support_tickets := put_row tkt_id t (support_tickets d)\<rparr>"

interpretation ticket_rows: row_store get_ticket flush_ticket tkt_id "\<lambda>t. t"
  by unfold_locales (auto simp: get_ticket_def flush_ticket_def table_simps)

definition messages_of ::
  "'m platform_scheme \<Rightarrow> uuid \<Rightarrow> string \<Rightarrow> int \<Rightarrow> int \<Rightarrow> support_message list" where
  "messages_of d tid visibility limit offset =
     page limit offset (sort_key (\<lambda>m. (msg_created_at m, msg_id m))
       (filter (\<lambda>m. msg_ticket_id m = tid \<and> msg_visibility m = visibility) (support_messages d)))"

record message_read =
  mrd_id :: uuid
  mrd_author_type :: string
  mrd_body :: utext
  mrd_created_at :: timestamp
  mrd_author_user_id :: "uuid option"

text \<open>The public serialisation hides the author's account.\<close>

definition public_message :: "support_message \<Rightarrow> message_read" where
  "public_message m = \<lparr>mrd_id = msg_id m, mrd_author_type = msg_author_type m, mrd_body = msg_body m,
     mrd_created_at = msg_created_at m, mrd_author_user_id = None\<rparr>"

definition internal_message :: "support_message \<Rightarrow> message_read" where
  "internal_message m = (public_message m)\<lparr>mrd_author_user_id := msg_author_user_id m\<rparr>"

record ticket_read =
  trd_id :: uuid
  trd_user_id :: uuid
  trd_refs :: "uuid option \<times> uuid option \<times> uuid option"
  trd_requester_type :: "string option"
  trd_subject :: utext
  trd_description :: utext
  trd_category :: string
  trd_priority :: string
  trd_status :: string
  trd_resolution_notes :: "utext option"
  trd_version :: int
  trd_created_at :: timestamp
  trd_resolved_at :: "timestamp option"

definition public_read :: "support_ticket \<Rightarrow> ticket_read" where
  "public_read t =
     \<lparr>trd_id = tkt_id t, trd_user_id = tkt_user_id t,
      trd_refs = (tkt_store_id t, tkt_order_id t, tkt_delivery_id t), trd_requester_type = tkt_requester_type t,
      trd_subject = tkt_subject t, trd_description = tkt_description t, trd_category = tkt_category t,
      trd_priority = tkt_priority t, trd_status = tkt_status t, trd_resolution_notes = tkt_resolution_notes t,
      trd_version = tkt_version t, trd_created_at = tkt_created_at t, trd_resolved_at = tkt_resolved_at t\<rparr>"

record admin_ticket_read =
  atr_ticket :: ticket_read
  atr_assigned_admin_id :: "uuid option"
  atr_triage_summary :: utext
  atr_suggested_action :: string

definition admin_read :: "support_ticket \<Rightarrow> admin_ticket_read" where
  "admin_read t = \<lparr>atr_ticket = public_read t, atr_assigned_admin_id = tkt_assigned_admin_id t,
     atr_triage_summary = tkt_triage_summary t, atr_suggested_action = tkt_suggested_action t\<rparr>"

section \<open>The context a ticket refers to\<close>

definition HIDDEN :: exn where "HIDDEN = HTTPException 404 ''Linked support context not found''"

definition missing :: "user \<Rightarrow> string \<Rightarrow> exn" where
  "missing u resource =
     (if usr_role u = ADMIN then HTTPException 404 (resource @ '' not found'') else HIDDEN)"

text \<open>A reference that was given must exist.\<close>

definition referenced :: "exn \<Rightarrow> uuid option \<Rightarrow> (uuid \<Rightarrow> 'r option) \<Rightarrow> 'r option res" where
  "referenced e i get =
     (case i of None \<Rightarrow> Inr None | Some k \<Rightarrow> (case get k of None \<Rightarrow> Inl e | Some r \<Rightarrow> Inr (Some r)))"

fun somes :: "'a option list \<Rightarrow> 'a list" where
  "somes [] = []"
| "somes (None # xs) = somes xs"
| "somes (Some x # xs) = x # somes xs"

text \<open>Whether the requester may refer to it: given order, given delivery, its order, given store.\<close>

definition customer_refused :: "user \<Rightarrow> order option \<Rightarrow> order option \<Rightarrow> store option \<Rightarrow> bool" where
  "customer_refused u eo dlo es \<longleftrightarrow>
     (let authorized = somes [eo, dlo]
      in authorized = [] \<or> (\<exists>o1 \<in> set authorized. ord_user_id o1 \<noteq> usr_id u)
         \<or> (case (eo, dlo) of (Some a, Some b) \<Rightarrow> ord_id a \<noteq> ord_id b | _ \<Rightarrow> False)
         \<or> (case es of None \<Rightarrow> False | Some s \<Rightarrow> \<exists>o1 \<in> set authorized. ord_store_id o1 \<noteq> sto_id s))"

definition merchant_refused ::
  "'m database_scheme \<Rightarrow> user \<Rightarrow> order option \<Rightarrow> order option \<Rightarrow> store option \<Rightarrow> bool" where
  "merchant_refused d u eo dlo es \<longleftrightarrow>
     (let referred = somes [es, Option.bind eo (\<lambda>a. get_store d (ord_store_id a)),
            Option.bind dlo (\<lambda>b. get_store d (ord_store_id b))]
      in case merchant_of_owner d (usr_id u) of
           None \<Rightarrow> True
         | Some m \<Rightarrow> referred = [] \<or> (\<exists>s \<in> set referred. sto_merchant_id s \<noteq> mer_id m))"

definition rider_refused :: "user \<Rightarrow> order option \<Rightarrow> delivery option \<Rightarrow> order option \<Rightarrow> store option \<Rightarrow> bool" where
  "rider_refused u eo ed dlo es \<longleftrightarrow>
     (case ed of None \<Rightarrow> True | Some x \<Rightarrow> dlv_delivery_partner_id x \<noteq> Some (usr_id u))
     \<or> (case (eo, dlo) of (Some a, Some b) \<Rightarrow> ord_id a \<noteq> ord_id b | _ \<Rightarrow> False)
     \<or> (case (es, dlo) of (Some s, Some b) \<Rightarrow> sto_id s \<noteq> ord_store_id b | _ \<Rightarrow> False)"

definition has_reference :: "ticket_create \<Rightarrow> bool" where
  "has_reference p \<longleftrightarrow> tcr_store_id p \<noteq> None \<or> tcr_order_id p \<noteq> None \<or> tcr_delivery_id p \<noteq> None"

definition requester_refused ::
  "'m database_scheme \<Rightarrow> user \<Rightarrow> order option \<Rightarrow> delivery option \<Rightarrow> order option \<Rightarrow> store option \<Rightarrow> bool" where
  "requester_refused d u eo ed dlo es \<longleftrightarrow>
     (case usr_role u of
        CUSTOMER \<Rightarrow> customer_refused u eo dlo es
      | MERCHANT \<Rightarrow> merchant_refused d u eo dlo es
      | DELIVERY \<Rightarrow> rider_refused u eo ed dlo es
      | ADMIN \<Rightarrow> False)"

text \<open>The relations between what was referred to, checked last.\<close>

definition related_context ::
  "'m database_scheme \<Rightarrow> order option \<Rightarrow> delivery option \<Rightarrow> order option \<Rightarrow> store option \<Rightarrow>
     (order option \<times> delivery option \<times> store option) res" where
  "related_context d eo ed dlo es =
     (if (case (eo, dlo) of (Some a, Some b) \<Rightarrow> ord_id a \<noteq> ord_id b | _ \<Rightarrow> False)
      then Inl (HTTPException 422 ''Delivery does not belong to the referenced order'')
      else
        let o1 = or_else eo dlo
        in if (case (es, o1) of (Some s, Some a) \<Rightarrow> ord_store_id a \<noteq> sto_id s | _ \<Rightarrow> False)
           then Inl (HTTPException 422 ''Order does not belong to the referenced store'')
           else
             let s = or_else es (Option.bind o1 (\<lambda>a. get_store d (ord_store_id a)))
             in if o1 \<noteq> None \<and> s = None then Inl HIDDEN else Inr (o1, ed, s))"

definition validate_references ::
  "'m database_scheme \<Rightarrow> ticket_create \<Rightarrow> user \<Rightarrow> (order option \<times> delivery option \<times> store option) res" where
  "validate_references d p u =
     res_bind (if usr_role u = ADMIN then ensure_capability u SUPPORT_MANAGE else Inr u) (\<lambda>_.
     res_bind (referenced (missing u ''Order'') (tcr_order_id p) (get_order d)) (\<lambda>eo.
     res_bind (referenced (missing u ''Delivery'') (tcr_delivery_id p) (get_delivery d)) (\<lambda>ed.
     res_bind (referenced (missing u ''Delivery'') (map_option dlv_order_id ed) (get_order d)) (\<lambda>dlo.
     res_bind (referenced (missing u ''Store'') (tcr_store_id p) (get_store d)) (\<lambda>es.
     if has_reference p \<and> requester_refused d u eo ed dlo es then Inl HIDDEN
     else related_context d eo ed dlo es)))))"

section \<open>Requesters\<close>

definition ticket_of_key :: "'m platform_scheme \<Rightarrow> uuid \<Rightarrow> uuid option \<Rightarrow> support_ticket option" where
  "ticket_of_key d uid key =
     (case key of
        None \<Rightarrow> None
      | Some k \<Rightarrow> find (\<lambda>t. tkt_user_id t = uid \<and> tkt_idempotency_key t = Some k) (support_tickets d))"

definition replayed_ticket ::
  "support_ticket \<Rightarrow> ticket_create \<Rightarrow> order option \<times> delivery option \<times> store option \<Rightarrow> ticket_read res" where
  "replayed_ticket t p ctx =
     (case ctx of (o1, x, s) \<Rightarrow>
        if tkt_subject t = ustrip (tcr_subject p) \<and> tkt_description t = ustrip (tcr_description p)
           \<and> tkt_order_id t = map_option ord_id o1 \<and> tkt_delivery_id t = map_option dlv_id x
           \<and> tkt_store_id t = map_option sto_id s
        then Inr (public_read t) else Inl (HTTPException 409 ''Idempotency key payload mismatch''))"

definition new_ticket ::
  "(utext \<Rightarrow> utext) \<Rightarrow> timestamp \<Rightarrow> uuid \<Rightarrow> user \<Rightarrow> ticket_create \<Rightarrow> order option \<times> delivery option \<times> store option \<Rightarrow>
     support_ticket" where
  "new_ticket lower now i u p ctx =
     (let tri = triage_ticket lower (tcr_subject p) (tcr_description p)
      in case ctx of (o1, x, s) \<Rightarrow>
         \<lparr>tkt_id = i, tkt_user_id = usr_id u, tkt_order_id = map_option ord_id o1,
          tkt_delivery_id = map_option dlv_id x, tkt_store_id = map_option sto_id s,
          tkt_requester_type = Some (user_role_value (usr_role u)), tkt_assigned_admin_id = None,
          tkt_idempotency_key = tcr_idempotency_key p, tkt_subject = ustrip (tcr_subject p),
          tkt_description = ustrip (tcr_description p), tkt_category = tri_category tri,
          tkt_priority = tri_priority tri, tkt_status = ''open'', tkt_triage_summary = tri_summary tri,
          tkt_suggested_action = tri_suggested_action tri, tkt_resolution_notes = None, tkt_version = 0,
          tkt_created_at = now, tkt_resolved_at = None\<rparr>)"

definition valid_ticket :: "ticket_create \<Rightarrow> bool" where
  "valid_ticket p \<longleftrightarrow> 3 \<le> length (tcr_subject p) \<and> length (tcr_subject p) \<le> 180
     \<and> 5 \<le> length (tcr_description p) \<and> length (tcr_description p) \<le> 5000"

definition insert_ticket_tx ::
  "(utext \<Rightarrow> utext) \<Rightarrow> timestamp \<Rightarrow> string \<Rightarrow> user \<Rightarrow> ticket_create \<Rightarrow> order option \<times> delivery option \<times> store option \<Rightarrow>
     'm platform_scheme \<Rightarrow> (ticket_read \<times> 'm platform_scheme) res" where
  "insert_ticket_tx lower now req_id u p ctx d =
     (let i = fresh_id (map tkt_id (support_tickets d)) d; t = new_ticket lower now i u p ctx;
          d1 = d\<lparr>support_tickets := support_tickets d @ [t], db_next_id := Suc i\<rparr>
      in res_bind (if usr_role u = ADMIN then
             record_admin_action req_id u ''support.ticket_created'' SUPPORT_MANAGE ''support_ticket'' i []
               [(''status'', JStr (tkt_status t))] (Some ''administrator_support_escalation'') d1
           else Inr d1) (\<lambda>d2. Inr (public_read t, d2)))"

definition create_ticket ::
  "(utext \<Rightarrow> utext) \<Rightarrow> timestamp \<Rightarrow> string \<Rightarrow> bool \<Rightarrow> user \<Rightarrow> ticket_create \<Rightarrow> (ticket_read, 'm) platform_handler" where
  "create_ticket lower now req_id seen u p d =
     (if \<not> valid_ticket p then raise_http 422 ''body'' d else
      attempt (validate_references d p u) d (\<lambda>ctx.
      case (if seen then ticket_of_key d (usr_id u) (tcr_idempotency_key p) else None) of
        Some t \<Rightarrow> (replayed_ticket t p ctx, d)
      | None \<Rightarrow>
          (case ticket_of_key d (usr_id u) (tcr_idempotency_key p) of
             Some t \<Rightarrow> (replayed_ticket t p ctx, d)
           | None \<Rightarrow> attempt (insert_ticket_tx lower now req_id u p ctx d) d (\<lambda>(r, d1). (Inr r, d1)))))"

definition my_tickets :: "user \<Rightarrow> (ticket_read list, 'm) platform_handler" where
  "my_tickets u d =
     (Inr (map public_read (take 200 (rev (sort_key tkt_created_at
        (filter (\<lambda>t. tkt_user_id t = usr_id u) (support_tickets d)))))), d)"

definition owned_ticket :: "'m platform_scheme \<Rightarrow> uuid \<Rightarrow> user \<Rightarrow> support_ticket res" where
  "owned_ticket d tid u =
     (case get_ticket d tid of
        None \<Rightarrow> Inl (HTTPException 404 ''Support ticket not found'')
      | Some t \<Rightarrow>
          if tkt_user_id t \<noteq> usr_id u then Inl (HTTPException 404 ''Support ticket not found'') else Inr t)"

definition my_ticket :: "uuid \<Rightarrow> user \<Rightarrow> (ticket_read, 'm) platform_handler" where
  "my_ticket tid u d = attempt (owned_ticket d tid u) d (\<lambda>t. (Inr (public_read t), d))"

definition my_ticket_messages :: "int \<Rightarrow> int \<Rightarrow> uuid \<Rightarrow> user \<Rightarrow> (message_read list, 'm) platform_handler" where
  "my_ticket_messages limit offset tid u d =
     (if \<not> valid_page 100 limit offset then raise_http 422 ''limit'' d else
      attempt (owned_ticket d tid u) d (\<lambda>t.
      (Inr (map public_message (messages_of d (tkt_id t) ''public'' limit offset)), d)))"

definition message_of_key :: "'m platform_scheme \<Rightarrow> uuid \<Rightarrow> uuid \<Rightarrow> support_message option" where
  "message_of_key d tid key =
     find (\<lambda>m. msg_ticket_id m = tid \<and> msg_idempotency_key m = key) (support_messages d)"

text \<open>\<open>_idempotent_replay\<close>, and the first half of \<open>_add_message\<close>; the body is stripped by the schema.\<close>

definition message_replay ::
  "'m platform_scheme \<Rightarrow> support_ticket \<Rightarrow> user \<Rightarrow> string \<Rightarrow> message_create \<Rightarrow> support_message option res" where
  "message_replay d t author visibility p =
     (case message_of_key d (tkt_id t) (mcr_idempotency_key p) of
        None \<Rightarrow> Inr None
      | Some m \<Rightarrow>
          if msg_author_user_id m \<noteq> Some (usr_id author) \<or> msg_visibility m \<noteq> visibility
             \<or> msg_body m \<noteq> ustrip (mcr_body p)
          then Inl (HTTPException 409 ''Idempotency key payload mismatch'') else Inr (Some m))"

definition new_message ::
  "timestamp \<Rightarrow> uuid \<Rightarrow> support_ticket \<Rightarrow> user \<Rightarrow> string \<Rightarrow> message_create \<Rightarrow> support_message" where
  "new_message now i t author visibility p =
     \<lparr>msg_id = i, msg_ticket_id = tkt_id t, msg_author_user_id = Some (usr_id author),
      msg_author_type = user_role_value (usr_role author), msg_visibility = visibility,
      msg_idempotency_key = mcr_idempotency_key p, msg_body = ustrip (mcr_body p), msg_created_at = now\<rparr>"

definition add_message ::
  "timestamp \<Rightarrow> support_ticket \<Rightarrow> user \<Rightarrow> string \<Rightarrow> message_create \<Rightarrow> 'm platform_scheme \<Rightarrow>
     support_message \<times> support_ticket \<times> 'm platform_scheme" where
  "add_message now t author visibility p d =
     (let i = fresh_id (map msg_id (support_messages d)) d; m = new_message now i t author visibility p;
          t1 = t\<lparr>tkt_version := tkt_version t + 1\<rparr>
      in (m, t1, flush_ticket t1 (d\<lparr>support_messages := support_messages d @ [m], db_next_id := Suc i\<rparr>)))"

definition valid_message :: "message_create \<Rightarrow> bool" where
  "valid_message p \<longleftrightarrow> length (mcr_body p) \<le> 5000 \<and> ustrip (mcr_body p) \<noteq> []"

definition requester_message_tx ::
  "timestamp \<Rightarrow> user \<Rightarrow> support_ticket \<Rightarrow> message_create \<Rightarrow> 'm platform_scheme \<Rightarrow>
     support_message \<times> 'm platform_scheme" where
  "requester_message_tx now u t p d =
     (let (m, t1, d1) = add_message now t u ''public'' p d;
          d2 = (if tkt_status t1 = ''waiting_customer'' then flush_ticket (t1\<lparr>tkt_status := ''in_progress''\<rparr>) d1 else d1)
      in (m, case tkt_assigned_admin_id t1 of
               None \<Rightarrow> d2
             | Some a \<Rightarrow> enqueue_notification now a ''support.requester_replied'' ''Requester replied''
                 ''A requester replied to an assigned support ticket.'' [(''ticket_id'', JId (tkt_id t1))] d2))"

definition add_requester_message ::
  "timestamp \<Rightarrow> uuid \<Rightarrow> message_create \<Rightarrow> user \<Rightarrow> (message_read, 'm) platform_handler" where
  "add_requester_message now tid p u d =
     (if \<not> valid_message p then raise_http 422 ''body'' d else
      attempt (owned_ticket d tid u) d (\<lambda>t.
      attempt (message_replay d t u ''public'' p) d (\<lambda>replay.
      case replay of
        Some m \<Rightarrow> (Inr (public_message m), d)
      | None \<Rightarrow>
          if tkt_status t = ''closed'' then raise_http 409 ''Closed tickets must be reopened before replying'' d
          else (case requester_message_tx now u t p d of (m, d1) \<Rightarrow> (Inr (public_message m), d1)))))"

section \<open>Staff\<close>

definition admin_queue :: "user \<Rightarrow> (admin_ticket_read list, 'm) platform_handler" where
  "admin_queue admin d =
     attempt (require_capability SUPPORT_MANAGE admin) d (\<lambda>_.
     (Inr (map admin_read (take 500 (rev (sort_key tkt_created_at (support_tickets d))))), d))"

definition locked_ticket :: "'m platform_scheme \<Rightarrow> uuid \<Rightarrow> support_ticket res" where
  "locked_ticket d tid =
     (case get_ticket d tid of None \<Rightarrow> Inl (HTTPException 404 ''Support ticket not found'') | Some t \<Rightarrow> Inr t)"

definition admin_ticket :: "uuid \<Rightarrow> user \<Rightarrow> (admin_ticket_read, 'm) platform_handler" where
  "admin_ticket tid admin d =
     attempt (require_capability SUPPORT_MANAGE admin) d (\<lambda>_.
     attempt (locked_ticket d tid) d (\<lambda>t. (Inr (admin_read t), d)))"

definition admin_ticket_messages ::
  "string \<Rightarrow> int \<Rightarrow> int \<Rightarrow> uuid \<Rightarrow> user \<Rightarrow> (message_read list, 'm) platform_handler" where
  "admin_ticket_messages visibility limit offset tid admin d =
     attempt (require_capability SUPPORT_MANAGE admin) d (\<lambda>_.
     if visibility \<notin> {''public'', ''internal''} \<or> \<not> valid_page 100 limit offset then raise_http 422 ''query'' d else
     attempt (locked_ticket d tid) d (\<lambda>t.
     (Inr (map (if visibility = ''internal'' then internal_message else public_message)
        (messages_of d (tkt_id t) visibility limit offset)), d)))"

definition check_version :: "support_ticket \<Rightarrow> int option \<Rightarrow> unit res" where
  "check_version t expected =
     (if expected \<noteq> None \<and> expected \<noteq> Some (tkt_version t)
      then Inl (HTTPException 409 ''Support ticket changed; refresh and retry'') else Inr ())"

definition may_move :: "string \<Rightarrow> string \<Rightarrow> unit res" where
  "may_move s t =
     (if s = t then Inr ()
      else case map_of ALLOWED_TRANSITIONS s of
        None \<Rightarrow> Inl (RuntimeError ''KeyError'')
      | Some ts \<Rightarrow>
          if t \<notin> set ts
          then Inl (HTTPException 409 (''Invalid support transition from '' @ s @ '' to '' @ t)) else Inr ())"

definition updated_ticket :: "timestamp \<Rightarrow> ticket_update \<Rightarrow> support_ticket \<Rightarrow> support_ticket" where
  "updated_ticket now p t =
     t\<lparr>tkt_status := tup_status p,
       tkt_resolution_notes := (case tup_resolution_notes p of None \<Rightarrow> tkt_resolution_notes t | Some n \<Rightarrow> n),
       tkt_resolved_at := (if tup_status p \<in> {''resolved'', ''closed''}
          then Some (case tkt_resolved_at t of None \<Rightarrow> now | Some r \<Rightarrow> r) else None),
       tkt_version := tkt_version t + 1\<rparr>"

definition ticket_state :: "support_ticket \<Rightarrow> dict" where
  "ticket_state t = [(''status'', JStr (tkt_status t)),
     (''has_resolution_notes'', JBool (tkt_resolution_notes t \<noteq> None \<and> tkt_resolution_notes t \<noteq> Some [])),
     (''version'', JInt (tkt_version t))]"

definition update_ticket_tx ::
  "timestamp \<Rightarrow> string \<Rightarrow> user \<Rightarrow> ticket_update \<Rightarrow> support_ticket \<Rightarrow> 'm platform_scheme \<Rightarrow> 'm platform_scheme res" where
  "update_ticket_tx now req_id admin p t d =
     (let t1 = updated_ticket now p t
      in res_bind (record_admin_action req_id admin ''support.ticket_updated'' SUPPORT_MANAGE ''support_ticket''
           (tkt_id t) (ticket_state t) (ticket_state t1) (Some ''support_ticket_resolution'') (flush_ticket t1 d)) (\<lambda>d1.
         Inr (enqueue_notification now (tkt_user_id t1) ''support.ticket_updated'' ''Support ticket updated''
           (''Your support ticket is now ''
              @ map (\<lambda>c. if c = CHR ''_'' then CHR '' '' else c) (tkt_status t1) @ ''.'')
           [(''ticket_id'', JId (tkt_id t1)), (''status'', JStr (tkt_status t1))] d1)))"

definition TICKET_STATUSES :: "string list" where
  "TICKET_STATUSES = [''open'', ''in_progress'', ''waiting_customer'', ''resolved'', ''closed'']"

definition valid_update :: "ticket_update \<Rightarrow> bool" where
  "valid_update p \<longleftrightarrow> tup_status p \<in> set TICKET_STATUSES
     \<and> (case tup_resolution_notes p of Some (Some n) \<Rightarrow> length n \<le> 1000 | _ \<Rightarrow> True)
     \<and> (case tup_expected_version p of None \<Rightarrow> True | Some v \<Rightarrow> 0 \<le> v)"

definition update_ticket ::
  "timestamp \<Rightarrow> string \<Rightarrow> uuid \<Rightarrow> ticket_update \<Rightarrow> user \<Rightarrow> (admin_ticket_read, 'm) platform_handler" where
  "update_ticket now req_id tid p admin d =
     attempt (require_capability SUPPORT_MANAGE admin) d (\<lambda>_.
     if \<not> valid_update p then raise_http 422 ''body'' d else
     attempt (locked_ticket d tid) d (\<lambda>t.
     attempt (check_version t (tup_expected_version p)) d (\<lambda>_.
     if tup_status p = tkt_status t
        \<and> (case tup_resolution_notes p of None \<Rightarrow> True | Some n \<Rightarrow> n = tkt_resolution_notes t)
     then (Inr (admin_read t), d)
     else
       attempt (may_move (tkt_status t) (tup_status p)) d (\<lambda>_.
       attempt (update_ticket_tx now req_id admin p t d) d (\<lambda>d1.
       (Inr (admin_read (updated_ticket now p t)), d1))))))"

definition selectable_admin :: "'m database_scheme \<Rightarrow> uuid option \<Rightarrow> bool" where
  "selectable_admin d i =
     (case i of
        None \<Rightarrow> True
      | Some k \<Rightarrow>
          (case get_user d k of
             None \<Rightarrow> False
           | Some a \<Rightarrow> has_capability a SUPPORT_MANAGE \<and> usr_is_active a \<and> usr_is_verified a))"

definition id_json :: "uuid option \<Rightarrow> json" where
  "id_json i = (case i of None \<Rightarrow> JNull | Some k \<Rightarrow> JId k)"

definition assign_ticket ::
  "string \<Rightarrow> uuid \<Rightarrow> uuid option \<Rightarrow> int \<Rightarrow> user \<Rightarrow> (admin_ticket_read, 'm) platform_handler" where
  "assign_ticket req_id tid assignee expected_version admin d =
     attempt (require_capability SUPPORT_MANAGE admin) d (\<lambda>_.
     if expected_version < 0 then raise_http 422 ''body'' d else
     attempt (locked_ticket d tid) d (\<lambda>t.
     attempt (check_version t (Some expected_version)) d (\<lambda>_.
     if \<not> selectable_admin d assignee then raise_http 422 ''Select an active verified administrator'' d
     else if tkt_assigned_admin_id t = assignee then (Inr (admin_read t), d)
     else
       let t1 = t\<lparr>tkt_assigned_admin_id := assignee, tkt_version := tkt_version t + 1\<rparr>
       in attempt (record_admin_action req_id admin ''support.ticket_assigned'' SUPPORT_MANAGE ''support_ticket''
              (tkt_id t) [(''assigned_admin_id'', id_json (tkt_assigned_admin_id t))]
              [(''assigned_admin_id'', id_json assignee)] (Some ''support_queue_assignment'')
              (flush_ticket t1 d)) d (\<lambda>d1.
          (Inr (admin_read t1), d1)))))"

definition staff_message_tx ::
  "timestamp \<Rightarrow> string \<Rightarrow> user \<Rightarrow> support_ticket \<Rightarrow> string \<Rightarrow> string \<Rightarrow> string \<Rightarrow> message_create \<Rightarrow> 'm platform_scheme \<Rightarrow>
     (support_message \<times> 'm platform_scheme) res" where
  "staff_message_tx now req_id admin t visibility action why p d =
     (let (m, t1, d1) = add_message now t admin visibility p d
      in res_bind (record_admin_action req_id admin action SUPPORT_MANAGE ''support_ticket'' (tkt_id t1) []
           [(''version'', JInt (tkt_version t1))] (Some why) d1) (\<lambda>d2. Inr (m, d2)))"

definition add_admin_public_message ::
  "timestamp \<Rightarrow> string \<Rightarrow> uuid \<Rightarrow> message_create \<Rightarrow> user \<Rightarrow> (message_read, 'm) platform_handler" where
  "add_admin_public_message now req_id tid p admin d =
     attempt (require_capability SUPPORT_MANAGE admin) d (\<lambda>_.
     if \<not> valid_message p then raise_http 422 ''body'' d else
     attempt (locked_ticket d tid) d (\<lambda>t.
     attempt (message_replay d t admin ''public'' p) d (\<lambda>replay.
     case replay of
       Some m \<Rightarrow> (Inr (public_message m), d)
     | None \<Rightarrow>
         if tkt_status t = ''closed'' then raise_http 409 ''Closed tickets must be reopened before replying'' d
         else attempt (staff_message_tx now req_id admin t ''public'' ''support.public_message_added''
                  ''customer_visible_support_response'' p d) d (\<lambda>(m, d1).
              (Inr (public_message m), enqueue_notification now (tkt_user_id t) ''support.public_message''
                 ''New support reply'' ''GaonOne support replied to your ticket.''
                 [(''ticket_id'', JId (tkt_id t))] d1)))))"

definition add_internal_note ::
  "timestamp \<Rightarrow> string \<Rightarrow> uuid \<Rightarrow> message_create \<Rightarrow> user \<Rightarrow> (message_read, 'm) platform_handler" where
  "add_internal_note now req_id tid p admin d =
     attempt (require_capability SUPPORT_MANAGE admin) d (\<lambda>_.
     if \<not> valid_message p then raise_http 422 ''body'' d else
     attempt (locked_ticket d tid) d (\<lambda>t.
     attempt (message_replay d t admin ''internal'' p) d (\<lambda>replay.
     case replay of
       Some m \<Rightarrow> (Inr (internal_message m), d)
     | None \<Rightarrow>
         attempt (staff_message_tx now req_id admin t ''internal'' ''support.internal_note_added''
             ''internal_support_collaboration'' p d) d (\<lambda>(m, d1). (Inr (internal_message m), d1)))))"

section \<open>Lemmas\<close>

subsection \<open>Tickets keep their stamps and move along the table\<close>

definition stamped :: "support_ticket \<Rightarrow> bool" where
  "stamped t \<longleftrightarrow> tkt_status t \<in> set TICKET_STATUSES \<and> 0 \<le> tkt_version t
     \<and> (tkt_resolved_at t \<noteq> None \<longleftrightarrow> tkt_status t \<in> {''resolved'', ''closed''})"

text \<open>The unique constraints of the two tables, and the resolution stamp.\<close>

definition ticket_keys :: "support_ticket list \<Rightarrow> (uuid \<times> uuid) list" where
  "ticket_keys = List.map_filter (\<lambda>t. map_option (Pair (tkt_user_id t)) (tkt_idempotency_key t))"

definition message_keys :: "support_message list \<Rightarrow> (uuid \<times> uuid) list" where
  "message_keys = map (\<lambda>m. (msg_ticket_id m, msg_idempotency_key m))"

definition tickets_ok :: "'m platform_scheme \<Rightarrow> bool" where
  "tickets_ok d \<longleftrightarrow> distinct (map tkt_id (support_tickets d)) \<and> distinct (ticket_keys (support_tickets d))
     \<and> distinct (message_keys (support_messages d)) \<and> (\<forall>t \<in> set (support_tickets d). stamped t)"

definition ticket_move :: "support_ticket \<Rightarrow> support_ticket \<Rightarrow> bool" where
  "ticket_move t t' \<longleftrightarrow> tkt_id t' = tkt_id t \<and> tkt_user_id t' = tkt_user_id t
     \<and> tkt_idempotency_key t' = tkt_idempotency_key t \<and> tkt_subject t' = tkt_subject t
     \<and> tkt_description t' = tkt_description t \<and> (t' = t \<or> tkt_version t < tkt_version t')
     \<and> (tkt_status t' = tkt_status t \<or> may_move (tkt_status t) (tkt_status t') = Inr ())"

definition keeps_support :: "'m platform_scheme \<Rightarrow> 'm platform_scheme \<Rightarrow> bool" where
  "keeps_support d d' \<longleftrightarrow> support_tickets d' = support_tickets d \<and> support_messages d' = support_messages d"

text \<open>The tables of the customer's desk that are not support's.\<close>

definition keeps_field :: "'m platform_scheme \<Rightarrow> 'm platform_scheme \<Rightarrow> bool" where
  "keeps_field d d' \<longleftrightarrow> addresses d' = addresses d \<and> delivery_locations d' = delivery_locations d"

definition support_step :: "'m platform_scheme \<Rightarrow> 'm platform_scheme \<Rightarrow> bool" where
  "support_step d d' \<longleftrightarrow> outsider d d' \<and> keeps_field d d' \<and> (tickets_ok d \<longrightarrow> tickets_ok d')
     \<and> (\<forall>i t. get_ticket d i = Some t \<longrightarrow> (\<exists>t'. get_ticket d' i = Some t' \<and> ticket_move t t'))
     \<and> (\<exists>new. support_messages d' = support_messages d @ new)"

lemma ticket_move_refl [simp]: "ticket_move t t"
  by (simp add: ticket_move_def)

lemma support_step_refl [simp]: "support_step d d"
  by (simp add: support_step_def keeps_field_def)

lemma tickets_ok_same: "keeps_support d d' \<Longrightarrow> tickets_ok d' = tickets_ok d"
  by (simp add: keeps_support_def tickets_ok_def)

lemma support_step_then:
  "support_step d b \<Longrightarrow> outsider b d' \<Longrightarrow> keeps_support b d' \<and> keeps_field b d' \<Longrightarrow> support_step d d'"
  using outsider_trans [of d b d'] tickets_ok_same [of b d']
  by (auto simp: support_step_def keeps_support_def keeps_field_def get_ticket_def)

lemma keeps_support_enqueue:
  "keeps_support d (enqueue_notification now i e t b x d) \<and> keeps_field d (enqueue_notification now i e t b x d)"
  by (simp add: keeps_support_def keeps_field_def enqueue_notification_def)

lemma keeps_support_admin:
  "record_admin_action req_id u a c rt ri p r why d = Inr d' \<Longrightarrow> keeps_support d d' \<and> keeps_field d d'"
  by (auto simp: keeps_support_def keeps_field_def record_admin_action_def split: if_splits)

lemma support_step_admin:
  "record_admin_action req_id u a c rt ri p r why b = Inr d' \<Longrightarrow> support_step d b \<Longrightarrow> support_step d d'"
  by (rule support_step_then [OF _ outsider_admin keeps_support_admin])

lemma support_step_enqueue: "support_step d b \<Longrightarrow> support_step d (enqueue_notification now i e t x dt b)"
  by (rule support_step_then [OF _ outsider_enqueue keeps_support_enqueue])

lemma ticket_keys_simps [simp]:
  "ticket_keys [] = []"
  "ticket_keys (t # ts) = (case tkt_idempotency_key t of None \<Rightarrow> [] | Some k \<Rightarrow> [(tkt_user_id t, k)]) @ ticket_keys ts"
  by (simp_all add: ticket_keys_def List.map_filter_simps split: option.split)

lemma ticket_keys_put:
  "t \<in> set ts \<Longrightarrow> distinct (map tkt_id ts) \<Longrightarrow> ticket_move t t1 \<Longrightarrow> ticket_keys (put_row tkt_id t1 ts) = ticket_keys ts"
proof (induction ts)
  case (Cons x ts)
  have "put_row tkt_id t1 ts = ts" if "t = x"
    using Cons.prems that by (intro put_row_absent) (auto simp: get_row_None ticket_move_def image_iff)
  with Cons show ?case by (auto simp: ticket_move_def split: option.split)
qed simp

text \<open>Rewriting one ticket, perhaps with one more message.\<close>

lemma support_step_flush:
  assumes t: "get_ticket d (tkt_id t) = Some t" and move: "ticket_move t t1" and st: "stamped t \<Longrightarrow> stamped t1"
    and new: "distinct (message_keys (support_messages d)) \<Longrightarrow> distinct (message_keys (support_messages d @ ms))"
    and n: "db_next_id d \<le> n"
  shows "support_step d (flush_ticket t1 (d\<lparr>support_messages := support_messages d @ ms, db_next_id := n\<rparr>))"
proof -
  let ?d = "flush_ticket t1 (d\<lparr>support_messages := support_messages d @ ms, db_next_id := n\<rparr>)"
  have rows: "support_tickets ?d = put_row tkt_id t1 (support_tickets d)" by (simp add: flush_ticket_def)
  have t_in: "t \<in> set (support_tickets d)" using t by (auto simp: get_ticket_def)
  have "outsider d ?d" using n by (simp add: outsider_def keeps_defs quiet_def shelf_def flush_ticket_def)
  moreover have "tickets_ok ?d" if ok: "tickets_ok d"
  proof -
    have "stamped x" if "x \<in> set (put_row tkt_id t1 (support_tickets d))" for x
      using that st ok t_in by (auto simp: tickets_ok_def elim!: in_put_rowE)
    then show ?thesis
      using ok new move t_in by (simp add: tickets_ok_def rows ticket_keys_put) (simp add: flush_ticket_def)
  qed
  moreover have "\<exists>x'. get_ticket ?d i = Some x' \<and> ticket_move x x'" if "get_ticket d i = Some x" for i x
    using that t move by (auto simp: get_ticket_def rows table_simps ticket_move_def)
  ultimately show ?thesis by (simp add: support_step_def) (simp add: flush_ticket_def keeps_field_def)
qed

lemma support_step_write:
  assumes "get_ticket d (tkt_id t) = Some t" and "ticket_move t t1" and "stamped t \<Longrightarrow> stamped t1"
  shows "support_step d (flush_ticket t1 d)"
  using support_step_flush [OF assms, of "[]" "db_next_id d"] by simp

lemma flush_ticket_twice: "tkt_id t2 = tkt_id t1 \<Longrightarrow> flush_ticket t2 (flush_ticket t1 d) = flush_ticket t2 d"
  by (simp add: flush_ticket_def)

subsection \<open>Every operation is such a step\<close>

lemma locked_ticket_row: "locked_ticket d tid = Inr t \<Longrightarrow> get_ticket d (tkt_id t) = Some t \<and> tkt_id t = tid"
  using ticket_rows.get_key [of d tid t] by (auto simp: locked_ticket_def split: option.splits)

lemma owned_ticket_row:
  "owned_ticket d tid u = Inr t \<Longrightarrow> get_ticket d (tkt_id t) = Some t \<and> tkt_id t = tid \<and> tkt_user_id t = usr_id u"
  using ticket_rows.get_key [of d tid t] by (auto simp: owned_ticket_def split: option.splits if_splits)

lemma no_replay_new_key:
  assumes "message_replay d t u v p = Inr None"
  shows "(tkt_id t, mcr_idempotency_key p) \<notin> set (message_keys (support_messages d))"
proof -
  have "message_of_key d (tkt_id t) (mcr_idempotency_key p) = None"
    using assms by (auto simp: message_replay_def split: option.splits if_splits)
  then show ?thesis by (auto simp: message_of_key_def find_None_iff message_keys_def)
qed

lemma support_step_message:
  assumes row: "get_ticket d (tkt_id t) = Some t" and key: "message_replay d t u v p = Inr None"
    and t2: "t2 = t\<lparr>tkt_version := tkt_version t + 1\<rparr> \<or>
       tkt_status t = ''waiting_customer'' \<and> t2 = t\<lparr>tkt_version := tkt_version t + 1, tkt_status := ''in_progress''\<rparr>"
  shows "support_step d (flush_ticket t2 (snd (snd (add_message now t u v p d))))"
proof -
  let ?i = "fresh_id (map msg_id (support_messages d)) d"
  have "ticket_move t t2 \<and> (stamped t \<longrightarrow> stamped t2)" using t2
  proof
    assume "t2 = t\<lparr>tkt_version := tkt_version t + 1\<rparr>"
    then show ?thesis by (simp add: stamped_def ticket_move_def)
  next
    assume "tkt_status t = ''waiting_customer'' \<and> t2 = t\<lparr>tkt_version := tkt_version t + 1, tkt_status := ''in_progress''\<rparr>"
    then show ?thesis by (simp add: stamped_def TICKET_STATUSES_def ticket_move_def may_move_def ALLOWED_TRANSITIONS_def)
  qed
  then have move: "ticket_move t t2" and st: "stamped t \<Longrightarrow> stamped t2" by auto
  have new: "distinct (message_keys (support_messages d @ [new_message now ?i t u v p]))"
    if "distinct (message_keys (support_messages d))"
    using that no_replay_new_key [OF key] by (simp add: message_keys_def new_message_def)
  have "tkt_id t2 = tkt_id t" using t2 by auto
  then show ?thesis using support_step_flush [OF row move st new fresh_next [of d "map msg_id (support_messages d)"]]
    by (simp add: add_message_def Let_def flush_ticket_twice)
qed

lemma flush_ticket_same: "flush_ticket t (flush_ticket t d) = flush_ticket t d"
  by (simp add: flush_ticket_twice)

lemma support_step_requester:
  assumes row: "get_ticket d (tkt_id t) = Some t" and key: "message_replay d t u ''public'' p = Inr None"
  shows "support_step d (snd (requester_message_tx now u t p d))"
proof -
  let ?t1 = "t\<lparr>tkt_version := tkt_version t + 1\<rparr>"
  let ?d1 = "snd (snd (add_message now t u ''public'' p d))"
  have parts: "add_message now t u ''public'' p d = (fst (add_message now t u ''public'' p d), ?t1, ?d1)"
    by (simp add: add_message_def Let_def)
  have self: "flush_ticket ?t1 ?d1 = ?d1" by (simp add: add_message_def Let_def flush_ticket_same)
  have "support_step d (if tkt_status t = ''waiting_customer'' then flush_ticket (?t1\<lparr>tkt_status := ''in_progress''\<rparr>) ?d1 else ?d1)"
    using support_step_message [OF row key, of ?t1 now] self
      support_step_message [OF row key, of "?t1\<lparr>tkt_status := ''in_progress''\<rparr>" now] by auto
  then show ?thesis
    by (subst requester_message_tx_def, subst parts) (auto simp: Let_def intro: support_step_enqueue split: option.split)
qed

lemma support_step_staff:
  assumes row: "get_ticket d (tkt_id t) = Some t" and key: "message_replay d t u v p = Inr None"
    and tx: "staff_message_tx now req_id u t v a why p d = Inr (m, d')"
  shows "support_step d d'"
proof -
  let ?t1 = "t\<lparr>tkt_version := tkt_version t + 1\<rparr>"
  let ?d1 = "snd (snd (add_message now t u v p d))"
  have "flush_ticket ?t1 ?d1 = ?d1" by (simp add: add_message_def Let_def flush_ticket_same)
  then have "support_step d ?d1" using support_step_message [OF row key, of ?t1 now] by simp
  then show ?thesis using tx
    by (auto simp: staff_message_tx_def res_bind_def Let_def split: prod.splits sum.splits intro: support_step_admin)
qed

lemma no_key_new:
  "ticket_of_key d uid (Some k) = None \<Longrightarrow> (uid, k) \<notin> set (ticket_keys (support_tickets d))"
proof -
  assume "ticket_of_key d uid (Some k) = None"
  then have "\<forall>t \<in> set (support_tickets d). \<not> (tkt_user_id t = uid \<and> tkt_idempotency_key t = Some k)"
    by (simp add: ticket_of_key_def find_None_iff)
  then have "(uid, k) \<notin> set (ticket_keys ts)" if "set ts \<subseteq> set (support_tickets d)" for ts
    using that by (induction ts) (auto split: option.splits)
  then show ?thesis by simp
qed

lemma ticket_keys_append [simp]: "ticket_keys (ts @ us) = ticket_keys ts @ ticket_keys us"
  by (induction ts) auto

lemma support_step_insert:
  assumes new: "ticket_of_key d (usr_id u) (tcr_idempotency_key p) = None"
    and tx: "insert_ticket_tx lower now req_id u p ctx d = Inr (r, d')"
  shows "support_step d d'"
proof -
  let ?i = "fresh_id (map tkt_id (support_tickets d)) d"
  let ?t = "new_ticket lower now ?i u p ctx"
  let ?d1 = "d\<lparr>support_tickets := support_tickets d @ [?t], db_next_id := Suc ?i\<rparr>"
  have fields: "tkt_id ?t = ?i" "tkt_user_id ?t = usr_id u" "tkt_idempotency_key ?t = tcr_idempotency_key p" "stamped ?t"
    by (simp_all add: new_ticket_def Let_def stamped_def TICKET_STATUSES_def split: prod.split)
  have "outsider d ?d1"
    using fresh_next [of d "map tkt_id (support_tickets d)"] by (simp add: outsider_def keeps_defs quiet_def shelf_def)
  moreover have "tickets_ok ?d1" if "tickets_ok d"
    using that fields no_key_new [of d "usr_id u"] new fresh_id_new(1) [of "map tkt_id (support_tickets d)" d]
    by (auto simp: tickets_ok_def split: option.splits)
  ultimately have "support_step d ?d1"
    by (auto simp: support_step_def keeps_field_def get_ticket_def table_simps)
  then show ?thesis using tx
    by (auto simp: insert_ticket_tx_def res_bind_def Let_def split: sum.splits if_splits intro: support_step_admin)
qed

lemma update_keeps_stamp: "valid_update p \<Longrightarrow> stamped t \<Longrightarrow> stamped (updated_ticket now p t)"
  by (simp add: stamped_def updated_ticket_def valid_update_def)

lemma updated_ticket_moves:
  "may_move (tkt_status t) (tup_status p) = Inr () \<Longrightarrow> ticket_move t (updated_ticket now p t)"
  by (simp add: ticket_move_def updated_ticket_def)

lemma support_step_rules:
  "(\<And>x. r = Inr x \<Longrightarrow> support_step d (snd (k x))) \<Longrightarrow> support_step d (snd (attempt r d k))"
  "support_step d (snd (raise_http c m d))" "support_step d (snd (z, d))"
  "(P \<Longrightarrow> support_step d (snd a)) \<Longrightarrow> (\<not> P \<Longrightarrow> support_step d (snd b)) \<Longrightarrow> support_step d (snd (if P then a else b))"
  "(x = None \<Longrightarrow> support_step d (snd a)) \<Longrightarrow> (\<And>y. x = Some y \<Longrightarrow> support_step d (snd (f y))) \<Longrightarrow>
     support_step d (snd (case x of None \<Rightarrow> a | Some y \<Rightarrow> f y))"
  by (cases r; auto) (auto split: option.split)

lemma support_step_create: "support_step d (snd (create_ticket lower now req_id seen u p d))"
  unfolding create_ticket_def
  by (intro support_step_rules; (auto intro: support_step_insert)?)

lemma support_step_update: "support_step d (snd (update_ticket now req_id tid p u d))"
proof -
  have tx: "support_step d d'"
    if "valid_update p" "locked_ticket d tid = Inr t" "may_move (tkt_status t) (tup_status p) = Inr ()"
      "update_ticket_tx now req_id u p t d = Inr d'" for t d'
  proof -
    have "support_step d (flush_ticket (updated_ticket now p t) d)"
      using locked_ticket_row [OF that(2)] updated_ticket_moves [OF that(3)] update_keeps_stamp [OF that(1)]
      by (blast intro: support_step_write)
    with that(4) show ?thesis
      by (auto simp: update_ticket_tx_def res_bind_def Let_def split: sum.splits
          intro: support_step_enqueue support_step_admin)
  qed
  show ?thesis unfolding update_ticket_def
    by (intro support_step_rules; (auto intro: tx)?)
qed

lemma support_step_assign: "support_step d (snd (assign_ticket req_id tid a v u d))"
proof -
  have moved: "support_step d (flush_ticket (t\<lparr>tkt_assigned_admin_id := a, tkt_version := tkt_version t + 1\<rparr>) d)"
    if "locked_ticket d tid = Inr t" for t
    using locked_ticket_row [OF that] by (intro support_step_write [of d t]) (auto simp: ticket_move_def stamped_def)
  show ?thesis unfolding assign_ticket_def Let_def
    by (intro support_step_rules; (auto intro: moved support_step_admin)?)
qed

lemma support_step_messages:
  "support_step d (snd (add_requester_message now tid p u d))"
  "support_step d (snd (add_admin_public_message now req_id tid p u d))"
  "support_step d (snd (add_internal_note now req_id tid p u d))"
proof -
  have staff: "support_step d d'"
    if "locked_ticket d tid = Inr t" "message_replay d t u v p = Inr None"
      "staff_message_tx now req_id u t v a why p d = Inr (m, d')" for t v a why m d'
    using locked_ticket_row [OF that(1)] support_step_staff [OF _ that(2,3)] by blast
  show "support_step d (snd (add_requester_message now tid p u d))"
    unfolding add_requester_message_def
    by (intro support_step_rules; (auto split: prod.split dest: owned_ticket_row support_step_requester [of d _ u p now, rotated])?)
  show "support_step d (snd (add_admin_public_message now req_id tid p u d))"
    unfolding add_admin_public_message_def
    by (intro support_step_rules; (auto intro!: support_step_enqueue; rule staff; assumption)?)
  show "support_step d (snd (add_internal_note now req_id tid p u d))"
    unfolding add_internal_note_def
    by (intro support_step_rules; (auto intro: staff)?)
qed

lemmas support_steps = support_step_create support_step_update support_step_assign support_step_messages

subsection \<open>What a requester can read and do\<close>

lemma requester_reads_public:
  assumes "my_ticket_messages limit offset tid u d = (Inr ms, d')" and "x \<in> set ms"
  shows "\<exists>m \<in> set (support_messages d). x = public_message m \<and> msg_visibility m = ''public'' \<and> msg_ticket_id m = tid
     \<and> (\<exists>t. get_ticket d tid = Some t \<and> tkt_user_id t = usr_id u)"
proof -
  obtain t where t: "owned_ticket d tid u = Inr t" and ms: "ms = map public_message (messages_of d (tkt_id t) ''public'' limit offset)"
    using assms(1) by (auto simp: my_ticket_messages_def raise_http_def attempt_def split: if_splits sum.splits)
  have "set (messages_of d i v limit offset) \<subseteq> {m \<in> set (support_messages d). msg_ticket_id m = i \<and> msg_visibility m = v}" for i v
    by (auto simp: messages_of_def page_def dest!: in_set_takeD in_set_dropD)
  with assms(2) ms owned_ticket_row [OF t] t show ?thesis by (fastforce simp: owned_ticket_def)
qed

text \<open>A second request with a known key writes nothing; a stale version writes nothing.\<close>

lemma replayed_message:
  assumes "message_of_key d tid (mcr_idempotency_key p) = Some m"
  shows "snd (add_requester_message now tid p u d) = d" "snd (add_admin_public_message now req_id tid p u d) = d"
    "snd (add_internal_note now req_id tid p u d) = d"
proof -
  have replay: "message_replay d t a v p \<noteq> Inr None" if "tkt_id t = tid" for t a v
    using assms that by (simp add: message_replay_def)
  show "snd (add_requester_message now tid p u d) = d"
    using replay by (auto simp: add_requester_message_def attempt_def split: sum.split option.split dest!: owned_ticket_row)
  show "snd (add_admin_public_message now req_id tid p u d) = d" "snd (add_internal_note now req_id tid p u d) = d"
    using replay
    by (auto simp: add_admin_public_message_def add_internal_note_def attempt_def split: sum.split option.split
        dest!: locked_ticket_row)
qed

lemma stale_update:
  assumes "get_ticket d tid = Some t" and "tup_expected_version p = Some v" and "v \<noteq> tkt_version t"
  shows "snd (update_ticket now req_id tid p u d) = d"
  using assms by (simp add: update_ticket_def attempt_def locked_ticket_def check_version_def raise_http_def split: sum.split)

lemma internal_note_is_silent:
  "notification_events (snd (add_internal_note now req_id tid p u d)) = notification_events d"
proof -
  have "notification_events d' = notification_events b" if "record_admin_action req_id u a c rt ri q r why b = Inr d'"
    for a c rt ri q r why and b d' :: "'a platform_scheme"
    using that by (auto simp: record_admin_action_def split: if_splits)
  then have "notification_events d' = notification_events d"
    if "staff_message_tx now req_id u t v a why p d = Inr (m, d')" for t v a why m d'
    using that by (auto simp: staff_message_tx_def add_message_def flush_ticket_def res_bind_def Let_def split: sum.splits)
  then show ?thesis
    by (auto simp: add_internal_note_def attempt_def split: sum.split option.split)
qed

end
