(* ===== verification/Push.thy ===== *)
theory Push
  imports Accounts
begin

text \<open>
  Push delivery, \<open>services/fcm.py\<close>, and device registration, \<open>routes/notifications.py\<close>. The Firebase
  SDK is a parameter: whether it could be initialised, and what sending an event to a token
  raises (None: nothing). Lemmas: delivery is an outsider's step, an event whose sends keep
  failing is retired at the sixth attempt, and an active token stays with its account.
\<close>

section \<open>Delivery\<close>

definition STATUS_PENDING :: string where "STATUS_PENDING = ''pending''"
definition STATUS_SENT :: string where "STATUS_SENT = ''sent''"
definition STATUS_NO_DEVICES :: string where "STATUS_NO_DEVICES = ''no_devices''"
definition STATUS_IN_APP_ONLY :: string where "STATUS_IN_APP_ONLY = ''in_app_only''"
definition STATUS_DEAD :: string where "STATUS_DEAD = ''dead''"
definition MAX_DELIVERY_ATTEMPTS :: int where "MAX_DELIVERY_ATTEMPTS = 6"
definition BACKOFF_SECONDS :: "int list" where "BACKOFF_SECONDS = [30, 120, 600, 1800, 3600, 7200]"

lemmas push_constants =
  STATUS_PENDING_def STATUS_SENT_def STATUS_NO_DEVICES_def STATUS_IN_APP_ONLY_def STATUS_DEAD_def
  MAX_DELIVERY_ATTEMPTS_def BACKOFF_SECONDS_def

definition backoff :: "timestamp \<Rightarrow> int \<Rightarrow> timestamp" where
  "backoff now attempt_count =
     (let index = min (max (attempt_count - 1) 0) (int (length BACKOFF_SECONDS) - 1)
      in now + seconds (BACKOFF_SECONDS ! nat index))"

definition defer_event :: "timestamp \<Rightarrow> string \<Rightarrow> notification_event \<Rightarrow> notification_event" where
  "defer_event now message e =
     (let e1 = e\<lparr>ntf_attempt_count := ntf_attempt_count e + 1, ntf_last_error := Some (take 300 message)\<rparr>
      in if MAX_DELIVERY_ATTEMPTS \<le> ntf_attempt_count e1
         then e1\<lparr>ntf_status := STATUS_DEAD, ntf_next_attempt_at := None\<rparr>
         else e1\<lparr>ntf_status := STATUS_PENDING, ntf_next_attempt_at := Some (backoff now (ntf_attempt_count e1))\<rparr>)"

fun contains :: "string \<Rightarrow> string \<Rightarrow> bool" where
  "contains p [] = (p = [])"
| "contains p (c # s) = (take (length p) (c # s) = p \<or> contains p s)"

definition stale_token :: "string \<Rightarrow> bool" where
  "stale_token error =
     (let t = ascii_lower error
      in contains ''registration-token-not-registered'' t \<or> contains ''not found'' t \<or> contains ''unregistered'' t)"

text \<open>The loop over the devices: tokens reached, tokens gone, the last other error.\<close>

fun send_all :: "(string \<Rightarrow> string option) \<Rightarrow> device_registration list \<Rightarrow> int \<times> string list \<times> string \<Rightarrow> int \<times> string list \<times> string" where
  "send_all send [] acc = acc"
| "send_all send (x # xs) (sent, invalid, last_error) =
     send_all send xs
       (case send (dev_token x) of
          None \<Rightarrow> (sent + 1, invalid, last_error)
        | Some error \<Rightarrow>
            if stale_token error then (sent, invalid @ [dev_token x], last_error)
            else (sent, invalid, error))"

definition fcm_set :: "'c platform_settings_scheme \<Rightarrow> bool" where
  "fcm_set cfg \<longleftrightarrow> text_or_none (cfg_fcm_project_id cfg) \<noteq> None \<and> text_or_none (cfg_fcm_service_account cfg) \<noteq> None"

definition active_devices :: "'m database_scheme \<Rightarrow> uuid \<Rightarrow> device_registration list" where
  "active_devices d uid = filter (\<lambda>x. dev_user_id x = uid \<and> dev_is_active x) (device_registrations d)"

text \<open>The event after the sends.\<close>

definition settled_event ::
  "timestamp \<Rightarrow> int \<times> string list \<times> string \<Rightarrow> notification_event \<Rightarrow> notification_event" where
  "settled_event now outcome e =
     (case outcome of (sent, invalid, last_error) \<Rightarrow>
        if sent \<noteq> 0 then e\<lparr>ntf_status := STATUS_SENT, ntf_sent_at := Some now, ntf_next_attempt_at := None,
                              ntf_last_error := None\<rparr>
        else if invalid \<noteq> [] \<and> last_error = [] then e\<lparr>ntf_status := STATUS_NO_DEVICES, ntf_next_attempt_at := None\<rparr>
        else defer_event now (if last_error = [] then ''No push could be delivered to any registered device''
                              else last_error) e)"

definition flush_event :: "notification_event \<Rightarrow> 'm database_scheme \<Rightarrow> 'm database_scheme" where
  "flush_event e d = d\<lparr>notification_events := put_row ntf_id e (notification_events d)\<rparr>"

definition retire_tokens :: "string list \<Rightarrow> device_registration list \<Rightarrow> 'm database_scheme \<Rightarrow> 'm database_scheme" where
  "retire_tokens invalid devices d =
     fold (\<lambda>x d. if dev_token x \<in> set invalid
        then d\<lparr>device_registrations := put_row dev_id (x\<lparr>dev_is_active := False\<rparr>) (device_registrations d)\<rparr> else d)
       devices d"

definition deliver_event ::
  "'c platform_settings_scheme \<Rightarrow> bool \<Rightarrow> (notification_event \<Rightarrow> string \<Rightarrow> string option) \<Rightarrow> timestamp \<Rightarrow>
     notification_event \<Rightarrow> 'm database_scheme \<Rightarrow> int \<times> 'm database_scheme" where
  "deliver_event cfg ready send now e d =
     (if \<not> (fcm_set cfg \<and> ready) then
        (0, flush_event
          (if text_or_none (cfg_fcm_project_id cfg) \<noteq> None
           then defer_event now ''FCM is configured but could not be initialised'' e
           else e\<lparr>ntf_status := STATUS_IN_APP_ONLY, ntf_next_attempt_at := None\<rparr>) d)
      else
        let devices = active_devices d (ntf_user_id e)
        in if devices = [] then (0, flush_event (e\<lparr>ntf_status := STATUS_NO_DEVICES, ntf_next_attempt_at := None\<rparr>) d)
           else
             let outcome = send_all (send e) devices (0, [], [])
             in (fst outcome, flush_event (settled_event now outcome e)
                  (retire_tokens (fst (snd outcome)) devices d)))"

definition event_due :: "timestamp \<Rightarrow> notification_event \<Rightarrow> bool" where
  "event_due now e \<longleftrightarrow> ntf_status e = STATUS_PENDING
     \<and> (case ntf_next_attempt_at e of None \<Rightarrow> True | Some t \<Rightarrow> t \<le> now)"

text \<open>\<open>FOR UPDATE SKIP LOCKED\<close>: rows other workers hold are passed over.\<close>

definition due_events :: "(uuid \<Rightarrow> bool) \<Rightarrow> timestamp \<Rightarrow> nat \<Rightarrow> 'm database_scheme \<Rightarrow> notification_event list" where
  "due_events held now limit d =
     take limit (sort_key ntf_created_at (filter (\<lambda>e. event_due now e \<and> \<not> held (ntf_id e)) (notification_events d)))"

fun deliver_all ::
  "'c platform_settings_scheme \<Rightarrow> bool \<Rightarrow> (notification_event \<Rightarrow> string \<Rightarrow> string option) \<Rightarrow> timestamp \<Rightarrow>
     notification_event list \<Rightarrow> int \<times> 'm database_scheme \<Rightarrow> int \<times> 'm database_scheme" where
  "deliver_all cfg ready send now [] acc = acc"
| "deliver_all cfg ready send now (e # es) (n, d) =
     (case deliver_event cfg ready send now e d of (k, d1) \<Rightarrow> deliver_all cfg ready send now es (n + k, d1))"

definition flush_pending ::
  "'c platform_settings_scheme \<Rightarrow> bool \<Rightarrow> (notification_event \<Rightarrow> string \<Rightarrow> string option) \<Rightarrow> (uuid \<Rightarrow> bool) \<Rightarrow>
     timestamp \<Rightarrow> nat \<Rightarrow> 'm database_scheme \<Rightarrow> (nat \<times> int) \<times> 'm database_scheme" where
  "flush_pending cfg ready send held now limit d =
     (let es = due_events held now limit d; (pushes, d1) = deliver_all cfg ready send now es (0, d)
      in ((length es, pushes), d1))"

section \<open>Routes\<close>

definition notification_config :: "'c platform_settings_scheme \<Rightarrow> bool" where
  "notification_config cfg \<longleftrightarrow> fcm_set cfg"

definition device_of_token :: "'m database_scheme \<Rightarrow> string \<Rightarrow> device_registration option" where
  "device_of_token d token = find (\<lambda>x. dev_token x = token) (device_registrations d)"

definition get_device :: "'m database_scheme \<Rightarrow> uuid \<Rightarrow> device_registration option" where
  "get_device d = get_row dev_id (device_registrations d)"

definition flush_device :: "device_registration \<Rightarrow> 'm database_scheme \<Rightarrow> 'm database_scheme" where
  "flush_device x d = d\<lparr>device_registrations := put_row dev_id x (device_registrations d)\<rparr>"

interpretation device_rows: row_store get_device flush_device dev_id "\<lambda>x. x"
  by unfold_locales (auto simp: get_device_def flush_device_def table_simps)

text \<open>\<open>seen\<close>: whether the first lookup saw the row; if not, the unique constraint answers.\<close>

definition register_device ::
  "bool \<Rightarrow> user \<Rightarrow> string \<Rightarrow> string \<Rightarrow> string option \<Rightarrow> (device_registration, 'm) handler" where
  "register_device seen u token platform app_version d =
     (case device_of_token d token of
        None \<Rightarrow>
          let i = fresh_id (map dev_id (device_registrations d)) d
          in refresh get_device i (d\<lparr>device_registrations := device_registrations d @
               [\<lparr>dev_id = i, dev_user_id = usr_id u, dev_token = token, dev_platform = platform,
                 dev_app_version = app_version, dev_is_active = True\<rparr>], db_next_id := Suc i\<rparr>)
      | Some x \<Rightarrow>
          if \<not> seen then raise_http 409 ''Device token registration conflict'' d
          else if dev_is_active x \<and> dev_user_id x \<noteq> usr_id u
          then raise_http 409 ''Device token is already active for another account'' d
          else refresh get_device (dev_id x) (flush_device (x\<lparr>dev_user_id := usr_id u, dev_platform := platform,
                 dev_app_version := app_version, dev_is_active := True\<rparr>) d))"

definition my_devices :: "user \<Rightarrow> (device_registration list, 'm) handler" where
  "my_devices u d = (Inr (rev (active_devices d (usr_id u))), d)"

definition unregister_device :: "user \<Rightarrow> uuid \<Rightarrow> (unit, 'm) handler" where
  "unregister_device u i d =
     (case get_device d i of
        None \<Rightarrow> raise_http 404 ''Device registration not found'' d
      | Some x \<Rightarrow>
          if dev_user_id x \<noteq> usr_id u then raise_http 404 ''Device registration not found'' d
          else (Inr (), flush_device (x\<lparr>dev_is_active := False\<rparr>) d))"

definition my_notifications :: "int \<Rightarrow> user \<Rightarrow> (notification_event list, 'm) handler" where
  "my_notifications limit u d =
     (if \<not> valid_page 100 limit 0 then raise_http 422 ''limit'' d
      else (Inr (page limit 0 (rev (sort_key ntf_created_at
             (filter (\<lambda>e. ntf_user_id e = usr_id u) (notification_events d))))), d))"

definition flush_notifications ::
  "'c platform_settings_scheme \<Rightarrow> bool \<Rightarrow> (notification_event \<Rightarrow> string \<Rightarrow> string option) \<Rightarrow> (uuid \<Rightarrow> bool) \<Rightarrow>
     timestamp \<Rightarrow> user \<Rightarrow> (nat \<times> int, 'm) handler" where
  "flush_notifications cfg ready send held now admin d =
     attempt (require_capability NOTIFICATION_OPERATIONS admin) d (\<lambda>_.
     case flush_pending cfg ready send held now 100 d of (r, d1) \<Rightarrow> (Inr r, d1))"

section \<open>Frames\<close>

lemma outsider_device_writes [simp]:
  "outsider d (flush_event e d)" "outsider d (flush_device x d)"
  "outsider d (d\<lparr>device_registrations := ds\<rparr>)"
  "db_next_id d \<le> n \<Longrightarrow> outsider d (d\<lparr>device_registrations := ds, db_next_id := n\<rparr>)"
  by (simp_all add: outsider_def keeps_defs quiet_def shelf_def flush_event_def flush_device_def)

lemma outsider_retire: "outsider d (retire_tokens invalid devices d)"
proof -
  have "outsider d0 (fold (\<lambda>x d. if dev_token x \<in> set invalid
      then d\<lparr>device_registrations := put_row dev_id (x\<lparr>dev_is_active := False\<rparr>) (device_registrations d)\<rparr> else d)
      devices d)" if "outsider d0 d" for d0 d :: "'a platform_scheme"
    using that by (induction devices arbitrary: d) (auto intro: outsider_trans [OF _ outsider_device_writes(3)])
  then show ?thesis by (simp add: retire_tokens_def)
qed

lemma outsider_deliver: "outsider d (snd (deliver_event cfg ready send now e d))"
  by (simp add: deliver_event_def Let_def outsider_trans [OF outsider_retire outsider_device_writes(1)])

lemma outsider_deliver_all: "outsider d0 (snd acc) \<Longrightarrow> outsider d0 (snd (deliver_all cfg ready send now es acc))"
proof (induction cfg ready send now es acc rule: deliver_all.induct)
  case (2 cfg ready send now e es n d)
  then show ?case using outsider_deliver [of d cfg ready send now e]
    by (auto split: prod.split dest: outsider_trans)
qed simp

lemma outsider_push:
  "outsider d (snd (flush_pending cfg ready send held now limit d))"
  "outsider d (snd (flush_notifications cfg ready send held now u d))"
  "outsider d (snd (register_device seen u token plat ver d))"
  "outsider d (snd (unregister_device u i d))"
proof -
  show f: "outsider d (snd (flush_pending cfg ready send held now limit d))"
    for limit and d :: "'a platform_scheme"
    using outsider_deliver_all [of d "(0, d)" cfg ready send now] by (simp add: flush_pending_def Let_def case_prod_beta)
  show "outsider d (snd (flush_notifications cfg ready send held now u d))"
    using f by (auto simp: flush_notifications_def attempt_def case_prod_beta split: sum.split)
  show "outsider d (snd (register_device seen u token plat ver d))"
    by (simp add: register_device_def Let_def outsider_device_writes(4) [OF fresh_next] split: option.split)
  show "outsider d (snd (unregister_device u i d))"
    by (simp add: unregister_device_def split: option.split)
qed

section \<open>Retries\<close>

text \<open>An event in the queue that has attempts left; a failed delivery counts.\<close>

definition retriable :: "notification_event \<Rightarrow> bool" where
  "retriable e \<longleftrightarrow> ntf_status e = STATUS_PENDING \<and> ntf_attempt_count e < MAX_DELIVERY_ATTEMPTS"

interpretation push_queue: retry_queue ntf_attempt_count retriable "defer_event now message" MAX_DELIVERY_ATTEMPTS
  by unfold_locales (simp_all add: retriable_def defer_event_def Let_def)

lemma defer_count [simp]: "ntf_attempt_count (defer_event now m e) = ntf_attempt_count e + 1"
  by (simp add: defer_event_def Let_def)

lemma defer_status:
  "ntf_status (defer_event now m e) = (if ntf_attempt_count e < 5 then STATUS_PENDING else STATUS_DEAD)"
  by (auto simp: defer_event_def Let_def MAX_DELIVERY_ATTEMPTS_def)

lemma defer_count_power [simp]: "ntf_attempt_count ((defer_event now m ^^ n) e) = ntf_attempt_count e + int n"
  by (induction n) simp_all

lemma defer_status_power:
  "0 < n \<Longrightarrow> ntf_status ((defer_event now m ^^ n) e) =
     (if ntf_attempt_count e + int n < 6 then STATUS_PENDING else STATUS_DEAD)"
  by (cases n) (auto simp: defer_status)

text \<open>The delay never reaches the last entry of the table.\<close>

lemma defer_delay:
  "0 \<le> ntf_attempt_count e \<Longrightarrow> ntf_next_attempt_at (defer_event now m e) = Some t \<Longrightarrow>
     now + seconds 30 \<le> t \<and> t \<le> now + seconds 3600"
proof -
  assume a: "0 \<le> ntf_attempt_count e" and t: "ntf_next_attempt_at (defer_event now m e) = Some t"
  then have n: "ntf_attempt_count e \<in> {0, 1, 2, 3, 4}"
    by (auto simp: defer_event_def Let_def MAX_DELIVERY_ATTEMPTS_def split: if_splits)
  with t show ?thesis
    by (auto simp: defer_event_def Let_def backoff_def push_constants seconds_def nth_Cons' split: if_splits)
qed

section \<open>Tokens\<close>

definition tokens_ok :: "'m database_scheme \<Rightarrow> bool" where
  "tokens_ok d \<longleftrightarrow> distinct (map dev_id (device_registrations d)) \<and> distinct (map dev_token (device_registrations d))"

lemma tokens_register:
  assumes ok: "tokens_ok d" shows "tokens_ok (snd (register_device seen u token plat ver d))"
proof (cases "device_of_token d token")
  case None
  then have "token \<notin> dev_token ` set (device_registrations d)"
    by (auto simp: device_of_token_def find_None_iff_all)
  then show ?thesis
    using ok None fresh_id_new(1) [of "map dev_id (device_registrations d)" d]
    by (simp add: register_device_def Let_def tokens_ok_def)
next
  case (Some x)
  then have x: "x \<in> set (device_registrations d)" "dev_token x = token"
    by (auto simp: device_of_token_def dest: find_Some_in)
  have "map dev_token (put_row dev_id (x\<lparr>dev_user_id := a, dev_platform := b, dev_app_version := c, dev_is_active := True\<rparr>)
      (device_registrations d)) = map dev_token (device_registrations d)" for a b c
    by (rule map_put_row_field) (use ok x in \<open>auto simp: tokens_ok_def distinct_map inj_on_def\<close>)
  with ok Some show ?thesis by (simp add: register_device_def flush_device_def tokens_ok_def)
qed

text \<open>Registering someone else's active token is refused and changes nothing.\<close>

lemma active_token_stays:
  "device_of_token d token = Some x \<Longrightarrow> dev_is_active x \<Longrightarrow> dev_user_id x \<noteq> usr_id u \<Longrightarrow>
     \<exists>m. register_device seen u token plat ver d = (Inl (HTTPException 409 m), d)"
  by (simp add: register_device_def raise_http_def)

end
