(* ===== verification/Companions.thy ===== *)
theory Companions
  imports Config Tracking Support Push
begin

text \<open>
  Which tables the parts of the platform leave alone, beside those of \<open>Surroundings\<close> and
  \<open>Accounts\<close>: the core never adds or removes a user, and the catalogue, the banners and the
  accounts never touch an address, a location or a ticket.
\<close>

section \<open>Users under the core\<close>

text \<open>The extension of the record is the platform's own tables.\<close>

lemma extension_same:
  fixes d d' :: "'m platform_scheme"
  assumes "database.more d' = database.more d"
  shows "external_identities d' = external_identities d" "delivery_locations d' = delivery_locations d"
    "support_tickets d' = support_tickets d" "support_messages d' = support_messages d"
    "store_banner_versions d' = store_banner_versions d" "banner_generation_jobs d' = banner_generation_jobs d"
    "store_banner_selections d' = store_banner_selections d"
  using assms by (cases d; cases d'; simp)+

lemma users_restore_items: "restore_items sid os d = Inr d' \<Longrightarrow> users d' = users d"
  by (induction os arbitrary: d) (auto simp: flush_listing_def split: option.splits)

interpretation people: untouched_by_orders users
proof
  fix d d' :: "'a database_scheme"
  show "same_core d d' \<Longrightarrow> users d' = users d" by (simp add: same_core_tables)
  show "ensure_settlement_entry o1 d = Inr (e, d') \<Longrightarrow> users d' = users d" for o1 e
    by (auto dest!: settlement_update)
  show "ensure_refund_request now o1 why d = (r, o2, d') \<Longrightarrow> users d' = users d" for now o1 why r o2
    by (auto simp: ensure_refund_request_def Let_def split: if_splits option.splits)
  show "restore_order_stock_once now o1 d = Inr (b, o2, d') \<Longrightarrow> users d' = users d" for now o1 b o2
    by (auto simp: restore_order_stock_once_def Let_def split: if_splits sum.splits dest: users_restore_items)
qed (simp_all add: annotate_order_transition_def annotate_delivery_transition_def flush_attempt_def
    Let_def split: option.split)

lemma users_handlers [simp]:
  "users (snd (get_cart u d)) = users d" "users (snd (add_cart_item u k q d)) = users d"
  "users (snd (remove_cart_item u k d)) = users d" "users (snd (clear_cart u d)) = users d"
  by (simp_all add: get_cart_def add_cart_item_def remove_cart_item_def clear_cart_def attempt_def Let_def
      case_prod_beta get_or_create_cart_def flush_cart_def delete_cart_items_def set_cart_quantity_def
      split: option.split sum.split)

lemma users_place_items: "place_items oid is d = Inr d' \<Longrightarrow> users d' = users d"
  by (induction "is" arbitrary: d) (auto simp: flush_listing_def split: option.splits)

lemma users_place_order: "place_order now o1 items c d = Inr d' \<Longrightarrow> users d' = users d"
  by (auto simp: place_order_def res_bind_Inr Let_def flush_cart_def delete_cart_items_def dest!: users_place_items)

lemma users_checkout: "users (snd (safe_checkout g cfg now stamp token u key aid m d)) = users d"
  by (cases rule: safe_checkout_cases [of key d u g cfg now stamp token aid m])
    (simp_all add: users_place_order)

lemma users_proof_handlers:
  "users (snd (issue_delivery_proof_challenge h rate n now req_id u did d)) = users d"
  "users (snd (verify_delivery_proof h rate now req_id u did otp ev rn nt d)) = users d"
  "users (snd (record_cod_collection now req_id u did amount d)) = users d"
  by (auto simp: issue_delivery_proof_challenge_def verify_delivery_proof_def store_challenge_def
      record_cod_collection_def flush_proof_def attempt_def Let_def split: sum.split option.split
      dest!: people.part_admin)

text \<open>Only the administrator's access change writes to \<open>users\<close>, and it keeps identity and phone.\<close>

lemma live_step_users:
  assumes "live_step d d'"
  shows "users d' = users d \<or> (\<exists>req_id u uid r b. d' = snd (admin_update_user req_id u uid r b d))"
  using assms
  by cases (simp_all add: users_checkout users_proof_handlers people.part_dispatch_claim [OF surjective_pairing], blast)

lemma accounts_update_user:
  assumes ok: "accounts_ok d" shows "accounts_ok (snd (admin_update_user req_id u uid r b d))"
proof -
  have moved: "accounts_ok d1" if "get_user d uid = Some x" "update_access_tx req_id u x r b d = Inr d1" for x d1
    using that(2) unfolding update_access_tx_def Let_def
    by (rule accounts_admin) (use ok that(1) in \<open>auto simp: get_user_def intro!: accounts_flush_user\<close>)
  show ?thesis
  proof (cases "snd (admin_update_user req_id u uid r b d) = d")
    case False
    then obtain x where "get_user d uid = Some x"
        "update_access_tx req_id u x r b d = Inr (snd (admin_update_user req_id u uid r b d))"
      unfolding admin_update_user_def attempt_def by (auto split: option.splits sum.splits if_splits)
    then show ?thesis by (rule moved)
  qed (use ok in simp)
qed

lemma live_step_accounts:
  assumes step: "live_step d d'" and ok: "accounts_ok d" shows "accounts_ok d'"
proof -
  have more: "database.more d' = database.more d"
    using live_step_surroundings [OF step] by (simp add: surroundings_def)
  then have x: "external_identities d' = external_identities d" by (rule extension_same(1))
  from live_step_users [OF step] show ?thesis
  proof
    assume "users d' = users d"
    with x ok show ?thesis by (subst accounts_ok_same [of _ d]) simp_all
  next
    assume "\<exists>req_id u uid r b. d' = snd (admin_update_user req_id u uid r b d)"
    with accounts_update_user [OF ok] show ?thesis by blast
  qed
qed

section \<open>Beside the catalogue, the banners and the accounts\<close>

definition desk ::
  "'m platform_scheme \<Rightarrow> address list \<times> delivery_location list \<times> support_ticket list \<times> support_message list" where
  "desk d = (addresses d, delivery_locations d, support_tickets d, support_messages d)"

definition identities :: "'m platform_scheme \<Rightarrow> user list \<times> external_identity list" where
  "identities d = (users d, external_identities d)"

definition hoardings ::
  "'m platform_scheme \<Rightarrow> store_banner_version list \<times> banner_generation_job list \<times> store_banner_selection list" where
  "hoardings d = (store_banner_versions d, banner_generation_jobs d, store_banner_selections d)"

lemmas beside_defs = desk_def identities_def hoardings_def

lemma beside_admin:
  assumes "record_admin_action req_id u a c rt ri p r why d = Inr d'"
  shows "desk d' = desk d" "identities d' = identities d" "hoardings d' = hoardings d"
  using assms by (auto simp: beside_defs record_admin_action_def split: if_splits)

lemma beside_audit_listing:
  assumes "audit_listing req_id u a i p r d = Inr d'"
  shows "desk d' = desk d" "identities d' = identities d" "hoardings d' = hoardings d"
  using assms by (auto simp: audit_listing_def beside_admin split: if_splits)

lemma beside_writes [simp]:
  "desk (d\<lparr>merchants := ms, db_next_id := n\<rparr>) = desk d" "desk (flush_user u d) = desk d"
  "desk (flush_merchant m d) = desk d" "desk (flush_store s d) = desk d" "desk (flush_listing l d) = desk d"
  "desk (d\<lparr>categories := cs, db_next_id := n\<rparr>) = desk d" "desk (d\<lparr>products := ps, db_next_id := n\<rparr>) = desk d"
  "desk (snd (insert_listing sid pid pr mrp stock av d)) = desk d"
  "identities (flush_merchant m d) = identities d" "identities (flush_store s d) = identities d"
  "identities (flush_listing l d) = identities d"
  "identities (d\<lparr>categories := cs, db_next_id := n\<rparr>) = identities d"
  "identities (d\<lparr>products := ps, db_next_id := n\<rparr>) = identities d"
  "identities (snd (insert_listing sid pid pr mrp stock av d)) = identities d"
  "hoardings (flush_merchant m d) = hoardings d" "hoardings (flush_user u d) = hoardings d"
  "hoardings (flush_store s d) = hoardings d" "hoardings (flush_listing l d) = hoardings d"
  "hoardings (d\<lparr>merchants := ms, db_next_id := n\<rparr>) = hoardings d"
  "hoardings (d\<lparr>categories := cs, db_next_id := n\<rparr>) = hoardings d"
  "hoardings (d\<lparr>products := ps, db_next_id := n\<rparr>) = hoardings d"
  "hoardings (snd (insert_listing sid pid pr mrp stock av d)) = hoardings d"
  by (simp_all add: beside_defs flush_user_def flush_merchant_def flush_store_def flush_listing_def
      insert_listing_def Let_def)

lemma beside_merchants:
  "desk (snd (apply_as_merchant u name gstin d)) = desk d"
  "hoardings (snd (apply_as_merchant u name gstin d)) = hoardings d"
  "desk (snd (approve_merchant req_id u mid d)) = desk d"
  "identities (snd (approve_merchant req_id u mid d)) = identities d"
  "hoardings (snd (approve_merchant req_id u mid d)) = hoardings d"
  "desk (snd (update_merchant_status req_id u mid t d)) = desk d"
  "identities (snd (update_merchant_status req_id u mid t d)) = identities d"
  "hoardings (snd (update_merchant_status req_id u mid t d)) = hoardings d"
  by (auto simp: apply_as_merchant_def approve_merchant_def update_merchant_status_def set_merchant_status_def
      attempt_def Let_def beside_admin split: option.split sum.split)

lemma beside_update_store:
  "desk (snd (update_store g now req_id u sid p d)) = desk d"
  "identities (snd (update_store g now req_id u sid p d)) = identities d"
  "hoardings (snd (update_store g now req_id u sid p d)) = hoardings d"
  by (auto simp: update_store_def attempt_def beside_admin split: option.split sum.split)

lemma beside_catalogue:
  "desk (snd (create_category req_id u name slug d)) = desk d"
  "identities (snd (create_category req_id u name slug d)) = identities d"
  "hoardings (snd (create_category req_id u name slug d)) = hoardings d"
  "desk (snd (create_product req_id u pc d)) = desk d"
  "identities (snd (create_product req_id u pc d)) = identities d"
  "hoardings (snd (create_product req_id u pc d)) = hoardings d"
  by (auto simp: create_category_def create_product_def attempt_def Let_def beside_admin split: sum.split)

lemma beside_category:
  assumes "category_for_slug n s d = Inr (c, d')"
  shows "desk d' = desk d" "identities d' = identities d" "hoardings d' = hoardings d"
  using assms by (auto simp: category_for_slug_def Let_def split: option.splits if_splits)

lemma beside_custom_tx:
  assumes "custom_listing_tx ilike casefold s p d = Inr (i, d')"
  shows "desk d' = desk d" "identities d' = identities d" "hoardings d' = hoardings d"
proof -
  obtain n sl c d1 row k sid pid pr mrp stock av where c: "category_for_slug n sl d = Inr (c, d1)"
    and d': "d' = snd (insert_listing sid pid pr mrp stock av (d1\<lparr>products := products d1 @ [row], db_next_id := k\<rparr>))"
    using assms by (auto simp: custom_listing_tx_def Let_def res_bind_Inr split: if_splits) (metis snd_conv)
  show "desk d' = desk d" "identities d' = identities d" "hoardings d' = hoardings d"
    by (simp_all add: d' beside_category [OF c])
qed

lemma beside_upsert_tx:
  assumes "upsert_listing sid p d = Inr (i, d')"
  shows "desk d' = desk d" "identities d' = identities d" "hoardings d' = hoardings d"
proof -
  obtain l pr mrp stock av pid where "d' = flush_listing l d \<or> d' = snd (insert_listing sid pid pr mrp stock av d)"
    using assms by (auto simp: upsert_listing_def res_bind_Inr split: option.splits) (metis snd_conv)+
  then show "desk d' = desk d" "identities d' = identities d" "hoardings d' = hoardings d" by auto
qed

text \<open>The three together, for the listing routes.\<close>

definition quarters ::
  "'m platform_scheme \<Rightarrow> (address list \<times> delivery_location list \<times> support_ticket list \<times> support_message list) \<times>
     (user list \<times> external_identity list) \<times>
     store_banner_version list \<times> banner_generation_job list \<times> store_banner_selection list" where
  "quarters d = (desk d, identities d, hoardings d)"

lemma quarters_flush [simp]: "quarters (flush_listing l d) = quarters d"
  by (simp add: quarters_def)

lemma quarters_tx:
  "custom_listing_tx ilike casefold s lp d = Inr (i, d') \<Longrightarrow> quarters d' = quarters d"
  "upsert_listing sid sp d = Inr (i, d') \<Longrightarrow> quarters d' = quarters d"
  "audit_listing req_id u a i p r d = Inr d' \<Longrightarrow> quarters d' = quarters d"
  using beside_custom_tx [of ilike casefold s lp d i d'] beside_upsert_tx [of sid sp d i d']
    beside_audit_listing [of req_id u a i p r d d'] by (auto simp: quarters_def)

lemma quarters_listings:
  "quarters (snd (create_merchant_product_listing ilike casefold u sid lp d)) = quarters d"
  "quarters (snd (upsert_store_product req_id u sid sp d)) = quarters d"
  "quarters (snd (update_store_product req_id u sid li up d)) = quarters d"
  by (auto simp: create_merchant_product_listing_def upsert_store_product_def update_store_product_def attempt_def
      dest!: quarters_tx split: option.split sum.split)

text \<open>What the banner routes and their worker leave alone.\<close>

definition site ::
  "'m platform_scheme \<Rightarrow> (address list \<times> delivery_location list \<times> support_ticket list \<times> support_message list) \<times>
     (user list \<times> external_identity list) \<times> store list \<times> category list \<times> product list" where
  "site d = (desk d, identities d, stores d, categories d, products d)"

lemma site_writes [simp]:
  "site (snd (create_banner_job digest now s trigger key d)) = site d"
  "site (audit_banner_action req_id sid vid u a why d) = site d"
  "site (snd (ensure_selection sid d)) = site d" "site (flush_selection sel d) = site d"
  "site (flush_version v d) = site d" "site (flush_job j d) = site d"
  "site (enqueue_notification now i e t x dt d) = site d"
  "site (deselect admin v d) = site d" "site (retry_failed_job cfg now j d) = site d"
  by (simp_all add: site_def beside_defs create_banner_job_def audit_banner_action_def ensure_selection_def
      flush_selection_def flush_version_def flush_job_def enqueue_notification_def deselect_def
      retry_failed_job_def Let_def split: option.split)

lemma site_admin: "record_admin_action req_id u a c rt ri p r why d = Inr d' \<Longrightarrow> site d' = site d"
  by (auto simp: site_def beside_defs record_admin_action_def split: if_splits)

lemma site_render: "render_job digest now j d = Inr d' \<Longrightarrow> site d' = site d"
  by (auto simp: render_job_def res_bind_Inr split: option.splits)

lemma site_drain: "site (snd (drain_banner_jobs digest cfg held now job_id n r d)) = site d"
  by (induction n arbitrary: r d) (auto simp: Let_def site_render split: option.split sum.split)

lemma site_banners:
  "site (snd (process_due_banner_jobs digest cfg held now limit job_id d)) = site d"
  "site (snd (regenerate_store_banner digest cfg now req_id u sid key d)) = site d"
  "site (snd (accept_store_banner req_id u sid vid rv d)) = site d"
  "site (snd (moderate_store_banner now req_id u vid act why d)) = site d"
  by (auto simp: process_due_banner_jobs_def site_drain regenerate_store_banner_def accept_store_banner_def
      moderate_store_banner_def moderate_tx_def attempt_def case_prod_beta Let_def dest!: site_admin
      split: option.split sum.split)

lemma beside_create_store:
  "desk (snd (create_store g digest now req_id u c d)) = desk d"
  "identities (snd (create_store g digest now req_id u c d)) = identities d"
proof -
  have "(desk d', identities d') = (desk d, identities d)"
    if "site d' = site (d\<lparr>stores := ss, db_next_id := n\<rparr>)" for d' :: "'a platform_scheme" and ss n
    using that by (simp add: site_def) (simp add: beside_defs)
  then show "desk (snd (create_store g digest now req_id u c d)) = desk d"
    "identities (snd (create_store g digest now req_id u c d)) = identities d"
    by (auto simp: create_store_def attempt_def Let_def dest!: site_admin split: sum.split)
qed

section \<open>Beside the outer routes\<close>

lemma desk_writes [simp]:
  "desk (flush_user u d) = desk d" "desk (flush_identity x d) = desk d" "desk (insert_user u d) = desk d"
  "desk (d\<lparr>external_identities := xs\<rparr>) = desk d"
  "desk (enqueue_notification now i e t b dt d) = desk d" "desk (flush_event ev d) = desk d"
  "desk (flush_device dv d) = desk d" "desk (d\<lparr>device_registrations := ds\<rparr>) = desk d"
  "desk (d\<lparr>device_registrations := ds, db_next_id := n\<rparr>) = desk d"
  "desk (d\<lparr>villages := vs, db_next_id := n\<rparr>) = desk d" "desk (d\<lparr>service_areas := ss, db_next_id := n\<rparr>) = desk d"
  by (simp_all add: desk_def flush_user_def flush_identity_def insert_user_def enqueue_notification_def
      flush_event_def flush_device_def)

lemma desk_logins:
  "desk (snd (login_verified_phone token seen phone name d)) = desk d"
  "desk (snd (login_firebase_identity token now seen subject name d)) = desk d"
  by (auto simp: login_verified_phone_def login_firebase_identity_def finish_login_def finish_firebase_def Let_def
      split: option.split)

lemma desk_accounts:
  "desk (snd (fst (verify_otp R sha256 get token cfg now seen phone otp name rs d))) = desk d"
  "desk (snd (exchange_widget_token token cfg seen verified name d)) = desk d"
  "desk (snd (exchange_firebase_token token cfg now configured seen answer d)) = desk d"
  "desk (snd (admin_onboard_user cfg req_id admin seen phone full_name role d)) = desk d"
  "desk (snd (update_current_user u fn d)) = desk d"
  by (auto simp: verify_otp_def exchange_widget_token_def exchange_firebase_token_def admin_onboard_user_def
      update_current_user_def attempt_def Let_def desk_logins dest!: beside_admin(1)
      split: prod.split sum.split bool.split)

lemma desk_areas:
  "desk (snd (create_village req_id u vp d)) = desk d" "desk (snd (create_service_area req_id u sp d)) = desk d"
  by (auto simp: create_village_def create_service_area_def attempt_def Let_def dest!: beside_admin(1) split: sum.split)

lemma desk_retire: "desk (retire_tokens invalid devices d) = desk d"
proof -
  have "desk (fold (\<lambda>x d. if dev_token x \<in> set invalid
       then d\<lparr>device_registrations := f x d\<rparr> else d) devices d) = desk d" for f :: "_ \<Rightarrow> 'a platform_scheme \<Rightarrow> _"
    by (induction devices arbitrary: d) auto
  then show ?thesis by (simp add: retire_tokens_def flush_device_def)
qed

lemma desk_deliver: "desk (snd (deliver_event cfg ready send now e d)) = desk d"
  by (simp add: deliver_event_def Let_def desk_retire)

lemma desk_deliver_all: "desk (snd (deliver_all cfg ready send now es acc)) = desk (snd acc)"
proof (induction es arbitrary: acc)
  case (Cons e es)
  obtain n d where acc: "acc = (n, d)" by (cases acc)
  obtain k d1 where ev: "deliver_event cfg ready send now e d = (k, d1)" by (cases "deliver_event cfg ready send now e d")
  with desk_deliver [of cfg ready send now e d] have "desk d1 = desk d" by simp
  then show ?case by (simp add: acc ev Cons.IH)
qed simp

lemma desk_deliver_from: "deliver_all cfg ready send now es (n, d) = (m, d') \<Longrightarrow> desk d' = desk d"
  using desk_deliver_all [of cfg ready send now es "(n, d)"] by simp

lemma desk_push:
  "desk (snd (flush_pending cfg ready send held now limit d)) = desk d"
  "desk (snd (flush_notifications cfg ready send held now u d)) = desk d"
  "desk (snd (register_device seen u tok plat ver d)) = desk d"
  "desk (snd (unregister_device u i d)) = desk d"
  by (auto simp: flush_pending_def flush_notifications_def register_device_def unregister_device_def
      attempt_def Let_def dest!: desk_deliver_from split: option.split sum.split prod.split)

text \<open>Each of the three tables of the desk has one part that writes to it.\<close>

lemma desk_addresses:
  "desk (snd (create_my_address g u ap d)) = (addresses (snd (create_my_address g u ap d)), snd (desk d))"
  "desk (snd (delete_my_address now u aid d)) = (addresses (snd (delete_my_address now u aid d)), snd (desk d))"
  by (auto simp: desk_def create_my_address_def delete_my_address_def attempt_def Let_def split: sum.split option.split)

lemma desk_locations:
  "addresses (snd (hardened_record_delivery_location distance_m now u did p d)) = addresses d"
  "keeps_support d (snd (hardened_record_delivery_location distance_m now u did p d))"
  by (auto simp: keeps_support_def hardened_record_delivery_location_def add_location_def attempt_def Let_def
      split: sum.split)

lemma keeps_support_desk: "desk d' = desk d \<Longrightarrow> keeps_support d d'"
  by (simp add: desk_def keeps_support_def)

lemma keeps_support_addresses:
  "keeps_support d (snd (create_my_address g u ap d))" "keeps_support d (snd (delete_my_address now u aid d))"
  using desk_addresses(1) [of g u ap d] desk_addresses(2) [of now u aid d] by (simp_all add: desk_def keeps_support_def)

end
