(* ===== verification/Platform_System.thy ===== *)
theory Platform_System
  imports Companions
begin

text \<open>
  The whole platform as one transition system: a step is a step of the marketplace core or one
  operation of the catalogue, the banners, the accounts, the geography, the notification worker,
  tracking or support. Lemmas: each part of the invariant is preserved by every step, so it holds
  in every reachable state, and the history of an order only follows the core's rules.
\<close>

section \<open>Steps\<close>

inductive platform_step ::
  "(point \<Rightarrow> point \<Rightarrow> rat) \<Rightarrow> 's redis \<Rightarrow> 'm platform_scheme \<Rightarrow> 'm platform_scheme \<Rightarrow> bool"
  for distance_m R where
  core: "live_step d d' \<Longrightarrow> platform_step distance_m R d d'"
| merchant_application: "get_user d (usr_id u) = Some u \<Longrightarrow>
    platform_step distance_m R d (snd (apply_as_merchant u name gstin d))"
| merchant_approval: "platform_step distance_m R d (snd (approve_merchant req_id u mid d))"
| merchant_suspension: "platform_step distance_m R d (snd (update_merchant_status req_id u mid ms d))"
| store_create: "platform_step distance_m R d (snd (create_store g digest now req_id u sc d))"
| store_update: "platform_step distance_m R d (snd (update_store g now req_id u sid su d))"
| category_create: "platform_step distance_m R d (snd (create_category req_id u name slug d))"
| product_create: "platform_step distance_m R d (snd (create_product req_id u pc d))"
| listing_create:
    "platform_step distance_m R d (snd (create_merchant_product_listing ilike casefold u sid lp d))"
| listing_upsert: "platform_step distance_m R d (snd (upsert_store_product req_id u sid sp d))"
| listing_update: "platform_step distance_m R d (snd (update_store_product req_id u sid li up d))"
| banner_regenerate:
    "platform_step distance_m R d (snd (regenerate_store_banner digest cfg now req_id u sid key d))"
| banner_accept: "platform_step distance_m R d (snd (accept_store_banner req_id u sid vid rv d))"
| banner_moderate: "platform_step distance_m R d (snd (moderate_store_banner now req_id u vid act why d))"
| banner_worker:
    "platform_step distance_m R d (snd (process_due_banner_jobs digest cfg held now limit job_id d))"
| login_otp:
    "platform_step distance_m R d (snd (fst (verify_otp R sha256 get token (cfg :: platform_settings) now seen phone otp name rs d)))"
| login_widget: "platform_step distance_m R d (snd (exchange_widget_token token (cfg :: platform_settings) seen verified name d))"
| login_firebase:
    "platform_step distance_m R d (snd (exchange_firebase_token token (cfg :: platform_settings) now configured seen answer d))"
| user_onboard: "platform_step distance_m R d (snd (admin_onboard_user (cfg :: platform_settings) req_id u seen phone name role d))"
| profile: "get_user d (usr_id u) = Some u \<Longrightarrow> platform_step distance_m R d (snd (update_current_user u fn d))"
| village: "platform_step distance_m R d (snd (create_village req_id u vp d))"
| service_area: "platform_step distance_m R d (snd (create_service_area req_id u ap d))"
| address_create: "platform_step distance_m R d (snd (create_my_address g u ac d))"
| address_delete: "platform_step distance_m R d (snd (delete_my_address now u aid d))"
| push_worker: "platform_step distance_m R d (snd (flush_pending (cfg :: platform_settings) ready send held now limit d))"
| push_flush: "platform_step distance_m R d (snd (flush_notifications (cfg :: platform_settings) ready send held now u d))"
| device_register: "platform_step distance_m R d (snd (register_device seen u tok plat ver d))"
| device_unregister: "platform_step distance_m R d (snd (unregister_device u i d))"
| location: "platform_step distance_m R d (snd (hardened_record_delivery_location distance_m now u did lp d))"
| ticket_create: "platform_step distance_m R d (snd (create_ticket lower now req_id seen u tp d))"
| ticket_update: "platform_step distance_m R d (snd (update_ticket now req_id tid tu u d))"
| ticket_assign: "platform_step distance_m R d (snd (assign_ticket req_id tid a v u d))"
| ticket_reply: "platform_step distance_m R d (snd (add_requester_message now tid mp u d))"
| ticket_answer: "platform_step distance_m R d (snd (add_admin_public_message now req_id tid mp u d))"
| ticket_note: "platform_step distance_m R d (snd (add_internal_note now req_id tid mp u d))"

text \<open>
  Four kinds of step are enough to reason about: what it does to the tables of the core, the
  catalogue, the banners, the accounts and the desk.
\<close>

definition platform_inv :: "(point \<Rightarrow> point \<Rightarrow> rat) \<Rightarrow> 'm platform_scheme \<Rightarrow> bool" where
  "platform_inv distance_m d \<longleftrightarrow> system_inv d \<and> catalogue_ok d \<and> banners_ok d \<and> accounts_ok d
     \<and> addresses_ok d \<and> trails_ok distance_m d \<and> tickets_ok d"

subsection \<open>The desk\<close>

definition desk_ok :: "(point \<Rightarrow> point \<Rightarrow> rat) \<Rightarrow> 'm platform_scheme \<Rightarrow> bool" where
  "desk_ok distance_m d \<longleftrightarrow> addresses_ok d \<and> trails_ok distance_m d \<and> tickets_ok d"

lemma addresses_ok_same: "addresses d' = addresses d \<Longrightarrow> addresses_ok d' = addresses_ok d"
  by (simp add: addresses_ok_def defaults_of_def)

lemma trails_ok_same: "delivery_locations d' = delivery_locations d \<Longrightarrow> trails_ok distance_m d' = trails_ok distance_m d"
  by (simp add: trails_ok_def fixes_of_def)

lemma desk_ok_same:
  fixes d d' :: "'m platform_scheme"
  shows "desk d' = desk d \<Longrightarrow> desk_ok distance_m d' = desk_ok distance_m d"
  using addresses_ok_same [of d' d] trails_ok_same [of d' d distance_m] tickets_ok_same [OF keeps_support_desk, of d' d]
  by (simp add: desk_ok_def) (simp add: desk_def)

lemma desk_core: "live_step d d' \<Longrightarrow> desk d' = desk d"
proof -
  assume "live_step d d'"
  then have s: "surroundings d' = surroundings d" by (rule live_step_surroundings)
  then have "database.more d' = database.more d" "addresses d' = addresses d" by (simp_all add: surroundings_def)
  with extension_same [OF this(1)] show ?thesis by (simp add: desk_def)
qed

lemma desk_geography:
  assumes ok: "desk_ok distance_m d"
  shows "desk_ok distance_m (snd (create_my_address g u ac d))" "desk_ok distance_m (snd (delete_my_address now u aid d))"
proof -
  have locations: "delivery_locations (snd (create_my_address g u ac d)) = delivery_locations d"
      "delivery_locations (snd (delete_my_address now u aid d)) = delivery_locations d"
    using desk_addresses(1) [of g u ac d] desk_addresses(2) [of now u aid d] by (simp_all add: desk_def)
  show "desk_ok distance_m (snd (create_my_address g u ac d))"
    using ok addresses_create [of d g u ac] trails_ok_same [OF locations(1)]
      tickets_ok_same [OF keeps_support_addresses(1) [of d g u ac]] by (simp add: desk_ok_def)
  show "desk_ok distance_m (snd (delete_my_address now u aid d))"
    using ok addresses_delete [of d now u aid] trails_ok_same [OF locations(2)]
      tickets_ok_same [OF keeps_support_addresses(2) [of d now u aid]] by (simp add: desk_ok_def)
qed

lemma desk_tracking:
  "desk_ok distance_m d \<Longrightarrow> desk_ok distance_m (snd (hardened_record_delivery_location distance_m now u did lp d))"
  using trails_record [of distance_m d now u did lp] addresses_ok_same [OF desk_locations(1) [of distance_m now u did lp d]]
    tickets_ok_same [OF desk_locations(2) [of d distance_m now u did lp]]
  by (simp add: desk_ok_def)

lemma desk_support: "support_step d d' \<Longrightarrow> desk_ok distance_m d \<Longrightarrow> desk_ok distance_m d'"
  using addresses_ok_same [of d' d] trails_ok_same [of d' d distance_m]
  by (simp add: support_step_def keeps_field_def desk_ok_def)

section \<open>The invariant\<close>

lemma platform_inv_parts:
  "platform_inv distance_m d \<longleftrightarrow> system_inv d \<and> catalogue_ok d \<and> banners_ok d \<and> accounts_ok d \<and> desk_ok distance_m d"
  by (auto simp: platform_inv_def desk_ok_def)

lemma hoardings_ok: "hoardings d' = hoardings d \<Longrightarrow> banners_ok d \<Longrightarrow> banners_ok d'"
  by (rule banners_ok_frame) (simp_all add: hoardings_def)

lemma identities_ok: "identities d' = identities d \<Longrightarrow> accounts_ok d \<Longrightarrow> accounts_ok d'"
  by (subst accounts_ok_same [of _ d]) (simp_all add: identities_def)

text \<open>The catalogue is untouched when its tables are.\<close>

lemma catalogue_kept:
  assumes "quiet d d'" and "keeps_catalogue d d'" shows "catalogue_ok d' = catalogue_ok d"
  using assms by (simp add: catalogue_ok_rows quiet_def shelf_def keeps_catalogue_def)

lemma inv_core:
  assumes step: "live_step d d'" and inv: "platform_inv distance_m d" shows "platform_inv distance_m d'"
proof -
  have s: "surroundings d' = surroundings d" using step by (rule live_step_surroundings)
  then have more: "database.more d' = database.more d" by (simp add: surroundings_def)
  have sys: "system_inv d" and parts: "catalogue_ok d" "banners_ok d" "accounts_ok d" "desk_ok distance_m d"
    using inv by (simp_all add: platform_inv_parts)
  have "shelf_ok d" using sys by (simp add: system_inv_def)
  with step have "assortment d' = assortment d" by (rule live_step_assortment)
  with s parts have "catalogue_ok d'" using catalogue_ok_same by blast
  moreover have "banners_ok d'"
    using parts(2) extension_same [OF more] by (auto intro: banners_ok_frame)
  moreover have "accounts_ok d'" using step parts(3) by (rule live_step_accounts)
  moreover have "desk_ok distance_m d'" using desk_ok_same [OF desk_core [OF step]] parts(4) by simp
  ultimately show ?thesis using live_step_inv [OF step sys] by (simp add: platform_inv_parts)
qed

lemma inv_catalogue:
  assumes "catalogue_step d d'" and "hoardings d' = hoardings d" and "identities d' = identities d"
    and "desk d' = desk d" and "platform_inv distance_m d"
  shows "platform_inv distance_m d'"
  using assms catalogue_step_inv [OF assms(1)] hoardings_ok [OF assms(2)] identities_ok [OF assms(3)]
    desk_ok_same [OF assms(4)] by (simp add: platform_inv_parts)

lemma inv_banners:
  assumes q: "quiet d d'" and s: "site d' = site d" and ok: "banners_ok d'" and inv: "platform_inv distance_m d"
  shows "platform_inv distance_m d'"
proof -
  have "keeps_catalogue d d'" "identities d' = identities d" "desk d' = desk d"
    using s by (simp_all add: site_def keeps_catalogue_def)
  with assms show ?thesis
    using quiet_inv [OF q] catalogue_kept [OF q] identities_ok [of d' d] desk_ok_same [of d' d distance_m]
    by (simp add: platform_inv_parts)
qed

lemma inv_accounts:
  assumes "account_step d d'" and "accounts_ok d \<Longrightarrow> accounts_ok d'" and "desk d' = desk d"
    and "platform_inv distance_m d"
  shows "platform_inv distance_m d'"
proof -
  have q: "quiet d d'" "keeps_catalogue d d'" "hoardings d' = hoardings d"
    using assms(1) by (simp_all add: account_step_def keeps_banners_def hoardings_def)
  with assms show ?thesis
    using quiet_inv [OF q(1)] catalogue_kept [OF q(1,2)] hoardings_ok [OF q(3)] desk_ok_same [OF assms(3)]
    by (simp add: platform_inv_parts)
qed

lemma inv_outsider:
  assumes "outsider d d'" and "desk_ok distance_m d \<Longrightarrow> desk_ok distance_m d'" and "platform_inv distance_m d"
  shows "platform_inv distance_m d'"
proof -
  have "account_step d d'" "identities d' = identities d"
    using assms(1) by (simp_all add: outsider_def account_step_def keeps_accounts_def identities_def)
  then have q: "quiet d d'" "keeps_catalogue d d'" "hoardings d' = hoardings d" "identities d' = identities d"
    by (simp_all add: account_step_def keeps_banners_def hoardings_def)
  with assms show ?thesis
    using quiet_inv [OF q(1)] catalogue_kept [OF q(1,2)] hoardings_ok [OF q(3)] identities_ok [OF q(4)]
    by (simp add: platform_inv_parts)
qed

lemma inv_quarters:
  "catalogue_step d d' \<Longrightarrow> quarters d' = quarters d \<Longrightarrow> platform_inv distance_m d \<Longrightarrow> platform_inv distance_m d'"
  by (rule inv_catalogue) (simp_all add: quarters_def)

lemma inv_support: "support_step d d' \<Longrightarrow> platform_inv distance_m d \<Longrightarrow> platform_inv distance_m d'"
  by (rule inv_outsider) (simp_all add: desk_support, simp add: support_step_def)

lemma inv_desk_kept:
  "outsider d d' \<Longrightarrow> desk d' = desk d \<Longrightarrow> platform_inv distance_m d \<Longrightarrow> platform_inv distance_m d'"
  using desk_ok_same [of d' d distance_m] by (blast intro: inv_outsider)

lemma accounts_application:
  assumes ok: "accounts_ok d" and u: "get_user d (usr_id u) = Some u"
  shows "accounts_ok (snd (apply_as_merchant u name gstin d))"
proof -
  let ?d = "d\<lparr>merchants := ms, db_next_id := n\<rparr>"
  have "accounts_ok (flush_user (u\<lparr>usr_role := MERCHANT\<rparr>) (d\<lparr>merchants := ms, db_next_id := n\<rparr>))" for ms n
  proof (rule accounts_flush_user)
    show "accounts_ok (d\<lparr>merchants := ms, db_next_id := n\<rparr>)" using ok by (simp add: accounts_ok_def)
    show "u \<in> set (users (d\<lparr>merchants := ms, db_next_id := n\<rparr>))" using u by (auto simp: get_user_def)
  qed simp_all
  with ok show ?thesis by (simp add: apply_as_merchant_def Let_def split: option.split)
qed

lemma inv_application:
  assumes "get_user d (usr_id u) = Some u" and inv: "platform_inv distance_m d"
  shows "platform_inv distance_m (snd (apply_as_merchant u name gstin d))"
  using inv catalogue_step_inv [OF catalogue_step_merchants(1) [of d u name gstin]]
    hoardings_ok [OF beside_merchants(2) [of u name gstin d]] accounts_application [OF _ assms(1)]
    desk_ok_same [OF beside_merchants(1) [of u name gstin d], of distance_m]
  by (simp add: platform_inv_parts)

lemma banners_create_store:
  "banners_ok d \<Longrightarrow> banners_ok (snd (create_store g digest now req_id u sc d))"
proof -
  assume ok: "banners_ok d"
  have "banners_ok (snd (create_banner_job digest now s t k (d\<lparr>stores := ss, db_next_id := n\<rparr>)))" for s t k ss n
    by (rule banners_create) (rule banners_ok_frame [OF _ _ _ ok]; simp)
  with ok show ?thesis
    by (auto simp: create_store_def attempt_def Let_def split: sum.split intro: banners_admin)
qed

lemma inv_create_store:
  assumes inv: "platform_inv distance_m d" shows "platform_inv distance_m (snd (create_store g digest now req_id u sc d))"
  using inv catalogue_step_inv [OF catalogue_step_create_store [of d g digest now req_id u sc]]
    banners_create_store [of d g digest now req_id u sc] identities_ok [OF beside_create_store(2) [of g digest now req_id u sc d]]
    desk_ok_same [OF beside_create_store(1) [of g digest now req_id u sc d], of distance_m]
  by (simp add: platform_inv_parts)

lemmas banner_steps = inv_banners [OF quiet_regenerate] inv_banners [OF quiet_accept]
  inv_banners [OF quiet_moderate] inv_banners [OF quiet_process_banner_jobs]

lemma platform_step_inv:
  assumes step: "platform_step distance_m R d d'" and inv: "platform_inv distance_m d"
  shows "platform_inv distance_m d'"
proof -
  have ok: "catalogue_ok d" "shelf_ok d" "banners_ok d"
    using inv by (simp_all add: platform_inv_parts system_inv_def)
  show ?thesis using step
  proof cases
  case core
  then show ?thesis using inv by (rule inv_core)
next
  case (merchant_application u name gstin)
  with inv show ?thesis by (simp add: inv_application)
next
  case (store_create g digest now req_id u sc)
  with inv show ?thesis by (simp add: inv_create_store)
next
  case (profile u fn)
  with inv show ?thesis
    by (simp add: inv_accounts [OF account_step_routes(5)] accounts_profile desk_accounts)
next
  case (address_create g u ac)
  with inv show ?thesis by (simp add: inv_outsider [OF outsider_geography(3)] desk_geography)
next
  case (address_delete now u aid)
  with inv show ?thesis by (simp add: inv_outsider [OF outsider_geography(4)] desk_geography)
next
  case (location now u did lp)
  with inv show ?thesis by (simp add: inv_outsider [OF outsider_tracking(1)] desk_tracking)
qed (use inv in \<open>simp_all add: inv_catalogue [OF catalogue_step_merchants(2)] inv_catalogue [OF catalogue_step_merchants(3)]
    beside_merchants inv_catalogue [OF catalogue_step_update_store] beside_update_store
    inv_catalogue [OF catalogue_step_create_category] inv_catalogue [OF catalogue_step_create_product] beside_catalogue
    inv_quarters [OF catalogue_step_create_listing] inv_quarters [OF catalogue_step_upsert]
    inv_quarters [OF catalogue_step_update_listing] quarters_listings ok
    banner_steps site_banners banners_regenerate banners_accept banners_moderate banners_process_jobs
    inv_accounts [OF account_step_routes(1)] inv_accounts [OF account_step_routes(2)]
    inv_accounts [OF account_step_routes(3)] inv_accounts [OF account_step_routes(4)]
    accounts_verify_otp accounts_exchange accounts_onboard desk_accounts
    inv_desk_kept [OF outsider_geography(1)] inv_desk_kept [OF outsider_geography(2)] desk_areas
    inv_desk_kept [OF outsider_push(1)] inv_desk_kept [OF outsider_push(2)] inv_desk_kept [OF outsider_push(3)]
    inv_desk_kept [OF outsider_push(4)] desk_push inv_support [OF support_steps(1)]
    inv_support [OF support_steps(2)] inv_support [OF support_steps(3)] inv_support [OF support_steps(4)]
    inv_support [OF support_steps(5)] inv_support [OF support_steps(6)]\<close>)
qed

section \<open>Reachable states and histories\<close>

definition fresh_platform :: "(point \<Rightarrow> point \<Rightarrow> rat) \<Rightarrow> 'm platform_scheme \<Rightarrow> bool" where
  "fresh_platform distance_m d \<longleftrightarrow> fresh_db d \<and> catalogue_ok d \<and> banners_ok d \<and> accounts_ok d
     \<and> addresses_ok d \<and> trails_ok distance_m d \<and> tickets_ok d"

inductive platform_reachable ::
  "(point \<Rightarrow> point \<Rightarrow> rat) \<Rightarrow> 's redis \<Rightarrow> 'm platform_scheme \<Rightarrow> bool" for distance_m R where
  platform_start: "fresh_platform distance_m d \<Longrightarrow> platform_reachable distance_m R d"
| platform_next: "platform_reachable distance_m R d \<Longrightarrow> platform_step distance_m R d d' \<Longrightarrow>
    platform_reachable distance_m R d'"

lemma fresh_platform_inv: "fresh_platform distance_m d \<Longrightarrow> platform_inv distance_m d"
  using fresh_inv [of d] by (simp add: fresh_platform_def platform_inv_def)

lemma platform_reachable_inv: "platform_reachable distance_m R d \<Longrightarrow> platform_inv distance_m d"
  by (induction rule: platform_reachable.induct) (auto intro: fresh_platform_inv platform_step_inv)

text \<open>Every step is one the core allows on every order: most are stuttering steps.\<close>

lemma catalogue_step_core: "catalogue_step d d' \<Longrightarrow> step_ok d d'"
  by (rule step_ok_frame) (simp_all add: catalogue_step_def quiet_def refund_idents_def)

lemma outer_step_ok:
  "account_step d d' \<Longrightarrow> step_ok d d'" "outsider d d' \<Longrightarrow> step_ok d d'" "support_step d d' \<Longrightarrow> step_ok d d'"
  by (auto simp: account_step_def outsider_def support_step_def intro: quiet_step_ok)

lemma platform_step_core:
  assumes step: "platform_step distance_m R d d'" and inv: "platform_inv distance_m d" shows "step_ok d d'"
proof -
  have ok: "catalogue_ok d" "shelf_ok d" using inv by (simp_all add: platform_inv_parts system_inv_def)
  show ?thesis using step
    by cases (use ok in \<open>simp_all add: live_step_ok catalogue_step_core catalogue_step_merchants
      catalogue_step_create_store catalogue_step_update_store catalogue_step_create_category
      catalogue_step_create_product catalogue_step_create_listing catalogue_step_upsert catalogue_step_update_listing
      quiet_step_ok quiet_regenerate quiet_accept quiet_moderate quiet_process_banner_jobs
      outer_step_ok(1) account_step_routes outer_step_ok(2) outsider_geography outsider_push outsider_tracking
      outer_step_ok(3) support_steps\<close>)
qed

lemma platform_run:
  assumes start: "platform_reachable distance_m R d" and run: "(platform_step distance_m R)\<^sup>*\<^sup>* d d'"
  shows "platform_reachable distance_m R d' \<and> evolves d d'"
  using run
proof (induction rule: rtranclp_induct)
  case base
  with start show ?case by simp
next
  case (step e f)
  then have inv: "platform_inv distance_m e" using platform_reachable_inv by blast
  then have "tables_wf e" by (simp add: platform_inv_def system_inv_def all_coherent_def)
  with platform_step_core [OF step.hyps(2) inv] have "evolves e f" by (simp add: step_ok_def)
  with step show ?case by (auto intro: platform_next evolves_trans)
qed

section \<open>The history of a ticket\<close>

definition tickets_follow :: "'m platform_scheme \<Rightarrow> 'm platform_scheme \<Rightarrow> bool" where
  "tickets_follow d d' \<longleftrightarrow>
     (\<forall>i t. get_ticket d i = Some t \<longrightarrow> (\<exists>t'. get_ticket d' i = Some t' \<and> ticket_move t t'))
     \<and> (\<exists>new. support_messages d' = support_messages d @ new)"

lemma follow_desk: "desk d' = desk d \<Longrightarrow> tickets_follow d d'"
  by (simp add: tickets_follow_def desk_def get_ticket_def)

lemma follow_kept: "keeps_support d d' \<Longrightarrow> tickets_follow d d'"
  by (simp add: tickets_follow_def keeps_support_def get_ticket_def)

lemma follow_support: "support_step d d' \<Longrightarrow> tickets_follow d d'"
  by (simp add: support_step_def tickets_follow_def)

lemma follow_site: "site d' = site d \<Longrightarrow> tickets_follow d d'"
  and follow_quarters: "quarters d' = quarters d \<Longrightarrow> tickets_follow d d'"
  by (simp_all add: site_def quarters_def follow_desk)

lemma platform_step_tickets: "platform_step distance_m R d d' \<Longrightarrow> tickets_follow d d'"
  by (induction rule: platform_step.induct)
    (simp_all add: follow_desk desk_core beside_merchants beside_create_store beside_update_store beside_catalogue
      follow_quarters quarters_listings follow_site site_banners desk_accounts desk_areas
      follow_kept keeps_support_addresses desk_push desk_locations follow_support support_steps)

text \<open>Over a run: the ticket stays, its content too, and its version tells whether it changed.\<close>

definition ticket_later :: "support_ticket \<Rightarrow> support_ticket \<Rightarrow> bool" where
  "ticket_later t t' \<longleftrightarrow> tkt_id t' = tkt_id t \<and> tkt_user_id t' = tkt_user_id t \<and> tkt_subject t' = tkt_subject t
     \<and> tkt_description t' = tkt_description t \<and> (t' = t \<or> tkt_version t < tkt_version t')"

lemma run_tickets:
  assumes "(platform_step distance_m R)\<^sup>*\<^sup>* d d'" and "get_ticket d i = Some t"
  shows "(\<exists>t'. get_ticket d' i = Some t' \<and> ticket_later t t')
    \<and> (\<exists>new. support_messages d' = support_messages d @ new)"
  using assms(1)
proof (induction rule: rtranclp_induct)
  case base
  with assms(2) show ?case by (simp add: ticket_later_def)
next
  case (step e f)
  then obtain t1 where t1: "get_ticket e i = Some t1" "ticket_later t t1"
    and m: "\<exists>new. support_messages e = support_messages d @ new" by blast
  from platform_step_tickets [OF step.hyps(2)] t1(1)
  obtain t2 where "get_ticket f i = Some t2" "ticket_move t1 t2" "\<exists>new. support_messages f = support_messages e @ new"
    by (auto simp: tickets_follow_def)
  with t1(2) m show ?case by (auto simp: ticket_later_def ticket_move_def)
qed

end
