(* ===== verification/Platform_Demo.thy ===== *)
theory Platform_Demo
  imports Platform_System Demo
begin

text \<open>
  The demo marketplace with the tables of the platform around it, and runs of it: a banner is
  drawn, approved and selected, an order is tracked on its way, a ticket is opened and resolved.
\<close>

definition platform_of :: "database \<Rightarrow> platform" where
  "platform_of d = database.extend d
     \<lparr>store_banner_versions = [], banner_generation_jobs = [], store_banner_selections = [],
      banner_audit_events = [], delivery_locations = [], external_identities = [],
      support_tickets = [], support_messages = []\<rparr>"

definition demo_platform :: platform where "demo_platform = platform_of demo_db"

definition demo_config :: platform_settings where
  "demo_config = settings.extend demo_settings
     \<lparr>cfg_auth_provider = ''local_otp'', cfg_dev_otp = [], cfg_otp_ttl_seconds = 300,
      cfg_otp_rate_window_seconds = 600, cfg_otp_max_requests_per_window = 5,
      cfg_otp_max_verify_attempts = 5, cfg_sms_auth_enabled = True, cfg_sms_provider = ''msg91'',
      cfg_fcm_service_account = None, cfg_maps_provider = ''none'', cfg_maps_api_key = None,
      cfg_banner_regen_max_requests = 3, cfg_banner_regen_window_seconds = 3600,
      cfg_banner_job_max_attempts = 3, cfg_banner_job_lease_seconds = 60\<rparr>"

definition demo_digest :: "dict \<Rightarrow> string" where "demo_digest e = ''d''"

definition demo_distance :: "point \<Rightarrow> point \<Rightarrow> rat" where
  "demo_distance p q = 100000 * (\<bar>fst p - fst q\<bar> + \<bar>snd p - snd q\<bar>)"

abbreviation demo_runs :: "platform \<Rightarrow> bool" where
  "demo_runs \<equiv> platform_reachable demo_distance counting_redis"

section \<open>A banner\<close>

definition demo_requested :: platform where
  "demo_requested = snd (regenerate_store_banner demo_digest demo_config 0 ''r'' merchant_2 14 ''key-1'' demo_platform)"

definition demo_drawn :: platform where
  "demo_drawn = snd (process_due_banner_jobs demo_digest demo_config (\<lambda>_. False) 1 10 None demo_requested)"

definition demo_approved :: platform where
  "demo_approved = snd (moderate_store_banner 2 ''r'' super_5 101 Approve None demo_drawn)"

definition demo_shown :: platform where
  "demo_shown = snd (accept_store_banner ''r'' merchant_2 14 101 0 demo_approved)"

section \<open>A delivery on its way\<close>

definition demo_basket :: platform where
  "demo_basket = snd (add_cart_item customer_1 17 2 demo_platform)"

definition demo_bought :: platform where
  "demo_bought = snd (safe_checkout demo_gis demo_settings 0 ''0'' ''A'' customer_1 (Some ''k'') 12 COD demo_basket)"

definition demo_moved :: "order_status \<Rightarrow> platform \<Rightarrow> platform" where
  "demo_moved s d = snd (update_order_status_safely demo_settings no_provider 1 ''r'' merchant_2 102 s d)"

definition demo_prepared :: platform where
  "demo_prepared = demo_moved READY (demo_moved PREPARING (demo_moved ACCEPTED demo_bought))"

definition demo_taken :: platform where
  "demo_taken = snd (claim_delivery 2 rider_3 104 demo_prepared)"

definition demo_order_run :: platform where
  "demo_order_run = snd (update_delivery_status 3 ''r'' rider_3 104 PICKED_UP demo_taken)"

definition demo_fix :: "rat \<Rightarrow> timestamp \<Rightarrow> location_create" where
  "demo_fix lat t = \<lparr>lcc_latitude = lat, lcc_longitude = 76, lcc_accuracy_m = None, lcc_heading_deg = None,
     lcc_speed_mps = None, lcc_recorded_at = t\<rparr>"

definition demo_seen :: platform where
  "demo_seen = snd (hardened_record_delivery_location demo_distance (seconds 10) rider_3 104 (demo_fix 20 (seconds 10))
     demo_order_run)"

definition demo_tracked :: platform where
  "demo_tracked = snd (hardened_record_delivery_location demo_distance (seconds 20) rider_3 104
     (demo_fix (20 + 1/1000) (seconds 20)) demo_seen)"

section \<open>A ticket\<close>

definition demo_row :: support_ticket where
  "demo_row =
     \<lparr>tkt_id = 50, tkt_user_id = 1, tkt_order_id = None, tkt_delivery_id = None, tkt_store_id = None,
      tkt_requester_type = Some ''customer'', tkt_assigned_admin_id = None, tkt_idempotency_key = Some 9,
      tkt_subject = [108], tkt_description = [109], tkt_category = ''general'', tkt_priority = ''normal'',
      tkt_status = ''open'', tkt_triage_summary = [109], tkt_suggested_action = [],
      tkt_resolution_notes = None, tkt_version = 0, tkt_created_at = 5, tkt_resolved_at = None\<rparr>"

definition demo_ticket :: platform where
  "demo_ticket = demo_platform\<lparr>support_tickets := [demo_row]\<rparr>"

definition demo_resolved :: platform where
  "demo_resolved = snd (update_ticket 6 ''r'' 50
     \<lparr>tup_status = ''resolved'', tup_resolution_notes = None, tup_expected_version = Some 0\<rparr> super_5 demo_ticket)"

definition demo_message :: "uuid \<Rightarrow> string \<Rightarrow> nat \<Rightarrow> support_message" where
  "demo_message i visibility c =
     \<lparr>msg_id = i, msg_ticket_id = 50, msg_author_user_id = Some 5, msg_author_type = ''admin'',
      msg_visibility = visibility, msg_idempotency_key = i, msg_body = [c], msg_created_at = 7\<rparr>"

definition demo_noted :: platform where
  "demo_noted = demo_ticket\<lparr>support_messages := [demo_message 60 ''public'' 109, demo_message 61 ''internal'' 110]\<rparr>"

section \<open>They are reachable\<close>

lemma fresh_demo_platform: "fresh_platform demo_distance demo_platform"
  unfolding fresh_platform_def
proof (intro conjI)
  show "fresh_db demo_platform"
    by (simp add: demo_platform_def platform_of_def demo_db_def database.extend_def fresh_db_def shelf_ok_def)
  show "catalogue_ok demo_platform"
    by (simp add: demo_platform_def platform_of_def demo_db_def database.extend_def catalogue_ok_rows)
  show "banners_ok demo_platform"
    by (simp add: demo_platform_def platform_of_def demo_db_def database.extend_def banners_ok_def)
  show "accounts_ok demo_platform"
    by (simp add: demo_platform_def platform_of_def demo_db_def database.extend_def accounts_ok_def person_def
        List.map_filter_simps)
  show "addresses_ok demo_platform"
    by (simp add: demo_platform_def platform_of_def demo_db_def database.extend_def addresses_ok_def defaults_of_def)
  show "trails_ok demo_distance demo_platform"
    by (simp add: demo_platform_def platform_of_def demo_db_def database.extend_def trails_ok_def fixes_of_def)
  show "tickets_ok demo_platform"
    by (simp add: demo_platform_def platform_of_def demo_db_def database.extend_def tickets_ok_def message_keys_def)
qed

lemma runs_demo_platform: "demo_runs demo_platform"
  by (rule platform_start [OF fresh_demo_platform])

lemma fresh_demo_ticket: "fresh_platform demo_distance demo_ticket"
proof -
  have row: "stamped demo_row" by (simp add: stamped_def demo_row_def TICKET_STATUSES_def)
  have same: "fresh_db demo_ticket = fresh_db demo_platform" "catalogue_ok demo_ticket = catalogue_ok demo_platform"
      "accounts_ok demo_ticket = accounts_ok demo_platform" "addresses_ok demo_ticket = addresses_ok demo_platform"
      "trails_ok demo_distance demo_ticket = trails_ok demo_distance demo_platform"
    by (simp_all add: demo_ticket_def fresh_db_def shelf_ok_def catalogue_ok_rows accounts_ok_def addresses_ok_def
        defaults_of_def trails_ok_def fixes_of_def)
  have "banners_ok demo_ticket"
    using fresh_demo_platform by (auto simp: demo_ticket_def fresh_platform_def intro: banners_ok_frame [of _ demo_platform])
  moreover have "tickets_ok demo_ticket"
    using row by (simp add: demo_ticket_def tickets_ok_def message_keys_def demo_platform_def platform_of_def
        database.extend_def split: option.split)
  ultimately show ?thesis using fresh_demo_platform same by (simp add: fresh_platform_def)
qed

lemma runs_demo_ticket: "demo_runs demo_ticket"
  by (rule platform_start [OF fresh_demo_ticket])

lemma runs_demo_approved: "demo_runs demo_approved"
  unfolding demo_approved_def demo_drawn_def demo_requested_def
  by (intro platform_next [OF _ platform_step.banner_moderate] platform_next [OF _ platform_step.banner_worker]
      platform_next [OF _ platform_step.banner_regenerate] runs_demo_platform)

lemma runs_demo_shown: "demo_runs demo_shown"
  unfolding demo_shown_def by (rule platform_next [OF runs_demo_approved platform_step.banner_accept])

lemma runs_core: "demo_runs d \<Longrightarrow> live_step d d' \<Longrightarrow> demo_runs d'"
  by (blast intro: platform_next platform_step.core)

lemma runs_demo_order: "demo_runs demo_order_run"
  unfolding demo_order_run_def demo_taken_def demo_prepared_def demo_moved_def demo_bought_def demo_basket_def
  by (intro runs_core [OF _ live_step.delivery_status] runs_core [OF _ live_step.claim]
      runs_core [OF _ live_step.merchant_status] runs_core [OF _ live_step.checkout]
      runs_core [OF _ live_step.cart_add] runs_demo_platform)

lemma runs_demo_tracked: "demo_runs demo_tracked"
  unfolding demo_tracked_def demo_seen_def
  by (intro platform_next [OF _ platform_step.location] runs_demo_order)

end
