(* ===== verification/Platform_Properties.thy ===== *)
theory Platform_Properties
  imports Platform_Demo
begin

text \<open>
  What the whole platform guarantees: the core's invariants survive every other operation, and
  the catalogue, the banners, the accounts, tracking and support keep theirs; the request
  limiter, the phone numbers and the one-time codes behave as their users rely on.
\<close>

section \<open>Over every reachable state of the platform\<close>

text \<open>C6: nothing outside the order handlers disturbs an order: in every state the whole platform
  reaches, with catalogue edits, banners, logins, tracking and support interleaved, an order has a
  delivery that agrees with it, restored stock and refunds follow its status, nobody holds two
  active deliveries and no stock is negative.\<close>

theorem platform_keeps_orders:
  assumes "platform_reachable distance_m R d" and "get_order d oid = Some o1"
  shows "(\<exists>x. delivery_of_order d oid = Some x
      \<and> (ord_status o1 \<in> {READY, OUT_FOR_DELIVERY, DELIVERED} \<longrightarrow> payment_allows_fulfillment o1)
      \<and> (dlv_status x = DLV_DELIVERED \<longleftrightarrow> ord_status o1 = DELIVERED)
      \<and> (ord_status o1 = OUT_FOR_DELIVERY \<longrightarrow> dlv_status x \<in> {PICKED_UP, FAILED}))
    \<and> (ord_stock_restored_at o1 \<noteq> None \<longleftrightarrow> ord_status o1 \<in> {CANCELLED, RETURNED})
    \<and> (refund_of_order d oid \<noteq> None \<longleftrightarrow> ord_payment_status o1 \<in> {REFUND_PENDING, REFUNDED})
    \<and> riders_exclusive d \<and> (\<forall>l \<in> set (store_products d). 0 \<le> lst_stock_quantity l)"
proof -
  have inv: "system_inv d" using platform_reachable_inv [OF assms(1)] by (simp add: platform_inv_parts)
  then have coh: "coherent (view_of o1 (delivery_of_order d oid) (has_refund d oid))"
    using assms(2) by (auto simp: system_inv_def all_coherent_def fulfilment_of_def)
  then obtain x where x: "delivery_of_order d oid = Some x"
    by (cases "delivery_of_order d oid") (auto simp: coherent_def view_of_def)
  note rows = coherent_row [OF coh [unfolded x]]
  show ?thesis using x rows(1,3,4,6,7) inv by (auto simp: system_inv_def shelf_ok_def)
qed

lemma platform_keeps_orders_witness:
  "dlv_status (the (delivery_of_order demo_order_run 102)) \<in> {PICKED_UP, FAILED} \<and> riders_exclusive demo_order_run"
proof -
  have "get_order demo_order_run 102 = Some (the (get_order demo_order_run 102))"
    "ord_status (the (get_order demo_order_run 102)) = OUT_FOR_DELIVERY" by code_simp+
  with platform_keeps_orders [OF runs_demo_order this(1)] show ?thesis by auto
qed

text \<open>C14: a storefront shows only what was reviewed: every banner the public listing returns, in any
  reachable state, is the valid manifest of a rendered version of that very store which a moderator
  approved.\<close>

theorem only_approved_banners_shown:
  assumes "platform_reachable distance_m R d" and "(sid, m) \<in> set (public_presentations_for_stores d ids)"
  shows "sid \<in> set ids \<and> valid_manifest m
    \<and> (\<exists>v \<in> set (store_banner_versions d). bnv_store_id v = sid \<and> bnv_manifest v = Some m
        \<and> bnv_generation_status v = GENERATION_READY \<and> bnv_moderation_status v = MODERATION_APPROVED)"
proof -
  have "banners_ok d" using platform_reachable_inv [OF assms(1)] by (simp add: platform_inv_parts)
  from published_version [OF this assms(2)] show ?thesis by (auto simp: presentable_def)
qed

lemma only_approved_banners_shown_witness:
  "\<exists>m. public_presentations_for_stores demo_shown [14] = [(14, m)] \<and> valid_manifest m"
proof -
  have "map fst (public_presentations_for_stores demo_shown [14]) = [14]" by code_simp
  then obtain m where m: "public_presentations_for_stores demo_shown [14] = [(14, m)]" by auto
  with only_approved_banners_shown [OF runs_demo_shown, of 14 m "[14]"] show ?thesis by simp
qed

text \<open>C18: the catalogue stays consistent: in every reachable state a store lists a product at most once,
  every listing's store and product exist, no price is negative, and slugs and category names are
  unique.\<close>

theorem catalogue_consistent:
  assumes "platform_reachable distance_m R d" and "l \<in> set (store_products d)"
  shows "0 \<le> lst_price l \<and> (\<exists>s \<in> set (stores d). sto_id s = lst_store_id l)
    \<and> (\<exists>p \<in> set (products d). pro_id p = lst_product_id l)
    \<and> (\<forall>k \<in> set (store_products d). lst_store_id k = lst_store_id l \<and> lst_product_id k = lst_product_id l \<longrightarrow> k = l)
    \<and> distinct (map sto_slug (stores d)) \<and> distinct (map cat_slug (categories d))"
proof -
  have ok: "catalogue_ok d" using platform_reachable_inv [OF assms(1)] by (simp add: platform_inv_parts)
  then have inj: "inj_on (\<lambda>l. (lst_store_id l, lst_product_id l)) (set (store_products d))"
    by (simp add: catalogue_ok_rows distinct_map)
  have "lst_store_id l \<in> sto_id ` set (stores d)" "lst_product_id l \<in> pro_id ` set (products d)" "0 \<le> lst_price l"
    using ok assms(2) by (auto simp: catalogue_ok_rows)
  with ok inj_onD [OF inj _ _ assms(2)] show ?thesis by (auto simp: catalogue_ok_rows)
qed

definition demo_upsert :: store_product_create where
  "demo_upsert = \<lparr>spc_product_id = 16, spc_price = paise 7000, spc_mrp = None, spc_stock_quantity = 9,
     spc_is_available = True\<rparr>"

definition demo_relisted :: platform where
  "demo_relisted = snd (upsert_store_product ''r'' merchant_2 14 demo_upsert demo_platform)"

lemma catalogue_consistent_witness:
  "map lst_price (store_products demo_relisted) = [7000] \<and> 0 \<le> lst_price (hd (store_products demo_relisted))"
proof -
  have run: "demo_runs demo_relisted"
    unfolding demo_relisted_def by (rule platform_next [OF runs_demo_platform platform_step.listing_upsert])
  have price: "map lst_price (store_products demo_relisted) = [7000]" by code_simp
  then have "hd (store_products demo_relisted) \<in> set (store_products demo_relisted)"
    by (cases "store_products demo_relisted") auto
  with price catalogue_consistent [OF run] show ?thesis by blast
qed

text \<open>C17: prices belong to the merchant: an order, a delivery, a payment or a refund never changes the
  assortment, the prices, the catalogue or the map of villages and addresses, and a request on a
  store's listings either changes nothing or is made by its approved owner or a catalogue
  administrator and leaves the listings of every other store alone.\<close>

theorem only_managers_change_listings:
  assumes "platform_reachable distance_m R d"
  shows "(\<forall>d'. \<not> live_step d d' \<or> assortment d' = assortment d \<and> surroundings d' = surroundings d)
    \<and> confined sid u d (snd (upsert_store_product req_id u sid p d))
    \<and> confined sid u d (snd (update_store_product req_id u sid i q d))
    \<and> confined sid u d (snd (create_merchant_product_listing ilike casefold u sid c d))"
proof -
  have "shelf_ok d" using platform_reachable_inv [OF assms] by (simp add: platform_inv_parts system_inv_def)
  then show ?thesis
    by (auto simp: upsert_confined update_confined create_listing_confined live_step_surroundings live_step_assortment)
qed

lemma only_managers_change_listings_witness:
  "demo_relisted \<noteq> demo_platform \<and> may_manage demo_platform 14 merchant_2
    \<and> elsewhere 14 demo_relisted = elsewhere 14 demo_platform"
proof -
  have "map lst_price (store_products demo_relisted) \<noteq> map lst_price (store_products demo_platform)" by code_simp
  then have "demo_relisted \<noteq> demo_platform" by auto
  moreover have "confined 14 merchant_2 demo_platform demo_relisted"
    unfolding demo_relisted_def using only_managers_change_listings [OF runs_demo_platform] by blast
  ultimately show ?thesis by (auto simp: confined_def)
qed

text \<open>C20: a person is one account: in every reachable state no two users share an identifier or a
  phone number, an external subject is linked once, and to a user that exists.\<close>

theorem one_account_per_person:
  assumes "platform_reachable distance_m R d" and "u \<in> set (users d)" and "v \<in> set (users d)"
  shows "(usr_id u = usr_id v \<longrightarrow> u = v) \<and> (usr_phone u \<noteq> None \<and> usr_phone u = usr_phone v \<longrightarrow> u = v)
    \<and> distinct (map (\<lambda>x. (xid_provider x, xid_subject x)) (external_identities d))
    \<and> (\<forall>x \<in> set (external_identities d). \<exists>w \<in> set (users d). usr_id w = xid_user_id x)"
proof -
  have ok: "accounts_ok d" using platform_reachable_inv [OF assms(1)] by (simp add: platform_inv_parts)
  have phones: "x = y" if "distinct (List.map_filter usr_phone us)" "x \<in> set us" "y \<in> set us"
      "usr_phone x = Some p" "usr_phone y = Some p" for us x y p
    using that by (induction us) (auto simp: List.map_filter_simps set_map_filter split: option.splits)
  have "inj_on usr_id (set (users d))" using ok by (simp add: accounts_ok_def distinct_map)
  moreover have "u = v" if "usr_phone u \<noteq> None" "usr_phone u = usr_phone v"
    using that phones [OF _ assms(2,3)] ok by (auto simp: accounts_ok_def)
  moreover have "\<exists>w \<in> set (users d). usr_id w = xid_user_id x" if "x \<in> set (external_identities d)" for x
    using ok that by (fastforce simp: accounts_ok_def)
  moreover have "distinct (map (\<lambda>x. (xid_provider x, xid_subject x)) (external_identities d))"
    using ok by (simp add: accounts_ok_def)
  ultimately show ?thesis using assms(2,3) by (blast dest: inj_onD)
qed

definition demo_joined :: platform where
  "demo_joined = snd (admin_onboard_user demo_config ''r'' super_5 False ''+919876543210'' ''Asha'' CUSTOMER demo_platform)"

lemma one_account_per_person_witness:
  "map usr_phone (drop 6 (users demo_joined)) = [Some ''+919876543210'']
    \<and> distinct (map (\<lambda>x. (xid_provider x, xid_subject x)) (external_identities demo_joined))"
proof -
  have run: "demo_runs demo_joined"
    unfolding demo_joined_def by (rule platform_next [OF runs_demo_platform platform_step.user_onboard])
  have phone: "map usr_phone (drop 6 (users demo_joined)) = [Some ''+919876543210'']" by code_simp
  then have "users demo_joined \<noteq> []" by auto
  then have "hd (users demo_joined) \<in> set (users demo_joined)" by simp
  with phone one_account_per_person [OF run] show ?thesis by blast
qed

text \<open>C39: a rider's trail is physically possible: of two consecutive recorded positions of a delivery the
  later is at least five seconds newer and no farther than 55 metres per second allow, in every
  reachable state.\<close>

theorem trail_plausible:
  assumes "platform_reachable distance_m R d" and "Suc i < length (fixes_of d did)"
  shows "loc_recorded_at (fixes_of d did ! i) + seconds 5 \<le> loc_recorded_at (fixes_of d did ! Suc i)
    \<and> distance_m (loc_latitude (fixes_of d did ! i), loc_longitude (fixes_of d did ! i))
        (loc_latitude (fixes_of d did ! Suc i), loc_longitude (fixes_of d did ! Suc i))
      \<le> 55 * elapsed_seconds (loc_recorded_at (fixes_of d did ! i)) (loc_recorded_at (fixes_of d did ! Suc i))"
proof -
  have "desk_ok distance_m d" using platform_reachable_inv [OF assms(1)] by (simp add: platform_inv_parts)
  then have "successively (follows distance_m) (fixes_of d did)" by (simp add: desk_ok_def trails_ok_def)
  then have "follows distance_m (fixes_of d did ! i) (fixes_of d did ! Suc i)"
    using assms(2) by (simp add: successively_conv_nth)
  then show ?thesis by (simp add: follows_def MIN_LOCATION_INTERVAL_SECONDS_def MAX_PLAUSIBLE_SPEED_MPS_def)
qed

lemma trail_plausible_witness:
  "length (fixes_of demo_tracked 104) = 2
    \<and> loc_recorded_at (fixes_of demo_tracked 104 ! 0) + seconds 5 \<le> loc_recorded_at (fixes_of demo_tracked 104 ! 1)"
proof -
  have "length (fixes_of demo_tracked 104) = 2" by code_simp
  with trail_plausible [OF runs_demo_tracked, of 0 104] show ?thesis by simp
qed

text \<open>C37: a ticket's history over a run of the platform: it is never removed, keeps its requester, subject
  and description, any change raises its version, its resolution stamp is set exactly while it is
  resolved or closed, and no message is ever removed or rewritten.\<close>

theorem ticket_history:
  assumes "platform_reachable distance_m R d" and "(platform_step distance_m R)\<^sup>*\<^sup>* d d'"
    and "get_ticket d i = Some t"
  shows "\<exists>t'. get_ticket d' i = Some t' \<and> tkt_user_id t' = tkt_user_id t \<and> tkt_subject t' = tkt_subject t
    \<and> tkt_description t' = tkt_description t \<and> (t' = t \<or> tkt_version t < tkt_version t')
    \<and> (tkt_resolved_at t' \<noteq> None \<longleftrightarrow> tkt_status t' \<in> {''resolved'', ''closed''})
    \<and> (\<exists>new. support_messages d' = support_messages d @ new)"
proof -
  obtain t' where t': "get_ticket d' i = Some t'" "ticket_later t t'" "\<exists>new. support_messages d' = support_messages d @ new"
    using run_tickets [OF assms(2,3)] by blast
  have "desk_ok distance_m d'"
    using platform_run [OF assms(1,2)] platform_reachable_inv by (auto simp: platform_inv_parts)
  moreover have "t' \<in> set (support_tickets d')" using t'(1) by (auto simp: get_ticket_def)
  ultimately have "stamped t'" by (simp add: desk_ok_def tickets_ok_def)
  with t' show ?thesis by (auto simp: ticket_later_def stamped_def)
qed

lemma ticket_history_witness:
  "\<exists>t'. get_ticket demo_resolved 50 = Some t' \<and> tkt_status t' = ''resolved'' \<and> tkt_resolved_at t' \<noteq> None
    \<and> 0 < tkt_version t'"
proof -
  have step: "(platform_step demo_distance counting_redis)\<^sup>*\<^sup>* demo_ticket demo_resolved"
    unfolding demo_resolved_def by (rule r_into_rtranclp, rule platform_step.ticket_update)
  have row: "get_ticket demo_ticket 50 = Some demo_row" by (simp add: demo_ticket_def get_ticket_def demo_row_def)
  have "map_option (\<lambda>t. (tkt_status t, tkt_version t)) (get_ticket demo_resolved 50) = Some (''resolved'', 1)"
    by code_simp
  with ticket_history [OF runs_demo_ticket step row] show ?thesis by auto
qed

text \<open>C38: the requester's view is the public one: every message a requester is served belongs to his own
  ticket, was written as public, and does not name its author's account; an internal note sends
  no notification to anyone.\<close>

theorem requester_sees_public_only:
  assumes "my_ticket_messages limit offset tid u d = (Inr ms, d')" and "x \<in> set ms"
  shows "mrd_author_user_id x = None
    \<and> (\<exists>m \<in> set (support_messages d). x = public_message m \<and> msg_visibility m = ''public'' \<and> msg_ticket_id m = tid)
    \<and> (\<exists>t. get_ticket d tid = Some t \<and> tkt_user_id t = usr_id u)
    \<and> notification_events (snd (add_internal_note now req_id tid p admin d)) = notification_events d"
proof -
  obtain m where "m \<in> set (support_messages d)" "x = public_message m" "msg_visibility m = ''public''"
      "msg_ticket_id m = tid" "\<exists>t. get_ticket d tid = Some t \<and> tkt_user_id t = usr_id u"
    using requester_reads_public [OF assms] by blast
  moreover from this(2) have "mrd_author_user_id x = None" by (simp add: public_message_def)
  ultimately show ?thesis by (auto simp: internal_note_is_silent)
qed

lemma requester_sees_public_only_witness:
  "\<exists>x. my_ticket_messages 10 0 50 customer_1 demo_noted = (Inr [x], demo_noted) \<and> mrd_body x = [109]
    \<and> mrd_author_user_id x = None"
proof -
  have served: "my_ticket_messages 10 0 50 customer_1 demo_noted = (Inr [public_message (demo_message 60 ''public'' 109)], demo_noted)"
    by (simp add: my_ticket_messages_def valid_page_def owned_ticket_def demo_noted_def demo_ticket_def get_ticket_def
        demo_row_def person_def messages_of_def page_def demo_message_def)
  show ?thesis using requester_sees_public_only [OF served list.set_intros(1)] served
    by (auto simp: public_message_def demo_message_def)
qed

end
