(* ===== verification/Media.thy ===== *)
theory Media
  imports Config Geography
begin

text \<open>
  Product images: \<open>models/product_media.py\<close>, the storage adapters and the scanner
  (\<open>services/product_media_storage.py\<close>, \<open>product_media_s3.py\<close>), inspection
  (\<open>product_media_processing.py\<close>), publication and the job queue (\<open>product_media.py\<close>,
  \<open>product_media_publication.py\<close>) and the endpoints of \<open>routes/media.py\<close>. SHA-256, the image library,
  the scanner's and the bucket's HTTP exchanges and \<open>urlsplit\<close> are parameters; the signature of a
  bucket request is part of the exchange. Columns no code writes (the asset's own attempt, lease and
  purge columns) are left out.
\<close>

type_synonym bytes = "nat list"

section \<open>Rows\<close>

record product_media_asset =
  mda_id :: uuid
  mda_store_product_id :: uuid
  mda_uploader_user_id :: uuid
  mda_state :: string
  mda_source_object_key :: string
  mda_public_object_key :: "string option"
  mda_source_sha256 :: string
  mda_derivative_sha256 :: "string option"
  mda_detected_mime :: "string option"
  mda_byte_size :: "int option"
  mda_width :: "int option"
  mda_height :: "int option"
  mda_alt_text :: "string option"
  mda_position :: int
  mda_is_primary :: bool
  mda_failure_code :: "string option"
  mda_approved_at :: "timestamp option"
  mda_retired_at :: "timestamp option"
  mda_created_at :: timestamp

record product_media_job =
  mdj_id :: uuid
  mdj_asset_id :: uuid
  mdj_state :: string
  mdj_attempt_count :: int
  mdj_next_attempt_at :: "timestamp option"
  mdj_lease_expires_at :: "timestamp option"
  mdj_failure_code :: "string option"
  mdj_created_at :: timestamp

record product_media_audit_event =
  mde_asset_id :: "uuid option"
  mde_store_product_id :: uuid
  mde_actor_user_id :: "uuid option"
  mde_action :: string
  mde_reason_code :: "string option"
  mde_event_data :: dict
  mde_request_id :: string

record media = platform +
  product_media_assets :: "product_media_asset list"
  product_media_jobs :: "product_media_job list"
  product_media_audit_events :: "product_media_audit_event list"

definition get_asset :: "'m media_scheme \<Rightarrow> uuid \<Rightarrow> product_media_asset option" where
  "get_asset d = get_row mda_id (product_media_assets d)"

definition flush_asset :: "product_media_asset \<Rightarrow> 'm media_scheme \<Rightarrow> 'm media_scheme" where
  "flush_asset a d = d\<lparr>product_media_assets := put_row mda_id a (product_media_assets d)\<rparr>"

definition get_media_job :: "'m media_scheme \<Rightarrow> uuid \<Rightarrow> product_media_job option" where
  "get_media_job d = get_row mdj_id (product_media_jobs d)"

definition flush_media_job :: "product_media_job \<Rightarrow> 'm media_scheme \<Rightarrow> 'm media_scheme" where
  "flush_media_job j d = d\<lparr>product_media_jobs := put_row mdj_id j (product_media_jobs d)\<rparr>"

interpretation asset_rows: row_store get_asset flush_asset mda_id "\<lambda>a. a"
  by unfold_locales (auto simp: get_asset_def flush_asset_def table_simps)

interpretation media_job_rows: row_store get_media_job flush_media_job mdj_id "\<lambda>j. j"
  by unfold_locales (auto simp: get_media_job_def flush_media_job_def table_simps)

section \<open>Storage\<close>

definition starts :: "string \<Rightarrow> string \<Rightarrow> bool" where
  "starts p s \<longleftrightarrow> take (length p) s = p"

definition ends :: "string \<Rightarrow> string \<Rightarrow> bool" where
  "ends p s \<longleftrightarrow> length p \<le> length s \<and> drop (length s - length p) s = p"

definition key_parts :: "string \<Rightarrow> string list" where
  "key_parts key = split_at (CHR ''/'') [] key"

text \<open>\<open>_safe_path\<close>; without symbolic links such a key cannot leave its root.\<close>

definition safe_key :: "string \<Rightarrow> bool" where
  "safe_key key \<longleftrightarrow> key \<noteq> [] \<and> list_all (\<lambda>p. p \<notin> {[], ''.'', ''..''}) (key_parts key)
     \<and> list_all (\<lambda>c. c \<notin> {CHR 0x5C, CHR ''?'', CHR ''#'', CHR ''%'', CHR '':''}) key"

record stored_object =
  obj_key :: string
  obj_content_type :: string
  obj_byte_size :: int
  obj_sha256 :: string

text \<open>
  The \<open>ObjectStorage\<close> protocol. A read answers None for a missing object; every caller ignores
  whether a deletion raised.
\<close>

record 's storage =
  obs_put_quarantine :: "string \<Rightarrow> bytes \<Rightarrow> string \<Rightarrow> 's \<Rightarrow> stored_object res \<times> 's"
  obs_read_quarantine :: "string \<Rightarrow> 's \<Rightarrow> bytes option res"
  obs_put_public :: "string \<Rightarrow> bytes \<Rightarrow> string \<Rightarrow> 's \<Rightarrow> stored_object res \<times> 's"
  obs_delete_quarantine :: "string \<Rightarrow> 's \<Rightarrow> 's"
  obs_delete_public :: "string \<Rightarrow> 's \<Rightarrow> 's"

definition stored_of :: "(bytes \<Rightarrow> string) \<Rightarrow> string \<Rightarrow> bytes \<Rightarrow> string \<Rightarrow> stored_object" where
  "stored_of sha256 key content content_type =
     \<lparr>obj_key = key, obj_content_type = content_type, obj_byte_size = int (length content), obj_sha256 = sha256 content\<rparr>"

definition UNSAFE_KEY :: exn where "UNSAFE_KEY = ValueError ''Object keys must be relative opaque paths''"

text \<open>\<open>LocalObjectStorage\<close>: two directories.\<close>

record local_files =
  lfs_quarantine :: "string \<Rightarrow> bytes option"
  lfs_public :: "string \<Rightarrow> bytes option"

definition local_storage :: "(bytes \<Rightarrow> string) \<Rightarrow> local_files storage" where
  "local_storage sha256 =
     \<lparr>obs_put_quarantine = (\<lambda>key content t s.
        if \<not> safe_key key then (Inl UNSAFE_KEY, s)
        else (Inr (stored_of sha256 key content t), s\<lparr>lfs_quarantine := (lfs_quarantine s)(key \<mapsto> content)\<rparr>)),
      obs_read_quarantine = (\<lambda>key s. if \<not> safe_key key then Inl UNSAFE_KEY else Inr (lfs_quarantine s key)),
      obs_put_public = (\<lambda>key content t s.
        if \<not> safe_key key then (Inl UNSAFE_KEY, s)
        else (Inr (stored_of sha256 key content t), s\<lparr>lfs_public := (lfs_public s)(key \<mapsto> content)\<rparr>)),
      obs_delete_quarantine = (\<lambda>key s. if \<not> safe_key key then s else s\<lparr>lfs_quarantine := (lfs_quarantine s)(key := None)\<rparr>),
      obs_delete_public = (\<lambda>key s. if \<not> safe_key key then s else s\<lparr>lfs_public := (lfs_public s)(key := None)\<rparr>)\<rparr>"

text \<open>
  A request to a bucket: the answer's body, None for a 404 on GET, Inl when it raised, in which case
  it may have been carried out or not.
\<close>

datatype bucket_method = GET | PUT | DELETE

type_synonym 's bucket_client = "bucket_method \<Rightarrow> string \<Rightarrow> string \<Rightarrow> bytes \<Rightarrow> 's \<Rightarrow> bytes option res \<times> 's"

definition s3_request :: "'s bucket_client \<Rightarrow> 's bucket_client" where
  "s3_request client method bucket key content s =
     (if \<not> safe_key key then (Inl UNSAFE_KEY, s) else client method bucket key content s)"

definition s3_put_quarantine ::
  "(bytes \<Rightarrow> string) \<Rightarrow> 's bucket_client \<Rightarrow> string \<Rightarrow> string \<Rightarrow> bytes \<Rightarrow> string \<Rightarrow> 's \<Rightarrow> stored_object res \<times> 's" where
  "s3_put_quarantine sha256 client bucket key content t s =
     (if \<not> starts ''quarantine/listings/'' key \<or> t \<notin> {''image/jpeg'', ''image/png'', ''image/webp''}
      then (Inl (ValueError ''Only listing image sources may enter quarantine''), s)
      else case s3_request client PUT bucket key content s of
        (Inl e, s1) \<Rightarrow> (Inl e, s1)
      | (Inr _, s1) \<Rightarrow> (Inr (stored_of sha256 key content t), s1))"

text \<open>The derivative is read back before anything is recorded, and removed when it differs.\<close>

definition s3_put_public ::
  "(bytes \<Rightarrow> string) \<Rightarrow> 's bucket_client \<Rightarrow> string \<Rightarrow> string \<Rightarrow> bytes \<Rightarrow> string \<Rightarrow> 's \<Rightarrow> stored_object res \<times> 's" where
  "s3_put_public sha256 client bucket key content t s =
     (if t \<noteq> ''image/webp'' \<or> \<not> starts ''public/listings/'' key \<or> \<not> ends ''.webp'' key \<or> content = []
      then (Inl (ValueError ''Only safe listing WebP derivatives may be published''), s)
      else case s3_request client PUT bucket key content s of
        (Inl e, s1) \<Rightarrow> (Inl e, s1)
      | (Inr _, s1) \<Rightarrow>
          (case s3_request client GET bucket key [] s1 of
             (Inl e, s2) \<Rightarrow> (Inl e, snd (s3_request client DELETE bucket key [] s2))
           | (Inr None, s2) \<Rightarrow>
               (Inl (RuntimeError ''Quarantined media object is missing''), snd (s3_request client DELETE bucket key [] s2))
           | (Inr (Some persisted), s2) \<Rightarrow>
               if sha256 persisted \<noteq> sha256 content
               then (Inl (RuntimeError ''Public derivative read-back checksum mismatch''),
                     snd (s3_request client DELETE bucket key [] s2))
               else (Inr (stored_of sha256 key content t), s2)))"

definition s3_storage :: "(bytes \<Rightarrow> string) \<Rightarrow> 's bucket_client \<Rightarrow> string \<Rightarrow> string \<Rightarrow> 's storage" where
  "s3_storage sha256 client quarantine public =
     \<lparr>obs_put_quarantine = s3_put_quarantine sha256 client quarantine,
      obs_read_quarantine = (\<lambda>key s. fst (s3_request client GET quarantine key [] s)),
      obs_put_public = s3_put_public sha256 client public,
      obs_delete_quarantine = (\<lambda>key s. snd (s3_request client DELETE quarantine key [] s)),
      obs_delete_public = (\<lambda>key s. snd (s3_request client DELETE public key [] s))\<rparr>"

text \<open>What \<open>urllib.parse.urlsplit\<close> answers, as far as the code looks at it.\<close>

record url_parts =
  url_scheme :: string
  url_hostname :: "string option"
  url_username :: "string option"
  url_password :: "string option"
  url_path :: string
  url_query :: string
  url_fragment :: string

definition https_host :: "url_parts \<Rightarrow> bool" where
  "https_host u \<longleftrightarrow> url_scheme u = ''https'' \<and> present (url_hostname u) \<and> \<not> present (url_username u)
     \<and> \<not> present (url_password u) \<and> url_query u = [] \<and> url_fragment u = []"

definition https_origin :: "url_parts \<Rightarrow> bool" where
  "https_origin u \<longleftrightarrow> https_host u \<and> url_path u \<in> {[], ''/''}"

definition valid_bucket :: "string option \<Rightarrow> bool" where
  "valid_bucket b \<longleftrightarrow> present b \<and> b \<notin> {Some ''.'', Some ''..''}
     \<and> list_all (\<lambda>c. c \<notin> {CHR ''/'', CHR 0x5C, CHR ''%'', CHR ''?'', CHR ''#''}) (the b)"

text \<open>The constructor of \<open>S3ObjectStorage\<close>; \<open>cfg_media_s3\<close> is endpoint, region and the two keys.\<close>

definition s3_checked :: "(string option \<Rightarrow> url_parts) \<Rightarrow> config \<Rightarrow> unit res" where
  "s3_checked urlsplit cfg =
     (case cfg_media_s3 cfg of
        endpoint # credentials \<Rightarrow>
          if \<not> https_origin (urlsplit endpoint) \<or> \<not> list_all present credentials
          then Inl (ValueError ''S3 requires a credentialed HTTPS origin and region'')
          else if \<not> valid_bucket (cfg_media_s3_quarantine_bucket cfg) \<or> \<not> valid_bucket (cfg_media_s3_public_bucket cfg)
          then Inl (ValueError ''Invalid S3 bucket'')
          else if cfg_media_s3_quarantine_bucket cfg = cfg_media_s3_public_bucket cfg
          then Inl (ValueError ''Quarantine and public buckets must be separate'')
          else Inr ()
      | [] \<Rightarrow> Inl (ValueError ''S3 requires a credentialed HTTPS origin and region''))"

definition local_allowed :: "config \<Rightarrow> bool" where
  "local_allowed cfg \<longleftrightarrow> cfg_app_env cfg \<in> {''development'', ''test''}"

definition configured_media_storage ::
  "(string option \<Rightarrow> url_parts) \<Rightarrow> config \<Rightarrow> 's storage \<Rightarrow> 's storage \<Rightarrow> 's storage res" where
  "configured_media_storage urlsplit cfg files buckets =
     (if cfg_media_storage_backend cfg = ''local'' \<and> local_allowed cfg then Inr files
      else if cfg_media_storage_backend cfg = ''s3'' then res_bind (s3_checked urlsplit cfg) (\<lambda>_. Inr buckets)
      else Inl (RuntimeError ''Secure media storage backend is not configured''))"

section \<open>The scanner and the image library\<close>

text \<open>The scanner's JSON object: its verdict when it is one of text, and its reason (Some None: no text).\<close>

record scan_reply =
  srp_verdict :: "string option"
  srp_reason :: "string option option"

text \<open>
  \<open>HttpContentScanner\<close>; \<open>post\<close> is None when the exchange or its JSON failed, Some None when the
  answer is no object.
\<close>

definition scanner_checked :: "(string option \<Rightarrow> url_parts) \<Rightarrow> config \<Rightarrow> unit res" where
  "scanner_checked urlsplit cfg =
     (if \<not> https_host (urlsplit (cfg_media_scan_endpoint_url cfg))
      then Inl (ValueError ''Scanner endpoint must use HTTPS without URL credentials, query or fragment'')
      else if \<not> present (cfg_media_scan_auth_token cfg)
      then Inl (ValueError ''Scanner authentication token is required'') else Inr ())"

definition scan_bytes :: "(bytes \<Rightarrow> scan_reply option option) \<Rightarrow> bytes \<Rightarrow> string" where
  "scan_bytes post content =
     (case post content of
        None \<Rightarrow> ''unavailable''
      | Some None \<Rightarrow> ''unavailable''
      | Some (Some r) \<Rightarrow>
          (case srp_verdict r of
             None \<Rightarrow> ''unavailable''
           | Some v \<Rightarrow>
               if v \<notin> {''clean'', ''infected'', ''rejected''} then ''unavailable''
               else (case srp_reason r of
                   None \<Rightarrow> v
                 | Some None \<Rightarrow> ''unavailable''
                 | Some (Some why) \<Rightarrow> if 80 < length why then ''unavailable'' else v)))"

text \<open>
  Pillow: what a call produced, that it raised one of the exceptions the code catches, or another.
  \<open>img_probe\<close> is the format and size of the opened image, \<open>img_render\<close> the verified, oriented and
  re-encoded WebP no larger than the given edge.
\<close>

datatype 'a decoded = Decoded 'a | Undecodable | Crashed

record imaging =
  img_probe :: "bytes \<Rightarrow> (string \<times> int \<times> int) decoded"
  img_render :: "int \<Rightarrow> bytes \<Rightarrow> (bytes \<times> int \<times> int) decoded"

datatype media_error = Media_Rejected string | Media_Scan_Unavailable | Media_Failed

definition SUPPORTED :: "(string \<times> string) list" where
  "SUPPORTED = [(''JPEG'', ''image/jpeg''), (''PNG'', ''image/png''), (''WEBP'', ''image/webp'')]"

record derivative =
  der_content :: bytes
  der_width :: int
  der_height :: int

definition size_allowed :: "config \<Rightarrow> int \<Rightarrow> int \<Rightarrow> bool" where
  "size_allowed cfg w h \<longleftrightarrow> 0 < w \<and> 0 < h \<and> w \<le> cfg_media_image_max_width cfg
     \<and> h \<le> cfg_media_image_max_height cfg \<and> w * h \<le> cfg_media_image_max_pixels cfg"

definition rendered :: "config \<Rightarrow> imaging \<Rightarrow> bytes \<Rightarrow> string \<Rightarrow> media_error + derivative" where
  "rendered cfg img source mime =
     (case img_probe img source of
        Crashed \<Rightarrow> Inl Media_Failed
      | Undecodable \<Rightarrow> Inl (Media_Rejected ''image_decode_failed'')
      | Decoded (format, w, h) \<Rightarrow>
          if map_of SUPPORTED format \<noteq> Some mime then Inl (Media_Rejected ''unsupported_or_mismatched_format'')
          else if \<not> size_allowed cfg w h then Inl (Media_Rejected ''image_dimensions_exceeded'')
          else (case img_render img 1280 source of
              Crashed \<Rightarrow> Inl Media_Failed
            | Undecodable \<Rightarrow> Inl (Media_Rejected ''image_decode_failed'')
            | Decoded (content, w1, h1) \<Rightarrow> Inr \<lparr>der_content = content, der_width = w1, der_height = h1\<rparr>))"

text \<open>\<open>scan\<close>: None when the scanner raised.\<close>

definition inspect_and_render ::
  "(bytes \<Rightarrow> string) \<Rightarrow> (bytes \<Rightarrow> string option) \<Rightarrow> imaging \<Rightarrow> config \<Rightarrow> bytes \<Rightarrow> stored_object \<Rightarrow>
     media_error + derivative" where
  "inspect_and_render sha256 scan img cfg source original =
     (if source = [] \<or> cfg_media_upload_max_bytes cfg < int (length source)
         \<or> obj_byte_size original \<noteq> int (length source)
      then Inl (Media_Rejected ''invalid_size'')
      else if sha256 source \<noteq> obj_sha256 original then Inl (Media_Rejected ''source_hash_mismatch'')
      else case scan source of
        None \<Rightarrow> Inl Media_Scan_Unavailable
      | Some verdict \<Rightarrow>
          if verdict = ''unavailable'' then Inl Media_Scan_Unavailable
          else if verdict \<noteq> ''clean'' then Inl (Media_Rejected ''scan_rejected'')
          else rendered cfg img source (obj_content_type original))"

section \<open>Assets, jobs and audit events\<close>

definition SAFE_AUDIT_FIELDS :: "string list" where
  "SAFE_AUDIT_FIELDS = [''state'', ''attempt_count'', ''detected_mime'', ''byte_size'', ''width'', ''height'']"

definition audit_media_event ::
  "product_media_asset \<Rightarrow> string \<Rightarrow> string \<Rightarrow> user option \<Rightarrow> string option \<Rightarrow> dict \<Rightarrow> 'm media_scheme \<Rightarrow> 'm media_scheme" where
  "audit_media_event a action request_id actor reason_code data d =
     d\<lparr>product_media_audit_events := product_media_audit_events d @
        [\<lparr>mde_asset_id = Some (mda_id a), mde_store_product_id = mda_store_product_id a,
          mde_actor_user_id = map_option usr_id actor, mde_action = take 80 action,
          mde_reason_code = map_option (take 80) (text_or_none reason_code),
          mde_event_data = filter (\<lambda>(k, v). k \<in> set SAFE_AUDIT_FIELDS) data,
          mde_request_id = take 160 request_id\<rparr>]\<rparr>"

definition new_quarantined_asset ::
  "uuid \<Rightarrow> uuid \<Rightarrow> user \<Rightarrow> string \<Rightarrow> string \<Rightarrow> int \<Rightarrow> timestamp \<Rightarrow> product_media_asset" where
  "new_quarantined_asset i listing_id uploader key sha position now =
     \<lparr>mda_id = i, mda_store_product_id = listing_id, mda_uploader_user_id = usr_id uploader,
      mda_state = ''quarantined'', mda_source_object_key = key, mda_public_object_key = None,
      mda_source_sha256 = sha, mda_derivative_sha256 = None, mda_detected_mime = None,
      mda_byte_size = None, mda_width = None, mda_height = None, mda_alt_text = None,
      mda_position = position, mda_is_primary = False, mda_failure_code = None,
      mda_approved_at = None, mda_retired_at = None, mda_created_at = now\<rparr>"

definition create_media_job :: "timestamp \<Rightarrow> uuid \<Rightarrow> 'm media_scheme \<Rightarrow> 'm media_scheme" where
  "create_media_job now asset_id d =
     (case find (\<lambda>j. mdj_asset_id j = asset_id) (product_media_jobs d) of
        Some j \<Rightarrow> d
      | None \<Rightarrow>
          let i = fresh_id (map mdj_id (product_media_jobs d)) d
          in d\<lparr>product_media_jobs := product_media_jobs d @
                [\<lparr>mdj_id = i, mdj_asset_id = asset_id, mdj_state = ''queued'', mdj_attempt_count = 0,
                  mdj_next_attempt_at = None, mdj_lease_expires_at = None, mdj_failure_code = None,
                  mdj_created_at = now\<rparr>],
               db_next_id := Suc i\<rparr>)"

subsection \<open>Public descriptors\<close>

definition hex_digit :: "nat \<Rightarrow> char" where
  "hex_digit n = ''0123456789ABCDEF'' ! (n mod 16)"

text \<open>\<open>quote(part, safe="-_.~")\<close> on the bytes of an ASCII key.\<close>

definition quote_char :: "char \<Rightarrow> string" where
  "quote_char c =
     (let n = of_char c :: nat
      in if 48 \<le> n \<and> n \<le> 57 \<or> 65 \<le> n \<and> n \<le> 90 \<or> 97 \<le> n \<and> n \<le> 122 \<or> c \<in> set ''-_.~'' then [c]
         else [CHR ''%'', hex_digit (n div 16), hex_digit (n mod 16)])"

fun joined :: "char \<Rightarrow> string list \<Rightarrow> string" where
  "joined sep [] = []"
| "joined sep [w] = w"
| "joined sep (w # v # ws) = w @ sep # joined sep (v # ws)"

definition rstrip_slash :: "string \<Rightarrow> string" where
  "rstrip_slash s = rev (dropWhile (\<lambda>c. c = CHR ''/'') (rev s))"

definition public_derivative_url ::
  "(string option \<Rightarrow> url_parts) \<Rightarrow> config \<Rightarrow> string option \<Rightarrow> string option" where
  "public_derivative_url urlsplit cfg key =
     (case (text_or_none (cfg_media_public_base_url cfg), text_or_none key) of
        (Some base, Some k) \<Rightarrow>
          if \<not> cfg_product_media_enabled cfg \<or> \<not> https_origin (urlsplit (Some base)) \<or> \<not> safe_key k
             \<or> \<not> starts ''public/listings/'' k \<or> \<not> ends ''.webp'' k
          then None
          else Some (rstrip_slash base @ ''/'' @ joined (CHR ''/'') (map (concat \<circ> map quote_char) (key_parts k)))
      | _ \<Rightarrow> None)"

record image_read =
  imr_id :: uuid
  imr_url :: string
  imr_alt_text :: "string option"
  imr_position :: int
  imr_is_primary :: bool

definition public_asset :: "uuid list \<Rightarrow> product_media_asset \<Rightarrow> bool" where
  "public_asset ids a \<longleftrightarrow> mda_store_product_id a \<in> set ids \<and> mda_state a = ''approved''
     \<and> mda_public_object_key a \<noteq> None \<and> mda_retired_at a = None"

text \<open>The dictionary as the list of its entries: a listing and one of its descriptors.\<close>

definition approved_listing_media ::
  "(string option \<Rightarrow> url_parts) \<Rightarrow> config \<Rightarrow> 'm media_scheme \<Rightarrow> uuid list \<Rightarrow> (uuid \<times> image_read) list" where
  "approved_listing_media urlsplit cfg d ids =
     (if ids = [] \<or> \<not> cfg_product_media_enabled cfg \<or> \<not> present (cfg_media_public_base_url cfg) then []
      else List.map_filter (\<lambda>a. map_option (\<lambda>url. (mda_store_product_id a,
             \<lparr>imr_id = mda_id a, imr_url = url, imr_alt_text = mda_alt_text a, imr_position = mda_position a,
              imr_is_primary = mda_is_primary a\<rparr>)) (public_derivative_url urlsplit cfg (mda_public_object_key a)))
        (sort_key (\<lambda>a. (mda_store_product_id a, mda_position a, mda_created_at a))
          (filter (public_asset ids) (product_media_assets d))))"

subsection \<open>The queue\<close>

definition claimable :: "config \<Rightarrow> timestamp \<Rightarrow> product_media_job \<Rightarrow> bool" where
  "claimable cfg now j \<longleftrightarrow> mdj_attempt_count j < cfg_media_job_max_attempts cfg
     \<and> (mdj_state j = ''queued'' \<and> (case mdj_next_attempt_at j of None \<Rightarrow> True | Some t \<Rightarrow> t \<le> now)
        \<or> mdj_state j = ''processing'' \<and> (case mdj_lease_expires_at j of None \<Rightarrow> False | Some t \<Rightarrow> t \<le> now))"

definition claimed_job :: "config \<Rightarrow> timestamp \<Rightarrow> product_media_job \<Rightarrow> product_media_job" where
  "claimed_job cfg now j =
     j\<lparr>mdj_state := ''processing'', mdj_attempt_count := mdj_attempt_count j + 1,
       mdj_lease_expires_at := Some (now + seconds (cfg_media_job_lease_seconds cfg)),
       mdj_next_attempt_at := None\<rparr>"

text \<open>\<open>locked\<close>: the rows other transactions hold, which SKIP LOCKED passes over.\<close>

definition claim_due_media_job ::
  "config \<Rightarrow> (uuid \<Rightarrow> bool) \<Rightarrow> timestamp \<Rightarrow> 'm media_scheme \<Rightarrow> (product_media_job \<times> 'm media_scheme) option" where
  "claim_due_media_job cfg locked now d =
     (case sort_key (\<lambda>j. (mdj_created_at j, mdj_id j))
             (filter (\<lambda>j. claimable cfg now j \<and> \<not> locked (mdj_id j)) (product_media_jobs d)) of
        [] \<Rightarrow> None
      | j # _ \<Rightarrow> Some (claimed_job cfg now j, flush_media_job (claimed_job cfg now j) d))"

definition code_or :: "string \<Rightarrow> string option \<Rightarrow> string option" where
  "code_or fallback c = Some (take 80 (case text_or_none c of None \<Rightarrow> fallback | Some t \<Rightarrow> t))"

text \<open>The outcomes a worker can report; another one raises.\<close>

definition complete_media_job ::
  "config \<Rightarrow> timestamp \<Rightarrow> string \<Rightarrow> string option \<Rightarrow> product_media_job \<Rightarrow> product_media_job res" where
  "complete_media_job cfg now outcome failure_code j =
     (let j1 = j\<lparr>mdj_next_attempt_at := None, mdj_lease_expires_at := None\<rparr>
      in if outcome = ''approved'' then Inr (j1\<lparr>mdj_state := ''completed'', mdj_failure_code := None\<rparr>)
      else if outcome = ''rejected''
      then Inr (j1\<lparr>mdj_state := ''failed'', mdj_failure_code := code_or ''rejected'' failure_code\<rparr>)
      else if outcome = ''retry'' then
        (if cfg_media_job_max_attempts cfg \<le> mdj_attempt_count j
         then Inr (j1\<lparr>mdj_state := ''failed'', mdj_failure_code := Some ''max_attempts_exceeded''\<rparr>)
         else Inr (j1\<lparr>mdj_state := ''queued'', mdj_failure_code := code_or ''transient_failure'' failure_code,
                 mdj_next_attempt_at := Some (now + seconds (min 3600 (30 * 2 ^ nat (mdj_attempt_count j - 1))))\<rparr>))
      else Inl (ValueError ''Unknown media job outcome''))"

definition exhausted :: "config \<Rightarrow> timestamp \<Rightarrow> product_media_job \<Rightarrow> bool" where
  "exhausted cfg now j \<longleftrightarrow> mdj_state j = ''processing'' \<and> cfg_media_job_max_attempts cfg \<le> mdj_attempt_count j
     \<and> (case mdj_lease_expires_at j of None \<Rightarrow> False | Some t \<Rightarrow> t \<le> now)"

definition expired_job :: "product_media_job \<Rightarrow> product_media_job" where
  "expired_job j = j\<lparr>mdj_state := ''failed'', mdj_failure_code := Some ''max_attempts_exceeded'',
     mdj_lease_expires_at := None, mdj_next_attempt_at := None\<rparr>"

definition expire_exhausted_media_jobs ::
  "config \<Rightarrow> (uuid \<Rightarrow> bool) \<Rightarrow> timestamp \<Rightarrow> nat \<Rightarrow> 'm media_scheme \<Rightarrow> int \<times> 'm media_scheme" where
  "expire_exhausted_media_jobs cfg locked now limit d =
     (let js = take limit (sort_key mdj_created_at
            (filter (\<lambda>j. exhausted cfg now j \<and> \<not> locked (mdj_id j)) (product_media_jobs d)))
      in (int (length js), fold (\<lambda>j. flush_media_job (expired_job j)) js d))"

end
