(* ===== verification/Media_Ops.thy ===== *)
theory Media_Ops
  imports Media
begin

text \<open>
  Publishing product images: \<open>services/product_media_publication.py\<close>, the worker of
  \<open>services/product_media_worker.py\<close> in its transactions, and the endpoints of
  \<open>routes/media.py\<close>. The bucket is not part of the database transaction: an operation answers the
  database it would commit and the storage it left.
\<close>

section \<open>Publication\<close>

definition derivative_key :: "product_media_asset \<Rightarrow> string" where
  "derivative_key a =
     ''public/listings/'' @ show_nat (mda_store_product_id a) @ ''/'' @ show_nat (mda_id a) @ ''.webp''"

definition reject_asset ::
  "string \<Rightarrow> string \<Rightarrow> product_media_asset \<Rightarrow> 'm media_scheme \<Rightarrow> 'm media_scheme" where
  "reject_asset request_id code a d =
     (let a1 = a\<lparr>mda_state := ''rejected'', mda_failure_code := Some code\<rparr>
      in audit_media_event a1 ''media.rejected'' request_id None (Some code) [] (flush_asset a1 d))"

definition approved_asset ::
  "(bytes \<Rightarrow> string) \<Rightarrow> timestamp \<Rightarrow> derivative \<Rightarrow> product_media_asset \<Rightarrow> product_media_asset" where
  "approved_asset sha256 now der a =
     a\<lparr>mda_public_object_key := Some (derivative_key a), mda_derivative_sha256 := Some (sha256 (der_content der)),
       mda_width := Some (der_width der), mda_height := Some (der_height der), mda_state := ''approved'',
       mda_approved_at := Some now, mda_failure_code := None\<rparr>"

type_synonym ('m, 's) published = "(media_error + string \<times> string option) \<times> 'm media_scheme \<times> 's"

definition publish_derivative ::
  "(bytes \<Rightarrow> string) \<Rightarrow> 's storage \<Rightarrow> timestamp \<Rightarrow> string \<Rightarrow> derivative \<Rightarrow> product_media_asset \<Rightarrow>
     'm media_scheme \<Rightarrow> 's \<Rightarrow> ('m, 's) published" where
  "publish_derivative sha256 St now request_id der a d s =
     (case obs_put_public St (derivative_key a) (der_content der) ''image/webp'' s of
        (Inl e, s1) \<Rightarrow> (Inl Media_Failed, d, s1)
      | (Inr stored, s1) \<Rightarrow>
          if stored \<noteq> stored_of sha256 (derivative_key a) (der_content der) ''image/webp''
          then (Inl Media_Failed, d, obs_delete_public St (derivative_key a) s1)
          else
            let a1 = approved_asset sha256 now der a
            in (Inr (''approved'', None),
                audit_media_event a1 ''media.approved'' request_id None None
                  [(''state'', JStr ''approved''), (''width'', JInt (der_width der)), (''height'', JInt (der_height der))]
                  (flush_asset a1 d), s1))"

definition original_of :: "product_media_asset \<Rightarrow> bytes \<Rightarrow> stored_object" where
  "original_of a source =
     \<lparr>obj_key = mda_source_object_key a,
      obj_content_type = (case mda_detected_mime a of None \<Rightarrow> [] | Some t \<Rightarrow> t),
      obj_byte_size = int (length source), obj_sha256 = mda_source_sha256 a\<rparr>"

definition process_quarantined_asset ::
  "(bytes \<Rightarrow> string) \<Rightarrow> (bytes \<Rightarrow> string option) \<Rightarrow> imaging \<Rightarrow> config \<Rightarrow> 's storage \<Rightarrow> timestamp \<Rightarrow> string \<Rightarrow>
     product_media_asset \<Rightarrow> 'm media_scheme \<Rightarrow> 's \<Rightarrow> ('m, 's) published" where
  "process_quarantined_asset sha256 scan img cfg St now request_id a d s =
     (if \<not> cfg_product_media_enabled cfg then (Inl Media_Failed, d, s)
      else if mda_state a \<noteq> ''quarantined'' \<or> mda_retired_at a \<noteq> None
      then (Inr (mda_state a, Some ''not_eligible''), d, s)
      else if present (mda_public_object_key a) then (Inl Media_Failed, d, s)
      else case obs_read_quarantine St (mda_source_object_key a) s of
        Inl e \<Rightarrow> (Inl Media_Failed, d, s)
      | Inr None \<Rightarrow> (Inr (''rejected'', Some ''source_missing''), reject_asset request_id ''source_missing'' a d, s)
      | Inr (Some source) \<Rightarrow>
          (case inspect_and_render sha256 scan img cfg source (original_of a source) of
             Inr der \<Rightarrow> publish_derivative sha256 St now request_id der a d s
           | Inl (Media_Rejected why) \<Rightarrow>
               (Inr (''rejected'', Some (take 80 why)), reject_asset request_id (take 80 why) a d, s)
           | Inl e \<Rightarrow> (Inl e, d, s)))"

section \<open>The worker\<close>

text \<open>
  What a worker remembers of a claim: the job, its asset, the attempt. Settling it is a second
  transaction; when that one is rolled back, the object it wrote is still to be removed and the
  retry still to be recorded, each later and on its own.
\<close>

type_synonym claim = "uuid \<times> uuid \<times> int"

datatype tally = Skipped | Approved | Refused | Retried

record media_clock =
  mck_claimed :: timestamp
  mck_locked :: "uuid \<Rightarrow> bool"
  mck_checked :: timestamp
  mck_approved :: timestamp
  mck_finished :: timestamp
  mck_commits :: bool
  mck_retried :: timestamp

record 's settled_claim =
  stl_tally :: tally
  stl_db :: media
  stl_store :: 's
  stl_cleanup :: "string option"
  stl_retry :: "(uuid \<times> int \<times> string) option"

definition leased :: "timestamp \<Rightarrow> product_media_job \<Rightarrow> bool" where
  "leased now j \<longleftrightarrow> (case mdj_lease_expires_at j of None \<Rightarrow> False | Some t \<Rightarrow> now < t)"

definition completed :: "config \<Rightarrow> timestamp \<Rightarrow> string \<Rightarrow> string option \<Rightarrow> product_media_job \<Rightarrow> media \<Rightarrow> media" where
  "completed cfg now outcome code j d =
     (case complete_media_job cfg now outcome code j of Inl e \<Rightarrow> d | Inr j1 \<Rightarrow> flush_media_job j1 d)"

text \<open>The rollback of the second transaction after an exception.\<close>

definition rolled_back :: "claim \<Rightarrow> string \<Rightarrow> string option \<Rightarrow> media \<Rightarrow> 's \<Rightarrow> 's settled_claim" where
  "rolled_back c code published d s =
     (case c of (jid, aid, tries) \<Rightarrow>
        \<lparr>stl_tally = Skipped, stl_db = d, stl_store = s, stl_cleanup = text_or_none published,
         stl_retry = Some (jid, tries, code)\<rparr>)"

definition publish_claim ::
  "(bytes \<Rightarrow> string) \<Rightarrow> (bytes \<Rightarrow> string option) \<Rightarrow> imaging \<Rightarrow> config \<Rightarrow> 's storage \<Rightarrow> media_clock \<Rightarrow> claim \<Rightarrow>
     product_media_job \<Rightarrow> product_media_asset \<Rightarrow> media \<Rightarrow> 's \<Rightarrow> 's settled_claim" where
  "publish_claim sha256 scan img cfg St k c j a d s =
     (case process_quarantined_asset sha256 scan img cfg St (mck_approved k) (''media-job-'' @ show_nat (mdj_id j)) a d s of
        (Inl e, d1, s1) \<Rightarrow>
          rolled_back c (if e = Media_Scan_Unavailable then ''scanner_unavailable'' else ''processing_error'') None d s1
      | (Inr (state, reason), d1, s1) \<Rightarrow>
          let published = Option.bind (get_asset d1 (mda_id a)) mda_public_object_key;
              outcome = (if state \<in> {''approved'', ''rejected''} then state else ''retry'')
          in if outcome = ''approved'' \<and> (\<not> present published
                 \<or> \<not> present (Option.bind (get_asset d1 (mda_id a)) mda_derivative_sha256))
             then rolled_back c ''processing_error'' published d s1
             else if \<not> leased (mck_finished k) j
             then \<lparr>stl_tally = Skipped, stl_db = d, stl_store = s1, stl_cleanup = text_or_none published, stl_retry = None\<rparr>
             else if \<not> mck_commits k then rolled_back c ''processing_error'' published d s1
             else \<lparr>stl_tally = (if outcome = ''approved'' then Approved else if outcome = ''rejected'' then Refused else Retried),
                   stl_db = completed cfg (mck_finished k) outcome reason j d1, stl_store = s1,
                   stl_cleanup = None, stl_retry = None\<rparr>)"

text \<open>A publication that was committed before its job: approved, with its object and hash, not retired.\<close>

definition recovered :: "product_media_asset \<Rightarrow> bool" where
  "recovered a \<longleftrightarrow> mda_state a = ''approved'' \<and> present (mda_public_object_key a)
     \<and> present (mda_derivative_sha256 a) \<and> mda_retired_at a = None"

definition settle_claim ::
  "(bytes \<Rightarrow> string) \<Rightarrow> (bytes \<Rightarrow> string option) \<Rightarrow> imaging \<Rightarrow> config \<Rightarrow> 's storage \<Rightarrow> media_clock \<Rightarrow> claim \<Rightarrow>
     media \<Rightarrow> 's \<Rightarrow> 's settled_claim" where
  "settle_claim sha256 scan img cfg St k c d s =
     (let done = (\<lambda>t d1. \<lparr>stl_tally = t, stl_db = d1, stl_store = s, stl_cleanup = None, stl_retry = None\<rparr>)
      in case c of (jid, aid, tries) \<Rightarrow>
        (case get_media_job d jid of
           None \<Rightarrow> done Skipped d
         | Some j \<Rightarrow>
             if mdj_state j \<noteq> ''processing'' \<or> mdj_attempt_count j \<noteq> tries then done Skipped d
             else if \<not> leased (mck_checked k) j then done Skipped d
             else (case get_asset d aid of
                 None \<Rightarrow> done Refused (completed cfg (mck_checked k) ''rejected'' (Some ''asset_missing'') j d)
               | Some a \<Rightarrow>
                   if recovered a then done Approved (completed cfg (mck_checked k) ''approved'' None j d)
                   else if mda_state a \<in> {''rejected'', ''retired''} \<or> mda_retired_at a \<noteq> None
                   then done Refused (completed cfg (mck_checked k) ''rejected'' (Some ''asset_not_eligible'') j d)
                   else publish_claim sha256 scan img cfg St k c j a d s)))"

text \<open>The third transaction, which records the retry while the claim is still the worker's.\<close>

definition retry_claim :: "config \<Rightarrow> timestamp \<Rightarrow> uuid \<times> int \<times> string \<Rightarrow> media \<Rightarrow> bool \<times> media" where
  "retry_claim cfg now r d =
     (case r of (jid, tries, code) \<Rightarrow>
        (case get_media_job d jid of
           None \<Rightarrow> (False, d)
         | Some j \<Rightarrow>
             if mdj_state j = ''processing'' \<and> mdj_attempt_count j = tries \<and> leased now j
             then (True, completed cfg now ''retry'' (Some code) j d) else (False, d)))"

record media_counts =
  mct_considered :: int
  mct_approved :: int
  mct_rejected :: int
  mct_retried :: int
  mct_expired :: int

definition counted :: "tally \<Rightarrow> bool \<Rightarrow> media_counts \<Rightarrow> media_counts" where
  "counted t retried n =
     n\<lparr>mct_considered := mct_considered n + 1,
       mct_approved := mct_approved n + (if t = Approved then 1 else 0),
       mct_rejected := mct_rejected n + (if t = Refused then 1 else 0),
       mct_retried := mct_retried n + (if t = Retried \<or> retried then 1 else 0)\<rparr>"

text \<open>One worker on its own: claim, settle, clean up, record the retry; one clock per round.\<close>

fun media_rounds ::
  "(bytes \<Rightarrow> string) \<Rightarrow> (bytes \<Rightarrow> string option) \<Rightarrow> imaging \<Rightarrow> config \<Rightarrow> 's storage \<Rightarrow> media_clock list \<Rightarrow>
     media_counts \<Rightarrow> media \<Rightarrow> 's \<Rightarrow> media_counts \<times> media \<times> 's" where
  "media_rounds sha256 scan img cfg St [] n d s = (n, d, s)"
| "media_rounds sha256 scan img cfg St (k # ks) n d s =
     (case claim_due_media_job cfg (mck_locked k) (mck_claimed k) d of
        None \<Rightarrow> (n, d, s)
      | Some (j, d1) \<Rightarrow>
          let r = settle_claim sha256 scan img cfg St k (mdj_id j, mdj_asset_id j, mdj_attempt_count j) d1 s;
              s1 = (case stl_cleanup r of None \<Rightarrow> stl_store r | Some key \<Rightarrow> obs_delete_public St key (stl_store r));
              (retried, d2) = (case stl_retry r of None \<Rightarrow> (False, stl_db r) | Some x \<Rightarrow> retry_claim cfg (mck_retried k) x (stl_db r))
          in media_rounds sha256 scan img cfg St ks (counted (stl_tally r) retried n) d2 s1)"

definition process_due_media_jobs ::
  "(bytes \<Rightarrow> string) \<Rightarrow> (bytes \<Rightarrow> string option) \<Rightarrow> imaging \<Rightarrow> (string option \<Rightarrow> url_parts) \<Rightarrow> config \<Rightarrow>
     's storage \<Rightarrow> 's storage \<Rightarrow> (uuid \<Rightarrow> bool) \<Rightarrow> timestamp \<Rightarrow> int \<Rightarrow> media_clock list \<Rightarrow> media \<Rightarrow> 's \<Rightarrow>
     media_counts res \<times> media \<times> 's" where
  "process_due_media_jobs sha256 scan img urlsplit cfg files buckets locked now limit ks d s =
     (if \<not> cfg_product_media_enabled cfg
      then (Inr \<lparr>mct_considered = 0, mct_approved = 0, mct_rejected = 0, mct_retried = 0, mct_expired = 0\<rparr>, d, s)
      else if cfg_media_storage_backend cfg = ''local'' \<and> \<not> local_allowed cfg
      then (Inl (RuntimeError ''Local media storage is development-only''), d, s)
      else if cfg_media_scan_provider cfg \<noteq> ''http''
      then (Inl (RuntimeError ''A mandatory HTTP scanner is required''), d, s)
      else case configured_media_storage urlsplit cfg files buckets of
        Inl e \<Rightarrow> (Inl e, d, s)
      | Inr St \<Rightarrow>
          (case scanner_checked urlsplit cfg of
             Inl e \<Rightarrow> (Inl e, d, s)
           | Inr _ \<Rightarrow>
               let (expired, d1) = expire_exhausted_media_jobs cfg locked now (nat (max 1 limit)) d;
                   n = \<lparr>mct_considered = 0, mct_approved = 0, mct_rejected = 0, mct_retried = 0, mct_expired = expired\<rparr>;
                   (n1, r) = media_rounds sha256 scan img cfg St (take (nat (min limit (cfg_media_job_batch cfg))) ks) n d1 s
               in (Inr n1, r)))"

section \<open>Endpoints\<close>

definition ALLOWED_IMAGE_TYPES :: "(string \<times> string) list" where
  "ALLOWED_IMAGE_TYPES = [(''image/jpeg'', ''.jpg''), (''image/png'', ''.png''), (''image/webp'', ''.webp'')]"

definition MAGIC_SIGNATURES :: "(string \<times> bytes list) list" where
  "MAGIC_SIGNATURES =
     [(''image/jpeg'', [[255, 216, 255]]), (''image/png'', [[137, 80, 78, 71, 13, 10, 26, 10]]),
      (''image/webp'', [[82, 73, 70, 70]])]"

definition looks_like :: "bytes \<Rightarrow> string \<Rightarrow> bool" where
  "looks_like content content_type \<longleftrightarrow>
     (case map_of MAGIC_SIGNATURES content_type of
        None \<Rightarrow> False
      | Some signatures \<Rightarrow>
          (\<exists>g \<in> set signatures. take (length g) content = g)
          \<and> (content_type = ''image/webp'' \<longrightarrow> 12 \<le> length content \<and> take 4 (drop 8 content) = [87, 69, 66, 80]))"

definition declared_type :: "string option \<Rightarrow> string" where
  "declared_type t = ascii_lower (strip (hd (split_at (CHR '';'') [] (case t of None \<Rightarrow> [] | Some x \<Rightarrow> x))))"

text \<open>The endpoint that writes straight to a public volume: \<open>name\<close> is the random file name.\<close>

definition upload_image ::
  "config \<Rightarrow> rate_outcome \<Rightarrow> string \<Rightarrow> string option \<Rightarrow> bytes \<Rightarrow> user \<Rightarrow> (string \<Rightarrow> bytes option) \<Rightarrow>
     (string \<times> string \<times> int) res \<times> (string \<Rightarrow> bytes option)" where
  "upload_image cfg rate name content_type body u volume =
     (let limit = nat (cfg_max_upload_mb cfg) * 1024 * 1024; content = take (limit + 1) body;
          r = res_bind (require_roles [MERCHANT, ADMIN] u) (\<lambda>_.
            if cfg_product_media_enabled cfg then Inl (HTTPException 410 ''Use listing-scoped quarantine uploads'') else
            res_bind (if usr_role u = ADMIN then ensure_capability u MEDIA_MODERATE else Inr u) (\<lambda>_.
            res_bind (limit_provider rate) (\<lambda>_.
            case map_of ALLOWED_IMAGE_TYPES (declared_type content_type) of
              None \<Rightarrow> Inl (HTTPException 415 ''Only JPEG, PNG and WebP images are supported'')
            | Some extension \<Rightarrow>
                if content = [] then Inl (HTTPException 400 ''Empty upload'')
                else if limit < length content
                then Inl (HTTPException 413 (''Image must be <= '' @ show_int (cfg_max_upload_mb cfg) @ '' MB''))
                else if \<not> looks_like content (declared_type content_type)
                then Inl (HTTPException 415 ''File contents do not match the declared image type'')
                else Inr (name @ extension))))
      in case r of
           Inl e \<Rightarrow> (Inl e, volume)
         | Inr filename \<Rightarrow>
             (Inr (rstrip_slash (cfg_public_base_url cfg) @ ''/media/'' @ filename, filename, int (length content)),
              volume(filename \<mapsto> content)))"

text \<open>The merchant of a listing's store.\<close>

definition merchant_of_listing :: "'m database_scheme \<Rightarrow> uuid \<Rightarrow> merchant option" where
  "merchant_of_listing d listing_id =
     Option.bind (get_listing d listing_id) (\<lambda>l. Option.bind (get_store d (lst_store_id l)) (\<lambda>s.
       get_merchant d (sto_merchant_id s)))"

definition image_owner :: "'m database_scheme \<Rightarrow> uuid \<Rightarrow> user \<Rightarrow> unit res" where
  "image_owner d listing_id u =
     (case merchant_of_listing d listing_id of
        None \<Rightarrow> Inl (HTTPException 404 ''Listing not found'')
      | Some m \<Rightarrow>
          if usr_role u = ADMIN then res_bind (ensure_capability u MEDIA_MODERATE) (\<lambda>_. Inr ())
          else if mer_owner_user_id m \<noteq> usr_id u then Inl (HTTPException 403 ''You do not own this listing'')
          else Inr ())"

definition upload_checks :: "config \<Rightarrow> string \<Rightarrow> bytes \<Rightarrow> uuid \<Rightarrow> 'm media_scheme \<Rightarrow> int res" where
  "upload_checks cfg mime content listing_id d =
     (if map_of ALLOWED_IMAGE_TYPES mime = None then Inl (HTTPException 415 ''Unsupported image format'')
      else if content = [] \<or> cfg_media_upload_max_bytes cfg < int (length content)
      then Inl (HTTPException 413 ''Image exceeds configured size limit'')
      else if \<not> looks_like content mime then Inl (HTTPException 415 ''Image signature mismatch'')
      else
        let count = int (length (filter (\<lambda>a. mda_store_product_id a = listing_id \<and> mda_retired_at a = None
               \<and> mda_state a \<noteq> ''rejected'') (product_media_assets d)))
        in if cfg_media_image_max_per_listing cfg \<le> count then Inl (HTTPException 409 ''Listing image limit reached'')
           else Inr count)"

definition quarantine_key :: "uuid \<Rightarrow> uuid \<Rightarrow> string" where
  "quarantine_key listing_id asset_id = ''quarantine/listings/'' @ show_nat listing_id @ ''/'' @ show_nat asset_id"

definition queued_asset ::
  "uuid \<Rightarrow> uuid \<Rightarrow> user \<Rightarrow> string \<Rightarrow> stored_object \<Rightarrow> int \<Rightarrow> timestamp \<Rightarrow> product_media_asset" where
  "queued_asset i listing_id u mime stored count now =
     (new_quarantined_asset i listing_id u (quarantine_key listing_id i) (obj_sha256 stored) count now)
       \<lparr>mda_detected_mime := Some mime, mda_byte_size := Some (obj_byte_size stored)\<rparr>"

definition insert_queued :: "product_media_asset \<Rightarrow> user \<Rightarrow> timestamp \<Rightarrow> media \<Rightarrow> media" where
  "insert_queued a u now d =
     audit_media_event a ''media.upload_queued'' (show_nat (mda_id a)) (Some u) None []
       (create_media_job now (mda_id a)
         (d\<lparr>product_media_assets := product_media_assets d @ [a], db_next_id := Suc (mda_id a)\<rparr>))"

text \<open>\<open>commits\<close>: whether the insert went through; when it did not, the object is removed again.\<close>

definition queue_listing_image ::
  "(string option \<Rightarrow> url_parts) \<Rightarrow> config \<Rightarrow> 's storage \<Rightarrow> 's storage \<Rightarrow> rate_outcome \<Rightarrow> bool \<Rightarrow> timestamp \<Rightarrow>
     uuid \<Rightarrow> string option \<Rightarrow> bytes \<Rightarrow> user \<Rightarrow> media \<Rightarrow> 's \<Rightarrow> uuid res \<times> media \<times> 's" where
  "queue_listing_image urlsplit cfg files buckets rate commits now listing_id content_type body u d s =
     (let mime = declared_type content_type; content = take (nat (cfg_media_upload_max_bytes cfg) + 1) body;
          checked = res_bind (require_roles [MERCHANT, ADMIN] u) (\<lambda>_.
            if \<not> cfg_product_media_enabled cfg
            then Inl (HTTPException 503 ''Product image processing is unavailable'')
            else if cfg_media_storage_backend cfg = ''local'' \<and> \<not> local_allowed cfg
            then Inl (HTTPException 503 ''Secure production upload adapter is unavailable'')
            else res_bind (image_owner d listing_id u) (\<lambda>_. res_bind (limit_provider rate) (\<lambda>_.
              upload_checks cfg mime content listing_id d)));
          i = fresh_id (map mda_id (product_media_assets d)) d;
          unavailable = HTTPException 503 ''Secure media storage is unavailable''
      in case checked of
           Inl e \<Rightarrow> (Inl e, d, s)
         | Inr count \<Rightarrow>
             (case configured_media_storage urlsplit cfg files buckets of
                Inl e \<Rightarrow> (Inl unavailable, d, s)
              | Inr St \<Rightarrow>
                  (case obs_put_quarantine St (quarantine_key listing_id i) content mime s of
                     (Inl e, s1) \<Rightarrow> (Inl unavailable, d, s1)
                   | (Inr stored, s1) \<Rightarrow>
                       if \<not> commits
                       then (Inl (RuntimeError ''database''), d, obs_delete_quarantine St (quarantine_key listing_id i) s1)
                       else (Inr i, insert_queued (queued_asset i listing_id u mime stored count now) u now d, s1))))"

record own_image_read =
  oir_id :: uuid
  oir_state :: string
  oir_alt_text :: "string option"
  oir_position :: int
  oir_is_primary :: bool
  oir_created_at :: timestamp

definition own_image :: "product_media_asset \<Rightarrow> own_image_read" where
  "own_image a = \<lparr>oir_id = mda_id a, oir_state = mda_state a, oir_alt_text = mda_alt_text a,
     oir_position = mda_position a, oir_is_primary = mda_is_primary a, oir_created_at = mda_created_at a\<rparr>"

text \<open>This one tells a moderator of a listing whose store has no merchant nothing is missing.\<close>

definition list_merchant_listing_images :: "uuid \<Rightarrow> user \<Rightarrow> 'm media_scheme \<Rightarrow> own_image_read list res" where
  "list_merchant_listing_images listing_id u d =
     res_bind (require_roles [MERCHANT, ADMIN] u) (\<lambda>_.
     if get_listing d listing_id = None then Inl (HTTPException 404 ''Listing not found'')
     else
       res_bind (if usr_role u = ADMIN then ensure_capability u MEDIA_MODERATE
         else if map_option mer_owner_user_id (merchant_of_listing d listing_id) \<noteq> Some (usr_id u)
         then Inl (HTTPException 403 ''You do not own this listing'') else Inr u) (\<lambda>_.
       Inr (map own_image (take 50 (sort_key (\<lambda>a. (mda_position a, mda_created_at a))
         (filter (\<lambda>a. mda_store_product_id a = listing_id) (product_media_assets d)))))))"

definition open_store :: "'m database_scheme \<Rightarrow> uuid \<Rightarrow> bool" where
  "open_store d sid \<longleftrightarrow>
     (case get_store d sid of
        None \<Rightarrow> False
      | Some s \<Rightarrow> sto_is_active s \<and> map_option mer_status (get_merchant d (sto_merchant_id s)) = Some APPROVED)"

definition buyable :: "store_product \<Rightarrow> bool" where
  "buyable l \<longleftrightarrow> lst_is_available l \<and> 0 < lst_stock_quantity l"

definition public_approved_listing_images ::
  "(string option \<Rightarrow> url_parts) \<Rightarrow> config \<Rightarrow> uuid \<Rightarrow> 'm media_scheme \<Rightarrow> image_read list res" where
  "public_approved_listing_images urlsplit cfg listing_id d =
     (case get_listing d listing_id of
        None \<Rightarrow> Inl (HTTPException 404 ''Listing not available'')
      | Some l \<Rightarrow>
          if \<not> buyable l \<or> \<not> open_store d (lst_store_id l) then Inl (HTTPException 404 ''Listing not available'')
          else Inr (map snd (filter (\<lambda>(i, x). i = listing_id) (approved_listing_media urlsplit cfg d [listing_id]))))"

text \<open>\<open>updated\<close> is the column \<open>updated_at\<close>, which the database maintains.\<close>

definition public_store_approved_images ::
  "(string option \<Rightarrow> url_parts) \<Rightarrow> config \<Rightarrow> (store_product \<Rightarrow> timestamp) \<Rightarrow> uuid \<Rightarrow> int \<Rightarrow> 'm media_scheme \<Rightarrow>
     (uuid \<times> image_read) list res" where
  "public_store_approved_images urlsplit cfg updated sid limit d =
     (if limit < 1 \<or> 100 < limit then Inl (HTTPException 422 ''limit'')
      else if \<not> open_store d sid then Inl (HTTPException 404 ''Store not found'')
      else Inr (approved_listing_media urlsplit cfg d (map lst_id (take (nat limit) (sort_key (\<lambda>l. - updated l)
        (filter (\<lambda>l. lst_store_id l = sid \<and> buyable l) (store_products d)))))))"

definition update_listing_image_metadata ::
  "string \<Rightarrow> uuid \<Rightarrow> uuid \<Rightarrow> string option \<Rightarrow> user \<Rightarrow> 'm media_scheme \<Rightarrow>
     (uuid \<times> string option \<times> string) res \<times> 'm media_scheme" where
  "update_listing_image_metadata request_id listing_id asset_id alt_text u d =
     attempt (require_roles [MERCHANT, ADMIN] u) d (\<lambda>_.
     if (case alt_text of None \<Rightarrow> False | Some t \<Rightarrow> 240 < length t) then raise_http 422 ''alt_text'' d else
     attempt (image_owner d listing_id u) d (\<lambda>_.
     case find (\<lambda>a. mda_id a = asset_id \<and> mda_store_product_id a = listing_id) (product_media_assets d) of
       None \<Rightarrow> raise_http 404 ''Image not found'' d
     | Some a \<Rightarrow>
         if mda_retired_at a \<noteq> None then raise_http 404 ''Image not found'' d
         else
           let a1 = a\<lparr>mda_alt_text := text_or_none (map_option strip alt_text)\<rparr>
           in (Inr (mda_id a1, mda_alt_text a1, mda_state a1),
               audit_media_event a1 ''media.metadata_updated'' request_id (Some u) None [] (flush_asset a1 d))))"

end
