(* ===== verification/Media_System.thy ===== *)
theory Media_System
  imports Media_Ops
begin

text \<open>
  The image pipeline as it runs: uploads, any number of workers whose transactions interleave, and
  the rest of the backend changing everything but the image tables at any moment. Lemmas: what
  is public was inspected, an image's identity and source never change, and no job is stuck.
\<close>

section \<open>What the pipeline relies on\<close>

text \<open>
  \<open>pub\<close> reads the public side of a storage. A put or a deletion that raised may have happened or
  not; nothing else touches a public object.
\<close>

locale object_storage =
  fixes St :: "'s storage"
    and pub :: "'s \<Rightarrow> string \<Rightarrow> bytes option"
  assumes put_quarantine: "pub (snd (obs_put_quarantine St k c t s)) = pub s"
    and delete_quarantine: "pub (obs_delete_quarantine St k s) = pub s"
    and put_public: "pub (snd (obs_put_public St k c t s)) \<in> {pub s, (pub s)(k \<mapsto> c), (pub s)(k := None)}"
    and delete_public: "pub (obs_delete_public St k s) \<in> {pub s, (pub s)(k := None)}"
begin

text \<open>A deletion after a put leaves the object put, an older one or none.\<close>

lemma put_then_delete:
  "pub (obs_delete_public St k (snd (obs_put_public St k c t s))) \<in> {pub s, (pub s)(k \<mapsto> c), (pub s)(k := None)}"
  using put_public [of k c t s] delete_public [of k "snd (obs_put_public St k c t s)"] by auto

lemma public_object_after_put:
  "pub (snd (obs_put_public St k c t s)) k' = Some x \<Longrightarrow> pub s k' = Some x \<or> k' = k \<and> x = c"
  using put_public [of k c t s] by (auto split: if_splits)

lemma public_object_after_delete: "pub (obs_delete_public St k s) k' = Some x \<Longrightarrow> pub s k' = Some x"
  using delete_public [of k s] by (auto split: if_splits)

end

interpretation local_disk: object_storage "local_storage sha256" lfs_public
  by unfold_locales (auto simp: local_storage_def)

text \<open>A bucket: only a PUT or DELETE of a key in it changes what it holds there.\<close>

definition bucket_laws :: "'s bucket_client \<Rightarrow> string \<Rightarrow> ('s \<Rightarrow> string \<Rightarrow> bytes option) \<Rightarrow> bool" where
  "bucket_laws client public pub \<longleftrightarrow>
     (\<forall>m b k c s. b \<noteq> public \<or> m = GET \<longrightarrow> pub (snd (client m b k c s)) = pub s)
     \<and> (\<forall>k c s. pub (snd (client PUT public k c s)) \<in> {pub s, (pub s)(k \<mapsto> c)})
     \<and> (\<forall>k c s. pub (snd (client DELETE public k c s)) \<in> {pub s, (pub s)(k := None)})"

lemma bucket_requests:
  assumes "bucket_laws client public pub"
  shows "b \<noteq> public \<Longrightarrow> pub (snd (s3_request client m b k c s)) = pub s"
    "pub (snd (s3_request client GET b k c s)) = pub s"
    "pub (snd (s3_request client PUT public k c s)) \<in> {pub s, (pub s)(k \<mapsto> c)}"
    "pub (snd (s3_request client DELETE public k c s)) \<in> {pub s, (pub s)(k := None)}"
  using assms by (auto simp: bucket_laws_def s3_request_def)

lemma s3_object_storage:
  assumes laws: "bucket_laws client public pub" and other: "quarantine \<noteq> public"
  shows "object_storage (s3_storage sha256 client quarantine public) pub"
proof
  note requests = bucket_requests [OF laws]
  fix k c t s
  show "pub (snd (obs_put_quarantine (s3_storage sha256 client quarantine public) k c t s)) = pub s"
    using requests(1) [OF other, of PUT k c s]
    by (auto simp: s3_storage_def s3_put_quarantine_def split: prod.split sum.split)
  show "pub (obs_delete_quarantine (s3_storage sha256 client quarantine public) k s) = pub s"
    using requests(1) [OF other] by (simp add: s3_storage_def)
  show "pub (obs_delete_public (s3_storage sha256 client quarantine public) k s) \<in> {pub s, (pub s)(k := None)}"
    using requests(4) by (simp add: s3_storage_def)
  obtain r1 s1 where put: "s3_request client PUT public k c s = (r1, s1)" by force
  obtain r2 s2 where got: "s3_request client GET public k [] s1 = (r2, s2)" by force
  have "pub s1 \<in> {pub s, (pub s)(k \<mapsto> c)}" "pub s2 = pub s1"
    "pub (snd (s3_request client DELETE public k [] s2)) \<in> {pub s2, (pub s2)(k := None)}"
    using requests(3) [of k c s] requests(2) [of public k "[]" s1] requests(4) [of k "[]" s2] put got by auto
  then show "pub (snd (obs_put_public (s3_storage sha256 client quarantine public) k c t s))
      \<in> {pub s, (pub s)(k \<mapsto> c), (pub s)(k := None)}"
    using put got by (auto simp: s3_storage_def s3_put_public_def split: prod.split sum.split option.split)
qed

section \<open>The running pipeline\<close>

record 's media_site =
  site_sha256 :: "bytes \<Rightarrow> string"
  site_scan :: "bytes \<Rightarrow> string option"
  site_imaging :: imaging
  site_urlsplit :: "string option \<Rightarrow> url_parts"
  site_config :: config
  site_storage :: "'s storage"

record 's media_world =
  wld_db :: media
  wld_store :: 's
  wld_claims :: "claim list"
  wld_cleanups :: "string list"
  wld_retries :: "(uuid \<times> int \<times> string) list"

definition same_images :: "media \<Rightarrow> media \<Rightarrow> bool" where
  "same_images d d' \<longleftrightarrow> product_media_assets d' = product_media_assets d
     \<and> product_media_jobs d' = product_media_jobs d"

abbreviation settle_at :: "'s media_site \<Rightarrow> media_clock \<Rightarrow> claim \<Rightarrow> media \<Rightarrow> 's \<Rightarrow> 's settled_claim" where
  "settle_at E \<equiv> settle_claim (site_sha256 E) (site_scan E) (site_imaging E) (site_config E) (site_storage E)"

abbreviation upload_at where
  "upload_at E \<equiv> queue_listing_image (site_urlsplit E) (site_config E) (site_storage E) (site_storage E)"

inductive media_step :: "'s media_site \<Rightarrow> 's media_world \<Rightarrow> 's media_world \<Rightarrow> bool" for E where
  upload: "media_step E w
    (w\<lparr>wld_db := fst (snd (upload_at E rate ok now i t body u (wld_db w) (wld_store w))),
       wld_store := snd (snd (upload_at E rate ok now i t body u (wld_db w) (wld_store w)))\<rparr>)"
| describe: "media_step E w (w\<lparr>wld_db := snd (update_listing_image_metadata r i aid t u (wld_db w))\<rparr>)"
| claimed: "claim_due_media_job (site_config E) locked now (wld_db w) = Some (j, d') \<Longrightarrow>
    media_step E w (w\<lparr>wld_db := d', wld_claims := (mdj_id j, mdj_asset_id j, mdj_attempt_count j) # wld_claims w\<rparr>)"
| settled: "c \<in> set (wld_claims w) \<Longrightarrow> r = settle_at E k c (wld_db w) (wld_store w) \<Longrightarrow>
    media_step E w
      \<lparr>wld_db = stl_db r, wld_store = stl_store r, wld_claims = remove1 c (wld_claims w),
       wld_cleanups = (case stl_cleanup r of None \<Rightarrow> wld_cleanups w | Some key \<Rightarrow> key # wld_cleanups w),
       wld_retries = (case stl_retry r of None \<Rightarrow> wld_retries w | Some x \<Rightarrow> x # wld_retries w)\<rparr>"
| cleaned: "key \<in> set (wld_cleanups w) \<Longrightarrow>
    media_step E w (w\<lparr>wld_store := obs_delete_public (site_storage E) key (wld_store w),
      wld_cleanups := remove1 key (wld_cleanups w)\<rparr>)"
| retried: "x \<in> set (wld_retries w) \<Longrightarrow>
    media_step E w (w\<lparr>wld_db := snd (retry_claim (site_config E) now x (wld_db w)),
      wld_retries := remove1 x (wld_retries w)\<rparr>)"
| expired: "media_step E w
    (w\<lparr>wld_db := snd (expire_exhausted_media_jobs (site_config E) locked now n (wld_db w))\<rparr>)"
| elsewhere: "same_images (wld_db w) d' \<Longrightarrow> media_step E w (w\<lparr>wld_db := d'\<rparr>)"

definition empty_media :: "('s \<Rightarrow> string \<Rightarrow> bytes option) \<Rightarrow> 's media_world \<Rightarrow> bool" where
  "empty_media pub w \<longleftrightarrow> product_media_assets (wld_db w) = [] \<and> product_media_jobs (wld_db w) = []
     \<and> (\<forall>k. pub (wld_store w) k = None) \<and> wld_claims w = [] \<and> wld_cleanups w = [] \<and> wld_retries w = []"

definition media_reachable :: "'s media_site \<Rightarrow> ('s \<Rightarrow> string \<Rightarrow> bytes option) \<Rightarrow> 's media_world \<Rightarrow> bool" where
  "media_reachable E pub w \<longleftrightarrow> (\<exists>w0. empty_media pub w0 \<and> (media_step E)\<^sup>*\<^sup>* w0 w)"

section \<open>The invariant\<close>

text \<open>\<open>c\<close> is the rendering of bytes that hash to the asset's recorded source and were found clean.\<close>

definition inspected :: "'s media_site \<Rightarrow> product_media_asset \<Rightarrow> bytes \<Rightarrow> bool" where
  "inspected E a c \<longleftrightarrow> (\<exists>source w h. site_sha256 E source = mda_source_sha256 a
     \<and> site_scan E source = Some ''clean'' \<and> img_render (site_imaging E) 1280 source = Decoded (c, w, h))"

definition asset_ok :: "'s media_site \<Rightarrow> product_media_asset \<Rightarrow> bool" where
  "asset_ok E a \<longleftrightarrow>
     (if mda_state a = ''approved''
      then mda_public_object_key a = Some (derivative_key a)
        \<and> (\<exists>c. inspected E a c \<and> mda_derivative_sha256 a = Some (site_sha256 E c))
      else mda_public_object_key a = None)"

definition media_job_ok :: "config \<Rightarrow> product_media_job \<Rightarrow> bool" where
  "media_job_ok cfg j \<longleftrightarrow> 0 \<le> mdj_attempt_count j \<and> mdj_attempt_count j \<le> cfg_media_job_max_attempts cfg
     \<and> (mdj_state j = ''queued'' \<and> mdj_attempt_count j < cfg_media_job_max_attempts cfg
        \<or> mdj_state j = ''processing'' \<and> mdj_lease_expires_at j \<noteq> None
        \<or> mdj_state j \<in> {''completed'', ''failed''})"

definition images_ok :: "'s media_site \<Rightarrow> media \<Rightarrow> bool" where
  "images_ok E d \<longleftrightarrow> distinct (map mda_id (product_media_assets d))
     \<and> distinct (map mdj_id (product_media_jobs d)) \<and> distinct (map mdj_asset_id (product_media_jobs d))
     \<and> (\<forall>a \<in> set (product_media_assets d). asset_ok E a)
     \<and> (\<forall>j \<in> set (product_media_jobs d). media_job_ok (site_config E) j)"

definition objects_ok :: "'s media_site \<Rightarrow> (string \<Rightarrow> bytes option) \<Rightarrow> media \<Rightarrow> bool" where
  "objects_ok E objects d \<longleftrightarrow> (\<forall>k c. objects k = Some c \<longrightarrow>
     (\<exists>a \<in> set (product_media_assets d). k = derivative_key a \<and> inspected E a c))"

text \<open>An image keeps its identity, its listing and the hash of its source.\<close>

definition same_image :: "product_media_asset \<Rightarrow> product_media_asset \<Rightarrow> bool" where
  "same_image a a' \<longleftrightarrow> mda_id a' = mda_id a \<and> mda_store_product_id a' = mda_store_product_id a
     \<and> mda_source_sha256 a' = mda_source_sha256 a"

definition images_kept :: "media \<Rightarrow> media \<Rightarrow> bool" where
  "images_kept d d' \<longleftrightarrow>
     (\<forall>a \<in> set (product_media_assets d). \<exists>a' \<in> set (product_media_assets d'). same_image a a')"

definition images_step :: "'s media_site \<Rightarrow> media \<Rightarrow> media \<Rightarrow> bool" where
  "images_step E d d' \<longleftrightarrow> (images_ok E d \<longrightarrow> images_ok E d' \<and> images_kept d d')"

lemma same_image_simps:
  "same_image a a' \<Longrightarrow> derivative_key a' = derivative_key a"
  "same_image a a' \<Longrightarrow> inspected E a' c = inspected E a c"
  by (simp_all add: same_image_def derivative_key_def inspected_def)

lemma images_kept_refl [simp]: "images_kept d d"
  by (auto simp: images_kept_def same_image_def)

lemma images_kept_trans: "images_kept a b \<Longrightarrow> images_kept b c \<Longrightarrow> images_kept a c"
  unfolding images_kept_def same_image_def by (metis (no_types, lifting))

lemma images_step_refl [simp]: "images_step E d d"
  by (simp add: images_step_def)

lemma images_step_trans: "images_step E a b \<Longrightarrow> images_step E b c \<Longrightarrow> images_step E a c"
  by (auto simp: images_step_def intro: images_kept_trans)

lemma images_step_same: "same_images d d' \<Longrightarrow> images_step E d d'"
  by (auto simp: images_step_def same_images_def images_ok_def images_kept_def same_image_def)

lemma objects_kept: "objects_ok E objects d \<Longrightarrow> images_kept d d' \<Longrightarrow> objects_ok E objects d'"
  unfolding objects_ok_def images_kept_def by (metis same_image_simps)


subsection \<open>Every transaction keeps it\<close>

lemma images_step_flush_asset:
  assumes "get_asset d (mda_id a) = Some a" and "same_image a a1" and "asset_ok E a \<Longrightarrow> asset_ok E a1"
  shows "images_step E d (flush_asset a1 d)"
proof -
  let ?t = "product_media_assets d"
  have rows: "a \<in> set ?t" "mda_id a1 = mda_id a" using assms(1,2) by (auto simp: get_asset_def same_image_def)
  have "images_kept d (flush_asset a1 d)" if "distinct (map mda_id ?t)"
    unfolding images_kept_def
  proof
    fix x assume x: "x \<in> set ?t"
    show "\<exists>a' \<in> set (product_media_assets (flush_asset a1 d)). same_image x a'"
    proof (cases "mda_id x = mda_id a")
      case True
      then have "x = a" using that x rows(1) by (auto simp: distinct_map dest: inj_onD)
      moreover have "a1 \<in> set (put_row mda_id a1 ?t)" using rows by (force simp: set_put_row)
      ultimately show ?thesis using assms(2) by (auto simp: flush_asset_def)
    next
      case False
      then have "x \<in> set (put_row mda_id a1 ?t)" using x rows(2) by (auto simp: set_put_row)
      then show ?thesis by (auto simp: flush_asset_def same_image_def)
    qed
  qed
  moreover have "images_ok E (flush_asset a1 d)" if ok: "images_ok E d"
  proof -
    have "asset_ok E a1" using ok assms(3) rows(1) by (simp add: images_ok_def)
    then have "\<forall>x \<in> set (put_row mda_id a1 ?t). asset_ok E x" using ok by (auto simp: images_ok_def elim!: in_put_rowE)
    with ok show ?thesis by (simp add: images_ok_def flush_asset_def)
  qed
  ultimately show ?thesis unfolding images_step_def by (meson images_ok_def)
qed

lemma images_step_flush_job:
  assumes "j \<in> set (product_media_jobs d)" and "mdj_id j1 = mdj_id j" "mdj_asset_id j1 = mdj_asset_id j"
    and "media_job_ok (site_config E) j \<Longrightarrow> media_job_ok (site_config E) j1"
  shows "images_step E d (flush_media_job j1 d)"
proof -
  let ?t = "product_media_jobs d"
  have "images_ok E (flush_media_job j1 d)" if ok: "images_ok E d"
  proof -
    have "map mdj_asset_id (put_row mdj_id j1 ?t) = map mdj_asset_id ?t"
    proof (rule map_put_row_field)
      fix x assume "x \<in> set ?t" "mdj_id x = mdj_id j1"
      then have "x = j" using ok assms(1,2) by (auto simp: images_ok_def distinct_map dest: inj_onD)
      then show "mdj_asset_id x = mdj_asset_id j1" by (simp add: assms(3))
    qed
    moreover have "media_job_ok (site_config E) j1" using ok assms(1,4) by (simp add: images_ok_def)
    then have "\<forall>x \<in> set (put_row mdj_id j1 ?t). media_job_ok (site_config E) x"
      using ok by (auto simp: images_ok_def elim!: in_put_rowE)
    ultimately show ?thesis using ok by (simp add: images_ok_def flush_media_job_def)
  qed
  then show ?thesis by (simp add: images_step_def flush_media_job_def images_kept_def same_image_def) blast
qed

lemma images_step_audit [simp]: "images_step E d (audit_media_event a act r u c x d)"
  by (rule images_step_same) (simp add: audit_media_event_def same_images_def)

lemma images_step_flush_job_id:
  assumes "j \<in> set (product_media_jobs d)" and "mdj_id j1 = mdj_id j" "mdj_asset_id j1 = mdj_asset_id j"
    and "media_job_ok (site_config E) j1"
  shows "images_step E d (flush_media_job j1 d)"
  by (rule images_step_flush_job [OF assms(1,2,3)]) (rule assms(4))

lemma complete_media_job_fields:
  "complete_media_job cfg now oc code j = Inr j1 \<Longrightarrow> mdj_id j1 = mdj_id j \<and> mdj_asset_id j1 = mdj_asset_id j
     \<and> (media_job_ok cfg j \<longrightarrow> media_job_ok cfg j1)"
  by (auto simp: complete_media_job_def media_job_ok_def Let_def split: if_splits)

lemma images_step_completed:
  "j \<in> set (product_media_jobs d) \<Longrightarrow> images_step E d (completed (site_config E) now oc code j d)"
  using complete_media_job_fields [of "site_config E" now oc code j]
  by (auto simp: completed_def split: sum.split intro: images_step_flush_job)

lemma media_job_in: "get_media_job d i = Some j \<Longrightarrow> j \<in> set (product_media_jobs d)"
  by (auto simp: get_media_job_def)

lemma images_step_retry: "images_step E d (snd (retry_claim (site_config E) now x d))"
  by (auto simp: retry_claim_def split: prod.split option.split intro: images_step_completed media_job_in)

lemma claimed_job_ok: "claimable cfg now j \<Longrightarrow> media_job_ok cfg j \<Longrightarrow> media_job_ok cfg (claimed_job cfg now j)"
  by (auto simp: claimable_def media_job_ok_def claimed_job_def)

lemma claim_due_media_jobD:
  assumes "claim_due_media_job cfg locked now d = Some (j1, d')"
  obtains j where "j \<in> set (product_media_jobs d)" "claimable cfg now j" "j1 = claimed_job cfg now j"
    "d' = flush_media_job j1 d"
proof -
  let ?js = "sort_key (\<lambda>j. (mdj_created_at j, mdj_id j))
    (filter (\<lambda>j. claimable cfg now j \<and> \<not> locked (mdj_id j)) (product_media_jobs d))"
  obtain j js where js: "?js = j # js" using assms by (auto simp: claim_due_media_job_def split: list.splits)
  have "j \<in> set (product_media_jobs d)" "claimable cfg now j"
    using list.set_intros(1) [of j js] unfolding js [symmetric] by simp_all
  moreover have "j1 = claimed_job cfg now j" "d' = flush_media_job j1 d"
    using js assms by (auto simp: claim_due_media_job_def)
  ultimately show thesis by (rule that)
qed

lemma images_step_claim:
  "claim_due_media_job (site_config E) locked now d = Some (j, d') \<Longrightarrow> images_step E d d'"
proof (erule claim_due_media_jobD)
  fix j0
  assume j0: "j0 \<in> set (product_media_jobs d)" "claimable (site_config E) now j0" "j = claimed_job (site_config E) now j0"
    "d' = flush_media_job j d"
  have "images_step E d (flush_media_job j d)"
    by (rule images_step_flush_job [OF j0(1)]) (simp_all add: j0(2,3) claimed_job_ok, simp_all add: claimed_job_def)
  then show ?thesis by (simp add: j0(4))
qed

lemma expired_job_fields:
  "mdj_id (expired_job j) = mdj_id j" "mdj_asset_id (expired_job j) = mdj_asset_id j"
  "media_job_ok cfg j \<Longrightarrow> media_job_ok cfg (expired_job j)"
  by (auto simp: expired_job_def media_job_ok_def)

lemma fold_expire:
  assumes ids: "distinct (map mdj_id (product_media_jobs d))" and "set js \<subseteq> set (product_media_jobs d)"
  shows "fold (\<lambda>j. flush_media_job (expired_job j)) js d =
    d\<lparr>product_media_jobs := map (\<lambda>j. if j \<in> set js then expired_job j else j) (product_media_jobs d)\<rparr>"
  using assms(2)
proof (induction js rule: rev_induct)
  case (snoc j js)
  let ?f = "\<lambda>x. if x \<in> set js then expired_job x else x"
  have "mdj_id (?f x) = mdj_id j \<longleftrightarrow> x = j" if "x \<in> set (product_media_jobs d)" for x
    using that snoc.prems ids by (auto simp: expired_job_fields distinct_map dest: inj_onD)
  then have "put_row mdj_id (expired_job j) (map ?f (product_media_jobs d)) =
      map (\<lambda>x. if x \<in> set (js @ [j]) then expired_job x else x) (product_media_jobs d)"
    by (auto simp: put_row_def expired_job_fields)
  with snoc show ?case by (simp add: flush_media_job_def)
qed simp

lemma images_step_expire: "images_step E d (snd (expire_exhausted_media_jobs (site_config E) locked now n d))"
proof -
  let ?js = "take n (sort_key mdj_created_at
    (filter (\<lambda>j. exhausted (site_config E) now j \<and> \<not> locked (mdj_id j)) (product_media_jobs d)))"
  let ?f = "\<lambda>j. if j \<in> set ?js then expired_job j else j"
  have sub: "set ?js \<subseteq> set (product_media_jobs d)" by (auto dest!: in_set_takeD)
  have "map mdj_id (map ?f js) = map mdj_id js" "map mdj_asset_id (map ?f js) = map mdj_asset_id js" for js
    by (simp_all add: expired_job_fields)
  moreover have "media_job_ok (site_config E) (?f j)" if "media_job_ok (site_config E) j" for j
    using that by (simp add: expired_job_fields)
  ultimately show ?thesis
    unfolding expire_exhausted_media_jobs_def Let_def snd_conv images_step_def
    by (auto simp: fold_expire [OF _ sub] images_ok_def images_kept_def same_image_def expired_job_fields(3) simp del: map_map)
qed

lemma images_step_describe: "images_step E d (snd (update_listing_image_metadata r i aid t u d))"
proof -
  have "images_step E d (flush_asset (a\<lparr>mda_alt_text := x\<rparr>) d)"
    if "find (\<lambda>a. mda_id a = aid \<and> mda_store_product_id a = i) (product_media_assets d) = Some a" for a x
  proof (cases "distinct (map mda_id (product_media_assets d))")
    case True
    from find_Some_in [OF that] have "get_asset d (mda_id a) = Some a"
      by (simp add: get_asset_def get_row_Some_iff [OF True])
    then show ?thesis
      by (rule images_step_flush_asset) (auto simp: same_image_def asset_ok_def derivative_key_def inspected_def)
  next
    case False
    then show ?thesis by (simp add: images_step_def images_ok_def)
  qed
  then show ?thesis
    by (auto simp: update_listing_image_metadata_def attempt_def Let_def split: sum.split option.split
        intro: images_step_trans [OF _ images_step_audit])
qed

lemma images_step_insert:
  assumes max: "0 < cfg_media_job_max_attempts (site_config E)"
  shows "images_step E d (insert_queued (queued_asset (fresh_id (map mda_id (product_media_assets d)) d) l u mime st n now) v now d)"
proof -
  let ?i = "fresh_id (map mda_id (product_media_assets d)) d"
  let ?a = "queued_asset ?i l u mime st n now"
  let ?d1 = "d\<lparr>product_media_assets := product_media_assets d @ [?a], db_next_id := Suc (mda_id ?a)\<rparr>"
  have a: "mda_id ?a = ?i" "asset_ok E ?a"
    by (simp_all add: queued_asset_def new_quarantined_asset_def asset_ok_def)
  have "images_step E d ?d1"
    using fresh_id_new(1) [of "map mda_id (product_media_assets d)" d] a
    by (auto simp: images_step_def images_ok_def images_kept_def same_image_def)
  moreover have "images_step E b (create_media_job now k b)" for b :: media and k
  proof (cases "find (\<lambda>j. mdj_asset_id j = k) (product_media_jobs b)")
    case None
    then have "k \<notin> mdj_asset_id ` set (product_media_jobs b)" by (auto simp: find_None_iff_all)
    with None max fresh_id_new(1) [of "map mdj_id (product_media_jobs b)" b] show ?thesis
      by (auto simp: create_media_job_def Let_def images_step_def images_ok_def images_kept_def same_image_def media_job_ok_def)
  qed (simp add: create_media_job_def)
  ultimately show ?thesis unfolding insert_queued_def by (blast intro: images_step_trans images_step_audit)
qed

lemma images_step_upload:
  assumes "0 < cfg_media_job_max_attempts (site_config E)"
  shows "images_step E d (fst (snd (upload_at E rate ok now i t body u d s)))"
  using images_step_insert [OF assms] by (auto simp: queue_listing_image_def Let_def split: sum.split prod.split)

subsection \<open>Publication\<close>

lemma rendered_Inr: "rendered cfg img source mime = Inr der \<Longrightarrow> \<exists>w h. img_render img 1280 source = Decoded (der_content der, w, h)"
  by (auto simp: rendered_def split: decoded.splits if_splits)

lemma inspect_Inr:
  "inspect_and_render sha256 scan img cfg source original = Inr der \<Longrightarrow>
     sha256 source = obj_sha256 original \<and> scan source = Some ''clean''
     \<and> (\<exists>w h. img_render img 1280 source = Decoded (der_content der, w, h))"
  by (auto simp: inspect_and_render_def dest: rendered_Inr split: if_splits option.splits)

lemma images_step_reject:
  "get_asset d (mda_id a) = Some a \<Longrightarrow> mda_state a = ''quarantined'' \<Longrightarrow> images_step E d (reject_asset r c a d)"
  unfolding reject_asset_def Let_def
  by (rule images_step_trans [OF images_step_flush_asset images_step_audit]) (auto simp: same_image_def asset_ok_def)

lemma images_step_publish:
  assumes "get_asset d (mda_id a) = Some a" and "inspected E a (der_content der)"
    and "publish_derivative (site_sha256 E) St now r der a d s = (x, d1, s1)"
  shows "images_step E d d1"
proof -
  let ?a1 = "approved_asset (site_sha256 E) now der a"
  have same: "same_image a ?a1" by (simp add: same_image_def approved_asset_def)
  moreover have "asset_ok E ?a1"
    using assms(2) same_image_simps [OF same] by (auto simp: asset_ok_def) (auto simp: approved_asset_def)
  ultimately have "images_step E d (flush_asset ?a1 d)" by (intro images_step_flush_asset [OF assms(1)])
  then show ?thesis using assms(3)
    by (auto simp: publish_derivative_def Let_def split: prod.splits sum.splits if_splits
        intro: images_step_trans [OF _ images_step_audit])
qed

lemma images_step_process:
  assumes "get_asset d (mda_id a) = Some a"
    and "process_quarantined_asset (site_sha256 E) (site_scan E) (site_imaging E) cfg St now r a d s = (x, d1, s1)"
  shows "images_step E d d1"
proof -
  have "images_step E d d1"
    if "inspect_and_render (site_sha256 E) (site_scan E) (site_imaging E) cfg source (original_of a source) = Inr der"
      "publish_derivative (site_sha256 E) St now r der a d s = (x, d1, s1)" for source der
  proof (rule images_step_publish [OF assms(1) _ that(2)])
    show "inspected E a (der_content der)" using inspect_Inr [OF that(1)] by (auto simp: inspected_def original_of_def)
  qed
  with assms show ?thesis
    by (auto simp: process_quarantined_asset_def split: if_splits sum.splits option.splits media_error.splits
        intro: images_step_reject)
qed

lemma publish_claim_store:
  "stl_store (publish_claim sha256 scan img cfg St k c j a d s) =
     snd (snd (process_quarantined_asset sha256 scan img cfg St (mck_approved k) (''media-job-'' @ show_nat (mdj_id j)) a d s))"
proof -
  have parts: "stl_store (case p of (Inl e, d1, s1) \<Rightarrow> f e d1 s1 | (Inr (state, reason), d1, s1) \<Rightarrow> g state reason d1 s1) = snd (snd p)"
    if "\<And>e d1 s1. stl_store (f e d1 s1) = s1" "\<And>x y d1 s1. stl_store (g x y d1 s1) = s1"
    for p :: "(media_error + string \<times> string option) \<times> media \<times> 'a" and f g
    using that by (simp split: prod.split sum.split)
  show ?thesis unfolding publish_claim_def
    by (rule parts) (simp_all add: rolled_back_def Let_def split: prod.split)
qed

context object_storage
begin

lemma published_object:
  assumes "publish_derivative sha256 St now r der a d s = (x, d1, s1)" and "pub s1 k = Some c"
  shows "pub s k = Some c \<or> k = derivative_key a \<and> c = der_content der"
proof -
  let ?put = "obs_put_public St (derivative_key a) (der_content der) ''image/webp'' s"
  have "s1 = snd ?put \<or> s1 = obs_delete_public St (derivative_key a) (snd ?put)"
    using assms(1) by (auto simp: publish_derivative_def Let_def split: prod.splits sum.splits if_splits)
  with assms(2) show ?thesis by (blast dest: public_object_after_put public_object_after_delete)
qed

lemma processed_object:
  assumes "process_quarantined_asset sha256 scan img cfg St now r a d s = (x, d1, s1)" and "pub s1 k = Some c"
  shows "pub s k = Some c \<or> k = derivative_key a \<and> (\<exists>source w h. sha256 source = mda_source_sha256 a
     \<and> scan source = Some ''clean'' \<and> img_render img 1280 source = Decoded (c, w, h))"
proof -
  have "pub s k = Some c \<or> k = derivative_key a \<and> (\<exists>source w h. sha256 source = mda_source_sha256 a
     \<and> scan source = Some ''clean'' \<and> img_render img 1280 source = Decoded (c, w, h))"
    if "inspect_and_render sha256 scan img cfg source (original_of a source) = Inr der"
      "publish_derivative sha256 St now r der a d s = (x, d1, s1)" for source der
    using inspect_Inr [OF that(1)] published_object [OF that(2) assms(2)] by (auto simp: original_of_def)
  with assms show ?thesis
    by (auto simp: process_quarantined_asset_def split: if_splits sum.splits option.splits media_error.splits)
qed

lemma processed_store:
  "pub (snd (snd (process_quarantined_asset sha256 scan img cfg St now r a d s))) k = Some c \<Longrightarrow>
     pub s k = Some c \<or> k = derivative_key a \<and> (\<exists>source w h. sha256 source = mda_source_sha256 a
       \<and> scan source = Some ''clean'' \<and> img_render img 1280 source = Decoded (c, w, h))"
proof -
  assume p: "pub (snd (snd (process_quarantined_asset sha256 scan img cfg St now r a d s))) k = Some c"
  obtain x d1 s1 where eq: "process_quarantined_asset sha256 scan img cfg St now r a d s = (x, d1, s1)"
    by (rule prod_cases3)
  with p have "pub s1 k = Some c" by simp
  from processed_object [OF eq this] show ?thesis .
qed

lemma settled_object:
  assumes "pub (stl_store (settle_claim sha256 scan img cfg St k c d s)) key = Some x"
  shows "pub s key = Some x \<or> (\<exists>a \<in> set (product_media_assets d). key = derivative_key a
     \<and> (\<exists>source w h. sha256 source = mda_source_sha256 a \<and> scan source = Some ''clean''
        \<and> img_render img 1280 source = Decoded (x, w, h)))"
proof -
  have "pub s key = Some x \<or> key = derivative_key a \<and> (\<exists>source w h. sha256 source = mda_source_sha256 a
       \<and> scan source = Some ''clean'' \<and> img_render img 1280 source = Decoded (x, w, h))"
    if "pub (stl_store (publish_claim sha256 scan img cfg St k c j a d s)) key = Some x" for j a
    using that unfolding publish_claim_store by (rule processed_store)
  then have published: "pub s key = Some x \<or> key = derivative_key a \<and> (\<exists>source w h. sha256 source = mda_source_sha256 a
       \<and> scan source = Some ''clean'' \<and> img_render img 1280 source = Decoded (x, w, h))"
    if "stl_store (settle_claim sha256 scan img cfg St k c d s) = stl_store (publish_claim sha256 scan img cfg St k c j a d s)" for j a
    using assms that by simp
  obtain jid aid tries where c: "c = (jid, aid, tries)" by (rule prod_cases3)
  show ?thesis
  proof (cases "get_asset d aid")
    case None
    with assms show ?thesis by (simp add: settle_claim_def c split: option.splits if_splits)
  next
    case (Some a)
    then have "a \<in> set (product_media_assets d)" by (auto simp: get_asset_def)
    moreover have "stl_store (settle_claim sha256 scan img cfg St k c d s) = s
        \<or> (\<exists>j. stl_store (settle_claim sha256 scan img cfg St k c d s) = stl_store (publish_claim sha256 scan img cfg St k c j a d s))"
      using Some by (auto simp: settle_claim_def c split: option.split)
    ultimately show ?thesis using assms published by fastforce
  qed
qed

end

lemma jobs_of_publication:
  "product_media_jobs (fst (snd (process_quarantined_asset sha256 scan img cfg St now r a d s))) = product_media_jobs d"
  by (auto simp: process_quarantined_asset_def publish_derivative_def reject_asset_def audit_media_event_def
      flush_asset_def Let_def split: sum.split option.split media_error.split prod.split)

lemma images_step_processed:
  "get_asset d (mda_id a) = Some a \<Longrightarrow>
     images_step E d (fst (snd (process_quarantined_asset (site_sha256 E) (site_scan E) (site_imaging E) cfg St now r a d s)))"
proof -
  assume a: "get_asset d (mda_id a) = Some a"
  obtain x d1 s1 where eq: "process_quarantined_asset (site_sha256 E) (site_scan E) (site_imaging E) cfg St now r a d s = (x, d1, s1)"
    by (rule prod_cases3)
  from images_step_process [OF a this] show ?thesis by (simp add: eq)
qed

lemma images_step_published:
  fixes St :: "'s storage" and E :: "'s media_site"
  assumes "get_asset d (mda_id a) = Some a" and "j \<in> set (product_media_jobs d)"
  shows "images_step E d (stl_db (publish_claim (site_sha256 E) (site_scan E) (site_imaging E) (site_config E) St k c j a d s))"
proof -
  let ?p = "process_quarantined_asset (site_sha256 E) (site_scan E) (site_imaging E) (site_config E) St (mck_approved k)
    (''media-job-'' @ show_nat (mdj_id j)) a d s"
  have step: "images_step E d (fst (snd ?p))" by (rule images_step_processed [OF assms(1)])
  have jobs: "j \<in> set (product_media_jobs (fst (snd ?p)))" unfolding jobs_of_publication by (rule assms(2))
  have parts: "images_step E d (stl_db (case p of (Inl e, d1, s1) \<Rightarrow> f e d1 s1 | (Inr (state, reason), d1, s1) \<Rightarrow> g state reason d1 s1))"
    if "\<And>e d1 s1. stl_db (f e d1 s1) = d"
      "\<And>x y s1. stl_db (g x y (fst (snd p)) s1) = d \<or> (\<exists>t oc. stl_db (g x y (fst (snd p)) s1) = completed (site_config E) t oc y j (fst (snd p)))"
      "images_step E d (fst (snd p))" "j \<in> set (product_media_jobs (fst (snd p)))"
    for p :: "(media_error + string \<times> string option) \<times> media \<times> 's" and f g
  proof -
    have "images_step E d (completed (site_config E) t oc y j (fst (snd p)))" for t oc y
      by (rule images_step_trans [OF that(3) images_step_completed [OF that(4)]])
    with that(1,2) show ?thesis by (auto split: prod.split sum.split) (metis images_step_refl fst_conv snd_conv)
  qed
  show ?thesis unfolding publish_claim_def
    by (rule parts [OF _ _ step jobs]) (auto simp: rolled_back_def Let_def split: prod.split)
qed

lemma images_step_settle: "images_step E d (stl_db (settle_at E k c d s))"
proof -
  obtain jid aid tries where c: "c = (jid, aid, tries)" by (rule prod_cases3)
  have row: "get_asset d aid = Some a \<Longrightarrow> get_asset d (mda_id a) = Some a" for a
    using asset_rows.get_key by metis
  show ?thesis
    by (auto simp: settle_claim_def c split: option.split
        intro: images_step_completed images_step_published media_job_in row)
qed

section \<open>Every reachable state\<close>

definition media_inv :: "'s media_site \<Rightarrow> ('s \<Rightarrow> string \<Rightarrow> bytes option) \<Rightarrow> 's media_world \<Rightarrow> bool" where
  "media_inv E pub w \<longleftrightarrow> images_ok E (wld_db w) \<and> objects_ok E (pub (wld_store w)) (wld_db w)"

lemma media_inv_db:
  "media_inv E pub w \<Longrightarrow> images_step E (wld_db w) d' \<Longrightarrow> (\<And>k c. pub s' k = Some c \<Longrightarrow> pub (wld_store w) k = Some c
       \<or> (\<exists>a \<in> set (product_media_assets (wld_db w)). k = derivative_key a \<and> inspected E a c)) \<Longrightarrow>
     images_ok E d' \<and> objects_ok E (pub s') d'"
proof -
  assume inv: "media_inv E pub w" and step: "images_step E (wld_db w) d'"
    and objects: "\<And>k c. pub s' k = Some c \<Longrightarrow> pub (wld_store w) k = Some c
       \<or> (\<exists>a \<in> set (product_media_assets (wld_db w)). k = derivative_key a \<and> inspected E a c)"
  have "objects_ok E (pub s') (wld_db w)"
    unfolding objects_ok_def
  proof (intro allI impI)
    fix k c assume "pub s' k = Some c"
    from objects [OF this] inv show "\<exists>a \<in> set (product_media_assets (wld_db w)). k = derivative_key a \<and> inspected E a c"
      unfolding media_inv_def objects_ok_def by blast
  qed
  with inv step show ?thesis by (auto simp: media_inv_def images_step_def intro: objects_kept)
qed

lemma upload_objects:
  assumes "object_storage (site_storage E) pub"
  shows "pub (snd (snd (upload_at E rate ok now i t body u d s))) = pub s"
proof -
  have configured: "configured_media_storage f cfg St St = Inr x \<Longrightarrow> x = St" for f cfg and St x :: "'a storage"
    by (auto simp: configured_media_storage_def res_bind_Inr split: if_splits)
  have put: "pub s1 = pub s" if "obs_put_quarantine (site_storage E) k c t s = (r, s1)" for k c t r s1
    using object_storage.put_quarantine [OF assms, of k c t s] that by simp
  show ?thesis
    by (auto simp: queue_listing_image_def Let_def object_storage.delete_quarantine [OF assms]
        dest!: configured put split: sum.split prod.split)
qed

lemma media_step_inv:
  assumes St: "object_storage (site_storage E) pub" and max: "0 < cfg_media_job_max_attempts (site_config E)"
    and step: "media_step E w w'" and inv: "media_inv E pub w"
  shows "media_inv E pub w'"
  using step
proof cases
  case (upload rate ok now i t body u)
  let ?r = "upload_at E rate ok now i t body u (wld_db w) (wld_store w)"
  have "images_ok E (fst (snd ?r)) \<and> objects_ok E (pub (snd (snd ?r))) (fst (snd ?r))"
    by (rule media_inv_db [OF inv images_step_upload [OF max]]) (simp add: upload_objects [OF St])
  with upload show ?thesis by (simp add: media_inv_def)
next
  case (describe r i aid t u)
  with media_inv_db [OF inv images_step_describe, where s' = "wld_store w"] show ?thesis by (simp add: media_inv_def)
next
  case (claimed locked now j d')
  with media_inv_db [OF inv images_step_claim [OF claimed(2)], where s' = "wld_store w"] show ?thesis
    by (simp add: media_inv_def)
next
  case (settled c r k)
  have "pub (wld_store w) key = Some x \<or> (\<exists>a \<in> set (product_media_assets (wld_db w)). key = derivative_key a \<and> inspected E a x)"
    if "pub (stl_store r) key = Some x" for key x
    using object_storage.settled_object [OF St] that settled(3) by (auto simp: inspected_def)
  then have "images_ok E (stl_db r) \<and> objects_ok E (pub (stl_store r)) (stl_db r)"
    unfolding settled(3) by (intro media_inv_db [OF inv images_step_settle])
  with settled show ?thesis by (simp add: media_inv_def)
next
  case (cleaned key)
  have "images_ok E (wld_db w) \<and> objects_ok E (pub (obs_delete_public (site_storage E) key (wld_store w))) (wld_db w)"
    by (rule media_inv_db [OF inv images_step_refl]) (blast dest: object_storage.public_object_after_delete [OF St])
  with cleaned show ?thesis by (simp add: media_inv_def)
next
  case (retried x now)
  with media_inv_db [OF inv images_step_retry, where s' = "wld_store w"] show ?thesis by (simp add: media_inv_def)
next
  case (expired locked now n)
  with media_inv_db [OF inv images_step_expire, where s' = "wld_store w"] show ?thesis by (simp add: media_inv_def)
next
  case (elsewhere d')
  with media_inv_db [OF inv images_step_same [OF elsewhere(2)], where s' = "wld_store w"] show ?thesis
    by (simp add: media_inv_def)
qed

lemma media_reachable_inv:
  assumes "object_storage (site_storage E) pub" and "0 < cfg_media_job_max_attempts (site_config E)"
    and "media_reachable E pub w"
  shows "media_inv E pub w"
proof -
  obtain w0 where w0: "empty_media pub w0" "(media_step E)\<^sup>*\<^sup>* w0 w" using assms(3) by (auto simp: media_reachable_def)
  have "media_inv E pub w0"
    using w0(1) by (simp add: media_inv_def empty_media_def images_ok_def objects_ok_def)
  with w0(2) show ?thesis by (induction rule: rtranclp_induct) (blast intro: media_step_inv [OF assms(1,2)])+
qed

subsection \<open>Keys name one image\<close>

lemma no_slash: "CHR ''/'' \<notin> set (show_nat n)"
proof (induction n rule: show_nat.induct)
  case (1 n)
  have "digit m \<noteq> CHR ''/''" for m
  proof
    assume "digit m = CHR ''/''"
    then have "(of_char (digit m) :: nat) = of_char (CHR ''/'')" by simp
    then show False by (simp add: digit_def)
  qed
  then have "CHR ''/'' \<noteq> digit n" by metis
  with 1 show ?case by (subst show_nat.simps) simp
qed

lemma derivative_key_inject: "derivative_key a = derivative_key b \<Longrightarrow> mda_id a = mda_id b"
proof -
  have cut: "xs = ys \<and> us = vs" if "xs @ CHR ''/'' # us = ys @ CHR ''/'' # vs" "CHR ''/'' \<notin> set xs" "CHR ''/'' \<notin> set ys"
    for xs ys us vs :: string
    using that by (auto simp: append_eq_append_conv2 append_eq_Cons_conv Cons_eq_append_conv)
  assume "derivative_key a = derivative_key b"
  then have "show_nat (mda_id a) @ ''.webp'' = show_nat (mda_id b) @ ''.webp''"
    using cut [OF _ no_slash no_slash, of "mda_store_product_id a" "show_nat (mda_id a) @ ''.webp''" "mda_store_product_id b"
        "show_nat (mda_id b) @ ''.webp''"] by (simp add: derivative_key_def)
  then show ?thesis by simp
qed

end
