(* ===== verification/Media_Properties.thy ===== *)
theory Media_Properties
  imports Media_System Platform_Demo
begin

text \<open>
  What the image pipeline guarantees, and a run of it in which two workers interleave.
\<close>

section \<open>A site and a run\<close>

definition demo_media_config :: config where
  "demo_media_config = platform_settings.extend demo_config
     \<lparr>cfg_app_debug = False, cfg_secret_key = [], cfg_msg91_auth_key = None, cfg_msg91_template_id = None,
      cfg_firebase_project_id = None, cfg_firebase_service_account = None,
      cfg_product_media_enabled = True, cfg_media_storage_backend = ''local'',
      cfg_media_scan_provider = ''http'', cfg_media_scan_required = True, cfg_media_s3 = [],
      cfg_media_s3_quarantine_bucket = None, cfg_media_s3_public_bucket = None,
      cfg_media_scan_endpoint_url = Some ''s'', cfg_media_scan_auth_token = Some ''t'', cfg_banner_job_batch = 1,
      cfg_media_public_base_url = Some ''https://i'', cfg_media_upload_max_bytes = 100,
      cfg_media_image_max_width = 100, cfg_media_image_max_height = 100, cfg_media_image_max_pixels = 1000,
      cfg_media_image_max_per_listing = 8, cfg_media_job_batch = 25, cfg_media_job_max_attempts = 3,
      cfg_media_job_lease_seconds = 120, cfg_media_retention_seconds = 1, cfg_max_upload_mb = 8,
      cfg_public_base_url = [], cfg_cors_origins = [], cfg_trusted_hosts = []\<rparr>"

definition demo_site :: "local_files media_site" where
  "demo_site =
     \<lparr>site_sha256 = map char_of, site_scan = (\<lambda>b. Some ''clean''),
      site_imaging = \<lparr>img_probe = (\<lambda>b. Decoded (''JPEG'', 10, 10)), img_render = (\<lambda>n b. Decoded ([1, 2], 10, 10))\<rparr>,
      site_urlsplit = (\<lambda>u. \<lparr>url_scheme = ''https'', url_hostname = Some ''i'', url_username = None,
        url_password = None, url_path = [], url_query = [], url_fragment = []\<rparr>),
      site_config = demo_media_config, site_storage = local_storage (map char_of)\<rparr>"

definition demo_images :: media where
  "demo_images = platform.extend demo_platform
     \<lparr>product_media_assets = [], product_media_jobs = [], product_media_audit_events = []\<rparr>"

definition demo_empty :: "local_files media_world" where
  "demo_empty = \<lparr>wld_db = demo_images, wld_store = \<lparr>lfs_quarantine = (\<lambda>k. None), lfs_public = (\<lambda>k. None)\<rparr>,
     wld_claims = [], wld_cleanups = [], wld_retries = []\<rparr>"

definition demo_upload :: "uuid res \<times> media \<times> local_files" where
  "demo_upload = upload_at demo_site Rate_Ok True 0 17 (Some ''image/jpeg'') [255, 216, 255, 7] merchant_2
     demo_images (wld_store demo_empty)"

definition clock_at :: "timestamp \<Rightarrow> timestamp \<Rightarrow> media_clock" where
  "clock_at checked finished = \<lparr>mck_claimed = 0, mck_locked = (\<lambda>i. False), mck_checked = checked,
     mck_approved = checked, mck_finished = finished, mck_commits = True, mck_retried = finished\<rparr>"

definition demo_queued :: "local_files media_world" where
  "demo_queued = demo_empty\<lparr>wld_db := fst (snd demo_upload), wld_store := snd (snd demo_upload)\<rparr>"

definition demo_claim :: "timestamp \<Rightarrow> local_files media_world \<Rightarrow> local_files media_world" where
  "demo_claim now w =
     (case claim_due_media_job demo_media_config (\<lambda>i. False) now (wld_db w) of
        None \<Rightarrow> w
      | Some (j, d) \<Rightarrow> w\<lparr>wld_db := d, wld_claims := (mdj_id j, mdj_asset_id j, mdj_attempt_count j) # wld_claims w\<rparr>)"

definition demo_settle :: "timestamp \<Rightarrow> timestamp \<Rightarrow> claim \<Rightarrow> local_files media_world \<Rightarrow> local_files media_world" where
  "demo_settle checked finished c w =
     (let r = settle_at demo_site (clock_at checked finished) c (wld_db w) (wld_store w)
      in \<lparr>wld_db = stl_db r, wld_store = stl_store r, wld_claims = remove1 c (wld_claims w),
       wld_cleanups = (case stl_cleanup r of None \<Rightarrow> wld_cleanups w | Some key \<Rightarrow> key # wld_cleanups w),
       wld_retries = (case stl_retry r of None \<Rightarrow> wld_retries w | Some x \<Rightarrow> x # wld_retries w)\<rparr>)"

definition demo_cleanup :: "string \<Rightarrow> local_files media_world \<Rightarrow> local_files media_world" where
  "demo_cleanup key w = w\<lparr>wld_store := obs_delete_public (local_storage (map char_of)) key (wld_store w),
     wld_cleanups := remove1 key (wld_cleanups w)\<rparr>"

text \<open>
  A first worker's lease expires while it publishes; a second one publishes the same image; then the
  first one removes the object it had written.
\<close>

abbreviation "demo_key \<equiv> ''public/listings/17/101.webp''"

definition demo_leased :: "local_files media_world" where "demo_leased = demo_claim 1 demo_queued"
definition demo_late :: "local_files media_world" where
  "demo_late = demo_settle 2 (seconds 200) (103, 101, 1) demo_leased"
definition demo_again :: "local_files media_world" where "demo_again = demo_claim (seconds 200) demo_late"
definition demo_published :: "local_files media_world" where
  "demo_published = demo_settle (seconds 201) (seconds 202) (103, 101, 2) demo_again"
definition demo_vanished :: "local_files media_world" where "demo_vanished = demo_cleanup demo_key demo_published"

abbreviation demo_serves :: "local_files media_world \<Rightarrow> bool" where
  "demo_serves \<equiv> media_reachable demo_site lfs_public"

lemma serves_next: "demo_serves w \<Longrightarrow> media_step demo_site w w' \<Longrightarrow> demo_serves w'"
  unfolding media_reachable_def by (meson rtranclp.rtrancl_into_rtrancl)

lemma demo_site_config: "site_config demo_site = demo_media_config" "site_storage demo_site = local_storage (map char_of)"
  by (simp_all add: demo_site_def)

lemma serves_claim: "demo_serves w \<Longrightarrow> demo_serves (demo_claim now w)"
  using media_step.claimed [of demo_site "\<lambda>i. False" now w]
  by (auto simp: demo_claim_def demo_site_config split: option.split intro: serves_next)

lemma serves_settle: "demo_serves w \<Longrightarrow> c \<in> set (wld_claims w) \<Longrightarrow> demo_serves (demo_settle checked finished c w)"
  using serves_next [OF _ media_step.settled [OF _ refl, of c w demo_site "clock_at checked finished"]]
  by (simp add: demo_settle_def Let_def)

lemma serves_cleanup: "demo_serves w \<Longrightarrow> key \<in> set (wld_cleanups w) \<Longrightarrow> demo_serves (demo_cleanup key w)"
  using serves_next [OF _ media_step.cleaned [of key w demo_site]]
  by (simp add: demo_cleanup_def demo_site_config)

lemma serves_queued: "demo_serves demo_queued"
proof -
  have "empty_media lfs_public demo_empty" by (simp add: empty_media_def demo_empty_def demo_images_def platform.extend_def)
  then have "demo_serves demo_empty" by (auto simp: media_reachable_def)
  moreover have "media_step demo_site demo_empty demo_queued"
    using media_step.upload [of demo_site demo_empty Rate_Ok True 0 17 "Some ''image/jpeg''" "[255, 216, 255, 7]" merchant_2]
    by (simp add: demo_queued_def demo_upload_def demo_empty_def)
  ultimately show ?thesis by (rule serves_next)
qed

lemma serves_published: "demo_serves demo_published"
proof -
  have claims: "wld_claims demo_leased = [(103, 101, 1)]" "wld_claims demo_again = [(103, 101, 2)]" by code_simp+
  have "demo_serves demo_leased" unfolding demo_leased_def by (rule serves_claim [OF serves_queued])
  then have "demo_serves demo_late" unfolding demo_late_def by (rule serves_settle) (simp add: claims)
  then have "demo_serves demo_again" unfolding demo_again_def by (rule serves_claim)
  then show ?thesis unfolding demo_published_def by (rule serves_settle) (simp add: claims)
qed

section \<open>What is public was inspected\<close>

text \<open>C15: only inspected images are public: whatever order uploads, workers, failing storages and the rest
  of the backend run in, every object in the public store is the rendering of bytes that hash to
  the recorded source of one image and that the scanner found clean, and every image a listing shows
  is an approved one of that listing whose recorded hash is that of such a rendering.\<close>

theorem published_images_inspected:
  assumes "object_storage (site_storage E) pub" and "0 < cfg_media_job_max_attempts (site_config E)"
    and "media_reachable E pub w"
    and "(l, x) \<in> set (approved_listing_media (site_urlsplit E) (site_config E) (wld_db w) ids)"
  shows "(\<exists>a \<in> set (product_media_assets (wld_db w)). mda_id a = imr_id x \<and> mda_store_product_id a = l
      \<and> l \<in> set ids \<and> mda_state a = ''approved'' \<and> mda_retired_at a = None
      \<and> (\<exists>c. inspected E a c \<and> mda_derivative_sha256 a = Some (site_sha256 E c))
      \<and> (\<forall>c. pub (wld_store w) (derivative_key a) \<noteq> Some c \<or> inspected E a c))
    \<and> (\<forall>k c. pub (wld_store w) k \<noteq> Some c
        \<or> (\<exists>b \<in> set (product_media_assets (wld_db w)). k = derivative_key b \<and> inspected E b c))"
proof
  have inv: "images_ok E (wld_db w)" "objects_ok E (pub (wld_store w)) (wld_db w)"
    using media_reachable_inv [OF assms(1,2,3)] by (simp_all add: media_inv_def)
  show objects: "\<forall>k c. pub (wld_store w) k \<noteq> Some c
      \<or> (\<exists>b \<in> set (product_media_assets (wld_db w)). k = derivative_key b \<and> inspected E b c)"
    using inv(2) by (auto simp: objects_ok_def)
  obtain a where a: "a \<in> set (product_media_assets (wld_db w))" "public_asset ids a" "mda_id a = imr_id x"
      "mda_store_product_id a = l"
    using assms(4) by (auto simp: approved_listing_media_def set_map_filter split: if_splits)
  have "inspected E a c" if c: "pub (wld_store w) (derivative_key a) = Some c" for c
  proof -
    obtain b where b: "b \<in> set (product_media_assets (wld_db w))" "derivative_key a = derivative_key b" "inspected E b c"
      using objects c by blast
    then have "b = a" using derivative_key_inject a(1) inv(1) by (metis images_ok_def distinct_map inj_onD)
    with b show ?thesis by simp
  qed
  with a inv(1) show "\<exists>a \<in> set (product_media_assets (wld_db w)). mda_id a = imr_id x \<and> mda_store_product_id a = l
      \<and> l \<in> set ids \<and> mda_state a = ''approved'' \<and> mda_retired_at a = None
      \<and> (\<exists>c. inspected E a c \<and> mda_derivative_sha256 a = Some (site_sha256 E c))
      \<and> (\<forall>c. pub (wld_store w) (derivative_key a) \<noteq> Some c \<or> inspected E a c)"
    by (auto simp: public_asset_def images_ok_def asset_ok_def intro!: bexI [of _ a])
qed

lemma published_images_inspected_witness:
  "\<exists>x. approved_listing_media (site_urlsplit demo_site) demo_media_config (wld_db demo_published) [17] = [(17, x)]
    \<and> (\<exists>a \<in> set (product_media_assets (wld_db demo_published)). mda_id a = imr_id x \<and> mda_state a = ''approved'')"
proof -
  have "map fst (approved_listing_media (site_urlsplit demo_site) demo_media_config (wld_db demo_published) [17]) = [17]"
    by code_simp
  then obtain x where x: "approved_listing_media (site_urlsplit demo_site) demo_media_config (wld_db demo_published) [17] = [(17, x)]"
    by auto
  have "object_storage (site_storage demo_site) lfs_public"
    by (simp add: demo_site_config local_disk.object_storage_axioms)
  from published_images_inspected [OF this _ serves_published, of 17 x "[17]"] x show ?thesis
    by (auto simp: demo_site_config demo_media_config_def platform_settings.extend_def)
qed

text \<open>C16: no image job is lost: in every reachable state a job that is not finished can be claimed, or
  is given up as exhausted, from some instant on, and its attempts stay within the limit.\<close>

theorem image_jobs_never_stuck:
  assumes "object_storage (site_storage E) pub" and "0 < cfg_media_job_max_attempts (site_config E)"
    and "media_reachable E pub w" and "j \<in> set (product_media_jobs (wld_db w))"
  shows "mdj_attempt_count j \<le> cfg_media_job_max_attempts (site_config E)
    \<and> (mdj_state j \<in> {''completed'', ''failed''}
       \<or> (\<exists>t. \<forall>d. 0 \<le> d \<longrightarrow> claimable (site_config E) (t + d) j \<or> exhausted (site_config E) (t + d) j))"
proof -
  have ok: "media_job_ok (site_config E) j"
    using media_reachable_inv [OF assms(1,2,3)] assms(4) by (simp add: media_inv_def images_ok_def)
  define t where "t = (if mdj_state j = ''queued'' then case mdj_next_attempt_at j of None \<Rightarrow> 0 | Some n \<Rightarrow> n
    else case mdj_lease_expires_at j of None \<Rightarrow> 0 | Some n \<Rightarrow> n)"
  have "\<forall>d. 0 \<le> d \<longrightarrow> claimable (site_config E) (t + d) j \<or> exhausted (site_config E) (t + d) j"
    if "mdj_state j \<notin> {''completed'', ''failed''}"
    using ok that by (auto simp: media_job_ok_def claimable_def exhausted_def t_def split: option.split)
  with ok show ?thesis by (auto simp: media_job_ok_def)
qed

lemma image_jobs_never_stuck_witness:
  "\<exists>j. product_media_jobs (wld_db demo_queued) = [j] \<and> mdj_attempt_count j \<le> 3"
proof -
  have "map mdj_id (product_media_jobs (wld_db demo_queued)) = [103]" by code_simp
  then obtain j where j: "product_media_jobs (wld_db demo_queued) = [j]" by auto
  have "object_storage (site_storage demo_site) lfs_public"
    by (simp add: demo_site_config local_disk.object_storage_axioms)
  from image_jobs_never_stuck [OF this _ serves_queued, of j] j show ?thesis
    by (auto simp: demo_site_config demo_media_config_def platform_settings.extend_def)
qed


end
