(* ===== verification/Discovery.thy ===== *)
theory Discovery
  imports Catalogue Push Media_Ops
begin

text \<open>
  Search and ranking for customers: \<open>routes/discovery.py\<close>, \<open>routes/store_discovery.py\<close> and
  \<open>routes/substitutions.py\<close>. Scores and distances are rationals where the code has floats; rows of a
  query without an order come in table order, so that only the tie-breaking of equal sort keys depends
  on it. PostGIS, \<open>ILIKE\<close> and \<open>casefold\<close> are parameters. Lemmas: what is shown can be bought from an
  open store in range, results are bounded and ranked, and the suggestions are among the findable.
\<close>

section \<open>Scores\<close>

definition text_score :: "(string \<Rightarrow> string) \<Rightarrow> string option \<Rightarrow> string \<Rightarrow> rat" where
  "text_score casefold value query =
     (case text_or_none value of
        None \<Rightarrow> 0
      | Some v \<Rightarrow>
          if casefold v = casefold query then 4
          else if starts (casefold query) (casefold v) then 3
          else if contains (casefold query) (casefold v) then 2 else 0)"

definition prefix_rank :: "(string \<Rightarrow> string) \<Rightarrow> string option \<Rightarrow> string \<Rightarrow> int" where
  "prefix_rank casefold value query =
     (case map_of [(4, 0), (3, 1), (2, 2)] (text_score casefold value query) of None \<Rightarrow> 99 | Some r \<Rightarrow> r)"

text \<open>The part of a score that is for nearness.\<close>

definition nearness :: "rat \<Rightarrow> rat \<Rightarrow> rat" where
  "nearness radius_km distance = max 0 (2 - distance / max radius_km 1)"

text \<open>\<open>column.ilike(f"%{q}%")\<close>: a null column does not match, and q is not escaped.\<close>

definition found_in :: "(string \<Rightarrow> string \<Rightarrow> bool) \<Rightarrow> string \<Rightarrow> string option \<Rightarrow> bool" where
  "found_in ilike q value = (case value of None \<Rightarrow> False | Some v \<Rightarrow> ilike v (''%'' @ q @ ''%''))"

section \<open>What can be found\<close>

definition found_store ::
  "(string \<Rightarrow> string \<Rightarrow> bool) \<Rightarrow> string \<Rightarrow> uuid list \<Rightarrow> 'm database_scheme \<Rightarrow> store \<Rightarrow> bool" where
  "found_store ilike q ids d s \<longleftrightarrow> sto_id s \<in> set ids \<and> public_store d s
     \<and> (found_in ilike q (Some (sto_name s)) \<or> found_in ilike q (sto_description s) \<or> found_in ilike q (sto_landmark s))"

text \<open>The join of a listing with its product, store and category, for listings that can be bought.\<close>

definition offered ::
  "uuid list \<Rightarrow> 'm database_scheme \<Rightarrow> store_product \<Rightarrow> (store_product \<times> product \<times> store \<times> category) option" where
  "offered ids d l =
     (case (get_product d (lst_product_id l), get_store d (lst_store_id l)) of
        (Some p, Some s) \<Rightarrow>
          (case get_category d (pro_category_id p) of
             None \<Rightarrow> None
           | Some c \<Rightarrow>
               if sto_id s \<in> set ids \<and> public_store d s \<and> buyable l \<and> pro_is_active p \<and> cat_is_active c
               then Some (l, p, s, c) else None)
      | _ \<Rightarrow> None)"

definition offers :: "uuid list \<Rightarrow> 'm database_scheme \<Rightarrow> (store_product \<times> product \<times> store \<times> category) list" where
  "offers ids d = List.map_filter (offered ids d) (store_products d)"

section \<open>Search\<close>

record found_store_read =
  fsr_id :: uuid
  fsr_name :: string
  fsr_landmark :: "string option"
  fsr_delivery_enabled :: bool
  fsr_distance_km :: rat
  fsr_match_score :: rat

record found_product_read =
  fpr_listing_id :: uuid
  fpr_product_id :: uuid
  fpr_store_id :: uuid
  fpr_store_name :: string
  fpr_name :: string
  fpr_brand :: "string option"
  fpr_unit :: string
  fpr_price :: money
  fpr_mrp :: "money option"
  fpr_distance_km :: rat
  fpr_match_score :: rat

record found_category_read =
  fcr_id :: uuid
  fcr_name :: string
  fcr_slug :: string
  fcr_available_listing_count :: int

record search_read =
  ser_query :: string
  ser_latitude :: rat
  ser_longitude :: rat
  ser_radius_km :: rat
  ser_stores :: "found_store_read list"
  ser_products :: "found_product_read list"
  ser_categories :: "found_category_read list"

text \<open>\<open>distances[store_id]\<close> for an id that is among the keys.\<close>

definition distance_of :: "(uuid \<times> rat) list \<Rightarrow> uuid \<Rightarrow> rat" where
  "distance_of distances i = (case map_of distances i of None \<Rightarrow> 0 | Some x \<Rightarrow> x)"

definition store_hits ::
  "(string \<Rightarrow> string \<Rightarrow> bool) \<Rightarrow> (string \<Rightarrow> string) \<Rightarrow> string \<Rightarrow> rat \<Rightarrow> (uuid \<times> rat) list \<Rightarrow> 'm database_scheme \<Rightarrow>
     found_store_read list" where
  "store_hits ilike casefold q radius_km distances d =
     sort_key (\<lambda>r. (- fsr_match_score r, fsr_distance_km r, casefold (fsr_name r)))
       (map (\<lambda>s. let x = distance_of distances (sto_id s)
          in \<lparr>fsr_id = sto_id s, fsr_name = sto_name s, fsr_landmark = sto_landmark s,
              fsr_delivery_enabled = sto_delivery_enabled s, fsr_distance_km = py_round 2 x,
              fsr_match_score = py_round 3 (text_score casefold (Some (sto_name s)) q + nearness radius_km x)\<rparr>)
         (filter (found_store ilike q (map fst distances) d) (stores d)))"

definition product_found ::
  "(string \<Rightarrow> string \<Rightarrow> bool) \<Rightarrow> string \<Rightarrow> store_product \<times> product \<times> store \<times> category \<Rightarrow> bool" where
  "product_found ilike q r =
     (case r of (l, p, s, c) \<Rightarrow>
        list_ex (found_in ilike q)
          [Some (pro_name p), pro_brand p, pro_description p, Some (cat_name c), Some (sto_name s)])"

definition product_hits ::
  "(string \<Rightarrow> string \<Rightarrow> bool) \<Rightarrow> (string \<Rightarrow> string) \<Rightarrow> string \<Rightarrow> rat \<Rightarrow> (uuid \<times> rat) list \<Rightarrow> 'm database_scheme \<Rightarrow>
     found_product_read list" where
  "product_hits ilike casefold q radius_km distances d =
     sort_key (\<lambda>r. (- fpr_match_score r, fpr_distance_km r, casefold (fpr_name r), casefold (fpr_store_name r)))
       (map (\<lambda>(l, p, s, c). let x = distance_of distances (sto_id s);
            score = max (max (text_score casefold (Some (pro_name p)) q) (text_score casefold (pro_brand p) q))
              (max (text_score casefold (Some (cat_name c)) q) (text_score casefold (Some (sto_name s)) q))
          in \<lparr>fpr_listing_id = lst_id l, fpr_product_id = pro_id p, fpr_store_id = sto_id s,
              fpr_store_name = sto_name s, fpr_name = pro_name p, fpr_brand = pro_brand p, fpr_unit = pro_unit p,
              fpr_price = lst_price l, fpr_mrp = lst_mrp l, fpr_distance_km = py_round 2 x,
              fpr_match_score = py_round 3 (score + nearness radius_km x)\<rparr>)
         (filter (product_found ilike q) (offers (map fst distances) d)))"

text \<open>\<open>GROUP BY\<close> the category: the inner joins keep those with an offer.\<close>

definition category_hits ::
  "(string \<Rightarrow> string \<Rightarrow> bool) \<Rightarrow> string \<Rightarrow> uuid list \<Rightarrow> 'm database_scheme \<Rightarrow> found_category_read list" where
  "category_hits ilike q ids d =
     sort_key (\<lambda>r. (- fcr_available_listing_count r, fcr_name r))
       (filter (\<lambda>r. 0 < fcr_available_listing_count r)
         (map (\<lambda>c. \<lparr>fcr_id = cat_id c, fcr_name = cat_name c, fcr_slug = cat_slug c,
             fcr_available_listing_count = int (length (filter (\<lambda>(l, p, s, k). cat_id k = cat_id c) (offers ids d)))\<rparr>)
           (filter (\<lambda>c. found_in ilike q (Some (cat_name c))) (categories d))))"

definition valid_search :: "nat \<Rightarrow> int \<Rightarrow> string \<Rightarrow> rat \<Rightarrow> rat \<Rightarrow> rat \<Rightarrow> int \<Rightarrow> bool" where
  "valid_search longest most q lat lng radius_km limit \<longleftrightarrow> 1 \<le> length q \<and> length q \<le> longest
     \<and> valid_coordinates lat lng \<and> 0 < radius_km \<and> radius_km \<le> 100 \<and> 1 \<le> limit \<and> limit \<le> most"

definition discovery_search ::
  "gis \<Rightarrow> (string \<Rightarrow> string \<Rightarrow> bool) \<Rightarrow> (string \<Rightarrow> string) \<Rightarrow> string \<Rightarrow> rat \<Rightarrow> rat \<Rightarrow> rat \<Rightarrow> bool option \<Rightarrow> int \<Rightarrow>
     'm database_scheme \<Rightarrow> search_read res" where
  "discovery_search g ilike casefold q lat lng radius_km delivery limit d =
     (if \<not> valid_search 120 50 q lat lng radius_km limit then Inl (HTTPException 422 ''query'')
      else
        let distances = nearby_store_distances g d (lat, lng) radius_km delivery;
            empty = \<lparr>ser_query = q, ser_latitude = lat, ser_longitude = lng, ser_radius_km = radius_km,
              ser_stores = [], ser_products = [], ser_categories = []\<rparr>
        in if distances = [] then Inr empty
           else Inr (empty\<lparr>
             ser_stores := take (nat limit) (store_hits ilike casefold q radius_km distances d),
             ser_products := take (nat limit) (product_hits ilike casefold q radius_km distances d),
             ser_categories := take (nat limit) (category_hits ilike q (map fst distances) d)\<rparr>))"

section \<open>Suggestions\<close>

record suggestion =
  sug_kind :: string
  sug_label :: string
  sug_secondary :: "string option"
  sug_store_id :: "uuid option"
  sug_product_id :: "uuid option"
  sug_category_id :: "uuid option"
  sug_distance_km :: "rat option"

text \<open>The separator U+2022 between two spaces, in UTF-8.\<close>

definition BULLET :: string where "BULLET = '' '' @ [CHR 0xE2, CHR 0x80, CHR 0xA2] @ '' ''"

type_synonym rank = "int \<times> rat \<times> string \<times> uuid"

definition ranked_store ::
  "(string \<Rightarrow> string) \<Rightarrow> string \<Rightarrow> (uuid \<times> rat) list \<Rightarrow> store \<Rightarrow> rank \<times> suggestion" where
  "ranked_store casefold q distances s =
     (let x = distance_of distances (sto_id s)
      in ((prefix_rank casefold (Some (sto_name s)) q, x, casefold (sto_name s), sto_id s),
          \<lparr>sug_kind = ''store'', sug_label = sto_name s, sug_secondary = sto_landmark s,
           sug_store_id = Some (sto_id s), sug_product_id = None, sug_category_id = None,
           sug_distance_km = Some (py_round 2 x)\<rparr>))"

definition ranked_product ::
  "(string \<Rightarrow> string) \<Rightarrow> string \<Rightarrow> (uuid \<times> rat) list \<Rightarrow> store_product \<times> product \<times> store \<times> category \<Rightarrow>
     rank \<times> suggestion" where
  "ranked_product casefold q distances r =
     (case r of (l, p, s, c) \<Rightarrow>
        let x = distance_of distances (sto_id s);
            rank = min (min (prefix_rank casefold (Some (pro_name p)) q) (prefix_rank casefold (pro_brand p) q))
              (prefix_rank casefold (Some (cat_name c)) q)
        in ((rank, x, casefold (pro_name p), pro_id p),
            \<lparr>sug_kind = ''product'', sug_label = pro_name p, sug_secondary = Some (sto_name s @ BULLET @ cat_name c),
             sug_store_id = Some (sto_id s), sug_product_id = Some (pro_id p), sug_category_id = Some (cat_id c),
             sug_distance_km = Some (py_round 2 x)\<rparr>))"

definition suggested_store ::
  "(string \<Rightarrow> string \<Rightarrow> bool) \<Rightarrow> string \<Rightarrow> uuid list \<Rightarrow> 'm database_scheme \<Rightarrow> store \<Rightarrow> bool" where
  "suggested_store ilike q ids d s \<longleftrightarrow> sto_id s \<in> set ids \<and> public_store d s
     \<and> (found_in ilike q (Some (sto_name s)) \<or> found_in ilike q (sto_landmark s))"

definition suggested_product ::
  "(string \<Rightarrow> string \<Rightarrow> bool) \<Rightarrow> string \<Rightarrow> store_product \<times> product \<times> store \<times> category \<Rightarrow> bool" where
  "suggested_product ilike q r =
     (case r of (l, p, s, c) \<Rightarrow>
        list_ex (found_in ilike q) [Some (pro_name p), pro_brand p, Some (cat_name c)])"

definition discovery_suggestions ::
  "gis \<Rightarrow> (string \<Rightarrow> string \<Rightarrow> bool) \<Rightarrow> (string \<Rightarrow> string) \<Rightarrow> string \<Rightarrow> rat \<Rightarrow> rat \<Rightarrow> rat \<Rightarrow> bool option \<Rightarrow> int \<Rightarrow>
     'm database_scheme \<Rightarrow> suggestion list res" where
  "discovery_suggestions g ilike casefold q lat lng radius_km delivery limit d =
     (if \<not> valid_search 80 20 q lat lng radius_km limit then Inl (HTTPException 422 ''query'')
      else
        let distances = nearby_store_distances g d (lat, lng) radius_km delivery; ids = map fst distances;
            ranked = map (ranked_store casefold q distances) (filter (suggested_store ilike q ids d) (stores d))
              @ map (ranked_product casefold q distances) (filter (suggested_product ilike q) (offers ids d))
        in Inr (if distances = [] then [] else map snd (take (nat limit) (sort_key fst ranked))))"

section \<open>Stores nearby\<close>

definition nearby_stores_postgis ::
  "gis \<Rightarrow> timestamp \<Rightarrow> rat \<Rightarrow> rat \<Rightarrow> rat \<Rightarrow> bool option \<Rightarrow> int \<Rightarrow> 'm platform_scheme \<Rightarrow> (store_read \<times> rat) list res" where
  "nearby_stores_postgis g now lat lng radius_km delivery limit d =
     (if \<not> valid_coordinates lat lng \<or> \<not> (0 < radius_km \<and> radius_km \<le> 100) \<or> limit < 1 \<or> 200 < limit
      then Inl (HTTPException 422 ''query'')
      else
        let ranked = take (nat limit) (nearby_store_distances g d (lat, lng) radius_km delivery);
            banners = public_presentations_for_stores d (map fst ranked)
        in Inr (List.map_filter (\<lambda>(i, x). map_option (\<lambda>s.
             ((store_read_of now d s)\<lparr>srd_banner := map_of banners (sto_id s)\<rparr>, py_round 2 x)) (get_store d i)) ranked))"

section \<open>Substitutions\<close>

record substitution =
  sub_listing_id :: uuid
  sub_product_id :: uuid
  sub_name :: string
  sub_brand :: "string option"
  sub_unit :: string
  sub_price :: money
  sub_price_delta :: money
  sub_score :: rat

text \<open>Prices are in paise: a price below one rupee counts as one.\<close>

definition substitution_score :: "money \<Rightarrow> money \<Rightarrow> bool \<Rightarrow> rat" where
  "substitution_score base_price candidate_price same_brand =
     (let base = max (of_int base_price / 100) 1;
          penalty = min (\<bar>of_int (candidate_price - base_price) / 100\<bar> / base) 1
      in py_round 4 (1 - penalty + (if same_brand then 1 / 4 else 0)))"

definition same_brand :: "(string \<Rightarrow> string) \<Rightarrow> string option \<Rightarrow> string option \<Rightarrow> bool" where
  "same_brand casefold a b =
     (case (text_or_none a, text_or_none b) of
        (Some x, Some y) \<Rightarrow> casefold x = casefold y
      | _ \<Rightarrow> False)"

definition substitute ::
  "'m database_scheme \<Rightarrow> store_product \<Rightarrow> product \<Rightarrow> store_product \<Rightarrow> (store_product \<times> product) option" where
  "substitute d base base_product l =
     (case get_product d (lst_product_id l) of
        None \<Rightarrow> None
      | Some p \<Rightarrow>
          if lst_store_id l = lst_store_id base \<and> lst_id l \<noteq> lst_id base \<and> buyable l \<and> pro_is_active p
             \<and> pro_category_id p = pro_category_id base_product
          then Some (l, p) else None)"

definition substitutions ::
  "(string \<Rightarrow> string) \<Rightarrow> uuid \<Rightarrow> int \<Rightarrow> 'm database_scheme \<Rightarrow> substitution list res" where
  "substitutions casefold listing_id limit d =
     (if limit < 1 \<or> 10 < limit then Inl (HTTPException 422 ''limit'')
      else case get_listing d listing_id of
        None \<Rightarrow> Inl (HTTPException 404 ''Listing not found'')
      | Some base \<Rightarrow>
          if \<not> open_store d (lst_store_id base) then Inl (HTTPException 404 ''Listing not found'')
          else (case get_product d (lst_product_id base) of
              None \<Rightarrow> Inl (HTTPException 404 ''Product not found'')
            | Some bp \<Rightarrow>
                if \<not> pro_is_active bp then Inl (HTTPException 404 ''Product not found'')
                else Inr (take (nat limit)
                  (sort_key (\<lambda>r. (- sub_score r, \<bar>sub_price_delta r\<bar>, casefold (sub_name r)))
                    (map (\<lambda>(l, p).
                       \<lparr>sub_listing_id = lst_id l, sub_product_id = pro_id p, sub_name = pro_name p,
                        sub_brand = pro_brand p, sub_unit = pro_unit p, sub_price = lst_price l,
                        sub_price_delta = lst_price l - lst_price base,
                        sub_score = substitution_score (lst_price base) (lst_price l)
                          (same_brand casefold (pro_brand bp) (pro_brand p))\<rparr>)
                      (List.map_filter (substitute d base bp) (store_products d)))))))"
section \<open>What is shown\<close>

lemma round_half_even_mono:
  assumes "x \<le> y"
  shows "round_half_even x \<le> round_half_even y"
proof (cases "floor x = floor y")
  case True
  with assms show ?thesis by (auto simp: round_half_even_def Let_def)
next
  case False
  then have "floor x + 1 \<le> floor y" using assms floor_mono [of x y] by linarith
  moreover have "round_half_even x \<le> floor x + 1" "floor y \<le> round_half_even y"
    by (auto simp: round_half_even_def Let_def)
  ultimately show ?thesis by linarith
qed

lemma py_round_mono: "x \<le> y \<Longrightarrow> py_round n x \<le> py_round n y"
  unfolding py_round_def by (intro divide_right_mono of_int_le_iff [THEN iffD2] round_half_even_mono mult_right_mono) auto

lemma public_store_iff_open: "get_store d (sto_id s) = Some s \<Longrightarrow> open_store d (sto_id s) \<longleftrightarrow> public_store d s"
  by (auto simp: open_store_def public_store_def split: option.splits)

lemma nearbyD:
  assumes "(i, x) \<in> set (nearby_store_distances g d p radius_km delivery)"
  obtains s q where "s \<in> set (stores d)" "sto_id s = i" "public_store d s"
    "located (sto_latitude s) (sto_longitude s) = Some q" "gis_dwithin g q p (radius_km * 1000)"
    "x = gis_distance g q p / 1000"
proof -
  obtain s q t where t: "t \<in> set (stores d)" "i = sto_id s" "x = gis_distance g q p / 1000"
    "(case (get_merchant d (sto_merchant_id t), located (sto_latitude t) (sto_longitude t)) of
        (Some m, Some q) \<Rightarrow>
          if sto_is_active t \<and> mer_status m = APPROVED
             \<and> (case delivery of None \<Rightarrow> True | Some b \<Rightarrow> sto_delivery_enabled t = b)
             \<and> gis_dwithin g q p (radius_km * 1000)
          then Some (t, q) else None
      | _ \<Rightarrow> None) = Some (s, q)"
    using assms by (auto simp: nearby_store_distances_def set_map_filter)
  then show thesis
    by (cases "get_merchant d (sto_merchant_id t)"; cases "located (sto_latitude t) (sto_longitude t)")
      (auto simp: public_store_def intro: that split: if_splits)
qed

lemma offers_iff:
  "(l, p, s, c) \<in> set (offers ids d) \<longleftrightarrow> l \<in> set (store_products d) \<and> get_product d (lst_product_id l) = Some p
     \<and> get_store d (lst_store_id l) = Some s \<and> get_category d (pro_category_id p) = Some c
     \<and> sto_id s \<in> set ids \<and> public_store d s \<and> buyable l \<and> pro_is_active p \<and> cat_is_active c"
  by (auto simp: offers_def offered_def set_map_filter split: option.splits if_splits)

text \<open>A product in the results is on sale now, with its price, in an open store.\<close>

lemma search_products:
  assumes "discovery_search g ilike casefold q lat lng radius_km delivery limit d = Inr r"
    and "x \<in> set (ser_products r)"
  shows "\<exists>l p s c. (l, p, s, c) \<in> set (offers (map fst (nearby_store_distances g d (lat, lng) radius_km delivery)) d)
    \<and> product_found ilike q (l, p, s, c) \<and> lst_id l = fpr_listing_id x \<and> fpr_price x = lst_price l \<and> fpr_store_id x = sto_id s"
proof -
  have "x \<in> set (product_hits ilike casefold q radius_km (nearby_store_distances g d (lat, lng) radius_km delivery) d)"
    using assms by (auto simp: discovery_search_def Let_def dest: in_set_takeD split: if_splits)
  then show ?thesis by (fastforce simp: product_hits_def Let_def)
qed

lemma search_stores_in_range:
  assumes "discovery_search g ilike casefold q lat lng radius_km delivery limit d = Inr r"
    and "x \<in> set (ser_stores r)"
  shows "\<exists>s p. s \<in> set (stores d) \<and> sto_id s = fsr_id x \<and> public_store d s
    \<and> located (sto_latitude s) (sto_longitude s) = Some p \<and> gis_dwithin g p (lat, lng) (radius_km * 1000)"
proof -
  have "x \<in> set (store_hits ilike casefold q radius_km (nearby_store_distances g d (lat, lng) radius_km delivery) d)"
    using assms by (auto simp: discovery_search_def Let_def dest: in_set_takeD split: if_splits)
  then obtain y where "(fsr_id x, y) \<in> set (nearby_store_distances g d (lat, lng) radius_km delivery)"
    by (auto simp: store_hits_def found_store_def Let_def)
  then show ?thesis by (elim nearbyD) blast
qed

lemma search_bounded:
  assumes "discovery_search g ilike casefold q lat lng radius_km delivery limit d = Inr r"
  shows "length (ser_stores r) \<le> nat limit" "length (ser_products r) \<le> nat limit"
    "length (ser_categories r) \<le> nat limit"
  using assms by (auto simp: discovery_search_def Let_def split: if_splits)

lemma search_total:
  "(\<exists>r. discovery_search g ilike casefold q lat lng radius_km delivery limit d = Inr r)
     \<longleftrightarrow> valid_search 120 50 q lat lng radius_km limit"
  by (auto simp: discovery_search_def Let_def)

text \<open>A category is shown with the number of its offers, which is not zero.\<close>

lemma category_hitsD:
  assumes "r \<in> set (category_hits ilike q ids d)"
  shows "0 < fcr_available_listing_count r \<and> fcr_available_listing_count r
    = int (length (filter (\<lambda>(l, p, s, k). cat_id k = fcr_id r) (offers ids d)))"
  using assms by (auto simp: category_hits_def)

lemma product_hits_ranked:
  "sorted (map (\<lambda>r. - fpr_match_score r) (product_hits ilike casefold q radius_km distances d))"
proof -
  let ?f = "\<lambda>r. (- fpr_match_score r, fpr_distance_km r, casefold (fpr_name r), casefold (fpr_store_name r))"
  have "sorted (map ?f (product_hits ilike casefold q radius_km distances d))"
    unfolding product_hits_def by (rule sorted_sort_key)
  then have "sorted (map fst (map ?f (product_hits ilike casefold q radius_km distances d)))"
    by (rule sorted_wrt_map [THEN iffD2, OF sorted_wrt_mono_rel, rotated]) (auto simp: less_eq_prod_def)
  then show ?thesis by (simp add: comp_def)
qed

text \<open>Text outranks nearness: an exact name is never below a name that only contains the query.\<close>

lemma nearness_bounds: "0 \<le> distance \<Longrightarrow> nearness radius_km distance \<in> {0..2}"
  by (auto simp: nearness_def)

lemma text_score_values: "text_score casefold value q \<in> {0, 2, 3, 4}"
  by (simp add: text_score_def split: option.split)

lemma text_outranks_nearness:
  assumes "text_score casefold a q = 4" and "text_score casefold b q \<le> 2" and "0 \<le> x" and "0 \<le> y"
  shows "py_round 3 (text_score casefold b q + nearness radius_km y) \<le> py_round 3 (text_score casefold a q + nearness radius_km x)"
  by (rule py_round_mono) (use assms nearness_bounds [of x radius_km] nearness_bounds [of y radius_km] in auto)

text \<open>The ranks of the suggestions reverse the scores of the search.\<close>

lemma rank_reverses_score:
  "prefix_rank casefold a q \<le> prefix_rank casefold b q \<longleftrightarrow> text_score casefold b q \<le> text_score casefold a q"
  using text_score_values [of casefold a q] text_score_values [of casefold b q]
  by (auto simp: prefix_rank_def)

text \<open>What is suggested can be searched for.\<close>

lemma suggested_is_found:
  "suggested_store ilike q ids d s \<Longrightarrow> found_store ilike q ids d s"
  "suggested_product ilike q r \<Longrightarrow> product_found ilike q r"
  by (auto simp: suggested_store_def found_store_def suggested_product_def product_found_def split: prod.splits)

lemma in_ranked: "x \<in> set (map snd (take n (sort_key fst rs))) \<Longrightarrow> x \<in> snd ` set rs"
proof -
  assume "x \<in> set (map snd (take n (sort_key fst rs)))"
  then obtain y where "y \<in> set (take n (sort_key fst rs))" "x = snd y" by auto
  then show ?thesis using in_set_takeD [of y n "sort_key fst rs"] by simp
qed

lemma in_two_ranked:
  "x \<in> snd ` set (map f xs @ map g ys) \<Longrightarrow> (\<exists>s \<in> set xs. x = snd (f s)) \<or> (\<exists>z \<in> set ys. x = snd (g z))"
  by auto

lemma suggestions_found:
  assumes "discovery_suggestions g ilike casefold q lat lng radius_km delivery limit d = Inr r"
    and "x \<in> set r"
  shows "(\<exists>s \<in> set (stores d). public_store d s \<and> sug_store_id x = Some (sto_id s)
      \<and> found_store ilike q (map fst (nearby_store_distances g d (lat, lng) radius_km delivery)) d s)
    \<or> (\<exists>l p s c. (l, p, s, c) \<in> set (offers (map fst (nearby_store_distances g d (lat, lng) radius_km delivery)) d)
      \<and> product_found ilike q (l, p, s, c) \<and> sug_product_id x = Some (pro_id p) \<and> sug_store_id x = Some (sto_id s))"
proof -
  let ?ds = "nearby_store_distances g d (lat, lng) radius_km delivery"
  have "x \<in> snd ` set (map (ranked_store casefold q ?ds) (filter (suggested_store ilike q (map fst ?ds) d) (stores d))
      @ map (ranked_product casefold q ?ds) (filter (suggested_product ilike q) (offers (map fst ?ds) d)))"
    (is "x \<in> snd ` set ?ranked")
  proof -
    have "r = (if ?ds = [] then [] else map snd (take (nat limit) (sort_key fst ?ranked)))"
      using assms(1) [symmetric] unfolding discovery_suggestions_def Let_def
      by (cases "valid_search 80 20 q lat lng radius_km limit")
        (simp_all only: not_True_eq_False not_False_eq_True if_True if_False sum.inject sum.distinct)
    then have "x \<in> set (map snd (take (nat limit) (sort_key fst ?ranked)))"
      using assms(2) by (metis empty_iff empty_set)
    then show ?thesis by (rule in_ranked)
  qed
  from in_two_ranked [OF this] show ?thesis
  proof (elim disjE bexE)
    fix s assume s: "s \<in> set (filter (suggested_store ilike q (map fst ?ds) d) (stores d))" "x = snd (ranked_store casefold q ?ds s)"
    then have "suggested_store ilike q (map fst ?ds) d s" "s \<in> set (stores d)" by simp_all
    moreover from this(1) have "public_store d s" by (simp add: suggested_store_def)
    moreover from s(1) have "found_store ilike q (map fst ?ds) d s" by (simp add: suggested_is_found(1))
    moreover have "sug_store_id x = Some (sto_id s)" using s(2) by (simp add: ranked_store_def Let_def)
    ultimately show ?thesis by blast
  next
    fix z assume z: "z \<in> set (filter (suggested_product ilike q) (offers (map fst ?ds) d))" "x = snd (ranked_product casefold q ?ds z)"
    obtain l p s c where c: "z = (l, p, s, c)" by (cases z)
    then have "(l, p, s, c) \<in> set (offers (map fst ?ds) d)" "product_found ilike q (l, p, s, c)"
      using z(1) suggested_is_found(2) by simp_all
    moreover have "sug_product_id x = Some (pro_id p)" "sug_store_id x = Some (sto_id s)"
      using z(2) c by (simp_all add: ranked_product_def Let_def)
    ultimately show ?thesis by blast
  qed
qed

text \<open>The page of nearby stores shows each store as the store endpoint does.\<close>

lemma presentations_map_of:
  assumes "i \<in> set ids"
  shows "map_of (public_presentations_for_stores d ids) i = map_of (public_presentations_for_stores d [i]) i"
proof -
  have "map_of (List.map_filter (\<lambda>s. map_option (Pair (bns_store_id s)) (f s)) (filter (\<lambda>s. bns_store_id s \<in> set ids) xs)) i
      = map_of (List.map_filter (\<lambda>s. map_option (Pair (bns_store_id s)) (f s)) (filter (\<lambda>s. bns_store_id s \<in> set [i]) xs)) i"
    for f :: "store_banner_selection \<Rightarrow> banner_manifest option" and xs
    by (induction xs) (use assms in \<open>auto simp: map_filter_simps split: option.split\<close>)
  then show ?thesis by (simp add: public_presentations_for_stores_def)
qed

lemma nearby_stores_consistent:
  assumes "nearby_stores_postgis g now lat lng radius_km delivery limit d = Inr r" and "(x, km) \<in> set r"
  shows "\<exists>s. get_store d (sto_id s) = Some s \<and> x = store_read_of now d s"
proof -
  let ?ranked = "take (nat limit) (nearby_store_distances g d (lat, lng) radius_km delivery)"
  obtain i y s where s: "(i, y) \<in> set ?ranked" "get_store d i = Some s"
      "x = (store_read_of now d s)\<lparr>srd_banner := map_of (public_presentations_for_stores d (map fst ?ranked)) (sto_id s)\<rparr>"
    using assms by (auto simp: nearby_stores_postgis_def Let_def set_map_filter split: if_splits)
  have i: "sto_id s = i" using s(2) by (auto simp: get_store_def get_row_Some_iff)
  moreover have "i \<in> set (map fst ?ranked)" using s(1) by (metis fst_conv image_eqI set_map)
  ultimately show ?thesis
    using s presentations_map_of [of i "map fst ?ranked" d] by (intro exI [of _ s]) (simp add: store_read_of_def)
qed

lemma substitute_iff:
  "substitute d base bp l = Some (k, p) \<longleftrightarrow> k = l \<and> get_product d (lst_product_id l) = Some p
     \<and> lst_store_id l = lst_store_id base \<and> lst_id l \<noteq> lst_id base \<and> buyable l \<and> pro_is_active p
     \<and> pro_category_id p = pro_category_id bp"
  by (auto simp: substitute_def split: option.splits)

text \<open>A substitute is another buyable listing of the same store and category, and the base is not among them.\<close>

lemma substitutions_sound:
  assumes "substitutions casefold listing_id limit d = Inr r" and "x \<in> set r"
  obtains base bp l p where "get_listing d listing_id = Some base" "get_product d (lst_product_id base) = Some bp"
    "l \<in> set (store_products d)" "lst_id l = sub_listing_id x" "sub_listing_id x \<noteq> listing_id" "buyable l"
    "lst_store_id l = lst_store_id base" "get_product d (lst_product_id l) = Some p" "pro_category_id p = pro_category_id bp"
    "sub_price x = lst_price base + sub_price_delta x"
proof -
  obtain base bp where b: "get_listing d listing_id = Some base" "get_product d (lst_product_id base) = Some bp"
    using assms(1) by (auto simp: substitutions_def split: if_splits option.splits)
  then have "x \<in> (\<lambda>(l, p).
       \<lparr>sub_listing_id = lst_id l, sub_product_id = pro_id p, sub_name = pro_name p,
        sub_brand = pro_brand p, sub_unit = pro_unit p, sub_price = lst_price l,
        sub_price_delta = lst_price l - lst_price base,
        sub_score = substitution_score (lst_price base) (lst_price l)
          (same_brand casefold (pro_brand bp) (pro_brand p))\<rparr>) ` set (List.map_filter (substitute d base bp) (store_products d))"
    using assms by (auto simp: substitutions_def dest!: in_set_takeD split: if_splits)
  moreover have "lst_id base = listing_id" using b(1) by (auto simp: get_listing_def get_row_Some_iff)
  ultimately show thesis
    by (auto simp: set_map_filter substitute_iff intro: that [OF b])
qed

lemma substitution_score_bounds: "0 \<le> substitution_score a b same \<and> substitution_score a b same \<le> 5 / 4"
proof -
  have round: "py_round 4 0 = 0" "py_round 4 (5 / 4) = 5 / 4" by code_simp+
  define t where "t = 1 - min (\<bar>of_int (b - a) / 100\<bar> / max (of_int a / 100) 1) 1 + (if same then 1 / 4 else (0::rat))"
  have "0 \<le> \<bar>of_int (b - a) / 100\<bar> / max (of_int a / 100) (1 :: rat)" by (intro divide_nonneg_nonneg) auto
  then have "0 \<le> t" "t \<le> 5 / 4" by (auto simp only: t_def min_def split: if_splits)
  then have "py_round 4 0 \<le> py_round 4 t" "py_round 4 t \<le> py_round 4 (5 / 4)" by (auto intro: py_round_mono)
  then show ?thesis by (simp add: round substitution_score_def t_def Let_def)
qed

lemma substitution_score_max: "substitution_score a b same \<le> substitution_score a a same"
  unfolding substitution_score_def Let_def by (rule py_round_mono) (auto simp: min_def)

end
