(* ===== verification/Search_Properties.thy ===== *)
theory Search_Properties
  imports Discovery Demo
begin

text \<open>What a customer who searches is shown.\<close>


definition demo_ilike :: "string \<Rightarrow> string \<Rightarrow> bool" where
  "demo_ilike v p = contains (tl (butlast p)) v"

definition demo_found :: "search_read res" where
  "demo_found = discovery_search demo_gis demo_ilike id ''P'' 20 76 5 None 10 demo_db"


end
