(* ===== verification/Deploy.thy ===== *)
theory Deploy
  imports Config Media Push
begin

text \<open>
  \<open>deploy/validate_env.py\<close>: the check of \<open>.env.production\<close> that runs before an image is built. The
  file is the list of its lines; \<open>urlparse\<close> answers the password and the hostname of a URL, or None
  when it raised. \<open>reads\<close> states how the process's settings come from the same variables: the defaults
  of \<open>core/config.py\<close> and Pydantic's reading of a boolean. Lemmas: an environment that passes starts
  the application, provided the variables the check does not look at are right.
\<close>

type_synonym env = "(string \<times> string) list"

section \<open>The file\<close>

definition strip_char :: "char \<Rightarrow> string \<Rightarrow> string" where
  "strip_char q s = rev (dropWhile (\<lambda>c. c = q) (rev (dropWhile (\<lambda>c. c = q) s)))"

definition env_line :: "string \<Rightarrow> (string \<times> string) option" where
  "env_line raw =
     (let line = strip raw
      in if line = [] \<or> hd line = CHR ''#'' \<or> CHR ''='' \<notin> set line then None
         else Some (strip (takeWhile (\<lambda>c. c \<noteq> CHR ''='') line),
           strip_char (CHR 0x27) (strip_char (CHR 0x22) (strip (tl (dropWhile (\<lambda>c. c \<noteq> CHR ''='') line))))))"

text \<open>The last assignment of a name wins.\<close>

definition load_env :: "string list \<Rightarrow> env" where
  "load_env lines = rev (List.map_filter env_line lines)"

definition env_get :: "env \<Rightarrow> string \<Rightarrow> string \<Rightarrow> string" where
  "env_get e name fallback = (case map_of e name of None \<Rightarrow> fallback | Some v \<Rightarrow> v)"

section \<open>The check\<close>

definition demand :: "bool \<Rightarrow> string \<Rightarrow> string list" where
  "demand good message = (if good then [] else [message])"

definition filled :: "string \<Rightarrow> bool" where
  "filled v \<longleftrightarrow> v \<noteq> [] \<and> \<not> starts ''REPLACE_'' v"

definition trimmed :: "env \<Rightarrow> string \<Rightarrow> string" where
  "trimmed e name = strip (env_get e name [])"

fun replace_once :: "string \<Rightarrow> string \<Rightarrow> string \<Rightarrow> string" where
  "replace_once old new [] = []"
| "replace_once old new (c # s) =
     (if starts old (c # s) then new @ drop (length old) (c # s) else c # replace_once old new s)"

definition site_errors :: "env \<Rightarrow> string list" where
  "site_errors e =
     (let domain = trimmed e ''DOMAIN''; https = ''https://'' @ domain
      in demand (env_get e ''APP_ENV'' [] = ''production'') ''APP_ENV must be production''
       @ demand (ascii_lower (env_get e ''APP_DEBUG'' []) \<in> {''false'', ''0'', ''no''}) ''APP_DEBUG must be false''
       @ demand (domain \<noteq> [] \<and> domain \<noteq> ''example.com'' \<and> \<not> contains ''://'' domain)
           ''DOMAIN must be a real hostname without http:// or https://''
       @ demand (domain = [] \<or> env_get e ''PUBLIC_BASE_URL'' [] = https) ''PUBLIC_BASE_URL must exactly match https://DOMAIN''
       @ demand (domain = [] \<or> https \<in> set (listed (env_get e ''CORS_ORIGINS'' [])))
           ''CORS_ORIGINS must include the production HTTPS domain''
       @ demand (domain = [] \<or> domain \<in> set (listed (env_get e ''TRUSTED_HOSTS'' [])))
           ''TRUSTED_HOSTS must include DOMAIN'')"

definition secret_errors :: "(string \<Rightarrow> (string option \<times> string option) option) \<Rightarrow> env \<Rightarrow> string list" where
  "secret_errors urlparse e =
     (let secret = env_get e ''SECRET_KEY'' []; password = env_get e ''POSTGRES_PASSWORD'' [];
          url = replace_once ''postgresql+psycopg://'' ''postgresql://'' (env_get e ''DATABASE_URL'' [])
      in demand (32 \<le> utf8_length secret \<and> \<not> starts ''REPLACE_'' secret \<and> secret \<noteq> ''change-this-in-production'')
           ''SECRET_KEY must be a non-placeholder value of at least 32 bytes''
       @ demand (16 \<le> length password \<and> \<not> starts ''REPLACE_'' password)
           ''POSTGRES_PASSWORD must be a non-placeholder value of at least 16 characters''
       @ (case urlparse url of
            None \<Rightarrow> [''DATABASE_URL is invalid'']
          | Some (pw, host) \<Rightarrow>
              demand (pw = Some password) ''DATABASE_URL password must match POSTGRES_PASSWORD''
              @ demand (host = Some ''db'') ''Pilot production DATABASE_URL host must be db'')
       @ demand (env_get e ''DEV_OTP'' [] = []) ''DEV_OTP must be empty in production'')"

text \<open>The names of the web client's three public Firebase values.\<close>

definition FIREBASE_WEB :: "string list" where
  "FIREBASE_WEB = [''NEXT_PUBLIC_FIREBASE_API_KEY'', ''NEXT_PUBLIC_FIREBASE_AUTH_DOMAIN'', ''NEXT_PUBLIC_FIREBASE_APP_ID'']"

definition auth_of :: "env \<Rightarrow> string" where
  "auth_of e = ascii_lower (trimmed e ''AUTH_PROVIDER'')"

definition auth_errors :: "env \<Rightarrow> string list" where
  "auth_errors e =
     demand (auth_of e \<in> {''firebase'', ''local_otp'', ''msg91_widget''})
       ''AUTH_PROVIDER must be firebase, local_otp or msg91_widget''
     @ (if auth_of e = ''firebase'' then
          demand (filled (trimmed e ''FIREBASE_PROJECT_ID'')) ''FIREBASE_PROJECT_ID is required for Firebase authentication''
          @ demand (filled (trimmed e ''FIREBASE_SERVICE_ACCOUNT_JSON_B64''))
              ''FIREBASE_SERVICE_ACCOUNT_JSON_B64 is required for Firebase authentication''
          @ concat (map (\<lambda>k. demand (filled (trimmed e k)) (k @ '' is required for Firebase web authentication'')) FIREBASE_WEB)
        else [])
     @ (if auth_of e = ''msg91_widget'' then
          demand (filled (if trimmed e ''MSG91_AUTH_KEY'' \<noteq> [] then trimmed e ''MSG91_AUTH_KEY''
              else trimmed e ''MSG91_WIDGET_AUTH_KEY''))
            ''MSG91_AUTH_KEY is required for MSG91 widget authentication''
        else [])"

definition sms_of :: "env \<Rightarrow> string" where
  "sms_of e = ascii_lower (strip (env_get e ''SMS_PROVIDER'' ''none''))"

definition sms_enabled_raw :: "env \<Rightarrow> string" where
  "sms_enabled_raw e = ascii_lower (strip (env_get e ''SMS_AUTH_ENABLED'' ''true''))"

definition sms_enabled :: "env \<Rightarrow> bool" where
  "sms_enabled e \<longleftrightarrow> sms_enabled_raw e \<in> {''true'', ''1'', ''yes''}"

definition sms_errors :: "env \<Rightarrow> string list" where
  "sms_errors e =
     (let direct = trimmed e ''NEXT_PUBLIC_DIRECT_OTP_ENABLED''
      in demand (sms_of e \<in> {''none'', ''msg91''}) ''SMS_PROVIDER must be none or msg91''
       @ demand (sms_enabled_raw e \<in> {''true'', ''false'', ''1'', ''0'', ''yes'', ''no''}) ''SMS_AUTH_ENABLED must be true or false''
       @ (if direct \<notin> {''true'', ''false''} then [''NEXT_PUBLIC_DIRECT_OTP_ENABLED must be true or false'']
          else demand ((direct = ''true'') = (auth_of e = ''local_otp'' \<and> sms_enabled e))
            ''NEXT_PUBLIC_DIRECT_OTP_ENABLED must match AUTH_PROVIDER=local_otp with SMS_AUTH_ENABLED=true'')
       @ demand (sms_enabled e \<longrightarrow> sms_of e = ''msg91'') ''SMS_PROVIDER must be msg91 when SMS_AUTH_ENABLED=true''
       @ (if sms_enabled e \<and> sms_of e = ''msg91'' then
            demand (filled (trimmed e ''MSG91_AUTH_KEY'')) ''MSG91_AUTH_KEY is required when SMS_PROVIDER=msg91''
            @ demand (filled (trimmed e ''MSG91_TEMPLATE_ID'')) ''MSG91_TEMPLATE_ID is required when SMS_PROVIDER=msg91''
          else []))"

definition email_errors :: "env \<Rightarrow> string list" where
  "email_errors e =
     (let email = env_get e ''ACME_EMAIL'' []
      in demand (CHR ''@'' \<in> set email \<and> \<not> ends ''@example.com'' email)
           ''ACME_EMAIL must be a real operational email address'')"

text \<open>\<open>main\<close>: the exit status and the errors it prints; the file is None when it is missing.\<close>

definition validate_env ::
  "(string \<Rightarrow> (string option \<times> string option) option) \<Rightarrow> string list option \<Rightarrow> int \<times> string list" where
  "validate_env urlparse file =
     (case file of
        None \<Rightarrow> (1, [''ERROR: .env.production is missing. Copy .env.production.example first.''])
      | Some lines \<Rightarrow>
          let e = load_env lines;
              errors = site_errors e @ secret_errors urlparse e @ auth_errors e @ sms_errors e @ email_errors e
          in (if errors = [] then 0 else 1, errors))"

section \<open>The process's settings\<close>

definition parse_bool :: "string \<Rightarrow> bool option" where
  "parse_bool v =
     (if ascii_lower v \<in> {''1'', ''on'', ''t'', ''true'', ''y'', ''yes''} then Some True
      else if ascii_lower v \<in> {''0'', ''off'', ''f'', ''false'', ''n'', ''no''} then Some False else None)"

text \<open>\<open>AliasChoices\<close>: the first name that is set.\<close>

definition reads :: "env \<Rightarrow> config \<Rightarrow> bool" where
  "reads e c \<longleftrightarrow> cfg_app_env c = env_get e ''APP_ENV'' ''development''
     \<and> parse_bool (env_get e ''APP_DEBUG'' ''true'') = Some (cfg_app_debug c)
     \<and> cfg_secret_key c = env_get e ''SECRET_KEY'' ''change-this-in-production''
     \<and> cfg_dev_otp c = env_get e ''DEV_OTP'' ''123456''
     \<and> cfg_auth_provider c = env_get e ''AUTH_PROVIDER'' ''local_otp''
     \<and> cfg_sms_provider c = env_get e ''SMS_PROVIDER'' ''none''
     \<and> parse_bool (env_get e ''SMS_AUTH_ENABLED'' ''true'') = Some (cfg_sms_auth_enabled c)
     \<and> cfg_msg91_auth_key c = (case map_of e ''MSG91_AUTH_KEY'' of
          None \<Rightarrow> map_of e ''MSG91_WIDGET_AUTH_KEY'' | Some k \<Rightarrow> Some k)
     \<and> cfg_msg91_template_id c = map_of e ''MSG91_TEMPLATE_ID''
     \<and> cfg_firebase_project_id c = map_of e ''FIREBASE_PROJECT_ID''
     \<and> cfg_firebase_service_account c = map_of e ''FIREBASE_SERVICE_ACCOUNT_JSON_B64''
     \<and> cfg_fcm_project_id c = map_of e ''FCM_PROJECT_ID''
     \<and> cfg_fcm_service_account c = map_of e ''FCM_SERVICE_ACCOUNT_JSON_B64''
     \<and> cfg_product_media_enabled c = False \<and> cfg_media_storage_backend c = ''local''
     \<and> cfg_media_scan_provider c = ''disabled''"

text \<open>The settings the check says nothing about and the application refuses: numeric limits.\<close>

definition limits_positive :: "config \<Rightarrow> bool" where
  "limits_positive c \<longleftrightarrow> 0 \<le> coeff (cfg_default_delivery_fee c)
     \<and> list_all (\<lambda>n. 0 < n) [cfg_banner_regen_max_requests c, cfg_banner_regen_window_seconds c,
         cfg_banner_job_max_attempts c, cfg_banner_job_lease_seconds c, cfg_banner_job_batch c,
         cfg_media_upload_max_bytes c, cfg_media_image_max_width c, cfg_media_image_max_height c,
         cfg_media_image_max_pixels c, cfg_media_image_max_per_listing c, cfg_media_job_batch c,
         cfg_media_job_max_attempts c, cfg_media_job_lease_seconds c, cfg_media_retention_seconds c]"

section \<open>What passing means\<close>

lemma demand_Nil [simp]: "demand good m = [] \<longleftrightarrow> good"
  by (simp add: demand_def)

lemma is_space_lower:
  "is_space (if 65 \<le> (of_char c :: nat) \<and> (of_char c :: nat) \<le> 90 then char_of (of_char c + 32 :: nat) else c) = is_space c"
proof (cases "65 \<le> (of_char c :: nat) \<and> (of_char c :: nat) \<le> 90")
  case True
  define n where "n = (of_char c :: nat)"
  have "(of_char (char_of (n + 32 :: nat)) :: nat) = n + 32" using True by (simp add: n_def)
  then show ?thesis using True by (auto simp: is_space_def n_def [symmetric])
next
  case False
  then show ?thesis by (simp only: if_False)
qed

lemma ascii_lower_dropWhile: "dropWhile is_space (ascii_lower s) = ascii_lower (dropWhile is_space s)"
  by (simp only: ascii_lower_def dropWhile_map comp_def is_space_lower)

lemma strip_ascii_lower: "strip (ascii_lower s) = ascii_lower (strip s)"
proof -
  have "rev (ascii_lower t) = ascii_lower (rev t)" for t by (simp add: ascii_lower_def rev_map)
  then show ?thesis by (simp add: strip_def ascii_lower_dropWhile)
qed

lemma strip_Nil [simp]: "strip [] = []"
  by (simp add: strip_def)

lemma filled_present: "filled (trimmed e name) \<Longrightarrow> present (map_of e name)"
  by (auto simp: filled_def trimmed_def env_get_def present_def text_or_none_def split: option.splits)

lemma filled_set: "filled (trimmed e name) \<Longrightarrow> map_of e name \<noteq> None"
  by (auto simp: filled_def trimmed_def env_get_def split: option.splits)

lemma choice_ok: "ascii_lower (strip v) \<in> set allowed \<Longrightarrow> choice allowed m v = Inr (ascii_lower (strip v))"
  by (simp add: choice_def strip_ascii_lower)

lemma env_get_filled: "env_get e name [] \<noteq> [] \<Longrightarrow> env_get e name fallback = env_get e name []"
  by (simp add: env_get_def split: option.splits)

lemma site_errors_Nil:
  "site_errors e = [] \<Longrightarrow> env_get e ''APP_ENV'' [] = ''production'' \<and> ascii_lower (env_get e ''APP_DEBUG'' []) \<in> {''false'', ''0'', ''no''}"
  by (simp add: site_errors_def Let_def)

lemma secret_errors_Nil:
  "secret_errors urlparse e = [] \<Longrightarrow> 32 \<le> utf8_length (env_get e ''SECRET_KEY'' [])
     \<and> env_get e ''SECRET_KEY'' [] \<noteq> ''change-this-in-production'' \<and> env_get e ''DEV_OTP'' [] = []"
  by (simp add: secret_errors_def Let_def)

lemma auth_errors_Nil:
  "auth_errors e = [] \<Longrightarrow> auth_of e \<in> {''firebase'', ''local_otp'', ''msg91_widget''} \<and> (auth_of e = ''firebase'' \<longrightarrow>
     present (map_of e ''FIREBASE_PROJECT_ID'') \<and> present (map_of e ''FIREBASE_SERVICE_ACCOUNT_JSON_B64''))"
  by (simp add: auth_errors_def filled_present split: if_splits)

lemma sms_errors_Nil:
  "sms_errors e = [] \<Longrightarrow> sms_of e \<in> {''none'', ''msg91''}
     \<and> sms_enabled_raw e \<in> {''true'', ''false'', ''1'', ''0'', ''yes'', ''no''} \<and> (sms_enabled e \<longrightarrow> sms_of e = ''msg91''
     \<and> present (map_of e ''MSG91_AUTH_KEY'') \<and> present (map_of e ''MSG91_TEMPLATE_ID''))"
  by (auto simp add: sms_errors_def Let_def filled_present)

lemma parse_false: "ascii_lower v \<in> {''false'', ''0'', ''no''} \<Longrightarrow> parse_bool v = Some False"
  by (auto simp: parse_bool_def)

lemma readsD:
  assumes "reads e c"
  shows "cfg_app_env c = env_get e ''APP_ENV'' ''development''"
    and "parse_bool (env_get e ''APP_DEBUG'' ''true'') = Some (cfg_app_debug c)"
    and "cfg_secret_key c = env_get e ''SECRET_KEY'' ''change-this-in-production''"
    and "cfg_dev_otp c = env_get e ''DEV_OTP'' ''123456''"
    and "cfg_auth_provider c = env_get e ''AUTH_PROVIDER'' ''local_otp''"
    and "cfg_sms_provider c = env_get e ''SMS_PROVIDER'' ''none''"
    and "parse_bool (env_get e ''SMS_AUTH_ENABLED'' ''true'') = Some (cfg_sms_auth_enabled c)"
    and "cfg_msg91_auth_key c = (case map_of e ''MSG91_AUTH_KEY'' of
          None \<Rightarrow> map_of e ''MSG91_WIDGET_AUTH_KEY'' | Some k \<Rightarrow> Some k)"
    and "cfg_msg91_template_id c = map_of e ''MSG91_TEMPLATE_ID''"
    and "cfg_firebase_project_id c = map_of e ''FIREBASE_PROJECT_ID''"
    and "cfg_firebase_service_account c = map_of e ''FIREBASE_SERVICE_ACCOUNT_JSON_B64''"
    and "cfg_fcm_project_id c = map_of e ''FCM_PROJECT_ID''"
    and "cfg_fcm_service_account c = map_of e ''FCM_SERVICE_ACCOUNT_JSON_B64''"
    and "cfg_product_media_enabled c = False" and "cfg_media_storage_backend c = ''local''"
    and "cfg_media_scan_provider c = ''disabled''"
  using assms unfolding reads_def by blast+

lemma sms_enabled_read:
  assumes "parse_bool (env_get e ''SMS_AUTH_ENABLED'' ''true'') = Some True"
    and "sms_enabled_raw e \<in> {''true'', ''false'', ''1'', ''0'', ''yes'', ''no''}"
  shows "sms_enabled e"
proof -
  let ?v = "ascii_lower (env_get e ''SMS_AUTH_ENABLED'' ''true'')"
  have v: "?v \<in> {''1'', ''on'', ''t'', ''true'', ''y'', ''yes''}"
    using assms(1) by (simp add: parse_bool_def split: if_splits)
  then have "strip ?v = ?v" by (elim insertE emptyE) (simp_all only:, code_simp+)
  then have "sms_enabled_raw e = ?v" by (simp add: sms_enabled_raw_def strip_ascii_lower)
  with v assms(2) show ?thesis by (auto simp: sms_enabled_def)
qed

text \<open>
  An environment that passes the check starts the application, in production mode, when \<open>DEV_OTP\<close> is
  set (to nothing) and push is not configured.
\<close>

lemma validated_env_loads:
  assumes "validate_env urlparse (Some lines) = (0, errors)" and "reads (load_env lines) c" and "limits_positive c"
    and "map_of (load_env lines) ''DEV_OTP'' \<noteq> None"
    and "map_of (load_env lines) ''FCM_PROJECT_ID'' = None" "map_of (load_env lines) ''FCM_SERVICE_ACCOUNT_JSON_B64'' = None"
  shows "\<exists>c1. load_settings c = Inr c1 \<and> cfg_app_env c1 = ''production''"
proof -
  let ?e = "load_env lines"
  have none: "site_errors ?e = []" "secret_errors urlparse ?e = []" "auth_errors ?e = []" "sms_errors ?e = []"
    using assms(1) by (auto simp: validate_env_def Let_def split: if_splits)
  note site = site_errors_Nil [OF none(1)] and secret = secret_errors_Nil [OF none(2)]
    and auth = auth_errors_Nil [OF none(3)] and sms = sms_errors_Nil [OF none(4)]
    and r = readsD [OF assms(2)]
  have env: "env_get ?e ''APP_ENV'' ''development'' = ''production''"
    using site env_get_filled [of ?e "''APP_ENV''" "''development''"] by simp
  have debug: "ascii_lower (env_get ?e ''APP_DEBUG'' ''true'') \<in> {''false'', ''0'', ''no''}"
  proof -
    have "env_get ?e ''APP_DEBUG'' [] \<noteq> []" using site by (auto simp: ascii_lower_def)
    then show ?thesis using site env_get_filled [of ?e "''APP_DEBUG''" "''true''"] by metis
  qed
  have app: "cfg_app_env c = ''production''" "\<not> cfg_app_debug c"
    using r(1,2) env parse_false [OF debug] by simp_all
  have "env_get ?e ''SECRET_KEY'' [] \<noteq> []" using secret by (auto simp: utf8_length_def)
  then have keys: "32 \<le> utf8_length (cfg_secret_key c)" "cfg_secret_key c \<noteq> ''change-this-in-production''"
    using secret r(3) env_get_filled [of ?e "''SECRET_KEY''" "''change-this-in-production''"] by metis+
  have otp: "cfg_dev_otp c = []"
    using secret r(4) assms(4) by (auto simp: env_get_def)
  have "env_get ?e ''AUTH_PROVIDER'' [] \<noteq> []"
    using auth by (auto simp: auth_of_def trimmed_def ascii_lower_def)
  then have a: "ascii_lower (strip (cfg_auth_provider c)) = auth_of ?e"
    using r(5) env_get_filled [of ?e "''AUTH_PROVIDER''" "''local_otp''"] unfolding auth_of_def trimmed_def by metis
  have m: "ascii_lower (strip (cfg_sms_provider c)) = sms_of ?e" using r(6) by (simp only: sms_of_def)
  have enabled: "cfg_sms_auth_enabled c \<Longrightarrow> sms_enabled ?e"
    using r(7) sms sms_enabled_read [of ?e] by simp
  define c1 where "c1 = c\<lparr>cfg_app_env := ''production'', cfg_sms_provider := sms_of ?e, cfg_auth_provider := auth_of ?e,
      cfg_media_storage_backend := ''local'', cfg_media_scan_provider := ''disabled''\<rparr>"
  have "normalised_fields c = Inr c1"
  proof -
    have "choice [''none'', ''msg91''] w (cfg_sms_provider c) = Inr (sms_of ?e)" for w
      using choice_ok [of "cfg_sms_provider c"] m sms by simp
    moreover have "choice [''firebase'', ''local_otp'', ''msg91_widget''] w (cfg_auth_provider c) = Inr (auth_of ?e)" for w
      using choice_ok [of "cfg_auth_provider c"] a auth by simp
    moreover have "choice [''development'', ''test'', ''staging'', ''production''] w ''production'' = Inr ''production''"
      "choice [''local'', ''s3''] w ''local'' = Inr ''local''" "choice [''disabled'', ''http''] w ''disabled'' = Inr ''disabled''" for w
      by (simp_all add: choice_def ascii_lower_def strip_def is_space_def)
    ultimately show ?thesis
      using assms(3) app(1) r(15,16)
      by (simp add: normalised_fields_def res_bind_def limits_positive_def refuse_def c1_def not_le not_less)
  qed
  moreover have "validate_production_safety c1 = Inr ()"
  proof -
    have firebase: "auth_of ?e \<noteq> ''firebase'' \<or> present (cfg_firebase_project_id c) \<and> present (cfg_firebase_service_account c)"
      using auth r(10,11) by metis
    have codes: "\<not> cfg_sms_auth_enabled c \<or> sms_of ?e = ''msg91'' \<and> present (cfg_msg91_auth_key c) \<and> present (cfg_msg91_template_id c)"
    proof (cases "cfg_sms_auth_enabled c")
      case True
      then have "sms_of ?e = ''msg91''" "present (map_of ?e ''MSG91_AUTH_KEY'')" "present (map_of ?e ''MSG91_TEMPLATE_ID'')"
        using sms enabled by blast+
      then show ?thesis using r(8,9) by (cases "map_of ?e ''MSG91_AUTH_KEY''") (simp_all add: present_def text_or_none_def)
    qed simp
    have push: "\<not> present (cfg_fcm_project_id c)" "\<not> present (cfg_fcm_service_account c)"
      using r(12,13) assms(5,6) by (simp_all add: present_def text_or_none_def)
    show ?thesis
      unfolding validate_production_safety_def all_ok_Inr
      using app(2) keys otp push firebase codes
      by (elim disjE) (simp_all add: deployed_def c1_def r(14) not_less)
  qed
  ultimately show ?thesis by (auto simp: load_settings_def res_bind_def c1_def)
qed

end
