(* ===== verification/Deploy_Properties.thy ===== *)
theory Deploy_Properties
  imports Deploy Account_Properties
begin

text \<open>What the check of the production environment guarantees, and what it misses.\<close>


definition demo_lines :: "string list" where
  "demo_lines =
     [''# production'', ''APP_ENV=production'', ''APP_DEBUG=false'', ''DOMAIN='' @ [CHR 0x22] @ ''g.in'' @ [CHR 0x22], ''PUBLIC_BASE_URL=https://g.in'',
      ''CORS_ORIGINS=https://g.in, https://www.g.in'', ''TRUSTED_HOSTS=g.in'', ''SECRET_KEY='' @ replicate 32 CHR ''k'',
      ''POSTGRES_PASSWORD='' @ replicate 16 CHR ''p'', ''DATABASE_URL=postgresql+psycopg://u:p@db/g'',
      ''AUTH_PROVIDER=local_otp'', ''SMS_PROVIDER=msg91'', ''SMS_AUTH_ENABLED=true'', ''NEXT_PUBLIC_DIRECT_OTP_ENABLED=true'',
      ''MSG91_AUTH_KEY=a'', ''MSG91_TEMPLATE_ID=t'', ''ACME_EMAIL=ops@g.in'']"

definition demo_urlparse :: "string \<Rightarrow> (string option \<times> string option) option" where
  "demo_urlparse url = (if url = ''postgresql://u:p@db/g'' then Some (Some (replicate 16 CHR ''p''), Some ''db'') else None)"

lemma demo_lines_pass:
  "validate_env demo_urlparse (Some demo_lines) = (0, [])"
  "validate_env demo_urlparse (Some (''DEV_OTP='' # demo_lines)) = (0, [])"
  by code_simp+


text \<open>
  The check takes a missing \<open>DEV_OTP\<close> for an empty one, but the application then has the default
  \<open>123456\<close> and refuses to start; it does not look at the push settings at all.
\<close>

lemma missing_dev_otp_refused:
  "validate_env demo_urlparse (Some demo_lines) = (0, [])
    \<and> reads (load_env demo_lines) (demo_production\<lparr>cfg_dev_otp := ''123456''\<rparr>)
    \<and> load_settings (demo_production\<lparr>cfg_dev_otp := ''123456''\<rparr>)
        = Inl (ValueError ''DEV_OTP must be empty outside development/test'')"
proof (intro conjI)
  show "reads (load_env demo_lines) (demo_production\<lparr>cfg_dev_otp := ''123456''\<rparr>)" by code_simp
  show "load_settings (demo_production\<lparr>cfg_dev_otp := ''123456''\<rparr>)
        = Inl (ValueError ''DEV_OTP must be empty outside development/test'')" by code_simp
qed (rule demo_lines_pass(1))

lemma lone_push_project_refused:
  "fst (validate_env demo_urlparse (Some (''FCM_PROJECT_ID=f'' # ''DEV_OTP='' # demo_lines))) = 0
    \<and> reads (load_env (''FCM_PROJECT_ID=f'' # ''DEV_OTP='' # demo_lines)) (demo_production\<lparr>cfg_fcm_project_id := Some ''f''\<rparr>)
    \<and> load_settings (demo_production\<lparr>cfg_fcm_project_id := Some ''f''\<rparr>)
        = Inl (ValueError ''FCM_PROJECT_ID and FCM_SERVICE_ACCOUNT_JSON_B64 must be configured together'')"
  by (intro conjI) code_simp+

end
