(* ===== verification/Order_Reads.thy ===== *)
theory Order_Reads
  imports Checkout Dispatch Admin_Ops
begin

text \<open>
  The read endpoints of \<open>routes/orders.py\<close>: the customer's and the merchant's orders and the detail
  of one order with its items, delivery and destination. Lemmas: who is shown an order, and that the
  destination of an order placed with a snapshot does not follow later changes of the address book.
\<close>

definition newest_first :: "order list \<Rightarrow> order list" where
  "newest_first os = rev (sort_key ord_created_at os)"

definition my_orders :: "int \<Rightarrow> int \<Rightarrow> user \<Rightarrow> 'm database_scheme \<Rightarrow> order list res" where
  "my_orders limit offset u d =
     (if \<not> valid_page 200 limit offset then Inl (HTTPException 422 ''limit'')
      else Inr (page limit offset (newest_first (filter (\<lambda>o1. ord_user_id o1 = usr_id u) (orders d)))))"

definition merchant_orders :: "int \<Rightarrow> int \<Rightarrow> user \<Rightarrow> 'm database_scheme \<Rightarrow> order list res" where
  "merchant_orders limit offset u d =
     res_bind (require_roles [MERCHANT, ADMIN] u) (\<lambda>_.
     if \<not> valid_page 200 limit offset then Inl (HTTPException 422 ''limit'')
     else if usr_role u = ADMIN
     then res_bind (ensure_capability u ORDER_READ) (\<lambda>_. Inr (page limit offset (newest_first (orders d))))
     else (case merchant_of_owner d (usr_id u) of
         None \<Rightarrow> Inl (HTTPException 404 ''Merchant profile not found'')
       | Some m \<Rightarrow>
           let mine = map sto_id (filter (\<lambda>s. sto_merchant_id s = mer_id m) (stores d))
           in Inr (page limit offset (newest_first (filter (\<lambda>o1. ord_store_id o1 \<in> set mine) (orders d))))))"

section \<open>One order\<close>

record delivery_summary =
  dsm_id :: uuid
  dsm_delivery_partner_id :: "uuid option"
  dsm_status :: delivery_status
  dsm_assigned_at :: "timestamp option"
  dsm_picked_up_at :: "timestamp option"
  dsm_delivered_at :: "timestamp option"

record order_detail_read =
  odt_order :: order
  odt_store_name :: string
  odt_store_phone :: "string option"
  odt_store_landmark :: "string option"
  odt_recipient_name :: "string option"
  odt_recipient_phone :: "string option"
  odt_house_details :: "string option"
  odt_customer_landmark :: string
  odt_customer_directions :: "string option"
  odt_items :: "order_item list"
  odt_delivery :: "delivery_summary option"

text \<open>\<open>getattr(address, name, None)\<close> for the five names asked for.\<close>

definition address_field :: "address \<Rightarrow> string \<Rightarrow> string option" where
  "address_field a name =
     (if name = ''recipient_name'' then adr_recipient_name a
      else if name = ''phone'' then adr_phone a
      else if name = ''house_details'' then adr_house_details a
      else if name = ''landmark'' then Some (adr_landmark a)
      else if name = ''directions'' then adr_directions a else None)"

text \<open>The inner function \<open>field\<close>: a value of the snapshot that is no text is null.\<close>

definition field_of :: "dict \<Rightarrow> address option \<Rightarrow> string \<Rightarrow> string option" where
  "field_of snapshot a name =
     (case map_of snapshot name of
        Some (JStr t) \<Rightarrow> Some t
      | Some _ \<Rightarrow> None
      | None \<Rightarrow> Option.bind a (\<lambda>x. address_field x name))"

definition summary_of :: "delivery \<Rightarrow> delivery_summary" where
  "summary_of x =
     \<lparr>dsm_id = dlv_id x, dsm_delivery_partner_id = dlv_delivery_partner_id x, dsm_status = dlv_status x,
      dsm_assigned_at = dlv_assigned_at x, dsm_picked_up_at = dlv_picked_up_at x, dsm_delivered_at = dlv_delivered_at x\<rparr>"

definition order_detail_read_of :: "'m database_scheme \<Rightarrow> order \<Rightarrow> order_detail_read res" where
  "order_detail_read_of d o1 =
     (let a = get_address d (ord_address_id o1); snapshot = ord_delivery_address o1; f = field_of snapshot a
      in case get_store d (ord_store_id o1) of
           None \<Rightarrow> Inl (HTTPException 409 ''Order references are incomplete'')
         | Some s \<Rightarrow>
             if snapshot = [] \<and> a = None then Inl (HTTPException 409 ''Order references are incomplete'')
             else Inr \<lparr>odt_order = o1, odt_store_name = sto_name s, odt_store_phone = sto_phone s,
               odt_store_landmark = sto_landmark s, odt_recipient_name = f ''recipient_name'',
               odt_recipient_phone = f ''phone'', odt_house_details = f ''house_details'',
               odt_customer_landmark = (case f ''landmark'' of None \<Rightarrow> [] | Some t \<Rightarrow> t),
               odt_customer_directions = f ''directions'',
               odt_items = sort_key oit_id (items_of_order d (ord_id o1)),
               odt_delivery = map_option summary_of (find (\<lambda>x. dlv_order_id x = ord_id o1) (deliveries d))\<rparr>)"

definition order_detail :: "uuid \<Rightarrow> user \<Rightarrow> 'm database_scheme \<Rightarrow> order_detail_read res" where
  "order_detail oid u d =
     (case get_order d oid of
        None \<Rightarrow> Inl (HTTPException 404 ''Order not found'')
      | Some o1 \<Rightarrow>
          if \<not> can_view_order d o1 u then Inl (HTTPException 403 ''You cannot view this order'')
          else order_detail_read_of d o1)"

section \<open>Who sees what\<close>

lemma my_orders_own: "my_orders limit offset u d = Inr os \<Longrightarrow> o1 \<in> set os \<Longrightarrow> o1 \<in> set (orders d) \<and> ord_user_id o1 = usr_id u"
  by (auto simp: my_orders_def page_def newest_first_def dest!: in_set_takeD in_set_dropD split: if_splits)

lemma get_row_inj: "inj_on key (set t) \<Longrightarrow> x \<in> set t \<Longrightarrow> get_row key t (key x) = Some x"
  by (induction t) (auto simp: inj_on_def)

text \<open>A merchant's list holds orders of the own stores, which are the ones whose detail he may open.\<close>

lemma merchant_orders_viewable:
  assumes "merchant_orders limit offset u d = Inr os" and "o1 \<in> set os"
    and "inj_on sto_id (set (stores d))"
  shows "o1 \<in> set (orders d) \<and> can_view_order d o1 u"
proof (cases "usr_role u = ADMIN")
  case True
  then show ?thesis using assms(1,2)
    by (auto simp: merchant_orders_def page_def newest_first_def can_view_order_def res_bind_Inr
        dest!: in_set_takeD in_set_dropD split: if_splits)
next
  case False
  then obtain m s where "o1 \<in> set (orders d)" "merchant_of_owner d (usr_id u) = Some m" "s \<in> set (stores d)"
      "sto_merchant_id s = mer_id m" "ord_store_id o1 = sto_id s" "usr_role u = MERCHANT"
    using assms(1,2)
    by (auto simp: merchant_orders_def page_def newest_first_def res_bind_Inr require_roles_def
        dest!: in_set_takeD in_set_dropD split: if_splits option.splits)
  moreover have "get_store d (sto_id s) = Some s"
    using \<open>s \<in> set (stores d)\<close> assms(3) by (simp add: get_store_def get_row_inj)
  ultimately show ?thesis by (simp add: can_view_order_def)
qed

lemma order_detail_viewer:
  "order_detail oid u d = Inr r \<Longrightarrow> can_view_order d (odt_order r) u \<and> get_order d oid = Some (odt_order r)"
  by (auto simp: order_detail_def order_detail_read_of_def Let_def split: option.splits if_splits)

lemma map_of_snapshot:
  assumes "distinct (map fst kvs)"
  shows "map_of (List.map_filter (\<lambda>(k, v). map_option (Pair k) v) kvs) name = Option.bind (map_of kvs name) (\<lambda>v. v)"
  using assms
  by (induction kvs) (auto simp: map_filter_simps map_of_eq_None_iff [THEN iffD2] split: option.split)

text \<open>
  The destination a checkout froze: what the address had then is what the detail shows, whatever the
  address row is now.
\<close>

lemma snapshot_wins:
  assumes "address_field a name = Some t" and "name \<in> {''recipient_name'', ''phone'', ''house_details'', ''landmark'', ''directions''}"
  shows "field_of (address_snapshot a) b name = Some t"
proof -
  have "map_of (address_snapshot a) name = map_option JStr (address_field a name)"
    unfolding address_snapshot_def by (subst map_of_snapshot) (use assms(2) in \<open>auto simp: address_field_def\<close>)
  then show ?thesis using assms(1) by (simp add: field_of_def)
qed

end
