(* ===== verification/Spec2Isabelle.thy ===== *)
theory Spec2Isabelle
  imports Order_Properties Checkout_Properties Delivery_Properties Money_Properties
    Platform_Properties Account_Properties Media_Properties
    Search_Properties Deploy_Properties Order_Reads
begin

text \<open>
  GaonOne, the backend of a village marketplace (\<open>src/backend/app\<close>): a FastAPI application over
  PostgreSQL. Customers fill carts and check out, merchants keep listings and move orders forward,
  riders claim and deliver them and report where they are, a payment provider captures and refunds
  money, administrators resolve failures and answer tickets, and a worker pushes notifications.

  The database is one record of tables, each a list of rows in insertion order. \<open>Models\<close> has the
  tables of orders, money, the catalogue, geography and users; \<open>Platform\<close> extends that record with
  banners, tracking, external identities and support, and \<open>Media\<close> with product images, so that a
  handler of the core works on all of them.
  A handler is a function from the request's inputs and the database to a result, a value or an
  error, and the database it committed; an error returns the database as it was unless the code
  commits first. Time, generated numbers, HTTP exchanges with providers, HMAC and SHA-256, the JSON
  and float parsers, PostGIS, Redis and row locks held by other transactions are arguments. A
  lookup that races with a concurrent insert is a flag: it says whether the row was seen.

  The theories, in import order:

  \<^item> \<open>Prelude\<close>, \<open>Interfaces\<close>, \<open>Decimals\<close>: rows and tables, the shared locales, decimal arithmetic;
  \<^item> \<open>Models\<close>, \<open>Access\<close>, \<open>Lifecycle\<close>: the tables (\<open>models/\<close>), capabilities and guards
    (\<open>core/capabilities.py\<close>, \<open>api/deps.py\<close>), the two status machines, audit triggers;
  \<^item> \<open>Inventory\<close>, \<open>Settlements\<close>, \<open>Refunds\<close>: prices, stock, opening hours, the merchant's
    entitlement, refund obligations and their dispatch (\<open>services/\<close>);
  \<^item> \<open>Coherence\<close>: the abstract machine of one order and its invariant;
  \<^item> \<open>Order_Ops\<close>, \<open>Spatial\<close>, \<open>Checkout\<close>, \<open>Delivery_Ops\<close>, \<open>Dispatch\<close>, \<open>Payments\<close>: the handlers
    of \<open>routes/orders.py\<close>, \<open>order_mutations.py\<close>, \<open>checkout.py\<close>, \<open>reorder.py\<close>,
    \<open>delivery_operations.py\<close>, \<open>delivery_financials.py\<close>, \<open>delivery_tasks.py\<close>, \<open>dispatch.py\<close>,
    \<open>payments.py\<close> and \<open>payment_hardening.py\<close>, including the routes that others shadow;
  \<^item> \<open>Frames\<close>, \<open>Riders\<close>, \<open>Shelf\<close>, \<open>Proofs\<close>: the invariants that span handlers;
  \<^item> \<open>Admin_Ops\<close>: \<open>routes/admin.py\<close>, \<open>admin_merchant_details.py\<close>: users and their access, manual
    assignment, failed deliveries and the operators' summaries;
  \<^item> \<open>System\<close>: every handler above as a step \<open>live_step\<close> of the running backend and what holds of
    every reachable database;
  \<^item> \<open>Platform\<close>, \<open>Surroundings\<close>: the remaining tables and settings, and what orders leave alone;
  \<^item> \<open>Banners\<close>: \<open>services/store_banners.py\<close>, \<open>routes/store_banners.py\<close>: the template generator,
    the job queue with its leases and attempts, acceptance and moderation;
  \<^item> \<open>Catalogue\<close>: \<open>routes/commerce.py\<close>: merchants, stores, categories, products and listings;
  \<^item> \<open>Rate_Limits\<close>, \<open>Accounts\<close>, \<open>Config\<close>: \<open>services/rate_limit.py\<close>, \<open>otp.py\<close>, the logins of
    \<open>routes/auth.py\<close>, onboarding, \<open>core/phone.py\<close> and the validators of \<open>core/config.py\<close>;
  \<^item> \<open>Geography\<close>, \<open>Push\<close>, \<open>Tracking\<close>, \<open>Support\<close>: addresses, villages and \<open>services/places.py\<close>;
    \<open>services/fcm.py\<close> and device registrations; the two location recorders, the tracking views and
    \<open>services/maps.py\<close> with its cache; \<open>routes/support.py\<close> and triage;
  \<^item> \<open>Companions\<close>, \<open>Platform_System\<close>: what these components leave alone of one another, every
    operation of theirs together with \<open>live_step\<close> as a step \<open>platform_step\<close>, and the invariant of
    every reachable state of the platform;
  \<^item> \<open>Media\<close>, \<open>Media_Ops\<close>, \<open>Media_System\<close>: product images (\<open>services/product_media*.py\<close>,
    \<open>routes/media.py\<close>): the two storage adapters, inspection, publication, the leased job queue, and
    uploads and workers interleaved as \<open>media_step\<close>, with what holds of every reachable state;
  \<^item> \<open>Discovery\<close>: \<open>routes/discovery.py\<close>, \<open>store_discovery.py\<close>, \<open>substitutions.py\<close>: search,
    suggestions and ranking; \<open>Order_Reads\<close>: the read endpoints of \<open>routes/orders.py\<close>;
  \<^item> \<open>Deploy\<close>: \<open>deploy/validate_env.py\<close> and how the settings are read from the same variables;
  \<^item> \<open>Demo\<close>, \<open>Platform_Demo\<close>: a concrete marketplace and runs of it, for the witnesses;
  \<^item> the theories named \<open>_Properties\<close>: the properties, each a few steps over the lemmas above.

  Interfaces. \<open>row_store\<close> is the contract of a table with a primary key, interpreted for the tables
  that handlers look up and write back; \<open>lifecycle\<close> and \<open>ranked_lifecycle\<close> that of a transition table
  with final states (orders, deliveries); \<open>once_ledger\<close> that of a row created once per key;
  \<open>retry_queue\<close> that of work whose failures are counted (refunds, notifications). \<open>untouched\<close> and its extensions in
  \<open>Frames\<close> say that a component leaves a part of the database alone; \<open>object_storage\<close> is what the
  image worker relies on in a storage, local or S3. Each is interpreted on the
  definitions of the code.

  Fuel and bounds. Loops run over lists and need no fuel; the dispatch worker, the push worker and
  the banner worker run over the batch they selected. Identifiers are natural numbers above every
  one that is used, timestamps are microseconds, amounts of money are paise with the rounding of
  \<open>Decimal.quantize\<close> written out, coordinates and distances are rationals. Text of support tickets
  and phone numbers is a list of code points, elsewhere it is a string of HOL characters.

  Not modelled:

  \<^item> floating point: scores, distances and coordinates are rationals, so a result that depends on the
    last bit of a float may differ;
  \<^item> of product media: the signature of a bucket request, which is part of the exchange, symbolic links
    and disk errors of the local adapter, and the in-memory adapters of the tests;
  \<^item> \<open>routes/health.py\<close>, middleware, logging, the loop of \<open>scripts/worker.py\<close> around the queues, the seed and
    maintenance scripts, migrations other than the status triggers, and the web and mobile front ends;
  \<^item> \<open>updated_at\<close> columns, which the database maintains, and the 32-bit width of integer columns:
    a write that leaves it fails in PostgreSQL.
\<close>

end
